(* ===== verification/Prelude.thy ===== *)
theory Prelude
  imports Main "HOL-Library.Multiset"
begin

text \<open>
  The prelude of the development: the error monad in which every fallible operation of the
  Runner is written, the JavaScript string, regular-expression, sorting and \<open>Set\<close> idioms the
  sources use, SQL-like tables keyed by one column, and the fact collections the component
  theories share.

  A JavaScript string is a list of characters whose codes are its UTF-16 code units; the model
  covers code units up to 255.  A time is the number of milliseconds since the epoch, as
  \<open>Date.parse\<close> returns it.  Every ISO string the store writes comes from \<open>toISOString\<close>, for which
  the string order used by the SQL text comparisons is the numeric order used here.
\<close>

subsection \<open>Fact collections\<close>

named_theorems monad_simps \<open>the laws of the error monad\<close>
named_theorems table_simps \<open>lookup after an insert or an update of a keyed table\<close>
named_theorems store_frame \<open>the parts of the store an operation leaves alone\<close>

subsection \<open>Errors as values\<close>

text \<open>
  The exceptions of the sources: \<open>ProposalStoreError\<close> and \<open>PrivacyBoundaryError\<close> carry their code
  (the message is not modelled), \<open>ZodError\<close> the messages of the issues, \<open>TypeError\<close> is the
  rejection of the canonical serializer and \<open>SqliteError\<close> a constraint violation.  The authoring path
  throws \<open>McpRuntimeError\<close> with its code.  The database
  adapters throw \<open>PlainError\<close>, an \<open>Error\<close> with its message, and \<open>OutcomeUnknown\<close>; a driver throws
  \<open>DbError\<close> with its code and message.
\<close>

datatype err =
    ProposalStoreError string
  | PrivacyBoundaryError string
  | ZodError "string list"
  | TypeError
  | SqliteError string
  | PlainError string
  | DbError string string
  | OutcomeUnknown
  | McpRuntimeError string

type_synonym 'a result = "err + 'a"
type_synonym time = int

definition bindE :: "'a result \<Rightarrow> ('a \<Rightarrow> 'b result) \<Rightarrow> 'b result" where
  "bindE m f = (case m of Inl e \<Rightarrow> Inl e | Inr x \<Rightarrow> f x)"

definition throwIf :: "bool \<Rightarrow> err \<Rightarrow> unit result" where
  "throwIf c e = (if c then Inl e else Inr ())"

definition mapE :: "('a \<Rightarrow> 'b) \<Rightarrow> 'a result \<Rightarrow> 'b result" where
  "mapE f m = bindE m (\<lambda>x. Inr (f x))"

definition requireSome :: "err \<Rightarrow> 'a option \<Rightarrow> 'a result" where
  "requireSome e m = (case m of None \<Rightarrow> Inl e | Some x \<Rightarrow> Inr x)"

fun traverseE :: "('a \<Rightarrow> 'b result) \<Rightarrow> 'a list \<Rightarrow> 'b list result" where
  "traverseE f [] = Inr []"
| "traverseE f (x # xs) = bindE (f x) (\<lambda>y. bindE (traverseE f xs) (\<lambda>ys. Inr (y # ys)))"

fun foldE :: "('a \<Rightarrow> 's \<Rightarrow> 's result) \<Rightarrow> 'a list \<Rightarrow> 's \<Rightarrow> 's result" where
  "foldE f [] s = Inr s"
| "foldE f (x # xs) s = bindE (f x s) (foldE f xs)"

lemma bindE_Inl [simp, monad_simps]: "bindE (Inl e) f = Inl e"
  by (simp add: bindE_def)

lemma bindE_Inr [simp, monad_simps]: "bindE (Inr x) f = f x"
  by (simp add: bindE_def)

lemma bindE_eq_Inr [monad_simps]: "bindE m f = Inr y \<longleftrightarrow> (\<exists>x. m = Inr x \<and> f x = Inr y)"
  by (cases m) simp_all

lemma bindE_eq_Inl: "bindE m f = Inl e \<longleftrightarrow> m = Inl e \<or> (\<exists>x. m = Inr x \<and> f x = Inl e)"
  by (cases m) simp_all

lemma bindE_cong [fundef_cong]:
  "m = n \<Longrightarrow> (\<And>x. n = Inr x \<Longrightarrow> f x = g x) \<Longrightarrow> bindE m f = bindE n g"
  by (cases n) simp_all

lemma throwIf_eq_Inr [simp, monad_simps]: "throwIf c e = Inr u \<longleftrightarrow> \<not> c"
  by (simp add: throwIf_def)

lemma throwIf_eq_Inl [simp]: "throwIf c e = Inl e' \<longleftrightarrow> c \<and> e' = e"
  by (auto simp: throwIf_def)

lemma throwIf_True [simp]: "throwIf True e = Inl e"
  and throwIf_False [simp]: "throwIf False e = Inr ()"
  by (simp_all add: throwIf_def)

lemma mapE_Inl [simp, monad_simps]: "mapE f (Inl e) = Inl e"
  and mapE_Inr [simp, monad_simps]: "mapE f (Inr x) = Inr (f x)"
  by (simp_all add: mapE_def)

lemma mapE_eq_Inr [monad_simps]: "mapE f m = Inr y \<longleftrightarrow> (\<exists>x. m = Inr x \<and> y = f x)"
  by (auto simp: mapE_def bindE_eq_Inr)

lemma requireSome_eq_Inr [simp, monad_simps]: "requireSome e m = Inr x \<longleftrightarrow> m = Some x"
  by (cases m) (simp_all add: requireSome_def)

lemma requireSome_Some [simp]: "requireSome e (Some x) = Inr x"
  and requireSome_None [simp]: "requireSome e None = Inl e"
  by (simp_all add: requireSome_def)

lemma traverseE_map_Inr: "traverseE (\<lambda>x. Inr (f x)) xs = Inr (map f xs)"
  by (induction xs) simp_all

lemma traverseE_length: "traverseE f xs = Inr ys \<Longrightarrow> length ys = length xs"
  by (induction xs arbitrary: ys) (auto simp: bindE_eq_Inr)

lemma traverseE_units: "(\<And>x. x \<in> set xs \<Longrightarrow> f x = Inr ()) \<Longrightarrow> \<exists>us. traverseE f xs = Inr us"
  by (induction xs) auto

lemma traverseE_member: "traverseE f xs = Inr ys \<Longrightarrow> y \<in> set ys \<Longrightarrow> \<exists>x \<in> set xs. f x = Inr y"
  by (induction xs arbitrary: ys) (auto simp: bindE_eq_Inr)

lemma traverseE_each: "traverseE f xs = Inr ys \<Longrightarrow> x \<in> set xs \<Longrightarrow> \<exists>y \<in> set ys. f x = Inr y"
  by (induction xs arbitrary: ys) (auto simp: bindE_eq_Inr)

lemma foldE_invariant:
  assumes "\<And>x s t. x \<in> set xs \<Longrightarrow> P s \<Longrightarrow> f x s = Inr t \<Longrightarrow> P t"
    and "P s" and "foldE f xs s = Inr t"
  shows "P t"
  using assms by (induction xs arbitrary: s) (auto simp: bindE_eq_Inr)

subsection \<open>Numbers\<close>

definition MAX_SAFE_INTEGER :: int where
  "MAX_SAFE_INTEGER = 9007199254740991"

definition isSafeInteger :: "int \<Rightarrow> bool" where
  "isSafeInteger n \<longleftrightarrow> - MAX_SAFE_INTEGER \<le> n \<and> n \<le> MAX_SAFE_INTEGER"

text \<open>\<open>Math.max(lo, Math.min(x, hi))\<close>, the idiom by which the sources bound every option.\<close>

definition clampTo :: "int \<Rightarrow> int \<Rightarrow> int \<Rightarrow> int" where
  "clampTo lo hi x = max lo (min x hi)"

lemma clampTo_bounds: "lo \<le> hi \<Longrightarrow> lo \<le> clampTo lo hi x \<and> clampTo lo hi x \<le> hi"
  by (auto simp: clampTo_def)

lemma clampTo_id: "lo \<le> x \<Longrightarrow> x \<le> hi \<Longrightarrow> clampTo lo hi x = x"
  by (simp add: clampTo_def)

definition optOr :: "'a option \<Rightarrow> 'a \<Rightarrow> 'a" where
  "optOr m d = (case m of None \<Rightarrow> d | Some x \<Rightarrow> x)"

lemma optOr_simps [simp]: "optOr None d = d" "optOr (Some x) d = x"
  by (simp_all add: optOr_def)

text \<open>A truthiness test on an optional string: the empty string counts as absent.\<close>

definition presentStr :: "string option \<Rightarrow> string option" where
  "presentStr m = (if m = Some [] then None else m)"

subsection \<open>Strings\<close>

fun startsWith :: "string \<Rightarrow> string \<Rightarrow> bool" where
  "startsWith s [] = True"
| "startsWith [] (p # ps) = False"
| "startsWith (c # cs) (p # ps) = (c = p \<and> startsWith cs ps)"

fun includesStr :: "string \<Rightarrow> string \<Rightarrow> bool" where
  "includesStr [] p = startsWith [] p"
| "includesStr (c # cs) p = (startsWith (c # cs) p \<or> includesStr cs p)"

definition isSpace :: "char \<Rightarrow> bool" where
  "isSpace c \<longleftrightarrow> of_char c \<in> set [9, 10, 11, 12, 13, 32, 160 :: nat]"

definition trimStr :: "string \<Rightarrow> string" where
  "trimStr s = rev (dropWhile isSpace (rev (dropWhile isSpace s)))"

fun strLess :: "string \<Rightarrow> string \<Rightarrow> bool" where
  "strLess _ [] = False"
| "strLess [] (_ # _) = True"
| "strLess (a # as) (b # bs) =
     (let x = (of_char a :: nat); y = of_char b in x < y \<or> (x = y \<and> strLess as bs))"

definition strLe :: "string \<Rightarrow> string \<Rightarrow> bool" where
  "strLe a b \<longleftrightarrow> \<not> strLess b a"

lemma of_char_nat_eq_iff: "(of_char a :: nat) = of_char b \<longleftrightarrow> a = b"
  by (metis char_of_char)

lemma strLess_irrefl [simp]: "\<not> strLess a a"
  by (induction a) (simp_all add: Let_def)

lemma strLess_total: "a \<noteq> b \<Longrightarrow> strLess a b \<or> strLess b a"
  by (induction a b rule: strLess.induct) (auto simp: Let_def of_char_nat_eq_iff neq_Nil_conv)

lemma strLess_trans: "strLess a b \<Longrightarrow> strLess b c \<Longrightarrow> strLess a c"
proof (induction a c arbitrary: b rule: strLess.induct)
  case (3 x xs z zs)
  then obtain y ys where "b = y # ys" by (cases b) auto
  with 3 show ?case by (auto simp: Let_def)
qed (auto elim: strLess.elims)

lemma strLess_asym: "strLess a b \<Longrightarrow> \<not> strLess b a"
  using strLess_trans strLess_irrefl by blast

lemma strLe_refl [simp]: "strLe a a"
  by (simp add: strLe_def)

lemma strLe_total: "strLe a b \<or> strLe b a"
  by (auto simp: strLe_def dest: strLess_asym)

lemma strLe_antisym: "strLe a b \<Longrightarrow> strLe b a \<Longrightarrow> a = b"
  using strLess_total by (auto simp: strLe_def)

lemma strLe_trans: "strLe a b \<Longrightarrow> strLe b c \<Longrightarrow> strLe a c"
  unfolding strLe_def by (metis strLess_trans strLess_total)

text \<open>Character classes and the anchored regular expressions of the sources.\<close>

definition codeIn :: "char \<Rightarrow> nat \<Rightarrow> nat \<Rightarrow> bool" where
  "codeIn c lo hi \<longleftrightarrow> lo \<le> of_char c \<and> of_char c \<le> hi"

definition isUpper :: "char \<Rightarrow> bool" where "isUpper c = codeIn c 65 90"
definition isLower :: "char \<Rightarrow> bool" where "isLower c = codeIn c 97 122"
definition isDigit :: "char \<Rightarrow> bool" where "isDigit c = codeIn c 48 57"
definition isHex :: "char \<Rightarrow> bool" where "isHex c \<longleftrightarrow> isDigit c \<or> codeIn c 97 102"
definition isAlphaUnderscore :: "char \<Rightarrow> bool" where
  "isAlphaUnderscore c \<longleftrightarrow> isUpper c \<or> isLower c \<or> c = CHR ''_''"
definition isWordChar :: "char \<Rightarrow> bool" where
  "isWordChar c \<longleftrightarrow> isAlphaUnderscore c \<or> isDigit c"

definition headTail :: "(char \<Rightarrow> bool) \<Rightarrow> (char \<Rightarrow> bool) \<Rightarrow> string \<Rightarrow> bool" where
  "headTail p q s = (case s of [] \<Rightarrow> False | c # cs \<Rightarrow> p c \<and> list_all q cs)"

text \<open>\<open>/^[A-Za-z_][A-Za-z0-9_]*$/\<close>, \<open>/^[A-Za-z_][A-Za-z0-9_.-]*$/\<close>, \<open>/^[A-Z][A-Z0-9_]*$/\<close>,
  \<open>/^sha256:.+/\<close> and \<open>/^sha256:[a-f0-9]{64}$/\<close>.\<close>

definition safeIdentifier :: "string \<Rightarrow> bool" where
  "safeIdentifier = headTail isAlphaUnderscore isWordChar"

definition capabilityName :: "string \<Rightarrow> bool" where
  "capabilityName = headTail isAlphaUnderscore
     (\<lambda>c. isWordChar c \<or> c = CHR ''.'' \<or> c = CHR ''-'')"

definition safeCodeName :: "string \<Rightarrow> bool" where
  "safeCodeName = headTail isUpper (\<lambda>c. isUpper c \<or> isDigit c \<or> c = CHR ''_'')"

definition sha256Prefixed :: "string \<Rightarrow> bool" where
  "sha256Prefixed s \<longleftrightarrow> startsWith s ''sha256:'' \<and>
     (case drop 7 s of [] \<Rightarrow> False | c # _ \<Rightarrow> of_char c \<notin> set [10, 13 :: nat])"

definition sha256Full :: "string \<Rightarrow> bool" where
  "sha256Full s \<longleftrightarrow> startsWith s ''sha256:'' \<and> length s = 71 \<and> list_all isHex (drop 7 s)"

lemma startsWith_append [simp]: "startsWith (p @ s) p"
  by (induction p) simp_all

lemma startsWith_iff: "startsWith s p \<longleftrightarrow> (\<exists>r. s = p @ r)"
  by (induction s p rule: startsWith.induct) auto

subsection \<open>Sorting and sets\<close>

fun insertBy :: "('a \<Rightarrow> 'a \<Rightarrow> bool) \<Rightarrow> 'a \<Rightarrow> 'a list \<Rightarrow> 'a list" where
  "insertBy le x [] = [x]"
| "insertBy le x (y # ys) = (if le x y then x # y # ys else y # insertBy le x ys)"

text \<open>\<open>Array.prototype.sort\<close> with a consistent comparator: the stable sort.\<close>

definition sortBy :: "('a \<Rightarrow> 'a \<Rightarrow> bool) \<Rightarrow> 'a list \<Rightarrow> 'a list" where
  "sortBy le xs = foldr (insertBy le) xs []"

lemma mset_insertBy [simp]: "mset (insertBy le x xs) = add_mset x (mset xs)"
  by (induction xs) auto

lemma mset_sortBy [simp]: "mset (sortBy le xs) = mset xs"
  by (induction xs) (simp_all add: sortBy_def)

lemma set_insertBy [simp]: "set (insertBy le x xs) = insert x (set xs)"
  by (induction xs) auto

lemma set_sortBy [simp]: "set (sortBy le xs) = set xs"
  by (induction xs) (simp_all add: sortBy_def)

lemma distinct_sortBy [simp]: "distinct (sortBy le xs) \<longleftrightarrow> distinct xs"
  by (rule mset_eq_imp_distinct_iff) simp

lemma length_sortBy [simp]: "length (sortBy le xs) = length xs"
  using mset_sortBy mset_eq_length by blast

lemma sortBy_Nil [simp]: "sortBy le [] = []"
  by (simp add: sortBy_def)

lemma sortBy_Cons: "sortBy le (x # xs) = insertBy le x (sortBy le xs)"
  by (simp add: sortBy_def)

lemma sorted_insertBy:
  assumes "\<And>a b. le a b \<or> le b a" and "\<And>a b c. le a b \<Longrightarrow> le b c \<Longrightarrow> le a c"
  shows "sorted_wrt le xs \<Longrightarrow> sorted_wrt le (insertBy le x xs)"
proof (induction xs)
  case (Cons y ys)
  show ?case
  proof (cases "le x y")
    case True
    with Cons.prems show ?thesis by (auto intro: assms(2))
  next
    case False
    with assms(1) have "le y x" by blast
    with False Cons show ?thesis by simp
  qed
qed simp

lemma sorted_sortBy:
  assumes "\<And>a b. le a b \<or> le b a" and "\<And>a b c. le a b \<Longrightarrow> le b c \<Longrightarrow> le a c"
  shows "sorted_wrt le (sortBy le xs)"
proof (induction xs)
  case (Cons x xs)
  then show ?case using sorted_insertBy [of le, OF assms] by (simp add: sortBy_Cons)
qed simp

lemma sorted_strLe: "sorted_wrt strLe (sortBy strLe xs)"
  by (rule sorted_sortBy [OF strLe_total strLe_trans])

lemma insertBy_map: "(\<And>a b. le' (f a) (f b) = le a b) \<Longrightarrow>
    insertBy le' (f x) (map f xs) = map f (insertBy le x xs)"
  by (induction xs) auto

lemma sortBy_map: "(\<And>a b. le' (f a) (f b) = le a b) \<Longrightarrow> sortBy le' (map f xs) = map f (sortBy le xs)"
  by (induction xs) (simp_all add: sortBy_Cons insertBy_map)

lemma insertBy_head: "(\<And>y. y \<in> set xs \<Longrightarrow> le x y) \<Longrightarrow> insertBy le x xs = x # xs"
  by (cases xs) auto

lemma sortBy_sorted: "sorted_wrt le xs \<Longrightarrow> sortBy le xs = xs"
  by (induction xs) (auto simp: sortBy_Cons insertBy_head)

lemma sorted_wrt_mset_unique:
  assumes "\<And>a b. a \<in> set xs \<Longrightarrow> b \<in> set xs \<Longrightarrow> le a b \<Longrightarrow> le b a \<Longrightarrow> a = b"
    and "mset xs = mset ys" and "sorted_wrt le xs" and "sorted_wrt le ys"
  shows "xs = ys"
  using assms
proof (induction xs arbitrary: ys)
  case (Cons x xs)
  then obtain z zs where ys: "ys = z # zs" by (cases ys) auto
  have sets: "set (x # xs) = set ys"
    using Cons.prems(2) mset_eq_setD by blast
  have "x = z"
  proof (rule ccontr)
    assume "x \<noteq> z"
    with sets ys have "z \<in> set xs" "x \<in> set zs" by auto
    with Cons.prems(3,4) ys have "le x z" "le z x" by auto
    with Cons.prems(1) \<open>z \<in> set xs\<close> have "x = z" by (meson list.set_intros)
    with \<open>x \<noteq> z\<close> show False ..
  qed
  with ys Cons.prems have "mset xs = mset zs" "sorted_wrt le xs" "sorted_wrt le zs" by auto
  with Cons.IH [of zs] Cons.prems(1) \<open>x = z\<close> ys show ?case by auto
qed simp

text \<open>\<open>[...new Set(xs)]\<close> keeps the first occurrence of every element.\<close>

fun uniqueList :: "'a list \<Rightarrow> 'a list" where
  "uniqueList [] = []"
| "uniqueList (x # xs) = x # filter (\<lambda>y. y \<noteq> x) (uniqueList xs)"

lemma set_uniqueList [simp]: "set (uniqueList xs) = set xs"
  by (induction xs) auto

lemma distinct_uniqueList [simp]: "distinct (uniqueList xs)"
  by (induction xs) auto

lemma uniqueList_distinct: "distinct xs \<Longrightarrow> uniqueList xs = xs"
  by (induction xs) (auto simp: filter_id_conv)

lemma length_uniqueList: "length (uniqueList xs) = card (set xs)"
  by (metis distinct_card distinct_uniqueList set_uniqueList)

definition hasDuplicates :: "'a list \<Rightarrow> bool" where
  "hasDuplicates xs \<longleftrightarrow> length (uniqueList xs) \<noteq> length xs"

lemma hasDuplicates_iff [simp]: "hasDuplicates xs \<longleftrightarrow> \<not> distinct xs"
  by (metis card_distinct distinct_card hasDuplicates_def length_uniqueList)

subsection \<open>Tables\<close>

text \<open>
  A SQL table is the list of its rows in insertion order.  \<open>findRow\<close> is a lookup by key,
  \<open>updateWhere\<close> an \<open>UPDATE \<dots> WHERE\<close>.
\<close>

definition findRow :: "('r \<Rightarrow> 'k) \<Rightarrow> 'k \<Rightarrow> 'r list \<Rightarrow> 'r option" where
  "findRow key k t = find (\<lambda>r. key r = k) t"

definition updateWhere :: "('r \<Rightarrow> bool) \<Rightarrow> ('r \<Rightarrow> 'r) \<Rightarrow> 'r list \<Rightarrow> 'r list" where
  "updateWhere p f t = map (\<lambda>r. if p r then f r else r) t"

definition countWhere :: "('r \<Rightarrow> bool) \<Rightarrow> 'r list \<Rightarrow> nat" where
  "countWhere p t = length (filter p t)"

lemma findRow_Nil [simp]: "findRow key k [] = None"
  by (simp add: findRow_def)

lemma findRow_Cons: "findRow key k (r # t) = (if key r = k then Some r else findRow key k t)"
  by (simp add: findRow_def)

lemma findRow_SomeD: "findRow key k t = Some r \<Longrightarrow> r \<in> set t \<and> key r = k"
  by (auto simp: findRow_def find_Some_iff)

lemma findRow_None_iff: "findRow key k t = None \<longleftrightarrow> k \<notin> key ` set t"
  by (auto simp: findRow_def find_None_iff)

lemma findRow_append [table_simps]: "findRow key k (t @ u) =
    (case findRow key k t of None \<Rightarrow> findRow key k u | Some r \<Rightarrow> Some r)"
  by (induction t) (auto simp: findRow_Cons)

lemma findRow_updateWhere [table_simps]:
  "(\<And>r. key (f r) = key r) \<Longrightarrow> findRow key k (updateWhere p f t)
     = map_option (\<lambda>r. if p r then f r else r) (findRow key k t)"
  by (induction t) (auto simp: findRow_Cons updateWhere_def)

lemma map_key_updateWhere [table_simps]:
  "(\<And>r. key (f r) = key r) \<Longrightarrow> map key (updateWhere p f t) = map key t"
  by (induction t) (auto simp: updateWhere_def)

lemma length_updateWhere [simp]: "length (updateWhere p f t) = length t"
  by (simp add: updateWhere_def)

lemma in_updateWhereE:
  assumes "r \<in> set (updateWhere p f t)"
  obtains r0 where "r0 \<in> set t" and "r = (if p r0 then f r0 else r0)"
  using assms by (auto simp: updateWhere_def)

lemma findRow_distinct:
  "distinct (map key t) \<Longrightarrow> r \<in> set t \<Longrightarrow> findRow key (key r) t = Some r"
  by (induction t) (auto simp: findRow_Cons)

text \<open>\<open>INSERT \<dots> ON CONFLICT(key) DO UPDATE\<close>, which replaces the row of the same key.\<close>

definition upsertRow :: "('r \<Rightarrow> 'k) \<Rightarrow> 'r \<Rightarrow> 'r list \<Rightarrow> 'r list" where
  "upsertRow key r t = (if findRow key (key r) t = None then t @ [r]
     else updateWhere (\<lambda>x. key x = key r) (\<lambda>_. r) t)"

lemma findRow_upsertRow [table_simps]:
  "findRow key k (upsertRow key r t) = (if k = key r then Some r else findRow key k t)"
proof -
  have upd: "findRow key k (updateWhere (\<lambda>x. key x = key r) (\<lambda>_. r) t)
      = (if k = key r then map_option (\<lambda>_. r) (findRow key k t) else findRow key k t)" for k
    by (induction t) (auto simp: findRow_Cons updateWhere_def)
  show ?thesis
    by (auto simp: upsertRow_def upd findRow_append findRow_Cons split: option.split)
qed

subsection \<open>State machines\<close>

text \<open>
  The interface between a component's operations and the properties of its histories.  A component
  gives its step relation, an invariant every step keeps and a reflexive and transitive relation
  that every step from a good state respects; in return every history keeps both.
\<close>

locale state_machine =
  fixes step :: "'s \<Rightarrow> 's \<Rightarrow> bool"
    and inv :: "'s \<Rightarrow> bool"
    and rel :: "'s \<Rightarrow> 's \<Rightarrow> bool"
  assumes step_inv: "step s t \<Longrightarrow> inv s \<Longrightarrow> inv t"
    and step_rel: "step s t \<Longrightarrow> inv s \<Longrightarrow> rel s t"
    and rel_refl: "rel s s"
    and rel_trans: "rel s t \<Longrightarrow> rel t u \<Longrightarrow> rel s u"
begin

lemma history_inv: "step\<^sup>*\<^sup>* s t \<Longrightarrow> inv s \<Longrightarrow> inv t"
  by (induction rule: rtranclp_induct) (auto intro: step_inv)

lemma history_rel: "step\<^sup>*\<^sup>* s t \<Longrightarrow> inv s \<Longrightarrow> rel s t"
proof (induction rule: rtranclp_induct)
  case base
  show ?case by (rule rel_refl)
next
  case (step t u)
  then have "inv t" by (blast intro: history_inv)
  with step show ?case by (blast intro: step_rel rel_trans)
qed

end

end
