(* ===== verification/Json.thy ===== *)
theory Json
  imports Prelude Complex_Main
begin

text \<open>
  JSON values and the canonical serializer of \<open>packages/protocol/src/index.ts\<close>
  (\<open>canonicalJsonValue\<close>, \<open>canonicalJsonStringify\<close>, \<open>canonicalJsonDigest\<close>), on which every
  integrity hash of the Runner rests.

  An object is its list of own entries in insertion order.  A number is an integer (printed in
  decimal, which is what \<open>JSON.stringify\<close> does below \<open>10 ^ 21\<close>), negative zero, another finite double
  given by its canonical decimal text, or one of NaN and the infinities.  \<open>JUndefined\<close> stands for
  \<open>undefined\<close> and every value that is not JSON.  A circular value has no counterpart in a datatype,
  so the \<open>ancestors\<close> check is vacuous here.  Node's SHA-256 (as a hexadecimal digest),
  \<open>localeCompare\<close> (as the order \<open>a.localeCompare(b) <= 0\<close>), \<open>Date.parse\<close> (\<open>None\<close> for NaN) and
  \<open>toISOString\<close> are the fields of \<open>runtime\<close>, a parameter of every definition that uses them, as is the
  decimal text of a number that is not an integer.
\<close>

subsection \<open>Values\<close>

datatype jnum = IntN int | NegZero | Dec string | NonFinite

datatype json =
    JNull
  | JBool bool
  | JNum jnum
  | JStr string
  | JArr "json list"
  | JObj "(string \<times> json) list"
  | JUndefined

record runtime =
  sha256Hex :: "string \<Rightarrow> string"
  localeLe :: "string \<Rightarrow> string \<Rightarrow> bool"
  dateParse :: "string \<Rightarrow> time option"
  isoString :: "time \<Rightarrow> string"
  decimalText :: "rat \<Rightarrow> string"

text \<open>Reading a property of an object: a missing property is \<open>undefined\<close>.\<close>

definition field :: "(string \<times> json) list \<Rightarrow> string \<Rightarrow> json" where
  "field es k = (case map_of es k of None \<Rightarrow> JUndefined | Some v \<Rightarrow> v)"

definition asString :: "json \<Rightarrow> string option" where
  "asString j = (case j of JStr s \<Rightarrow> Some s | _ \<Rightarrow> None)"

definition asRecord :: "json \<Rightarrow> (string \<times> json) list option" where
  "asRecord j = (case j of JObj es \<Rightarrow> Some es | _ \<Rightarrow> None)"

text \<open>\<open>Number(value)\<close> on a scalar: a numeric string is read only in its decimal integer form.\<close>

definition digitsValue :: "string \<Rightarrow> int" where
  "digitsValue ds = foldl (\<lambda>n c. 10 * n + (of_char c - 48)) 0 ds"

definition jsNumber :: "json \<Rightarrow> jnum" where
  "jsNumber j = (case j of
      JNull \<Rightarrow> IntN 0
    | JBool b \<Rightarrow> IntN (if b then 1 else 0)
    | JNum n \<Rightarrow> n
    | JStr s \<Rightarrow> (let t = trimStr s in
        if t = [] then IntN 0
        else if list_all isDigit t then IntN (digitsValue t)
        else if hd t = CHR ''-'' \<and> tl t \<noteq> [] \<and> list_all isDigit (tl t) then IntN (- digitsValue (tl t))
        else NonFinite)
    | _ \<Rightarrow> NonFinite)"

definition safeIntegerOf :: "jnum \<Rightarrow> int option" where
  "safeIntegerOf n = (case n of
      IntN i \<Rightarrow> (if isSafeInteger i then Some i else None)
    | NegZero \<Rightarrow> Some 0
    | _ \<Rightarrow> None)"

subsection \<open>Canonical values\<close>

definition keyLe :: "string \<times> 'a \<Rightarrow> string \<times> 'b \<Rightarrow> bool" where
  "keyLe a b = strLe (fst a) (fst b)"

fun canonicalJsonValue :: "json \<Rightarrow> json result"
  and canonicalItems :: "json list \<Rightarrow> json list result"
  and canonicalEntries :: "(string \<times> json) list \<Rightarrow> (string \<times> json) list result" where
  "canonicalJsonValue JNull = Inr JNull"
| "canonicalJsonValue (JStr s) = Inr (JStr s)"
| "canonicalJsonValue (JBool b) = Inr (JBool b)"
| "canonicalJsonValue (JNum n) = (case n of
      NonFinite \<Rightarrow> Inl TypeError
    | NegZero \<Rightarrow> Inr (JNum (IntN 0))
    | _ \<Rightarrow> Inr (JNum n))"
| "canonicalJsonValue (JArr xs) = mapE JArr (canonicalItems xs)"
| "canonicalJsonValue JUndefined = Inl TypeError"
| "canonicalJsonValue (JObj es) = mapE (\<lambda>cs. JObj (sortBy keyLe cs)) (canonicalEntries es)"
| "canonicalItems [] = Inr []"
| "canonicalItems (x # xs) =
     bindE (canonicalJsonValue x) (\<lambda>y. mapE (Cons y) (canonicalItems xs))"
| "canonicalEntries [] = Inr []"
| "canonicalEntries ((k, v) # es) =
     bindE (canonicalJsonValue v) (\<lambda>c. mapE (Cons (k, c)) (canonicalEntries es))"

subsection \<open>Serialization\<close>

definition digitChar :: "nat \<Rightarrow> char" where
  "digitChar n = char_of (48 + n)"

fun natDecimal :: "nat \<Rightarrow> string" where
  "natDecimal n = (if n < 10 then [digitChar n] else natDecimal (n div 10) @ [digitChar (n mod 10)])"

declare natDecimal.simps [simp del]

definition intDecimal :: "int \<Rightarrow> string" where
  "intDecimal i = (if i < 0 then CHR ''-'' # natDecimal (nat (- i)) else natDecimal (nat i))"

definition hexChar :: "nat \<Rightarrow> char" where
  "hexChar n = (if n < 10 then char_of (48 + n) else char_of (87 + n))"

text \<open>The escapes of \<open>JSON.stringify\<close>: quote, backslash, the five short forms and \<open>\u00XX\<close>.\<close>

definition escapeChar :: "char \<Rightarrow> string" where
  "escapeChar c = (let n = (of_char c :: nat) in
     if n = 34 then [char_of (92 :: nat), c]
     else if n = 92 then [c, c]
     else if n = 8 then [char_of (92 :: nat), CHR ''b'']
     else if n = 12 then [char_of (92 :: nat), CHR ''f'']
     else if n = 10 then [char_of (92 :: nat), CHR ''n'']
     else if n = 13 then [char_of (92 :: nat), CHR ''r'']
     else if n = 9 then [char_of (92 :: nat), CHR ''t'']
     else if n < 32 then char_of (92 :: nat) # ''u00'' @ [hexChar (n div 16), hexChar (n mod 16)]
     else [c])"

definition quoteString :: "string \<Rightarrow> string" where
  "quoteString s = CHR 0x22 # concat (map escapeChar s) @ [CHR 0x22]"

fun jsonStringify :: "json \<Rightarrow> string"
  and stringifyItems :: "json list \<Rightarrow> string"
  and stringifyEntries :: "(string \<times> json) list \<Rightarrow> string" where
  "jsonStringify JNull = ''null''"
| "jsonStringify (JBool b) = (if b then ''true'' else ''false'')"
| "jsonStringify (JNum n) = (case n of
      IntN i \<Rightarrow> intDecimal i | NegZero \<Rightarrow> ''0'' | Dec s \<Rightarrow> s | NonFinite \<Rightarrow> ''null'')"
| "jsonStringify (JStr s) = quoteString s"
| "jsonStringify (JArr xs) = ''['' @ stringifyItems xs @ '']''"
| "jsonStringify (JObj es) = ''{'' @ stringifyEntries es @ ''}''"
| "jsonStringify JUndefined = ''null''"
| "stringifyItems [] = []"
| "stringifyItems [x] = jsonStringify x"
| "stringifyItems (x # y # xs) = jsonStringify x @ '','' @ stringifyItems (y # xs)"
| "stringifyEntries [] = []"
| "stringifyEntries [(k, v)] = quoteString k @ '':'' @ jsonStringify v"
| "stringifyEntries ((k, v) # e # es) =
     quoteString k @ '':'' @ jsonStringify v @ '','' @ stringifyEntries (e # es)"

definition canonicalJsonStringify :: "json \<Rightarrow> string result" where
  "canonicalJsonStringify j = mapE jsonStringify (canonicalJsonValue j)"

definition canonicalJsonDigest :: "runtime \<Rightarrow> json \<Rightarrow> string result" where
  "canonicalJsonDigest rt j =
     mapE (\<lambda>s. ''sha256:'' @ sha256Hex rt s) (canonicalJsonStringify j)"

text \<open>
  The digest of an object literal whose fields are all strings, booleans, integers and null, or
  nested values of that kind: the serializer cannot throw there, so the callers use the digest
  directly.  \<open>digestOf_eq\<close> is the justification.
\<close>

definition digestOf :: "runtime \<Rightarrow> json \<Rightarrow> string" where
  "digestOf rt j = (case canonicalJsonDigest rt j of Inl _ \<Rightarrow> [] | Inr d \<Rightarrow> d)"

fun jsonPlain :: "json \<Rightarrow> bool" where
  "jsonPlain (JNum n) = (n \<noteq> NonFinite)"
| "jsonPlain (JArr xs) = list_all jsonPlain xs"
| "jsonPlain (JObj es) = list_all (\<lambda>e. jsonPlain (snd e)) es"
| "jsonPlain JUndefined = False"
| "jsonPlain _ = True"

lemma canonical_total_aux:
  "(\<exists>c. canonicalJsonValue j = Inr c) \<longleftrightarrow> jsonPlain j"
  "(\<exists>cs. canonicalItems js = Inr cs) \<longleftrightarrow> list_all jsonPlain js"
  "(\<exists>es'. canonicalEntries es = Inr es') \<longleftrightarrow> list_all (\<lambda>e. jsonPlain (snd e)) es"
  by (induction j and js and es rule: canonicalJsonValue_canonicalItems_canonicalEntries.induct)
    (auto simp: mapE_eq_Inr bindE_eq_Inr split: jnum.splits)

text \<open>The serializer accepts exactly the plain values.\<close>

lemma canonical_total: "(\<exists>c. canonicalJsonValue j = Inr c) \<longleftrightarrow> jsonPlain j"
  by (rule canonical_total_aux)

lemma digestOf_eq: "jsonPlain j \<Longrightarrow> canonicalJsonDigest rt j = Inr (digestOf rt j)"
  using canonical_total [of j]
  by (auto simp: digestOf_def canonicalJsonDigest_def canonicalJsonStringify_def mapE_def)

lemma digestOf_prefix: "jsonPlain j \<Longrightarrow> startsWith (digestOf rt j) ''sha256:''"
  using canonical_total [of j]
  by (auto simp: digestOf_def canonicalJsonDigest_def canonicalJsonStringify_def mapE_def
      simp del: append_Cons append_Nil)

subsection \<open>Independence of the insertion order\<close>

text \<open>
  Two values are the same up to the order in which object entries were inserted.  Keys of one
  object are distinct, as they are in JavaScript.
\<close>

inductive sameJson :: "json \<Rightarrow> json \<Rightarrow> bool" where
  same_leaf: "sameJson j j"
| same_arr: "list_all2 sameJson xs ys \<Longrightarrow> sameJson (JArr xs) (JArr ys)"
| same_obj: "mset es' = mset es \<Longrightarrow>
    list_all2 (\<lambda>a b. fst a = fst b \<and> sameJson (snd a) (snd b)) es' fs \<Longrightarrow>
    sameJson (JObj es) (JObj fs)"

fun keysDistinct :: "json \<Rightarrow> bool" where
  "keysDistinct (JArr xs) = list_all keysDistinct xs"
| "keysDistinct (JObj es) = (distinct (map fst es) \<and> list_all (\<lambda>e. keysDistinct (snd e)) es)"
| "keysDistinct _ = True"

lemma canonicalItems_list_all2:
  "list_all2 (\<lambda>x y. canonicalJsonValue x = canonicalJsonValue y) xs ys \<Longrightarrow>
   canonicalItems xs = canonicalItems ys"
  by (induction rule: list_all2_induct) auto

lemma canonicalEntries_list_all2:
  "list_all2 (\<lambda>a b. fst a = fst b \<and> canonicalJsonValue (snd a) = canonicalJsonValue (snd b)) es fs
   \<Longrightarrow> canonicalEntries es = canonicalEntries fs"
  by (induction rule: list_all2_induct) auto

lemma canonicalEntries_keys: "canonicalEntries es = Inr cs \<Longrightarrow> map fst cs = map fst es"
  by (induction es arbitrary: cs rule: list.induct) (auto simp: bindE_eq_Inr mapE_eq_Inr)

lemma canonicalEntries_map:
  "canonicalEntries es = (if list_all (\<lambda>e. jsonPlain (snd e)) es
     then Inr (map (\<lambda>(k, v). (k, projr (canonicalJsonValue v))) es) else Inl TypeError)"
proof (induction es)
  case (Cons e es)
  obtain k v where e: "e = (k, v)" by (cases e)
  show ?case
  proof (cases "jsonPlain v")
    case True
    then obtain c where "canonicalJsonValue v = Inr c" using canonical_total by blast
    with True Cons e show ?thesis by auto
  next
    case False
    have "canonicalJsonValue j = Inl err \<Longrightarrow> err = TypeError"
      "canonicalItems js = Inl err \<Longrightarrow> err = TypeError"
      "canonicalEntries ks = Inl err \<Longrightarrow> err = TypeError" for j js ks err
      by (induction j and js and ks
          rule: canonicalJsonValue_canonicalItems_canonicalEntries.induct)
        (auto simp: mapE_def bindE_eq_Inl split: jnum.splits)
    moreover have "\<exists>err. canonicalJsonValue v = Inl err"
      using False canonical_total [of v] by (metis sum.exhaust)
    ultimately have "canonicalJsonValue v = Inl TypeError" by blast
    with False e show ?thesis by simp
  qed
qed simp

lemma keyLe_sorted: "sorted_wrt keyLe (sortBy keyLe es)"
  by (rule sorted_sortBy) (use strLe_total strLe_trans in \<open>auto simp: keyLe_def\<close>)

lemma sortBy_keyLe_unique:
  assumes "mset es = mset fs" and "distinct (map fst es)"
  shows "sortBy keyLe es = sortBy keyLe fs"
proof (rule sorted_wrt_mset_unique [of _ keyLe])
  fix a b assume "a \<in> set (sortBy keyLe es)" "b \<in> set (sortBy keyLe es)" "keyLe a b" "keyLe b a"
  then have "a \<in> set es" "b \<in> set es" "fst a = fst b"
    using strLe_antisym by (auto simp: keyLe_def)
  with assms(2) show "a = b" by (metis distinct_map inj_onD)
qed (use assms keyLe_sorted in auto)

lemma canonicalEntries_perm:
  assumes "mset es' = mset es" and "distinct (map fst es)"
  shows "mapE (\<lambda>cs. JObj (sortBy keyLe cs)) (canonicalEntries es') =
         mapE (\<lambda>cs. JObj (sortBy keyLe cs)) (canonicalEntries es)"
proof -
  let ?f = "\<lambda>(k, v). (k, projr (canonicalJsonValue v))"
  have "mset (map ?f es') = mset (map ?f es)" using assms(1) by simp
  moreover have "distinct (map fst (map ?f es'))"
  proof -
    have "map fst (map ?f es') = map fst es'" by (simp add: case_prod_beta)
    moreover have "mset (map fst es') = mset (map fst es)" using assms(1) by simp
    ultimately show ?thesis using assms(2) mset_eq_imp_distinct_iff by metis
  qed
  ultimately have "sortBy keyLe (map ?f es') = sortBy keyLe (map ?f es)"
    by (rule sortBy_keyLe_unique)
  moreover have "list_all (\<lambda>e. jsonPlain (snd e)) es' = list_all (\<lambda>e. jsonPlain (snd e)) es"
    using assms(1) by (metis list_all_iff mset_eq_setD)
  ultimately show ?thesis by (simp add: canonicalEntries_map)
qed

text \<open>Insertion order does not reach the canonical value.\<close>

lemma canonical_same:
  "sameJson i j \<Longrightarrow> keysDistinct i \<Longrightarrow> canonicalJsonValue i = canonicalJsonValue j"
proof (induction rule: sameJson.induct)
  case (same_arr xs ys)
  have "list_all2 (\<lambda>x y. canonicalJsonValue x = canonicalJsonValue y) xs ys"
  proof (rule list_all2_all_nthI)
    show "length xs = length ys" using same_arr.IH by (rule list_all2_lengthD)
    fix n assume n: "n < length xs"
    then have "keysDistinct (xs ! n)" using same_arr.prems by (auto simp: list_all_length)
    with list_all2_nthD [OF same_arr.IH n]
    show "canonicalJsonValue (xs ! n) = canonicalJsonValue (ys ! n)" by simp
  qed
  then show ?case using canonicalItems_list_all2 by simp
next
  case (same_obj es' es fs)
  have "list_all2 (\<lambda>a b. fst a = fst b
      \<and> canonicalJsonValue (snd a) = canonicalJsonValue (snd b)) es' fs"
  proof (rule list_all2_all_nthI)
    show "length es' = length fs" using same_obj.IH by (rule list_all2_lengthD)
    fix n assume n: "n < length es'"
    then have "es' ! n \<in> set es" using same_obj.hyps by (metis mset_eq_setD nth_mem)
    then have "keysDistinct (snd (es' ! n))" using same_obj.prems by (auto simp: list_all_iff)
    with list_all2_nthD [OF same_obj.IH n]
    show "fst (es' ! n) = fst (fs ! n)
        \<and> canonicalJsonValue (snd (es' ! n)) = canonicalJsonValue (snd (fs ! n))" by simp
  qed
  then have fs: "canonicalEntries es' = canonicalEntries fs"
    by (rule canonicalEntries_list_all2)
  have "distinct (map fst es)" using same_obj.prems by simp
  from canonicalEntries_perm [OF same_obj.hyps this] fs show ?case by simp
qed simp

subsection \<open>Canonical values are fixed points\<close>

lemma canonical_idem_aux:
  "canonicalJsonValue j = Inr c \<Longrightarrow> keysDistinct j \<Longrightarrow> canonicalJsonValue c = Inr c"
  "canonicalItems js = Inr cs \<Longrightarrow> list_all keysDistinct js \<Longrightarrow> canonicalItems cs = Inr cs"
  "canonicalEntries es = Inr fs \<Longrightarrow> list_all (\<lambda>e. keysDistinct (snd e)) es \<Longrightarrow>
     canonicalEntries fs = Inr fs"
proof (induction j and js and es arbitrary: c and cs and fs
    rule: canonicalJsonValue_canonicalItems_canonicalEntries.induct)
  case (7 es)
  then obtain fs where fs: "canonicalEntries es = Inr fs" and c: "c = JObj (sortBy keyLe fs)"
    by (auto simp: mapE_eq_Inr)
  from 7 fs have "canonicalEntries fs = Inr fs" by auto
  moreover have "distinct (map fst fs)" using canonicalEntries_keys [OF fs] 7 by simp
  ultimately have "canonicalJsonValue c = Inr (JObj (sortBy keyLe fs))"
    using canonicalEntries_perm [of "sortBy keyLe fs" fs] by (simp add: c)
  then show ?case by (simp add: c)
qed (auto simp: mapE_eq_Inr bindE_eq_Inr split: jnum.splits)

end
