(* ===== verification/Protocol.thy ===== *)
theory Protocol
  imports Json
begin

text \<open>
  The change sets of \<open>packages/protocol/src/index.ts\<close>: the data types of the four schema versions
  and the validation that \<open>parseChangeSet\<close> runs on them.  A Zod object is a record, a Zod enum a
  datatype.  For every schema, \<open>\<dots>Shape\<close> collects the field checks (lengths, patterns, bounds) and
  \<open>\<dots>Issues\<close> the messages of its \<open>superRefine\<close>.  The four versions share one record; the fields
  that only some versions have are optional or sit in \<open>cs_body\<close>.
\<close>

subsection \<open>Common pieces\<close>

type_synonym srow = "(string \<times> json) list"

definition scalarShape :: "json \<Rightarrow> bool" where
  "scalarShape j = (case j of JStr _ \<Rightarrow> True | JNum n \<Rightarrow> n \<noteq> NonFinite | JBool _ \<Rightarrow> True
     | JNull \<Rightarrow> True | _ \<Rightarrow> False)"

definition scalarRecordShape :: "srow \<Rightarrow> bool" where
  "scalarRecordShape r \<longleftrightarrow> distinct (map fst r) \<and> (\<forall>e \<in> set r. scalarShape (snd e))"

definition scalarMapShape :: "srow \<Rightarrow> bool" where
  "scalarMapShape r \<longleftrightarrow> scalarRecordShape r \<and> r \<noteq> []"

definition boundedScalarRecordShape :: "srow \<Rightarrow> bool" where
  "boundedScalarRecordShape r \<longleftrightarrow> scalarRecordShape r \<and> length r \<le> 256"

text \<open>JavaScript truthiness of a scalar that may be undefined.\<close>

definition truthy :: "json option \<Rightarrow> bool" where
  "truthy v = (case v of
      Some (JStr s) \<Rightarrow> s \<noteq> []
    | Some (JNum n) \<Rightarrow> n \<noteq> IntN 0 \<and> n \<noteq> NegZero \<and> n \<noteq> NonFinite
    | Some (JBool b) \<Rightarrow> b
    | Some (JArr _) \<Rightarrow> True
    | Some (JObj _) \<Rightarrow> True
    | _ \<Rightarrow> False)"

definition issueIf :: "bool \<Rightarrow> string \<Rightarrow> string list" where
  "issueIf c m = (if c then [m] else [])"

lemma issueIf_Nil [simp]: "issueIf c m = [] \<longleftrightarrow> \<not> c"
  by (simp add: issueIf_def)

definition zodParse :: "bool \<Rightarrow> string list \<Rightarrow> 'a \<Rightarrow> 'a result" where
  "zodParse shape issues x = (if shape \<and> issues = [] then Inr x else Inl (ZodError issues))"

lemma zodParse_eq_Inr [simp, monad_simps]: "zodParse s is x = Inr y \<longleftrightarrow> s \<and> is = [] \<and> y = x"
  by (auto simp: zodParse_def)

record column_value =
  cv_column :: string
  cv_value :: json

definition columnValueShape :: "column_value \<Rightarrow> bool" where
  "columnValueShape c \<longleftrightarrow> safeIdentifier (cv_column c) \<and> scalarShape (cv_value c)"

definition columnValueJson :: "column_value \<Rightarrow> json" where
  "columnValueJson c = JObj [(''column'', JStr (cv_column c)), (''value'', cv_value c)]"

datatype engine = Postgres | Mysql
datatype scope_provider = ScopeEnvironment | ScopeHttpClaims | ScopeCloudSession | ScopeStaticDev

definition engineStr :: "engine \<Rightarrow> string" where
  "engineStr e = (case e of Postgres \<Rightarrow> ''postgres'' | Mysql \<Rightarrow> ''mysql'')"

definition providerStr :: "scope_provider \<Rightarrow> string" where
  "providerStr p = (case p of ScopeEnvironment \<Rightarrow> ''environment'' | ScopeHttpClaims \<Rightarrow> ''http_claims''
     | ScopeCloudSession \<Rightarrow> ''cloud_session'' | ScopeStaticDev \<Rightarrow> ''static_dev'')"

record principal_scope =
  ps_column :: string
  ps_binding :: string
  ps_provider :: scope_provider
  ps_value_fingerprint :: string
  ps_value :: "json option"

definition principalScopeFingerprint ::
  "runtime \<Rightarrow> string \<Rightarrow> string \<Rightarrow> scope_provider \<Rightarrow> json \<Rightarrow> string" where
  "principalScopeFingerprint rt col binding provider val = digestOf rt (JObj [
     (''schema_version'', JStr ''synapsor.principal-scope.v1''),
     (''column'', JStr col), (''binding'', JStr binding),
     (''provider'', JStr (providerStr provider)), (''value'', val)])"

definition principalScopeShape :: "principal_scope \<Rightarrow> bool" where
  "principalScopeShape p \<longleftrightarrow> safeIdentifier (ps_column p) \<and> safeIdentifier (ps_binding p)
     \<and> sha256Prefixed (ps_value_fingerprint p)
     \<and> (case ps_value p of None \<Rightarrow> True | Some v \<Rightarrow> scalarShape v)"

definition principalScopeIssues :: "runtime \<Rightarrow> principal_scope \<Rightarrow> string list" where
  "principalScopeIssues rt p = (case ps_value p of
      None \<Rightarrow> []
    | Some v \<Rightarrow> issueIf (principalScopeFingerprint rt (ps_column p) (ps_binding p) (ps_provider p) v
          \<noteq> ps_value_fingerprint p) ''principal scope fingerprint does not match its trusted value'')"

definition optIssues :: "('a \<Rightarrow> string list) \<Rightarrow> 'a option \<Rightarrow> string list" where
  "optIssues f m = (case m of None \<Rightarrow> [] | Some x \<Rightarrow> f x)"

definition optAll :: "('a \<Rightarrow> bool) \<Rightarrow> 'a option \<Rightarrow> bool" where
  "optAll p m = (case m of None \<Rightarrow> True | Some x \<Rightarrow> p x)"

lemma optAll_simps [simp]: "optAll p None" "optAll p (Some x) = p x"
  and optIssues_simps [simp]: "optIssues f None = []" "optIssues f (Some x) = f x"
  by (simp_all add: optAll_def optIssues_def)

subsection \<open>Freshness\<close>

record freshness_dependency =
  fd_id :: string
  fd_capability :: string
  fd_source_id :: string
  fd_engine :: engine
  fd_schema :: string
  fd_table :: string
  fd_primary_key :: column_value
  fd_tenant_column :: string
  fd_principal_column :: "string option"
  fd_expected_version :: column_value
  fd_bundle_id :: string
  fd_query_fingerprint :: string
  fd_descriptor_digest :: string

datatype target_mode = ExactGuard | FrozenSetMode | NotApplicable

definition targetModeStr :: "target_mode \<Rightarrow> string" where
  "targetModeStr m = (case m of ExactGuard \<Rightarrow> ''exact_guard'' | FrozenSetMode \<Rightarrow> ''frozen_set''
     | NotApplicable \<Rightarrow> ''not_applicable'')"

record freshness_authority =
  fa_target_mode :: target_mode
  fa_member_count :: int
  fa_dependencies :: "freshness_dependency list"
  fa_dependency_set_digest :: string

definition optField :: "string \<Rightarrow> ('a \<Rightarrow> json) \<Rightarrow> 'a option \<Rightarrow> srow" where
  "optField k f m = (case m of None \<Rightarrow> [] | Some x \<Rightarrow> [(k, f x)])"

lemma plain_optField: "(\<And>x. jsonPlain (f x)) \<Longrightarrow> list_all (\<lambda>e. jsonPlain (snd e)) (optField k f m)"
  by (simp add: optField_def split: option.split)

definition dependencyUnsignedJson :: "freshness_dependency \<Rightarrow> srow" where
  "dependencyUnsignedJson d = [
     (''id'', JStr (fd_id d)), (''capability'', JStr (fd_capability d)),
     (''source_id'', JStr (fd_source_id d)), (''engine'', JStr (engineStr (fd_engine d))),
     (''target'', JObj ([(''schema'', JStr (fd_schema d)), (''table'', JStr (fd_table d)),
        (''primary_key'', columnValueJson (fd_primary_key d)),
        (''tenant_column'', JStr (fd_tenant_column d))]
        @ optField ''principal_column'' JStr (fd_principal_column d))),
     (''expected_version'', columnValueJson (fd_expected_version d)),
     (''evidence'', JObj [(''bundle_id'', JStr (fd_bundle_id d)),
        (''query_fingerprint'', JStr (fd_query_fingerprint d))])]"

definition lengthBetween :: "nat \<Rightarrow> nat \<Rightarrow> 'a list \<Rightarrow> bool" where
  "lengthBetween lo hi s \<longleftrightarrow> lo \<le> length s \<and> length s \<le> hi"

text \<open>\<open>/^[A-Za-z_][A-Za-z0-9_.-]*\.[A-Za-z_][A-Za-z0-9_.-]*$/\<close>: two capability names around a dot.\<close>

definition reviewedCapabilityName :: "string \<Rightarrow> bool" where
  "reviewedCapabilityName s \<longleftrightarrow> (\<exists>i \<in> set [0..<length s].
     s ! i = CHR ''.'' \<and> capabilityName (take i s) \<and> capabilityName (drop (Suc i) s))"

definition freshnessDependencyShape :: "freshness_dependency \<Rightarrow> bool" where
  "freshnessDependencyShape d \<longleftrightarrow> safeIdentifier (fd_id d) \<and> reviewedCapabilityName (fd_capability d)
     \<and> lengthBetween 1 160 (fd_source_id d) \<and> safeIdentifier (fd_schema d) \<and> safeIdentifier (fd_table d)
     \<and> columnValueShape (fd_primary_key d) \<and> safeIdentifier (fd_tenant_column d)
     \<and> optAll safeIdentifier (fd_principal_column d) \<and> columnValueShape (fd_expected_version d)
     \<and> lengthBetween 1 200 (fd_bundle_id d) \<and> sha256Prefixed (fd_query_fingerprint d)
     \<and> sha256Prefixed (fd_descriptor_digest d)"

definition freshnessDependencyIssues :: "runtime \<Rightarrow> freshness_dependency \<Rightarrow> string list" where
  "freshnessDependencyIssues rt d = issueIf
     (digestOf rt (JObj (dependencyUnsignedJson d)) \<noteq> fd_descriptor_digest d)
     ''freshness dependency digest mismatch''"

text \<open>The deterministic lock order: \<open>localeCompare\<close> on five keys, the first difference decides.\<close>

definition localeCompare :: "runtime \<Rightarrow> string \<Rightarrow> string \<Rightarrow> int" where
  "localeCompare rt a b =
     (if localeLe rt a b then (if localeLe rt b a then 0 else -1) else 1)"

fun firstDifference :: "int list \<Rightarrow> int" where
  "firstDifference [] = 0"
| "firstDifference (c # cs) = (if c \<noteq> 0 then c else firstDifference cs)"

definition dependencyLe :: "runtime \<Rightarrow> freshness_dependency \<Rightarrow> freshness_dependency \<Rightarrow> bool" where
  "dependencyLe rt a b \<longleftrightarrow> firstDifference [
     localeCompare rt (fd_source_id a) (fd_source_id b),
     localeCompare rt (fd_schema a) (fd_schema b),
     localeCompare rt (fd_table a) (fd_table b),
     localeCompare rt (jsonStringify (cv_value (fd_primary_key a)))
                      (jsonStringify (cv_value (fd_primary_key b))),
     localeCompare rt (fd_id a) (fd_id b)] \<le> 0"

definition dependencyJson :: "freshness_dependency \<Rightarrow> json" where
  "dependencyJson d = JObj (dependencyUnsignedJson d
     @ [(''descriptor_digest'', JStr (fd_descriptor_digest d))])"

definition authorityUnsignedJson :: "freshness_authority \<Rightarrow> json" where
  "authorityUnsignedJson a = JObj [
     (''schema_version'', JStr ''synapsor.freshness-authority.v1''), (''required'', JBool True),
     (''target'', JObj [(''mode'', JStr (targetModeStr (fa_target_mode a))),
        (''member_count'', JNum (IntN (fa_member_count a)))]),
     (''dependencies'', JArr (map dependencyJson (fa_dependencies a)))]"

definition freshnessAuthorityShape :: "freshness_authority \<Rightarrow> bool" where
  "freshnessAuthorityShape a \<longleftrightarrow> 0 \<le> fa_member_count a \<and> fa_member_count a \<le> 100
     \<and> length (fa_dependencies a) \<le> 16 \<and> (\<forall>d \<in> set (fa_dependencies a). freshnessDependencyShape d)
     \<and> sha256Prefixed (fa_dependency_set_digest a)"

definition freshnessAuthorityIssues :: "runtime \<Rightarrow> freshness_authority \<Rightarrow> string list" where
  "freshnessAuthorityIssues rt a =
     concat (map (freshnessDependencyIssues rt) (fa_dependencies a))
   @ issueIf (hasDuplicates (map fd_id (fa_dependencies a))) ''freshness dependency ids must be unique''
   @ issueIf (sortBy (dependencyLe rt) (fa_dependencies a) \<noteq> fa_dependencies a)
       ''freshness dependencies must use deterministic lock order''
   @ issueIf (digestOf rt (authorityUnsignedJson a) \<noteq> fa_dependency_set_digest a)
       ''freshness dependency-set digest mismatch''"

definition parseFreshnessAuthority :: "runtime \<Rightarrow> freshness_authority \<Rightarrow> freshness_authority result" where
  "parseFreshnessAuthority rt a = zodParse (freshnessAuthorityShape a) (freshnessAuthorityIssues rt a) a"

datatype check_status = Fresh | Stale | Unavailable | InvalidCheck | Unsupported
datatype item_kind = TargetItem | SupportingItem
datatype item_status = ItemStatus check_status | ItemNotApplicable

definition checkStatusStr :: "check_status \<Rightarrow> string" where
  "checkStatusStr s = (case s of Fresh \<Rightarrow> ''fresh'' | Stale \<Rightarrow> ''stale'' | Unavailable \<Rightarrow> ''unavailable''
     | InvalidCheck \<Rightarrow> ''invalid'' | Unsupported \<Rightarrow> ''unsupported'')"

definition itemStatusStr :: "item_status \<Rightarrow> string" where
  "itemStatusStr s = (case s of ItemStatus c \<Rightarrow> checkStatusStr c | ItemNotApplicable \<Rightarrow> ''not_applicable'')"

definition itemKindStr :: "item_kind \<Rightarrow> string" where
  "itemKindStr k = (case k of TargetItem \<Rightarrow> ''target'' | SupportingItem \<Rightarrow> ''supporting'')"

record freshness_item =
  fi_id :: string
  fi_kind :: item_kind
  fi_status :: item_status
  fi_safe_code :: string
  fi_expected_version_digest :: "string option"
  fi_observed_version_digest :: "string option"

record freshness_proof =
  fp_proposal_id :: string
  fp_proposal_hash :: string
  fp_proposal_version :: int
  fp_dependency_set_digest :: string
  fp_checked_at :: time
  fp_valid_until :: time
  fp_checked_at_text :: string
  fp_valid_until_text :: string
  fp_source_adapters :: "(string \<times> engine) list"
  fp_result :: check_status
  fp_safe_code :: string
  fp_target_count :: int
  fp_supporting_count :: int
  fp_checks :: "freshness_item list"
  fp_proof_digest :: string

definition freshnessItemShape :: "freshness_item \<Rightarrow> bool" where
  "freshnessItemShape i \<longleftrightarrow> lengthBetween 1 160 (fi_id i) \<and> safeCodeName (fi_safe_code i)
     \<and> optAll sha256Prefixed (fi_expected_version_digest i)
     \<and> optAll sha256Prefixed (fi_observed_version_digest i)"

definition freshnessItemJson :: "freshness_item \<Rightarrow> json" where
  "freshnessItemJson i = JObj ([(''id'', JStr (fi_id i)), (''kind'', JStr (itemKindStr (fi_kind i))),
     (''status'', JStr (itemStatusStr (fi_status i))), (''safe_code'', JStr (fi_safe_code i))]
     @ optField ''expected_version_digest'' JStr (fi_expected_version_digest i)
     @ optField ''observed_version_digest'' JStr (fi_observed_version_digest i))"

definition freshnessProofShape :: "runtime \<Rightarrow> freshness_proof \<Rightarrow> bool" where
  "freshnessProofShape rt p \<longleftrightarrow> fp_proposal_id p \<noteq> [] \<and> sha256Prefixed (fp_proposal_hash p)
     \<and> 0 < fp_proposal_version p \<and> sha256Prefixed (fp_dependency_set_digest p)
     \<and> dateParse rt (fp_checked_at_text p) = Some (fp_checked_at p)
     \<and> dateParse rt (fp_valid_until_text p) = Some (fp_valid_until p)
     \<and> lengthBetween 1 8 (fp_source_adapters p)
     \<and> (\<forall>a \<in> set (fp_source_adapters p). lengthBetween 1 160 (fst a))
     \<and> safeCodeName (fp_safe_code p)
     \<and> 0 \<le> fp_target_count p \<and> fp_target_count p \<le> 100
     \<and> 0 \<le> fp_supporting_count p \<and> fp_supporting_count p \<le> 16
     \<and> length (fp_checks p) \<le> 116 \<and> (\<forall>i \<in> set (fp_checks p). freshnessItemShape i)
     \<and> sha256Prefixed (fp_proof_digest p)"

definition proofUnsignedJson :: "freshness_proof \<Rightarrow> srow" where
  "proofUnsignedJson p = [
     (''schema_version'', JStr ''synapsor.freshness-proof.v1''),
     (''proposal_id'', JStr (fp_proposal_id p)), (''proposal_hash'', JStr (fp_proposal_hash p)),
     (''proposal_version'', JNum (IntN (fp_proposal_version p))),
     (''dependency_set_digest'', JStr (fp_dependency_set_digest p)),
     (''checked_at'', JStr (fp_checked_at_text p)), (''valid_until'', JStr (fp_valid_until_text p)),
     (''source_adapters'', JArr (map (\<lambda>(s, e). JObj [(''source_id'', JStr s),
        (''engine'', JStr (engineStr e))]) (fp_source_adapters p))),
     (''result'', JStr (checkStatusStr (fp_result p))), (''safe_code'', JStr (fp_safe_code p)),
     (''target_count'', JNum (IntN (fp_target_count p))),
     (''supporting_count'', JNum (IntN (fp_supporting_count p))),
     (''checks'', JArr (map freshnessItemJson (fp_checks p)))]"

definition freshnessProofIssues :: "runtime \<Rightarrow> freshness_proof \<Rightarrow> string list" where
  "freshnessProofIssues rt p =
     issueIf (fp_valid_until p < fp_checked_at p)
       ''freshness proof validity ends before it was checked''
   @ issueIf (int (length (filter (\<lambda>c. fi_kind c = TargetItem) (fp_checks p))) \<noteq> fp_target_count p)
       ''freshness target count mismatch''
   @ issueIf (int (length (filter (\<lambda>c. fi_kind c = SupportingItem) (fp_checks p)))
        \<noteq> fp_supporting_count p) ''freshness supporting count mismatch''
   @ issueIf (digestOf rt (JObj (proofUnsignedJson p)) \<noteq> fp_proof_digest p)
       ''freshness proof digest mismatch''"

definition parseFreshnessProof :: "runtime \<Rightarrow> freshness_proof \<Rightarrow> freshness_proof result" where
  "parseFreshnessProof rt p = zodParse (freshnessProofShape rt p) (freshnessProofIssues rt p) p"

end
