(* ===== verification/ChangeSets.thy ===== *)
theory ChangeSets
  imports Protocol Complex_Main
begin

text \<open>
  The four change-set schemas of \<open>packages/protocol/src/index.ts\<close>, their frozen sets and inverse
  descriptors, and \<open>parseChangeSet\<close>.  The lemmas at the end state what a parsed change set
  guarantees: what it may write, that its guards are present, and that its frozen set is ordered,
  duplicate-free and within its bounds.
\<close>

subsection \<open>Guards, frozen sets and inverse descriptors\<close>

datatype dedup_source = DedupProposalId | DedupTrustedTenant | DedupFixed

record dedup_component =
  dc_column :: string
  dc_value :: json
  dc_source :: dedup_source

datatype version_strategy = IntegerIncrement | DatabaseGenerated

record version_advance =
  va_column :: string
  va_strategy :: version_strategy

datatype bound_measure = BeforeMeasure | AfterMeasure | AbsoluteDelta

record aggregate_bound =
  ab_column :: string
  ab_measure :: bound_measure
  ab_maximum :: rat
  ab_actual :: rat

record frozen_member =
  fm_primary_key :: column_value
  fm_expected_version :: "column_value option"
  fm_before :: srow
  fm_after :: srow
  fm_before_digest :: "string option"
  fm_after_digest :: "string option"
  fm_tombstone_digest :: "string option"
  fm_deduplication :: "dedup_component list option"

record frozen_set =
  fs_max_rows :: int
  fs_row_count :: int
  fs_aggregate_bounds :: "aggregate_bound list"
  fs_members :: "frozen_member list"
  fs_set_digest :: string

definition dedupShape :: "dedup_component list \<Rightarrow> bool" where
  "dedupShape cs \<longleftrightarrow> lengthBetween 1 8 cs
     \<and> (\<forall>c \<in> set cs. safeIdentifier (dc_column c) \<and> scalarShape (dc_value c))"

definition aggregateBoundShape :: "aggregate_bound \<Rightarrow> bool" where
  "aggregateBoundShape b \<longleftrightarrow> safeIdentifier (ab_column b) \<and> 0 \<le> ab_maximum b \<and> 0 \<le> ab_actual b"

definition frozenMemberShape :: "frozen_member \<Rightarrow> bool" where
  "frozenMemberShape m \<longleftrightarrow> columnValueShape (fm_primary_key m)
     \<and> optAll columnValueShape (fm_expected_version m)
     \<and> boundedScalarRecordShape (fm_before m) \<and> boundedScalarRecordShape (fm_after m)
     \<and> optAll sha256Prefixed (fm_before_digest m) \<and> optAll sha256Prefixed (fm_after_digest m)
     \<and> optAll sha256Prefixed (fm_tombstone_digest m) \<and> optAll dedupShape (fm_deduplication m)"

definition frozenSetShape :: "frozen_set \<Rightarrow> bool" where
  "frozenSetShape s \<longleftrightarrow> 1 \<le> fs_max_rows s \<and> fs_max_rows s \<le> 100
     \<and> 1 \<le> fs_row_count s \<and> fs_row_count s \<le> 100
     \<and> lengthBetween 1 8 (fs_aggregate_bounds s) \<and> (\<forall>b \<in> set (fs_aggregate_bounds s). aggregateBoundShape b)
     \<and> lengthBetween 1 100 (fs_members s) \<and> (\<forall>m \<in> set (fs_members s). frozenMemberShape m)
     \<and> sha256Prefixed (fs_set_digest s)"

definition memberIdentity :: "frozen_member \<Rightarrow> string" where
  "memberIdentity m = jsonStringify (cv_value (fm_primary_key m))"

text \<open>\<open>identities.some((value, index) => index > 0 && identities[index - 1].localeCompare(value) > 0)\<close>\<close>

fun someDescent :: "runtime \<Rightarrow> string list \<Rightarrow> bool" where
  "someDescent rt (a # b # xs) = (localeCompare rt a b > 0 \<or> someDescent rt (b # xs))"
| "someDescent rt _ = False"

definition frozenSetIssues :: "runtime \<Rightarrow> frozen_set \<Rightarrow> string list" where
  "frozenSetIssues rt s = (let identities = map memberIdentity (fs_members s) in
     issueIf (int (length (fs_members s)) \<noteq> fs_row_count s \<or> fs_row_count s > fs_max_rows s)
       ''frozen set count must equal members and remain within max_rows''
   @ concat (map (\<lambda>b. issueIf (ab_actual b > ab_maximum b)
       ''frozen set aggregate exceeds reviewed maximum'') (fs_aggregate_bounds s))
   @ issueIf (hasDuplicates identities) ''frozen set primary keys must be unique''
   @ issueIf (someDescent rt identities)
       ''frozen set members must use deterministic primary-key ordering'')"

datatype availability = Available | BestEffortUnavailable
datatype reversal_operation = RestoreUpdate | RemoveInsert | RestoreInsert
datatype cardinality = SingleRow | SetOfRows

record reversal_lineage =
  rl_root_proposal_id :: string
  rl_parent_proposal_id :: string
  rl_reverts_proposal_id :: string
  rl_depth :: int

record inverse_member =
  im_primary_key :: column_value
  im_expected_state :: srow
  im_restore_values :: "srow option"

record inverse_descriptor =
  id_availability :: availability
  id_reason_codes :: "string list"
  id_operation :: reversal_operation
  id_cardinality :: cardinality
  id_forward_proposal_id :: string
  id_forward_writeback_job_id :: string
  id_source_id :: string
  id_schema :: string
  id_table :: string
  id_primary_key_column :: string
  id_tenant_guard :: column_value
  id_principal_scope :: "principal_scope option"
  id_allowed_columns :: "string list"
  id_members :: "inverse_member list"
  id_max_rows :: int
  id_aggregate_bounds :: "aggregate_bound list"
  id_version_advance :: "version_advance option"
  id_lineage :: reversal_lineage

definition lineageShape :: "reversal_lineage \<Rightarrow> bool" where
  "lineageShape l \<longleftrightarrow> rl_root_proposal_id l \<noteq> [] \<and> rl_parent_proposal_id l \<noteq> []
     \<and> rl_reverts_proposal_id l \<noteq> [] \<and> 1 \<le> rl_depth l \<and> rl_depth l \<le> 16"

definition inverseMemberShape :: "inverse_member \<Rightarrow> bool" where
  "inverseMemberShape m \<longleftrightarrow> columnValueShape (im_primary_key m)
     \<and> boundedScalarRecordShape (im_expected_state m)
     \<and> optAll boundedScalarRecordShape (im_restore_values m)"

definition inverseDescriptorShape :: "inverse_descriptor \<Rightarrow> bool" where
  "inverseDescriptorShape d \<longleftrightarrow> length (id_reason_codes d) \<le> 8
     \<and> (\<forall>c \<in> set (id_reason_codes d). safeCodeName c)
     \<and> id_forward_proposal_id d \<noteq> [] \<and> id_forward_writeback_job_id d \<noteq> []
     \<and> id_source_id d \<noteq> [] \<and> safeIdentifier (id_schema d) \<and> safeIdentifier (id_table d)
     \<and> safeIdentifier (id_primary_key_column d) \<and> columnValueShape (id_tenant_guard d)
     \<and> optAll principalScopeShape (id_principal_scope d)
     \<and> length (id_allowed_columns d) \<le> 256 \<and> (\<forall>c \<in> set (id_allowed_columns d). safeIdentifier c)
     \<and> lengthBetween 1 100 (id_members d) \<and> (\<forall>m \<in> set (id_members d). inverseMemberShape m)
     \<and> 1 \<le> id_max_rows d \<and> id_max_rows d \<le> 100
     \<and> length (id_aggregate_bounds d) \<le> 8 \<and> (\<forall>b \<in> set (id_aggregate_bounds d). aggregateBoundShape b)
     \<and> optAll (\<lambda>v. safeIdentifier (va_column v)) (id_version_advance d) \<and> lineageShape (id_lineage d)"

definition inverseMemberIssues :: "inverse_descriptor \<Rightarrow> inverse_member \<Rightarrow> string list" where
  "inverseMemberIssues d m =
     (let noRestore = (im_restore_values m = None \<or> im_restore_values m = Some []);
          available = (id_availability d = Available)
      in issueIf (cv_column (im_primary_key m) \<noteq> id_primary_key_column d)
           ''inverse member primary key must match target''
       @ issueIf (available \<and> id_operation d = RestoreUpdate
           \<and> (noRestore \<or> im_expected_state m = []))
           ''restore_update requires expected state and restore values''
       @ issueIf (available \<and> id_operation d = RemoveInsert
           \<and> (im_restore_values m \<noteq> None \<or> im_expected_state m = []))
           ''remove_insert requires expected state and no restore values''
       @ issueIf (available \<and> id_operation d = RestoreInsert
           \<and> (noRestore \<or> im_expected_state m \<noteq> []))
           ''restore_insert requires an absent expected state and exact restore values'')"

definition inverseDescriptorIssues :: "runtime \<Rightarrow> inverse_descriptor \<Rightarrow> string list" where
  "inverseDescriptorIssues rt d =
     (let identities = map (\<lambda>m. jsonStringify (cv_value (im_primary_key m))) (id_members d)
      in optIssues (principalScopeIssues rt) (id_principal_scope d)
       @ issueIf (int (length (id_members d)) > id_max_rows d) ''inverse members exceed max_rows''
       @ issueIf (hasDuplicates identities) ''inverse primary keys must be unique''
       @ issueIf (someDescent rt identities)
           ''inverse members must use deterministic primary-key ordering''
       @ concat (map (inverseMemberIssues d) (id_members d))
       @ issueIf (id_operation d = RestoreUpdate
           \<and> map_option va_strategy (id_version_advance d) \<noteq> Some IntegerIncrement)
           ''restore_update requires integer version advancement''
       @ issueIf (id_operation d \<noteq> RestoreUpdate \<and> id_version_advance d \<noteq> None)
           ''version advancement is valid only for restore_update''
       @ issueIf (id_availability d = Available \<and> id_reason_codes d \<noteq> [])
           ''available inverse must not carry unavailability reasons''
       @ issueIf (id_availability d = BestEffortUnavailable \<and> id_reason_codes d = [])
           ''unavailable inverse requires specific reason codes'')"

subsection \<open>Change sets\<close>

datatype cs_mode = ReadOnlyMode | ShadowMode | ReviewRequired | ApprovedForWriteback
datatype principal_source = TrustedSession | CloudSession | PrincipalEnvironment | PrincipalStaticDev
datatype source_kind = ExternalPostgres | ExternalMysql | SynapsorTable
datatype approval_status = ApprovalPending | ApprovalApproved | ApprovalRejected | ApprovalCanceled
datatype wb_status = NotApplied | WbPendingWorker | WbApplied | WbConflict | WbFailed | WbCanceled
  | WbReconciliationRequired
datatype wb_mode = TrustedWorkerRequired | SynapsorMerge | WbReadOnly
datatype row_operation = SingleRowUpdate | SingleRowInsert | SingleRowDelete
datatype set_operation = SetUpdate | SetDelete | BatchInsert

record contract_provenance =
  cp_digest :: string
  cp_version :: string

datatype cs_body =
    BodyV1
  | BodyV2 row_operation "reversal_lineage option"
  | BodyV3 set_operation frozen_set "reversal_lineage option"
  | BodyCompensation inverse_descriptor string

record change_set =
  cs_proposal_id :: string
  cs_proposal_version :: int
  cs_action :: string
  cs_contract :: "contract_provenance option"
  cs_mode :: cs_mode
  cs_principal_id :: string
  cs_principal_source :: principal_source
  cs_tenant_id :: string
  cs_business_object :: string
  cs_object_id :: string
  cs_source_kind :: source_kind
  cs_source_id :: string
  cs_schema :: string
  cs_table :: string
  cs_pk_column :: string
  cs_pk_value :: "json option"
  cs_before :: srow
  cs_patch :: srow
  cs_after :: srow
  cs_tenant :: column_value
  cs_principal_scope :: "principal_scope option"
  cs_allowed_columns :: "string list"
  cs_expected_version :: "column_value option"
  cs_version_advance :: "version_advance option"
  cs_deduplication :: "dedup_component list option"
  cs_freshness :: "freshness_authority option"
  cs_bundle_id :: string
  cs_query_fingerprint :: string
  cs_evidence_items :: "json list"
  cs_approval_status :: approval_status
  cs_approval_mode :: "string option"
  cs_required_role :: "string option"
  cs_required_approvals :: "int option"
  cs_wb_status :: wb_status
  cs_wb_mode :: wb_mode
  cs_wb_executor :: "string option"
  cs_source_database_mutated :: bool
  cs_proposal_hash :: string
  cs_created_at :: string
  cs_body :: cs_body

definition sourceEngine :: "source_kind \<Rightarrow> engine option" where
  "sourceEngine k = (case k of ExternalPostgres \<Rightarrow> Some Postgres | ExternalMysql \<Rightarrow> Some Mysql
     | SynapsorTable \<Rightarrow> None)"

definition validateFreshnessBinding ::
  "freshness_authority option \<Rightarrow> string \<Rightarrow> engine option \<Rightarrow> target_mode \<Rightarrow> int \<Rightarrow> string list" where
  "validateFreshnessBinding freshness sourceId eng expectedMode expectedCount =
     (case freshness of
        None \<Rightarrow> []
      | Some f \<Rightarrow> (case eng of
          None \<Rightarrow> [''freshness authority requires an external PostgreSQL or MySQL source'']
        | Some e \<Rightarrow>
            issueIf (fa_target_mode f \<noteq> expectedMode \<or> fa_member_count f \<noteq> expectedCount)
              ''freshness target authority mismatch''
          @ concat (map (\<lambda>d. issueIf (fd_source_id d \<noteq> sourceId \<or> fd_engine d \<noteq> e)
              ''freshness dependencies must use the proposal/writeback source and engine'')
              (fa_dependencies f))))"

text \<open>The checks every version makes on its envelope.\<close>

definition changeSetEnvelopeShape :: "change_set \<Rightarrow> bool" where
  "changeSetEnvelopeShape c \<longleftrightarrow> cs_proposal_id c \<noteq> [] \<and> 0 < cs_proposal_version c \<and> cs_action c \<noteq> []
     \<and> optAll (\<lambda>k. sha256Prefixed (cp_digest k) \<and> lengthBetween 1 128 (cp_version k)) (cs_contract c)
     \<and> cs_principal_id c \<noteq> [] \<and> cs_tenant_id c \<noteq> [] \<and> cs_business_object c \<noteq> []
     \<and> cs_object_id c \<noteq> [] \<and> cs_source_id c \<noteq> [] \<and> safeIdentifier (cs_pk_column c)
     \<and> optAll scalarShape (cs_pk_value c) \<and> columnValueShape (cs_tenant c)
     \<and> optAll principalScopeShape (cs_principal_scope c)
     \<and> optAll columnValueShape (cs_expected_version c)
     \<and> optAll freshnessAuthorityShape (cs_freshness c)
     \<and> cs_bundle_id c \<noteq> [] \<and> sha256Prefixed (cs_query_fingerprint c)
     \<and> optAll (\<lambda>n. 1 \<le> n \<and> n \<le> 10) (cs_required_approvals c)
     \<and> sha256Prefixed (cs_proposal_hash c) \<and> cs_created_at c \<noteq> []"

definition commonIssues :: "runtime \<Rightarrow> change_set \<Rightarrow> string list" where
  "commonIssues rt c = optIssues (principalScopeIssues rt) (cs_principal_scope c)
     @ optIssues (freshnessAuthorityIssues rt) (cs_freshness c)"

definition patchAllowlistIssues :: "change_set \<Rightarrow> string list" where
  "patchAllowlistIssues c =
     concat (map (\<lambda>k. issueIf (k \<notin> set (cs_allowed_columns c)) (''patch column not allowed: '' @ k))
       (map fst (cs_patch c)))"

definition principalScopeAllowlistIssues :: "change_set \<Rightarrow> string list" where
  "principalScopeAllowlistIssues c = issueIf
     (\<exists>p \<in> set_option (cs_principal_scope c). ps_column p \<in> set (cs_allowed_columns c))
     ''principal scope column must not be patch-allowlisted''"

definition identityAllowlistIssues :: "change_set \<Rightarrow> string list" where
  "identityAllowlistIssues c =
     issueIf (cs_pk_column c \<in> set (cs_allowed_columns c))
       ''primary key column must not be patch-allowlisted''
   @ issueIf (cv_column (cs_tenant c) \<in> set (cs_allowed_columns c))
       ''tenant guard column must not be patch-allowlisted''
   @ principalScopeAllowlistIssues c"

definition changeSetV1Shape :: "change_set \<Rightarrow> bool" where
  "changeSetV1Shape c \<longleftrightarrow> changeSetEnvelopeShape c \<and> cs_schema c \<noteq> [] \<and> cs_table c \<noteq> []
     \<and> cs_pk_value c \<noteq> None \<and> scalarMapShape (cs_before c) \<and> scalarMapShape (cs_patch c)
     \<and> scalarMapShape (cs_after c) \<and> cs_allowed_columns c \<noteq> []
     \<and> (\<forall>k \<in> set (cs_allowed_columns c). k \<noteq> []) \<and> cs_expected_version c \<noteq> None
     \<and> cs_wb_status c \<noteq> WbReconciliationRequired"

definition changeSetV1Issues :: "runtime \<Rightarrow> change_set \<Rightarrow> string list" where
  "changeSetV1Issues rt c = commonIssues rt c
     @ validateFreshnessBinding (cs_freshness c) (cs_source_id c) (sourceEngine (cs_source_kind c))
         ExactGuard 1
     @ patchAllowlistIssues c @ identityAllowlistIssues c"

definition changeSetV2Shape :: "change_set \<Rightarrow> bool" where
  "changeSetV2Shape c \<longleftrightarrow> changeSetEnvelopeShape c
     \<and> safeIdentifier (cs_schema c) \<and> safeIdentifier (cs_table c)
     \<and> boundedScalarRecordShape (cs_before c) \<and> boundedScalarRecordShape (cs_patch c)
     \<and> boundedScalarRecordShape (cs_after c)
     \<and> length (cs_allowed_columns c) \<le> 256 \<and> (\<forall>k \<in> set (cs_allowed_columns c). safeIdentifier k)
     \<and> optAll (\<lambda>v. safeIdentifier (va_column v)) (cs_version_advance c)
     \<and> optAll dedupShape (cs_deduplication c)
     \<and> (case cs_body c of BodyV2 _ l \<Rightarrow> optAll lineageShape l | _ \<Rightarrow> False)
     \<and> length (cs_evidence_items c) \<le> 1000"

definition insertIssues :: "change_set \<Rightarrow> string list" where
  "insertIssues c =
     issueIf (cs_before c \<noteq> []) ''INSERT before must be empty''
   @ (case cs_deduplication c of
        None \<Rightarrow> [''INSERT requires source-enforced deduplication'']
      | Some ds \<Rightarrow>
          issueIf (\<not> (\<exists>d \<in> set ds. dc_source d = DedupProposalId))
            ''INSERT deduplication requires proposal identity''
        @ issueIf (\<not> (\<exists>d \<in> set ds. dc_source d = DedupTrustedTenant
              \<and> dc_column d = cv_column (cs_tenant c) \<and> dc_value d = cv_value (cs_tenant c)))
            ''INSERT deduplication requires the trusted tenant guard'')
   @ issueIf (cs_expected_version c \<noteq> None \<or> cs_version_advance c \<noteq> None)
       ''INSERT must not declare version guards''"

definition nonInsertIssues :: "change_set \<Rightarrow> string list" where
  "nonInsertIssues c =
     issueIf (cs_before c = []) ''UPDATE and DELETE require reviewed before data''
   @ issueIf (\<not> truthy (cs_pk_value c)) ''UPDATE and DELETE require a primary-key value''
   @ issueIf (cs_expected_version c = None) ''UPDATE and DELETE require an exact version guard''
   @ issueIf (cs_deduplication c \<noteq> None) ''deduplication is only valid for INSERT''"

definition changeSetV2Issues :: "runtime \<Rightarrow> row_operation \<Rightarrow> change_set \<Rightarrow> string list" where
  "changeSetV2Issues rt op c = commonIssues rt c
     @ validateFreshnessBinding (cs_freshness c) (cs_source_id c) (sourceEngine (cs_source_kind c))
         (if op = SingleRowInsert then NotApplicable else ExactGuard)
         (if op = SingleRowInsert then 0 else 1)
     @ patchAllowlistIssues c @ identityAllowlistIssues c
     @ (if op = SingleRowInsert then insertIssues c else nonInsertIssues c)
     @ (if op = SingleRowUpdate then
          issueIf (cs_patch c = []) ''UPDATE patch must not be empty''
        @ issueIf (cs_after c = []) ''UPDATE after must not be empty'' else [])
     @ (if op = SingleRowDelete then
          issueIf (cs_patch c \<noteq> [] \<or> cs_after c \<noteq> [] \<or> cs_allowed_columns c \<noteq> [])
            ''DELETE has no patch, after row, or writable columns''
        @ issueIf (cs_version_advance c \<noteq> None) ''DELETE must not advance a version'' else [])"

definition changeSetV3Shape :: "change_set \<Rightarrow> bool" where
  "changeSetV3Shape c \<longleftrightarrow> changeSetEnvelopeShape c
     \<and> safeIdentifier (cs_schema c) \<and> safeIdentifier (cs_table c)
     \<and> boundedScalarRecordShape (cs_before c) \<and> boundedScalarRecordShape (cs_patch c)
     \<and> boundedScalarRecordShape (cs_after c)
     \<and> length (cs_allowed_columns c) \<le> 256 \<and> (\<forall>k \<in> set (cs_allowed_columns c). safeIdentifier k)
     \<and> optAll (\<lambda>v. safeIdentifier (va_column v)) (cs_version_advance c)
     \<and> (case cs_body c of BodyV3 _ fs l \<Rightarrow> frozenSetShape fs \<and> optAll lineageShape l | _ \<Rightarrow> False)
     \<and> length (cs_evidence_items c) \<le> 100
     \<and> (cs_approval_mode c = Some ''human'' \<or> cs_approval_mode c = Some ''operator'')
     \<and> optAll (\<lambda>r. r \<noteq> []) (cs_required_role c)
     \<and> cs_wb_mode c = TrustedWorkerRequired \<and> cs_wb_executor c = Some ''sql_update''"

definition setMemberIssues :: "set_operation \<Rightarrow> string \<Rightarrow> frozen_member \<Rightarrow> string list" where
  "setMemberIssues op pk m =
     issueIf (cv_column (fm_primary_key m) \<noteq> pk) ''member primary key column must match source''
   @ (case op of
        SetUpdate \<Rightarrow> issueIf (fm_expected_version m = None \<or> fm_before_digest m = None
            \<or> fm_after_digest m = None \<or> fm_tombstone_digest m \<noteq> None \<or> fm_deduplication m \<noteq> None)
            ''set UPDATE members require version and before/after digests''
      | SetDelete \<Rightarrow> issueIf (fm_expected_version m = None \<or> fm_before_digest m = None
            \<or> fm_tombstone_digest m = None \<or> fm_after m \<noteq> [] \<or> fm_after_digest m \<noteq> None
            \<or> fm_deduplication m \<noteq> None)
            ''set DELETE members require version and tombstone''
      | BatchInsert \<Rightarrow> issueIf (fm_expected_version m \<noteq> None \<or> fm_before m \<noteq> []
            \<or> fm_before_digest m \<noteq> None \<or> fm_after_digest m = None \<or> fm_deduplication m = None)
            ''batch INSERT members require exact after data and deduplication'')"

definition changeSetV3Issues ::
  "runtime \<Rightarrow> set_operation \<Rightarrow> frozen_set \<Rightarrow> change_set \<Rightarrow> string list" where
  "changeSetV3Issues rt op fs c = commonIssues rt c @ frozenSetIssues rt fs
     @ validateFreshnessBinding (cs_freshness c) (cs_source_id c) (sourceEngine (cs_source_kind c))
         (if op = BatchInsert then NotApplicable else FrozenSetMode)
         (if op = BatchInsert then 0 else fs_row_count fs)
     @ issueIf (cs_pk_value c \<noteq> None \<or> cs_expected_version c \<noteq> None)
         ''set guards live on frozen members, not the top-level envelope''
     @ patchAllowlistIssues c @ principalScopeAllowlistIssues c
     @ concat (map (setMemberIssues op (cs_pk_column c)) (fs_members fs))
     @ issueIf (op \<noteq> SetUpdate \<and> cs_version_advance c \<noteq> None)
         ''version advance is valid only for set UPDATE''
     @ issueIf (op = SetDelete \<and> cs_allowed_columns c \<noteq> []) ''set DELETE has no allowed write columns''"

definition compensationShape :: "change_set \<Rightarrow> bool" where
  "compensationShape c \<longleftrightarrow> changeSetEnvelopeShape c \<and> cs_mode c = ReviewRequired
     \<and> cs_source_kind c \<noteq> SynapsorTable
     \<and> safeIdentifier (cs_schema c) \<and> safeIdentifier (cs_table c)
     \<and> boundedScalarRecordShape (cs_before c) \<and> boundedScalarRecordShape (cs_patch c)
     \<and> boundedScalarRecordShape (cs_after c)
     \<and> (case cs_body c of BodyCompensation d h \<Rightarrow> inverseDescriptorShape d \<and> sha256Prefixed h | _ \<Rightarrow> False)
     \<and> length (cs_allowed_columns c) \<le> 256 \<and> (\<forall>k \<in> set (cs_allowed_columns c). safeIdentifier k)
     \<and> length (cs_evidence_items c) \<le> 100
     \<and> (cs_approval_mode c = Some ''human'' \<or> cs_approval_mode c = Some ''operator'')
     \<and> optAll (\<lambda>r. r \<noteq> []) (cs_required_role c)
     \<and> cs_wb_status c = NotApplied \<and> cs_wb_mode c = TrustedWorkerRequired
     \<and> cs_wb_executor c = Some ''sql_update'' \<and> \<not> cs_source_database_mutated c"

definition compensationIssues :: "runtime \<Rightarrow> inverse_descriptor \<Rightarrow> change_set \<Rightarrow> string list" where
  "compensationIssues rt d c = commonIssues rt c @ inverseDescriptorIssues rt d
     @ issueIf (id_availability d \<noteq> Available) ''compensation proposal requires an available inverse''
     @ issueIf (id_source_id d \<noteq> cs_source_id c \<or> id_schema d \<noteq> cs_schema c
         \<or> id_table d \<noteq> cs_table c \<or> id_primary_key_column d \<noteq> cs_pk_column c)
         ''compensation descriptor target must match proposal source''
     @ issueIf (cv_column (id_tenant_guard d) \<noteq> cv_column (cs_tenant c)
         \<or> cv_value (id_tenant_guard d) \<noteq> cv_value (cs_tenant c)
         \<or> cv_value (id_tenant_guard d) \<noteq> JStr (cs_tenant_id c))
         ''compensation tenant authority must match trusted proposal scope''
     @ issueIf (id_principal_scope d \<noteq> cs_principal_scope c)
         ''compensation principal authority must match inverse descriptor''
     @ issueIf (id_allowed_columns d \<noteq> cs_allowed_columns c)
         ''compensation allowlist must match inverse descriptor''"

definition changeSetShape :: "change_set \<Rightarrow> bool" where
  "changeSetShape c = (case cs_body c of
      BodyV1 \<Rightarrow> changeSetV1Shape c | BodyV2 _ _ \<Rightarrow> changeSetV2Shape c
    | BodyV3 _ _ _ \<Rightarrow> changeSetV3Shape c | BodyCompensation _ _ \<Rightarrow> compensationShape c)"

definition changeSetIssues :: "runtime \<Rightarrow> change_set \<Rightarrow> string list" where
  "changeSetIssues rt c = (case cs_body c of
      BodyV1 \<Rightarrow> changeSetV1Issues rt c
    | BodyV2 op _ \<Rightarrow> changeSetV2Issues rt op c
    | BodyV3 op fs _ \<Rightarrow> changeSetV3Issues rt op fs c
    | BodyCompensation d _ \<Rightarrow> compensationIssues rt d c)"

text \<open>The union of the four schemas: \<open>schema_version\<close> decides which one can match.\<close>

definition parseChangeSet :: "runtime \<Rightarrow> change_set \<Rightarrow> change_set result" where
  "parseChangeSet rt c = zodParse (changeSetShape c) (changeSetIssues rt c) c"

subsection \<open>What a parsed change set guarantees\<close>

lemma parseChangeSet_id: "parseChangeSet rt c = Inr d \<Longrightarrow> d = c"
  by (simp add: parseChangeSet_def)

lemma patchAllowlist_iff:
  "patchAllowlistIssues c = [] \<longleftrightarrow> set (map fst (cs_patch c)) \<subseteq> set (cs_allowed_columns c)"
  by (auto simp: patchAllowlistIssues_def)

lemma identityAllowlist_iff:
  "identityAllowlistIssues c = [] \<longleftrightarrow> cs_pk_column c \<notin> set (cs_allowed_columns c)
     \<and> cv_column (cs_tenant c) \<notin> set (cs_allowed_columns c)
     \<and> (\<forall>p \<in> set_option (cs_principal_scope c). ps_column p \<notin> set (cs_allowed_columns c))"
  by (auto simp: identityAllowlistIssues_def principalScopeAllowlistIssues_def)

lemma frozenSetIssues_iff:
  "frozenSetIssues rt s = [] \<longleftrightarrow> int (length (fs_members s)) = fs_row_count s
     \<and> fs_row_count s \<le> fs_max_rows s
     \<and> (\<forall>b \<in> set (fs_aggregate_bounds s). ab_actual b \<le> ab_maximum b)
     \<and> distinct (map memberIdentity (fs_members s))
     \<and> \<not> someDescent rt (map memberIdentity (fs_members s))"
  by (auto simp: frozenSetIssues_def Let_def not_less)

lemma someDescent_sorted:
  assumes "\<And>a b c. localeLe rt a b \<Longrightarrow> localeLe rt b c \<Longrightarrow> localeLe rt a c"
  shows "\<not> someDescent rt xs \<longleftrightarrow> sorted_wrt (localeLe rt) xs"
proof (induction xs rule: induct_list012)
  case (3 a b xs)
  have "\<not> localeCompare rt a b > 0 \<longleftrightarrow> localeLe rt a b" by (simp add: localeCompare_def)
  with 3 show ?case by (auto intro: assms)
qed simp_all

text \<open>No accepted version lets a patch leave its allowlist.\<close>

lemma parsed_patch_allowed:
  assumes "parseChangeSet rt c = Inr d" and "\<And>i h. cs_body d \<noteq> BodyCompensation i h"
  shows "set (map fst (cs_patch d)) \<subseteq> set (cs_allowed_columns d)"
  using assms patchAllowlist_iff [of c]
  by (auto simp: parseChangeSet_def changeSetIssues_def changeSetV1Issues_def
      changeSetV2Issues_def changeSetV3Issues_def split: cs_body.splits)

lemma parsed_scope_column_protected:
  assumes "parseChangeSet rt c = Inr d" and "\<And>i h. cs_body d \<noteq> BodyCompensation i h"
    and "cs_principal_scope d = Some p"
  shows "ps_column p \<notin> set (cs_allowed_columns d)"
  using assms
  by (auto simp: parseChangeSet_def changeSetIssues_def changeSetV1Issues_def
      changeSetV2Issues_def changeSetV3Issues_def identityAllowlistIssues_def
      principalScopeAllowlistIssues_def split: cs_body.splits)

lemma parsed_single_row_identity:
  assumes "parseChangeSet rt c = Inr d" and "cs_body d = BodyV1 \<or> cs_body d = BodyV2 op l"
  shows "cs_pk_column d \<notin> set (cs_allowed_columns d)
       \<and> cv_column (cs_tenant d) \<notin> set (cs_allowed_columns d)"
  using assms identityAllowlist_iff [of c]
  by (auto simp: parseChangeSet_def changeSetIssues_def changeSetV1Issues_def changeSetV2Issues_def)

lemma parsed_row_guard:
  assumes "parseChangeSet rt c = Inr d" and "cs_body d = BodyV2 op l" and "op \<noteq> SingleRowInsert"
  shows "cs_expected_version d \<noteq> None \<and> truthy (cs_pk_value d) \<and> cs_before d \<noteq> []"
  using assms
  by (auto simp: parseChangeSet_def changeSetIssues_def changeSetV2Issues_def nonInsertIssues_def)

lemma parsed_insert_guard:
  assumes "parseChangeSet rt c = Inr d" and "cs_body d = BodyV2 SingleRowInsert l"
  shows "cs_before d = [] \<and> (\<exists>ds. cs_deduplication d = Some ds
     \<and> (\<exists>x \<in> set ds. dc_source x = DedupProposalId)
     \<and> (\<exists>x \<in> set ds. dc_source x = DedupTrustedTenant \<and> dc_value x = cv_value (cs_tenant d)))"
  using assms
  by (auto simp: parseChangeSet_def changeSetIssues_def changeSetV2Issues_def insertIssues_def
      split: option.splits)

lemma parsed_frozen_set:
  assumes "parseChangeSet rt c = Inr d" and "cs_body d = BodyV3 op fs l"
  shows "int (length (fs_members fs)) = fs_row_count fs \<and> fs_row_count fs \<le> fs_max_rows fs
     \<and> fs_max_rows fs \<le> 100 \<and> distinct (map memberIdentity (fs_members fs))
     \<and> \<not> someDescent rt (map memberIdentity (fs_members fs))
     \<and> (\<forall>b \<in> set (fs_aggregate_bounds fs). ab_actual b \<le> ab_maximum b)"
  using assms frozenSetIssues_iff [of rt fs]
  by (auto simp: parseChangeSet_def changeSetIssues_def changeSetV3Issues_def changeSetShape_def
      changeSetV3Shape_def frozenSetShape_def)

lemma setMemberIssues_update:
  "setMemberIssues op pk m = [] \<Longrightarrow> op \<noteq> BatchInsert \<Longrightarrow>
   fm_expected_version m \<noteq> None \<and> fm_before_digest m \<noteq> None \<and> cv_column (fm_primary_key m) = pk"
  by (cases op) (auto simp: setMemberIssues_def)

lemma parsed_set_members_guarded:
  assumes "parseChangeSet rt c = Inr d" and "cs_body d = BodyV3 op fs l" and "op \<noteq> BatchInsert"
    and "m \<in> set (fs_members fs)"
  shows "fm_expected_version m \<noteq> None \<and> fm_before_digest m \<noteq> None
     \<and> cv_column (fm_primary_key m) = cs_pk_column d"
proof -
  have "setMemberIssues op (cs_pk_column d) m = []"
    using assms by (auto simp: parseChangeSet_def changeSetIssues_def changeSetV3Issues_def)
  with assms(3) show ?thesis by (rule setMemberIssues_update [rotated])
qed

lemma parsed_compensation_authority:
  assumes "parseChangeSet rt c = Inr d" and "cs_body d = BodyCompensation i h"
  shows "id_availability i = Available \<and> id_tenant_guard i = cs_tenant d
     \<and> cv_value (cs_tenant d) = JStr (cs_tenant_id d)
     \<and> id_principal_scope i = cs_principal_scope d \<and> id_allowed_columns i = cs_allowed_columns d
     \<and> \<not> cs_source_database_mutated d \<and> cs_mode d = ReviewRequired"
  using assms
  by (auto simp: parseChangeSet_def changeSetIssues_def compensationIssues_def changeSetShape_def
      compensationShape_def)

lemma parsed_freshness:
  assumes "parseChangeSet rt c = Inr d" and "cs_freshness d = Some f"
    and "\<And>i h. cs_body d \<noteq> BodyCompensation i h"
  shows "\<exists>e. sourceEngine (cs_source_kind d) = Some e
     \<and> (\<forall>x \<in> set (fa_dependencies f). fd_source_id x = cs_source_id d \<and> fd_engine x = e)
     \<and> digestOf rt (authorityUnsignedJson f) = fa_dependency_set_digest f"
  using assms
  by (auto simp: parseChangeSet_def changeSetIssues_def changeSetV1Issues_def changeSetV2Issues_def
      changeSetV3Issues_def validateFreshnessBinding_def commonIssues_def
      freshnessAuthorityIssues_def split: cs_body.splits option.splits)

end
