(* ===== verification/Secrets.thy ===== *)
theory Secrets
  imports ChangeSets
begin

text \<open>
  \<open>assertNoSecretMaterial\<close> of \<open>packages/proposal-store/src/proposal-integrity.ts\<close>: the two patterns
  by which the store refuses secret-like keys and values, and the JSON form of a change set, over
  which the check runs before a proposal is stored.  The patterns are case-insensitive, so they are
  matched on the lower-cased text.
\<close>

subsection \<open>The patterns\<close>

definition lowerChar :: "char \<Rightarrow> char" where
  "lowerChar c = (if isUpper c then char_of (of_char c + 32 :: nat) else c)"

definition lowerCase :: "string \<Rightarrow> string" where
  "lowerCase = map lowerChar"

text \<open>The alternatives of \<open>secretKeyPattern\<close>, with \<open>[_-]?\<close> written out.\<close>

definition joined :: "string \<Rightarrow> string \<Rightarrow> string list" where
  "joined a b = [a @ b, a @ ''_'' @ b, a @ ''-'' @ b]"

definition secretWords :: "string list" where
  "secretWords = [''password'', ''passwd'', ''secret'', ''token''] @ joined ''api'' ''key''
     @ joined ''access'' ''key'' @ joined ''private'' ''key'' @ [''cookie'', ''credential'']
     @ joined ''connection'' ''string'' @ joined ''database'' ''url''
     @ joined ''read'' ''url'' @ joined ''write'' ''url''"

definition isSeparator :: "char \<Rightarrow> bool" where
  "isSeparator c \<longleftrightarrow> c = CHR ''_'' \<or> c = CHR ''-''"

definition wordAt :: "string \<Rightarrow> bool" where
  "wordAt s = list_ex (\<lambda>w. startsWith s w \<and>
     (case drop (length w) s of [] \<Rightarrow> True | c # _ \<Rightarrow> isSeparator c)) secretWords"

fun wordAfterSeparator :: "string \<Rightarrow> bool" where
  "wordAfterSeparator [] = False"
| "wordAfterSeparator (c # cs) = ((isSeparator c \<and> wordAt cs) \<or> wordAfterSeparator cs)"

definition secretKeyPattern :: "string \<Rightarrow> bool" where
  "secretKeyPattern k = (let s = lowerCase k in wordAt s \<or> wordAfterSeparator s)"

definition isTokenChar :: "char \<Rightarrow> bool" where
  "isTokenChar c \<longleftrightarrow> isUpper c \<or> isLower c \<or> isDigit c \<or> c \<in> set ''._~+/=-''"

definition tokenFollows :: "string \<Rightarrow> bool" where
  "tokenFollows s = (case s of [] \<Rightarrow> False | c # _ \<Rightarrow> isTokenChar c)"

fun privateKeyTail :: "string \<Rightarrow> bool" where
  "privateKeyTail [] = False"
| "privateKeyTail (c # cs) = (startsWith (c # cs) ''private key-----''
     \<or> ((isLower c \<or> c = CHR '' '') \<and> privateKeyTail cs))"

definition secretValueAt :: "string \<Rightarrow> bool" where
  "secretValueAt s \<longleftrightarrow>
     startsWith s ''postgres://'' \<or> startsWith s ''postgresql://'' \<or> startsWith s ''mysql://''
   \<or> (startsWith s ''bearer'' \<and> (case drop 6 s of [] \<Rightarrow> False
        | c # cs \<Rightarrow> isSpace c \<and> tokenFollows (dropWhile isSpace cs)))
   \<or> (startsWith s ''syn_wbr_'' \<and> tokenFollows (drop 8 s))
   \<or> (startsWith s ''-----begin '' \<and> privateKeyTail (drop 11 s))"

fun secretValueSearch :: "string \<Rightarrow> bool" where
  "secretValueSearch [] = False"
| "secretValueSearch (c # cs) = (secretValueAt (c # cs) \<or> secretValueSearch cs)"

definition secretValuePattern :: "string \<Rightarrow> bool" where
  "secretValuePattern v = secretValueSearch (lowerCase v)"

subsection \<open>The walk\<close>

definition secretRejected :: err where
  "secretRejected = ProposalStoreError ''SECRET_MATERIAL_REJECTED''"

fun assertNoSecretMaterial :: "json \<Rightarrow> unit result"
  and assertItems :: "json list \<Rightarrow> unit result"
  and assertEntries :: "(string \<times> json) list \<Rightarrow> unit result" where
  "assertNoSecretMaterial (JArr xs) = assertItems xs"
| "assertNoSecretMaterial (JObj es) = assertEntries es"
| "assertNoSecretMaterial (JStr s) = throwIf (secretValuePattern s) secretRejected"
| "assertNoSecretMaterial _ = Inr ()"
| "assertItems [] = Inr ()"
| "assertItems (x # xs) = bindE (assertNoSecretMaterial x) (\<lambda>_. assertItems xs)"
| "assertEntries [] = Inr ()"
| "assertEntries ((k, v) # es) = bindE (throwIf (secretKeyPattern k) secretRejected) (\<lambda>_.
     bindE (assertNoSecretMaterial v) (\<lambda>_. assertEntries es))"

text \<open>Every key and every string of a value, at any depth.\<close>

fun jsonKeys :: "json \<Rightarrow> string set" where
  "jsonKeys (JArr xs) = (\<Union>x \<in> set xs. jsonKeys x)"
| "jsonKeys (JObj es) = (\<Union>e \<in> set es. insert (fst e) (jsonKeys (snd e)))"
| "jsonKeys _ = {}"

fun jsonStrings :: "json \<Rightarrow> string set" where
  "jsonStrings (JArr xs) = (\<Union>x \<in> set xs. jsonStrings x)"
| "jsonStrings (JObj es) = (\<Union>e \<in> set es. jsonStrings (snd e))"
| "jsonStrings (JStr s) = {s}"
| "jsonStrings _ = {}"

definition secretFree :: "json \<Rightarrow> bool" where
  "secretFree j \<longleftrightarrow> (\<forall>k \<in> jsonKeys j. \<not> secretKeyPattern k)
     \<and> (\<forall>s \<in> jsonStrings j. \<not> secretValuePattern s)"

lemma assertNoSecret_aux:
  "assertNoSecretMaterial j = Inr () \<longleftrightarrow> secretFree j"
  "assertItems js = Inr () \<longleftrightarrow> (\<forall>j \<in> set js. secretFree j)"
  "assertEntries es = Inr () \<longleftrightarrow>
     (\<forall>e \<in> set es. \<not> secretKeyPattern (fst e) \<and> secretFree (snd e))"
  by (induction j and js and es
      rule: assertNoSecretMaterial_assertItems_assertEntries.induct)
    (auto simp: bindE_eq_Inr secretFree_def)

text \<open>The walk accepts exactly the values with no secret-like key or string at any depth.\<close>

lemma assertNoSecretMaterial_iff [simp]:
  "assertNoSecretMaterial j = Inr u \<longleftrightarrow> secretFree j"
  using assertNoSecret_aux(1) [of j] by simp

lemma assertNoSecretMaterial_error:
  "assertNoSecretMaterial j = Inl e \<Longrightarrow> e = secretRejected"
  "assertItems js = Inl e \<Longrightarrow> e = secretRejected"
  "assertEntries es = Inl e \<Longrightarrow> e = secretRejected"
  by (induction j and js and es
      rule: assertNoSecretMaterial_assertItems_assertEntries.induct)
    (auto simp: bindE_eq_Inl)

subsection \<open>The JSON form of a change set\<close>

text \<open>
  The object that \<open>createProposal\<close> walks.  Only the keys and strings a caller supplies can match a
  pattern; the enum fields are omitted, as their values are fixed words, and so are the numbers.
\<close>

definition versionJson :: "column_value option \<Rightarrow> srow" where
  "versionJson = optField ''expected_version'' columnValueJson"

definition principalScopeJson :: "principal_scope \<Rightarrow> json" where
  "principalScopeJson p = JObj ([(''column'', JStr (ps_column p)), (''binding'', JStr (ps_binding p)),
     (''provider'', JStr (providerStr (ps_provider p))),
     (''value_fingerprint'', JStr (ps_value_fingerprint p))] @ optField ''value'' id (ps_value p))"

definition dedupJson :: "dedup_component list \<Rightarrow> json" where
  "dedupJson cs = JObj [(''components'', JArr (map (\<lambda>c.
     JObj [(''column'', JStr (dc_column c)), (''value'', dc_value c)]) cs))]"

definition frozenMemberJson :: "frozen_member \<Rightarrow> json" where
  "frozenMemberJson m = JObj ([(''primary_key'', columnValueJson (fm_primary_key m))]
     @ versionJson (fm_expected_version m)
     @ [(''before'', JObj (fm_before m)), (''after'', JObj (fm_after m))]
     @ optField ''before_digest'' JStr (fm_before_digest m)
     @ optField ''after_digest'' JStr (fm_after_digest m)
     @ optField ''tombstone_digest'' JStr (fm_tombstone_digest m)
     @ optField ''deduplication'' dedupJson (fm_deduplication m))"

definition inverseMemberJson :: "inverse_member \<Rightarrow> json" where
  "inverseMemberJson m = JObj ([(''primary_key'', columnValueJson (im_primary_key m)),
     (''expected_state'', JObj (im_expected_state m))]
     @ optField ''restore_values'' JObj (im_restore_values m))"

definition inverseDescriptorJson :: "inverse_descriptor \<Rightarrow> json" where
  "inverseDescriptorJson d = JObj ([
     (''reason_codes'', JArr (map JStr (id_reason_codes d))),
     (''forward_proposal_id'', JStr (id_forward_proposal_id d)),
     (''forward_writeback_job_id'', JStr (id_forward_writeback_job_id d)),
     (''target'', JObj [(''source_id'', JStr (id_source_id d)), (''schema'', JStr (id_schema d)),
        (''table'', JStr (id_table d)), (''primary_key_column'', JStr (id_primary_key_column d))]),
     (''tenant_guard'', columnValueJson (id_tenant_guard d))]
     @ optField ''principal_scope'' principalScopeJson (id_principal_scope d)
     @ [(''allowed_columns'', JArr (map JStr (id_allowed_columns d))),
        (''members'', JArr (map inverseMemberJson (id_members d)))])"

definition bodyJson :: "cs_body \<Rightarrow> srow" where
  "bodyJson b = (case b of
      BodyV3 _ fs _ \<Rightarrow> [(''frozen_set'', JObj [(''members'', JArr (map frozenMemberJson (fs_members fs))),
         (''set_digest'', JStr (fs_set_digest fs))])]
    | BodyCompensation d h \<Rightarrow> [(''compensation'', JObj [(''descriptor'', inverseDescriptorJson d),
         (''forward_receipt_hash'', JStr h)])]
    | _ \<Rightarrow> [])"

definition changeSetJson :: "change_set \<Rightarrow> json" where
  "changeSetJson c = JObj ([
     (''proposal_id'', JStr (cs_proposal_id c)), (''action'', JStr (cs_action c)),
     (''principal'', JObj [(''id'', JStr (cs_principal_id c))]),
     (''scope'', JObj [(''tenant_id'', JStr (cs_tenant_id c)),
        (''business_object'', JStr (cs_business_object c)), (''object_id'', JStr (cs_object_id c))]),
     (''source'', JObj ([(''source_id'', JStr (cs_source_id c)), (''schema'', JStr (cs_schema c)),
        (''table'', JStr (cs_table c)), (''primary_key'', JObj ([(''column'', JStr (cs_pk_column c))]
           @ optField ''value'' id (cs_pk_value c)))])),
     (''before'', JObj (cs_before c)), (''patch'', JObj (cs_patch c)), (''after'', JObj (cs_after c)),
     (''guards'', JObj ([(''tenant'', columnValueJson (cs_tenant c))]
        @ optField ''principal_scope'' principalScopeJson (cs_principal_scope c)
        @ [(''allowed_columns'', JArr (map JStr (cs_allowed_columns c)))]
        @ versionJson (cs_expected_version c)
        @ optField ''deduplication'' dedupJson (cs_deduplication c))),
     (''evidence'', JObj [(''bundle_id'', JStr (cs_bundle_id c)),
        (''query_fingerprint'', JStr (cs_query_fingerprint c)), (''items'', JArr (cs_evidence_items c))]),
     (''approval'', JObj (optField ''required_role'' JStr (cs_required_role c))),
     (''integrity'', JObj [(''proposal_hash'', JStr (cs_proposal_hash c))]),
     (''created_at'', JStr (cs_created_at c))]
     @ optField ''contract'' (\<lambda>k. JObj [(''digest'', JStr (cp_digest k)),
         (''version'', JStr (cp_version k))]) (cs_contract c)
     @ optField ''freshness'' (\<lambda>f. JArr (map dependencyJson (fa_dependencies f))) (cs_freshness c)
     @ bodyJson (cs_body c))"

lemma secretFree_obj: "secretFree (JObj es) \<longleftrightarrow>
    (\<forall>e \<in> set es. \<not> secretKeyPattern (fst e) \<and> secretFree (snd e))"
  by (auto simp: secretFree_def)

lemma secretFree_str: "secretFree (JStr s) \<longleftrightarrow> \<not> secretValuePattern s"
  by (simp add: secretFree_def)

lemma secretFree_change_set:
  assumes "secretFree (changeSetJson c)"
    and "(k, v) \<in> set (cs_before c) \<union> set (cs_patch c) \<union> set (cs_after c)"
  shows "\<not> secretKeyPattern k" and "v = JStr s \<Longrightarrow> \<not> secretValuePattern s"
proof -
  have "secretFree (JObj (cs_before c))" "secretFree (JObj (cs_patch c))"
    "secretFree (JObj (cs_after c))"
    using assms(1) unfolding changeSetJson_def secretFree_obj [of "_ @ _"]
    by (simp_all add: secretFree_obj)
  with assms(2) have "\<not> secretKeyPattern k \<and> secretFree v" by (auto simp: secretFree_obj)
  then show "\<not> secretKeyPattern k" and "v = JStr s \<Longrightarrow> \<not> secretValuePattern s"
    by (simp_all add: secretFree_str)
qed

end
