(* ===== verification/Receipts.thy ===== *)
theory Receipts
  imports ChangeSets
begin

text \<open>
  Execution receipts and writeback results of \<open>packages/protocol/src/index.ts\<close>: the receipt schemas
  v1 to v4 with their refinements, the result schemas, and the conversions of
  \<open>packages/proposal-store/src/writeback-domain.ts\<close> (\<open>stateFromReceipt\<close>,
  \<open>receiptToWritebackResult\<close>).  The lemmas show that the conversion never fails on a parsed
  receipt and keeps its identity, status and row count.
\<close>

subsection \<open>Receipts\<close>

datatype operation = RowOp row_operation | SetOp set_operation | ReversalOp reversal_operation
datatype receipt_authority = SourceDb | RunnerLedger
datatype terminal_status = TApplied | TConflict | TFailed | TCanceled | TAlreadyApplied
  | TReconciliationRequired

definition terminalStatusStr :: "terminal_status \<Rightarrow> string" where
  "terminalStatusStr s = (case s of TApplied \<Rightarrow> ''applied'' | TConflict \<Rightarrow> ''conflict''
     | TFailed \<Rightarrow> ''failed'' | TCanceled \<Rightarrow> ''canceled'' | TAlreadyApplied \<Rightarrow> ''already_applied''
     | TReconciliationRequired \<Rightarrow> ''reconciliation_required'')"

definition operationStr :: "operation \<Rightarrow> string" where
  "operationStr op = (case op of
      RowOp SingleRowUpdate \<Rightarrow> ''single_row_update'' | RowOp SingleRowInsert \<Rightarrow> ''single_row_insert''
    | RowOp SingleRowDelete \<Rightarrow> ''single_row_delete'' | SetOp SetUpdate \<Rightarrow> ''set_update''
    | SetOp SetDelete \<Rightarrow> ''set_delete'' | SetOp BatchInsert \<Rightarrow> ''batch_insert''
    | ReversalOp RestoreUpdate \<Rightarrow> ''restore_update'' | ReversalOp RemoveInsert \<Rightarrow> ''remove_insert''
    | ReversalOp RestoreInsert \<Rightarrow> ''restore_insert'')"

record member_effect =
  me_primary_key :: column_value
  me_before_digest :: "string option"
  me_after_digest :: "string option"
  me_tombstone_digest :: "string option"

datatype receipt_version = ReceiptV1 | ReceiptV2 | ReceiptV3 | ReceiptV4

record receipt =
  rc_version :: receipt_version
  rc_writeback_job_id :: string
  rc_proposal_id :: string
  rc_proposal_hash :: string
  rc_approval_id :: string
  rc_runner_id :: string
  rc_operation :: operation
  rc_receipt_authority :: receipt_authority
  rc_status :: terminal_status
  rc_source_id :: string
  rc_schema :: string
  rc_table :: string
  rc_identities :: "column_value list"
  rc_set_digest :: string
  rc_rows_affected :: int
  rc_idempotency_key :: string
  rc_before_digest :: "string option"
  rc_after_digest :: "string option"
  rc_tombstone_digest :: "string option"
  rc_forward_receipt_hash :: string
  rc_member_effects :: "member_effect list"
  rc_new_version :: "json option"
  rc_source_database_mutated :: bool
  rc_safe_outcome_code :: string
  rc_safe_error_code :: "string option"
  rc_executed_at :: time
  rc_receipt_hash :: string
  rc_reconciliation :: "(string \<times> string) option"
  rc_inverse :: "inverse_descriptor option"

definition memberEffectShape :: "member_effect \<Rightarrow> bool" where
  "memberEffectShape m \<longleftrightarrow> columnValueShape (me_primary_key m)
     \<and> optAll sha256Prefixed (me_before_digest m) \<and> optAll sha256Prefixed (me_after_digest m)
     \<and> optAll sha256Prefixed (me_tombstone_digest m)"

definition receiptV1Shape :: "receipt \<Rightarrow> bool" where
  "receiptV1Shape r \<longleftrightarrow> rc_writeback_job_id r \<noteq> [] \<and> rc_proposal_id r \<noteq> [] \<and> rc_runner_id r \<noteq> []
     \<and> 0 \<le> rc_rows_affected r \<and> rc_idempotency_key r \<noteq> []
     \<and> optAll scalarShape (rc_new_version r) \<and> sha256Prefixed (rc_receipt_hash r)
     \<and> optAll (\<lambda>(i, w). i \<noteq> [] \<and> w \<noteq> []) (rc_reconciliation r)"

text \<open>The fields the versions 2 to 4 share.\<close>

definition receiptShape :: "receipt \<Rightarrow> bool" where
  "receiptShape r \<longleftrightarrow> receiptV1Shape r \<and> sha256Prefixed (rc_proposal_hash r) \<and> rc_approval_id r \<noteq> []
     \<and> rc_source_id r \<noteq> [] \<and> safeIdentifier (rc_schema r) \<and> safeIdentifier (rc_table r)
     \<and> (\<forall>i \<in> set (rc_identities r). columnValueShape i) \<and> safeCodeName (rc_safe_outcome_code r)
     \<and> optAll safeCodeName (rc_safe_error_code r) \<and> optAll inverseDescriptorShape (rc_inverse r)"

definition receiptV2Shape :: "receipt \<Rightarrow> bool" where
  "receiptV2Shape r \<longleftrightarrow> receiptShape r \<and> (case rc_operation r of RowOp _ \<Rightarrow> True | _ \<Rightarrow> False)
     \<and> lengthBetween 1 8 (rc_identities r) \<and> rc_rows_affected r \<le> 1
     \<and> optAll sha256Prefixed (rc_before_digest r) \<and> optAll sha256Prefixed (rc_after_digest r)
     \<and> optAll sha256Prefixed (rc_tombstone_digest r)"

definition receiptV3Shape :: "receipt \<Rightarrow> bool" where
  "receiptV3Shape r \<longleftrightarrow> receiptShape r \<and> (case rc_operation r of SetOp _ \<Rightarrow> True | _ \<Rightarrow> False)
     \<and> lengthBetween 1 100 (rc_identities r) \<and> sha256Prefixed (rc_set_digest r)
     \<and> rc_rows_affected r \<le> 100 \<and> length (rc_member_effects r) \<le> 100
     \<and> (\<forall>m \<in> set (rc_member_effects r). memberEffectShape m)"

definition receiptV4Shape :: "receipt \<Rightarrow> bool" where
  "receiptV4Shape r \<longleftrightarrow> receiptShape r \<and> (case rc_operation r of ReversalOp _ \<Rightarrow> True | _ \<Rightarrow> False)
     \<and> lengthBetween 1 100 (rc_identities r) \<and> rc_rows_affected r \<le> 100
     \<and> sha256Prefixed (rc_forward_receipt_hash r) \<and> length (rc_member_effects r) \<le> 100
     \<and> (\<forall>m \<in> set (rc_member_effects r). memberEffectShape m)"

definition reconciliationIssues :: "receipt \<Rightarrow> string list" where
  "reconciliationIssues r = issueIf
     (rc_status r = TReconciliationRequired \<and> rc_reconciliation r = None)
     ''reconciliation_required receipts require reconciliation metadata''"

definition mutationIssues :: "receipt \<Rightarrow> string list" where
  "mutationIssues r = issueIf (rc_rows_affected r > 0 \<and> \<not> rc_source_database_mutated r)
     ''rows_affected cannot be positive when source_database_mutated is false''"

definition succeeded :: "terminal_status \<Rightarrow> bool" where
  "succeeded s \<longleftrightarrow> s = TApplied \<or> s = TAlreadyApplied"

definition receiptV2Issues :: "runtime \<Rightarrow> receipt \<Rightarrow> string list" where
  "receiptV2Issues rt r = optIssues (inverseDescriptorIssues rt) (rc_inverse r)
     @ issueIf (rc_operation r = RowOp SingleRowDelete \<and> rc_tombstone_digest r = None
         \<and> succeeded (rc_status r)) ''applied DELETE receipts require a tombstone digest''
     @ reconciliationIssues r @ mutationIssues r"

definition receiptV3Issues :: "runtime \<Rightarrow> receipt \<Rightarrow> string list" where
  "receiptV3Issues rt r = optIssues (inverseDescriptorIssues rt) (rc_inverse r)
     @ issueIf (rc_status r = TApplied
         \<and> (rc_rows_affected r \<noteq> int (length (rc_identities r))
            \<or> length (rc_member_effects r) \<noteq> length (rc_identities r)))
         ''applied set receipt must identify every affected member''
     @ mutationIssues r @ reconciliationIssues r"

definition receiptV4Issues :: "runtime \<Rightarrow> receipt \<Rightarrow> string list" where
  "receiptV4Issues rt r = optIssues (inverseDescriptorIssues rt) (rc_inverse r)
     @ issueIf (rc_status r = TApplied \<and> rc_rows_affected r \<noteq> int (length (rc_identities r)))
         ''applied compensation receipt must identify every affected member''
     @ issueIf (succeeded (rc_status r) \<and> rc_inverse r = None)
         ''successful compensation requires its own inverse''
     @ mutationIssues r @ reconciliationIssues r"

definition parseExecutionReceipt :: "runtime \<Rightarrow> receipt \<Rightarrow> receipt result" where
  "parseExecutionReceipt rt r = (case rc_version r of
      ReceiptV1 \<Rightarrow> zodParse (receiptV1Shape r) (reconciliationIssues r) r
    | ReceiptV2 \<Rightarrow> zodParse (receiptV2Shape r) (receiptV2Issues rt r) r
    | ReceiptV3 \<Rightarrow> zodParse (receiptV3Shape r) (receiptV3Issues rt r) r
    | ReceiptV4 \<Rightarrow> zodParse (receiptV4Shape r) (receiptV4Issues rt r) r)"

subsection \<open>Results\<close>

datatype result_version = ResultLegacy | ResultV2 | ResultV3 | ResultV4

record wb_result =
  wr_version :: result_version
  wr_job_id :: string
  wr_runner_id :: string
  wr_operation :: operation
  wr_receipt_authority :: receipt_authority
  wr_status :: terminal_status
  wr_affected_rows :: int
  wr_identities :: "column_value list"
  wr_result_version :: "json option"
  wr_set_digest :: string
  wr_member_effects :: "member_effect list"
  wr_before_digest :: "string option"
  wr_after_digest :: "string option"
  wr_tombstone_digest :: "string option"
  wr_inverse :: "inverse_descriptor option"
  wr_result_hash :: "string option"
  wr_completed_at :: time
  wr_error_code :: "string option"
  wr_intent_id :: "string option"

definition legacyResultShape :: "wb_result \<Rightarrow> bool" where
  "legacyResultShape w \<longleftrightarrow> wr_job_id w \<noteq> [] \<and> wr_runner_id w \<noteq> [] \<and> 0 \<le> wr_affected_rows w
     \<and> optAll (\<lambda>i. i \<noteq> []) (wr_intent_id w)"

definition resultShape :: "wb_result \<Rightarrow> bool" where
  "resultShape w \<longleftrightarrow> legacyResultShape w \<and> (\<forall>i \<in> set (wr_identities w). columnValueShape i)
     \<and> optAll sha256Prefixed (wr_result_hash w) \<and> optAll safeCodeName (wr_error_code w)
     \<and> optAll inverseDescriptorShape (wr_inverse w) \<and> optAll scalarShape (wr_result_version w)"

definition resultV2Shape :: "wb_result \<Rightarrow> bool" where
  "resultV2Shape w \<longleftrightarrow> resultShape w \<and> (case wr_operation w of RowOp _ \<Rightarrow> True | _ \<Rightarrow> False)
     \<and> wr_affected_rows w \<le> 1 \<and> lengthBetween 1 8 (wr_identities w)
     \<and> optAll sha256Prefixed (wr_before_digest w) \<and> optAll sha256Prefixed (wr_after_digest w)
     \<and> optAll sha256Prefixed (wr_tombstone_digest w)"

definition resultV3Shape :: "wb_result \<Rightarrow> bool" where
  "resultV3Shape w \<longleftrightarrow> resultShape w \<and> (case wr_operation w of SetOp _ \<Rightarrow> True | _ \<Rightarrow> False)
     \<and> wr_affected_rows w \<le> 100 \<and> lengthBetween 1 100 (wr_identities w)
     \<and> sha256Prefixed (wr_set_digest w) \<and> length (wr_member_effects w) \<le> 100
     \<and> (\<forall>m \<in> set (wr_member_effects w). memberEffectShape m)"

definition resultV4Shape :: "wb_result \<Rightarrow> bool" where
  "resultV4Shape w \<longleftrightarrow> resultShape w \<and> wr_result_version w = None
     \<and> (case wr_operation w of ReversalOp _ \<Rightarrow> True | _ \<Rightarrow> False)
     \<and> wr_affected_rows w \<le> 100 \<and> lengthBetween 1 100 (wr_identities w)
     \<and> length (wr_member_effects w) \<le> 100 \<and> (\<forall>m \<in> set (wr_member_effects w). memberEffectShape m)"

definition resultIntentIssues :: "wb_result \<Rightarrow> string list" where
  "resultIntentIssues w = issueIf (wr_status w = TReconciliationRequired \<and> wr_intent_id w = None)
     ''reconciliation_required results require intent_id''"

definition resultV3Issues :: "runtime \<Rightarrow> wb_result \<Rightarrow> string list" where
  "resultV3Issues rt w = optIssues (inverseDescriptorIssues rt) (wr_inverse w)
     @ issueIf (wr_status w = TApplied
         \<and> (wr_affected_rows w \<noteq> int (length (wr_identities w))
            \<or> length (wr_member_effects w) \<noteq> length (wr_identities w)))
         ''applied set result must identify every member'' @ resultIntentIssues w"

definition resultV4Issues :: "runtime \<Rightarrow> wb_result \<Rightarrow> string list" where
  "resultV4Issues rt w = optIssues (inverseDescriptorIssues rt) (wr_inverse w)
     @ issueIf (wr_status w = TApplied \<and> wr_affected_rows w \<noteq> int (length (wr_identities w)))
         ''applied compensation must identify every member''
     @ issueIf (succeeded (wr_status w) \<and> wr_inverse w = None)
         ''successful compensation requires its own inverse'' @ resultIntentIssues w"

definition parseWritebackResult :: "runtime \<Rightarrow> wb_result \<Rightarrow> wb_result result" where
  "parseWritebackResult rt w = (case wr_version w of
      ResultLegacy \<Rightarrow> zodParse (legacyResultShape w \<and> optAll (\<lambda>v. asString v \<noteq> None) (wr_result_version w))
        (resultIntentIssues w) w
    | ResultV2 \<Rightarrow> zodParse (resultV2Shape w)
        (optIssues (inverseDescriptorIssues rt) (wr_inverse w) @ resultIntentIssues w) w
    | ResultV3 \<Rightarrow> zodParse (resultV3Shape w) (resultV3Issues rt w) w
    | ResultV4 \<Rightarrow> zodParse (resultV4Shape w) (resultV4Issues rt w) w)"

text \<open>\<open>receiptToWritebackResult\<close>: one object literal per version, then the parser.\<close>

definition receiptResult :: "result_version \<Rightarrow> receipt \<Rightarrow> wb_result" where
  "receiptResult v r = \<lparr>wr_version = v, wr_job_id = rc_writeback_job_id r,
     wr_runner_id = rc_runner_id r, wr_operation = rc_operation r,
     wr_receipt_authority = rc_receipt_authority r, wr_status = rc_status r,
     wr_affected_rows = rc_rows_affected r, wr_identities = rc_identities r,
     wr_result_version = None, wr_set_digest = rc_set_digest r, wr_member_effects = rc_member_effects r,
     wr_before_digest = rc_before_digest r, wr_after_digest = rc_after_digest r,
     wr_tombstone_digest = rc_tombstone_digest r, wr_inverse = rc_inverse r,
     wr_result_hash = Some (rc_receipt_hash r), wr_completed_at = rc_executed_at r,
     wr_error_code = rc_safe_error_code r, wr_intent_id = map_option fst (rc_reconciliation r)\<rparr>"

definition receiptToWritebackResult :: "runtime \<Rightarrow> receipt \<Rightarrow> wb_result result" where
  "receiptToWritebackResult rt r = parseWritebackResult rt (receiptResult (case rc_version r of
      ReceiptV4 \<Rightarrow> ResultV4 | ReceiptV3 \<Rightarrow> ResultV3 | _ \<Rightarrow> ResultV2) r)"

lemma parseExecutionReceipt_id: "parseExecutionReceipt rt r = Inr s \<Longrightarrow> s = r"
  by (auto simp: parseExecutionReceipt_def split: receipt_version.splits)

lemma parsed_receipt_mutation:
  assumes "parseExecutionReceipt rt r = Inr s" and "rc_version s \<noteq> ReceiptV1"
    and "0 < rc_rows_affected s"
  shows "rc_source_database_mutated s"
  using assms
  by (auto simp: parseExecutionReceipt_def receiptV2Issues_def receiptV3Issues_def
      receiptV4Issues_def mutationIssues_def split: receipt_version.splits)

lemma parsed_receipt_reconciliation:
  assumes "parseExecutionReceipt rt r = Inr s" and "rc_status s = TReconciliationRequired"
  shows "\<exists>i w. rc_reconciliation s = Some (i, w) \<and> i \<noteq> []"
  using assms
  by (cases "rc_reconciliation s")
    (auto simp: parseExecutionReceipt_def receiptV2Issues_def receiptV3Issues_def
      receiptV4Issues_def reconciliationIssues_def receiptV1Shape_def receiptV2Shape_def
      receiptV3Shape_def receiptV4Shape_def receiptShape_def split: receipt_version.splits)

lemma reconciliation_intent:
  "optAll (\<lambda>(i, w). i \<noteq> [] \<and> w \<noteq> []) m \<Longrightarrow> optAll (\<lambda>i. i \<noteq> []) (map_option fst m)"
  by (cases m) auto

text \<open>A parsed receipt always converts, and the result says what the receipt says.\<close>

lemma receiptToWritebackResult_total:
  assumes "parseExecutionReceipt rt r = Inr s" and "rc_version s \<noteq> ReceiptV1"
  shows "\<exists>w. receiptToWritebackResult rt s = Inr w \<and> wr_job_id w = rc_writeback_job_id s
     \<and> wr_status w = rc_status s \<and> wr_affected_rows w = rc_rows_affected s
     \<and> wr_operation w = rc_operation s \<and> wr_result_hash w = Some (rc_receipt_hash s)"
  using assms
  by (auto simp: parseExecutionReceipt_def receiptToWritebackResult_def parseWritebackResult_def
      receiptResult_def receiptV2Shape_def receiptV3Shape_def receiptV4Shape_def receiptShape_def
      receiptV1Shape_def resultV2Shape_def resultV3Shape_def resultV4Shape_def resultShape_def
      legacyResultShape_def receiptV2Issues_def receiptV3Issues_def receiptV4Issues_def
      resultV3Issues_def resultV4Issues_def resultIntentIssues_def reconciliationIssues_def
      reconciliation_intent split: receipt_version.splits)

end
