(* ===== verification/Jobs.thy ===== *)
theory Jobs
  imports Receipts
begin

text \<open>
  Writeback jobs of \<open>packages/protocol/src/index.ts\<close>: the four public versions a proposal is turned
  into, the normalized form an adapter executes, the validation of both
  (\<open>validateAllowedPatchColumns\<close>, \<open>validateResolvedDeduplication\<close>) and \<open>parseWritebackJob\<close>, which
  normalizes a public job and passes a normalized one through.  The lemmas show that no parsed job
  writes outside its allowlist or to an identity column.
\<close>

subsection \<open>Data\<close>

datatype conflict_guard = GuardColumn column_value | GuardRowHash string | GuardNone

datatype mutation =
    MutUpdate srow conflict_guard "version_advance option"
  | MutInsert srow "dedup_component list"
  | MutDelete column_value

datatype job_body =
    JobV1 srow conflict_guard
  | JobV2 mutation "inverse_descriptor option"
  | JobV3 set_operation srow "version_advance option" frozen_set "inverse_descriptor option"
  | JobV4 reversal_operation inverse_descriptor string

text \<open>A public job.\<close>

record public_job =
  pj_writeback_job_id :: string
  pj_proposal_id :: string
  pj_proposal_version :: int
  pj_proposal_hash :: string
  pj_project_id :: string
  pj_source_id :: string
  pj_engine :: engine
  pj_schema :: string
  pj_table :: string
  pj_pk_column :: string
  pj_pk_value :: "json option"
  pj_tenant_guard :: column_value
  pj_principal_scope :: "principal_scope option"
  pj_allowed_columns :: "string list"
  pj_freshness :: "freshness_authority option"
  pj_idempotency_key :: string
  pj_lease_id :: string
  pj_attempt :: int
  pj_expires_at :: string
  pj_body :: job_body

datatype job_version = LegacyJob | NormalizedV2 | NormalizedV3 | NormalizedV4

record contract_ref =
  cr_contract_id :: string
  cr_contract_version_id :: string
  cr_digest :: string

text \<open>A normalized job.\<close>

record job =
  jb_version :: job_version
  jb_id :: string
  jb_proposal_id :: string
  jb_approval_id :: string
  jb_contract :: "contract_ref option"
  jb_source_id :: string
  jb_engine :: engine
  jb_operation :: "operation option"
  jb_schema :: string
  jb_table :: string
  jb_pk_column :: string
  jb_pk_value :: "json option"
  jb_tenant_guard :: column_value
  jb_principal_scope :: "principal_scope option"
  jb_allowed_columns :: "string list"
  jb_patch :: srow
  jb_conflict_guard :: conflict_guard
  jb_version_advance :: "version_advance option"
  jb_deduplication :: "dedup_component list option"
  jb_frozen_set :: "frozen_set option"
  jb_freshness :: "freshness_authority option"
  jb_compensation :: "inverse_descriptor option"
  jb_forward_receipt_hash :: string
  jb_idempotency_key :: string
  jb_lease_expires_at :: string
  jb_attempt_count :: "int option"
  jb_inverse_capture :: "inverse_descriptor option"

datatype job_input = PublicJob public_job | NormalizedJob job

subsection \<open>Shared validation\<close>

text \<open>
  \<open>validateAllowedPatchColumns\<close>: a patch column must be a fixed safe identifier on the allowlist,
  and the allowlist must not name the primary key or the tenant column.
\<close>

definition patchColumnIssue :: "string list \<Rightarrow> string \<Rightarrow> string list" where
  "patchColumnIssue allowed k =
     (if \<not> safeIdentifier k then [''patch column is not a fixed safe identifier: '' @ k]
      else issueIf (k \<notin> set allowed) (''patch column not allowed: '' @ k))"

definition validateAllowedPatchColumns ::
  "string list \<Rightarrow> string list \<Rightarrow> string \<Rightarrow> string \<Rightarrow> string list" where
  "validateAllowedPatchColumns allowed columns pk tenant =
     concat (map (patchColumnIssue allowed) columns)
     @ issueIf (pk \<in> set allowed) ''primary key column must not be patch-allowlisted''
     @ issueIf (tenant \<in> set allowed) ''tenant guard column must not be patch-allowlisted''"

definition scopeAllowlistIssues :: "principal_scope option \<Rightarrow> string list \<Rightarrow> string list" where
  "scopeAllowlistIssues m allowed = (case m of None \<Rightarrow> []
     | Some p \<Rightarrow> issueIf (ps_column p \<in> set allowed)
         ''principal scope column must not be patch-allowlisted'')"

text \<open>\<open>validateResolvedDeduplication\<close>: \<open>seen\<close> holds the columns of the earlier components.\<close>

definition trustedTenantComponent :: "column_value \<Rightarrow> dedup_component \<Rightarrow> bool" where
  "trustedTenantComponent tenant c \<longleftrightarrow> dc_source c = DedupTrustedTenant
     \<and> dc_column c = cv_column tenant \<and> dc_value c = cv_value tenant"

fun dedupComponentIssues ::
  "string list \<Rightarrow> srow \<Rightarrow> column_value \<Rightarrow> dedup_component list \<Rightarrow> string list" where
  "dedupComponentIssues seen vals tenant [] = []"
| "dedupComponentIssues seen vals tenant (c # cs) =
     issueIf (dc_column c \<in> set seen) ''deduplication columns must be unique''
   @ issueIf (dc_column c \<in> set (map fst vals))
       ''deduplication columns must be Runner-supplied, not mutation values''
   @ issueIf (dc_source c = DedupTrustedTenant \<and> \<not> trustedTenantComponent tenant c)
       ''trusted tenant deduplication must match tenant_guard''
   @ dedupComponentIssues (dc_column c # seen) vals tenant cs"

definition validateResolvedDeduplication ::
  "dedup_component list \<Rightarrow> srow \<Rightarrow> column_value \<Rightarrow> string list" where
  "validateResolvedDeduplication cs vals tenant = dedupComponentIssues [] vals tenant cs
     @ issueIf (\<not> list_ex (\<lambda>c. dc_source c = DedupProposalId) cs)
         ''INSERT deduplication must include proposal_id''
     @ issueIf (\<not> list_ex (trustedTenantComponent tenant) cs)
         ''INSERT deduplication must include trusted tenant''"

definition conflictGuardShape :: "conflict_guard \<Rightarrow> bool" where
  "conflictGuardShape g = (case g of GuardColumn c \<Rightarrow> columnValueShape c
     | GuardRowHash h \<Rightarrow> h \<noteq> [] | GuardNone \<Rightarrow> True)"

definition guardColumn :: "conflict_guard \<Rightarrow> string option" where
  "guardColumn g = (case g of GuardColumn c \<Rightarrow> Some (cv_column c) | _ \<Rightarrow> None)"

definition columnsShape :: "string list \<Rightarrow> bool" where
  "columnsShape cs \<longleftrightarrow> (\<forall>c \<in> set cs. safeIdentifier c)"

definition advanceShape :: "version_advance option \<Rightarrow> bool" where
  "advanceShape v = optAll (\<lambda>x. safeIdentifier (va_column x)) v"

subsection \<open>Public jobs\<close>

definition publicEnvelopeShape :: "public_job \<Rightarrow> bool" where
  "publicEnvelopeShape j \<longleftrightarrow> pj_writeback_job_id j \<noteq> [] \<and> pj_proposal_id j \<noteq> []
     \<and> 0 < pj_proposal_version j \<and> sha256Prefixed (pj_proposal_hash j) \<and> pj_project_id j \<noteq> []
     \<and> pj_source_id j \<noteq> [] \<and> safeIdentifier (pj_schema j) \<and> safeIdentifier (pj_table j)
     \<and> safeIdentifier (pj_pk_column j) \<and> optAll scalarShape (pj_pk_value j)
     \<and> columnValueShape (pj_tenant_guard j) \<and> optAll principalScopeShape (pj_principal_scope j)
     \<and> columnsShape (pj_allowed_columns j) \<and> optAll freshnessAuthorityShape (pj_freshness j)
     \<and> pj_idempotency_key j \<noteq> [] \<and> pj_lease_id j \<noteq> [] \<and> 0 < pj_attempt j \<and> pj_expires_at j \<noteq> []"

definition mutationShape :: "mutation \<Rightarrow> bool" where
  "mutationShape m = (case m of
      MutUpdate v g a \<Rightarrow> scalarMapShape v \<and> conflictGuardShape g \<and> advanceShape a
    | MutInsert v ds \<Rightarrow> scalarMapShape v \<and> dedupShape ds
    | MutDelete c \<Rightarrow> columnValueShape c)"

definition publicJobShape :: "public_job \<Rightarrow> bool" where
  "publicJobShape j \<longleftrightarrow> publicEnvelopeShape j \<and> (case pj_body j of
      JobV1 patch g \<Rightarrow> pj_pk_value j \<noteq> None \<and> pj_allowed_columns j \<noteq> [] \<and> scalarMapShape patch
        \<and> conflictGuardShape g
    | JobV2 m cap \<Rightarrow> mutationShape m \<and> optAll inverseDescriptorShape cap
    | JobV3 op patch a fs cap \<Rightarrow> length (pj_allowed_columns j) \<le> 256 \<and> boundedScalarRecordShape patch
        \<and> advanceShape a \<and> frozenSetShape fs \<and> optAll inverseDescriptorShape cap
    | JobV4 op d h \<Rightarrow> length (pj_allowed_columns j) \<le> 256 \<and> inverseDescriptorShape d
        \<and> sha256Prefixed h)"

definition mutationOperation :: "mutation \<Rightarrow> row_operation" where
  "mutationOperation m = (case m of MutUpdate _ _ _ \<Rightarrow> SingleRowUpdate | MutInsert _ _ \<Rightarrow> SingleRowInsert
     | MutDelete _ \<Rightarrow> SingleRowDelete)"

definition rowBinding ::
  "freshness_authority option \<Rightarrow> string \<Rightarrow> engine \<Rightarrow> bool \<Rightarrow> string list" where
  "rowBinding f src e isInsert = validateFreshnessBinding f src (Some e)
     (if isInsert then NotApplicable else ExactGuard) (if isInsert then 0 else 1)"

definition setBinding ::
  "freshness_authority option \<Rightarrow> string \<Rightarrow> engine \<Rightarrow> set_operation \<Rightarrow> frozen_set \<Rightarrow> string list" where
  "setBinding f src e op fs = validateFreshnessBinding f src (Some e)
     (if op = BatchInsert then NotApplicable else FrozenSetMode)
     (if op = BatchInsert then 0 else fs_row_count fs)"

definition patchIssues :: "public_job \<Rightarrow> srow \<Rightarrow> string list" where
  "patchIssues j patch = validateAllowedPatchColumns (pj_allowed_columns j) (map fst patch)
       (pj_pk_column j) (cv_column (pj_tenant_guard j))
     @ scopeAllowlistIssues (pj_principal_scope j) (pj_allowed_columns j)"

definition mutationJobIssues :: "public_job \<Rightarrow> mutation \<Rightarrow> string list" where
  "mutationJobIssues j m =
     rowBinding (pj_freshness j) (pj_source_id j) (pj_engine j) (mutationOperation m = SingleRowInsert)
   @ issueIf (mutationOperation m \<noteq> SingleRowInsert \<and> pj_pk_value j = None)
       ''UPDATE and DELETE require a primary-key value''
   @ (case m of
        MutUpdate v g a \<Rightarrow> patchIssues j v
          @ issueIf (\<exists>x \<in> set_option a. guardColumn g \<noteq> Some (va_column x))
              ''version advance must match the column conflict guard''
      | MutInsert v ds \<Rightarrow> patchIssues j v @ validateResolvedDeduplication ds v (pj_tenant_guard j)
      | MutDelete c \<Rightarrow> issueIf (pj_allowed_columns j \<noteq> []) ''DELETE must not allow write columns'')"

definition compensationJobIssues ::
  "public_job \<Rightarrow> reversal_operation \<Rightarrow> inverse_descriptor \<Rightarrow> string list" where
  "compensationJobIssues j op d =
     issueIf (id_availability d \<noteq> Available) ''compensation job requires an available inverse''
   @ issueIf (id_source_id d \<noteq> pj_source_id j) ''compensation source must match runner scope''
   @ issueIf (op \<noteq> id_operation d \<or> pj_schema j \<noteq> id_schema d \<or> pj_table j \<noteq> id_table d
       \<or> pj_pk_column j \<noteq> id_primary_key_column d \<or> pj_tenant_guard j \<noteq> id_tenant_guard d)
       ''compensation public authority must match descriptor''
   @ issueIf (pj_principal_scope j \<noteq> id_principal_scope d)
       ''compensation principal authority must match descriptor''"

definition publicJobIssues :: "runtime \<Rightarrow> public_job \<Rightarrow> string list" where
  "publicJobIssues rt j = optIssues (principalScopeIssues rt) (pj_principal_scope j)
   @ optIssues (freshnessAuthorityIssues rt) (pj_freshness j)
   @ (case pj_body j of
        JobV1 patch g \<Rightarrow>
          rowBinding (pj_freshness j) (pj_source_id j) (pj_engine j) False @ patchIssues j patch
      | JobV2 m cap \<Rightarrow> mutationJobIssues j m @ optIssues (inverseDescriptorIssues rt) cap
      | JobV3 op patch a fs cap \<Rightarrow>
          setBinding (pj_freshness j) (pj_source_id j) (pj_engine j) op fs
          @ frozenSetIssues rt fs @ optIssues (inverseDescriptorIssues rt) cap
      | JobV4 op d h \<Rightarrow> compensationJobIssues j op d @ inverseDescriptorIssues rt d)"

text \<open>
  The four transforms.  A public \<open>column\<close> guard and a normalized \<open>version_column\<close> guard are one
  constructor here, so \<open>normalizeConflictGuard\<close> is the identity.
\<close>

definition normalizeConflictGuard :: "conflict_guard \<Rightarrow> conflict_guard" where
  "normalizeConflictGuard g = g"

definition normalizedEnvelope :: "public_job \<Rightarrow> job" where
  "normalizedEnvelope j = \<lparr>jb_version = LegacyJob, jb_id = pj_writeback_job_id j,
     jb_proposal_id = pj_proposal_id j, jb_approval_id = pj_proposal_hash j, jb_contract = None,
     jb_source_id = pj_source_id j, jb_engine = pj_engine j, jb_operation = None,
     jb_schema = pj_schema j, jb_table = pj_table j, jb_pk_column = pj_pk_column j,
     jb_pk_value = pj_pk_value j, jb_tenant_guard = pj_tenant_guard j,
     jb_principal_scope = pj_principal_scope j, jb_allowed_columns = pj_allowed_columns j,
     jb_patch = [], jb_conflict_guard = GuardNone, jb_version_advance = None,
     jb_deduplication = None, jb_frozen_set = None, jb_freshness = pj_freshness j,
     jb_compensation = None, jb_forward_receipt_hash = [],
     jb_idempotency_key = pj_idempotency_key j, jb_lease_expires_at = pj_expires_at j,
     jb_attempt_count = Some (pj_attempt j), jb_inverse_capture = None\<rparr>"

definition normalizeMutation :: "mutation \<Rightarrow> job \<Rightarrow> job" where
  "normalizeMutation m j = (let k = j\<lparr>jb_version := NormalizedV2,
        jb_operation := Some (RowOp (mutationOperation m))\<rparr> in
     case m of
       MutUpdate v g a \<Rightarrow> k\<lparr>jb_patch := v, jb_conflict_guard := normalizeConflictGuard g,
          jb_version_advance := a\<rparr>
     | MutInsert v ds \<Rightarrow> k\<lparr>jb_patch := v, jb_deduplication := Some ds\<rparr>
     | MutDelete c \<Rightarrow> k\<lparr>jb_conflict_guard := normalizeConflictGuard (GuardColumn c)\<rparr>)"

definition normalizePublicJob :: "public_job \<Rightarrow> job" where
  "normalizePublicJob j = (let k = normalizedEnvelope j in case pj_body j of
      JobV1 patch g \<Rightarrow> k\<lparr>jb_operation := Some (RowOp SingleRowUpdate), jb_patch := patch,
        jb_conflict_guard := normalizeConflictGuard g\<rparr>
    | JobV2 m cap \<Rightarrow> (normalizeMutation m k)\<lparr>jb_inverse_capture := cap\<rparr>
    | JobV3 op patch a fs cap \<Rightarrow> k\<lparr>jb_version := NormalizedV3, jb_operation := Some (SetOp op),
        jb_pk_value := None, jb_patch := patch, jb_version_advance := a, jb_frozen_set := Some fs,
        jb_inverse_capture := cap\<rparr>
    | JobV4 op d h \<Rightarrow> k\<lparr>jb_version := NormalizedV4, jb_operation := Some (ReversalOp op),
        jb_freshness := None, jb_compensation := Some d, jb_forward_receipt_hash := h\<rparr>)"

subsection \<open>Normalized jobs\<close>

definition contractRefShape :: "contract_ref \<Rightarrow> bool" where
  "contractRefShape c \<longleftrightarrow> cr_contract_id c \<noteq> [] \<and> cr_contract_version_id c \<noteq> []
     \<and> sha256Prefixed (cr_digest c)"

definition normalizedEnvelopeShape :: "job \<Rightarrow> bool" where
  "normalizedEnvelopeShape j \<longleftrightarrow> jb_id j \<noteq> [] \<and> jb_proposal_id j \<noteq> [] \<and> optAll contractRefShape (jb_contract j)
     \<and> jb_source_id j \<noteq> [] \<and> safeIdentifier (jb_schema j) \<and> safeIdentifier (jb_table j)
     \<and> safeIdentifier (jb_pk_column j) \<and> optAll scalarShape (jb_pk_value j)
     \<and> columnValueShape (jb_tenant_guard j) \<and> optAll principalScopeShape (jb_principal_scope j)
     \<and> columnsShape (jb_allowed_columns j) \<and> conflictGuardShape (jb_conflict_guard j)
     \<and> optAll freshnessAuthorityShape (jb_freshness j) \<and> advanceShape (jb_version_advance j)
     \<and> jb_idempotency_key j \<noteq> []"

definition versionedShape :: "job \<Rightarrow> bool" where
  "versionedShape j \<longleftrightarrow> sha256Prefixed (jb_approval_id j) \<and> length (jb_allowed_columns j) \<le> 256
     \<and> boundedScalarRecordShape (jb_patch j)
     \<and> (case jb_attempt_count j of None \<Rightarrow> False | Some n \<Rightarrow> 0 < n)
     \<and> optAll inverseDescriptorShape (jb_inverse_capture j)"

definition normalizedJobShape :: "job \<Rightarrow> bool" where
  "normalizedJobShape j \<longleftrightarrow> normalizedEnvelopeShape j \<and> (case jb_version j of
      LegacyJob \<Rightarrow> jb_approval_id j \<noteq> [] \<and> jb_pk_value j \<noteq> None \<and> jb_allowed_columns j \<noteq> []
        \<and> scalarMapShape (jb_patch j)
        \<and> (jb_operation j = None \<or> jb_operation j = Some (RowOp SingleRowUpdate))
        \<and> optAll (\<lambda>n. 0 \<le> n) (jb_attempt_count j)
    | NormalizedV2 \<Rightarrow> versionedShape j \<and> optAll dedupShape (jb_deduplication j)
        \<and> (case jb_operation j of Some (RowOp _) \<Rightarrow> True | _ \<Rightarrow> False)
    | NormalizedV3 \<Rightarrow> versionedShape j \<and> jb_conflict_guard j = GuardNone
        \<and> (case jb_frozen_set j of None \<Rightarrow> False | Some fs \<Rightarrow> frozenSetShape fs)
        \<and> (case jb_operation j of Some (SetOp _) \<Rightarrow> True | _ \<Rightarrow> False)
    | NormalizedV4 \<Rightarrow> versionedShape j \<and> jb_conflict_guard j = GuardNone
        \<and> (case jb_compensation j of None \<Rightarrow> False | Some d \<Rightarrow> inverseDescriptorShape d)
        \<and> sha256Prefixed (jb_forward_receipt_hash j)
        \<and> (case jb_operation j of Some (ReversalOp _) \<Rightarrow> True | _ \<Rightarrow> False))"

definition jobPatchIssues :: "job \<Rightarrow> string list" where
  "jobPatchIssues j = validateAllowedPatchColumns (jb_allowed_columns j) (map fst (jb_patch j))
       (jb_pk_column j) (cv_column (jb_tenant_guard j))
     @ scopeAllowlistIssues (jb_principal_scope j) (jb_allowed_columns j)"

definition normalizedV2Issues :: "row_operation \<Rightarrow> job \<Rightarrow> string list" where
  "normalizedV2Issues op j =
     rowBinding (jb_freshness j) (jb_source_id j) (jb_engine j) (op = SingleRowInsert)
   @ issueIf (op \<noteq> SingleRowInsert \<and> jb_pk_value j = None)
       ''UPDATE and DELETE require a primary-key value''
   @ (if op = SingleRowDelete
      then issueIf (jb_allowed_columns j \<noteq> [] \<or> jb_patch j \<noteq> [])
             ''DELETE must not allow or carry write columns''
      else jobPatchIssues j @ issueIf (jb_patch j = []) ''patch must not be empty'')
   @ (case op of
        SingleRowUpdate \<Rightarrow>
          issueIf (jb_deduplication j \<noteq> None) ''deduplication is only valid for INSERT''
        @ issueIf (\<exists>a \<in> set_option (jb_version_advance j).
             guardColumn (jb_conflict_guard j) \<noteq> Some (va_column a))
            ''version advance must match the version conflict guard''
      | SingleRowInsert \<Rightarrow>
          (case jb_deduplication j of
             None \<Rightarrow> [''INSERT requires source-enforced deduplication'']
           | Some ds \<Rightarrow> validateResolvedDeduplication ds (jb_patch j) (jb_tenant_guard j))
        @ issueIf (jb_conflict_guard j \<noteq> GuardNone \<or> jb_version_advance j \<noteq> None)
            ''INSERT must not declare version guards''
      | SingleRowDelete \<Rightarrow> issueIf (guardColumn (jb_conflict_guard j) = None
             \<or> jb_version_advance j \<noteq> None \<or> jb_deduplication j \<noteq> None)
            ''DELETE requires only an exact version-column guard'')"

definition normalizedV3Issues :: "set_operation \<Rightarrow> frozen_set \<Rightarrow> job \<Rightarrow> string list" where
  "normalizedV3Issues op fs j = setBinding (jb_freshness j) (jb_source_id j) (jb_engine j) op fs
   @ scopeAllowlistIssues (jb_principal_scope j) (jb_allowed_columns j)
   @ issueIf (op = SetDelete
        \<and> (jb_allowed_columns j \<noteq> [] \<or> jb_patch j \<noteq> [] \<or> jb_version_advance j \<noteq> None))
       ''set DELETE cannot carry patch authority''
   @ issueIf (op = SetUpdate \<and> (jb_patch j = [] \<or> jb_version_advance j = None))
       ''set UPDATE requires patch and version advance''
   @ issueIf (op = BatchInsert \<and> (\<exists>m \<in> set (fs_members fs). fm_deduplication m = None))
       ''batch INSERT requires per-item source deduplication''"

definition normalizedV4Issues :: "reversal_operation \<Rightarrow> inverse_descriptor \<Rightarrow> job \<Rightarrow> string list" where
  "normalizedV4Issues op d j =
     issueIf (op \<noteq> id_operation d) ''compensation operation mismatch''
   @ issueIf (jb_source_id j \<noteq> id_source_id d \<or> jb_schema j \<noteq> id_schema d \<or> jb_table j \<noteq> id_table d
        \<or> jb_pk_column j \<noteq> id_primary_key_column d) ''compensation target mismatch''
   @ issueIf (jb_tenant_guard j \<noteq> id_tenant_guard d) ''compensation tenant mismatch''
   @ issueIf (jb_principal_scope j \<noteq> id_principal_scope d) ''compensation principal mismatch''"

definition normalizedBodyIssues :: "runtime \<Rightarrow> job \<Rightarrow> string list" where
  "normalizedBodyIssues rt j = (case jb_version j of
      LegacyJob \<Rightarrow> rowBinding (jb_freshness j) (jb_source_id j) (jb_engine j) False @ jobPatchIssues j
    | NormalizedV2 \<Rightarrow> (case jb_operation j of Some (RowOp op) \<Rightarrow> normalizedV2Issues op j | _ \<Rightarrow> [])
    | NormalizedV3 \<Rightarrow> (case (jb_operation j, jb_frozen_set j) of
        (Some (SetOp op), Some fs) \<Rightarrow> normalizedV3Issues op fs j @ frozenSetIssues rt fs | _ \<Rightarrow> [])
    | NormalizedV4 \<Rightarrow> (case (jb_operation j, jb_compensation j) of
        (Some (ReversalOp op), Some d) \<Rightarrow> normalizedV4Issues op d j @ inverseDescriptorIssues rt d
      | _ \<Rightarrow> []))"

definition normalizedJobIssues :: "runtime \<Rightarrow> job \<Rightarrow> string list" where
  "normalizedJobIssues rt j = optIssues (principalScopeIssues rt) (jb_principal_scope j)
   @ optIssues (freshnessAuthorityIssues rt) (jb_freshness j)
   @ optIssues (inverseDescriptorIssues rt) (jb_inverse_capture j) @ normalizedBodyIssues rt j"

text \<open>
  The union of the schemas: the version literal of the input admits exactly one of them, and only a
  public job is transformed.
\<close>

definition parseWritebackJob :: "runtime \<Rightarrow> job_input \<Rightarrow> job result" where
  "parseWritebackJob rt x = (case x of
      PublicJob j \<Rightarrow> zodParse (publicJobShape j) (publicJobIssues rt j) (normalizePublicJob j)
    | NormalizedJob j \<Rightarrow> zodParse (normalizedJobShape j) (normalizedJobIssues rt j) j)"

subsection \<open>What a parsed job guarantees\<close>

lemma patchColumnIssue_iff: "patchColumnIssue allowed k = [] \<longleftrightarrow> safeIdentifier k \<and> k \<in> set allowed"
  by (simp add: patchColumnIssue_def)

lemma validateAllowedPatchColumns_iff:
  "validateAllowedPatchColumns allowed cols pk tenant = [] \<longleftrightarrow>
     (\<forall>k \<in> set cols. safeIdentifier k \<and> k \<in> set allowed) \<and> pk \<notin> set allowed \<and> tenant \<notin> set allowed"
  by (simp add: validateAllowedPatchColumns_def patchColumnIssue_iff)

lemma scopeAllowlistIssues_iff:
  "scopeAllowlistIssues m allowed = [] \<longleftrightarrow> (\<forall>p. m = Some p \<longrightarrow> ps_column p \<notin> set allowed)"
  by (simp add: scopeAllowlistIssues_def split: option.split)

lemma dedupComponentIssues_iff:
  "dedupComponentIssues seen vals tenant cs = [] \<longleftrightarrow> distinct (map dc_column cs)
     \<and> (\<forall>c \<in> set cs. dc_column c \<notin> set seen \<and> dc_column c \<notin> set (map fst vals)
          \<and> (dc_source c = DedupTrustedTenant \<longrightarrow> trustedTenantComponent tenant c))"
proof (induction cs arbitrary: seen)
  case (Cons c cs)
  show ?case by (simp add: Cons.IH image_iff ball_conj_distrib eq_commute [of "dc_column c"]) blast
qed simp

lemma validateResolvedDeduplication_ok:
  "validateResolvedDeduplication cs vals tenant = [] \<Longrightarrow>
     distinct (map dc_column cs) \<and> (\<forall>c \<in> set cs. dc_column c \<notin> set (map fst vals))
   \<and> (\<exists>c \<in> set cs. dc_source c = DedupProposalId)
   \<and> (\<exists>c \<in> set cs. dc_column c = cv_column tenant \<and> dc_value c = cv_value tenant)"
  by (auto simp: validateResolvedDeduplication_def dedupComponentIssues_iff list_ex_iff
      trustedTenantComponent_def)

text \<open>A single-row job writes only allowlisted columns, and never an identity column.\<close>

definition identitySafe :: "job \<Rightarrow> bool" where
  "identitySafe j \<longleftrightarrow> set (map fst (jb_patch j)) \<subseteq> set (jb_allowed_columns j)
     \<and> (jb_patch j \<noteq> [] \<longrightarrow> jb_pk_column j \<notin> set (jb_allowed_columns j)
          \<and> cv_column (jb_tenant_guard j) \<notin> set (jb_allowed_columns j)
          \<and> (\<forall>p. jb_principal_scope j = Some p \<longrightarrow> ps_column p \<notin> set (jb_allowed_columns j)))"

lemma patchIssues_safe:
  "patchIssues j patch = [] \<Longrightarrow> set (map fst patch) \<subseteq> set (pj_allowed_columns j)
     \<and> pj_pk_column j \<notin> set (pj_allowed_columns j)
     \<and> cv_column (pj_tenant_guard j) \<notin> set (pj_allowed_columns j)
     \<and> (\<forall>p. pj_principal_scope j = Some p \<longrightarrow> ps_column p \<notin> set (pj_allowed_columns j))"
  by (auto simp: patchIssues_def validateAllowedPatchColumns_iff scopeAllowlistIssues_iff)

lemma jobPatchIssues_safe: "jobPatchIssues j = [] \<Longrightarrow> identitySafe j"
  by (auto simp: jobPatchIssues_def validateAllowedPatchColumns_iff scopeAllowlistIssues_iff
      identitySafe_def)

lemmas normalize_simps = normalizePublicJob_def normalizedEnvelope_def normalizeMutation_def
  Let_def

lemma parsed_public_row_job_safe:
  assumes "parseWritebackJob rt (PublicJob j) = Inr k"
    and "jb_version k = LegacyJob \<or> jb_version k = NormalizedV2"
  shows "identitySafe k"
proof (cases "pj_body j")
  case (JobV1 patch g)
  with assms patchIssues_safe [of j patch] show ?thesis
    by (auto simp: parseWritebackJob_def publicJobIssues_def normalize_simps identitySafe_def)
next
  case (JobV2 m cap)
  with assms have k: "k = (normalizeMutation m (normalizedEnvelope j))\<lparr>jb_inverse_capture := cap\<rparr>"
    and ok: "mutationJobIssues j m = []"
    by (auto simp: parseWritebackJob_def publicJobIssues_def normalizePublicJob_def Let_def)
  show ?thesis
  proof (cases m)
    case (MutUpdate v g a)
    with ok patchIssues_safe [of j v] show ?thesis
      by (auto simp: k mutationJobIssues_def normalize_simps identitySafe_def)
  next
    case (MutInsert v ds)
    with ok patchIssues_safe [of j v] show ?thesis
      by (auto simp: k mutationJobIssues_def normalize_simps identitySafe_def)
  next
    case (MutDelete c)
    then show ?thesis by (simp add: k normalize_simps identitySafe_def)
  qed
qed (use assms in \<open>simp_all add: parseWritebackJob_def normalize_simps\<close>)

lemma parsed_normalized_row_job_safe:
  assumes "parseWritebackJob rt (NormalizedJob j) = Inr k"
    and "jb_version k = LegacyJob \<or> jb_version k = NormalizedV2"
  shows "identitySafe k"
proof -
  from assms have k: "k = j" and issues: "normalizedBodyIssues rt j = []" and shape: "normalizedJobShape j"
    by (auto simp: parseWritebackJob_def normalizedJobIssues_def)
  show ?thesis
  proof (cases "jb_version j")
    case LegacyJob
    with issues show ?thesis by (simp add: k normalizedBodyIssues_def jobPatchIssues_safe)
  next
    case NormalizedV2
    with shape obtain op where "jb_operation j = Some (RowOp op)"
      by (auto simp: normalizedJobShape_def split: option.splits operation.splits)
    with NormalizedV2 issues have "normalizedV2Issues op j = []" by (simp add: normalizedBodyIssues_def)
    then consider "jb_patch j = []" | "jobPatchIssues j = []"
      by (cases "op = SingleRowDelete") (auto simp: normalizedV2Issues_def)
    then show ?thesis
    proof cases
      case 1
      then show ?thesis by (simp add: k identitySafe_def)
    qed (simp add: k jobPatchIssues_safe)
  qed (use assms k in auto)
qed

lemma parsed_row_job_safe:
  "parseWritebackJob rt x = Inr k \<Longrightarrow> jb_version k = LegacyJob \<or> jb_version k = NormalizedV2 \<Longrightarrow>
     identitySafe k"
  by (cases x) (auto intro: parsed_public_row_job_safe parsed_normalized_row_job_safe)

end
