(* ===== verification/StoreTypes.thy ===== *)
theory StoreTypes
  imports Secrets Jobs
begin

text \<open>
  The state of the proposal store (\<open>packages/proposal-store/src/domain-types.ts\<close> and the tables of
  \<open>sqlite-schema-methods.ts\<close>): one row record per table, one field of \<open>store\<close> per table, and the
  integrity checks of \<open>proposal-integrity.ts\<close> that every operation makes before it writes.

  Autoincremented keys are one more than the number of rows, as no operation modelled here deletes
  a row.  Columns whose value is a JSON text hold the typed value.
\<close>

subsection \<open>Proposals, events and approvals\<close>

datatype proposal_state = PendingReview | Approved | Rejected | Canceled | PendingWorker | Applied
  | Conflict | Failed | ReconciliationRequired

definition proposalStateStr :: "proposal_state \<Rightarrow> string" where
  "proposalStateStr s = (case s of PendingReview \<Rightarrow> ''pending_review'' | Approved \<Rightarrow> ''approved''
     | Rejected \<Rightarrow> ''rejected'' | Canceled \<Rightarrow> ''canceled'' | PendingWorker \<Rightarrow> ''pending_worker''
     | Applied \<Rightarrow> ''applied'' | Conflict \<Rightarrow> ''conflict'' | Failed \<Rightarrow> ''failed''
     | ReconciliationRequired \<Rightarrow> ''reconciliation_required'')"

record proposal =
  p_id :: string
  p_version :: int
  p_hash :: string
  p_action :: string
  p_state :: proposal_state
  p_tenant_id :: string
  p_principal :: "string option"
  p_capability :: "string option"
  p_business_object :: string
  p_object_id :: string
  p_source_kind :: source_kind
  p_source_id :: string
  p_source_schema :: string
  p_source_table :: string
  p_source_database_mutated :: bool
  p_change_set :: change_set
  p_created_at :: string
  p_updated_at :: string

record event =
  ev_id :: nat
  ev_proposal_id :: string
  ev_kind :: string
  ev_actor :: string
  ev_payload :: srow
  ev_proof :: "freshness_proof option"
  ev_created_at :: time

datatype decision_action = DApprove | DReject | DApply | DRevert | DReconcile | DWorkerRequeue
  | DWorkerDiscard | DWorkerPause | DWorkerResume | DWorkerDrain | DWorkerCapabilityEnable
  | DWorkerCapabilityDisable | DWorkerDigestRevoke | DWorkerCancel | DAttentionAcknowledge
  | DNotificationReplay | DBoundaryReview | DBoundaryActivate

record operator_decision =
  od_action :: decision_action
  od_proposal_id :: string
  od_proposal_version :: int
  od_proposal_hash :: string
  od_subject :: string
  od_issued_at :: string
  od_reason :: "string option"

datatype identity_provider = DevEnv | SignedKey | JwtOidc

record identity_proof =
  ip_provider :: identity_provider
  ip_verified :: bool
  ip_subject :: string
  ip_roles :: "string list"
  ip_key_id :: "string option"
  ip_algorithm :: "string option"
  ip_issuer :: "string option"
  ip_decision :: operator_decision
  ip_decision_hash :: string
  ip_signature :: "string option"
  ip_integrity_hash :: string

datatype approval_row_status = ApRowApproved | ApRowRejected

record approval =
  ap_id :: nat
  ap_proposal_id :: string
  ap_proposal_version :: int
  ap_proposal_hash :: string
  ap_approver :: string
  ap_status :: approval_row_status
  ap_reason :: "string option"
  ap_identity :: "identity_proof option"
  ap_freshness_proof_digest :: "string option"
  ap_created_at :: time

subsection \<open>Writeback\<close>

record receipt_row =
  rr_id :: nat
  rr_writeback_job_id :: string
  rr_proposal_id :: string
  rr_runner_id :: string
  rr_status :: terminal_status
  rr_idempotency_key :: string
  rr_source_database_mutated :: bool
  rr_receipt :: receipt
  rr_created_at :: time

datatype job_status = JobPendingWorker | JobTerminal terminal_status

record job_row =
  jr_id :: string
  jr_proposal_id :: string
  jr_proposal_hash :: string
  jr_status :: job_status
  jr_job :: "job option"
  jr_created_at :: time
  jr_updated_at :: time

record idempotency_row =
  ir_idempotency_key :: string
  ir_writeback_job_id :: string
  ir_proposal_id :: string
  ir_receipt_status :: terminal_status

datatype intent_status = IntentRecorded | IntentApplying | IntentTerminal terminal_status

record intent =
  in_id :: string
  in_idempotency_key :: string
  in_writeback_job_id :: string
  in_proposal_id :: string
  in_proposal_hash :: string
  in_runner_id :: string
  in_operation :: operation
  in_job :: job
  in_status :: intent_status
  in_result :: "wb_result option"
  in_reconciliation_reason :: "string option"
  in_created_at :: time
  in_updated_at :: time

subsection \<open>Worker queue\<close>

datatype queue_status = Queued | Leased | RetryWait | Completed | DeadLetter | Discarded | Cancelled
  | Blocked | QReconciliationRequired

datatype execution_mode = Legacy | SupervisedWorker

definition executionModeStr :: "execution_mode \<Rightarrow> string" where
  "executionModeStr m = (case m of Legacy \<Rightarrow> ''legacy'' | SupervisedWorker \<Rightarrow> ''supervised_worker'')"

record worker_item =
  wq_proposal_id :: string
  wq_status :: queue_status
  wq_execution_mode :: execution_mode
  wq_contract_digest :: "string option"
  wq_attempts :: int
  wq_max_attempts :: int
  wq_next_attempt_at :: time
  wq_lease_owner :: "string option"
  wq_lease_id :: "string option"
  wq_lease_expires_at :: "time option"
  wq_last_error_code :: "string option"
  wq_terminal_outcome :: "string option"
  wq_created_at :: time
  wq_updated_at :: time

subsection \<open>Attention\<close>

datatype severity = Informational | Warning | Critical

record attention_event =
  ae_event_id :: string
  ae_event_type :: string
  ae_severity :: severity
  ae_occurred_at :: time
  ae_environment :: string
  ae_proposal_id :: "string option"
  ae_job_id :: "string option"
  ae_operation_id :: "string option"
  ae_correlation_id :: "string option"
  ae_capability :: "string option"
  ae_contract_digest :: "string option"
  ae_attention_key :: "string option"
  ae_attention_required :: bool
  ae_immediate_default :: bool
  ae_summary :: string
  ae_approval_source :: "string option"
  ae_worker_state :: "string option"
  ae_failure_class :: "string option"
  ae_expires_at :: "time option"
  ae_workbench_path :: "string option"
  ae_details :: srow
  ae_payload_hash :: string

datatype item_state = ItemOpen | ItemAcknowledged | ItemResolved | ItemExpired

record attention_item =
  ai_attention_id :: string
  ai_attention_key :: string
  ai_status :: item_state
  ai_severity :: severity
  ai_environment :: string
  ai_event_type :: string
  ai_capability :: "string option"
  ai_contract_digest :: "string option"
  ai_title :: string
  ai_occurrence_count :: int
  ai_first_event_id :: string
  ai_latest_event_id :: string
  ai_first_seen_at :: time
  ai_last_seen_at :: time
  ai_acknowledged_by :: "string option"
  ai_acknowledged_at :: "time option"
  ai_acknowledgement_identity :: "identity_proof option"
  ai_resolved_at :: "time option"
  ai_expires_at :: "time option"

datatype delivery_status = DlPending | DlLeased | DlDelivered | DlRetryWait | DlDeadLetter
  | DlSuppressed | DlBatched

record delivery =
  dl_delivery_id :: string
  dl_sink_id :: string
  dl_event_id :: string
  dl_attention_id :: "string option"
  dl_status :: delivery_status
  dl_attempts :: int
  dl_max_attempts :: int
  dl_next_attempt_at :: time
  dl_lease_owner :: "string option"
  dl_lease_id :: "string option"
  dl_lease_expires_at :: "time option"
  dl_last_error_code :: "string option"
  dl_external_reference :: "string option"
  dl_delivered_at :: "time option"
  dl_created_at :: time
  dl_updated_at :: time

record attention_state =
  at_events :: "attention_event list"
  at_items :: "attention_item list"
  at_deliveries :: "delivery list"

subsection \<open>The store\<close>

record shadow_study =
  st_id :: string
  st_active :: bool
  st_capabilities :: "string list"
  st_starts_at :: "time option"
  st_ends_at :: "time option"

record shadow_case =
  sc_case_id :: string
  sc_study_id :: string
  sc_proposal_id :: string
  sc_tenant_id :: string
  sc_capability :: string
  sc_business_object :: string
  sc_object_id :: string
  sc_created_at :: string

record store =
  s_proposals :: "proposal list"
  s_events :: "event list"
  s_approvals :: "approval list"
  s_receipts :: "receipt_row list"
  s_jobs :: "job_row list"
  s_idempotency :: "idempotency_row list"
  s_intents :: "intent list"
  s_queue :: "worker_item list"
  s_environment :: json
  s_studies :: "shadow_study list"
  s_cases :: "shadow_case list"
  s_attention :: attention_state

definition emptyStore :: store where
  "emptyStore = \<lparr>s_proposals = [], s_events = [], s_approvals = [], s_receipts = [], s_jobs = [],
     s_idempotency = [], s_intents = [], s_queue = [], s_environment = JUndefined, s_studies = [],
     s_cases = [], s_attention = \<lparr>at_events = [], at_items = [], at_deliveries = []\<rparr>\<rparr>"

abbreviation storeErr :: "string \<Rightarrow> err" where
  "storeErr \<equiv> ProposalStoreError"

subsection \<open>Integrity checks\<close>

definition stateFromChangeSet :: "change_set \<Rightarrow> proposal_state" where
  "stateFromChangeSet c = (case cs_approval_status c of
      ApprovalApproved \<Rightarrow> Approved | ApprovalRejected \<Rightarrow> Rejected | ApprovalCanceled \<Rightarrow> Canceled
    | ApprovalPending \<Rightarrow> PendingReview)"

definition stateFromReceipt :: "receipt \<Rightarrow> proposal_state" where
  "stateFromReceipt r = (case rc_status r of
      TApplied \<Rightarrow> Applied | TAlreadyApplied \<Rightarrow> Applied | TConflict \<Rightarrow> Conflict | TCanceled \<Rightarrow> Canceled
    | TReconciliationRequired \<Rightarrow> ReconciliationRequired | TFailed \<Rightarrow> Failed)"

definition proposalFreshnessAuthority ::
  "runtime \<Rightarrow> proposal \<Rightarrow> freshness_authority option result" where
  "proposalFreshnessAuthority rt p = (case cs_freshness (p_change_set p) of
      None \<Rightarrow> Inr None
    | Some f \<Rightarrow> (case parseFreshnessAuthority rt f of
        Inl _ \<Rightarrow> Inl (storeErr ''FRESHNESS_AUTHORITY_TAMPERED'')
      | Inr a \<Rightarrow> Inr (Some a)))"

definition requiredApprovalCount :: "proposal \<Rightarrow> int" where
  "requiredApprovalCount p = (case cs_required_approvals (p_change_set p) of
      Some n \<Rightarrow> (if isSafeInteger n \<and> 1 \<le> n then n else 1) | None \<Rightarrow> 1)"

definition assertOperatorDecision ::
  "proposal \<Rightarrow> decision_action \<Rightarrow> string \<Rightarrow> identity_proof option \<Rightarrow> bool \<Rightarrow> unit result" where
  "assertOperatorDecision p action actor identity requireVerified =
     bindE (throwIf (requireVerified \<and> (case identity of None \<Rightarrow> True | Some i \<Rightarrow> \<not> ip_verified i))
              (storeErr ''VERIFIED_OPERATOR_IDENTITY_REQUIRED'')) (\<lambda>_.
     case identity of None \<Rightarrow> Inr () | Some i \<Rightarrow>
     (let d = ip_decision i in
      bindE (throwIf (ip_subject i \<noteq> actor \<or> od_subject d \<noteq> actor)
               (storeErr ''OPERATOR_IDENTITY_MISMATCH'')) (\<lambda>_.
      bindE (throwIf (od_action d \<noteq> action \<or> od_proposal_id d \<noteq> p_id p
                 \<or> od_proposal_version d \<noteq> p_version p \<or> od_proposal_hash d \<noteq> p_hash p)
               (storeErr ''OPERATOR_DECISION_MISMATCH'')) (\<lambda>_.
      throwIf ((action = DApprove \<or> action = DReject)
                 \<and> (case presentStr (cs_required_role (p_change_set p)) of
                      None \<Rightarrow> False | Some r \<Rightarrow> r \<notin> set (ip_roles i)))
               (storeErr ''APPROVER_ROLE_REQUIRED'')))))"

definition millisPerDay :: int where
  "millisPerDay = 86400000"

text \<open>The UTC day that contains an instant, as a half-open window.\<close>

definition utcDayWindow :: "time \<Rightarrow> time \<times> time" where
  "utcDayWindow t = (let start = (t div millisPerDay) * millisPerDay in (start, start + millisPerDay))"

definition assertProposalIdentity :: "proposal \<Rightarrow> string \<Rightarrow> int \<Rightarrow> unit result" where
  "assertProposalIdentity p hash version =
     bindE (throwIf (p_hash p \<noteq> hash) (storeErr ''PROPOSAL_HASH_MISMATCH'')) (\<lambda>_.
     throwIf (p_version p \<noteq> version) (storeErr ''PROPOSAL_VERSION_MISMATCH''))"

definition assertWritebackAllowed :: "proposal \<Rightarrow> unit result" where
  "assertWritebackAllowed p =
     bindE (throwIf (cs_mode (p_change_set p) = ShadowMode) (storeErr ''SHADOW_WRITEBACK_DISABLED''))
     (\<lambda>_. throwIf (cs_mode (p_change_set p) = ReadOnlyMode) (storeErr ''READ_ONLY_WRITEBACK_DISABLED''))"

definition providerName :: "identity_provider \<Rightarrow> string" where
  "providerName p = (case p of DevEnv \<Rightarrow> ''dev_env'' | SignedKey \<Rightarrow> ''signed_key'' | JwtOidc \<Rightarrow> ''jwt_oidc'')"

definition publicIdentitySummary :: "identity_proof \<Rightarrow> json" where
  "publicIdentitySummary i = JObj ([(''provider'', JStr (providerName (ip_provider i))),
     (''verified'', JBool (ip_verified i)), (''subject'', JStr (ip_subject i)),
     (''roles'', JArr (map JStr (ip_roles i)))]
     @ optField ''key_id'' JStr (ip_key_id i) @ optField ''algorithm'' JStr (ip_algorithm i)
     @ [(''decision_hash'', JStr (ip_decision_hash i)), (''integrity_hash'', JStr (ip_integrity_hash i))])"

lemma utcDayWindow_contains: "fst (utcDayWindow t) \<le> t \<and> t < snd (utcDayWindow t)"
proof -
  have "t div millisPerDay * millisPerDay + t mod millisPerDay = t" by (rule div_mult_mod_eq)
  moreover have "0 \<le> t mod millisPerDay" "t mod millisPerDay < millisPerDay"
    by (simp_all add: millisPerDay_def)
  ultimately show ?thesis unfolding utcDayWindow_def Let_def fst_conv snd_conv by linarith
qed

lemma utcDayWindow_same_day:
  assumes "fst (utcDayWindow t) \<le> u" and "u < snd (utcDayWindow t)"
  shows "utcDayWindow u = utcDayWindow t"
proof -
  have "u div millisPerDay = t div millisPerDay"
    using assms by (simp add: utcDayWindow_def Let_def millisPerDay_def)
  then show ?thesis by (simp add: utcDayWindow_def)
qed

lemma assertWritebackAllowed_iff [simp]:
  "assertWritebackAllowed p = Inr u \<longleftrightarrow>
     cs_mode (p_change_set p) \<noteq> ShadowMode \<and> cs_mode (p_change_set p) \<noteq> ReadOnlyMode"
  by (auto simp: assertWritebackAllowed_def bindE_eq_Inr)

lemma assertProposalIdentity_iff [simp]:
  "assertProposalIdentity p h v = Inr u \<longleftrightarrow> p_hash p = h \<and> p_version p = v"
  by (auto simp: assertProposalIdentity_def bindE_eq_Inr)

text \<open>An accepted decision is bound to this proposal revision, action and actor.\<close>

lemma assertOperatorDecision_bound:
  "assertOperatorDecision p a actor (Some i) rv = Inr u \<Longrightarrow>
     ip_subject i = actor \<and> od_action (ip_decision i) = a \<and> od_proposal_id (ip_decision i) = p_id p
   \<and> od_proposal_version (ip_decision i) = p_version p
   \<and> od_proposal_hash (ip_decision i) = p_hash p \<and> (rv \<longrightarrow> ip_verified i)
   \<and> (a = DApprove \<or> a = DReject \<longrightarrow>
        (\<forall>r. cs_required_role (p_change_set p) = Some r \<longrightarrow> r \<noteq> [] \<longrightarrow> r \<in> set (ip_roles i)))"
  by (auto simp: assertOperatorDecision_def bindE_eq_Inr Let_def presentStr_def split: option.splits)

lemma assertOperatorDecision_verified:
  "assertOperatorDecision p a actor identity True = Inr u \<Longrightarrow>
     \<exists>i. identity = Some i \<and> ip_verified i"
  by (auto simp: assertOperatorDecision_def bindE_eq_Inr split: option.splits)

lemma requiredApprovalCount_pos: "1 \<le> requiredApprovalCount p"
  by (auto simp: requiredApprovalCount_def split: option.splits)

end
