(* ===== verification/Attention.thy ===== *)
theory Attention
  imports StoreTypes
begin

text \<open>
  Runner attention: which attention events a proposal event raises
  (\<open>packages/proposal-store/src/attention-domain.ts\<close>) and how an attention event is recorded and
  projected on the coalesced items (\<open>recordAttentionEventInternal\<close>, \<open>projectAttentionItem\<close> and
  \<open>closeProposalExpiryAttention\<close> of \<open>sqlite-attention-methods.ts\<close>).  Every event the store appends
  to a proposal goes through here, so a failure here aborts the operation that appended it.
\<close>

subsection \<open>Labels and payload fields\<close>

definition fieldInvalid :: err where
  "fieldInvalid = ProposalStoreError ''ATTENTION_EVENT_FIELD_INVALID''"

definition isControl :: "char \<Rightarrow> bool" where
  "isControl c \<longleftrightarrow> codeIn c 0 31 \<or> codeIn c 127 127"

definition boundedSafeLabel :: "string \<Rightarrow> nat \<Rightarrow> string result" where
  "boundedSafeLabel s maximum = (let trimmed = trimStr s in
     bindE (throwIf (trimmed = [] \<or> maximum < length trimmed \<or> list_ex isControl trimmed) fieldInvalid)
     (\<lambda>_. bindE (assertNoSecretMaterial (JObj [(''value'', JStr trimmed)])) (\<lambda>_. Inr trimmed)))"

definition boundedWorkbenchPath :: "string \<Rightarrow> string result" where
  "boundedWorkbenchPath s = bindE (boundedSafeLabel s 512) (\<lambda>path.
     bindE (throwIf (\<not> startsWith path ''/'' \<or> includesStr path ''?'' \<or> includesStr path ''#''
         \<or> includesStr path ''://'' \<or> includesStr path ''..'')
       (ProposalStoreError ''ATTENTION_WORKBENCH_PATH_INVALID'')) (\<lambda>_. Inr path))"

definition safeAttentionPayloadString :: "srow \<Rightarrow> string \<Rightarrow> string option" where
  "safeAttentionPayloadString payload key = (case field payload key of
      JStr s \<Rightarrow> (if trimStr s = [] then None else Some (take 128 (trimStr s)))
    | _ \<Rightarrow> None)"

definition safeDetail :: "srow \<Rightarrow> string \<Rightarrow> srow" where
  "safeDetail payload key = (case field payload key of
      JNull \<Rightarrow> [(key, JNull)]
    | JBool b \<Rightarrow> [(key, JBool b)]
    | JNum n \<Rightarrow> (if n = NonFinite then [] else [(key, JNum n)])
    | JStr s \<Rightarrow> (if trimStr s = [] then [] else [(key, JStr (take 128 (trimStr s)))])
    | _ \<Rightarrow> [])"

definition safeAttentionDetails :: "srow \<Rightarrow> string list \<Rightarrow> srow" where
  "safeAttentionDetails payload keys = concat (map (safeDetail payload) keys)"

fun joinWith :: "string \<Rightarrow> string list \<Rightarrow> string" where
  "joinWith sep [] = []"
| "joinWith sep [x] = x"
| "joinWith sep (x # y # xs) = x @ sep @ joinWith sep (y # xs)"

definition attentionEventId :: "runtime \<Rightarrow> string \<Rightarrow> string \<Rightarrow> string" where
  "attentionEventId rt sourceKey eventType = ''aev_'' @ drop 7 (digestOf rt
     (JObj [(''source_event_key'', JStr sourceKey), (''event_type'', JStr eventType)]))"

definition attentionItemId :: "runtime \<Rightarrow> string \<Rightarrow> string" where
  "attentionItemId rt key =
     ''attn_'' @ take 32 (drop 7 (digestOf rt (JObj [(''attention_key'', JStr key)])))"

definition severityRank :: "severity \<Rightarrow> nat" where
  "severityRank s = (case s of Critical \<Rightarrow> 3 | Warning \<Rightarrow> 2 | Informational \<Rightarrow> 1)"

definition severityStr :: "severity \<Rightarrow> string" where
  "severityStr s = (case s of Critical \<Rightarrow> ''critical'' | Warning \<Rightarrow> ''warning''
     | Informational \<Rightarrow> ''informational'')"

subsection \<open>Event types\<close>

definition attentionTitles :: "(string \<times> string) list" where
  "attentionTitles = [
     (''proposal.created'', ''Proposal created''),
     (''proposal.review_required'', ''Proposal needs human review''),
     (''proposal.auto_approved'', ''Proposal approved by reviewed policy''),
     (''proposal.approved'', ''Proposal approved''),
     (''proposal.queued'', ''Proposal queued for trusted execution''),
     (''proposal.expiring'', ''Approved proposal is approaching expiry''),
     (''proposal.expired'', ''Approved proposal expired without execution''),
     (''proposal.cancelled'', ''Proposal cancelled''),
     (''proposal.applied'', ''Proposal applied''),
     (''proposal.conflict'', ''Guarded writeback conflict''),
     (''proposal.refused'', ''Proposal refused''),
     (''worker.started'', ''Trusted worker started''),
     (''worker.paused'', ''Trusted worker paused''),
     (''worker.unhealthy'', ''Trusted worker needs attention''),
     (''worker.recovered'', ''Trusted worker supervision recovered''),
     (''worker.queue_backlog'', ''Trusted worker queue backlog''),
     (''worker.retry_scheduled'', ''Trusted worker retry scheduled''),
     (''worker.dead_lettered'', ''Trusted worker job dead-lettered''),
     (''worker.unknown_outcome'', ''Database transaction outcome is unknown''),
     (''worker.reconciliation_required'', ''Operator reconciliation is required''),
     (''capability.review_required'', ''Capability needs human review''),
     (''capability.activated'', ''Capability activated''),
     (''capability.revoked'', ''Capability revoked''),
     (''contract.digest_stale'', ''Active contract or policy authority is stale''),
     (''schema.drift_detected'', ''Schema drift blocks active authority''),
     (''credential.posture_changed'', ''Credential posture changed''),
     (''policy.limit_near'', ''Policy limit is approaching''),
     (''policy.limit_exceeded'', ''Policy limit exceeded''),
     (''sensitive_override_activated'', ''Sensitive-field override activated''),
     (''notification.replayed'', ''Notification delivery requeued by a verified operator''),
     (''notification.digest'', ''Runner activity digest'')]"

definition attentionEventTypes :: "string list" where
  "attentionEventTypes = map fst attentionTitles"

definition attentionEventTitle :: "string \<Rightarrow> string" where
  "attentionEventTitle t = optOr (map_of attentionTitles t) []"

definition defaultAttentionEventTypes :: "string list" where
  "defaultAttentionEventTypes = [''proposal.review_required'', ''proposal.expiring'',
     ''proposal.expired'', ''worker.unhealthy'', ''worker.queue_backlog'', ''worker.dead_lettered'',
     ''worker.unknown_outcome'', ''worker.reconciliation_required'', ''capability.review_required'',
     ''contract.digest_stale'', ''schema.drift_detected'', ''credential.posture_changed'',
     ''policy.limit_exceeded'', ''sensitive_override_activated'']"

definition defaultImmediateAttentionEventTypes :: "string list" where
  "defaultImmediateAttentionEventTypes = [''proposal.review_required'', ''proposal.expiring'',
     ''worker.unhealthy'', ''worker.queue_backlog'', ''worker.dead_lettered'',
     ''worker.unknown_outcome'', ''worker.reconciliation_required'', ''contract.digest_stale'',
     ''schema.drift_detected'', ''credential.posture_changed'', ''policy.limit_exceeded'']"

record attention_input =
  xi_event_type :: string
  xi_severity :: severity
  xi_environment :: string
  xi_proposal_id :: "string option"
  xi_job_id :: "string option"
  xi_operation_id :: "string option"
  xi_correlation_id :: "string option"
  xi_capability :: "string option"
  xi_contract_digest :: "string option"
  xi_attention_key :: "string option"
  xi_attention_required :: "bool option"
  xi_immediate_default :: "bool option"
  xi_summary :: "string option"
  xi_approval_source :: "string option"
  xi_worker_state :: "string option"
  xi_failure_class :: "string option"
  xi_expires_at :: "time option"
  xi_workbench_path :: "string option"
  xi_details :: srow
  xi_source_event_key :: "string option"
  xi_now :: time

subsection \<open>The events a proposal event raises\<close>

definition proposalCapability :: "proposal \<Rightarrow> string" where
  "proposalCapability p = optOr (p_capability p) (p_action p)"

definition contractDigestOf :: "proposal \<Rightarrow> string option" where
  "contractDigestOf p = map_option cp_digest (cs_contract (p_change_set p))"

definition scopeDigest :: "runtime \<Rightarrow> proposal \<Rightarrow> string" where
  "scopeDigest rt p = digestOf rt (JObj [(''tenant_id'', JStr (p_tenant_id p)),
     (''principal'', (case p_principal p of None \<Rightarrow> JNull | Some x \<Rightarrow> JStr x))])"

definition requiredRoleOr :: "proposal \<Rightarrow> string" where
  "requiredRoleOr p = optOr (cs_required_role (p_change_set p)) ''reviewer''"

definition proposalReviewAttentionKey :: "runtime \<Rightarrow> proposal \<Rightarrow> string \<Rightarrow> string" where
  "proposalReviewAttentionKey rt p environment = joinWith '':''
     [environment, ''proposal.review_required'', proposalCapability p,
      optOr (contractDigestOf p) ''no_digest'', requiredRoleOr p, scopeDigest rt p]"

text \<open>The input of \<open>attentionEventsForProposalEvent\<close>.\<close>

record raised =
  ra_proposal :: proposal
  ra_event_id :: nat
  ra_kind :: string
  ra_actor :: string
  ra_payload :: srow
  ra_environment :: string
  ra_occurred_at :: time

definition baseEvent :: "raised \<Rightarrow> string \<Rightarrow> severity \<Rightarrow> attention_input" where
  "baseEvent r eventType sev = \<lparr>xi_event_type = eventType, xi_severity = sev,
     xi_environment = ra_environment r, xi_proposal_id = Some (p_id (ra_proposal r)),
     xi_job_id = None, xi_operation_id = None, xi_correlation_id = None,
     xi_capability = Some (proposalCapability (ra_proposal r)),
     xi_contract_digest = presentStr (contractDigestOf (ra_proposal r)),
     xi_attention_key = None, xi_attention_required = Some False, xi_immediate_default = Some False,
     xi_summary = None, xi_approval_source = None, xi_worker_state = None, xi_failure_class = None,
     xi_expires_at = None, xi_workbench_path = None, xi_details = [],
     xi_source_event_key = Some (''proposal:'' @ p_id (ra_proposal r) @ '':event:''
        @ natDecimal (ra_event_id r) @ '':'' @ eventType),
     xi_now = ra_occurred_at r\<rparr>"

definition safeCode :: "raised \<Rightarrow> string option" where
  "safeCode r = (case safeAttentionPayloadString (ra_payload r) ''safe_error_code'' of
      Some s \<Rightarrow> Some s
    | None \<Rightarrow> (case safeAttentionPayloadString (ra_payload r) ''error_code'' of
        Some s \<Rightarrow> Some s
      | None \<Rightarrow> safeAttentionPayloadString (ra_payload r) ''reason_code''))"

definition workerDetails :: "raised \<Rightarrow> srow" where
  "workerDetails r =
     safeAttentionDetails (ra_payload r) [''attempt'', ''max_attempts'', ''execution_mode'', ''outcome'']"

definition codeDetail :: "string option \<Rightarrow> srow" where
  "codeDetail = optField ''failure_class'' JStr"

definition reviewAttention :: "runtime \<Rightarrow> raised \<Rightarrow> string option \<Rightarrow> attention_input" where
  "reviewAttention rt r summary =
     (let p = ra_proposal r; key = proposalReviewAttentionKey rt p (ra_environment r)
      in (baseEvent r ''proposal.review_required'' Warning)\<lparr>
           xi_attention_required := Some True, xi_immediate_default := Some True,
           xi_attention_key := Some key,
           xi_summary := Some (optOr summary
             (proposalCapability p @ '' proposals need '' @ requiredRoleOr p @ '' review'')),
           xi_workbench_path := Some (''/attention/'' @ attentionItemId rt key),
           xi_details := (''required_role'', JStr (requiredRoleOr p)) # codeDetail (safeCode r),
           xi_failure_class := safeCode r\<rparr>)"

definition failureKey :: "runtime \<Rightarrow> raised \<Rightarrow> string \<Rightarrow> string \<Rightarrow> string" where
  "failureKey rt r eventType failureClass = joinWith '':'' [ra_environment r, eventType,
     proposalCapability (ra_proposal r), optOr (contractDigestOf (ra_proposal r)) ''no_digest'',
     failureClass, scopeDigest rt (ra_proposal r)]"

definition criticalWorkerAttention :: "runtime \<Rightarrow> raised \<Rightarrow> string \<Rightarrow> attention_input" where
  "criticalWorkerAttention rt r eventType =
     (let failureClass = optOr (safeCode r)
            (if eventType = ''worker.dead_lettered'' then ''RETRY_BUDGET_EXHAUSTED''
             else if eventType = ''worker.unknown_outcome'' then ''OUTCOME_UNKNOWN''
             else ''RECONCILIATION_REQUIRED'');
          key = failureKey rt r eventType failureClass
      in (baseEvent r eventType Critical)\<lparr>
           xi_attention_required := Some True, xi_immediate_default := Some True,
           xi_attention_key := Some key,
           xi_workbench_path := Some (''/attention/'' @ attentionItemId rt key),
           xi_worker_state := Some (drop 7 eventType), xi_failure_class := Some failureClass,
           xi_details := workerDetails r @ [(''failure_class'', JStr failureClass)]\<rparr>)"

text \<open>The patterns \<open>/a.*b/i\<close> by which a blocked worker item is classified.\<close>

fun gapThen :: "string list \<Rightarrow> string \<Rightarrow> bool" where
  "gapThen bs [] = list_ex (startsWith []) bs"
| "gapThen bs (c # cs) = (list_ex (startsWith (c # cs)) bs
     \<or> (of_char c \<notin> set [10, 13 :: nat] \<and> gapThen bs cs))"

fun gapMatch :: "string list \<Rightarrow> string list \<Rightarrow> string \<Rightarrow> bool" where
  "gapMatch as bs [] = False"
| "gapMatch as bs (c # cs) = (list_ex (\<lambda>a. startsWith (c # cs) a
     \<and> gapThen bs (drop (length a) (c # cs))) as \<or> gapMatch as bs cs)"

definition expiredClass :: "string \<Rightarrow> bool" where
  "expiredClass s = gapMatch [''proposal_''] [''expired''] (lowerCase s)"

definition digestStaleClass :: "string \<Rightarrow> bool" where
  "digestStaleClass s \<longleftrightarrow> gapMatch
     [''contract_'', ''digest_'', ''generation_lock_'', ''schema_'', ''policy_'']
     [''stale'', ''mismatch'', ''changed''] (lowerCase s)
   \<or> includesStr (lowerCase s) ''active_contract_digest''"

definition limitExceededClass :: "string \<Rightarrow> bool" where
  "limitExceededClass s \<longleftrightarrow> gapMatch [''limit_'', ''rate_'', ''queue_'', ''budget_'']
     [''exceeded'', ''stale'', ''mismatch''] (lowerCase s)
   \<or> includesStr (lowerCase s) ''policy_limit''"

definition workerBlockedAttention :: "runtime \<Rightarrow> raised \<Rightarrow> attention_input" where
  "workerBlockedAttention rt r =
     (let failureClass = optOr (safeCode r) ''WORKER_POLICY_BLOCKED'';
          details = workerDetails r @ [(''failure_class'', JStr failureClass)]
      in if expiredClass failureClass then
           (baseEvent r ''proposal.expired'' Warning)\<lparr>xi_worker_state := Some ''blocked'',
             xi_failure_class := Some failureClass, xi_details := details\<rparr>
         else
           (let stale = digestStaleClass failureClass; limit = limitExceededClass failureClass;
                eventType = (if stale then ''contract.digest_stale''
                  else if limit then ''policy.limit_exceeded'' else ''proposal.refused'');
                key = failureKey rt r eventType failureClass;
                required = stale \<or> limit
            in (baseEvent r eventType (if required then Critical else Warning))\<lparr>
                 xi_attention_required := Some required, xi_immediate_default := Some required,
                 xi_attention_key := (if required then Some key else None),
                 xi_workbench_path :=
                   (if required then Some (''/attention/'' @ attentionItemId rt key) else None),
                 xi_worker_state := Some ''blocked'', xi_failure_class := Some failureClass,
                 xi_details := details\<rparr>))"

definition codedEvent :: "raised \<Rightarrow> string \<Rightarrow> severity \<Rightarrow> attention_input" where
  "codedEvent r eventType sev = (baseEvent r eventType sev)\<lparr>
     xi_failure_class := safeCode r, xi_details := codeDetail (safeCode r)\<rparr>"

definition completedEvent :: "raised \<Rightarrow> string \<Rightarrow> severity \<Rightarrow> srow \<Rightarrow> attention_input" where
  "completedEvent r eventType sev details = (baseEvent r eventType sev)\<lparr>
     xi_worker_state := Some ''completed'', xi_details := details\<rparr>"

definition attentionEventsForProposalEvent :: "runtime \<Rightarrow> raised \<Rightarrow> attention_input list" where
  "attentionEventsForProposalEvent rt r =
     (let kind = ra_kind r; p = ra_proposal r in
      if kind = ''proposal_created'' then
        (baseEvent r ''proposal.created'' Informational)\<lparr>
           xi_details := [(''source_database_changed'', JBool False)]\<rparr>
        # (if p_state p = PendingReview \<and> cs_approval_mode (p_change_set p) \<noteq> Some ''policy''
           then [reviewAttention rt r None] else [])
      else if kind = ''proposal_approved'' then
        (let policy = startsWith (ra_actor r) ''policy:'' in
         [(baseEvent r (if policy then ''proposal.auto_approved'' else ''proposal.approved'')
             Informational)\<lparr>
            xi_approval_source := Some (if policy then ''policy_auto'' else ''human''),
            xi_details := safeAttentionDetails (ra_payload r)
              [''approvals'', ''required_approvals'', ''remaining_approvals'']\<rparr>])
      else if kind = ''policy_auto_approval_deferred'' then
        [reviewAttention rt r (Some (proposalCapability p
           @ '' exceeded automatic-approval policy and needs human review''))]
      else if kind = ''proposal_approval_blocked_freshness'' then
        [reviewAttention rt r (Some (proposalCapability p
           @ '' needs review because its source freshness check failed''))]
      else if kind \<in> set [''proposal_rejected'', ''proposal_failed''] then
        [codedEvent r ''proposal.refused'' Warning]
      else if kind \<in> set [''proposal_canceled'', ''writeback_canceled''] then
        [baseEvent r ''proposal.cancelled'' Informational]
      else if kind \<in> set [''proposal_conflict'', ''writeback_conflict'', ''writeback_intent_conflict''] then
        [codedEvent r ''proposal.conflict'' Warning]
      else if kind \<in> set [''proposal_pending_worker'', ''writeback_worker_queued''] then
        [(baseEvent r ''proposal.queued'' Informational)\<lparr>xi_worker_state := Some ''queued'',
           xi_details := safeAttentionDetails (ra_payload r) [''execution_mode'', ''max_attempts'']\<rparr>]
      else if kind = ''writeback_retry_scheduled'' then
        [(baseEvent r ''worker.retry_scheduled'' Warning)\<lparr>xi_worker_state := Some ''retry_wait'',
           xi_failure_class := safeCode r, xi_details := workerDetails r @ codeDetail (safeCode r)\<rparr>]
      else if kind = ''writeback_dead_lettered'' then
        [criticalWorkerAttention rt r ''worker.dead_lettered'']
      else if kind = ''writeback_worker_blocked'' then [workerBlockedAttention rt r]
      else if kind = ''policy_limit_near'' then
        [(baseEvent r ''policy.limit_near'' Warning)\<lparr>
           xi_summary := Some (proposalCapability p @ '' is approaching a reviewed policy limit''),
           xi_details := safeAttentionDetails (ra_payload r) [''kind'', ''scope'', ''observed'',
             ''proposed'', ''projected'', ''max'', ''window_start'', ''window_end'']\<rparr>]
      else if kind \<in> set [''writeback_reconciliation_required'',
                ''writeback_intent_reconciliation_required''] then
        [criticalWorkerAttention rt r ''worker.reconciliation_required'']
      else if kind \<in> set [''writeback_failed'', ''writeback_intent_failed'']
           \<and> (safeCode r = Some ''OUTCOME_UNKNOWN'' \<or> safeCode r = Some ''RECONCILIATION_REQUIRED'') then
        [criticalWorkerAttention rt r ''worker.unknown_outcome'']
      else if kind \<in> set [''writeback_applied'', ''writeback_already_applied'',
                ''writeback_intent_applied'', ''writeback_intent_already_applied''] then
        [completedEvent r ''proposal.applied'' Informational
           (safeAttentionDetails (ra_payload r) [''rows_affected'', ''source_database_mutated''])]
      else if kind = ''writeback_worker_completed'' then
        (case safeAttentionPayloadString (ra_payload r) ''outcome'' of
           Some outcome \<Rightarrow>
             (if outcome = ''conflict'' then
                [completedEvent r ''proposal.conflict'' Warning [(''outcome'', JStr outcome)]]
              else if outcome \<in> set [''applied'', ''already_applied''] then
                [completedEvent r ''proposal.applied'' Informational [(''outcome'', JStr outcome)]]
              else [])
         | None \<Rightarrow> [])
      else if kind = ''proposal_reconciliation_required'' then
        [criticalWorkerAttention rt r ''worker.reconciliation_required'']
      else [])"

subsection \<open>Recording an event\<close>

definition detailKeyOk :: "string \<Rightarrow> bool" where
  "detailKeyOk k \<longleftrightarrow> headTail isLower (\<lambda>c. isLower c \<or> isDigit c \<or> c = CHR ''_'') k \<and> length k \<le> 64"

definition assertDetail :: "string \<times> json \<Rightarrow> unit result" where
  "assertDetail e = bindE (throwIf (\<not> detailKeyOk (fst e))
       (ProposalStoreError ''ATTENTION_EVENT_DETAIL_KEY_INVALID'')) (\<lambda>_.
     case snd e of
       JStr s \<Rightarrow> mapE (\<lambda>_. ()) (boundedSafeLabel s 256)
     | JNull \<Rightarrow> Inr ()
     | JBool b \<Rightarrow> Inr ()
     | JNum n \<Rightarrow> throwIf (n = NonFinite) (ProposalStoreError ''ATTENTION_EVENT_DETAIL_VALUE_INVALID'')
     | _ \<Rightarrow> Inl (ProposalStoreError ''ATTENTION_EVENT_DETAIL_VALUE_INVALID''))"

text \<open>
  The severity is a datatype and both times are instants, so the checks of the severity and of
  \<open>Date.parse\<close> cannot fail here.
\<close>

definition assertAttentionEventInput :: "attention_input \<Rightarrow> unit result" where
  "assertAttentionEventInput x =
     bindE (throwIf (xi_event_type x \<notin> set attentionEventTypes)
              (ProposalStoreError ''ATTENTION_EVENT_TYPE_INVALID'')) (\<lambda>_.
     bindE (throwIf (case presentStr (xi_contract_digest x) of None \<Rightarrow> False
                     | Some d \<Rightarrow> \<not> sha256Full d)
              (ProposalStoreError ''ATTENTION_EVENT_DIGEST_INVALID'')) (\<lambda>_.
     bindE (throwIf (32 < length (xi_details x))
              (ProposalStoreError ''ATTENTION_EVENT_DETAILS_TOO_LARGE'')) (\<lambda>_.
     bindE (traverseE assertDetail (xi_details x)) (\<lambda>_.
     assertNoSecretMaterial (JObj (xi_details x))))))"

definition defaultAttentionKey ::
  "string \<Rightarrow> string \<Rightarrow> string option \<Rightarrow> string option \<Rightarrow> srow \<Rightarrow> string" where
  "defaultAttentionKey environment eventType capability contractDigest details =
     (let failureClass = (case field details ''failure_class'' of JStr s \<Rightarrow> s
        | _ \<Rightarrow> (case field details ''reason_code'' of JStr s \<Rightarrow> s | _ \<Rightarrow> ''none''))
      in joinWith '':'' [environment, eventType, optOr capability ''global'',
           optOr contractDigest ''no_digest'', failureClass])"

definition optLabel :: "string option \<Rightarrow> nat \<Rightarrow> string option result" where
  "optLabel m n = (case presentStr m of None \<Rightarrow> Inr None | Some s \<Rightarrow> mapE Some (boundedSafeLabel s n))"

definition optPath :: "string option \<Rightarrow> string option result" where
  "optPath m = (case presentStr m of None \<Rightarrow> Inr None | Some s \<Rightarrow> mapE Some (boundedWorkbenchPath s))"

text \<open>The unsigned content of an event, which its \<open>payload_hash\<close> covers.\<close>

definition unsignedEventJson :: "runtime \<Rightarrow> attention_event \<Rightarrow> json" where
  "unsignedEventJson rt e = JObj ([
     (''schema_version'', JStr ''synapsor.attention-event.v1''),
     (''event_id'', JStr (ae_event_id e)), (''event_type'', JStr (ae_event_type e)),
     (''severity'', JStr (severityStr (ae_severity e))),
     (''occurred_at'', JStr (isoString rt (ae_occurred_at e))),
     (''environment'', JStr (ae_environment e))]
     @ optField ''proposal_id'' JStr (ae_proposal_id e) @ optField ''job_id'' JStr (ae_job_id e)
     @ optField ''operation_id'' JStr (ae_operation_id e)
     @ optField ''correlation_id'' JStr (ae_correlation_id e)
     @ optField ''capability'' JStr (ae_capability e)
     @ optField ''contract_digest'' JStr (ae_contract_digest e)
     @ optField ''attention_key'' JStr (ae_attention_key e)
     @ [(''attention_required'', JBool (ae_attention_required e)),
        (''immediate_default'', JBool (ae_immediate_default e)),
        (''summary'', JStr (ae_summary e))]
     @ optField ''approval_source'' JStr (ae_approval_source e)
     @ optField ''worker_state'' JStr (ae_worker_state e)
     @ optField ''failure_class'' JStr (ae_failure_class e)
     @ optField ''expires_at'' (\<lambda>t. JStr (isoString rt t)) (ae_expires_at e)
     @ optField ''workbench_path'' JStr (ae_workbench_path e)
     @ [(''details'', JObj (ae_details e))])"

definition sourceEventKeyOf ::
  "runtime \<Rightarrow> attention_input \<Rightarrow> string option \<Rightarrow> srow \<Rightarrow> string result" where
  "sourceEventKeyOf rt x capability details = (case presentStr (xi_source_event_key x) of
      Some k \<Rightarrow> boundedSafeLabel k 512
    | None \<Rightarrow> Inr (digestOf rt (JObj [(''event_type'', JStr (xi_event_type x)),
        (''occurred_at'', JStr (isoString rt (xi_now x))),
        (''proposal_id'', (case xi_proposal_id x of None \<Rightarrow> JNull | Some s \<Rightarrow> JStr s)),
        (''job_id'', (case xi_job_id x of None \<Rightarrow> JNull | Some s \<Rightarrow> JStr s)),
        (''operation_id'', (case xi_operation_id x of None \<Rightarrow> JNull | Some s \<Rightarrow> JStr s)),
        (''capability'', (case capability of None \<Rightarrow> JNull | Some s \<Rightarrow> JStr s)),
        (''details'', JObj details)])))"

text \<open>The event an input stands for: normalized, bounded, free of secrets and hashed.\<close>

definition buildAttentionEvent :: "runtime \<Rightarrow> attention_input \<Rightarrow> attention_event result" where
  "buildAttentionEvent rt x =
     bindE (assertAttentionEventInput x) (\<lambda>_.
     bindE (boundedSafeLabel (xi_environment x) 64) (\<lambda>environment.
     bindE (optLabel (xi_capability x) 256) (\<lambda>capability.
     (let details = sortBy (\<lambda>a b. localeLe rt (fst a) (fst b)) (xi_details x);
          required = optOr (xi_attention_required x)
                       (xi_event_type x \<in> set defaultAttentionEventTypes);
          immediate = optOr (xi_immediate_default x)
                       (xi_event_type x \<in> set defaultImmediateAttentionEventTypes)
      in
     bindE (sourceEventKeyOf rt x capability details) (\<lambda>sourceKey.
     bindE (if required
            then mapE Some (boundedSafeLabel (optOr (xi_attention_key x)
                   (defaultAttentionKey environment (xi_event_type x) capability
                      (xi_contract_digest x) details)) 512)
            else Inr None) (\<lambda>attentionKey.
     bindE (optLabel (xi_proposal_id x) 256) (\<lambda>proposalId.
     bindE (optLabel (xi_job_id x) 256) (\<lambda>jobId.
     bindE (optLabel (xi_operation_id x) 256) (\<lambda>operationId.
     bindE (optLabel (xi_correlation_id x) 256) (\<lambda>correlationId.
     bindE (boundedSafeLabel (optOr (xi_summary x) (attentionEventTitle (xi_event_type x))) 512) (\<lambda>summary.
     bindE (optLabel (xi_worker_state x) 128) (\<lambda>workerState.
     bindE (optLabel (xi_failure_class x) 128) (\<lambda>failureClass.
     bindE (optPath (xi_workbench_path x)) (\<lambda>path.
     (let unsigned = \<lparr>ae_event_id = attentionEventId rt sourceKey (xi_event_type x),
            ae_event_type = xi_event_type x, ae_severity = xi_severity x,
            ae_occurred_at = xi_now x, ae_environment = environment,
            ae_proposal_id = proposalId, ae_job_id = jobId, ae_operation_id = operationId,
            ae_correlation_id = correlationId, ae_capability = capability,
            ae_contract_digest = presentStr (xi_contract_digest x),
            ae_attention_key = presentStr attentionKey, ae_attention_required = required,
            ae_immediate_default = immediate, ae_summary = summary,
            ae_approval_source = presentStr (xi_approval_source x), ae_worker_state = workerState,
            ae_failure_class = failureClass, ae_expires_at = xi_expires_at x,
            ae_workbench_path = path, ae_details = details, ae_payload_hash = []\<rparr>
      in bindE (assertNoSecretMaterial (unsignedEventJson rt unsigned)) (\<lambda>_.
         Inr (unsigned\<lparr>ae_payload_hash := digestOf rt (unsignedEventJson rt unsigned)\<rparr>)))))))))))))))))"

subsection \<open>Coalescing\<close>

definition newAttentionItem :: "runtime \<Rightarrow> string \<Rightarrow> attention_event \<Rightarrow> attention_item" where
  "newAttentionItem rt key e = \<lparr>ai_attention_id = attentionItemId rt key, ai_attention_key = key,
     ai_status = ItemOpen, ai_severity = ae_severity e, ai_environment = ae_environment e,
     ai_event_type = ae_event_type e, ai_capability = ae_capability e,
     ai_contract_digest = ae_contract_digest e, ai_title = ae_summary e, ai_occurrence_count = 1,
     ai_first_event_id = ae_event_id e, ai_latest_event_id = ae_event_id e,
     ai_first_seen_at = ae_occurred_at e, ai_last_seen_at = ae_occurred_at e,
     ai_acknowledged_by = None, ai_acknowledged_at = None, ai_acknowledgement_identity = None,
     ai_resolved_at = None, ai_expires_at = ae_expires_at e\<rparr>"

definition reopenAttentionItem :: "attention_event \<Rightarrow> attention_item \<Rightarrow> attention_item" where
  "reopenAttentionItem e i = i\<lparr>ai_status := ItemOpen,
     ai_severity := (if severityRank (ai_severity i) < severityRank (ae_severity e)
                     then ae_severity e else ai_severity i),
     ai_event_type := ae_event_type e, ai_title := ae_summary e,
     ai_occurrence_count := ai_occurrence_count i + 1, ai_latest_event_id := ae_event_id e,
     ai_last_seen_at := ae_occurred_at e, ai_acknowledged_by := None, ai_acknowledged_at := None,
     ai_acknowledgement_identity := None, ai_resolved_at := None,
     ai_expires_at := (case ae_expires_at e of None \<Rightarrow> ai_expires_at i | Some t \<Rightarrow> Some t)\<rparr>"

definition projectAttentionItem ::
  "runtime \<Rightarrow> attention_event \<Rightarrow> attention_state \<Rightarrow> attention_state result" where
  "projectAttentionItem rt e a = (case ae_attention_key e of
      None \<Rightarrow> Inr a
    | Some key \<Rightarrow> (case findRow ai_attention_key key (at_items a) of
        None \<Rightarrow> bindE (throwIf (findRow ai_attention_id (attentionItemId rt key) (at_items a) \<noteq> None)
            (SqliteError ''UNIQUE attention_items.attention_id'')) (\<lambda>_.
          Inr (a\<lparr>at_items := at_items a @ [newAttentionItem rt key e]\<rparr>))
      | Some i \<Rightarrow> Inr (a\<lparr>at_items := updateWhere (\<lambda>j. ai_attention_id j = ai_attention_id i)
          (reopenAttentionItem e) (at_items a)\<rparr>)))"

definition itemLive :: "attention_item \<Rightarrow> bool" where
  "itemLive i \<longleftrightarrow> ai_status i = ItemOpen \<or> ai_status i = ItemAcknowledged"

definition closeProposalExpiryAttention ::
  "attention_event \<Rightarrow> bool \<Rightarrow> attention_state \<Rightarrow> attention_state" where
  "closeProposalExpiryAttention e resolved a = (case ae_proposal_id e of
      None \<Rightarrow> a
    | Some pid \<Rightarrow> (let keys = map ae_attention_key (filter (\<lambda>x. ae_proposal_id x = Some pid
            \<and> ae_event_type x = ''proposal.expiring'' \<and> ae_attention_key x \<noteq> None) (at_events a))
        in a\<lparr>at_items := updateWhere (\<lambda>i. itemLive i \<and> Some (ai_attention_key i) \<in> set keys)
             (\<lambda>i. i\<lparr>ai_status := (if resolved then ItemResolved else ItemExpired),
                ai_event_type := ae_event_type e, ai_title := ae_summary e,
                ai_latest_event_id := ae_event_id e,
                ai_resolved_at := (if resolved then Some (ae_occurred_at e) else None),
                ai_last_seen_at := max (ai_last_seen_at i) (ae_occurred_at e)\<rparr>) (at_items a)\<rparr>))"

definition closeForEvent :: "attention_event \<Rightarrow> attention_state \<Rightarrow> attention_state" where
  "closeForEvent e a =
     (if ae_proposal_id e \<noteq> None \<and> ae_event_type e = ''proposal.expired''
      then closeProposalExpiryAttention e False a
      else if ae_proposal_id e \<noteq> None
           \<and> ae_event_type e \<in> set [''proposal.applied'', ''proposal.cancelled'', ''proposal.refused'']
      then closeProposalExpiryAttention e True a else a)"

definition recordAttentionEventInternal ::
  "runtime \<Rightarrow> attention_input \<Rightarrow> attention_state \<Rightarrow> (attention_event \<times> attention_state) result" where
  "recordAttentionEventInternal rt x a = bindE (buildAttentionEvent rt x) (\<lambda>e.
     case findRow ae_event_id (ae_event_id e) (at_events a) of
       Some old \<Rightarrow> bindE (throwIf (ae_payload_hash old \<noteq> ae_payload_hash e)
           (ProposalStoreError ''ATTENTION_EVENT_IDEMPOTENCY_MISMATCH'')) (\<lambda>_. Inr (old, a))
     | None \<Rightarrow> (let b = a\<lparr>at_events := at_events a @ [e]\<rparr> in
         bindE (if ae_attention_required e \<and> ae_attention_key e \<noteq> None
                then projectAttentionItem rt e b else Inr b) (\<lambda>c.
         Inr (e, closeForEvent e c))))"

subsection \<open>Facts\<close>

lemma boundedSafeLabel_ok:
  "boundedSafeLabel s n = Inr t \<Longrightarrow>
     t = trimStr s \<and> t \<noteq> [] \<and> length t \<le> n \<and> \<not> list_ex isControl t \<and> \<not> secretValuePattern t"
  by (auto simp: boundedSafeLabel_def Let_def bindE_eq_Inr secretFree_obj secretFree_str not_less)

lemma boundedWorkbenchPath_ok:
  "boundedWorkbenchPath s = Inr t \<Longrightarrow> startsWith t ''/'' \<and> \<not> includesStr t ''?''
     \<and> \<not> includesStr t ''#'' \<and> \<not> includesStr t ''://'' \<and> \<not> includesStr t ''..''"
  by (auto simp: boundedWorkbenchPath_def bindE_eq_Inr)

lemma buildAttentionEvent_ok:
  assumes "buildAttentionEvent rt x = Inr e"
  shows "secretFree (unsignedEventJson rt e)" and "ae_event_type e = xi_event_type x"
    and "ae_event_type e \<in> set attentionEventTypes"
    and "ae_payload_hash e = digestOf rt (unsignedEventJson rt e)"
proof -
  from assms show "ae_event_type e = xi_event_type x" "ae_event_type e \<in> set attentionEventTypes"
    by (auto simp: buildAttentionEvent_def assertAttentionEventInput_def bindE_eq_Inr Let_def)
  have upd: "unsignedEventJson rt (u\<lparr>ae_payload_hash := h\<rparr>) = unsignedEventJson rt u" for u h
    by (simp add: unsignedEventJson_def)
  from assms obtain u where "secretFree (unsignedEventJson rt u)"
    and "e = u\<lparr>ae_payload_hash := digestOf rt (unsignedEventJson rt u)\<rparr>"
    by (auto simp: buildAttentionEvent_def bindE_eq_Inr Let_def simp del: attention_event.update_convs)
  then show "secretFree (unsignedEventJson rt e)"
    and "ae_payload_hash e = digestOf rt (unsignedEventJson rt e)"
    by (simp_all add: upd)
qed

lemma buildAttentionEvent_key:
  assumes "buildAttentionEvent rt x = Inr e" and "ae_attention_required e"
  shows "ae_attention_key e \<noteq> None"
  using assms
  by (auto simp: buildAttentionEvent_def bindE_eq_Inr Let_def mapE_eq_Inr presentStr_def
      dest!: boundedSafeLabel_ok split: if_splits)

text \<open>The invariant of the attention tables.\<close>

definition itemOk :: "runtime \<Rightarrow> attention_event list \<Rightarrow> attention_item \<Rightarrow> bool" where
  "itemOk rt evs i \<longleftrightarrow> ai_attention_id i = attentionItemId rt (ai_attention_key i)
     \<and> 1 \<le> ai_occurrence_count i
     \<and> ai_first_event_id i \<in> ae_event_id ` set evs \<and> ai_latest_event_id i \<in> ae_event_id ` set evs"

definition eventOk :: "runtime \<Rightarrow> attention_item list \<Rightarrow> attention_event \<Rightarrow> bool" where
  "eventOk rt items e \<longleftrightarrow> secretFree (unsignedEventJson rt e)
     \<and> ae_payload_hash e = digestOf rt (unsignedEventJson rt e)
     \<and> (ae_attention_required e \<longrightarrow>
          (\<exists>k. ae_attention_key e = Some k \<and> k \<in> ai_attention_key ` set items))"

definition attention_ok :: "runtime \<Rightarrow> attention_state \<Rightarrow> bool" where
  "attention_ok rt a \<longleftrightarrow> distinct (map ae_event_id (at_events a))
     \<and> distinct (map ai_attention_key (at_items a)) \<and> distinct (map ai_attention_id (at_items a))
     \<and> (\<forall>i \<in> set (at_items a). itemOk rt (at_events a) i)
     \<and> (\<forall>e \<in> set (at_events a). eventOk rt (at_items a) e)"

lemma attention_ok_itemD: "attention_ok rt a \<Longrightarrow> i \<in> set (at_items a) \<Longrightarrow> itemOk rt (at_events a) i"
  by (simp add: attention_ok_def)

lemma attention_ok_eventD: "attention_ok rt a \<Longrightarrow> e \<in> set (at_events a) \<Longrightarrow> eventOk rt (at_items a) e"
  by (simp add: attention_ok_def)

text \<open>An update of items that keeps their keys, counts and event references keeps the invariant.\<close>

lemma attention_ok_update_items:
  assumes ok: "attention_ok rt a"
    and key: "\<And>i. ai_attention_key (f i) = ai_attention_key i"
    and id: "\<And>i. ai_attention_id (f i) = ai_attention_id i"
    and item: "\<And>i. i \<in> set (at_items a) \<Longrightarrow> p i \<Longrightarrow> itemOk rt (at_events a) (f i)"
  shows "attention_ok rt (a\<lparr>at_items := updateWhere p f (at_items a)\<rparr>)"
proof -
  have keys: "ai_attention_key ` set (updateWhere p f (at_items a)) = ai_attention_key ` set (at_items a)"
    by (metis key list.set_map map_key_updateWhere)
  have maps: "map ai_attention_key (updateWhere p f (at_items a)) = map ai_attention_key (at_items a)"
    "map ai_attention_id (updateWhere p f (at_items a)) = map ai_attention_id (at_items a)"
    using key id by (simp_all add: map_key_updateWhere)
  have "\<forall>i \<in> set (updateWhere p f (at_items a)). itemOk rt (at_events a) i"
    using ok item by (auto simp: attention_ok_def updateWhere_def)
  then show ?thesis
    using ok by (auto simp: attention_ok_def maps eventOk_def keys)
qed

lemma closeProposalExpiryAttention_events [simp]:
  "at_events (closeProposalExpiryAttention e r a) = at_events a"
  "at_deliveries (closeProposalExpiryAttention e r a) = at_deliveries a"
  by (simp_all add: closeProposalExpiryAttention_def Let_def split: option.split)

lemma closeForEvent_events [simp]:
  "at_events (closeForEvent e a) = at_events a" "at_deliveries (closeForEvent e a) = at_deliveries a"
  by (simp_all add: closeForEvent_def)

lemma closeProposalExpiryAttention_ok:
  assumes "attention_ok rt a" and "ae_event_id e \<in> ae_event_id ` set (at_events a)"
  shows "attention_ok rt (closeProposalExpiryAttention e r a)"
proof (cases "ae_proposal_id e")
  case (Some pid)
  have "itemOk rt (at_events a) i \<Longrightarrow> itemOk rt (at_events a)
      (i\<lparr>ai_status := s, ai_event_type := t, ai_title := u, ai_latest_event_id := ae_event_id e,
         ai_resolved_at := v, ai_last_seen_at := w\<rparr>)" for i s t u v w
    using assms(2) by (simp add: itemOk_def)
  with Some assms(1) show ?thesis
    by (simp add: closeProposalExpiryAttention_def Let_def attention_ok_update_items attention_ok_itemD)
qed (use assms in \<open>simp add: closeProposalExpiryAttention_def\<close>)

lemma closeForEvent_ok:
  "attention_ok rt a \<Longrightarrow> ae_event_id e \<in> ae_event_id ` set (at_events a) \<Longrightarrow>
     attention_ok rt (closeForEvent e a)"
  by (simp add: closeForEvent_def closeProposalExpiryAttention_ok)

lemma itemOk_mono: "itemOk rt evs i \<Longrightarrow> itemOk rt (evs @ new) i"
  by (auto simp: itemOk_def)

lemma eventOk_mono: "eventOk rt items e \<Longrightarrow> ai_attention_key ` set items \<subseteq> ai_attention_key ` set items2
    \<Longrightarrow> eventOk rt items2 e"
  by (auto simp: eventOk_def)

text \<open>Projecting an event keeps the invariant and gives its key an item.\<close>

lemma projectAttentionItem_ok:
  assumes ok: "attention_ok rt a" and run: "projectAttentionItem rt e (a\<lparr>at_events := at_events a @ [e]\<rparr>) = Inr c"
    and key: "ae_attention_key e = Some k"
    and fresh: "ae_event_id e \<notin> ae_event_id ` set (at_events a)"
    and good: "secretFree (unsignedEventJson rt e)"
      "ae_payload_hash e = digestOf rt (unsignedEventJson rt e)"
  shows "attention_ok rt c"
proof (cases "findRow ai_attention_key k (at_items a)")
  case None
  with run key have new: "attentionItemId rt k \<notin> ai_attention_id ` set (at_items a)"
    and c: "c = a\<lparr>at_events := at_events a @ [e], at_items := at_items a @ [newAttentionItem rt k e]\<rparr>"
    by (auto simp: projectAttentionItem_def bindE_eq_Inr findRow_None_iff)
  from None have "k \<notin> ai_attention_key ` set (at_items a)" by (simp add: findRow_None_iff)
  moreover have "eventOk rt (at_items c) x" if "x \<in> set (at_events c)" for x
    using that key good by (auto simp: c eventOk_def newAttentionItem_def dest!: attention_ok_eventD [OF ok])
  moreover have "itemOk rt (at_events c) i" if "i \<in> set (at_items c)" for i
    using that by (auto simp: c dest!: attention_ok_itemD [OF ok] intro: itemOk_mono)
      (simp add: itemOk_def newAttentionItem_def)
  ultimately show ?thesis
    using ok new fresh by (auto simp: attention_ok_def c newAttentionItem_def)
next
  case (Some i)
  let ?b = "a\<lparr>at_events := at_events a @ [e]\<rparr>"
  let ?p = "\<lambda>j. ai_attention_id j = ai_attention_id i"
  from Some run key have c: "c = ?b\<lparr>at_items := updateWhere ?p (reopenAttentionItem e) (at_items a)\<rparr>"
    by (simp add: projectAttentionItem_def)
  have "attention_ok rt ?b"
    using ok fresh good key Some by (auto simp: attention_ok_def eventOk_def itemOk_def dest!: findRow_SomeD)
  then have "attention_ok rt (?b\<lparr>at_items := updateWhere ?p (reopenAttentionItem e) (at_items ?b)\<rparr>)"
    by (rule attention_ok_update_items)
      (auto simp: reopenAttentionItem_def itemOk_def dest!: attention_ok_itemD [OF ok])
  with c show ?thesis by simp
qed

lemma projectAttentionItem_events:
  "projectAttentionItem rt e a = Inr c \<Longrightarrow> at_events c = at_events a \<and> at_deliveries c = at_deliveries a"
  by (auto simp: projectAttentionItem_def bindE_eq_Inr split: option.splits)

text \<open>Recording is append-only, idempotent on the event id, and keeps the invariant.\<close>

lemma recordAttentionEventInternal_cases:
  assumes "recordAttentionEventInternal rt x a = Inr (e, b)"
  obtains (replay) e' where "buildAttentionEvent rt x = Inr e'" "b = a" "e \<in> set (at_events a)"
      "ae_event_id e = ae_event_id e'" "ae_payload_hash e = ae_payload_hash e'"
  | (new) c where "buildAttentionEvent rt x = Inr e"
      "ae_event_id e \<notin> ae_event_id ` set (at_events a)" "b = closeForEvent e c"
      "(if ae_attention_required e \<and> ae_attention_key e \<noteq> None
        then projectAttentionItem rt e (a\<lparr>at_events := at_events a @ [e]\<rparr>)
        else Inr (a\<lparr>at_events := at_events a @ [e]\<rparr>)) = Inr c"
proof -
  from assms obtain e' where e': "buildAttentionEvent rt x = Inr e'"
    by (auto simp: recordAttentionEventInternal_def bindE_eq_Inr)
  show ?thesis
  proof (cases "findRow ae_event_id (ae_event_id e') (at_events a)")
    case (Some old)
    with assms e' have "b = a" "e = old" "ae_payload_hash e = ae_payload_hash e'"
      by (auto simp: recordAttentionEventInternal_def bindE_eq_Inr)
    with findRow_SomeD [OF Some] show ?thesis by (intro replay [OF e']) auto
  next
    case None
    with assms e' have "e = e'" by (auto simp: recordAttentionEventInternal_def bindE_eq_Inr Let_def)
    with assms e' None show ?thesis
      by (auto simp: recordAttentionEventInternal_def bindE_eq_Inr Let_def findRow_None_iff intro: new)
  qed
qed

lemma recordAttentionEventInternal_events:
  assumes "recordAttentionEventInternal rt x a = Inr (e, b)"
  shows "e \<in> set (at_events b) \<and> at_deliveries b = at_deliveries a
     \<and> (b = a \<or> at_events b = at_events a @ [e])"
  using assms
proof (cases rule: recordAttentionEventInternal_cases)
  case (new c)
  then show ?thesis by (auto split: if_splits dest!: projectAttentionItem_events)
qed auto

lemma recordAttentionEventInternal_ok:
  assumes ok: "attention_ok rt a" and run: "recordAttentionEventInternal rt x a = Inr (e, b)"
  shows "attention_ok rt b"
  using run
proof (cases rule: recordAttentionEventInternal_cases)
  case replay
  with ok show ?thesis by simp
next
  case (new c)
  note good = buildAttentionEvent_ok [OF new(1)] buildAttentionEvent_key [OF new(1)]
  have "attention_ok rt c \<and> ae_event_id e \<in> ae_event_id ` set (at_events c)"
  proof (cases "ae_attention_required e")
    case True
    with good(5) obtain k where k: "ae_attention_key e = Some k" by auto
    with True new(4) have proj: "projectAttentionItem rt e (a\<lparr>at_events := at_events a @ [e]\<rparr>) = Inr c"
      by simp
    from projectAttentionItem_ok [OF ok proj k new(2) good(1,4)] projectAttentionItem_events [OF proj]
    show ?thesis by simp
  next
    case False
    with new(4) have "c = a\<lparr>at_events := at_events a @ [e]\<rparr>" by simp
    with ok new(2) good(1,4) False show ?thesis by (auto simp: attention_ok_def eventOk_def itemOk_def)
  qed
  with new(3) show ?thesis by (simp add: closeForEvent_ok)
qed

lemma recordAttentionEventInternal_replay:
  assumes "attention_ok rt a" and "recordAttentionEventInternal rt x a = Inr (e, b)"
  shows "recordAttentionEventInternal rt x b = Inr (e, b)"
proof -
  have b: "attention_ok rt b" using assms by (rule recordAttentionEventInternal_ok)
  have e: "e \<in> set (at_events b)" using recordAttentionEventInternal_events [OF assms(2)] by simp
  from assms(2) obtain e' where "buildAttentionEvent rt x = Inr e'"
    "ae_event_id e = ae_event_id e'" "ae_payload_hash e = ae_payload_hash e'"
    by (cases rule: recordAttentionEventInternal_cases) auto
  moreover have "findRow ae_event_id (ae_event_id e) (at_events b) = Some e"
    using b e by (simp add: attention_ok_def findRow_distinct)
  ultimately show ?thesis by (simp add: recordAttentionEventInternal_def)
qed

end
