(* ===== verification/StoreCore.thy ===== *)
theory StoreCore
  imports Attention
begin

text \<open>
  The operations every other method of the store is built from
  (\<open>packages/proposal-store/src/sqlite-core-methods.ts\<close>): looking a proposal up, moving it to
  another state, appending a proposal event (which raises and coalesces attention) and checking the
  freshness proof of an approval.  An operation either returns the new store or an error, and an
  error leaves the store as it was: that is the transaction of the sources.  \<open>now\<close> is the clock; it
  does not advance inside an operation.

  The locale \<open>event_log\<close> is the contract between the event log and its clients.
\<close>

definition getProposal :: "string \<Rightarrow> store \<Rightarrow> proposal option" where
  "getProposal pid s = findRow p_id pid (s_proposals s)"

definition requireProposal :: "string \<Rightarrow> store \<Rightarrow> proposal result" where
  "requireProposal pid s = requireSome (storeErr ''PROPOSAL_NOT_FOUND'') (getProposal pid s)"

definition attentionEnvironment :: "store \<Rightarrow> string" where
  "attentionEnvironment s = (case s_environment s of
      JStr e \<Rightarrow> (if e \<in> set [''development'', ''staging'', ''production'', ''unknown''] then e
                else ''unknown'')
    | _ \<Rightarrow> ''unknown'')"

definition reviewPending :: "string \<Rightarrow> store \<Rightarrow> bool" where
  "reviewPending key s = list_ex (\<lambda>e. ae_attention_key e = Some key
     \<and> list_ex (\<lambda>p. ae_proposal_id e = Some (p_id p) \<and> p_state p = PendingReview) (s_proposals s))
     (at_events (s_attention s))"

definition resolveLiveItems :: "string \<Rightarrow> time \<Rightarrow> attention_state \<Rightarrow> attention_state" where
  "resolveLiveItems key now a = a\<lparr>at_items := updateWhere (\<lambda>i. ai_attention_key i = key \<and> itemLive i)
     (\<lambda>i. i\<lparr>ai_status := ItemResolved, ai_resolved_at := Some now,
        ai_last_seen_at := max (ai_last_seen_at i) now\<rparr>) (at_items a)\<rparr>"

definition resolveSatisfiedProposalReviewAttention ::
  "runtime \<Rightarrow> time \<Rightarrow> proposal \<Rightarrow> store \<Rightarrow> store" where
  "resolveSatisfiedProposalReviewAttention rt now p s =
     (let key = proposalReviewAttentionKey rt p (attentionEnvironment s)
      in if reviewPending key s then s
         else s\<lparr>s_attention := resolveLiveItems key now (s_attention s)\<rparr>)"

definition recordRaised :: "runtime \<Rightarrow> attention_input \<Rightarrow> attention_state \<Rightarrow> attention_state result" where
  "recordRaised rt x a = mapE snd (recordAttentionEventInternal rt x a)"

definition newEvent ::
  "time \<Rightarrow> string \<Rightarrow> string \<Rightarrow> string \<Rightarrow> srow \<Rightarrow> freshness_proof option \<Rightarrow> store \<Rightarrow> event" where
  "newEvent now pid kind actor payload proof s = \<lparr>ev_id = length (s_events s) + 1,
     ev_proposal_id = pid, ev_kind = kind, ev_actor = actor, ev_payload = payload,
     ev_proof = proof, ev_created_at = now\<rparr>"

definition raisedBy :: "proposal \<Rightarrow> event \<Rightarrow> string \<Rightarrow> raised" where
  "raisedBy p ev environment = \<lparr>ra_proposal = p, ra_event_id = ev_id ev, ra_kind = ev_kind ev,
     ra_actor = ev_actor ev, ra_payload = ev_payload ev, ra_environment = environment,
     ra_occurred_at = ev_created_at ev\<rparr>"

text \<open>
  The event row refers to its proposal by a foreign key.  A freshness proof is the one payload the
  store reads back, so it is kept typed beside the payload.
\<close>

definition appendEvent :: "runtime \<Rightarrow> time \<Rightarrow> string \<Rightarrow> string \<Rightarrow> string \<Rightarrow> srow
    \<Rightarrow> freshness_proof option \<Rightarrow> store \<Rightarrow> store result" where
  "appendEvent rt now pid kind actor payload proof s =
     (let ev = newEvent now pid kind actor payload proof s;
          t = s\<lparr>s_events := s_events s @ [ev]\<rparr>
      in bindE (throwIf (getProposal pid s = None)
                 (SqliteError ''FOREIGN KEY proposal_events.proposal_id'')) (\<lambda>_.
         bindE (requireProposal pid t) (\<lambda>p.
         bindE (foldE (recordRaised rt)
                 (attentionEventsForProposalEvent rt (raisedBy p ev (attentionEnvironment t)))
                 (s_attention t)) (\<lambda>a.
         Inr (if p_state p \<noteq> PendingReview
              then resolveSatisfiedProposalReviewAttention rt now p (t\<lparr>s_attention := a\<rparr>)
              else t\<lparr>s_attention := a\<rparr>)))))"

definition updateProposalState ::
  "runtime \<Rightarrow> time \<Rightarrow> string \<Rightarrow> proposal_state \<Rightarrow> store \<Rightarrow> store" where
  "updateProposalState rt now pid st s = s\<lparr>s_proposals := updateWhere (\<lambda>p. p_id p = pid)
     (\<lambda>p. p\<lparr>p_state := st, p_updated_at := isoString rt now\<rparr>) (s_proposals s)\<rparr>"

definition setState :: "runtime \<Rightarrow> time \<Rightarrow> string \<Rightarrow> proposal_state \<Rightarrow> string \<Rightarrow> srow \<Rightarrow> store
    \<Rightarrow> store result" where
  "setState rt now pid st actor payload s =
     appendEvent rt now pid (''proposal_'' @ proposalStateStr st) actor payload None
       (updateProposalState rt now pid st s)"

definition latestFreshnessProof :: "runtime \<Rightarrow> string \<Rightarrow> store \<Rightarrow> freshness_proof option result" where
  "latestFreshnessProof rt pid s = bindE (requireProposal pid s) (\<lambda>_.
     case find (\<lambda>e. ev_proposal_id e = pid \<and> ev_kind e = ''proposal_freshness_checked'')
            (rev (s_events s)) of
       None \<Rightarrow> Inr None
     | Some e \<Rightarrow> (case ev_proof e of
         None \<Rightarrow> Inl (storeErr ''FRESHNESS_PROOF_TAMPERED'')
       | Some x \<Rightarrow> (case parseFreshnessProof rt x of
           Inl _ \<Rightarrow> Inl (storeErr ''FRESHNESS_PROOF_TAMPERED'')
         | Inr proof \<Rightarrow> Inr (Some proof))))"

definition freshnessFailureCode :: "check_status \<Rightarrow> string" where
  "freshnessFailureCode r = (if r = Stale then ''FRESHNESS_STALE'' else ''FRESHNESS_NOT_VERIFIED'')"

definition assertApprovalFreshness ::
  "runtime \<Rightarrow> proposal \<Rightarrow> string option \<Rightarrow> time \<Rightarrow> store \<Rightarrow> unit result" where
  "assertApprovalFreshness rt p proofDigest now s =
     bindE (proposalFreshnessAuthority rt p) (\<lambda>authority.
     case authority of
       None \<Rightarrow> throwIf (proofDigest \<noteq> None) (storeErr ''FRESHNESS_PROOF_UNEXPECTED'')
     | Some a \<Rightarrow>
     bindE (requireSome (storeErr ''FRESHNESS_PROOF_REQUIRED'') (presentStr proofDigest)) (\<lambda>digest.
     bindE (latestFreshnessProof rt (p_id p) s) (\<lambda>latest.
     bindE (requireSome (storeErr ''FRESHNESS_PROOF_MISSING'')
              (case latest of None \<Rightarrow> None
               | Some x \<Rightarrow> if fp_proof_digest x = digest then Some x else None)) (\<lambda>proof.
     bindE (throwIf (fp_proposal_hash proof \<noteq> p_hash p \<or> fp_proposal_version proof \<noteq> p_version p
               \<or> fp_dependency_set_digest proof \<noteq> fa_dependency_set_digest a)
              (storeErr ''FRESHNESS_PROOF_AUTHORITY_MISMATCH'')) (\<lambda>_.
     bindE (throwIf (fp_result proof \<noteq> Fresh) (storeErr (freshnessFailureCode (fp_result proof)))) (\<lambda>_.
     bindE (throwIf (fp_valid_until proof < now) (storeErr ''FRESHNESS_PROOF_EXPIRED'')) (\<lambda>_.
     throwIf (list_ex (\<lambda>x. ap_proposal_id x = p_id p \<and> ap_freshness_proof_digest x = Some digest)
                (s_approvals s))
       (storeErr ''FRESHNESS_PROOF_ALREADY_USED''))))))))"

subsection \<open>The contract of the event log\<close>

locale event_log =
  fixes append :: "'x \<Rightarrow> 's \<Rightarrow> 's result"
    and log :: "'s \<Rightarrow> 'e list"
    and view :: "'s \<Rightarrow> 'v"
    and good :: "'s \<Rightarrow> bool"
  assumes append_log: "append x s = Inr t \<Longrightarrow> \<exists>e. log t = log s @ [e]"
    and append_view: "append x s = Inr t \<Longrightarrow> view t = view s"
    and append_good: "append x s = Inr t \<Longrightarrow> good s \<Longrightarrow> good t"
begin

lemma appends_log: "foldE append xs s = Inr t \<Longrightarrow> \<exists>es. log t = log s @ es \<and> length es = length xs"
proof (induction xs arbitrary: s)
  case (Cons x xs)
  then obtain u where u: "append x s = Inr u" "foldE append xs u = Inr t"
    by (auto simp: bindE_eq_Inr)
  from append_log [OF u(1)] obtain e where "log u = log s @ [e]" by blast
  moreover from Cons.IH [OF u(2)] obtain es where "log t = log u @ es" "length es = length xs"
    by blast
  ultimately show ?case by (intro exI [of _ "e # es"]) simp
qed simp

lemma appends_view: "foldE append xs s = Inr t \<Longrightarrow> view t = view s"
  by (induction xs arbitrary: s) (auto simp: bindE_eq_Inr dest: append_view)

lemma appends_good: "foldE append xs s = Inr t \<Longrightarrow> good s \<Longrightarrow> good t"
  by (induction xs arbitrary: s) (auto simp: bindE_eq_Inr intro: append_good)

end

subsection \<open>The store's log meets it\<close>

text \<open>Everything but the event log and attention.\<close>

definition storeView :: "store \<Rightarrow> store" where
  "storeView s = s\<lparr>s_events := [], s_attention := s_attention emptyStore\<rparr>"

definition store_attention_ok :: "runtime \<Rightarrow> store \<Rightarrow> bool" where
  "store_attention_ok rt s = attention_ok rt (s_attention s)"

lemma storeView_eqD:
  assumes "storeView t = storeView s"
  shows "s_proposals t = s_proposals s" "s_approvals t = s_approvals s" "s_receipts t = s_receipts s"
    "s_jobs t = s_jobs s" "s_idempotency t = s_idempotency s" "s_intents t = s_intents s"
    "s_queue t = s_queue s" "s_environment t = s_environment s" "s_studies t = s_studies s"
    "s_cases t = s_cases s"
proof -
  obtain a1 a2 a3 a4 a5 a6 a7 a8 a9 a10 a11 a12 where s: "s = store.make a1 a2 a3 a4 a5 a6 a7 a8 a9 a10 a11 a12"
    by (cases s) (simp add: store.defs)
  obtain b1 b2 b3 b4 b5 b6 b7 b8 b9 b10 b11 b12 where t: "t = store.make b1 b2 b3 b4 b5 b6 b7 b8 b9 b10 b11 b12"
    by (cases t) (simp add: store.defs)
  from assms show "s_proposals t = s_proposals s" "s_approvals t = s_approvals s"
    "s_receipts t = s_receipts s" "s_jobs t = s_jobs s" "s_idempotency t = s_idempotency s"
    "s_intents t = s_intents s" "s_queue t = s_queue s" "s_environment t = s_environment s"
    "s_studies t = s_studies s" "s_cases t = s_cases s"
    by (simp_all add: s t store.defs storeView_def)
qed

lemma resolveLiveItems_events [simp]:
  "at_events (resolveLiveItems k now a) = at_events a"
  "at_deliveries (resolveLiveItems k now a) = at_deliveries a"
  by (simp_all add: resolveLiveItems_def)

lemma resolveLiveItems_ok: "attention_ok rt a \<Longrightarrow> attention_ok rt (resolveLiveItems k now a)"
  unfolding resolveLiveItems_def
  by (rule attention_ok_update_items) (auto simp: itemOk_def dest!: attention_ok_itemD)

lemma recordRaised_all:
  assumes "foldE (recordRaised rt) xs a = Inr b"
  shows "(attention_ok rt a \<longrightarrow> attention_ok rt b) \<and> at_deliveries b = at_deliveries a
    \<and> (\<exists>es. at_events b = at_events a @ es)"
  using assms
proof (induction xs arbitrary: a)
  case (Cons x xs)
  from Cons.prems obtain c where "recordRaised rt x a = Inr c"
    and rest: "foldE (recordRaised rt) xs c = Inr b"
    by (auto simp: bindE_eq_Inr)
  then obtain e where c: "recordAttentionEventInternal rt x a = Inr (e, c)"
    by (auto simp: recordRaised_def mapE_eq_Inr)
  from Cons.IH [OF rest] recordAttentionEventInternal_events [OF c]
    recordAttentionEventInternal_ok [OF _ c]
  show ?case by auto
qed simp

text \<open>
  Appending an event adds exactly that event row, may extend attention, and touches nothing else.
\<close>

lemma appendEvent_shape:
  assumes "appendEvent rt now pid kind actor payload proof s = Inr t"
  obtains a p es where "getProposal pid s = Some p"
    and "t = s\<lparr>s_events := s_events s @ [newEvent now pid kind actor payload proof s], s_attention := a\<rparr>"
    and "attention_ok rt (s_attention s) \<Longrightarrow> attention_ok rt a"
    and "at_deliveries a = at_deliveries (s_attention s)"
    and "at_events a = at_events (s_attention s) @ es"
proof -
  let ?ev = "newEvent now pid kind actor payload proof s"
  let ?t = "s\<lparr>s_events := s_events s @ [?ev]\<rparr>"
  from assms obtain p a where p: "getProposal pid s = Some p"
    and a: "foldE (recordRaised rt) (attentionEventsForProposalEvent rt
          (raisedBy p ?ev (attentionEnvironment ?t))) (s_attention s) = Inr a"
    and t: "t = (if p_state p \<noteq> PendingReview
        then resolveSatisfiedProposalReviewAttention rt now p (?t\<lparr>s_attention := a\<rparr>)
        else ?t\<lparr>s_attention := a\<rparr>)"
    by (auto simp: appendEvent_def Let_def bindE_eq_Inr requireProposal_def getProposal_def)
  define b where "b = s_attention t"
  have "t = ?t\<lparr>s_attention := b\<rparr>" and "b = a \<or> (\<exists>k. b = resolveLiveItems k now a)"
    using t by (auto simp: b_def resolveSatisfiedProposalReviewAttention_def Let_def)
  then show ?thesis
    using that [OF p, of b] recordRaised_all [OF a] by (auto simp: resolveLiveItems_ok)
qed

definition appendRow :: "runtime \<Rightarrow> time \<Rightarrow> string \<times> string \<times> string \<times> srow \<Rightarrow> store \<Rightarrow> store result" where
  "appendRow rt now x s = (case x of (pid, kind, actor, payload) \<Rightarrow>
     appendEvent rt now pid kind actor payload None s)"

interpretation store_log: event_log "appendRow rt now" s_events storeView "store_attention_ok rt"
  for rt now
proof
  fix x :: "string \<times> string \<times> string \<times> srow" and s t
  obtain pid kind actor payload where x: "x = (pid, kind, actor, payload)" by (cases x)
  assume "appendRow rt now x s = Inr t"
  then have run: "appendEvent rt now pid kind actor payload None s = Inr t"
    by (simp add: appendRow_def x)
  from run show "\<exists>e. s_events t = s_events s @ [e]" by (rule appendEvent_shape) simp
  from run show "storeView t = storeView s" by (rule appendEvent_shape) (simp add: storeView_def)
  assume "store_attention_ok rt s"
  with run show "store_attention_ok rt t" by (auto simp: store_attention_ok_def elim: appendEvent_shape)
qed

end
