(* ===== verification/Proposals.thy ===== *)
theory Proposals
  imports StoreCore
begin

text \<open>
  The life of a proposal up to its hand-over to a worker
  (\<open>packages/proposal-store/src/sqlite-proposal-methods.ts\<close>): creation from a change set, freshness
  proofs, approval by reviewers up to the required quorum, approval by a reviewed policy within its
  daily limits, rejection and the move to \<open>pending_worker\<close>; and the attachment of a shadow proposal
  to the active shadow studies (\<open>sqlite-shadow-methods.ts\<close>).

  \<open>clock\<close> is \<open>new Date()\<close>; an operation that takes an optional time uses the clock in its absence.
\<close>

abbreviation jint :: "int \<Rightarrow> json" where
  "jint n \<equiv> JNum (IntN n)"

definition jopt :: "string option \<Rightarrow> json" where
  "jopt m = (case m of None \<Rightarrow> JNull | Some s \<Rightarrow> JStr s)"

subsection \<open>Creation\<close>

definition activeState :: "proposal_state \<Rightarrow> bool" where
  "activeState st \<longleftrightarrow> st \<in> set [PendingReview, Approved, PendingWorker]"

definition findActiveProposal ::
  "string \<Rightarrow> string \<Rightarrow> string \<Rightarrow> string \<Rightarrow> store \<Rightarrow> proposal option" where
  "findActiveProposal tenant action businessObject objectId s =
     (case sortBy (\<lambda>a b. strLe (p_created_at b) (p_created_at a))
        (filter (\<lambda>p. p_tenant_id p = tenant \<and> p_action p = action
           \<and> p_business_object p = businessObject \<and> p_object_id p = objectId
           \<and> activeState (p_state p)) (s_proposals s))
      of [] \<Rightarrow> None | p # _ \<Rightarrow> Some p)"

definition proposalOf :: "change_set \<Rightarrow> proposal" where
  "proposalOf c = \<lparr>p_id = cs_proposal_id c, p_version = cs_proposal_version c,
     p_hash = cs_proposal_hash c, p_action = cs_action c, p_state = stateFromChangeSet c,
     p_tenant_id = cs_tenant_id c, p_principal = Some (cs_principal_id c),
     p_capability = Some (cs_action c), p_business_object = cs_business_object c,
     p_object_id = cs_object_id c, p_source_kind = cs_source_kind c, p_source_id = cs_source_id c,
     p_source_schema = cs_schema c, p_source_table = cs_table c,
     p_source_database_mutated = cs_source_database_mutated c, p_change_set = c,
     p_created_at = cs_created_at c, p_updated_at = cs_created_at c\<rparr>"

definition shadowStudyIncludes ::
  "runtime \<Rightarrow> shadow_study \<Rightarrow> string \<Rightarrow> string \<Rightarrow> bool" where
  "shadowStudyIncludes rt st capability createdAt = (case dateParse rt createdAt of
      None \<Rightarrow> False
    | Some t \<Rightarrow> \<not> (case st_starts_at st of None \<Rightarrow> False | Some a \<Rightarrow> t < a)
        \<and> \<not> (case st_ends_at st of None \<Rightarrow> False | Some b \<Rightarrow> b < t)
        \<and> (st_capabilities st = [] \<or> capability \<in> set (st_capabilities st)))"

text \<open>
  The case row of a study.  \<open>INSERT OR IGNORE\<close> drops it when the case id or the unique key (study,
  request, tenant, object) is taken; the request of such a case is its proposal.  The effect columns
  are derived from the change set and not kept.
\<close>

definition shadowCase :: "runtime \<Rightarrow> string \<Rightarrow> change_set \<Rightarrow> string \<Rightarrow> shadow_case" where
  "shadowCase rt studyId c createdAt = \<lparr>
     sc_case_id = ''scase_'' @ take 20 (drop 7 (digestOf rt (JObj [(''study_id'', JStr studyId),
       (''request_id'', JStr (cs_proposal_id c)), (''tenant_id'', JStr (cs_tenant_id c)),
       (''business_object'', JStr (cs_business_object c)), (''object_id'', JStr (cs_object_id c))]))),
     sc_study_id = studyId, sc_proposal_id = cs_proposal_id c, sc_tenant_id = cs_tenant_id c,
     sc_capability = cs_action c, sc_business_object = cs_business_object c,
     sc_object_id = cs_object_id c, sc_created_at = createdAt\<rparr>"

definition caseKey :: "shadow_case \<Rightarrow> string \<times> string \<times> string \<times> string \<times> string" where
  "caseKey x = (sc_study_id x, sc_proposal_id x, sc_tenant_id x, sc_business_object x, sc_object_id x)"

definition insertShadowCaseFromChangeSet ::
  "runtime \<Rightarrow> change_set \<Rightarrow> string \<Rightarrow> string \<Rightarrow> shadow_case list \<Rightarrow> shadow_case list" where
  "insertShadowCaseFromChangeSet rt c createdAt studyId cases =
     (let x = shadowCase rt studyId c createdAt
      in if list_ex (\<lambda>y. sc_case_id y = sc_case_id x \<or> caseKey y = caseKey x) cases then cases
         else cases @ [x])"

definition attachShadowChangeSetToActiveStudies ::
  "runtime \<Rightarrow> change_set \<Rightarrow> string \<Rightarrow> store \<Rightarrow> store" where
  "attachShadowChangeSetToActiveStudies rt c createdAt s =
     s\<lparr>s_cases := fold (\<lambda>st. insertShadowCaseFromChangeSet rt c createdAt (st_id st))
        (filter (\<lambda>st. st_active st \<and> shadowStudyIncludes rt st (cs_action c) createdAt) (s_studies s))
        (s_cases s)\<rparr>"

definition createdPayload :: "change_set \<Rightarrow> srow" where
  "createdPayload c = [(''proposal_hash'', JStr (cs_proposal_hash c)),
     (''proposal_version'', jint (cs_proposal_version c)),
     (''source_database_mutated'', JBool (cs_source_database_mutated c))]"

definition createProposal ::
  "runtime \<Rightarrow> time \<Rightarrow> change_set \<Rightarrow> store \<Rightarrow> (proposal \<times> store) result" where
  "createProposal rt clock input s =
     bindE (parseChangeSet rt input) (\<lambda>c.
     bindE (assertNoSecretMaterial (changeSetJson c)) (\<lambda>_.
     case getProposal (cs_proposal_id c) s of
       Some existing \<Rightarrow>
         bindE (throwIf (p_version existing \<noteq> cs_proposal_version c
                   \<or> p_hash existing \<noteq> cs_proposal_hash c)
                  (storeErr ''PROPOSAL_IMMUTABILITY_VIOLATION'')) (\<lambda>_. Inr (existing, s))
     | None \<Rightarrow>
         bindE (throwIf (findActiveProposal (cs_tenant_id c) (cs_action c) (cs_business_object c)
                   (cs_object_id c) s \<noteq> None)
                  (storeErr ''PROPOSAL_ALREADY_EXISTS'')) (\<lambda>_.
         bindE (appendEvent rt clock (cs_proposal_id c) ''proposal_created'' (cs_principal_id c)
                  (createdPayload c) None (s\<lparr>s_proposals := s_proposals s @ [proposalOf c]\<rparr>)) (\<lambda>t.
         (let u = (if cs_mode c = ShadowMode
                   then attachShadowChangeSetToActiveStudies rt c (cs_created_at c) t else t)
          in bindE (requireSome (storeErr ''PROPOSAL_CREATE_FAILED'')
                     (getProposal (cs_proposal_id c) u)) (\<lambda>p. Inr (p, u)))))))"

subsection \<open>Freshness proofs\<close>

definition recordFreshnessProof ::
  "runtime \<Rightarrow> time \<Rightarrow> freshness_proof \<Rightarrow> store \<Rightarrow> (freshness_proof \<times> store) result" where
  "recordFreshnessProof rt clock input s =
     bindE (parseFreshnessProof rt input) (\<lambda>proof.
     bindE (requireProposal (fp_proposal_id proof) s) (\<lambda>p.
     bindE (assertProposalIdentity p (fp_proposal_hash proof) (fp_proposal_version proof)) (\<lambda>_.
     bindE (proposalFreshnessAuthority rt p) (\<lambda>authority.
     bindE (requireSome (storeErr ''FRESHNESS_NOT_REQUIRED'') authority) (\<lambda>a.
     bindE (throwIf (fp_dependency_set_digest proof \<noteq> fa_dependency_set_digest a)
              (storeErr ''FRESHNESS_PROOF_AUTHORITY_MISMATCH'')) (\<lambda>_.
     bindE (appendEvent rt clock (fp_proposal_id proof) ''proposal_freshness_checked'' ''runner'' []
              (Some proof) s) (\<lambda>t.
     if fp_result proof \<noteq> Stale then Inr (proof, t)
     else bindE (requireProposal (fp_proposal_id proof) t) (\<lambda>current.
       if activeState (p_state current)
       then mapE (Pair proof) (appendEvent rt clock (fp_proposal_id proof) ''proposal_conflict'' ''runner''
              [(''reason'', JStr ''freshness_stale''), (''safe_code'', JStr (fp_safe_code proof)),
               (''proof_digest'', JStr (fp_proof_digest proof))] None
              (updateProposalState rt clock (fp_proposal_id proof) Conflict t))
       else Inr (proof, t)))))))))"

definition recordFreshnessApprovalBlocked ::
  "runtime \<Rightarrow> time \<Rightarrow> string \<Rightarrow> string \<Rightarrow> string \<Rightarrow> string \<Rightarrow> store \<Rightarrow> store result" where
  "recordFreshnessApprovalBlocked rt clock pid proofDigest code actor s =
     bindE (requireProposal pid s) (\<lambda>_.
     bindE (latestFreshnessProof rt pid s) (\<lambda>latest.
     bindE (requireSome (storeErr ''FRESHNESS_BLOCK_RECORD_INVALID'')
              (case latest of None \<Rightarrow> None
               | Some x \<Rightarrow> if fp_proof_digest x = proofDigest \<and> fp_result x \<noteq> Fresh then Some x else None))
       (\<lambda>proof.
     appendEvent rt clock pid ''proposal_approval_blocked_freshness'' actor
       [(''proof_digest'', JStr (fp_proof_digest proof)), (''safe_code'', JStr code),
        (''result'', JStr (checkStatusStr (fp_result proof)))] None s)))"

subsection \<open>Approval by reviewers\<close>

record progress =
  pg_approved :: int
  pg_required :: int
  pg_remaining :: int
  pg_rejected :: bool
  pg_complete :: bool

definition approvers :: "string \<Rightarrow> store \<Rightarrow> string list" where
  "approvers pid s = uniqueList (map ap_approver
     (filter (\<lambda>a. ap_proposal_id a = pid \<and> ap_status a = ApRowApproved) (s_approvals s)))"

definition approvalProgress :: "string \<Rightarrow> store \<Rightarrow> progress result" where
  "approvalProgress pid s = bindE (requireProposal pid s) (\<lambda>p.
     (let required = requiredApprovalCount p;
          approved = int (length (approvers pid s));
          rejected = (p_state p = Rejected
            \<or> list_ex (\<lambda>a. ap_proposal_id a = pid \<and> ap_status a = ApRowRejected) (s_approvals s))
      in Inr \<lparr>pg_approved = approved, pg_required = required,
           pg_remaining = max 0 (required - approved), pg_rejected = rejected,
           pg_complete = (\<not> rejected \<and> required \<le> approved)\<rparr>))"

record approve_options =
  ao_approver :: string
  ao_hash :: string
  ao_version :: int
  ao_reason :: "string option"
  ao_identity :: "identity_proof option"
  ao_require_verified :: bool
  ao_freshness_proof_digest :: "string option"

definition newApproval :: "time \<Rightarrow> string \<Rightarrow> approve_options \<Rightarrow> approval_row_status \<Rightarrow> store \<Rightarrow> approval" where
  "newApproval now pid opts st s = \<lparr>ap_id = length (s_approvals s) + 1, ap_proposal_id = pid,
     ap_proposal_version = ao_version opts, ap_proposal_hash = ao_hash opts,
     ap_approver = ao_approver opts, ap_status = st, ap_reason = ao_reason opts,
     ap_identity = ao_identity opts, ap_freshness_proof_digest = ao_freshness_proof_digest opts,
     ap_created_at = now\<rparr>"

definition approvedPayload :: "approve_options \<Rightarrow> progress \<Rightarrow> srow" where
  "approvedPayload opts pg = [(''proposal_hash'', JStr (ao_hash opts)),
     (''proposal_version'', jint (ao_version opts)), (''reason'', jopt (ao_reason opts))]
     @ optField ''identity'' publicIdentitySummary (ao_identity opts)
     @ [(''freshness_proof_digest'', jopt (ao_freshness_proof_digest opts)),
        (''approvals'', jint (pg_approved pg)), (''required_approvals'', jint (pg_required pg)),
        (''remaining_approvals'', jint (pg_remaining pg))]"

definition assertPendingReview :: "proposal \<Rightarrow> unit result" where
  "assertPendingReview p = throwIf (p_state p \<noteq> PendingReview) (storeErr ''PROPOSAL_NOT_PENDING_REVIEW'')"

definition approveProposal ::
  "runtime \<Rightarrow> time \<Rightarrow> string \<Rightarrow> approve_options \<Rightarrow> store \<Rightarrow> (proposal \<times> store) result" where
  "approveProposal rt clock pid opts s =
     bindE (requireProposal pid s) (\<lambda>p.
     bindE (assertWritebackAllowed p) (\<lambda>_.
     bindE (assertProposalIdentity p (ao_hash opts) (ao_version opts)) (\<lambda>_.
     bindE (assertPendingReview p) (\<lambda>_.
     bindE (assertOperatorDecision p DApprove (ao_approver opts) (ao_identity opts)
              (ao_require_verified opts)) (\<lambda>_.
     bindE (requireProposal pid s) (\<lambda>current.
     bindE (assertPendingReview current) (\<lambda>_.
     bindE (throwIf (list_ex (\<lambda>a. ap_proposal_id a = pid \<and> ap_approver a = ao_approver opts)
                (s_approvals s))
              (storeErr ''APPROVER_ALREADY_COUNTED'')) (\<lambda>_.
     bindE (assertApprovalFreshness rt current (ao_freshness_proof_digest opts) clock s) (\<lambda>_.
     (let t = s\<lparr>s_approvals := s_approvals s @ [newApproval clock pid opts ApRowApproved s]\<rparr>
      in bindE (approvalProgress pid t) (\<lambda>pg.
         (let complete = (pg_required pg \<le> pg_approved pg);
              u = (if complete then updateProposalState rt clock pid Approved t else t)
          in bindE (appendEvent rt clock pid
                 (if complete then ''proposal_approved'' else ''proposal_approval_recorded'')
                 (ao_approver opts) (approvedPayload opts pg) None u) (\<lambda>v.
             bindE (requireProposal pid v) (\<lambda>q. Inr (q, v)))))))))))))))"

definition rejectedPayload :: "approve_options \<Rightarrow> srow" where
  "rejectedPayload opts = [(''proposal_hash'', JStr (ao_hash opts)),
     (''proposal_version'', jint (ao_version opts)), (''reason'', jopt (ao_reason opts))]
     @ optField ''identity'' publicIdentitySummary (ao_identity opts)"

definition rejectProposal ::
  "runtime \<Rightarrow> time \<Rightarrow> string \<Rightarrow> approve_options \<Rightarrow> store \<Rightarrow> (proposal \<times> store) result" where
  "rejectProposal rt clock pid opts s =
     bindE (requireProposal pid s) (\<lambda>p.
     bindE (assertProposalIdentity p (ao_hash opts) (ao_version opts)) (\<lambda>_.
     bindE (throwIf (p_state p \<noteq> PendingReview \<and> p_state p \<noteq> Approved)
              (storeErr ''PROPOSAL_NOT_REJECTABLE'')) (\<lambda>_.
     bindE (assertOperatorDecision p DReject (ao_approver opts) (ao_identity opts)
              (ao_require_verified opts)) (\<lambda>_.
     (let t = updateProposalState rt clock pid Rejected s;
          u = t\<lparr>s_approvals := s_approvals t @
            [(newApproval clock pid opts ApRowRejected t)\<lparr>ap_freshness_proof_digest := None\<rparr>]\<rparr>
      in bindE (appendEvent rt clock pid ''proposal_rejected'' (ao_approver opts)
                  (rejectedPayload opts) None u) (\<lambda>v.
         bindE (requireProposal pid v) (\<lambda>q. Inr (q, v))))))))"

definition recordOperatorAuthorization ::
  "runtime \<Rightarrow> time \<Rightarrow> string \<Rightarrow> identity_proof \<Rightarrow> bool \<Rightarrow> store \<Rightarrow> store result" where
  "recordOperatorAuthorization rt clock pid i requireVerified s =
     bindE (requireProposal pid s) (\<lambda>p.
     bindE (assertOperatorDecision p DApply (ip_subject i) (Some i) requireVerified) (\<lambda>_.
     appendEvent rt clock pid ''writeback_authorized'' (ip_subject i)
       ([(''identity'', publicIdentitySummary i), (''decision_hash'', JStr (ip_decision_hash i))]
         @ optField ''signature'' JStr (ip_signature i)
         @ [(''integrity_hash'', JStr (ip_integrity_hash i))]) None s))"

definition markPendingWorker ::
  "runtime \<Rightarrow> time \<Rightarrow> string \<Rightarrow> string \<Rightarrow> int \<Rightarrow> store \<Rightarrow> (proposal \<times> store) result" where
  "markPendingWorker rt clock pid hash version s =
     bindE (requireProposal pid s) (\<lambda>p.
     bindE (assertWritebackAllowed p) (\<lambda>_.
     bindE (assertProposalIdentity p hash version) (\<lambda>_.
     bindE (throwIf (p_state p \<noteq> Approved) (storeErr ''PROPOSAL_NOT_APPROVED'')) (\<lambda>_.
     bindE (setState rt clock pid PendingWorker ''runner''
              [(''proposal_hash'', JStr hash), (''proposal_version'', jint version)] s) (\<lambda>t.
     bindE (requireProposal pid t) (\<lambda>q. Inr (q, t)))))))"

subsection \<open>Approval by policy\<close>

datatype limit_kind = LimitCount | LimitTotal
datatype limit_scope = TenantPolicy | TenantPolicyObject

record policy_limit =
  pl_kind :: limit_kind
  pl_max :: int
  pl_field :: "string option"
  pl_scope :: "limit_scope option"

record limit_trip =
  lt_limit :: policy_limit
  lt_scope :: limit_scope
  lt_observed :: int
  lt_proposed :: int
  lt_projected :: int
  lt_window :: "time \<times> time"

datatype limit_outcome = LimitTripped limit_trip | LimitNear limit_trip | LimitClear

text \<open>The change sets that the policy has approved for this tenant (or object) in the window.\<close>

definition policyHistory ::
  "string \<Rightarrow> proposal \<Rightarrow> limit_scope \<Rightarrow> time \<times> time \<Rightarrow> store \<Rightarrow> change_set list" where
  "policyHistory actor p scope window s =
     concat (map (\<lambda>a. map p_change_set (filter (\<lambda>q. p_id q = ap_proposal_id a
          \<and> p_tenant_id q = p_tenant_id p
          \<and> (scope = TenantPolicyObject \<longrightarrow> p_business_object q = p_business_object p
               \<and> p_object_id q = p_object_id p)) (s_proposals s)))
       (filter (\<lambda>a. ap_approver a = actor \<and> ap_status a = ApRowApproved
          \<and> fst window \<le> ap_created_at a \<and> ap_created_at a < snd window) (s_approvals s)))"

definition patchInteger :: "change_set \<Rightarrow> string option \<Rightarrow> int option" where
  "patchInteger c f = (case f of None \<Rightarrow> None | Some k \<Rightarrow>
     (case field (cs_patch c) k of JNum n \<Rightarrow> safeIntegerOf n | _ \<Rightarrow> None))"

definition historyValue :: "runtime \<Rightarrow> string option \<Rightarrow> change_set \<Rightarrow> int option" where
  "historyValue rt f c = (case parseChangeSet rt c of Inl _ \<Rightarrow> None | Inr d \<Rightarrow> patchInteger d f)"

text \<open>\<open>projected / max >= 0.8\<close> over the rationals.\<close>

definition nearLimit :: "int \<Rightarrow> int \<Rightarrow> bool" where
  "nearLimit projected maximum \<longleftrightarrow>
     (0 < maximum \<and> 4 * maximum \<le> 5 * projected) \<or> (maximum < 0 \<and> 5 * projected \<le> 4 * maximum)"

definition evaluateLimit ::
  "runtime \<Rightarrow> string \<Rightarrow> proposal \<Rightarrow> time \<times> time \<Rightarrow> store \<Rightarrow> policy_limit \<Rightarrow> limit_outcome" where
  "evaluateLimit rt actor p window s l =
     (let scope = optOr (pl_scope l) TenantPolicy;
          rows = policyHistory actor p scope window s;
          trip = (\<lambda>observed proposed projected. \<lparr>lt_limit = l, lt_scope = scope,
             lt_observed = observed, lt_proposed = proposed, lt_projected = projected,
             lt_window = window\<rparr>)
      in case pl_kind l of
           LimitCount \<Rightarrow>
             (let n = int (length rows); projected = n + 1; t = trip n 1 projected
              in if pl_max l < projected then LimitTripped t
                 else if nearLimit projected (pl_max l) then LimitNear t else LimitClear)
         | LimitTotal \<Rightarrow>
             (let f = presentStr (pl_field l);
                  values = map (historyValue rt f) rows;
                  observed = sum_list (map (\<lambda>v. optOr v 0) values);
                  proposed = patchInteger (p_change_set p) f;
                  projected = observed + optOr proposed 0;
                  t = trip observed (optOr proposed 0) projected
              in if f = None \<or> None \<in> set values \<or> proposed = None \<or> pl_max l < projected
                 then LimitTripped t
                 else if nearLimit projected (pl_max l) then LimitNear t else LimitClear))"

definition trippedOf :: "limit_outcome list \<Rightarrow> limit_trip list" where
  "trippedOf os = concat (map (\<lambda>x. case x of LimitTripped t \<Rightarrow> [t] | _ \<Rightarrow> []) os)"

definition nearOf :: "limit_outcome list \<Rightarrow> limit_trip list" where
  "nearOf os = concat (map (\<lambda>x. case x of LimitNear t \<Rightarrow> [t] | _ \<Rightarrow> []) os)"

definition scopeStr :: "limit_scope \<Rightarrow> string" where
  "scopeStr x = (case x of TenantPolicy \<Rightarrow> ''tenant_policy''
     | TenantPolicyObject \<Rightarrow> ''tenant_policy_object'')"

definition kindStr :: "limit_kind \<Rightarrow> string" where
  "kindStr k = (case k of LimitCount \<Rightarrow> ''count'' | LimitTotal \<Rightarrow> ''total'')"

text \<open>The fields of a limit in an event payload (the explanatory \<open>reason\<close> text is left out).\<close>

definition tripFields :: "runtime \<Rightarrow> limit_trip \<Rightarrow> srow" where
  "tripFields rt t = [(''kind'', JStr (kindStr (pl_kind (lt_limit t)))),
     (''scope'', JStr (scopeStr (lt_scope t))), (''observed'', jint (lt_observed t)),
     (''proposed'', jint (lt_proposed t)), (''projected'', jint (lt_projected t)),
     (''max'', jint (pl_max (lt_limit t))),
     (''window_start'', JStr (isoString rt (fst (lt_window t)))),
     (''window_end'', JStr (isoString rt (snd (lt_window t))))]"

record policy_options =
  po_policy :: string
  po_hash :: string
  po_version :: int
  po_reason :: string
  po_limits :: "policy_limit list"
  po_now :: "time option"
  po_freshness_proof_digest :: "string option"

record policy_decision =
  pd_proposal :: proposal
  pd_approved :: bool
  pd_tripped_limits :: "limit_trip list"

definition policyActor :: "policy_options \<Rightarrow> string" where
  "policyActor opts = ''policy:'' @ po_policy opts"

definition policyApproval :: "time \<Rightarrow> string \<Rightarrow> policy_options \<Rightarrow> store \<Rightarrow> approval" where
  "policyApproval now pid opts s = newApproval now pid \<lparr>ao_approver = policyActor opts,
     ao_hash = po_hash opts, ao_version = po_version opts, ao_reason = Some (po_reason opts),
     ao_identity = None, ao_require_verified = False,
     ao_freshness_proof_digest = po_freshness_proof_digest opts\<rparr> ApRowApproved s"

definition limitJson :: "policy_limit \<Rightarrow> json" where
  "limitJson l = JObj ([(''kind'', JStr (kindStr (pl_kind l))), (''max'', jint (pl_max l)),
     (''period'', JStr ''day'')] @ optField ''field'' JStr (pl_field l)
     @ optField ''scope'' (\<lambda>x. JStr (scopeStr x)) (pl_scope l))"

definition policyApprovedPayload :: "policy_options \<Rightarrow> srow" where
  "policyApprovedPayload opts = [(''proposal_hash'', JStr (po_hash opts)),
     (''proposal_version'', jint (po_version opts)), (''reason'', JStr (po_reason opts)),
     (''policy'', JStr (po_policy opts)),
     (''aggregate_limits'', JArr (map limitJson (po_limits opts))),
     (''freshness_proof_digest'', jopt (po_freshness_proof_digest opts))]"

definition policyDecision ::
  "string \<Rightarrow> bool \<Rightarrow> limit_trip list \<Rightarrow> store \<Rightarrow> (policy_decision \<times> store) result" where
  "policyDecision pid approved trips s = bindE (requireProposal pid s) (\<lambda>q.
     Inr (\<lparr>pd_proposal = q, pd_approved = approved, pd_tripped_limits = trips\<rparr>, s))"

definition approveProposalByPolicy ::
  "runtime \<Rightarrow> time \<Rightarrow> string \<Rightarrow> policy_options \<Rightarrow> store \<Rightarrow> (policy_decision \<times> store) result" where
  "approveProposalByPolicy rt clock pid opts s =
     (let actor = policyActor opts; now = optOr (po_now opts) clock; window = utcDayWindow now in
     bindE (requireProposal pid s) (\<lambda>p.
     bindE (assertWritebackAllowed p) (\<lambda>_.
     bindE (assertProposalIdentity p (po_hash opts) (po_version opts)) (\<lambda>_.
     bindE (assertPendingReview p) (\<lambda>_.
     if 1 < requiredApprovalCount p then
       bindE (appendEvent rt clock pid ''policy_auto_approval_deferred'' actor
         [(''policy'', JStr (po_policy opts)), (''fallback'', JStr ''human_review''),
          (''reason'', JStr ''multi_reviewer_quorum_requires_verified_human_approvals''),
          (''approvals'', jint 0), (''required_approvals'', jint (requiredApprovalCount p))] None s)
       (policyDecision pid False [])
     else (let outcomes = map (evaluateLimit rt actor p window s) (po_limits opts);
               trips = trippedOf outcomes in
       if trips \<noteq> [] then
         bindE (appendEvent rt clock pid ''policy_auto_approval_deferred'' actor
           [(''policy'', JStr (po_policy opts)), (''fallback'', JStr ''human_review''),
            (''tripped_limits'', JArr (map (\<lambda>t. JObj (tripFields rt t)) trips))] None s)
         (policyDecision pid False trips)
       else
         bindE (assertApprovalFreshness rt p (po_freshness_proof_digest opts) now s) (\<lambda>_.
         (let t = updateProposalState rt now pid Approved s;
              u = t\<lparr>s_approvals := s_approvals t @ [policyApproval now pid opts t]\<rparr>
          in bindE (appendEvent rt clock pid ''proposal_approved'' actor
                 (policyApprovedPayload opts) None u) (\<lambda>v.
             bindE (foldE (appendRow rt clock) (map (\<lambda>n. (pid, ''policy_limit_near'', actor,
                 (''policy'', JStr (po_policy opts)) # tripFields rt n)) (nearOf outcomes)) v)
               (policyDecision pid True []))))))))))"

end
