(* ===== verification/Writeback.thy ===== *)
theory Writeback
  imports Proposals
begin

text \<open>
  Writeback (\<open>packages/proposal-store/src/sqlite-writeback-methods.ts\<close> and \<open>writeback-domain.ts\<close>):
  turning an approved proposal into a job, the intent that a runner claims before it touches the
  source database, execution receipts, and the reconciliation of an intent whose outcome is unknown.

  Three operations update the intent before they append their event, outside a transaction.  They
  return the new store together with the error, if any: an error of the event then leaves the
  intent updated.
\<close>

definition localStateFromCloudGovernance :: "string \<Rightarrow> proposal_state option" where
  "localStateFromCloudGovernance st =
     (if st = ''applied'' \<or> st = ''already_applied'' then Some Applied
      else if st = ''rejected'' then Some Rejected
      else if st = ''canceled'' then Some Canceled
      else if st = ''conflict'' then Some Conflict
      else if st = ''failed'' then Some Failed
      else if st = ''indeterminate'' \<or> st = ''reconciliation_required'' then Some ReconciliationRequired
      else None)"

subsection \<open>From a change set to a job\<close>

definition selectReviewedState :: "srow \<Rightarrow> string list \<Rightarrow> srow" where
  "selectReviewedState values columns = concat (map (\<lambda>c. case field values c of
        JNull \<Rightarrow> [(c, JNull)] | JStr s \<Rightarrow> [(c, JStr s)] | JNum n \<Rightarrow> [(c, JNum n)]
      | JBool b \<Rightarrow> [(c, JBool b)] | _ \<Rightarrow> [])
     (sortBy strLe (uniqueList columns)))"

definition hardDeleteReasons :: "string list" where
  "hardDeleteReasons =
     [''HARD_DELETE_HIDDEN_STATE_NOT_RESTORABLE'', ''HARD_DELETE_SIDE_EFFECTS_NOT_REVERSIBLE'']"

definition inverseBase :: "change_set \<Rightarrow> string \<Rightarrow> cardinality \<Rightarrow> reversal_lineage \<Rightarrow> inverse_descriptor" where
  "inverseBase c jobId crd lineage = \<lparr>id_availability = Available, id_reason_codes = [],
     id_operation = RestoreUpdate, id_cardinality = crd, id_forward_proposal_id = cs_proposal_id c,
     id_forward_writeback_job_id = jobId, id_source_id = cs_source_id c, id_schema = cs_schema c,
     id_table = cs_table c, id_primary_key_column = cs_pk_column c, id_tenant_guard = cs_tenant c,
     id_principal_scope = cs_principal_scope c, id_allowed_columns = cs_allowed_columns c,
     id_members = [], id_max_rows = 1, id_aggregate_bounds = [], id_version_advance = None,
     id_lineage = lineage\<rparr>"

definition integerAdvance :: "change_set \<Rightarrow> version_advance result" where
  "integerAdvance c = (case cs_version_advance c of
      Some a \<Rightarrow> if va_strategy a = IntegerIncrement then Inr a
        else Inl (storeErr ''REVERSIBILITY_INTEGER_VERSION_REQUIRED'')
    | None \<Rightarrow> Inl (storeErr ''REVERSIBILITY_INTEGER_VERSION_REQUIRED''))"

definition pkValue :: "change_set \<Rightarrow> json \<Rightarrow> column_value" where
  "pkValue c v = \<lparr>cv_column = cs_pk_column c, cv_value = v\<rparr>"

definition rowInverse :: "change_set \<Rightarrow> row_operation \<Rightarrow> inverse_descriptor \<Rightarrow> inverse_descriptor result" where
  "rowInverse c op base =
     bindE (requireSome (storeErr ''REVERSIBILITY_PRIMARY_KEY_REQUIRED'') (cs_pk_value c)) (\<lambda>v.
     case op of
       SingleRowDelete \<Rightarrow> Inr (base\<lparr>id_availability := BestEffortUnavailable,
         id_reason_codes := hardDeleteReasons, id_operation := RestoreInsert,
         id_members := [\<lparr>im_primary_key = pkValue c v, im_expected_state = [],
           im_restore_values = None\<rparr>]\<rparr>)
     | SingleRowInsert \<Rightarrow> Inr (base\<lparr>id_operation := RemoveInsert,
         id_members := [\<lparr>im_primary_key = pkValue c v,
           im_expected_state = selectReviewedState (cs_after c)
             ([cs_pk_column c, cv_column (cs_tenant c)]
              @ map ps_column (case cs_principal_scope c of None \<Rightarrow> [] | Some p \<Rightarrow> [p])
              @ cs_allowed_columns c), im_restore_values = None\<rparr>]\<rparr>)
     | SingleRowUpdate \<Rightarrow> bindE (integerAdvance c) (\<lambda>a.
         Inr (base\<lparr>id_members := [\<lparr>im_primary_key = pkValue c v,
             im_expected_state = selectReviewedState (cs_after c)
               (cs_allowed_columns c @ [va_column a]),
             im_restore_values = Some (selectReviewedState (cs_before c) (cs_allowed_columns c))\<rparr>],
           id_version_advance := Some a\<rparr>)))"

definition setInverse ::
  "change_set \<Rightarrow> set_operation \<Rightarrow> frozen_set \<Rightarrow> inverse_descriptor \<Rightarrow> inverse_descriptor result" where
  "setInverse c op fs base0 =
     (let base = base0\<lparr>id_max_rows := fs_max_rows fs, id_aggregate_bounds := fs_aggregate_bounds fs\<rparr> in
     case op of
       SetDelete \<Rightarrow> Inr (base\<lparr>id_availability := BestEffortUnavailable,
         id_reason_codes := hardDeleteReasons, id_operation := RestoreInsert,
         id_members := map (\<lambda>m. \<lparr>im_primary_key = fm_primary_key m, im_expected_state = [],
           im_restore_values = None\<rparr>) (fs_members fs)\<rparr>)
     | BatchInsert \<Rightarrow> Inr (base\<lparr>id_operation := RemoveInsert,
         id_members := map (\<lambda>m. \<lparr>im_primary_key = fm_primary_key m,
           im_expected_state = selectReviewedState (fm_after m)
             ([cs_pk_column c, cv_column (cs_tenant c)] @ cs_allowed_columns c),
           im_restore_values = None\<rparr>) (fs_members fs)\<rparr>)
     | SetUpdate \<Rightarrow> bindE (integerAdvance c) (\<lambda>a.
         Inr (base\<lparr>id_members := map (\<lambda>m. \<lparr>im_primary_key = fm_primary_key m,
             im_expected_state = selectReviewedState (fm_after m)
               (cs_allowed_columns c @ [va_column a]),
             im_restore_values = Some (selectReviewedState (fm_before m) (cs_allowed_columns c))\<rparr>)
             (fs_members fs),
           id_version_advance := Some a\<rparr>)))"

definition inverseCaptureFromChangeSet ::
  "change_set \<Rightarrow> string \<Rightarrow> inverse_descriptor option result" where
  "inverseCaptureFromChangeSet c jobId = (case cs_body c of
      BodyV2 op (Some l) \<Rightarrow> mapE Some (rowInverse c op (inverseBase c jobId SingleRow l))
    | BodyV3 op fs (Some l) \<Rightarrow> mapE Some (setInverse c op fs (inverseBase c jobId SetOfRows l))
    | _ \<Rightarrow> Inr None)"

definition writebackMutationFromChangeSet :: "row_operation \<Rightarrow> change_set \<Rightarrow> mutation result" where
  "writebackMutationFromChangeSet op c =
     (if op = SingleRowInsert then
        bindE (requireSome (storeErr ''INSERT_DEDUPLICATION_REQUIRED'') (cs_deduplication c)) (\<lambda>ds.
        Inr (MutInsert (cs_patch c) ds))
      else
        bindE (requireSome (storeErr ''CONFLICT_GUARD_REQUIRED'') (cs_expected_version c)) (\<lambda>g.
        Inr (if op = SingleRowDelete then MutDelete g
             else MutUpdate (cs_patch c) (GuardColumn g) (cs_version_advance c))))"

definition jsString :: "json \<Rightarrow> string" where
  "jsString j = (case j of JStr s \<Rightarrow> s | _ \<Rightarrow> jsonStringify j)"

definition conflictGuardFromChangeSet :: "change_set \<Rightarrow> conflict_guard" where
  "conflictGuardFromChangeSet c = (case cs_body c of
      BodyV3 _ _ _ \<Rightarrow> GuardNone
    | BodyCompensation _ _ \<Rightarrow> GuardNone
    | _ \<Rightarrow> (case cs_expected_version c of
        None \<Rightarrow> GuardNone
      | Some g \<Rightarrow> (if cv_column g = ''__row_hash'' then GuardRowHash (jsString (cv_value g))
          else if cv_column g = [] \<or> cv_value g = JNull \<or> cv_value g = JUndefined then GuardNone
          else GuardColumn g)))"

record job_options =
  jo_lease_seconds :: "int option"
  jo_attempt :: "int option"
  jo_lease_id :: "string option"
  jo_project_id :: "string option"
  jo_runner_id :: "string option"

definition jobIdSafe :: "string \<Rightarrow> string" where
  "jobIdSafe = map (\<lambda>c. if isWordChar c \<or> c = CHR '':'' \<or> c = CHR ''-'' then c else CHR ''_'')"

definition jobAttempt :: "job_options \<Rightarrow> int" where
  "jobAttempt opts = max 1 (min (optOr (jo_attempt opts) 1) 100)"

definition jobLeaseSeconds :: "job_options \<Rightarrow> int" where
  "jobLeaseSeconds opts = max 15 (min (optOr (jo_lease_seconds opts) 300) 3600)"

definition writebackJobId :: "proposal \<Rightarrow> job_options \<Rightarrow> string" where
  "writebackJobId p opts = ''wbj_'' @ jobIdSafe (p_id p)
     @ (if 1 < jobAttempt opts then ''_a'' @ intDecimal (jobAttempt opts) else [])"

definition jobBody :: "change_set \<Rightarrow> inverse_descriptor option \<Rightarrow> job_body result" where
  "jobBody c capture = (case cs_body c of
      BodyV1 \<Rightarrow> Inr (JobV1 (cs_patch c) (conflictGuardFromChangeSet c))
    | BodyV2 op _ \<Rightarrow> bindE (writebackMutationFromChangeSet op c) (\<lambda>m. Inr (JobV2 m capture))
    | BodyV3 op fs _ \<Rightarrow> Inr (JobV3 op (cs_patch c) (cs_version_advance c) fs capture)
    | BodyCompensation d h \<Rightarrow> Inr (JobV4 (id_operation d) d h))"

definition jobPkValue :: "change_set \<Rightarrow> json option" where
  "jobPkValue c = (case cs_body c of
      BodyCompensation d _ \<Rightarrow> (case id_members d of [m] \<Rightarrow> Some (cv_value (im_primary_key m)) | _ \<Rightarrow> None)
    | _ \<Rightarrow> cs_pk_value c)"

definition jobFreshness :: "runtime \<Rightarrow> change_set \<Rightarrow> freshness_authority option result" where
  "jobFreshness rt c = (case cs_freshness c of None \<Rightarrow> Inr None
     | Some f \<Rightarrow> mapE Some (parseFreshnessAuthority rt f))"

text \<open>The job that \<open>createWritebackJobFromProposal\<close> builds, before it is parsed.\<close>

definition buildPublicJob ::
  "runtime \<Rightarrow> time \<Rightarrow> proposal \<Rightarrow> engine \<Rightarrow> job_options \<Rightarrow> public_job result" where
  "buildPublicJob rt clock p eng opts = (let c = p_change_set p in
     bindE (jobFreshness rt c) (\<lambda>fresh.
     bindE (inverseCaptureFromChangeSet c (writebackJobId p opts)) (\<lambda>capture.
     bindE (jobBody c capture) (\<lambda>body.
     Inr \<lparr>pj_writeback_job_id = writebackJobId p opts, pj_proposal_id = p_id p,
       pj_proposal_version = p_version p, pj_proposal_hash = p_hash p,
       pj_project_id = optOr (jo_project_id opts) ''local'', pj_source_id = p_source_id p,
       pj_engine = eng, pj_schema = p_source_schema p, pj_table = p_source_table p,
       pj_pk_column = cs_pk_column c, pj_pk_value = jobPkValue c, pj_tenant_guard = cs_tenant c,
       pj_principal_scope = cs_principal_scope c, pj_allowed_columns = cs_allowed_columns c,
       pj_freshness = fresh, pj_idempotency_key = p_id p @ '':'' @ p_object_id p,
       pj_lease_id = optOr (jo_lease_id opts)
         (''lease_'' @ jobIdSafe (p_id p) @ ''_a'' @ intDecimal (jobAttempt opts)),
       pj_attempt = jobAttempt opts,
       pj_expires_at = isoString rt (clock + jobLeaseSeconds opts * 1000), pj_body = body\<rparr>))))"

subsection \<open>Jobs\<close>

definition upsertJob :: "time \<Rightarrow> string \<Rightarrow> string \<Rightarrow> string \<Rightarrow> job option \<Rightarrow> store \<Rightarrow> store" where
  "upsertJob now jid pid hash j s = s\<lparr>s_jobs :=
     (if findRow jr_id jid (s_jobs s) = None
      then s_jobs s @ [\<lparr>jr_id = jid, jr_proposal_id = pid, jr_proposal_hash = hash,
             jr_status = JobPendingWorker, jr_job = j, jr_created_at = now, jr_updated_at = now\<rparr>]
      else updateWhere (\<lambda>r. jr_id r = jid)
             (\<lambda>r. r\<lparr>jr_status := JobPendingWorker, jr_job := j, jr_updated_at := now\<rparr>) (s_jobs s))\<rparr>"

definition jobRecordedPayload :: "job \<Rightarrow> string \<Rightarrow> srow" where
  "jobRecordedPayload j hash = [(''writeback_job_id'', JStr (jb_id j)), (''proposal_hash'', JStr hash),
     (''source_id'', JStr (jb_source_id j))]"

definition recordWritebackJob :: "runtime \<Rightarrow> time \<Rightarrow> job_input \<Rightarrow> store \<Rightarrow> (job \<times> store) result" where
  "recordWritebackJob rt clock input s =
     bindE (parseWritebackJob rt input) (\<lambda>j.
     bindE (requireProposal (jb_proposal_id j) s) (\<lambda>p.
     bindE (assertWritebackAllowed p) (\<lambda>_.
     bindE (assertProposalIdentity p (jb_approval_id j) (p_version p)) (\<lambda>_.
     mapE (Pair j) (appendEvent rt clock (jb_proposal_id j) ''writeback_job_recorded'' ''runner''
       (jobRecordedPayload j (jb_approval_id j)) None
       (upsertJob clock (jb_id j) (jb_proposal_id j) (jb_approval_id j) (Some j) s))))))"

record handler_input =
  hi_writeback_job_id :: string
  hi_proposal_id :: string
  hi_proposal_hash :: string
  hi_runner_id :: string
  hi_executor :: string
  hi_request :: json

definition recordHandlerWritebackJob :: "runtime \<Rightarrow> time \<Rightarrow> handler_input \<Rightarrow> store \<Rightarrow> store result" where
  "recordHandlerWritebackJob rt clock x s =
     bindE (requireProposal (hi_proposal_id x) s) (\<lambda>p.
     bindE (assertWritebackAllowed p) (\<lambda>_.
     bindE (assertProposalIdentity p (hi_proposal_hash x) (p_version p)) (\<lambda>_.
     bindE (assertNoSecretMaterial (hi_request x)) (\<lambda>_.
     appendEvent rt clock (hi_proposal_id x) ''handler_writeback_job_recorded'' (hi_runner_id x)
       [(''writeback_job_id'', JStr (hi_writeback_job_id x)), (''executor'', JStr (hi_executor x))] None
       (upsertJob clock (hi_writeback_job_id x) (hi_proposal_id x) (hi_proposal_hash x) None s)))))"

definition directExecutor :: "string option \<Rightarrow> bool" where
  "directExecutor m \<longleftrightarrow> m \<in> set [None, Some ''sql_update'', Some ''trusted_worker_required'']"

definition createWritebackJobFromProposal ::
  "runtime \<Rightarrow> time \<Rightarrow> string \<Rightarrow> job_options \<Rightarrow> store \<Rightarrow> (public_job \<times> store) result" where
  "createWritebackJobFromProposal rt clock pid opts s =
     bindE (requireProposal pid s) (\<lambda>p.
     bindE (assertWritebackAllowed p) (\<lambda>_.
     bindE (throwIf (p_state p \<noteq> Approved \<and> p_state p \<noteq> PendingWorker)
              (storeErr ''PROPOSAL_NOT_APPROVED'')) (\<lambda>_.
     (let c = p_change_set p; runner = optOr (jo_runner_id opts) ''local_runner'' in
     bindE (throwIf (cs_wb_mode c \<noteq> TrustedWorkerRequired) (storeErr ''WRITEBACK_NOT_REQUIRED'')) (\<lambda>_.
     bindE (throwIf (\<not> directExecutor (cs_wb_executor c)) (storeErr ''WRITEBACK_NOT_DIRECT_SQL'')) (\<lambda>_.
     bindE (requireSome (storeErr ''WRITEBACK_TARGET_NOT_EXTERNAL'')
              (sourceEngine (cs_source_kind c))) (\<lambda>eng.
     bindE (buildPublicJob rt clock p eng opts) (\<lambda>j.
     bindE (if p_state p = Approved
            then appendEvent rt clock pid ''proposal_pending_worker'' runner
              [(''proposal_hash'', JStr (p_hash p)), (''proposal_version'', jint (p_version p))] None
              (updateProposalState rt clock pid PendingWorker s)
            else Inr s) (\<lambda>t.
     bindE (parseWritebackJob rt (PublicJob j)) (\<lambda>k.
     mapE (Pair j) (appendEvent rt clock pid ''writeback_job_recorded'' runner
       (jobRecordedPayload k (p_hash p)) None
       (upsertJob clock (jb_id k) (p_id p) (p_hash p) (Some k) t))))))))))))"

subsection \<open>Intents\<close>

definition getWritebackIntent :: "string \<Rightarrow> store \<Rightarrow> intent option" where
  "getWritebackIntent iid s = findRow in_id iid (s_intents s)"

definition requireWritebackIntent :: "string \<Rightarrow> store \<Rightarrow> intent result" where
  "requireWritebackIntent iid s =
     requireSome (storeErr ''WRITEBACK_INTENT_NOT_FOUND'') (getWritebackIntent iid s)"

definition jobOperation :: "job \<Rightarrow> operation" where
  "jobOperation j = optOr (jb_operation j) (RowOp SingleRowUpdate)"

datatype claim_decision = Proceed | ExistingResult wb_result | NeedsReconciliation string

definition terminalIntent :: "intent_status \<Rightarrow> bool" where
  "terminalIntent st \<longleftrightarrow>
     st \<in> set (map IntentTerminal [TApplied, TAlreadyApplied, TConflict, TFailed])"

definition uncertainIntent :: "intent_status \<Rightarrow> bool" where
  "uncertainIntent st \<longleftrightarrow> st = IntentApplying \<or> st = IntentTerminal TReconciliationRequired"

definition decideExisting :: "intent \<Rightarrow> claim_decision" where
  "decideExisting i =
     (if terminalIntent (in_status i) then
        (case in_result i of
           None \<Rightarrow> NeedsReconciliation ''terminal intent is missing its durable result''
         | Some w \<Rightarrow> ExistingResult w)
      else if uncertainIntent (in_status i) then
        NeedsReconciliation (optOr (in_reconciliation_reason i)
          ''a previous apply crossed the source mutation boundary without a durable terminal result'')
      else Proceed)"

definition newIntent :: "time \<Rightarrow> string \<Rightarrow> job \<Rightarrow> intent" where
  "newIntent now runner j = \<lparr>in_id = ''wbi:'' @ jb_id j, in_idempotency_key = jb_idempotency_key j,
     in_writeback_job_id = jb_id j, in_proposal_id = jb_proposal_id j,
     in_proposal_hash = jb_approval_id j, in_runner_id = runner, in_operation = jobOperation j,
     in_job = j, in_status = IntentRecorded, in_result = None, in_reconciliation_reason = None,
     in_created_at = now, in_updated_at = now\<rparr>"

text \<open>The UNIQUE columns of \<open>writeback_intents\<close>.\<close>

definition intentUnique :: "intent \<Rightarrow> intent list \<Rightarrow> bool" where
  "intentUnique i t \<longleftrightarrow> list_all (\<lambda>x. in_id x \<noteq> in_id i
     \<and> in_idempotency_key x \<noteq> in_idempotency_key i
     \<and> in_writeback_job_id x \<noteq> in_writeback_job_id i) t"

definition intentPayload :: "intent \<Rightarrow> srow" where
  "intentPayload i = [(''intent_id'', JStr (in_id i)),
     (''writeback_job_id'', JStr (in_writeback_job_id i)),
     (''operation'', JStr (operationStr (in_operation i)))]"

definition claimWritebackIntent ::
  "runtime \<Rightarrow> time \<Rightarrow> job_input \<Rightarrow> string \<Rightarrow> store \<Rightarrow> (claim_decision \<times> store) result" where
  "claimWritebackIntent rt clock input runner s =
     bindE (parseWritebackJob rt input) (\<lambda>j.
     bindE (requireProposal (jb_proposal_id j) s) (\<lambda>p.
     bindE (assertWritebackAllowed p) (\<lambda>_.
     bindE (assertProposalIdentity p (jb_approval_id j) (p_version p)) (\<lambda>_.
     (let fresh = newIntent clock runner j in
     case getWritebackIntent (in_id fresh) s of
       Some i \<Rightarrow>
         bindE (throwIf (in_idempotency_key i \<noteq> jb_idempotency_key j
                   \<or> in_writeback_job_id i \<noteq> jb_id j \<or> in_proposal_id i \<noteq> jb_proposal_id j
                   \<or> in_proposal_hash i \<noteq> jb_approval_id j)
                  (storeErr ''WRITEBACK_INTENT_IDENTITY_MISMATCH'')) (\<lambda>_.
         Inr (decideExisting i, s))
     | None \<Rightarrow>
         bindE (throwIf (\<not> intentUnique fresh (s_intents s))
                  (SqliteError ''UNIQUE writeback_intents'')) (\<lambda>_.
         mapE (Pair Proceed) (appendEvent rt clock (jb_proposal_id j) ''writeback_intent_recorded'' runner
           (intentPayload fresh) None (s\<lparr>s_intents := s_intents s @ [fresh]\<rparr>))))))))"

text \<open>An update that has already happened, followed by the event that reports it.\<close>

definition thenEvent :: "store \<Rightarrow> store result \<Rightarrow> err option \<times> store" where
  "thenEvent updated r = (case r of Inl e \<Rightarrow> (Some e, updated) | Inr t \<Rightarrow> (None, t))"

definition updateIntent :: "string \<Rightarrow> (intent \<Rightarrow> intent) \<Rightarrow> store \<Rightarrow> store" where
  "updateIntent iid f s = s\<lparr>s_intents := updateWhere (\<lambda>i. in_id i = iid) f (s_intents s)\<rparr>"

definition markWritebackIntentApplying ::
  "runtime \<Rightarrow> time \<Rightarrow> string \<Rightarrow> string \<Rightarrow> store \<Rightarrow> err option \<times> store" where
  "markWritebackIntentApplying rt clock iid runner s = (case requireWritebackIntent iid s of
      Inl e \<Rightarrow> (Some e, s)
    | Inr i \<Rightarrow>
        if in_status i \<noteq> IntentRecorded then (Some (storeErr ''WRITEBACK_INTENT_NOT_CLAIMABLE''), s)
        else (let t = updateIntent iid (\<lambda>x. x\<lparr>in_status := IntentApplying, in_runner_id := runner,
                in_reconciliation_reason := None, in_updated_at := clock\<rparr>) s
              in thenEvent t (appendEvent rt clock (in_proposal_id i) ''writeback_intent_applying''
                   runner (intentPayload i) None t)))"

definition completionReason :: "terminal_status \<Rightarrow> string option" where
  "completionReason st = (if st = TReconciliationRequired
     then Some ''source outcome requires operator reconciliation'' else None)"

definition completeWritebackIntent ::
  "runtime \<Rightarrow> time \<Rightarrow> string \<Rightarrow> wb_result \<Rightarrow> store \<Rightarrow> err option \<times> store" where
  "completeWritebackIntent rt clock iid input s =
     (case bindE (parseWritebackResult rt input) (\<lambda>w.
           bindE (requireWritebackIntent iid s) (\<lambda>i.
           bindE (throwIf (wr_job_id w \<noteq> in_writeback_job_id i)
                    (storeErr ''WRITEBACK_INTENT_RESULT_MISMATCH'')) (\<lambda>_.
           bindE (throwIf (wr_status w = TCanceled)
                    (storeErr ''WRITEBACK_INTENT_RESULT_NOT_TERMINAL'')) (\<lambda>_.
           Inr (w, i))))) of
        Inl e \<Rightarrow> (Some e, s)
      | Inr (w, i) \<Rightarrow>
          if uncertainIntent (in_status i) then
            (let t = updateIntent iid (\<lambda>x. x\<lparr>in_status := IntentTerminal (wr_status w),
                   in_result := Some w, in_reconciliation_reason := completionReason (wr_status w),
                   in_updated_at := clock\<rparr>) s
             in thenEvent t (appendEvent rt clock (in_proposal_id i)
                  (''writeback_intent_'' @ terminalStatusStr (wr_status w)) (wr_runner_id w)
                  (intentPayload i @ optField ''result_hash'' JStr (wr_result_hash w)) None t))
          else if in_result i = Some w then (None, s)
          else (Some (storeErr ''WRITEBACK_INTENT_COMPLETION_CONFLICT''), s))"

definition requireWritebackReconciliation ::
  "runtime \<Rightarrow> time \<Rightarrow> string \<Rightarrow> string \<Rightarrow> store \<Rightarrow> err option \<times> store" where
  "requireWritebackReconciliation rt clock iid reason s = (case requireWritebackIntent iid s of
      Inl e \<Rightarrow> (Some e, s)
    | Inr i \<Rightarrow>
        if in_status i = IntentTerminal TApplied \<or> in_status i = IntentTerminal TAlreadyApplied
        then (None, s)
        else (let safe = take 500 (if reason = [] then ''source outcome is unknown'' else reason);
                  t = updateIntent iid (\<lambda>x. x\<lparr>in_status := IntentTerminal TReconciliationRequired,
                        in_reconciliation_reason := Some safe, in_updated_at := clock\<rparr>) s
              in thenEvent t (appendEvent rt clock (in_proposal_id i)
                   ''writeback_reconciliation_required'' (in_runner_id i)
                   (intentPayload i @ [(''reason'', JStr safe)]) None t)))"

subsection \<open>Receipts\<close>

definition receiptRow :: "receipt \<Rightarrow> store \<Rightarrow> receipt_row" where
  "receiptRow r s = \<lparr>rr_id = length (s_receipts s) + 1,
     rr_writeback_job_id = rc_writeback_job_id r, rr_proposal_id = rc_proposal_id r,
     rr_runner_id = rc_runner_id r, rr_status = rc_status r,
     rr_idempotency_key = rc_idempotency_key r,
     rr_source_database_mutated = rc_source_database_mutated r, rr_receipt = r,
     rr_created_at = rc_executed_at r\<rparr>"

definition insertReceipt :: "receipt \<Rightarrow> store \<Rightarrow> store" where
  "insertReceipt r s = (if list_ex (\<lambda>x. rr_writeback_job_id x = rc_writeback_job_id r
        \<and> rr_idempotency_key x = rc_idempotency_key r) (s_receipts s) then s
     else s\<lparr>s_receipts := s_receipts s @ [receiptRow r s]\<rparr>)"

definition replaceIdempotency :: "receipt \<Rightarrow> store \<Rightarrow> store" where
  "replaceIdempotency r s = s\<lparr>s_idempotency :=
     filter (\<lambda>x. ir_idempotency_key x \<noteq> rc_idempotency_key r) (s_idempotency s)
     @ [\<lparr>ir_idempotency_key = rc_idempotency_key r, ir_writeback_job_id = rc_writeback_job_id r,
         ir_proposal_id = rc_proposal_id r, ir_receipt_status = rc_status r\<rparr>]\<rparr>"

definition receiptPayload :: "receipt \<Rightarrow> srow" where
  "receiptPayload r = [(''writeback_job_id'', JStr (rc_writeback_job_id r)),
     (''rows_affected'', jint (rc_rows_affected r)),
     (''source_database_mutated'', JBool (rc_source_database_mutated r)),
     (''receipt_hash'', JStr (rc_receipt_hash r)),
     (''safe_error_code'', jopt (rc_safe_error_code r))]"

definition applyReceipt :: "runtime \<Rightarrow> receipt \<Rightarrow> proposal \<Rightarrow> store \<Rightarrow> store" where
  "applyReceipt rt r p s = s\<lparr>s_proposals := updateWhere (\<lambda>q. p_id q = rc_proposal_id r)
     (\<lambda>q. q\<lparr>p_state := stateFromReceipt r,
        p_source_database_mutated := (rc_source_database_mutated r \<or> p_source_database_mutated p),
        p_updated_at := isoString rt (rc_executed_at r)\<rparr>) (s_proposals s)\<rparr>"

definition finishJob :: "receipt \<Rightarrow> store \<Rightarrow> store" where
  "finishJob r s = s\<lparr>s_jobs := updateWhere (\<lambda>j. jr_id j = rc_writeback_job_id r)
     (\<lambda>j. j\<lparr>jr_status := JobTerminal (rc_status r), jr_updated_at := rc_executed_at r\<rparr>) (s_jobs s)\<rparr>"

definition recordExecutionReceiptRows ::
  "runtime \<Rightarrow> time \<Rightarrow> receipt \<Rightarrow> proposal \<Rightarrow> store \<Rightarrow> store result" where
  "recordExecutionReceiptRows rt clock r p s =
     bindE (throwIf (findRow jr_id (rc_writeback_job_id r) (s_jobs s) = None)
              (SqliteError ''FOREIGN KEY idempotency_receipts.writeback_job_id'')) (\<lambda>_.
     appendEvent rt clock (rc_proposal_id r) (''writeback_'' @ terminalStatusStr (rc_status r))
       (rc_runner_id r) (receiptPayload r) None
       (finishJob r (replaceIdempotency r (applyReceipt rt r p (insertReceipt r s)))))"

definition recordExecutionReceipt ::
  "runtime \<Rightarrow> time \<Rightarrow> receipt \<Rightarrow> store \<Rightarrow> (proposal \<times> store) result" where
  "recordExecutionReceipt rt clock input s =
     bindE (parseExecutionReceipt rt input) (\<lambda>r.
     bindE (requireProposal (rc_proposal_id r) s) (\<lambda>p.
     bindE (assertWritebackAllowed p) (\<lambda>_.
     bindE (recordExecutionReceiptRows rt clock r p s) (\<lambda>t.
     bindE (requireProposal (rc_proposal_id r) t) (\<lambda>q. Inr (q, t))))))"

subsection \<open>Reconciliation\<close>

record reconcile_input =
  ri_intent_id :: string
  ri_receipt :: receipt
  ri_actor :: string
  ri_reason :: string
  ri_observation :: json
  ri_identity :: "identity_proof option"
  ri_require_verified :: bool

definition workerQueueItem :: "string \<Rightarrow> store \<Rightarrow> worker_item option" where
  "workerQueueItem pid s = findRow wq_proposal_id pid (s_queue s)"

definition reconcileQueue ::
  "runtime \<Rightarrow> time \<Rightarrow> reconcile_input \<Rightarrow> intent \<Rightarrow> receipt \<Rightarrow> store \<Rightarrow> store result" where
  "reconcileQueue rt clock x i r s =
     (if map_option wq_status (workerQueueItem (in_proposal_id i) s) \<noteq> Some QReconciliationRequired
      then Inr s
      else (let failed = (rc_status r = TFailed);
                outcome = (if failed then ''dead_letter'' else terminalStatusStr (rc_status r));
                t = s\<lparr>s_queue := updateWhere (\<lambda>w. wq_proposal_id w = in_proposal_id i
                        \<and> wq_status w = QReconciliationRequired)
                      (\<lambda>w. w\<lparr>wq_status := (if failed then DeadLetter else Completed),
                         wq_lease_owner := None, wq_lease_id := None, wq_lease_expires_at := None,
                         wq_last_error_code := (if failed then Some ''RECONCILED_FAILED'' else None),
                         wq_terminal_outcome := Some outcome, wq_updated_at := rc_executed_at r\<rparr>)
                      (s_queue s)\<rparr>
            in appendEvent rt clock (in_proposal_id i) ''writeback_worker_reconciled'' (ri_actor x)
                 [(''intent_id'', JStr (in_id i)),
                  (''outcome'', JStr (terminalStatusStr (rc_status r))),
                  (''queue_status'', JStr (if failed then ''dead_letter'' else ''completed'')),
                  (''source_database_changed'', JBool False)] None t))"

definition reconcilePayload :: "reconcile_input \<Rightarrow> intent \<Rightarrow> receipt \<Rightarrow> srow" where
  "reconcilePayload x i r = intentPayload i
     @ [(''outcome'', JStr (terminalStatusStr (rc_status r))),
        (''reason'', JStr (take 500 (trimStr (ri_reason x)))), (''observation'', ri_observation x)]
     @ optField ''identity'' publicIdentitySummary (ri_identity x)
     @ optField ''decision_hash'' (\<lambda>d. JStr (ip_decision_hash d)) (ri_identity x)"

definition reconcileWritebackIntent ::
  "runtime \<Rightarrow> time \<Rightarrow> reconcile_input \<Rightarrow> store \<Rightarrow> (intent \<times> store) result" where
  "reconcileWritebackIntent rt clock x s =
     bindE (requireWritebackIntent (ri_intent_id x) s) (\<lambda>i.
     bindE (requireProposal (in_proposal_id i) s) (\<lambda>p.
     bindE (parseExecutionReceipt rt (ri_receipt x)) (\<lambda>r.
     bindE (throwIf (rc_version r = ReceiptV1) (storeErr ''RECONCILIATION_RECEIPT_VERSION_REQUIRED'')) (\<lambda>_.
     bindE (throwIf (trimStr (ri_reason x) = []) (storeErr ''RECONCILIATION_REASON_REQUIRED'')) (\<lambda>_.
     bindE (throwIf (\<not> uncertainIntent (in_status i)) (storeErr ''WRITEBACK_INTENT_NOT_RECONCILABLE'')) (\<lambda>_.
     bindE (throwIf (rc_receipt_authority r \<noteq> RunnerLedger
               \<or> rc_writeback_job_id r \<noteq> in_writeback_job_id i \<or> rc_proposal_id r \<noteq> in_proposal_id i
               \<or> rc_proposal_hash r \<noteq> in_proposal_hash i \<or> rc_operation r \<noteq> in_operation i
               \<or> rc_status r \<notin> set [TApplied, TConflict, TFailed])
              (storeErr ''RECONCILIATION_RECEIPT_MISMATCH'')) (\<lambda>_.
     bindE (assertOperatorDecision p DReconcile (ri_actor x) (ri_identity x) (ri_require_verified x)) (\<lambda>_.
     bindE (assertNoSecretMaterial (ri_observation x)) (\<lambda>_.
     bindE (receiptToWritebackResult rt r) (\<lambda>w.
     bindE (appendEvent rt clock (in_proposal_id i) ''writeback_reconciled'' (ri_actor x)
              (reconcilePayload x i r) None
              (updateIntent (in_id i) (\<lambda>y. y\<lparr>in_status := IntentTerminal (rc_status r),
                 in_result := Some w, in_reconciliation_reason := Some (take 500 (trimStr (ri_reason x))),
                 in_updated_at := rc_executed_at r\<rparr>) s)) (\<lambda>t.
     bindE (recordExecutionReceiptRows rt clock r p t) (\<lambda>u.
     bindE (reconcileQueue rt clock x i r u) (\<lambda>v.
     bindE (requireWritebackIntent (in_id i) v) (\<lambda>j. Inr (j, v)))))))))))))))"

end
