(* ===== verification/Worker.thy ===== *)
theory Worker
  imports Writeback
begin

text \<open>
  The supervised worker queue (\<open>packages/proposal-store/src/sqlite-worker-methods.ts\<close>): enqueueing an
  approved proposal, claiming an item under a lease (with the concurrency, rate, age and policy
  limits of the caller), and the operations a lease holder or an operator may perform on an item.
  A SQL condition \<open>? IS NULL OR column = ?\<close> is \<open>optMatch\<close>.
\<close>

definition optMatch :: "'a option \<Rightarrow> 'a \<Rightarrow> bool" where
  "optMatch m x \<longleftrightarrow> (case m of None \<Rightarrow> True | Some y \<Rightarrow> x = y)"

definition requireWorkerQueueItem :: "string \<Rightarrow> store \<Rightarrow> worker_item result" where
  "requireWorkerQueueItem pid s =
     requireSome (storeErr ''WORKER_ITEM_NOT_FOUND'') (workerQueueItem pid s)"

definition updateItem :: "string \<Rightarrow> (worker_item \<Rightarrow> worker_item) \<Rightarrow> store \<Rightarrow> store" where
  "updateItem pid f s = s\<lparr>s_queue := updateWhere (\<lambda>w. wq_proposal_id w = pid) f (s_queue s)\<rparr>"

text \<open>The \<open>UPDATE\<close> by which an item leaves its lease.\<close>

definition releaseItem ::
  "queue_status \<Rightarrow> string option \<Rightarrow> string option \<Rightarrow> time \<Rightarrow> worker_item \<Rightarrow> worker_item" where
  "releaseItem st code outcome now w = w\<lparr>wq_status := st, wq_lease_owner := None,
     wq_lease_id := None, wq_lease_expires_at := None, wq_last_error_code := code,
     wq_terminal_outcome := outcome, wq_updated_at := now\<rparr>"

definition workerLeaseId :: "runtime \<Rightarrow> string \<Rightarrow> string \<Rightarrow> int \<Rightarrow> time \<Rightarrow> string" where
  "workerLeaseId rt pid worker attempt now = ''wlease_'' @ take 32 (drop 7 (digestOf rt (JObj
     [(''proposal_id'', JStr pid), (''worker_id'', JStr worker), (''attempt'', jint attempt),
      (''now'', JStr (isoString rt now))])))"

subsection \<open>Enqueueing\<close>

record enqueue_options =
  eo_proposal_id :: string
  eo_execution_mode :: "execution_mode option"
  eo_contract_digest :: "string option"
  eo_max_attempts :: "int option"
  eo_queue_limit :: "int option"
  eo_now :: "time option"

definition newQueueItem ::
  "string \<Rightarrow> execution_mode \<Rightarrow> string option \<Rightarrow> int \<Rightarrow> time \<Rightarrow> worker_item" where
  "newQueueItem pid mode digest attempts now = \<lparr>wq_proposal_id = pid, wq_status = Queued,
     wq_execution_mode = mode, wq_contract_digest = digest, wq_attempts = 0,
     wq_max_attempts = attempts, wq_next_attempt_at = now, wq_lease_owner = None,
     wq_lease_id = None, wq_lease_expires_at = None, wq_last_error_code = None,
     wq_terminal_outcome = None, wq_created_at = now, wq_updated_at = now\<rparr>"

definition queueActive :: "queue_status \<Rightarrow> bool" where
  "queueActive st \<longleftrightarrow> st \<in> set [Queued, Leased, RetryWait, Blocked, QReconciliationRequired]"

definition activeQueueCount :: "execution_mode \<Rightarrow> string option \<Rightarrow> string \<Rightarrow> store \<Rightarrow> int" where
  "activeQueueCount mode digest action s = int (countWhere (\<lambda>q. wq_execution_mode q = mode
       \<and> (digest = None \<or> wq_contract_digest q = digest) \<and> queueActive (wq_status q)
       \<and> map_option p_action (getProposal (wq_proposal_id q) s) = Some action) (s_queue s))"

definition queuedPayload :: "worker_item \<Rightarrow> srow" where
  "queuedPayload w = [(''execution_mode'', JStr (executionModeStr (wq_execution_mode w))),
     (''contract_digest'', jopt (wq_contract_digest w)), (''max_attempts'', jint (wq_max_attempts w))]"

definition enqueueWorkerProposal ::
  "runtime \<Rightarrow> time \<Rightarrow> enqueue_options \<Rightarrow> store \<Rightarrow> (worker_item \<times> store) result" where
  "enqueueWorkerProposal rt clock opts s =
     bindE (requireProposal (eo_proposal_id opts) s) (\<lambda>p.
     bindE (throwIf (p_state p \<noteq> Approved \<and> p_state p \<noteq> PendingWorker)
              (storeErr ''WORKER_PROPOSAL_NOT_APPROVED'')) (\<lambda>_.
     (let mode = optOr (eo_execution_mode opts) Legacy; digest = eo_contract_digest opts;
          item = newQueueItem (p_id p) mode digest (clampTo 1 100 (optOr (eo_max_attempts opts) 5))
                   (optOr (eo_now opts) clock) in
     bindE (throwIf (mode = SupervisedWorker \<and> presentStr digest = None)
              (storeErr ''SUPERVISED_WORKER_DIGEST_REQUIRED'')) (\<lambda>_.
     bindE (throwIf (case presentStr digest of None \<Rightarrow> False | Some d \<Rightarrow> \<not> sha256Full d)
              (storeErr ''WORKER_CONTRACT_DIGEST_INVALID'')) (\<lambda>_.
     bindE (case workerQueueItem (p_id p) s of
         Some w \<Rightarrow> bindE (throwIf (wq_execution_mode w \<noteq> mode \<or> wq_contract_digest w \<noteq> digest)
             (storeErr ''WORKER_QUEUE_AUTHORITY_MISMATCH'')) (\<lambda>_. Inr s)
       | None \<Rightarrow>
           bindE (throwIf (clampTo 1 100000 (optOr (eo_queue_limit opts) 10000)
                      \<le> activeQueueCount mode digest (p_action p) s)
                    (storeErr ''WORKER_QUEUE_LIMIT_EXCEEDED'')) (\<lambda>_.
           appendEvent rt clock (p_id p) ''writeback_worker_queued'' ''runner'' (queuedPayload item) None
             (s\<lparr>s_queue := s_queue s @ [item]\<rparr>))) (\<lambda>t.
     bindE (requireWorkerQueueItem (p_id p) t) (\<lambda>w. Inr (w, t))))))))"

record enqueue_approved_options =
  ea_capability :: "string option"
  ea_tenant :: "string option"
  ea_max_attempts :: "int option"
  ea_limit :: "int option"
  ea_now :: "time option"

definition listProposalsIn :: "string option \<Rightarrow> string option \<Rightarrow> proposal_state \<Rightarrow> store \<Rightarrow> proposal list" where
  "listProposalsIn capability tenant st s =
     sortBy (\<lambda>a b. strLess (p_created_at b) (p_created_at a)
               \<or> (p_created_at a = p_created_at b \<and> strLe (p_id b) (p_id a)))
       (filter (\<lambda>p. p_state p = st \<and> optMatch (presentStr capability) (p_action p)
          \<and> optMatch (presentStr tenant) (p_tenant_id p)) (s_proposals s))"

text \<open>\<open>Array.prototype.slice(0, n)\<close>.\<close>

definition sliceTo :: "int option \<Rightarrow> 'a list \<Rightarrow> 'a list" where
  "sliceTo m xs = (case m of None \<Rightarrow> xs
     | Some n \<Rightarrow> if 0 \<le> n then take (nat n) xs else take (length xs - nat (- n)) xs)"

definition insertQueueItem :: "worker_item \<Rightarrow> worker_item list \<Rightarrow> worker_item list" where
  "insertQueueItem w t =
     (if findRow wq_proposal_id (wq_proposal_id w) t = None then t @ [w] else t)"

definition enqueueApprovedForWorker ::
  "runtime \<Rightarrow> time \<Rightarrow> enqueue_approved_options \<Rightarrow> store \<Rightarrow> worker_item list \<times> store" where
  "enqueueApprovedForWorker rt clock opts s =
     (let ps = sliceTo (ea_limit opts) (sortBy (\<lambda>a b. localeLe rt (p_created_at a) (p_created_at b))
            (listProposalsIn (ea_capability opts) (ea_tenant opts) Approved s
             @ listProposalsIn (ea_capability opts) (ea_tenant opts) PendingWorker s));
          item = (\<lambda>p. newQueueItem (p_id p) Legacy None (clampTo 1 100 (optOr (ea_max_attempts opts) 5))
                    (optOr (ea_now opts) clock));
          t = s\<lparr>s_queue := fold (\<lambda>p. insertQueueItem (item p)) ps (s_queue s)\<rparr>
      in (concat (map (\<lambda>p. case workerQueueItem (p_id p) t of None \<Rightarrow> [] | Some w \<Rightarrow> [w]) ps), t))"

subsection \<open>Execution-time policy limits\<close>

definition policyApproved :: "string \<Rightarrow> proposal \<Rightarrow> store \<Rightarrow> bool" where
  "policyApproved actor p s = list_ex (\<lambda>a. ap_proposal_id a = p_id p \<and> ap_approver a = actor
     \<and> ap_status a = ApRowApproved \<and> ap_proposal_hash a = p_hash p
     \<and> ap_proposal_version a = p_version p) (s_approvals s)"

text \<open>The rows of the window: leased, applied or undecided items that the policy approved.\<close>

definition executionInWindow :: "runtime \<Rightarrow> time \<Rightarrow> time \<times> time \<Rightarrow> worker_item \<Rightarrow> proposal \<Rightarrow> bool" where
  "executionInWindow rt now window q p =
     (let inDay = (\<lambda>t. fst window \<le> t \<and> t < snd window) in
      (wq_status q = Leased \<and> (case wq_lease_expires_at q of None \<Rightarrow> False | Some e \<Rightarrow> now < e))
    \<or> (wq_status q = Completed
        \<and> wq_terminal_outcome q \<in> set [Some ''applied'', Some ''already_applied'']
        \<and> inDay (wq_updated_at q))
    \<or> (wq_status q = QReconciliationRequired \<and> inDay (wq_updated_at q))
    \<or> (p_state p = Applied \<and> strLe (isoString rt (fst window)) (p_updated_at p)
        \<and> strLess (p_updated_at p) (isoString rt (snd window))))"

definition executionHistory ::
  "runtime \<Rightarrow> string \<Rightarrow> string \<Rightarrow> time \<Rightarrow> time \<times> time \<Rightarrow> store \<Rightarrow> proposal list" where
  "executionHistory rt actor tenant now window s =
     concat (map (\<lambda>q. case getProposal (wq_proposal_id q) s of
         None \<Rightarrow> []
       | Some p \<Rightarrow> (if p_tenant_id p = tenant
            \<and> list_ex (\<lambda>a. ap_proposal_id a = p_id p \<and> ap_approver a = actor
                 \<and> ap_status a = ApRowApproved) (s_approvals s)
            \<and> executionInWindow rt now window q p then [p] else [])) (s_queue s))"

text \<open>
  \<open>active\<close> is the map of the sources without its keys: the history with the candidate's own row
  taken out and the candidate added.  A row whose change set no longer parses counts with the
  candidate's change set and makes every total fail closed.
\<close>

definition parsesAgain :: "runtime \<Rightarrow> proposal \<Rightarrow> bool" where
  "parsesAgain rt p = (case parseChangeSet rt (p_change_set p) of Inl _ \<Rightarrow> False | Inr _ \<Rightarrow> True)"

definition activeExecutions :: "runtime \<Rightarrow> proposal \<Rightarrow> proposal list \<Rightarrow> proposal list" where
  "activeExecutions rt p rows =
     map (\<lambda>q. if parsesAgain rt q then q else q\<lparr>p_change_set := p_change_set p\<rparr>)
       (filter (\<lambda>q. p_id q \<noteq> p_id p) rows) @ [p]"

definition executionTrip ::
  "runtime \<Rightarrow> proposal \<Rightarrow> time \<times> time \<Rightarrow> bool \<Rightarrow> proposal list \<Rightarrow> policy_limit \<Rightarrow> limit_trip option" where
  "executionTrip rt p window invalidHistory active l =
     (let scope = optOr (pl_scope l) TenantPolicy;
          scoped = filter (\<lambda>q. scope \<noteq> TenantPolicyObject \<or> (p_business_object q = p_business_object p
             \<and> p_object_id q = p_object_id p)) active;
          trip = (\<lambda>observed proposed projected. \<lparr>lt_limit = l, lt_scope = scope,
             lt_observed = observed, lt_proposed = proposed, lt_projected = projected,
             lt_window = window\<rparr>)
      in case pl_kind l of
           LimitCount \<Rightarrow> (let projected = int (length scoped) in
             if pl_max l < projected then Some (trip (max 0 (projected - 1)) 1 projected) else None)
         | LimitTotal \<Rightarrow>
             (let f = presentStr (pl_field l);
                  values = map (\<lambda>q. patchInteger (p_change_set q) f) scoped;
                  projected = sum_list (map (\<lambda>v. optOr v 0) values);
                  proposed = optOr (patchInteger (p_change_set p) f) 0
              in if f = None \<or> invalidHistory \<or> None \<in> set values \<or> pl_max l < projected
                 then Some (trip (projected - proposed) proposed projected) else None))"

definition workerPolicyExecutionLimitTrips ::
  "runtime \<Rightarrow> proposal \<Rightarrow> string \<Rightarrow> policy_limit list \<Rightarrow> time \<Rightarrow> store \<Rightarrow> limit_trip list" where
  "workerPolicyExecutionLimitTrips rt p policy limits now s =
     (let actor = ''policy:'' @ policy; window = utcDayWindow now;
          rows = executionHistory rt actor (p_tenant_id p) now window s;
          active = activeExecutions rt p rows;
          invalid = list_ex (\<lambda>q. \<not> parsesAgain rt q) rows
      in if limits = [] \<or> \<not> policyApproved actor p s then []
         else concat (map (\<lambda>l. case executionTrip rt p window invalid active l of
                None \<Rightarrow> [] | Some t \<Rightarrow> [t]) limits))"

definition assertWorkerPolicyExecutionLimits ::
  "runtime \<Rightarrow> time \<Rightarrow> string \<Rightarrow> string \<Rightarrow> policy_limit list \<Rightarrow> store \<Rightarrow> unit result" where
  "assertWorkerPolicyExecutionLimits rt now pid policy limits s = bindE (requireProposal pid s) (\<lambda>p.
     throwIf (workerPolicyExecutionLimitTrips rt p policy limits now s \<noteq> [])
       (storeErr ''SUPERVISED_WORKER_POLICY_LIMIT_EXCEEDED''))"

subsection \<open>Claiming\<close>

record claim_options =
  cl_worker_id :: string
  cl_lease_seconds :: "int option"
  cl_execution_mode :: "execution_mode option"
  cl_capability :: "string option"
  cl_tenant :: "string option"
  cl_contract_digest :: "string option"
  cl_max_concurrent :: "int option"
  cl_rate_limit :: "(int \<times> int) option"
  cl_proposal_ttl :: "int option"
  cl_policy :: "(string \<times> policy_limit list) option"
  cl_now :: "time option"

definition claimScope :: "claim_options \<Rightarrow> store \<Rightarrow> worker_item \<Rightarrow> bool" where
  "claimScope opts s q = (case getProposal (wq_proposal_id q) s of
      None \<Rightarrow> False
    | Some p \<Rightarrow> optMatch (cl_execution_mode opts) (wq_execution_mode q)
        \<and> optMatch (cl_capability opts) (p_action p) \<and> optMatch (cl_tenant opts) (p_tenant_id p)
        \<and> (cl_contract_digest opts = None \<or> wq_contract_digest q = cl_contract_digest opts))"

definition leaseAlive :: "time \<Rightarrow> worker_item \<Rightarrow> bool" where
  "leaseAlive now q \<longleftrightarrow> wq_status q = Leased
     \<and> (case wq_lease_expires_at q of None \<Rightarrow> False | Some e \<Rightarrow> now < e)"

definition leaseLapsed :: "time \<Rightarrow> worker_item \<Rightarrow> bool" where
  "leaseLapsed now q \<longleftrightarrow> wq_status q = Leased
     \<and> (case wq_lease_expires_at q of None \<Rightarrow> False | Some e \<Rightarrow> e \<le> now)"

definition atCapacity :: "claim_options \<Rightarrow> time \<Rightarrow> store \<Rightarrow> bool" where
  "atCapacity opts now s = (case cl_max_concurrent opts of None \<Rightarrow> False
     | Some m \<Rightarrow> clampTo 1 32 m \<le> int (countWhere (\<lambda>q. leaseAlive now q \<and> claimScope opts s q) (s_queue s)))"

definition rateLimited :: "claim_options \<Rightarrow> time \<Rightarrow> store \<Rightarrow> bool" where
  "rateLimited opts now s = (case cl_rate_limit opts of None \<Rightarrow> False
     | Some (executions, seconds) \<Rightarrow>
         (let start = now - clampTo 1 86400 seconds * 1000 in
          clampTo 1 100000 executions \<le> int (countWhere (\<lambda>q. wq_status q = Completed
             \<and> start \<le> wq_updated_at q \<and> claimScope opts s q) (s_queue s))))"

definition claimable :: "claim_options \<Rightarrow> time \<Rightarrow> store \<Rightarrow> worker_item \<Rightarrow> bool" where
  "claimable opts now s q \<longleftrightarrow>
     (((wq_status q = Queued \<or> wq_status q = RetryWait) \<and> wq_next_attempt_at q \<le> now)
      \<or> leaseLapsed now q)
   \<and> (\<exists>p \<in> set_option (getProposal (wq_proposal_id q) s). p_state p \<in> set [Approved, PendingWorker, Failed])
   \<and> claimScope opts s q"

definition claimBefore :: "worker_item \<Rightarrow> worker_item \<Rightarrow> bool" where
  "claimBefore a b \<longleftrightarrow> wq_next_attempt_at a < wq_next_attempt_at b
     \<or> (wq_next_attempt_at a = wq_next_attempt_at b \<and> wq_created_at a \<le> wq_created_at b)"

definition nextClaim :: "claim_options \<Rightarrow> time \<Rightarrow> store \<Rightarrow> worker_item option" where
  "nextClaim opts now s = (case sortBy claimBefore (filter (claimable opts now s) (s_queue s)) of
     [] \<Rightarrow> None | q # _ \<Rightarrow> Some q)"

definition proposalExpired :: "runtime \<Rightarrow> claim_options \<Rightarrow> time \<Rightarrow> proposal \<Rightarrow> bool" where
  "proposalExpired rt opts now p = (case cl_proposal_ttl opts of None \<Rightarrow> False
     | Some ttl \<Rightarrow> (case dateParse rt (p_created_at p) of None \<Rightarrow> True
         | Some t \<Rightarrow> t + clampTo 60 2592000 ttl * 1000 \<le> now))"

definition blockQueuedWorkerItem ::
  "runtime \<Rightarrow> time \<Rightarrow> worker_item \<Rightarrow> string \<Rightarrow> string \<Rightarrow> time \<Rightarrow> srow \<Rightarrow> store \<Rightarrow> store result" where
  "blockQueuedWorkerItem rt clock q actor code now payload s =
     appendEvent rt clock (wq_proposal_id q) ''writeback_worker_blocked'' actor
       ([(''error_code'', JStr code),
         (''execution_mode'', JStr (executionModeStr (wq_execution_mode q))),
         (''contract_digest'', jopt (wq_contract_digest q))] @ payload) None
       (updateItem (wq_proposal_id q) (releaseItem Blocked (Some code) None now) s)"

definition claimTrips :: "runtime \<Rightarrow> claim_options \<Rightarrow> proposal \<Rightarrow> time \<Rightarrow> store \<Rightarrow> limit_trip list" where
  "claimTrips rt opts p now s = (case cl_policy opts of None \<Rightarrow> []
     | Some (policy, limits) \<Rightarrow> workerPolicyExecutionLimitTrips rt p policy limits now s)"

definition leaseItem :: "string \<Rightarrow> string \<Rightarrow> time \<Rightarrow> time \<Rightarrow> worker_item \<Rightarrow> worker_item" where
  "leaseItem worker leaseId expires now w = w\<lparr>wq_status := Leased, wq_attempts := wq_attempts w + 1,
     wq_lease_owner := Some worker, wq_lease_id := Some leaseId,
     wq_lease_expires_at := Some expires, wq_last_error_code := None,
     wq_terminal_outcome := None, wq_updated_at := now\<rparr>"

definition claimedPayload :: "runtime \<Rightarrow> worker_item \<Rightarrow> string \<Rightarrow> time \<Rightarrow> srow" where
  "claimedPayload rt q leaseId expires = [(''attempt'', jint (wq_attempts q + 1)),
     (''max_attempts'', jint (wq_max_attempts q)),
     (''execution_mode'', JStr (executionModeStr (wq_execution_mode q))),
     (''contract_digest'', jopt (wq_contract_digest q)), (''lease_id'', JStr leaseId),
     (''lease_expires_at'', JStr (isoString rt expires))]"

definition grantLease ::
  "runtime \<Rightarrow> time \<Rightarrow> claim_options \<Rightarrow> time \<Rightarrow> worker_item \<Rightarrow> proposal \<Rightarrow> store \<Rightarrow> store result" where
  "grantLease rt clock opts now q p s =
     (let worker = cl_worker_id opts; pid = wq_proposal_id q;
          expires = now + clampTo 15 3600 (optOr (cl_lease_seconds opts) 60) * 1000;
          leaseId = workerLeaseId rt pid worker (wq_attempts q + 1) now;
          t = updateItem pid (leaseItem worker leaseId expires now) s;
          u = (if p_state p = Failed then updateProposalState rt now pid PendingWorker t else t)
      in appendEvent rt clock pid ''writeback_worker_claimed'' worker
           (claimedPayload rt q leaseId expires) None u)"

definition claimWorkerItem ::
  "runtime \<Rightarrow> time \<Rightarrow> claim_options \<Rightarrow> store \<Rightarrow> (worker_item option \<times> store) result" where
  "claimWorkerItem rt clock opts s =
     (let now = optOr (cl_now opts) clock in
      if atCapacity opts now s \<or> rateLimited opts now s then Inr (None, s)
      else case nextClaim opts now s of
        None \<Rightarrow> Inr (None, s)
      | Some q \<Rightarrow>
          bindE (requireProposal (wq_proposal_id q) s) (\<lambda>p.
          if proposalExpired rt opts now p then
            mapE (Pair None) (blockQueuedWorkerItem rt clock q (cl_worker_id opts)
              ''SUPERVISED_WORKER_PROPOSAL_EXPIRED'' now [] s)
          else if claimTrips rt opts p now s \<noteq> [] then
            mapE (Pair None) (blockQueuedWorkerItem rt clock q (cl_worker_id opts)
              ''SUPERVISED_WORKER_POLICY_LIMIT_EXCEEDED'' now
              [(''policy'', jopt (map_option fst (cl_policy opts))),
               (''tripped_limits'', JArr (map (\<lambda>t. JObj (tripFields rt t)) (claimTrips rt opts p now s)))] s)
          else
            bindE (grantLease rt clock opts now q p s) (\<lambda>t.
            Inr (workerQueueItem (wq_proposal_id q) t, t))))"

subsection \<open>Under a lease\<close>

definition assertWorkerLease ::
  "string \<Rightarrow> string \<Rightarrow> string option \<Rightarrow> store \<Rightarrow> worker_item result" where
  "assertWorkerLease pid worker leaseId s =
     bindE (requireSome (storeErr ''WORKER_LEASE_ID_REQUIRED'') (presentStr leaseId)) (\<lambda>l.
     bindE (requireWorkerQueueItem pid s) (\<lambda>w.
     bindE (throwIf (wq_status w \<noteq> Leased \<or> wq_lease_owner w \<noteq> Some worker \<or> wq_lease_id w \<noteq> Some l)
              (storeErr ''WORKER_LEASE_MISMATCH'')) (\<lambda>_. Inr w)))"

definition assertActiveWorkerLease ::
  "string \<Rightarrow> string \<Rightarrow> string option \<Rightarrow> time \<Rightarrow> store \<Rightarrow> worker_item result" where
  "assertActiveWorkerLease pid worker leaseId now s =
     bindE (assertWorkerLease pid worker leaseId s) (\<lambda>w.
     bindE (throwIf (case wq_lease_expires_at w of None \<Rightarrow> True | Some e \<Rightarrow> e \<le> now)
              (storeErr ''WORKER_LEASE_EXPIRED'')) (\<lambda>_. Inr w))"

definition thenItem :: "string \<Rightarrow> store result \<Rightarrow> (worker_item \<times> store) result" where
  "thenItem pid r = bindE r (\<lambda>t. bindE (requireWorkerQueueItem pid t) (\<lambda>w. Inr (w, t)))"

definition renewWorkerLease ::
  "string \<Rightarrow> string \<Rightarrow> string \<Rightarrow> int option \<Rightarrow> time \<Rightarrow> store \<Rightarrow> (worker_item \<times> store) result" where
  "renewWorkerLease pid worker leaseId seconds now s =
     bindE (assertActiveWorkerLease pid worker (Some leaseId) now s) (\<lambda>_.
     thenItem pid (Inr (updateItem pid (\<lambda>w. w\<lparr>
       wq_lease_expires_at := Some (now + clampTo 15 3600 (optOr seconds 60) * 1000),
       wq_updated_at := now\<rparr>) s)))"

text \<open>The outcomes of \<open>completeWorkerItem\<close>.\<close>

datatype worker_outcome = WApplied | WAlreadyApplied | WConflict

definition outcomeStr :: "worker_outcome \<Rightarrow> string" where
  "outcomeStr x = (case x of WApplied \<Rightarrow> ''applied'' | WAlreadyApplied \<Rightarrow> ''already_applied''
     | WConflict \<Rightarrow> ''conflict'')"

definition completeWorkerItem ::
  "runtime \<Rightarrow> time \<Rightarrow> string \<Rightarrow> string \<Rightarrow> worker_outcome \<Rightarrow> time \<Rightarrow> string option \<Rightarrow> store
    \<Rightarrow> (worker_item \<times> store) result" where
  "completeWorkerItem rt clock pid worker outcome now leaseId s =
     bindE (assertWorkerLease pid worker leaseId s) (\<lambda>_.
     thenItem pid (appendEvent rt clock pid ''writeback_worker_completed'' worker
       [(''outcome'', JStr (outcomeStr outcome)), (''lease_id'', jopt leaseId)] None
       (updateItem pid (releaseItem Completed None (Some (outcomeStr outcome)) now) s)))"

definition retryWorkerItem ::
  "runtime \<Rightarrow> time \<Rightarrow> string \<Rightarrow> string \<Rightarrow> string \<Rightarrow> string \<Rightarrow> time \<Rightarrow> time \<Rightarrow> store
    \<Rightarrow> (worker_item \<times> store) result" where
  "retryWorkerItem rt clock pid worker leaseId code retryAt now s =
     bindE (assertWorkerLease pid worker (Some leaseId) s) (\<lambda>w.
     (let dead = (wq_max_attempts w \<le> wq_attempts w) in
     thenItem pid (appendEvent rt clock pid
       (if dead then ''writeback_dead_lettered'' else ''writeback_retry_scheduled'') worker
       ([(''attempt'', jint (wq_attempts w)), (''max_attempts'', jint (wq_max_attempts w)),
         (''error_code'', JStr code), (''lease_id'', JStr leaseId)]
        @ (if dead then [] else [(''retry_at'', JStr (isoString rt retryAt))])) None
       (updateItem pid (\<lambda>x. (releaseItem (if dead then DeadLetter else RetryWait) (Some code) None now x)
          \<lparr>wq_next_attempt_at := retryAt\<rparr>) s))))"

definition deadLetterWorkerItem ::
  "runtime \<Rightarrow> time \<Rightarrow> string \<Rightarrow> string \<Rightarrow> string \<Rightarrow> string \<Rightarrow> time \<Rightarrow> store \<Rightarrow> (worker_item \<times> store) result" where
  "deadLetterWorkerItem rt clock pid worker leaseId code now s =
     bindE (assertWorkerLease pid worker (Some leaseId) s) (\<lambda>w.
     thenItem pid (appendEvent rt clock pid ''writeback_dead_lettered'' worker
       [(''attempt'', jint (wq_attempts w)), (''max_attempts'', jint (wq_max_attempts w)),
        (''error_code'', JStr code), (''lease_id'', JStr leaseId)] None
       (updateItem pid (releaseItem DeadLetter (Some code) (Some ''dead_letter'') now) s)))"

definition blockWorkerItem ::
  "runtime \<Rightarrow> time \<Rightarrow> string \<Rightarrow> string \<Rightarrow> string \<Rightarrow> string \<Rightarrow> time \<Rightarrow> store \<Rightarrow> (worker_item \<times> store) result" where
  "blockWorkerItem rt clock pid worker leaseId code now s =
     bindE (assertWorkerLease pid worker (Some leaseId) s) (\<lambda>_.
     thenItem pid (appendEvent rt clock pid ''writeback_worker_blocked'' worker
       [(''error_code'', JStr code), (''lease_id'', JStr leaseId)] None
       (updateItem pid (releaseItem Blocked (Some code) (Some ''blocked'') now) s)))"

definition requireWorkerReconciliation ::
  "runtime \<Rightarrow> time \<Rightarrow> string \<Rightarrow> string \<Rightarrow> string \<Rightarrow> string \<Rightarrow> time \<Rightarrow> store \<Rightarrow> (worker_item \<times> store) result" where
  "requireWorkerReconciliation rt clock pid worker leaseId code now s =
     bindE (assertWorkerLease pid worker (Some leaseId) s) (\<lambda>_.
     thenItem pid (appendEvent rt clock pid ''writeback_reconciliation_required'' worker
       [(''safe_error_code'', JStr code), (''lease_id'', JStr leaseId)] None
       (updateItem pid
          (releaseItem QReconciliationRequired (Some code) (Some ''reconciliation_required'') now) s)))"

subsection \<open>By an operator\<close>

definition cancelWorkerItem ::
  "runtime \<Rightarrow> time \<Rightarrow> string \<Rightarrow> string \<Rightarrow> identity_proof option \<Rightarrow> bool \<Rightarrow> time \<Rightarrow> store
    \<Rightarrow> (worker_item \<times> store) result" where
  "cancelWorkerItem rt clock pid actor identity requireVerified now s =
     bindE (requireProposal pid s) (\<lambda>p.
     bindE (assertOperatorDecision p DWorkerCancel actor identity requireVerified) (\<lambda>_.
     bindE (requireWorkerQueueItem pid s) (\<lambda>w.
     bindE (throwIf (wq_status w \<noteq> Queued \<and> wq_status w \<noteq> RetryWait)
              (storeErr ''WORKER_ITEM_NOT_CANCELLABLE'')) (\<lambda>_.
     (let t = updateItem pid (\<lambda>x. x\<lparr>wq_status := Cancelled, wq_lease_owner := None,
                wq_lease_id := None, wq_lease_expires_at := None,
                wq_terminal_outcome := Some ''cancelled'', wq_updated_at := now\<rparr>) s;
          u = (if p_state p = Approved \<or> p_state p = PendingWorker
               then updateProposalState rt now pid Canceled t else t)
      in thenItem pid (appendEvent rt clock pid ''writeback_canceled'' actor
           [(''execution_mode'', JStr (executionModeStr (wq_execution_mode w))),
            (''contract_digest'', jopt (wq_contract_digest w)),
            (''identity'', (case identity of None \<Rightarrow> JNull | Some i \<Rightarrow> publicIdentitySummary i))]
           None u))))))"

definition provenEffect :: "string \<Rightarrow> store \<Rightarrow> bool" where
  "provenEffect pid s = list_ex (\<lambda>r. rr_proposal_id r = pid \<and> (rr_source_database_mutated r
     \<or> rr_status r = TApplied \<or> rr_status r = TAlreadyApplied)) (s_receipts s)"

definition requeueItem :: "int \<Rightarrow> time \<Rightarrow> worker_item \<Rightarrow> worker_item" where
  "requeueItem budget now w = (releaseItem Queued None None now w)
     \<lparr>wq_attempts := 0, wq_max_attempts := budget, wq_next_attempt_at := now\<rparr>"

definition assertDeadLetter :: "worker_item \<Rightarrow> unit result" where
  "assertDeadLetter w = throwIf (wq_status w \<noteq> DeadLetter) (storeErr ''WORKER_ITEM_NOT_DEAD_LETTER'')"

definition requeueDeadLetter ::
  "runtime \<Rightarrow> time \<Rightarrow> string \<Rightarrow> int \<Rightarrow> identity_proof \<Rightarrow> string option \<Rightarrow> time \<Rightarrow> store
    \<Rightarrow> (worker_item \<times> store) result" where
  "requeueDeadLetter rt clock pid retryBudget i reason now s =
     bindE (requireProposal pid s) (\<lambda>p.
     bindE (assertOperatorDecision p DWorkerRequeue (ip_subject i) (Some i) True) (\<lambda>_.
     bindE (requireWorkerQueueItem pid s) (\<lambda>w.
     bindE (assertDeadLetter w) (\<lambda>_.
     bindE (throwIf (provenEffect pid s) (storeErr ''DEAD_LETTER_EFFECT_ALREADY_RECORDED'')) (\<lambda>_.
     (let budget = clampTo 1 100 retryBudget;
          t = updateItem pid (requeueItem budget now) s;
          u = (if p_state p = Failed then updateProposalState rt now pid Approved t else t)
      in thenItem pid (appendEvent rt clock pid ''writeback_dead_letter_requeued'' (ip_subject i)
           [(''retry_budget'', jint budget), (''reason'', jopt reason),
            (''identity'', publicIdentitySummary i)] None u)))))))"

definition discardDeadLetter ::
  "runtime \<Rightarrow> time \<Rightarrow> string \<Rightarrow> identity_proof \<Rightarrow> string \<Rightarrow> time \<Rightarrow> store \<Rightarrow> (worker_item \<times> store) result" where
  "discardDeadLetter rt clock pid i reason now s =
     bindE (requireProposal pid s) (\<lambda>p.
     bindE (assertOperatorDecision p DWorkerDiscard (ip_subject i) (Some i) True) (\<lambda>_.
     bindE (requireWorkerQueueItem pid s) (\<lambda>w.
     bindE (assertDeadLetter w) (\<lambda>_.
     thenItem pid (appendEvent rt clock pid ''writeback_dead_letter_discarded'' (ip_subject i)
       [(''reason'', JStr reason), (''identity'', publicIdentitySummary i)] None
       (updateItem pid (\<lambda>x. x\<lparr>wq_status := Discarded, wq_lease_owner := None,
          wq_lease_id := None, wq_lease_expires_at := None,
          wq_terminal_outcome := Some ''discarded'', wq_updated_at := now\<rparr>) s))))))"

end
