(* ===== verification/Invariants.thy ===== *)
theory Invariants
  imports Worker
begin

text \<open>
  The invariant of the store (\<open>store_ok\<close>), the relation between an earlier and a later store
  (\<open>store_evolves\<close>), and one lemma for each kind of update the operations are made of.  Everything
  that refers to a proposal refers to its \<open>core\<close>, the columns no operation changes, so that a change
  of state leaves the references alone.
\<close>

subsection \<open>The immutable part of a proposal\<close>

definition core :: "proposal \<Rightarrow> proposal" where
  "core p = p\<lparr>p_state := PendingReview, p_source_database_mutated := False, p_updated_at := []\<rparr>"

definition cores :: "store \<Rightarrow> proposal set" where
  "cores s = core ` set (s_proposals s)"

definition writable :: "proposal \<Rightarrow> bool" where
  "writable p \<longleftrightarrow> cs_mode (p_change_set p) \<noteq> ShadowMode \<and> cs_mode (p_change_set p) \<noteq> ReadOnlyMode"

lemma core_simps [simp]:
  "p_id (core p) = p_id p" "p_hash (core p) = p_hash p" "p_version (core p) = p_version p"
  "p_change_set (core p) = p_change_set p" "writable (core p) = writable p"
  "core (p\<lparr>p_state := st\<rparr>) = core p" "core (p\<lparr>p_updated_at := u\<rparr>) = core p"
  "core (p\<lparr>p_source_database_mutated := b\<rparr>) = core p"
  "requiredApprovalCount (core p) = requiredApprovalCount p"
  by (simp_all add: core_def writable_def requiredApprovalCount_def)

lemma core_eqD: "core p = core q \<Longrightarrow> p_id p = p_id q \<and> p_change_set p = p_change_set q
    \<and> p_hash p = p_hash q \<and> p_version p = p_version q \<and> p_tenant_id p = p_tenant_id q"
  by (metis core_simps(1-4) core_def proposal.ext_inject proposal.surjective proposal.update_convs(5,15,18))

definition known :: "proposal set \<Rightarrow> string \<Rightarrow> bool" where
  "known cs pid \<longleftrightarrow> (\<exists>c \<in> cs. p_id c = pid)"

definition mayWrite :: "proposal set \<Rightarrow> string \<Rightarrow> bool" where
  "mayWrite cs pid \<longleftrightarrow> (\<exists>c \<in> cs. p_id c = pid \<and> writable c)"

subsection \<open>The invariant\<close>

text \<open>
  A stored proposal is its change set, which parses and is free of secrets; a proposal that may not
  write never leaves review for a writeback state and never claims a mutation of its own.
\<close>

definition proposalOk :: "runtime \<Rightarrow> proposal \<Rightarrow> bool" where
  "proposalOk rt p \<longleftrightarrow> core p = core (proposalOf (p_change_set p))
     \<and> parseChangeSet rt (p_change_set p) = Inr (p_change_set p)
     \<and> secretFree (changeSetJson (p_change_set p))
     \<and> (\<not> writable p \<longrightarrow> p_state p \<notin> {PendingWorker, Applied, Failed, ReconciliationRequired}
          \<and> p_source_database_mutated p = cs_source_database_mutated (p_change_set p))
     \<and> (p_state p = PendingReview \<longrightarrow> cs_approval_status (p_change_set p) = ApprovalPending)"

definition proposals_ok :: "runtime \<Rightarrow> proposal list \<Rightarrow> bool" where
  "proposals_ok rt ps \<longleftrightarrow> distinct (map p_id ps) \<and> (\<forall>p \<in> set ps. proposalOk rt p)"

definition events_ok :: "proposal set \<Rightarrow> event list \<Rightarrow> bool" where
  "events_ok cs evs \<longleftrightarrow> map ev_id evs = [1..<Suc (length evs)]
     \<and> (\<forall>e \<in> set evs. known cs (ev_proposal_id e))"

definition approvedRows :: "approval list \<Rightarrow> approval list" where
  "approvedRows = filter (\<lambda>a. ap_status a = ApRowApproved)"

definition proofUses :: "approval list \<Rightarrow> (string \<times> string) list" where
  "proofUses aps = concat (map (\<lambda>a. case ap_freshness_proof_digest a of None \<Rightarrow> []
     | Some d \<Rightarrow> [(ap_proposal_id a, d)]) aps)"

definition approvalOk :: "proposal set \<Rightarrow> approval \<Rightarrow> bool" where
  "approvalOk cs a \<longleftrightarrow> (\<exists>c \<in> cs. p_id c = ap_proposal_id a \<and> p_hash c = ap_proposal_hash a
     \<and> p_version c = ap_proposal_version a \<and> (ap_status a = ApRowApproved \<longrightarrow> writable c))"

text \<open>Every row binds its exact revision, nobody counts twice, and a freshness proof counts once.\<close>

definition approvals_ok :: "proposal set \<Rightarrow> approval list \<Rightarrow> bool" where
  "approvals_ok cs aps \<longleftrightarrow> (\<forall>a \<in> set aps. approvalOk cs a)
     \<and> distinct (map (\<lambda>a. (ap_proposal_id a, ap_approver a)) (approvedRows aps))
     \<and> distinct (proofUses aps)"

definition approvalCount :: "string \<Rightarrow> approval list \<Rightarrow> int" where
  "approvalCount pid aps = int (length (uniqueList (map ap_approver
     (filter (\<lambda>a. ap_proposal_id a = pid \<and> ap_status a = ApRowApproved) aps))))"

definition reviewed :: "approval list \<Rightarrow> proposal \<Rightarrow> bool" where
  "reviewed aps p \<longleftrightarrow> cs_approval_status (p_change_set p) = ApprovalApproved
     \<or> requiredApprovalCount p \<le> approvalCount (p_id p) aps"

text \<open>No proposal is approved, handed to a worker or queued without its quorum.\<close>

definition reviewOk :: "approval list \<Rightarrow> worker_item list \<Rightarrow> proposal \<Rightarrow> bool" where
  "reviewOk aps queue p \<longleftrightarrow>
     (p_state p = PendingReview \<longrightarrow> approvalCount (p_id p) aps < requiredApprovalCount p)
   \<and> (p_state p \<in> {Approved, PendingWorker} \<or> p_id p \<in> wq_proposal_id ` set queue \<longrightarrow> reviewed aps p)"

definition review_ok :: "proposal list \<Rightarrow> approval list \<Rightarrow> worker_item list \<Rightarrow> bool" where
  "review_ok ps aps queue \<longleftrightarrow> (\<forall>p \<in> set ps. reviewOk aps queue p)"

definition jobs_ok :: "proposal set \<Rightarrow> job_row list \<Rightarrow> bool" where
  "jobs_ok cs js \<longleftrightarrow> distinct (map jr_id js) \<and> (\<forall>j \<in> set js. mayWrite cs (jr_proposal_id j))"

definition intentOk :: "proposal set \<Rightarrow> intent \<Rightarrow> bool" where
  "intentOk cs i \<longleftrightarrow> mayWrite cs (in_proposal_id i)
     \<and> (\<forall>w. in_result i = Some w \<longrightarrow> wr_job_id w = in_writeback_job_id i)
     \<and> (\<forall>st. in_status i = IntentTerminal st \<and> st \<noteq> TReconciliationRequired \<longrightarrow>
          (\<exists>w. in_result i = Some w \<and> wr_status w = st))"

definition intents_ok :: "proposal set \<Rightarrow> intent list \<Rightarrow> bool" where
  "intents_ok cs is \<longleftrightarrow> distinct (map in_id is) \<and> distinct (map in_idempotency_key is)
     \<and> distinct (map in_writeback_job_id is) \<and> (\<forall>i \<in> set is. intentOk cs i)"

definition receipts_ok :: "proposal set \<Rightarrow> receipt_row list \<Rightarrow> bool" where
  "receipts_ok cs rs \<longleftrightarrow> distinct (map (\<lambda>r. (rr_writeback_job_id r, rr_idempotency_key r)) rs)
     \<and> (\<forall>r \<in> set rs. mayWrite cs (rr_proposal_id r))"

definition idempotency_ok :: "job_row list \<Rightarrow> idempotency_row list \<Rightarrow> bool" where
  "idempotency_ok js irs \<longleftrightarrow> distinct (map ir_idempotency_key irs)
     \<and> (\<forall>x \<in> set irs. ir_writeback_job_id x \<in> jr_id ` set js)"

text \<open>An item has an owner, a lease and an expiry exactly while it is leased.\<close>

definition itemShape :: "worker_item \<Rightarrow> bool" where
  "itemShape w \<longleftrightarrow> (wq_status w = Leased \<longleftrightarrow> wq_lease_owner w \<noteq> None)
     \<and> (wq_lease_id w = None \<longleftrightarrow> wq_lease_owner w = None)
     \<and> (wq_lease_expires_at w = None \<longleftrightarrow> wq_lease_owner w = None)
     \<and> 0 \<le> wq_attempts w \<and> 1 \<le> wq_max_attempts w \<and> wq_max_attempts w \<le> 100"

definition queue_ok :: "proposal set \<Rightarrow> worker_item list \<Rightarrow> bool" where
  "queue_ok cs ws \<longleftrightarrow> distinct (map wq_proposal_id ws)
     \<and> (\<forall>w \<in> set ws. itemShape w \<and> known cs (wq_proposal_id w))"

definition store_ok :: "runtime \<Rightarrow> store \<Rightarrow> bool" where
  "store_ok rt s \<longleftrightarrow> proposals_ok rt (s_proposals s) \<and> events_ok (cores s) (s_events s)
     \<and> approvals_ok (cores s) (s_approvals s)
     \<and> review_ok (s_proposals s) (s_approvals s) (s_queue s)
     \<and> jobs_ok (cores s) (s_jobs s) \<and> intents_ok (cores s) (s_intents s)
     \<and> receipts_ok (cores s) (s_receipts s) \<and> idempotency_ok (s_jobs s) (s_idempotency s)
     \<and> queue_ok (cores s) (s_queue s) \<and> attention_ok rt (s_attention s)"

subsection \<open>Evolution\<close>

text \<open>
  Proposals, jobs, intents and queue items are never removed and keep their identity; events,
  approvals and receipts only grow; a recorded mutation stays recorded; an intent that was applied
  stays applied with its result, and one that has left \<open>recorded\<close> never returns to it.
\<close>

definition intentCore :: "intent \<Rightarrow> string \<times> string \<times> string \<times> string \<times> string \<times> operation" where
  "intentCore i = (in_id i, in_idempotency_key i, in_writeback_job_id i, in_proposal_id i,
     in_proposal_hash i, in_operation i)"

definition intentApplied :: "intent \<Rightarrow> bool" where
  "intentApplied i \<longleftrightarrow> in_status i = IntentTerminal TApplied \<or> in_status i = IntentTerminal TAlreadyApplied"

definition proposalEvolves :: "proposal \<Rightarrow> proposal \<Rightarrow> bool" where
  "proposalEvolves p q \<longleftrightarrow> core q = core p
     \<and> (p_source_database_mutated p \<longrightarrow> p_source_database_mutated q)"

definition intentEvolves :: "intent \<Rightarrow> intent \<Rightarrow> bool" where
  "intentEvolves i j \<longleftrightarrow> intentCore j = intentCore i \<and> (intentApplied i \<longrightarrow>
     in_status j = in_status i \<and> in_result j = in_result i)
     \<and> (in_status i \<noteq> IntentRecorded \<longrightarrow> in_status j \<noteq> IntentRecorded)"

definition extends :: "'a list \<Rightarrow> 'a list \<Rightarrow> bool" where
  "extends xs ys \<longleftrightarrow> (\<exists>zs. ys = xs @ zs)"

definition covers :: "('a \<Rightarrow> 'a \<Rightarrow> bool) \<Rightarrow> 'a list \<Rightarrow> 'a list \<Rightarrow> bool" where
  "covers r xs ys \<longleftrightarrow> (\<forall>x \<in> set xs. \<exists>y \<in> set ys. r x y)"

definition store_evolves :: "store \<Rightarrow> store \<Rightarrow> bool" where
  "store_evolves s t \<longleftrightarrow> covers proposalEvolves (s_proposals s) (s_proposals t)
     \<and> covers intentEvolves (s_intents s) (s_intents t)
     \<and> extends (s_events s) (s_events t) \<and> extends (s_approvals s) (s_approvals t)
     \<and> extends (s_receipts s) (s_receipts t)
     \<and> jr_id ` set (s_jobs s) \<subseteq> jr_id ` set (s_jobs t)
     \<and> wq_proposal_id ` set (s_queue s) \<subseteq> wq_proposal_id ` set (s_queue t)"

lemma extends_refl [simp]: "extends xs xs" and extends_append [simp]: "extends xs (xs @ ys)"
  by (simp_all add: extends_def)

lemma extends_trans: "extends xs ys \<Longrightarrow> extends ys zs \<Longrightarrow> extends xs zs"
  by (auto simp: extends_def)

lemma covers_refl: "(\<And>x. r x x) \<Longrightarrow> covers r xs xs"
  by (auto simp: covers_def)

lemma covers_trans:
  "(\<And>x y z. r x y \<Longrightarrow> r y z \<Longrightarrow> r x z) \<Longrightarrow> covers r xs ys \<Longrightarrow> covers r ys zs \<Longrightarrow> covers r xs zs"
  unfolding covers_def by meson

lemma covers_append: "(\<And>x. r x x) \<Longrightarrow> covers r xs (xs @ ys)"
  by (auto simp: covers_def)

lemma covers_updateWhere:
  "(\<And>x. r x x) \<Longrightarrow> (\<And>x. x \<in> set xs \<Longrightarrow> p x \<Longrightarrow> r x (f x)) \<Longrightarrow> covers r xs (updateWhere p f xs)"
  unfolding covers_def updateWhere_def set_map ball_simps bex_simps by (metis (full_types))

lemma proposalEvolves_refl [simp]: "proposalEvolves p p"
  and intentEvolves_refl [simp]: "intentEvolves i i"
  by (simp_all add: proposalEvolves_def intentEvolves_def)

lemma proposalEvolves_trans: "proposalEvolves p q \<Longrightarrow> proposalEvolves q r \<Longrightarrow> proposalEvolves p r"
  by (auto simp: proposalEvolves_def)

lemma intentEvolves_trans: "intentEvolves i j \<Longrightarrow> intentEvolves j k \<Longrightarrow> intentEvolves i k"
  by (auto simp: intentEvolves_def intentApplied_def)

lemma store_evolves_refl [simp]: "store_evolves s s"
  by (simp add: store_evolves_def covers_refl)

lemma store_evolves_trans: "store_evolves s t \<Longrightarrow> store_evolves t u \<Longrightarrow> store_evolves s u"
  unfolding store_evolves_def
  by (meson covers_trans extends_trans intentEvolves_trans proposalEvolves_trans subset_trans)

definition advances :: "runtime \<Rightarrow> store \<Rightarrow> store \<Rightarrow> bool" where
  "advances rt s t \<longleftrightarrow> store_ok rt t \<and> store_evolves s t"

lemma advances_refl: "store_ok rt s \<Longrightarrow> advances rt s s"
  by (simp add: advances_def)

lemma advances_trans: "advances rt s t \<Longrightarrow> advances rt t u \<Longrightarrow> advances rt s u"
  by (auto simp: advances_def intro: store_evolves_trans)

lemma advances_ok: "advances rt s t \<Longrightarrow> store_ok rt t"
  by (simp add: advances_def)

lemma emptyStore_ok: "store_ok rt emptyStore"
  by (simp add: store_ok_def emptyStore_def proposals_ok_def events_ok_def approvals_ok_def
      review_ok_def jobs_ok_def intents_ok_def receipts_ok_def idempotency_ok_def queue_ok_def
      attention_ok_def approvedRows_def proofUses_def)

subsection \<open>Updates\<close>

lemma core_set: "map core ps = map core qs \<Longrightarrow> core ` set ps = core ` set qs"
  by (metis list.set_map)

lemma core_updateWhere:
  "(\<And>p. core (f p) = core p) \<Longrightarrow> core ` set (updateWhere P f ps) = core ` set ps"
  by (metis map_key_updateWhere core_set)

lemma cores_simps [simp]:
  "cores (s\<lparr>s_events := x1\<rparr>) = cores s" "cores (s\<lparr>s_approvals := x2\<rparr>) = cores s"
  "cores (s\<lparr>s_receipts := x3\<rparr>) = cores s" "cores (s\<lparr>s_jobs := x4\<rparr>) = cores s"
  "cores (s\<lparr>s_idempotency := x5\<rparr>) = cores s" "cores (s\<lparr>s_intents := x6\<rparr>) = cores s"
  "cores (s\<lparr>s_queue := x7\<rparr>) = cores s" "cores (s\<lparr>s_cases := x8\<rparr>) = cores s"
  "cores (s\<lparr>s_attention := x9\<rparr>) = cores s"
  by (simp_all add: cores_def)

lemma getProposal_in: "getProposal pid s = Some p \<Longrightarrow> p \<in> set (s_proposals s) \<and> p_id p = pid"
  by (auto simp: getProposal_def dest: findRow_SomeD)

lemma requireProposal_in [dest]:
  "requireProposal pid s = Inr p \<Longrightarrow> p \<in> set (s_proposals s) \<and> p_id p = pid"
  by (simp add: requireProposal_def getProposal_in)

lemma known_getProposal: "getProposal pid s = Some p \<Longrightarrow> known (cores s) pid"
  by (auto simp: known_def cores_def dest!: getProposal_in)

lemma mayWrite_require:
  "requireProposal pid s = Inr p \<Longrightarrow> writable p \<Longrightarrow> mayWrite (cores s) pid"
  by (auto simp: mayWrite_def cores_def)

lemma unique_proposal:
  "store_ok rt s \<Longrightarrow> p \<in> set (s_proposals s) \<Longrightarrow> q \<in> set (s_proposals s) \<Longrightarrow> p_id p = p_id q \<Longrightarrow> p = q"
  by (auto simp: store_ok_def proposals_ok_def distinct_map dest: inj_onD)

lemma writable_iff: "assertWritebackAllowed p = Inr u \<longleftrightarrow> writable p"
  by (simp add: writable_def)

lemma appendEvent_advances:
  assumes run: "appendEvent rt now pid kind actor payload proof s = Inr t" and ok: "store_ok rt s"
  shows "advances rt s t"
  using run
proof (rule appendEvent_shape)
  fix a p es
  let ?e = "newEvent now pid kind actor payload proof s"
  assume p: "getProposal pid s = Some p" and t: "t = s\<lparr>s_events := s_events s @ [?e], s_attention := a\<rparr>"
    and a: "attention_ok rt (s_attention s) \<Longrightarrow> attention_ok rt a"
  have "events_ok (cores s) (s_events s @ [?e])"
    using ok known_getProposal [OF p] by (simp add: store_ok_def events_ok_def newEvent_def)
  then have "store_ok rt t" using ok a by (simp add: store_ok_def t)
  moreover have "store_evolves s t" by (simp add: store_evolves_def t covers_refl)
  ultimately show ?thesis by (simp add: advances_def)
qed

lemma appendEvent_tables:
  assumes "appendEvent rt now pid kind actor payload proof s = Inr t"
  shows "s_proposals t = s_proposals s" "s_approvals t = s_approvals s" "s_queue t = s_queue s"
    "s_intents t = s_intents s" "s_jobs t = s_jobs s" "s_receipts t = s_receipts s"
    "getProposal q t = getProposal q s" "workerQueueItem q t = workerQueueItem q s"
    "getWritebackIntent q t = getWritebackIntent q s" "cores t = cores s"
  using assms
  by (auto elim!: appendEvent_shape simp: getProposal_def workerQueueItem_def getWritebackIntent_def)

text \<open>A change of state within what review and mode allow.\<close>

definition stateAllowed :: "store \<Rightarrow> string \<Rightarrow> proposal_state \<Rightarrow> bool" where
  "stateAllowed s pid st \<longleftrightarrow> st \<noteq> PendingReview \<and> (\<forall>p \<in> set (s_proposals s). p_id p = pid \<longrightarrow>
     (st \<in> {PendingWorker, Applied, Failed, ReconciliationRequired} \<longrightarrow> writable p)
   \<and> (st \<in> {Approved, PendingWorker} \<longrightarrow> reviewed (s_approvals s) p))"

lemma proposalOk_core: "core p = core (proposalOf (p_change_set p)) \<Longrightarrow> core q = core p \<Longrightarrow>
    core q = core (proposalOf (p_change_set q))"
  by (metis core_simps(4))

lemma updateProposalState_cores [simp]: "cores (updateProposalState rt now pid st s) = cores s"
  by (simp add: cores_def updateProposalState_def core_updateWhere)

lemma reviewed_core: "core q = core p \<Longrightarrow> reviewed aps q = reviewed aps p"
  by (metis core_simps(1,4,9) reviewed_def)

lemma updateProposals_advances:
  assumes ok: "store_ok rt s" and core: "\<And>p. core (f p) = core p"
    and good: "\<And>p. p \<in> set (s_proposals s) \<Longrightarrow> P p \<Longrightarrow> proposalOk rt (f p)
        \<and> reviewOk (s_approvals s) (s_queue s) (f p)
        \<and> (p_source_database_mutated p \<longrightarrow> p_source_database_mutated (f p))"
  shows "advances rt s (s\<lparr>s_proposals := updateWhere P f (s_proposals s)\<rparr>)"
proof -
  let ?t = "s\<lparr>s_proposals := updateWhere P f (s_proposals s)\<rparr>"
  have id: "p_id (f p) = p_id p" for p by (metis core core_simps(1))
  have "proposals_ok rt (s_proposals ?t)"
    using ok good by (auto simp: store_ok_def proposals_ok_def map_key_updateWhere id elim!: in_updateWhereE)
  moreover have "review_ok (s_proposals ?t) (s_approvals s) (s_queue s)"
    using ok good by (auto simp: store_ok_def review_ok_def elim!: in_updateWhereE)
  moreover have "cores ?t = cores s" by (simp add: cores_def core_updateWhere core)
  moreover have "covers proposalEvolves (s_proposals s) (s_proposals ?t)"
    using good by (auto intro!: covers_updateWhere simp: proposalEvolves_def core)
  ultimately show ?thesis
    using ok by (simp add: advances_def store_ok_def store_evolves_def covers_refl)
qed

lemma proposalOk_state:
  "proposalOk rt p \<Longrightarrow> x \<noteq> PendingReview
     \<and> (x \<in> {PendingWorker, Applied, Failed, ReconciliationRequired} \<longrightarrow> writable p) \<and> any \<Longrightarrow>
   proposalOk rt (p\<lparr>p_state := x, p_updated_at := u\<rparr>)"
  by (auto simp: proposalOk_def writable_def)

lemma updateProposalState_advances:
  assumes ok: "store_ok rt s" and st: "stateAllowed s pid st"
  shows "advances rt s (updateProposalState rt now pid st s)"
  unfolding updateProposalState_def
proof (rule updateProposals_advances [OF ok])
  fix p :: proposal
  let ?q = "p\<lparr>p_state := st, p_updated_at := isoString rt now\<rparr>"
  assume "p \<in> set (s_proposals s)" and "p_id p = pid"
  with ok st reviewed_core [of ?q p]
  show "proposalOk rt ?q \<and> reviewOk (s_approvals s) (s_queue s) ?q
      \<and> (p_source_database_mutated p \<longrightarrow> p_source_database_mutated ?q)"
    by (auto simp: store_ok_def proposals_ok_def proposalOk_def stateAllowed_def writable_def
        review_ok_def reviewOk_def)
qed simp

text \<open>A new proposal.\<close>

lemma approvalCount_unknown:
  "approvals_ok cs aps \<Longrightarrow> \<not> known cs pid \<Longrightarrow> approvalCount pid aps = 0"
  by (force simp: approvalCount_def length_uniqueList approvals_ok_def approvalOk_def known_def)

lemma cores_mono:
  "cs \<subseteq> ds \<Longrightarrow> known cs pid \<Longrightarrow> known ds pid" "cs \<subseteq> ds \<Longrightarrow> mayWrite cs pid \<Longrightarrow> mayWrite ds pid"
  "cs \<subseteq> ds \<Longrightarrow> approvalOk cs a \<Longrightarrow> approvalOk ds a" "cs \<subseteq> ds \<Longrightarrow> intentOk cs i \<Longrightarrow> intentOk ds i"
  by (auto simp: known_def mayWrite_def approvalOk_def intentOk_def subset_iff)

lemma tables_mono:
  assumes "cs \<subseteq> ds"
  shows "events_ok cs evs \<Longrightarrow> events_ok ds evs" "approvals_ok cs aps \<Longrightarrow> approvals_ok ds aps"
    "jobs_ok cs js \<Longrightarrow> jobs_ok ds js" "intents_ok cs is \<Longrightarrow> intents_ok ds is"
    "receipts_ok cs rs \<Longrightarrow> receipts_ok ds rs" "queue_ok cs ws \<Longrightarrow> queue_ok ds ws"
  using cores_mono [OF assms]
  by (auto simp: events_ok_def approvals_ok_def jobs_ok_def intents_ok_def receipts_ok_def queue_ok_def)

lemma proposalOf_ok:
  assumes "parseChangeSet rt c = Inr c" and "secretFree (changeSetJson c)"
  shows "proposalOk rt (proposalOf c)"
proof -
  have "p_change_set (proposalOf c) = c" "p_state (proposalOf c) = stateFromChangeSet c"
    "p_source_database_mutated (proposalOf c) = cs_source_database_mutated c"
    by (simp_all add: proposalOf_def)
  with assms show ?thesis
    by (auto simp: proposalOk_def stateFromChangeSet_def split: approval_status.splits)
qed

lemma addProposal_advances:
  assumes ok: "store_ok rt s" and new: "getProposal (cs_proposal_id c) s = None"
    and c: "parseChangeSet rt c = Inr c" "secretFree (changeSetJson c)"
  shows "advances rt s (s\<lparr>s_proposals := s_proposals s @ [proposalOf c]\<rparr>)"
proof -
  let ?p = "proposalOf c" and ?t = "s\<lparr>s_proposals := s_proposals s @ [proposalOf c]\<rparr>"
  have id: "p_id ?p = cs_proposal_id c" by (simp add: proposalOf_def)
  have fresh: "p_id ?p \<notin> p_id ` set (s_proposals s)"
    using new by (simp add: getProposal_def findRow_None_iff id)
  then have unknown: "\<not> known (cores s) (p_id ?p)"
    by (force simp: known_def cores_def image_iff)
  have sub: "cores s \<subseteq> cores ?t" by (auto simp: cores_def)
  have "approvalCount (p_id ?p) (s_approvals s) = 0"
    using ok unknown by (auto simp: store_ok_def intro: approvalCount_unknown)
  moreover have "p_id ?p \<notin> wq_proposal_id ` set (s_queue s)"
    using ok unknown by (auto simp: store_ok_def queue_ok_def)
  ultimately have "reviewOk (s_approvals s) (s_queue s) ?p"
    using requiredApprovalCount_pos [of ?p]
    by (auto simp: reviewOk_def reviewed_def proposalOf_def stateFromChangeSet_def
        split: approval_status.splits)
  with ok fresh proposalOf_ok [OF c] tables_mono [OF sub] have "store_ok rt ?t"
    by (auto simp: store_ok_def proposals_ok_def review_ok_def)
  then show ?thesis by (simp add: advances_def store_evolves_def covers_refl covers_append)
qed

text \<open>Approval rows.\<close>

lemma approvalCount_append:
  "approvalCount pid (aps @ [a]) = (if ap_proposal_id a = pid \<and> ap_status a = ApRowApproved
      \<and> ap_approver a \<notin> ap_approver ` {x \<in> set aps. ap_proposal_id x = pid \<and> ap_status x = ApRowApproved}
    then approvalCount pid aps + 1 else approvalCount pid aps)"
  by (simp add: approvalCount_def length_uniqueList insert_absorb)

lemma approvalCount_mono: "approvalCount pid aps \<le> approvalCount pid (aps @ [a])"
  by (simp add: approvalCount_append)

lemma reviewed_mono: "reviewed aps p \<Longrightarrow> reviewed (aps @ [a]) p"
  using approvalCount_mono [of "p_id p" aps a] by (auto simp: reviewed_def)

lemma approvals_ok_append:
  assumes "approvals_ok cs aps" and "approvalOk cs a"
    and "ap_status a = ApRowApproved \<Longrightarrow>
      (ap_proposal_id a, ap_approver a) \<notin> (\<lambda>x. (ap_proposal_id x, ap_approver x)) ` set (approvedRows aps)"
    and "\<And>d. ap_freshness_proof_digest a = Some d \<Longrightarrow> (ap_proposal_id a, d) \<notin> set (proofUses aps)"
  shows "approvals_ok cs (aps @ [a])"
  using assms
  by (cases "ap_freshness_proof_digest a") (auto simp: approvals_ok_def approvedRows_def proofUses_def)

text \<open>
  Adding a row and moving its proposal to the state the row decides, in either order.  Every other
  proposal keeps its count.
\<close>

definition addDecision ::
  "runtime \<Rightarrow> time \<Rightarrow> approval \<Rightarrow> proposal_state option \<Rightarrow> store \<Rightarrow> store" where
  "addDecision rt now a st s = (let t = s\<lparr>s_approvals := s_approvals s @ [a]\<rparr> in
     case st of None \<Rightarrow> t | Some x \<Rightarrow> updateProposalState rt now (ap_proposal_id a) x t)"

lemma reviewOk_append_other:
  "reviewOk aps queue p \<Longrightarrow> ap_proposal_id a \<noteq> p_id p \<or> ap_status a \<noteq> ApRowApproved \<Longrightarrow>
     reviewOk (aps @ [a]) queue p"
  by (auto simp: reviewOk_def approvalCount_append intro: reviewed_mono)

lemma reviewOk_append_none:
  "reviewOk aps queue p \<Longrightarrow> approvalCount (p_id p) (aps @ [a]) < requiredApprovalCount p \<Longrightarrow>
     reviewOk (aps @ [a]) queue p"
  by (auto simp: reviewOk_def intro: reviewed_mono)

lemma reviewOk_decided:
  assumes "reviewOk aps queue p" and "p_state q \<noteq> PendingReview" and "core q = core p"
    and "p_state q \<in> {Approved, PendingWorker} \<Longrightarrow> reviewed (aps @ [a]) p"
  shows "reviewOk (aps @ [a]) queue q"
  using assms reviewed_core [OF assms(3)] core_eqD [OF assms(3)] reviewed_mono [of aps p a]
  by (auto simp: reviewOk_def)

lemma addDecision_advances:
  assumes ok: "store_ok rt s" and rows: "approvals_ok (cores s) (s_approvals s @ [a])"
    and p: "p \<in> set (s_proposals s)" "p_id p = ap_proposal_id a"
    and none: "st = None \<Longrightarrow> approvalCount (p_id p) (s_approvals s @ [a]) < requiredApprovalCount p"
    and some: "\<And>x. st = Some x \<Longrightarrow> x \<noteq> PendingReview
        \<and> (x \<in> {PendingWorker, Applied, Failed, ReconciliationRequired} \<longrightarrow> writable p)
        \<and> (x \<in> {Approved, PendingWorker} \<longrightarrow> reviewed (s_approvals s @ [a]) p)"
  shows "advances rt s (addDecision rt now a st s)"
proof -
  let ?aps = "s_approvals s @ [a]" and ?t = "addDecision rt now a st s"
  define f where "f q = (case st of None \<Rightarrow> q | Some x \<Rightarrow> if p_id q = ap_proposal_id a
     then q\<lparr>p_state := x, p_updated_at := isoString rt now\<rparr> else q)" for q :: proposal
  have t: "?t = s\<lparr>s_approvals := ?aps, s_proposals := map f (s_proposals s)\<rparr>"
  proof (cases st)
    case None
    then have "f = (\<lambda>q. q)" by (simp add: f_def [abs_def])
    with None show ?thesis by (simp add: addDecision_def)
  next
    case (Some x)
    then show ?thesis
      by (simp add: addDecision_def f_def [abs_def] Let_def updateProposalState_def updateWhere_def)
  qed
  have same: "q = p" if "q \<in> set (s_proposals s)" "p_id q = ap_proposal_id a" for q
    using unique_proposal [OF ok that(1) p(1)] that p(2) by simp
  have core: "core (f q) = core q" for q by (simp add: f_def split: option.split)
  have old: "proposalOk rt q \<and> reviewOk (s_approvals s) (s_queue s) q" if "q \<in> set (s_proposals s)" for q
    using ok that by (auto simp: store_ok_def proposals_ok_def review_ok_def)
  have "proposalOk rt (f q) \<and> reviewOk ?aps (s_queue s) (f q)" if q: "q \<in> set (s_proposals s)" for q
  proof (cases "p_id q = ap_proposal_id a")
    case True
    with same q have q: "q = p" by simp
    with old p(1) have pre: "proposalOk rt p" "reviewOk (s_approvals s) (s_queue s) p" by auto
    show ?thesis
    proof (cases st)
      case None
      with pre none q show ?thesis by (simp add: f_def reviewOk_append_none)
    next
      case (Some x)
      with True q have fq: "f q = p\<lparr>p_state := x, p_updated_at := isoString rt now\<rparr>"
        by (simp add: f_def)
      have "proposalOk rt (f q)"
        unfolding fq by (rule proposalOk_state [OF pre(1) some [OF Some]])
      moreover have "reviewOk ?aps (s_queue s) (f q)"
        by (rule reviewOk_decided [OF pre(2)]) (use some [OF Some] in \<open>simp_all add: fq\<close>)
      ultimately show ?thesis ..
    qed
  next
    case False
    with old [OF q] reviewOk_append_other [of "s_approvals s" "s_queue s" q a] show ?thesis
      by (auto simp: f_def split: option.split)
  qed
  moreover have "p_id \<circ> f = p_id" using core_eqD [OF core] by (auto simp: fun_eq_iff)
  moreover have "cores ?t = cores s" by (auto simp: t cores_def core image_image)
  ultimately have "store_ok rt ?t"
    using ok rows by (auto simp: store_ok_def t proposals_ok_def review_ok_def)
  moreover have "proposalEvolves q (f q)" for q
    using core [of q] by (simp add: proposalEvolves_def) (simp add: f_def split: option.split)
  then have "store_evolves s ?t"
    by (auto simp: store_evolves_def t covers_refl) (auto simp: covers_def)
  ultimately show ?thesis by (simp add: advances_def)
qed

text \<open>Jobs, intents, receipts and shadow cases.\<close>

lemma upsertJob_ids: "jr_id ` set (s_jobs (upsertJob now jid pid h j s)) = insert jid (jr_id ` set (s_jobs s))"
proof (cases "findRow jr_id jid (s_jobs s)")
  case None
  then show ?thesis by (simp add: upsertJob_def)
next
  case (Some r)
  let ?u = "updateWhere (\<lambda>r. jr_id r = jid)
      (\<lambda>r. r\<lparr>jr_status := JobPendingWorker, jr_job := j, jr_updated_at := now\<rparr>) (s_jobs s)"
  have "map jr_id ?u = map jr_id (s_jobs s)" by (simp add: map_key_updateWhere)
  then have "jr_id ` set ?u = jr_id ` set (s_jobs s)" by (metis list.set_map)
  moreover have "jid \<in> jr_id ` set (s_jobs s)" using findRow_SomeD [OF Some] by auto
  ultimately show ?thesis using Some by (simp add: upsertJob_def insert_absorb)
qed

lemma upsertJob_advances:
  assumes ok: "store_ok rt s" and w: "mayWrite (cores s) pid"
  shows "advances rt s (upsertJob now jid pid h j s)"
proof -
  let ?t = "upsertJob now jid pid h j s"
  have rest: "?t = s\<lparr>s_jobs := s_jobs ?t\<rparr>" by (simp add: upsertJob_def)
  have "distinct (map jr_id (s_jobs ?t))"
    using ok by (auto simp: upsertJob_def store_ok_def jobs_ok_def map_key_updateWhere findRow_None_iff)
  moreover have "\<forall>r \<in> set (s_jobs ?t). mayWrite (cores s) (jr_proposal_id r)"
    using ok w by (auto simp: upsertJob_def store_ok_def jobs_ok_def elim!: in_updateWhereE)
  ultimately have "jobs_ok (cores s) (s_jobs ?t)" by (simp add: jobs_ok_def)
  moreover have "idempotency_ok (s_jobs ?t) (s_idempotency s)"
    using ok by (auto simp: store_ok_def idempotency_ok_def upsertJob_ids)
  ultimately have "store_ok rt (s\<lparr>s_jobs := s_jobs ?t\<rparr>)" using ok by (simp add: store_ok_def)
  moreover have "store_evolves s (s\<lparr>s_jobs := s_jobs ?t\<rparr>)"
    by (auto simp: store_evolves_def covers_refl upsertJob_ids)
  ultimately show ?thesis using rest by (simp add: advances_def)
qed

lemma addIntent_advances:
  assumes ok: "store_ok rt s" and u: "intentUnique i (s_intents s)" and i: "intentOk (cores s) i"
  shows "advances rt s (s\<lparr>s_intents := s_intents s @ [i]\<rparr>)"
  using assms
  by (auto simp: advances_def store_ok_def store_evolves_def covers_refl covers_append intents_ok_def
      intentUnique_def list_all_iff)

lemma updateIntent_advances:
  assumes ok: "store_ok rt s" and core: "\<And>i. intentCore (f i) = intentCore i"
    and good: "\<And>i. i \<in> set (s_intents s) \<Longrightarrow> in_id i = iid \<Longrightarrow>
      intentOk (cores s) (f i) \<and> \<not> intentApplied i \<and> in_status (f i) \<noteq> IntentRecorded"
  shows "advances rt s (updateIntent iid f s)"
proof -
  have keys: "in_id (f i) = in_id i" "in_idempotency_key (f i) = in_idempotency_key i"
    "in_writeback_job_id (f i) = in_writeback_job_id i" for i
    using core [of i] by (simp_all add: intentCore_def)
  have "intents_ok (cores s) (updateWhere (\<lambda>i. in_id i = iid) f (s_intents s))"
    using ok good by (auto simp: store_ok_def intents_ok_def map_key_updateWhere keys elim!: in_updateWhereE)
  moreover have "covers intentEvolves (s_intents s) (updateWhere (\<lambda>i. in_id i = iid) f (s_intents s))"
    using good by (auto intro!: covers_updateWhere simp: intentEvolves_def core)
  ultimately show ?thesis
    using ok by (simp add: advances_def updateIntent_def store_ok_def store_evolves_def covers_refl)
qed

lemma updateIntent_cores [simp]: "cores (updateIntent iid f s) = cores s"
  by (simp add: updateIntent_def)

lemma insertReceipt_advances:
  assumes "store_ok rt s" and "mayWrite (cores s) (rc_proposal_id r)"
  shows "advances rt s (insertReceipt r s)"
  using assms
  by (auto simp: advances_def insertReceipt_def store_ok_def store_evolves_def covers_refl
      receipts_ok_def receiptRow_def list_ex_iff)

lemma insertReceipt_tables [simp]:
  "cores (insertReceipt r s) = cores s" "s_proposals (insertReceipt r s) = s_proposals s"
  "s_jobs (insertReceipt r s) = s_jobs s"
  by (simp_all add: insertReceipt_def cores_def)

lemma applyReceipt_advances:
  assumes ok: "store_ok rt s" and p: "p \<in> set (s_proposals s)" "p_id p = rc_proposal_id r" "writable p"
  shows "advances rt s (applyReceipt rt r p s)"
  unfolding applyReceipt_def
proof (rule updateProposals_advances [OF ok])
  fix q :: proposal
  let ?q = "q\<lparr>p_state := stateFromReceipt r,
        p_source_database_mutated := (rc_source_database_mutated r \<or> p_source_database_mutated p),
        p_updated_at := isoString rt (rc_executed_at r)\<rparr>"
  assume q: "q \<in> set (s_proposals s)" "p_id q = rc_proposal_id r"
  with unique_proposal [OF ok q(1) p(1)] p(2) have "q = p" by simp
  moreover have "stateFromReceipt r \<notin> {PendingReview, Approved, PendingWorker}"
    by (simp add: stateFromReceipt_def split: terminal_status.splits)
  ultimately show "proposalOk rt ?q \<and> reviewOk (s_approvals s) (s_queue s) ?q
      \<and> (p_source_database_mutated q \<longrightarrow> p_source_database_mutated ?q)"
    using ok p reviewed_core [of ?q p]
    by (auto simp: store_ok_def proposals_ok_def review_ok_def proposalOk_def reviewOk_def writable_def)
qed simp

lemma replaceIdempotency_advances:
  assumes "store_ok rt s" and "rc_writeback_job_id r \<in> jr_id ` set (s_jobs s)"
  shows "advances rt s (replaceIdempotency r s)"
  using assms
  by (auto simp: advances_def replaceIdempotency_def store_ok_def store_evolves_def covers_refl
      idempotency_ok_def distinct_map_filter cores_def)

lemma finishJob_advances:
  assumes ok: "store_ok rt s"
  shows "advances rt s (finishJob r s)"
proof -
  let ?js = "s_jobs (finishJob r s)"
  have ids: "map jr_id ?js = map jr_id (s_jobs s)"
    by (simp add: finishJob_def map_key_updateWhere)
  then have set: "jr_id ` set ?js = jr_id ` set (s_jobs s)" by (metis list.set_map)
  have "jobs_ok (cores s) ?js"
    using ok ids by (auto simp: store_ok_def jobs_ok_def finishJob_def elim!: in_updateWhereE)
  with ok set show ?thesis
    by (simp add: advances_def store_ok_def store_evolves_def covers_refl idempotency_ok_def)
      (simp add: finishJob_def covers_refl cores_def)
qed

lemma attachShadow_advances:
  "store_ok rt s \<Longrightarrow> advances rt s (attachShadowChangeSetToActiveStudies rt c created s)"
  by (simp add: attachShadowChangeSetToActiveStudies_def advances_def store_ok_def store_evolves_def
      covers_refl)

text \<open>The queue.\<close>

lemma addItem_advances:
  assumes ok: "store_ok rt s" and p: "p \<in> set (s_proposals s)" "p_id p = wq_proposal_id w"
    and r: "reviewed (s_approvals s) p" and new: "wq_proposal_id w \<notin> wq_proposal_id ` set (s_queue s)"
    and shape: "itemShape w"
  shows "advances rt s (s\<lparr>s_queue := s_queue s @ [w]\<rparr>)"
proof -
  have "known (cores s) (wq_proposal_id w)" using p by (auto simp: known_def cores_def)
  moreover have "reviewOk (s_approvals s) (s_queue s @ [w]) q" if "q \<in> set (s_proposals s)" for q
    using ok that r p unique_proposal [OF ok that p(1)]
    by (auto simp: store_ok_def review_ok_def reviewOk_def)
  ultimately show ?thesis
    using ok new shape
    by (auto simp: advances_def store_ok_def store_evolves_def covers_refl queue_ok_def review_ok_def)
qed

lemma updateItem_advances:
  assumes ok: "store_ok rt s" and key: "\<And>w. wq_proposal_id (f w) = wq_proposal_id w"
    and shape: "\<And>w. w \<in> set (s_queue s) \<Longrightarrow> P w \<Longrightarrow> itemShape w \<Longrightarrow> itemShape (f w)"
  shows "advances rt s (s\<lparr>s_queue := updateWhere P f (s_queue s)\<rparr>)"
proof -
  have ids: "map wq_proposal_id (updateWhere P f (s_queue s)) = map wq_proposal_id (s_queue s)"
    by (simp add: map_key_updateWhere key)
  then have set: "wq_proposal_id ` set (updateWhere P f (s_queue s)) = wq_proposal_id ` set (s_queue s)"
    by (metis list.set_map)
  have "queue_ok (cores s) (updateWhere P f (s_queue s))"
    using ok ids shape by (auto simp: store_ok_def queue_ok_def key elim!: in_updateWhereE)
  with ok set show ?thesis
    by (simp add: advances_def store_ok_def store_evolves_def covers_refl review_ok_def reviewOk_def)
qed

end
