(* ===== verification/Lifecycle.thy ===== *)
theory Lifecycle
  imports Invariants
begin

text \<open>
  Every operation on proposals keeps the invariant of the store and only lets it evolve: one lemma
  \<open>\<dots>_advances\<close> per operation, and for the two ways of approval what a successful call has checked
  and done (\<open>\<dots>_effect\<close>).
\<close>

subsection \<open>Proposal operations\<close>

lemma appendRow_advances:
  "appendRow rt now x s = Inr t \<Longrightarrow> store_ok rt s \<Longrightarrow> advances rt s t"
  by (auto simp: appendRow_def intro: appendEvent_advances split: prod.splits)

lemma appendRows_advances:
  "foldE (appendRow rt now) xs s = Inr t \<Longrightarrow> store_ok rt s \<Longrightarrow> advances rt s t"
proof (induction xs arbitrary: s)
  case (Cons x xs)
  then obtain u where u: "appendRow rt now x s = Inr u" "foldE (appendRow rt now) xs u = Inr t"
    by (auto simp: bindE_eq_Inr)
  from appendRow_advances [OF u(1) Cons.prems(2)] Cons.IH [OF u(2)] show ?case
    by (auto dest: advances_ok intro: advances_trans)
qed (simp add: advances_refl)

lemma createProposal_advances:
  assumes run: "createProposal rt clock input s = Inr (p, t)" and ok: "store_ok rt s"
  shows "advances rt s t"
proof (cases "getProposal (cs_proposal_id input) s")
  case (Some e)
  with run have "t = s" by (auto simp: createProposal_def bindE_eq_Inr dest!: parseChangeSet_id)
  with ok show ?thesis by (simp add: advances_refl)
next
  case None
  let ?u = "s\<lparr>s_proposals := s_proposals s @ [proposalOf input]\<rparr>"
  from run obtain c where "parseChangeSet rt input = Inr c" by (auto simp: createProposal_def bindE_eq_Inr)
  then have parsed: "parseChangeSet rt input = Inr input" by (simp add: parseChangeSet_id)
  with run None obtain v where clean: "secretFree (changeSetJson input)"
    and ev: "appendEvent rt clock (cs_proposal_id input) ''proposal_created'' (cs_principal_id input)
        (createdPayload input) None ?u = Inr v"
    and t: "t = (if cs_mode input = ShadowMode
        then attachShadowChangeSetToActiveStudies rt input (cs_created_at input) v else v)"
    by (auto simp: createProposal_def bindE_eq_Inr Let_def)
  have 1: "advances rt s ?u" by (rule addProposal_advances [OF ok None parsed clean])
  have 2: "advances rt ?u v" by (rule appendEvent_advances [OF ev advances_ok [OF 1]])
  have 3: "advances rt v t"
    using advances_ok [OF 2] by (auto simp: t advances_refl attachShadow_advances)
  from 1 2 3 show ?thesis by (blast intro: advances_trans)
qed

lemma recordFreshnessProof_advances:
  assumes run: "recordFreshnessProof rt clock input s = Inr (x, t)" and ok: "store_ok rt s"
  shows "advances rt s t"
proof -
  from run obtain u where ev: "appendEvent rt clock (fp_proposal_id x) ''proposal_freshness_checked''
      ''runner'' [] (Some x) s = Inr u"
    and rest: "t = u \<or> (\<exists>payload. appendEvent rt clock (fp_proposal_id x) ''proposal_conflict'' ''runner''
        payload None (updateProposalState rt clock (fp_proposal_id x) Conflict u) = Inr t)"
    by (auto simp: recordFreshnessProof_def bindE_eq_Inr mapE_eq_Inr split: if_splits)
  have 1: "advances rt s u" by (rule appendEvent_advances [OF ev ok])
  have 2: "advances rt u (updateProposalState rt clock (fp_proposal_id x) Conflict u)"
    by (rule updateProposalState_advances [OF advances_ok [OF 1]]) (simp add: stateAllowed_def)
  from rest show ?thesis
    using 1 advances_trans [OF advances_trans [OF 1 2] appendEvent_advances [OF _ advances_ok [OF 2]]]
    by auto
qed

lemma recordFreshnessApprovalBlocked_advances:
  "recordFreshnessApprovalBlocked rt clock pid d c actor s = Inr t \<Longrightarrow> store_ok rt s \<Longrightarrow> advances rt s t"
  by (auto simp: recordFreshnessApprovalBlocked_def bindE_eq_Inr intro: appendEvent_advances)

text \<open>The rows that an approval and a rejection add.\<close>

lemma newApproval_ok:
  assumes "p \<in> set (s_proposals s)" and "p_id p = pid" and "p_hash p = ao_hash opts"
    and "p_version p = ao_version opts" and "st = ApRowApproved \<longrightarrow> writable p"
  shows "approvalOk (cores s) (newApproval now pid opts st s')"
proof -
  have "core p \<in> cores s" using assms(1) by (simp add: cores_def)
  with assms show ?thesis
    by (auto simp: approvalOk_def newApproval_def intro!: bexI [of _ "core p"])
qed

lemma approvalOk_digest [simp]: "approvalOk cs (a\<lparr>ap_freshness_proof_digest := d\<rparr>) = approvalOk cs a"
  by (simp add: approvalOk_def)

lemma proofUses_iff:
  "(pid, d) \<in> set (proofUses aps) \<longleftrightarrow>
     list_ex (\<lambda>x. ap_proposal_id x = pid \<and> ap_freshness_proof_digest x = Some d) aps"
  by (force simp: proofUses_def list_ex_iff split: option.splits)

lemma assertApprovalFreshness_unused:
  assumes run: "assertApprovalFreshness rt p digest now s = Inr u" and d: "digest = Some d"
  shows "(p_id p, d) \<notin> set (proofUses (s_approvals s))"
proof (cases "proposalFreshnessAuthority rt p")
  case (Inr a)
  then show ?thesis
    using run d unfolding proofUses_iff
    by (cases a) (auto simp: assertApprovalFreshness_def bindE_eq_Inr presentStr_def split: if_splits)
qed (use run in \<open>simp add: assertApprovalFreshness_def\<close>)

text \<open>What a successful approval has checked and done.\<close>

lemma approveProposal_effect:
  assumes "approveProposal rt clock pid opts s = Inr (q, t)"
  obtains p pg where "requireProposal pid s = Inr p" and "writable p"
    and "p_hash p = ao_hash opts" "p_version p = ao_version opts" and "p_state p = PendingReview"
    and "assertOperatorDecision p DApprove (ao_approver opts) (ao_identity opts) (ao_require_verified opts) = Inr ()"
    and "\<forall>a \<in> set (s_approvals s). ap_proposal_id a = pid \<longrightarrow> ap_approver a \<noteq> ao_approver opts"
    and "assertApprovalFreshness rt p (ao_freshness_proof_digest opts) clock s = Inr ()"
    and "pg = approvalCount pid (s_approvals s @ [newApproval clock pid opts ApRowApproved s])"
    and "\<exists>kind payload. appendEvent rt clock pid kind (ao_approver opts) payload None
          (addDecision rt clock (newApproval clock pid opts ApRowApproved s)
             (if requiredApprovalCount p \<le> pg then Some Approved else None) s) = Inr t"
    and "requireProposal pid t = Inr q"
proof -
  let ?a = "newApproval clock pid opts ApRowApproved s"
  let ?t = "s\<lparr>s_approvals := s_approvals s @ [?a]\<rparr>"
  have id: "ap_proposal_id ?a = pid" by (simp add: newApproval_def)
  from assms obtain p pg v where run:
    "requireProposal pid s = Inr p" "writable p" "p_hash p = ao_hash opts"
    "p_version p = ao_version opts" "p_state p = PendingReview"
    "assertOperatorDecision p DApprove (ao_approver opts) (ao_identity opts) (ao_require_verified opts) = Inr ()"
    "\<not> list_ex (\<lambda>a. ap_proposal_id a = pid \<and> ap_approver a = ao_approver opts) (s_approvals s)"
    "assertApprovalFreshness rt p (ao_freshness_proof_digest opts) clock s = Inr ()"
    "approvalProgress pid ?t = Inr pg"
    "appendEvent rt clock pid (if pg_required pg \<le> pg_approved pg then ''proposal_approved'' else ''proposal_approval_recorded'')
       (ao_approver opts) (approvedPayload opts pg) None
       (if pg_required pg \<le> pg_approved pg then updateProposalState rt clock pid Approved ?t else ?t) = Inr v"
    "requireProposal pid v = Inr q" "t = v"
    by (auto simp: approveProposal_def bindE_eq_Inr Let_def assertPendingReview_def writable_def)
  have pg: "pg_required pg = requiredApprovalCount p"
    "pg_approved pg = approvalCount pid (s_approvals s @ [?a])"
    using run(1,9) by (auto simp: approvalProgress_def bindE_eq_Inr Let_def requireProposal_def
        getProposal_def approvers_def approvalCount_def)
  have dec: "addDecision rt clock ?a (if pg_required pg \<le> pg_approved pg then Some Approved else None) s
      = (if pg_required pg \<le> pg_approved pg then updateProposalState rt clock pid Approved ?t else ?t)"
    by (simp add: addDecision_def id)
  have ev: "\<exists>kind payload. appendEvent rt clock pid kind (ao_approver opts) payload None
          (addDecision rt clock ?a (if requiredApprovalCount p \<le> pg_approved pg then Some Approved else None) s) = Inr t"
    using run(10,12) unfolding dec pg(1) [symmetric] by blast
  have once: "\<forall>a \<in> set (s_approvals s). ap_proposal_id a = pid \<longrightarrow> ap_approver a \<noteq> ao_approver opts"
    using run(7) by (auto simp: list_ex_iff)
  show thesis
    by (rule that [OF run(1-6) once run(8) pg(2) ev]) (use run(11,12) in simp)
qed

lemma approveProposal_advances:
  assumes run: "approveProposal rt clock pid opts s = Inr (q, t)" and ok: "store_ok rt s"
  shows "advances rt s t"
  using run
proof (rule approveProposal_effect)
  fix p pg
  let ?a = "newApproval clock pid opts ApRowApproved s"
  assume p: "requireProposal pid s = Inr p" and w: "writable p"
    and bound: "p_hash p = ao_hash opts" "p_version p = ao_version opts"
    and once: "\<forall>a \<in> set (s_approvals s). ap_proposal_id a = pid \<longrightarrow> ap_approver a \<noteq> ao_approver opts"
    and fresh: "assertApprovalFreshness rt p (ao_freshness_proof_digest opts) clock s = Inr ()"
    and pg: "pg = approvalCount pid (s_approvals s @ [?a])"
    and "\<exists>kind payload. appendEvent rt clock pid kind (ao_approver opts) payload None
          (addDecision rt clock ?a (if requiredApprovalCount p \<le> pg then Some Approved else None) s) = Inr t"
  then obtain kind payload where ev: "appendEvent rt clock pid kind (ao_approver opts) payload None
      (addDecision rt clock ?a (if requiredApprovalCount p \<le> pg then Some Approved else None) s) = Inr t"
    by blast
  note pin = requireProposal_in [OF p]
  have rows: "approvals_ok (cores s) (s_approvals s @ [?a])"
  proof (rule approvals_ok_append)
    show "approvals_ok (cores s) (s_approvals s)" using ok by (simp add: store_ok_def)
    show "approvalOk (cores s) ?a" using pin bound w by (auto intro: newApproval_ok)
    show "(ap_proposal_id ?a, ap_approver ?a)
        \<notin> (\<lambda>x. (ap_proposal_id x, ap_approver x)) ` set (approvedRows (s_approvals s))"
      using once by (auto simp: newApproval_def approvedRows_def)
    show "(ap_proposal_id ?a, d) \<notin> set (proofUses (s_approvals s))"
      if "ap_freshness_proof_digest ?a = Some d" for d
      using assertApprovalFreshness_unused [OF fresh, of d] that pin by (simp add: newApproval_def)
  qed
  have id: "p_id p = ap_proposal_id ?a" using pin by (simp add: newApproval_def)
  have "advances rt s (addDecision rt clock ?a (if requiredApprovalCount p \<le> pg then Some Approved else None) s)"
    by (rule addDecision_advances [OF ok rows conjunct1 [OF pin] id])
      (use pg w pin in \<open>auto simp: reviewed_def split: if_splits\<close>)
  then show ?thesis using appendEvent_advances [OF ev] by (blast dest: advances_ok intro: advances_trans)
qed

lemma addDecision_after:
  "addDecision rt now (newApproval clock pid opts x u) (Some st) s
     = (updateProposalState rt now pid st s)\<lparr>s_approvals := s_approvals s @ [newApproval clock pid opts x u]\<rparr>"
  "addDecision rt now ((newApproval clock pid opts x u)\<lparr>ap_freshness_proof_digest := d\<rparr>) (Some st) s
     = (updateProposalState rt now pid st s)\<lparr>s_approvals := s_approvals s
          @ [(newApproval clock pid opts x u)\<lparr>ap_freshness_proof_digest := d\<rparr>]\<rparr>"
  by (cases s, simp add: addDecision_def updateProposalState_def newApproval_def)+

lemma newApproval_store [simp]:
  "newApproval now pid opts st (updateProposalState rt now' pid' x s) = newApproval now pid opts st s"
  "s_approvals (updateProposalState rt now' pid' x s) = s_approvals s"
  by (simp_all add: newApproval_def updateProposalState_def)

lemma rejectProposal_advances:
  assumes run: "rejectProposal rt clock pid opts s = Inr (q, t)" and ok: "store_ok rt s"
  shows "advances rt s t"
proof -
  let ?a = "(newApproval clock pid opts ApRowRejected s)\<lparr>ap_freshness_proof_digest := None\<rparr>"
  from run obtain p payload where p: "requireProposal pid s = Inr p"
    and bound: "p_hash p = ao_hash opts" "p_version p = ao_version opts"
    and ev: "appendEvent rt clock pid ''proposal_rejected'' (ao_approver opts) payload None
        (addDecision rt clock ?a (Some Rejected) s) = Inr t"
    by (auto simp: rejectProposal_def bindE_eq_Inr Let_def addDecision_after [symmetric])
  note pin = requireProposal_in [OF p]
  have rows: "approvals_ok (cores s) (s_approvals s @ [?a])"
    using ok pin bound
    by (intro approvals_ok_append) (auto simp: store_ok_def intro!: newApproval_ok, simp_all add: newApproval_def)
  have "advances rt s (addDecision rt clock ?a (Some Rejected) s)"
    by (rule addDecision_advances [OF ok rows conjunct1 [OF pin]]) (use pin in \<open>auto simp: newApproval_def\<close>)
  then show ?thesis using appendEvent_advances [OF ev] by (blast dest: advances_ok intro: advances_trans)
qed

lemma recordOperatorAuthorization_advances:
  "recordOperatorAuthorization rt clock pid i v s = Inr t \<Longrightarrow> store_ok rt s \<Longrightarrow> advances rt s t"
  by (auto simp: recordOperatorAuthorization_def bindE_eq_Inr intro: appendEvent_advances)

lemma reviewed_state:
  "store_ok rt s \<Longrightarrow> p \<in> set (s_proposals s) \<Longrightarrow> p_state p \<in> {Approved, PendingWorker} \<Longrightarrow>
     reviewed (s_approvals s) p"
  by (auto simp: store_ok_def review_ok_def reviewOk_def)

lemma stateAllowedI:
  assumes "store_ok rt s" and "p \<in> set (s_proposals s)" and "p_id p = pid" and "st \<noteq> PendingReview"
    and "st \<in> {PendingWorker, Applied, Failed, ReconciliationRequired} \<Longrightarrow> writable p"
    and "st \<in> {Approved, PendingWorker} \<Longrightarrow> reviewed (s_approvals s) p"
  shows "stateAllowed s pid st"
proof -
  have "q = p" if "q \<in> set (s_proposals s)" "p_id q = pid" for q
    using unique_proposal [OF assms(1) that(1) assms(2)] that(2) assms(3) by simp
  with assms(4-6) show ?thesis by (simp add: stateAllowed_def) blast
qed

lemma markPendingWorker_advances:
  assumes run: "markPendingWorker rt clock pid h v s = Inr (q, t)" and ok: "store_ok rt s"
  shows "advances rt s t"
proof -
  from run obtain p payload where p: "requireProposal pid s = Inr p" "writable p" "p_state p = Approved"
    and ev: "appendEvent rt clock pid (''proposal_'' @ proposalStateStr PendingWorker) ''runner'' payload None
        (updateProposalState rt clock pid PendingWorker s) = Inr t"
    by (auto simp: markPendingWorker_def setState_def bindE_eq_Inr writable_def)
  note pin = requireProposal_in [OF p(1)]
  have "stateAllowed s pid PendingWorker"
    using stateAllowedI [OF ok conjunct1 [OF pin] conjunct2 [OF pin]] p reviewed_state [OF ok conjunct1 [OF pin]]
    by simp
  from updateProposalState_advances [OF ok this] appendEvent_advances [OF ev]
  show ?thesis by (blast dest: advances_ok intro: advances_trans)
qed


text \<open>What a decision by policy comes to: an event that defers, or an approval within every limit.\<close>

lemma approveProposalByPolicy_effect:
  assumes run: "approveProposalByPolicy rt clock pid opts s = Inr (d, t)"
    and "now = optOr (po_now opts) clock" and "actor = policyActor opts"
  obtains (deferred) p kind payload where "requireProposal pid s = Inr p"
      "appendEvent rt clock pid kind actor payload None s = Inr t" "\<not> pd_approved d"
  | (approved) p payload xs u where "requireProposal pid s = Inr p" "writable p"
      "p_hash p = po_hash opts" "p_version p = po_version opts" "p_state p = PendingReview"
      "requiredApprovalCount p \<le> 1"
      "trippedOf (map (evaluateLimit rt actor p (utcDayWindow now) s) (po_limits opts)) = []"
      "assertApprovalFreshness rt p (po_freshness_proof_digest opts) now s = Inr ()"
      "appendEvent rt clock pid ''proposal_approved'' actor payload None
         (addDecision rt now (policyApproval now pid opts s) (Some Approved) s) = Inr u"
      "foldE (appendRow rt clock) xs u = Inr t" "pd_approved d"
proof -
  from run obtain p where p: "requireProposal pid s = Inr p" "writable p"
    "p_hash p = po_hash opts" "p_version p = po_version opts" "p_state p = PendingReview"
    by (auto simp: approveProposalByPolicy_def bindE_eq_Inr Let_def assertPendingReview_def writable_def)
  let ?trips = "trippedOf (map (evaluateLimit rt actor p (utcDayWindow now) s) (po_limits opts))"
  have dec: "addDecision rt now (policyApproval now pid opts s) (Some Approved) s
      = (let t = updateProposalState rt now pid Approved s
         in t\<lparr>s_approvals := s_approvals t @ [policyApproval now pid opts t]\<rparr>)"
    by (simp add: policyApproval_def addDecision_after Let_def)
  note unfolded = run [unfolded approveProposalByPolicy_def, folded assms(2,3)]
  consider "1 < requiredApprovalCount p" | "\<not> 1 < requiredApprovalCount p" "?trips \<noteq> []"
    | "\<not> 1 < requiredApprovalCount p" "?trips = []" by blast
  then show thesis
  proof cases
    case 1
    with unfolded p show thesis
      by (auto simp: bindE_eq_Inr Let_def policyDecision_def intro!: deferred [OF p(1)])
  next
    case 2
    with unfolded p show thesis
      by (auto simp: bindE_eq_Inr Let_def policyDecision_def intro!: deferred [OF p(1)])
  next
    case 3
    with unfolded p have "assertApprovalFreshness rt p (po_freshness_proof_digest opts) now s = Inr ()"
      "\<exists>payload xs u. appendEvent rt clock pid ''proposal_approved'' actor payload None
         (addDecision rt now (policyApproval now pid opts s) (Some Approved) s) = Inr u
         \<and> foldE (appendRow rt clock) xs u = Inr t" "pd_approved d"
      unfolding dec by (auto simp: bindE_eq_Inr Let_def policyDecision_def)
    then show thesis using 3 by (auto intro: approved [OF p])
  qed
qed

lemma pending_unapproved:
  assumes "store_ok rt s" and "p \<in> set (s_proposals s)" and "p_state p = PendingReview"
    and "requiredApprovalCount p \<le> 1"
  shows "\<forall>a \<in> set (approvedRows (s_approvals s)). ap_proposal_id a \<noteq> p_id p"
proof -
  have "approvalCount (p_id p) (s_approvals s) < requiredApprovalCount p"
    using assms(1-3) by (auto simp: store_ok_def review_ok_def reviewOk_def)
  with assms(4) have "approvalCount (p_id p) (s_approvals s) < 1" by linarith
  then have "approvalCount (p_id p) (s_approvals s) = 0" by (simp add: approvalCount_def)
  then show ?thesis by (auto simp: approvalCount_def length_uniqueList approvedRows_def)
qed

lemma approveProposalByPolicy_advances:
  assumes run: "approveProposalByPolicy rt clock pid opts s = Inr (d, t)" and ok: "store_ok rt s"
  shows "advances rt s t"
  using run
proof (rule approveProposalByPolicy_effect [OF _ refl refl])
  show "advances rt s t" if "appendEvent rt clock pid kind (policyActor opts) payload None s = Inr t" for kind payload
    using appendEvent_advances [OF that ok] .
next
  fix p payload xs u
  let ?now = "optOr (po_now opts) clock"
  let ?a = "policyApproval ?now pid opts s"
  assume p: "requireProposal pid s = Inr p" "writable p" "p_hash p = po_hash opts"
      "p_version p = po_version opts" "p_state p = PendingReview" "requiredApprovalCount p \<le> 1"
    and fresh: "assertApprovalFreshness rt p (po_freshness_proof_digest opts) ?now s = Inr ()"
    and ev: "appendEvent rt clock pid ''proposal_approved'' (policyActor opts) payload None
         (addDecision rt ?now ?a (Some Approved) s) = Inr u"
    and more: "foldE (appendRow rt clock) xs u = Inr t"
  note pin = requireProposal_in [OF p(1)]
  have a: "ap_proposal_id ?a = pid" "ap_status ?a = ApRowApproved"
    "ap_freshness_proof_digest ?a = po_freshness_proof_digest opts"
    by (simp_all add: policyApproval_def newApproval_def)
  note none = pending_unapproved [OF ok conjunct1 [OF pin] p(5,6)]
  have rows: "approvals_ok (cores s) (s_approvals s @ [?a])"
  proof (rule approvals_ok_append)
    show "approvals_ok (cores s) (s_approvals s)" using ok by (simp add: store_ok_def)
    show "approvalOk (cores s) ?a" using pin p by (auto simp: policyApproval_def intro: newApproval_ok)
    show "(ap_proposal_id ?a, ap_approver ?a)
        \<notin> (\<lambda>x. (ap_proposal_id x, ap_approver x)) ` set (approvedRows (s_approvals s))"
      using none pin a by auto
    show "(ap_proposal_id ?a, d) \<notin> set (proofUses (s_approvals s))"
      if "ap_freshness_proof_digest ?a = Some d" for d
      using assertApprovalFreshness_unused [OF fresh, of d] that pin a by simp
  qed
  have "reviewed (s_approvals s @ [?a]) p"
    using p(6) none pin a
    by (auto simp: reviewed_def approvalCount_append approvedRows_def) (auto simp: approvalCount_def)
  then have "advances rt s (addDecision rt ?now ?a (Some Approved) s)"
    by (intro addDecision_advances [OF ok rows conjunct1 [OF pin]]) (use pin a in auto)
  from this appendEvent_advances [OF ev advances_ok [OF this]] appendRows_advances [OF more]
  show "advances rt s t" by (blast dest: advances_ok intro: advances_trans)
qed

lemma setState_advances:
  assumes "setState rt clock pid st actor payload s = Inr t" and "store_ok rt s" and "stateAllowed s pid st"
  shows "advances rt s t"
  using assms(1) updateProposalState_advances [OF assms(2,3)] appendEvent_advances
  unfolding setState_def by (blast dest: advances_ok intro: advances_trans)

end
