(* ===== verification/WritebackLifecycle.thy ===== *)
theory WritebackLifecycle
  imports Lifecycle
begin

text \<open>The writeback operations keep the invariant of the store and let it evolve.\<close>

subsection \<open>Jobs\<close>

lemma upsertJob_tables [simp]:
  "cores (upsertJob now jid pid h j s) = cores s" "s_proposals (upsertJob now jid pid h j s) = s_proposals s"
  "s_intents (upsertJob now jid pid h j s) = s_intents s"
  by (simp_all add: upsertJob_def cores_def)

lemma mayWrite_requireI:
  "requireProposal pid s = Inr p \<Longrightarrow> cs_mode (p_change_set p) \<noteq> ShadowMode \<Longrightarrow>
     cs_mode (p_change_set p) \<noteq> ReadOnlyMode \<Longrightarrow> mayWrite (cores s) pid"
  by (simp add: mayWrite_require writable_def)

lemma jobEvent_advances:
  assumes "store_ok rt s" and "mayWrite (cores s) pid"
    and "appendEvent rt clock pid' kind actor payload None (upsertJob clock jid pid h j s) = Inr t"
  shows "advances rt s t"
  using upsertJob_advances [OF assms(1,2)] appendEvent_advances [OF assms(3)]
  by (blast dest: advances_ok intro: advances_trans)

lemma recordWritebackJob_advances:
  "recordWritebackJob rt clock input s = Inr (j, t) \<Longrightarrow> store_ok rt s \<Longrightarrow> advances rt s t"
  by (auto simp: recordWritebackJob_def bindE_eq_Inr mapE_eq_Inr writable_def
      intro: jobEvent_advances mayWrite_requireI)

lemma recordHandlerWritebackJob_advances:
  "recordHandlerWritebackJob rt clock x s = Inr t \<Longrightarrow> store_ok rt s \<Longrightarrow> advances rt s t"
  by (auto simp: recordHandlerWritebackJob_def bindE_eq_Inr writable_def
      intro: jobEvent_advances mayWrite_requireI)

lemma createWritebackJobFromProposal_advances:
  assumes run: "createWritebackJobFromProposal rt clock pid opts s = Inr (j, t)" and ok: "store_ok rt s"
  shows "advances rt s t"
proof -
  from run obtain p where p: "requireProposal pid s = Inr p" "writable p"
    "p_state p = Approved \<or> p_state p = PendingWorker"
    by (auto simp: createWritebackJobFromProposal_def bindE_eq_Inr writable_def)
  let ?start = "if p_state p = Approved
      then appendEvent rt clock pid ''proposal_pending_worker'' (optOr (jo_runner_id opts) ''local_runner'')
        [(''proposal_hash'', JStr (p_hash p)), (''proposal_version'', jint (p_version p))] None
        (updateProposalState rt clock pid PendingWorker s)
      else Inr s"
  from run [unfolded createWritebackJobFromProposal_def Let_def bindE_eq_Inr mapE_eq_Inr p(1) sum.inject]
  obtain u k payload actor where
    start: "?start = Inr u"
    and t: "appendEvent rt clock pid ''writeback_job_recorded'' actor payload None
          (upsertJob clock (jb_id k) (p_id p) (p_hash p) (Some k) u) = Inr t"
    by (elim exE conjE, unfold prod.inject, elim conjE, hypsubst) (rule that)
  note pin = requireProposal_in [OF p(1)]
  have "stateAllowed s pid PendingWorker"
    using stateAllowedI [OF ok conjunct1 [OF pin] conjunct2 [OF pin]] p reviewed_state [OF ok conjunct1 [OF pin]]
    by auto
  then have state: "advances rt s (updateProposalState rt clock pid PendingWorker s)"
    by (rule updateProposalState_advances [OF ok])
  have 1: "advances rt s u" and cores: "cores u = cores s"
    using start advances_refl [OF ok] advances_trans [OF state appendEvent_advances [OF _ advances_ok [OF state]]]
    by (auto split: if_splits dest: appendEvent_tables(10))
  have "mayWrite (cores u) (p_id p)"
    using mayWrite_require [OF p(1,2)] pin cores by simp
  from jobEvent_advances [OF advances_ok [OF 1] this t] 1 show ?thesis by (blast intro: advances_trans)
qed

subsection \<open>Intents\<close>

lemma unique_intent:
  "store_ok rt s \<Longrightarrow> i \<in> set (s_intents s) \<Longrightarrow> j \<in> set (s_intents s) \<Longrightarrow> in_id i = in_id j \<Longrightarrow> i = j"
  by (auto simp: store_ok_def intents_ok_def distinct_map dest: inj_onD)

lemma requireWritebackIntent_in:
  "requireWritebackIntent iid s = Inr i \<Longrightarrow> i \<in> set (s_intents s) \<and> in_id i = iid"
  by (auto simp: requireWritebackIntent_def getWritebackIntent_def dest: findRow_SomeD)

lemma intent_ok: "store_ok rt s \<Longrightarrow> i \<in> set (s_intents s) \<Longrightarrow> intentOk (cores s) i"
  by (simp add: store_ok_def intents_ok_def)

lemma moveIntent_advances:
  assumes ok: "store_ok rt s" and i: "requireWritebackIntent iid s = Inr i"
    and core: "\<And>x. intentCore (f x) = intentCore x"
    and good: "intentOk (cores s) i \<Longrightarrow> intentOk (cores s) (f i) \<and> in_status (f i) \<noteq> IntentRecorded"
    and live: "\<not> intentApplied i"
  shows "advances rt s (updateIntent iid f s)"
proof (rule updateIntent_advances [OF ok core])
  fix x assume "x \<in> set (s_intents s)" "in_id x = iid"
  then have "x = i" using requireWritebackIntent_in [OF i] unique_intent [OF ok] by metis
  then show "intentOk (cores s) (f x) \<and> \<not> intentApplied x \<and> in_status (f x) \<noteq> IntentRecorded"
    using good live intent_ok [OF ok] requireWritebackIntent_in [OF i] by blast
qed

lemma newIntent_ok: "mayWrite cs (jb_proposal_id j) \<Longrightarrow> intentOk cs (newIntent now runner j)"
  by (simp add: intentOk_def newIntent_def)

lemma claimWritebackIntent_advances:
  assumes run: "claimWritebackIntent rt clock input runner s = Inr (d, t)" and ok: "store_ok rt s"
  shows "advances rt s t"
proof -
  from run obtain j p where p: "requireProposal (jb_proposal_id j) s = Inr p" "writable p"
    and t: "t = s \<or> (intentUnique (newIntent clock runner j) (s_intents s)
      \<and> (\<exists>kind payload. appendEvent rt clock (jb_proposal_id j) kind runner payload None
            (s\<lparr>s_intents := s_intents s @ [newIntent clock runner j]\<rparr>) = Inr t))"
    by (fastforce simp: claimWritebackIntent_def bindE_eq_Inr mapE_eq_Inr Let_def writable_def
        split: option.splits)
  from t show ?thesis
  proof (elim disjE conjE exE)
    assume u: "intentUnique (newIntent clock runner j) (s_intents s)"
    have 1: "advances rt s (s\<lparr>s_intents := s_intents s @ [newIntent clock runner j]\<rparr>)"
      by (rule addIntent_advances [OF ok u newIntent_ok [OF mayWrite_require [OF p]]])
    show "advances rt s t" if "appendEvent rt clock (jb_proposal_id j) kind runner payload None
            (s\<lparr>s_intents := s_intents s @ [newIntent clock runner j]\<rparr>) = Inr t" for kind payload
      using advances_trans [OF 1 appendEvent_advances [OF that advances_ok [OF 1]]] .
  qed (simp add: advances_refl ok)
qed

lemma thenEvent_advances:
  assumes "advances rt s t"
  shows "advances rt s (snd (thenEvent t (appendEvent rt clock pid kind actor payload x t)))"
  using assms appendEvent_advances [of rt clock pid kind actor payload x t]
  by (auto simp: thenEvent_def split: sum.split dest: advances_ok intro: advances_trans)

lemma markWritebackIntentApplying_advances:
  "store_ok rt s \<Longrightarrow> advances rt s (snd (markWritebackIntentApplying rt clock iid runner s))"
  by (auto simp: markWritebackIntentApplying_def advances_refl Let_def split: sum.split
      intro!: thenEvent_advances moveIntent_advances)
    (auto simp: intentCore_def intentOk_def intentApplied_def)

lemma uncertain_not_applied: "uncertainIntent (in_status i) \<Longrightarrow> \<not> intentApplied i"
  by (auto simp: uncertainIntent_def intentApplied_def)

lemma completeWritebackIntent_advances:
  "store_ok rt s \<Longrightarrow> advances rt s (snd (completeWritebackIntent rt clock iid input s))"
  by (auto simp: completeWritebackIntent_def advances_refl Let_def bindE_eq_Inr uncertain_not_applied
      split: sum.split intro!: thenEvent_advances moveIntent_advances)
    (auto simp: intentCore_def intentOk_def)

lemma requireWritebackReconciliation_advances:
  "store_ok rt s \<Longrightarrow> advances rt s (snd (requireWritebackReconciliation rt clock iid reason s))"
  by (auto simp: requireWritebackReconciliation_def advances_refl Let_def split: sum.split
      intro!: thenEvent_advances moveIntent_advances)
    (auto simp: intentCore_def intentOk_def intentApplied_def)

subsection \<open>Receipts and reconciliation\<close>

lemma applyReceipt_tables [simp]:
  "cores (applyReceipt rt r p s) = cores s" "s_jobs (applyReceipt rt r p s) = s_jobs s"
  by (simp_all add: applyReceipt_def cores_def core_updateWhere)

lemma recordExecutionReceiptRows_advances:
  assumes run: "recordExecutionReceiptRows rt clock r p s = Inr t" and ok: "store_ok rt s"
    and p: "p \<in> set (s_proposals s)" "p_id p = rc_proposal_id r" "writable p"
  shows "advances rt s t"
proof -
  let ?a = "insertReceipt r s"
  let ?b = "applyReceipt rt r p ?a"
  let ?c = "replaceIdempotency r ?b"
  let ?d = "finishJob r ?c"
  have w: "mayWrite (cores s) (rc_proposal_id r)" using p by (auto simp: mayWrite_def cores_def)
  from run have job: "rc_writeback_job_id r \<in> jr_id ` set (s_jobs s)"
    and ev: "\<exists>pid kind actor payload. appendEvent rt clock pid kind actor payload None ?d = Inr t"
    by (auto simp: recordExecutionReceiptRows_def bindE_eq_Inr findRow_None_iff)
  have 1: "advances rt s ?a" by (rule insertReceipt_advances [OF ok w])
  have 2: "advances rt ?a ?b" by (rule applyReceipt_advances [OF advances_ok [OF 1]]) (use p in simp_all)
  have 3: "advances rt ?b ?c" by (rule replaceIdempotency_advances [OF advances_ok [OF 2]]) (use job in simp)
  have 4: "advances rt ?c ?d" by (rule finishJob_advances [OF advances_ok [OF 3]])
  from ev have 5: "advances rt ?d t" using appendEvent_advances advances_ok [OF 4] by blast
  from 1 2 3 4 5 show ?thesis by (blast intro: advances_trans)
qed

lemma recordExecutionReceipt_advances:
  "recordExecutionReceipt rt clock input s = Inr (q, t) \<Longrightarrow> store_ok rt s \<Longrightarrow> advances rt s t"
  by (auto simp: recordExecutionReceipt_def bindE_eq_Inr writable_def
      intro!: recordExecutionReceiptRows_advances)

lemma reconcileQueue_advances:
  assumes run: "reconcileQueue rt clock x i r s = Inr t" and ok: "store_ok rt s"
  shows "advances rt s t"
proof -
  let ?f = "\<lambda>w. w\<lparr>wq_status := (if rc_status r = TFailed then DeadLetter else Completed),
       wq_lease_owner := None, wq_lease_id := None, wq_lease_expires_at := None,
       wq_last_error_code := (if rc_status r = TFailed then Some ''RECONCILED_FAILED'' else None),
       wq_terminal_outcome := Some (if rc_status r = TFailed then ''dead_letter'' else terminalStatusStr (rc_status r)),
       wq_updated_at := rc_executed_at r\<rparr>"
  let ?u = "s\<lparr>s_queue := updateWhere (\<lambda>w. wq_proposal_id w = in_proposal_id i
       \<and> wq_status w = QReconciliationRequired) ?f (s_queue s)\<rparr>"
  have 1: "advances rt s ?u" by (rule updateItem_advances [OF ok]) (auto simp: itemShape_def)
  from run have "t = s \<or> (\<exists>kind payload. appendEvent rt clock (in_proposal_id i) kind (ri_actor x) payload None ?u = Inr t)"
    by (auto simp: reconcileQueue_def Let_def split: if_splits)
  then show ?thesis
    using 1 advances_refl [OF ok] appendEvent_advances advances_ok [OF 1] by (blast intro: advances_trans)
qed

text \<open>What a successful reconciliation has checked.\<close>

lemma reconcileWritebackIntent_effect:
  assumes "reconcileWritebackIntent rt clock x s = Inr (j, t)"
  obtains i p r w u v payload where "requireWritebackIntent (ri_intent_id x) s = Inr i"
    and "requireProposal (in_proposal_id i) s = Inr p" and "uncertainIntent (in_status i)"
    and "parseExecutionReceipt rt (ri_receipt x) = Inr r" and "receiptToWritebackResult rt r = Inr w"
    and "rc_receipt_authority r = RunnerLedger" and "rc_writeback_job_id r = in_writeback_job_id i"
    and "rc_proposal_id r = in_proposal_id i" and "rc_proposal_hash r = in_proposal_hash i"
    and "rc_operation r = in_operation i" and "rc_status r \<in> {TApplied, TConflict, TFailed}"
    and "assertOperatorDecision p DReconcile (ri_actor x) (ri_identity x) (ri_require_verified x) = Inr ()"
    and "appendEvent rt clock (in_proposal_id i) ''writeback_reconciled'' (ri_actor x) payload None
       (updateIntent (in_id i) (\<lambda>y. y\<lparr>in_status := IntentTerminal (rc_status r), in_result := Some w,
          in_reconciliation_reason := Some (take 500 (trimStr (ri_reason x))),
          in_updated_at := rc_executed_at r\<rparr>) s) = Inr u"
    and "recordExecutionReceiptRows rt clock r p u = Inr v" and "reconcileQueue rt clock x i r v = Inr t"
    and "requireWritebackIntent (in_id i) t = Inr j"
  using assms by (auto simp: reconcileWritebackIntent_def bindE_eq_Inr)


lemma receiptToWritebackResult_eq:
  "receiptToWritebackResult rt r = Inr w \<Longrightarrow>
     wr_job_id w = rc_writeback_job_id r \<and> wr_status w = rc_status r \<and> wr_affected_rows w = rc_rows_affected r"
  by (auto simp: receiptToWritebackResult_def parseWritebackResult_def receiptResult_def
      split: receipt_version.splits)

lemma reconcileWritebackIntent_advances:
  assumes run: "reconcileWritebackIntent rt clock x s = Inr (j, t)" and ok: "store_ok rt s"
  shows "advances rt s t"
  using run
proof (rule reconcileWritebackIntent_effect)
  fix i p w u v payload and r :: receipt
  let ?f = "\<lambda>y. y\<lparr>in_status := IntentTerminal (rc_status r), in_result := Some w,
          in_reconciliation_reason := Some (take 500 (trimStr (ri_reason x))),
          in_updated_at := rc_executed_at r\<rparr>"
  assume i: "requireWritebackIntent (ri_intent_id x) s = Inr i"
    and p: "requireProposal (in_proposal_id i) s = Inr p" and live: "uncertainIntent (in_status i)"
    and w: "receiptToWritebackResult rt r = Inr w"
    and r: "rc_writeback_job_id r = in_writeback_job_id i" "rc_proposal_id r = in_proposal_id i"
    and ev: "appendEvent rt clock (in_proposal_id i) ''writeback_reconciled'' (ri_actor x) payload None
       (updateIntent (in_id i) ?f s) = Inr u"
    and rows: "recordExecutionReceiptRows rt clock r p u = Inr v" and q: "reconcileQueue rt clock x i r v = Inr t"
  have iid: "requireWritebackIntent (in_id i) s = Inr i" using i requireWritebackIntent_in [OF i] by simp
  have iok: "intentOk (cores s) i" using requireWritebackIntent_in [OF i] intent_ok [OF ok] by blast
  have 1: "advances rt s (updateIntent (in_id i) ?f s)"
    by (rule moveIntent_advances [OF ok iid])
      (use receiptToWritebackResult_eq [OF w] r live in
        \<open>auto simp: intentCore_def intentOk_def uncertain_not_applied\<close>)
  have 2: "advances rt s u"
    by (rule advances_trans [OF 1 appendEvent_advances [OF ev advances_ok [OF 1]]])
  note pin = requireProposal_in [OF p]
  have "p \<in> set (s_proposals u)" using pin by (simp add: appendEvent_tables [OF ev] updateIntent_def)
  moreover have "writable p"
  proof -
    from iok obtain q where "q \<in> set (s_proposals s)" "p_id q = in_proposal_id i" "writable q"
      by (auto simp: intentOk_def mayWrite_def cores_def)
    with unique_proposal [OF ok, of q p] pin show ?thesis by simp
  qed
  ultimately have 3: "advances rt u v"
    by (intro recordExecutionReceiptRows_advances [OF rows advances_ok [OF 2]]) (use pin r in simp_all)
  from 2 3 reconcileQueue_advances [OF q advances_ok [OF 3]] show "advances rt s t"
    by (blast intro: advances_trans)
qed

end
