(* ===== verification/WorkerLifecycle.thy ===== *)
theory WorkerLifecycle
  imports Lifecycle
begin

text \<open>The operations of the worker queue keep the invariant of the store and let it evolve.\<close>

subsection \<open>Enqueueing\<close>

lemma newQueueItem_shape: "itemShape (newQueueItem pid mode digest (clampTo 1 100 n) now)"
  by (simp add: itemShape_def newQueueItem_def clampTo_def)

lemma newQueueItem_id [simp]: "wq_proposal_id (newQueueItem pid mode digest n now) = pid"
  by (simp add: newQueueItem_def)

lemma addItem_approved:
  assumes "store_ok rt s" and "p \<in> set (s_proposals s)" and "p_state p = Approved \<or> p_state p = PendingWorker"
    and "workerQueueItem (p_id p) s = None" and "wq_proposal_id w = p_id p" and "itemShape w"
  shows "advances rt s (s\<lparr>s_queue := s_queue s @ [w]\<rparr>)"
proof (rule addItem_advances [OF assms(1,2)])
  show "reviewed (s_approvals s) p" using reviewed_state [OF assms(1,2)] assms(3) by simp
  show "wq_proposal_id w \<notin> wq_proposal_id ` set (s_queue s)"
    using assms(4,5) by (simp add: workerQueueItem_def findRow_None_iff)
qed (use assms(5,6) in simp_all)

lemma enqueueWorkerProposal_advances:
  assumes run: "enqueueWorkerProposal rt clock opts s = Inr (w, t)" and ok: "store_ok rt s"
  shows "advances rt s t"
proof -
  define item where "item = newQueueItem (eo_proposal_id opts) (optOr (eo_execution_mode opts) Legacy)
     (eo_contract_digest opts) (clampTo 1 100 (optOr (eo_max_attempts opts) 5)) (optOr (eo_now opts) clock)"
  from run obtain p where p: "requireProposal (eo_proposal_id opts) s = Inr p"
      "p_state p = Approved \<or> p_state p = PendingWorker"
    by (auto simp: enqueueWorkerProposal_def bindE_eq_Inr)
  note pin = requireProposal_in [OF p(1)]
  from run p have "t = s \<or> (workerQueueItem (p_id p) s = None
      \<and> (\<exists>payload. appendEvent rt clock (p_id p) ''writeback_worker_queued'' ''runner'' payload None
            (s\<lparr>s_queue := s_queue s @ [item]\<rparr>) = Inr t))"
    using pin by (auto simp: enqueueWorkerProposal_def bindE_eq_Inr Let_def item_def split: option.splits)
  then show ?thesis
  proof (elim disjE conjE exE)
    assume none: "workerQueueItem (p_id p) s = None"
    have 1: "advances rt s (s\<lparr>s_queue := s_queue s @ [item]\<rparr>)"
      by (rule addItem_approved [OF ok conjunct1 [OF pin] p(2) none])
        (use pin in \<open>simp_all add: item_def newQueueItem_shape\<close>)
    show "advances rt s t" if "appendEvent rt clock (p_id p) ''writeback_worker_queued'' ''runner'' payload None
            (s\<lparr>s_queue := s_queue s @ [item]\<rparr>) = Inr t" for payload
      using advances_trans [OF 1 appendEvent_advances [OF that advances_ok [OF 1]]] .
  qed (simp add: advances_refl ok)
qed

lemma insertQueueItem_advances:
  assumes "store_ok rt s" and "p \<in> set (s_proposals s)" and "p_state p = Approved \<or> p_state p = PendingWorker"
    and "wq_proposal_id w = p_id p" and "itemShape w"
  shows "advances rt s (s\<lparr>s_queue := insertQueueItem w (s_queue s)\<rparr>)"
  using addItem_approved [OF assms(1-3) _ assms(4,5)] advances_refl [OF assms(1)] assms(4)
  by (simp add: insertQueueItem_def workerQueueItem_def)

lemma insertQueueItems_advances:
  assumes "store_ok rt s" and "\<forall>p \<in> set ps. p \<in> set (s_proposals s) \<and> (p_state p = Approved \<or> p_state p = PendingWorker)"
    and "\<And>p. wq_proposal_id (item p) = p_id p" and "\<And>p. itemShape (item p)"
  shows "advances rt s (s\<lparr>s_queue := fold (\<lambda>p. insertQueueItem (item p)) ps (s_queue s)\<rparr>)"
  using assms(1,2)
proof (induction ps arbitrary: s)
  case (Cons p ps)
  let ?u = "s\<lparr>s_queue := insertQueueItem (item p) (s_queue s)\<rparr>"
  have 1: "advances rt s ?u" using Cons.prems by (intro insertQueueItem_advances) (auto simp: assms(3,4))
  have "advances rt ?u (?u\<lparr>s_queue := fold (\<lambda>p. insertQueueItem (item p)) ps (s_queue ?u)\<rparr>)"
    by (rule Cons.IH [OF advances_ok [OF 1]]) (use Cons.prems in simp)
  from advances_trans [OF 1 this] show ?case by simp
qed (simp add: advances_refl)

lemma set_sliceTo: "x \<in> set (sliceTo m xs) \<Longrightarrow> x \<in> set xs"
  by (auto simp: sliceTo_def dest: in_set_takeD split: option.splits if_splits)

lemma enqueueApprovedForWorker_advances:
  assumes ok: "store_ok rt s"
  shows "advances rt s (snd (enqueueApprovedForWorker rt clock opts s))"
  unfolding enqueueApprovedForWorker_def Let_def snd_conv
  by (rule insertQueueItems_advances [OF ok])
    (auto simp: newQueueItem_shape listProposalsIn_def dest!: set_sliceTo)

subsection \<open>Moves of an item\<close>

lemma updateItem_keeps:
  assumes "store_ok rt s" and "\<And>w. wq_proposal_id (f w) = wq_proposal_id w"
    and "\<And>w. w \<in> set (s_queue s) \<Longrightarrow> wq_proposal_id w = pid \<Longrightarrow> itemShape w \<Longrightarrow> itemShape (f w)"
  shows "advances rt s (updateItem pid f s)"
  unfolding updateItem_def by (rule updateItem_advances) (use assms in auto)

lemma moveItem_advances:
  assumes "appendEvent rt clock pid' kind actor payload None (updateItem pid f s) = Inr t" and "store_ok rt s"
    and "\<And>w. wq_proposal_id (f w) = wq_proposal_id w" and "\<And>w. itemShape w \<Longrightarrow> itemShape (f w)"
  shows "advances rt s t"
  using updateItem_keeps [OF assms(2,3,4)] appendEvent_advances [OF assms(1)]
  by (blast dest: advances_ok intro: advances_trans)

lemma moveItemState_advances:
  assumes ev: "appendEvent rt clock pid' kind actor payload None
      (if c then updateProposalState rt now pid st (updateItem pid f s) else updateItem pid f s) = Inr t"
    and ok: "store_ok rt s"
    and f: "\<And>w. wq_proposal_id (f w) = wq_proposal_id w" "\<And>w. itemShape w \<Longrightarrow> itemShape (f w)"
    and st: "c \<Longrightarrow> stateAllowed s pid st"
  shows "advances rt s t"
proof -
  let ?u = "updateItem pid f s"
  have 1: "advances rt s ?u" by (rule updateItem_keeps [OF ok f(1) f(2)])
  have "stateAllowed ?u pid st" if c using st [OF that] by (simp add: stateAllowed_def updateItem_def)
  then have "advances rt ?u (if c then updateProposalState rt now pid st ?u else ?u)"
    using updateProposalState_advances [OF advances_ok [OF 1]] advances_refl [OF advances_ok [OF 1]] by simp
  from this appendEvent_advances [OF ev advances_ok [OF this]] 1 show ?thesis by (blast intro: advances_trans)
qed

lemma thenItem_eq_Inr: "thenItem pid r = Inr (w, t) \<longleftrightarrow> r = Inr t \<and> requireWorkerQueueItem pid t = Inr w"
  by (auto simp: thenItem_def bindE_eq_Inr)

lemma requireWorkerQueueItem_in:
  "requireWorkerQueueItem pid s = Inr w \<Longrightarrow> w \<in> set (s_queue s) \<and> wq_proposal_id w = pid"
  by (auto simp: requireWorkerQueueItem_def workerQueueItem_def dest: findRow_SomeD)

lemma reviewed_queued:
  "store_ok rt s \<Longrightarrow> p \<in> set (s_proposals s) \<Longrightarrow> w \<in> set (s_queue s) \<Longrightarrow> wq_proposal_id w = p_id p \<Longrightarrow>
     reviewed (s_approvals s) p"
  by (force simp: store_ok_def review_ok_def reviewOk_def)

lemma releaseItem_shape [simp]:
  "st \<noteq> Leased \<Longrightarrow> itemShape w \<Longrightarrow> itemShape (releaseItem st code outcome now w)"
  "wq_proposal_id (releaseItem st code outcome now w) = wq_proposal_id w"
  by (auto simp: itemShape_def releaseItem_def)

lemma failed_writable: "store_ok rt s \<Longrightarrow> p \<in> set (s_proposals s) \<Longrightarrow> p_state p = Failed \<Longrightarrow> writable p"
  by (auto simp: store_ok_def proposals_ok_def proposalOk_def)

subsection \<open>Claims\<close>

lemma nextClaim_in:
  assumes "nextClaim opts now s = Some q"
  shows "q \<in> set (s_queue s) \<and> claimable opts now s q"
proof -
  from assms obtain qs where "sortBy claimBefore (filter (claimable opts now s) (s_queue s)) = q # qs"
    by (auto simp: nextClaim_def split: list.splits)
  then have "set (sortBy claimBefore (filter (claimable opts now s) (s_queue s))) = set (q # qs)" by simp
  then show ?thesis unfolding set_sortBy by auto
qed

lemma leaseItem_shape: "itemShape w \<Longrightarrow> itemShape (leaseItem worker l e now w)"
  by (simp add: itemShape_def leaseItem_def)

lemma leaseItem_id [simp]: "wq_proposal_id (leaseItem worker l e now w) = wq_proposal_id w"
  by (simp add: leaseItem_def)

lemma grantLease_advances:
  assumes run: "grantLease rt clock opts now q p s = Inr t" and ok: "store_ok rt s"
    and q: "q \<in> set (s_queue s)" and p: "p \<in> set (s_proposals s)" "p_id p = wq_proposal_id q"
  shows "advances rt s t"
proof (rule moveItemState_advances [OF run [unfolded grantLease_def Let_def] ok])
  assume "p_state p = Failed"
  then show "stateAllowed s (wq_proposal_id q) PendingWorker"
    using stateAllowedI [OF ok p(1,2)] failed_writable [OF ok p(1)] reviewed_queued [OF ok p(1) q] p(2)
    by simp
qed (simp_all add: leaseItem_shape)

lemma blockQueuedWorkerItem_advances:
  "blockQueuedWorkerItem rt clock q actor code now payload s = Inr t \<Longrightarrow> store_ok rt s \<Longrightarrow> advances rt s t"
  unfolding blockQueuedWorkerItem_def by (erule moveItem_advances) simp_all

lemma claimWorkerItem_advances:
  assumes run: "claimWorkerItem rt clock opts s = Inr (w, t)" and ok: "store_ok rt s"
  shows "advances rt s t"
proof (cases "t = s")
  case False
  let ?now = "optOr (cl_now opts) clock"
  from run False obtain q p where q: "nextClaim opts ?now s = Some q"
    and p: "requireProposal (wq_proposal_id q) s = Inr p"
    and t: "(\<exists>code payload. blockQueuedWorkerItem rt clock q (cl_worker_id opts) code ?now payload s = Inr t)
       \<or> grantLease rt clock opts ?now q p s = Inr t"
    by (auto simp: claimWorkerItem_def bindE_eq_Inr mapE_eq_Inr Let_def split: if_splits option.splits)
  with nextClaim_in [OF q] requireProposal_in [OF p] show ?thesis
    by (auto intro: blockQueuedWorkerItem_advances [OF _ ok] grantLease_advances [OF _ ok])
qed (simp add: advances_refl ok)

subsection \<open>Under a lease and by an operator\<close>

lemma assertWorkerLease_in:
  "assertWorkerLease pid worker leaseId s = Inr w \<Longrightarrow> requireWorkerQueueItem pid s = Inr w
     \<and> wq_status w = Leased \<and> wq_lease_owner w = Some worker \<and> wq_lease_id w = leaseId"
  by (auto simp: assertWorkerLease_def bindE_eq_Inr presentStr_def split: option.splits if_splits)

lemma renewWorkerLease_advances:
  assumes run: "renewWorkerLease pid worker leaseId seconds now s = Inr (w, t)" and ok: "store_ok rt s"
  shows "advances rt s t"
proof -
  from run obtain v where v: "requireWorkerQueueItem pid s = Inr v" "wq_lease_owner v = Some worker"
    and t: "t = updateItem pid (\<lambda>w. w\<lparr>wq_lease_expires_at := Some (now + clampTo 15 3600 (optOr seconds 60) * 1000),
       wq_updated_at := now\<rparr>) s"
    by (auto simp: renewWorkerLease_def assertActiveWorkerLease_def bindE_eq_Inr thenItem_eq_Inr
        dest!: assertWorkerLease_in)
  have "x = v" if "x \<in> set (s_queue s)" "wq_proposal_id x = pid" for x
    using ok that requireWorkerQueueItem_in [OF v(1)]
    by (auto simp: store_ok_def queue_ok_def distinct_map dest: inj_onD)
  then show ?thesis
    unfolding t using v(2) by (intro updateItem_keeps [OF ok]) (auto simp: itemShape_def)
qed

lemma completeWorkerItem_advances:
  "completeWorkerItem rt clock pid worker outcome now leaseId s = Inr (w, t) \<Longrightarrow> store_ok rt s \<Longrightarrow> advances rt s t"
  by (auto simp: completeWorkerItem_def bindE_eq_Inr thenItem_eq_Inr elim!: moveItem_advances)

lemma retryWorkerItem_advances:
  "retryWorkerItem rt clock pid worker leaseId code retryAt now s = Inr (w, t) \<Longrightarrow> store_ok rt s \<Longrightarrow> advances rt s t"
  by (auto simp: retryWorkerItem_def bindE_eq_Inr thenItem_eq_Inr Let_def itemShape_def releaseItem_def
      elim!: moveItem_advances split: if_splits)

lemma deadLetterWorkerItem_advances:
  "deadLetterWorkerItem rt clock pid worker leaseId code now s = Inr (w, t) \<Longrightarrow> store_ok rt s \<Longrightarrow> advances rt s t"
  by (auto simp: deadLetterWorkerItem_def bindE_eq_Inr thenItem_eq_Inr elim!: moveItem_advances)

lemma blockWorkerItem_advances:
  "blockWorkerItem rt clock pid worker leaseId code now s = Inr (w, t) \<Longrightarrow> store_ok rt s \<Longrightarrow> advances rt s t"
  by (auto simp: blockWorkerItem_def bindE_eq_Inr thenItem_eq_Inr elim!: moveItem_advances)

lemma requireWorkerReconciliation_advances:
  "requireWorkerReconciliation rt clock pid worker leaseId code now s = Inr (w, t) \<Longrightarrow> store_ok rt s \<Longrightarrow> advances rt s t"
  by (auto simp: requireWorkerReconciliation_def bindE_eq_Inr thenItem_eq_Inr elim!: moveItem_advances)

lemma cancelWorkerItem_advances:
  assumes run: "cancelWorkerItem rt clock pid actor identity v now s = Inr (w, t)" and ok: "store_ok rt s"
  shows "advances rt s t"
proof -
  have cancel: "stateAllowed s pid Canceled" by (simp add: stateAllowed_def)
  from run show ?thesis
    unfolding cancelWorkerItem_def bindE_eq_Inr thenItem_eq_Inr Let_def
    by (elim exE conjE moveItemState_advances) (use ok cancel in \<open>auto simp: itemShape_def\<close>)
qed

lemma requeueItem_shape: "itemShape w \<Longrightarrow> itemShape (requeueItem (clampTo 1 100 n) now w)"
  by (simp add: itemShape_def requeueItem_def releaseItem_def clampTo_def)

lemma requeueDeadLetter_advances:
  assumes run: "requeueDeadLetter rt clock pid retryBudget i reason now s = Inr (w, t)" and ok: "store_ok rt s"
  shows "advances rt s t"
proof -
  from run obtain p v payload where p: "requireProposal pid s = Inr p"
    and v: "requireWorkerQueueItem pid s = Inr v"
    and ev: "appendEvent rt clock pid ''writeback_dead_letter_requeued'' (ip_subject i) payload None
        (if p_state p = Failed
         then updateProposalState rt now pid Approved (updateItem pid (requeueItem (clampTo 1 100 retryBudget) now) s)
         else updateItem pid (requeueItem (clampTo 1 100 retryBudget) now) s) = Inr t"
    by (auto simp: requeueDeadLetter_def bindE_eq_Inr thenItem_eq_Inr Let_def)
  note pin = requireProposal_in [OF p] and win = requireWorkerQueueItem_in [OF v]
  show ?thesis
  proof (rule moveItemState_advances [OF ev ok])
    show "stateAllowed s pid Approved"
      using stateAllowedI [OF ok conjunct1 [OF pin] conjunct2 [OF pin], of Approved]
        reviewed_queued [OF ok conjunct1 [OF pin] conjunct1 [OF win]] pin win by simp
  qed (simp_all add: requeueItem_shape, simp add: requeueItem_def)
qed

lemma discardDeadLetter_advances:
  "discardDeadLetter rt clock pid i reason now s = Inr (w, t) \<Longrightarrow> store_ok rt s \<Longrightarrow> advances rt s t"
  by (auto simp: discardDeadLetter_def bindE_eq_Inr thenItem_eq_Inr itemShape_def elim!: moveItem_advances)

end
