(* ===== verification/Histories.thy ===== *)
theory Histories
  imports WritebackLifecycle WorkerLifecycle
begin

text \<open>
  The store as a state machine: a step is one successful call of one operation, by any caller, with
  any arguments and at any time.  The interpretation of \<open>state_machine\<close> carries the invariant and the
  evolution of the store over every history of such steps.
\<close>

inductive store_step :: "runtime \<Rightarrow> store \<Rightarrow> store \<Rightarrow> bool" for rt :: runtime where
  create: "createProposal rt now input s = Inr (p, t) \<Longrightarrow> store_step rt s t"
| proof_recorded: "recordFreshnessProof rt now fin s = Inr (x, t) \<Longrightarrow> store_step rt s t"
| approval_blocked: "recordFreshnessApprovalBlocked rt now pid d c actor s = Inr t \<Longrightarrow> store_step rt s t"
| approve: "approveProposal rt now pid opts s = Inr (p, t) \<Longrightarrow> store_step rt s t"
| approve_by_policy: "approveProposalByPolicy rt now pid popts s = Inr (pd, t) \<Longrightarrow> store_step rt s t"
| reject: "rejectProposal rt now pid opts s = Inr (p, t) \<Longrightarrow> store_step rt s t"
| authorize: "recordOperatorAuthorization rt now pid i v s = Inr t \<Longrightarrow> store_step rt s t"
| pending_worker: "markPendingWorker rt now pid h n s = Inr (p, t) \<Longrightarrow> store_step rt s t"
| job: "recordWritebackJob rt now jin s = Inr (j, t) \<Longrightarrow> store_step rt s t"
| handler_job: "recordHandlerWritebackJob rt now hin s = Inr t \<Longrightarrow> store_step rt s t"
| create_job: "createWritebackJobFromProposal rt now pid jopts s = Inr (pj, t) \<Longrightarrow> store_step rt s t"
| claim_intent: "claimWritebackIntent rt now jin runner s = Inr (cd, t) \<Longrightarrow> store_step rt s t"
| applying: "markWritebackIntentApplying rt now iid runner s = (e, t) \<Longrightarrow> store_step rt s t"
| complete_intent: "completeWritebackIntent rt now iid w s = (e, t) \<Longrightarrow> store_step rt s t"
| uncertain: "requireWritebackReconciliation rt now iid reason s = (e, t) \<Longrightarrow> store_step rt s t"
| receipt: "recordExecutionReceipt rt now r s = Inr (p, t) \<Longrightarrow> store_step rt s t"
| reconcile: "reconcileWritebackIntent rt now rin s = Inr (n, t) \<Longrightarrow> store_step rt s t"
| enqueue: "enqueueWorkerProposal rt now eopts s = Inr (w', t) \<Longrightarrow> store_step rt s t"
| enqueue_approved: "enqueueApprovedForWorker rt now aopts s = (ws, t) \<Longrightarrow> store_step rt s t"
| claim: "claimWorkerItem rt now copts s = Inr (wo, t) \<Longrightarrow> store_step rt s t"
| renew: "renewWorkerLease pid wid l secs at' s = Inr (w', t) \<Longrightarrow> store_step rt s t"
| complete_item: "completeWorkerItem rt now pid wid oc at' lo s = Inr (w', t) \<Longrightarrow> store_step rt s t"
| retry: "retryWorkerItem rt now pid wid l code retryAt at' s = Inr (w', t) \<Longrightarrow> store_step rt s t"
| dead_letter: "deadLetterWorkerItem rt now pid wid l code at' s = Inr (w', t) \<Longrightarrow> store_step rt s t"
| block: "blockWorkerItem rt now pid wid l code at' s = Inr (w', t) \<Longrightarrow> store_step rt s t"
| item_uncertain: "requireWorkerReconciliation rt now pid wid l code at' s = Inr (w', t) \<Longrightarrow> store_step rt s t"
| cancel: "cancelWorkerItem rt now pid actor io v at' s = Inr (w', t) \<Longrightarrow> store_step rt s t"
| requeue: "requeueDeadLetter rt now pid budget i reason' at' s = Inr (w', t) \<Longrightarrow> store_step rt s t"
| discard: "discardDeadLetter rt now pid i why at' s = Inr (w', t) \<Longrightarrow> store_step rt s t"

lemmas operations_advance =
  createProposal_advances recordFreshnessProof_advances recordFreshnessApprovalBlocked_advances
  approveProposal_advances approveProposalByPolicy_advances rejectProposal_advances
  recordOperatorAuthorization_advances markPendingWorker_advances recordWritebackJob_advances
  recordHandlerWritebackJob_advances createWritebackJobFromProposal_advances
  claimWritebackIntent_advances recordExecutionReceipt_advances reconcileWritebackIntent_advances
  enqueueWorkerProposal_advances claimWorkerItem_advances renewWorkerLease_advances
  completeWorkerItem_advances retryWorkerItem_advances deadLetterWorkerItem_advances
  blockWorkerItem_advances requireWorkerReconciliation_advances cancelWorkerItem_advances
  requeueDeadLetter_advances discardDeadLetter_advances

lemma store_step_advances: "store_step rt s t \<Longrightarrow> store_ok rt s \<Longrightarrow> advances rt s t"
proof (induction rule: store_step.induct)
  case (applying now iid runner s e t)
  then show ?case by (metis markWritebackIntentApplying_advances snd_conv)
next
  case (complete_intent now iid w s e t)
  then show ?case by (metis completeWritebackIntent_advances snd_conv)
next
  case (uncertain now iid reason s e t)
  then show ?case by (metis requireWritebackReconciliation_advances snd_conv)
next
  case (enqueue_approved now aopts s ws t)
  then show ?case by (metis enqueueApprovedForWorker_advances snd_conv)
qed (erule (1) operations_advance)+

interpretation lifecycle: state_machine "store_step rt" "store_ok rt" store_evolves for rt
proof
  show "store_step rt s t \<Longrightarrow> store_ok rt s \<Longrightarrow> store_ok rt t" for s t
    by (blast dest: store_step_advances advances_ok)
  show "store_step rt s t \<Longrightarrow> store_ok rt s \<Longrightarrow> store_evolves s t" for s t
    by (auto dest!: store_step_advances simp: advances_def)
qed (simp, erule (1) store_evolves_trans)

text \<open>The stores a deployment can reach from an empty database.\<close>

definition reachable :: "runtime \<Rightarrow> store \<Rightarrow> bool" where
  "reachable rt s \<longleftrightarrow> (store_step rt)\<^sup>*\<^sup>* emptyStore s"

lemma reachable_ok: "reachable rt s \<Longrightarrow> store_ok rt s"
  unfolding reachable_def by (rule lifecycle.history_inv [OF _ emptyStore_ok])

lemma reachable_empty [intro]: "reachable rt emptyStore"
  by (simp add: reachable_def)

lemma reachable_step: "reachable rt s \<Longrightarrow> store_step rt s t \<Longrightarrow> reachable rt t"
  by (simp add: reachable_def rtranclp.rtrancl_into_rtrancl)

lemma reachable_evolves: "reachable rt s \<Longrightarrow> (store_step rt)\<^sup>*\<^sup>* s t \<Longrightarrow> store_evolves s t"
  by (blast intro: lifecycle.history_rel reachable_ok)

end
