(* ===== verification/Evaluation.thy ===== *)
theory Evaluation
  imports Histories
begin

text \<open>
  Code equations that let the kernel evaluate the model: the same functions, with conditionals in
  place of connectives (an untaken branch is not evaluated) and with the character classes read off
  the bits of a character.
\<close>

subsection \<open>Sequencing\<close>

text \<open>As a case expression, so that the continuation is evaluated once its argument is known.\<close>

lemma bindE_case [code_unfold]: "bindE m f = (case m of Inl e \<Rightarrow> Inl e | Inr x \<Rightarrow> f x)"
  by (cases m) simp_all

lemma mapE_case [code_unfold]: "mapE f m = (case m of Inl e \<Rightarrow> Inl e | Inr x \<Rightarrow> Inr (f x))"
  by (cases m) (simp_all add: mapE_def)

subsection \<open>Characters\<close>

lemma equal_char_lazy [code]:
  "HOL.equal (Char a0 a1 a2 a3 a4 a5 a6 a7) (Char b0 b1 b2 b3 b4 b5 b6 b7) =
     (if a0 = b0 then if a1 = b1 then if a2 = b2 then if a3 = b3 then if a4 = b4 then if a5 = b5
      then if a6 = b6 then a7 = b7 else False else False else False else False else False else False
      else False)"
  by (simp add: equal)

lemma equal_list_lazy [code]:
  "HOL.equal (x # xs) (y # ys) = (if x = y then HOL.equal xs ys else False)"
  "HOL.equal [] (y # ys) = False" "HOL.equal (x # xs) [] = False"
  "HOL.equal [] ([] :: 'a :: equal list) = True"
  by (simp_all add: equal)

definition letterBits :: "bool \<Rightarrow> bool \<Rightarrow> bool \<Rightarrow> bool \<Rightarrow> bool \<Rightarrow> bool" where
  "letterBits b0 b1 b2 b3 b4 = (if b4 then if b3 then if b2 then False else if b1 then \<not> b0 else True
     else True else if b3 then True else if b2 then True else if b1 then True else b0)"

lemma isUpper_bits [code]: "isUpper (Char b0 b1 b2 b3 b4 b5 b6 b7) =
    (if b7 then False else if b6 then if b5 then False else letterBits b0 b1 b2 b3 b4 else False)"
  by (cases b0; cases b1; cases b2; cases b3; cases b4; cases b5; cases b6; cases b7)
    (simp_all add: isUpper_def codeIn_def letterBits_def)

lemma isLower_bits [code]: "isLower (Char b0 b1 b2 b3 b4 b5 b6 b7) =
    (if b7 then False else if b6 then if b5 then letterBits b0 b1 b2 b3 b4 else False else False)"
  by (cases b0; cases b1; cases b2; cases b3; cases b4; cases b5; cases b6; cases b7)
    (simp_all add: isLower_def codeIn_def letterBits_def)

lemma isDigit_bits [code]: "isDigit (Char b0 b1 b2 b3 b4 b5 b6 b7) =
    (if b7 then False else if b6 then False else if b5 then if b4 then
       if b3 then if b2 then False else \<not> b1 else True else False else False)"
  by (cases b0; cases b1; cases b2; cases b3; cases b4; cases b5; cases b6; cases b7)
    (simp_all add: isDigit_def codeIn_def)

lemma isSpace_bits [code]: "isSpace (Char b0 b1 b2 b3 b4 b5 b6 b7) =
    (if b4 then False else if b6 then False
     else if b5 then if b0 then False else if b1 then False else if b2 then False else \<not> b3
     else if b7 then False else if b3 then if b2 then \<not> b1 else if b1 then True else b0 else False)"
  by (cases b0; cases b1; cases b2; cases b3; cases b4; cases b5; cases b6; cases b7)
    (simp_all add: isSpace_def)

lemma isControl_bits [code]: "isControl (Char b0 b1 b2 b3 b4 b5 b6 b7) =
    (if b7 then False else if b6 then if b5 then if b4 then if b3 then if b2 then if b1 then b0
       else False else False else False else False else False else \<not> b5)"
  by (cases b0; cases b1; cases b2; cases b3; cases b4; cases b5; cases b6; cases b7)
    (simp_all add: isControl_def codeIn_def)

lemma lowerChar_bits [code]: "lowerChar (Char b0 b1 b2 b3 b4 b5 b6 b7) =
    (if isUpper (Char b0 b1 b2 b3 b4 b5 b6 b7) then Char b0 b1 b2 b3 b4 True b6 b7
     else Char b0 b1 b2 b3 b4 b5 b6 b7)"
  by (cases b0; cases b1; cases b2; cases b3; cases b4; cases b5; cases b6; cases b7)
    (simp_all add: lowerChar_def isUpper_def codeIn_def char_of_def bit_0)

lemma isAlphaUnderscore_lazy [code]:
  "isAlphaUnderscore c = (if isLower c then True else if isUpper c then True else c = CHR ''_'')"
  by (simp add: isAlphaUnderscore_def)

lemma isWordChar_lazy [code]: "isWordChar c = (if isAlphaUnderscore c then True else isDigit c)"
  by (simp add: isWordChar_def)

lemma strLess_lazy [code]:
  "strLess a b = (case b of [] \<Rightarrow> False | y # ys \<Rightarrow> (case a of [] \<Rightarrow> True | x # xs \<Rightarrow>
     if x = y then strLess xs ys else (of_char x :: nat) < of_char y))"
  by (cases a; cases b) (auto simp: Let_def of_char_nat_eq_iff)

definition escapeSpecial :: "char \<Rightarrow> string" where
  "escapeSpecial = escapeChar"

declare escapeSpecial_def [code del]

lemma escapeSpecial_code [code]: "escapeSpecial c = (let n = (of_char c :: nat) in
     if n = 34 then [char_of (92 :: nat), c] else if n = 92 then [c, c]
     else if n = 8 then [char_of (92 :: nat), CHR ''b'']
     else if n = 12 then [char_of (92 :: nat), CHR ''f'']
     else if n = 10 then [char_of (92 :: nat), CHR ''n'']
     else if n = 13 then [char_of (92 :: nat), CHR ''r'']
     else if n = 9 then [char_of (92 :: nat), CHR ''t'']
     else if n < 32 then char_of (92 :: nat) # ''u00'' @ [hexChar (n div 16), hexChar (n mod 16)]
     else [c])"
  by (simp add: escapeSpecial_def escapeChar_def)

lemma escapeChar_lazy [code]: "escapeChar c =
    (if isWordChar c then [c] else if c = CHR '':'' then [c] else if c = CHR ''.'' then [c]
     else if c = CHR '' '' then [c] else escapeSpecial c)"
  by (auto simp: escapeSpecial_def escapeChar_def isWordChar_def isAlphaUnderscore_def isUpper_def
      isLower_def isDigit_def codeIn_def Let_def)

subsection \<open>Strings and patterns\<close>

fun charIn :: "char \<Rightarrow> string \<Rightarrow> bool" where
  "charIn c [] = False"
| "charIn c (d # ds) = (if c = d then True else charIn c ds)"

lemma startsWith_lazy [code]:
  "startsWith s p = (case p of [] \<Rightarrow> True | d # ds \<Rightarrow> (case s of [] \<Rightarrow> False
     | c # cs \<Rightarrow> if c = d then startsWith cs ds else False))"
  by (cases s; cases p) auto

lemma includesStr_lazy [code]:
  "includesStr s p = (if startsWith s p then True else case s of [] \<Rightarrow> False | _ # cs \<Rightarrow> includesStr cs p)"
  by (cases s) auto

lemma secretWords_list [code]: "secretWords = [''password'', ''passwd'', ''secret'', ''token'',
    ''apikey'', ''api_key'', ''api-key'', ''accesskey'', ''access_key'', ''access-key'',
    ''privatekey'', ''private_key'', ''private-key'', ''cookie'', ''credential'',
    ''connectionstring'', ''connection_string'', ''connection-string'', ''databaseurl'',
    ''database_url'', ''database-url'', ''readurl'', ''read_url'', ''read-url'', ''writeurl'',
    ''write_url'', ''write-url'']"
  by (simp add: secretWords_def joined_def)

fun anyWordAt :: "string \<Rightarrow> string list \<Rightarrow> bool" where
  "anyWordAt s [] = False"
| "anyWordAt s (w # ws) = (if startsWith s w
     then (if case drop (length w) s of [] \<Rightarrow> True | c # _ \<Rightarrow> isSeparator c then True else anyWordAt s ws)
     else anyWordAt s ws)"

lemma wordAt_lazy [code]: "wordAt s = (case s of [] \<Rightarrow> False | c # _ \<Rightarrow>
    if charIn c ''pstacdrw'' then anyWordAt s secretWords else False)"
proof -
  have "list_ex (\<lambda>w. startsWith s w \<and> (case drop (length w) s of [] \<Rightarrow> True | c # _ \<Rightarrow> isSeparator c)) ws
      = anyWordAt s ws" for ws
    by (induction ws) auto
  then have "wordAt s = anyWordAt s secretWords" by (simp add: wordAt_def)
  then show ?thesis by (cases s) (auto simp: secretWords_list)
qed

lemma wordAfterSeparator_lazy [code]:
  "wordAfterSeparator s = (case s of [] \<Rightarrow> False | c # cs \<Rightarrow>
     if isSeparator c then if wordAt cs then True else wordAfterSeparator cs else wordAfterSeparator cs)"
  by (cases s) auto

lemma secretKeyPattern_lazy [code]:
  "secretKeyPattern k = (let s = lowerCase k in if wordAt s then True else wordAfterSeparator s)"
  by (simp add: secretKeyPattern_def Let_def)

definition secretValueHere :: "string \<Rightarrow> bool" where
  "secretValueHere = secretValueAt"

declare secretValueHere_def [code del]

lemma secretValueHere_code [code]: "secretValueHere s =
    (if startsWith s ''postgres://'' then True else if startsWith s ''postgresql://'' then True
     else if startsWith s ''mysql://'' then True
     else if startsWith s ''bearer'' then (case drop 6 s of [] \<Rightarrow> False
        | c # cs \<Rightarrow> if isSpace c then tokenFollows (dropWhile isSpace cs) else False)
     else if startsWith s ''syn_wbr_'' then tokenFollows (drop 8 s)
     else if startsWith s ''-----begin '' then privateKeyTail (drop 11 s) else False)"
proof -
  have hd: "startsWith s (c # ds) \<Longrightarrow> \<exists>r. s = c # r" for c ds by (cases s) auto
  have "startsWith s ''bearer'' \<Longrightarrow> \<not> startsWith s ''syn_wbr_''"
    "startsWith s ''bearer'' \<Longrightarrow> \<not> startsWith s ''-----begin ''"
    "startsWith s ''syn_wbr_'' \<Longrightarrow> \<not> startsWith s ''-----begin ''"
    by (auto dest!: hd)
  then show ?thesis
    unfolding secretValueHere_def secretValueAt_def
    by (cases "startsWith s ''bearer''"; cases "startsWith s ''syn_wbr_''"; cases "startsWith s ''-----begin ''")
      (simp_all split: list.split, blast)
qed

lemma secretValueAt_first: "secretValueAt (c # cs) \<Longrightarrow> charIn c ''pmbs-''"
  unfolding secretValueAt_def by (elim disjE conjE) (simp_all only: startsWith.simps charIn.simps simp_thms if_True if_cancel)

lemma secretValueSearch_lazy [code]:
  "secretValueSearch s = (case s of [] \<Rightarrow> False
     | c # cs \<Rightarrow> if charIn c ''pmbs-'' then if secretValueHere (c # cs) then True else secretValueSearch cs
         else secretValueSearch cs)"
  using secretValueAt_first by (cases s) (auto simp only: secretValueHere_def secretValueSearch.simps list.case if_split)

subsection \<open>Digests\<close>

text \<open>The text that is hashed is evaluated by the hash function, if at all.\<close>

definition canonicalOf :: "json \<Rightarrow> json" where
  "canonicalOf j = (case canonicalJsonValue j of Inl _ \<Rightarrow> JNull | Inr c \<Rightarrow> c)"

definition digestString :: "(string \<Rightarrow> string) \<Rightarrow> json \<Rightarrow> string" where
  "digestString h j = ''sha256:'' @ h (jsonStringify (canonicalOf j))"

lemma canonicalJsonDigest_lazy [code]: "canonicalJsonDigest rt j =
    (if jsonPlain j then Inr (digestString (sha256Hex rt) j) else mapE (digestString (sha256Hex rt)) (canonicalJsonValue j))"
proof (cases "canonicalJsonValue j")
  case (Inl e)
  then show ?thesis
    using canonical_total [of j]
    by (auto simp: canonicalJsonDigest_def canonicalJsonStringify_def mapE_def)
next
  case (Inr c)
  then show ?thesis
    using canonical_total [of j]
    by (auto simp: canonicalJsonDigest_def canonicalJsonStringify_def mapE_def digestString_def canonicalOf_def)
qed

end
