(* ===== verification/Samples.thy ===== *)
theory Samples
  imports Evaluation
begin

text \<open>
  One complete history, evaluated: a reviewed single-row update is proposed, approved by a reviewer,
  turned into a job, claimed, applied, recorded and completed.  The witnesses of the properties use
  its stores.  The environment of the samples has a constant digest function (the second attention
  event of a proposal is then taken for a replay of the first), one text for all times and no calendar.
\<close>

subsection \<open>Inputs\<close>

definition sampleRuntime :: runtime where
  "sampleRuntime = \<lparr>sha256Hex = (\<lambda>_. ''00''), localeLe = strLe, dateParse = (\<lambda>_. None),
     isoString = (\<lambda>_. ''t''), decimalText = (\<lambda>_. ''0.5'')\<rparr>"

definition sampleChange :: change_set where
  "sampleChange = \<lparr>cs_proposal_id = ''p'', cs_proposal_version = 1, cs_action = ''b.w'', cs_contract = None,
     cs_mode = ReviewRequired, cs_principal_id = ''u'', cs_principal_source = TrustedSession,
     cs_tenant_id = ''t'', cs_business_object = ''i'', cs_object_id = ''o'',
     cs_source_kind = ExternalPostgres, cs_source_id = ''s'', cs_schema = ''x'', cs_table = ''y'',
     cs_pk_column = ''k'', cs_pk_value = Some (JNum (IntN 1)), cs_before = [(''f'', JNum (IntN 55))],
     cs_patch = [(''f'', JNum (IntN 0))], cs_after = [(''f'', JNum (IntN 0))],
     cs_tenant = \<lparr>cv_column = ''n'', cv_value = JStr ''t''\<rparr>, cs_principal_scope = None,
     cs_allowed_columns = [''f''],
     cs_expected_version = Some \<lparr>cv_column = ''v'', cv_value = JNum (IntN 3)\<rparr>,
     cs_version_advance = None, cs_deduplication = None, cs_freshness = None, cs_bundle_id = ''e'',
     cs_query_fingerprint = ''sha256:q'', cs_evidence_items = [],
     cs_approval_status = ApprovalPending, cs_approval_mode = Some ''human'',
     cs_required_role = None, cs_required_approvals = None, cs_wb_status = NotApplied,
     cs_wb_mode = TrustedWorkerRequired, cs_wb_executor = None,
     cs_source_database_mutated = False, cs_proposal_hash = ''sha256:h'', cs_created_at = ''t'',
     cs_body = BodyV1\<rparr>"

definition sampleApproval :: approve_options where
  "sampleApproval = \<lparr>ao_approver = ''r'', ao_hash = ''sha256:h'', ao_version = 1, ao_reason = None,
     ao_identity = None, ao_require_verified = False, ao_freshness_proof_digest = None\<rparr>"

definition sampleJobOptions :: job_options where
  "sampleJobOptions = \<lparr>jo_lease_seconds = None, jo_attempt = None, jo_lease_id = None,
     jo_project_id = None, jo_runner_id = Some ''r''\<rparr>"

definition samplePublicJob :: public_job where
  "samplePublicJob = \<lparr>pj_writeback_job_id = ''wbj_p'', pj_proposal_id = ''p'', pj_proposal_version = 1,
     pj_proposal_hash = ''sha256:h'', pj_project_id = ''local'', pj_source_id = ''s'',
     pj_engine = Postgres, pj_schema = ''x'', pj_table = ''y'', pj_pk_column = ''k'',
     pj_pk_value = Some (JNum (IntN 1)), pj_tenant_guard = cs_tenant sampleChange,
     pj_principal_scope = None, pj_allowed_columns = [''f''], pj_freshness = None,
     pj_idempotency_key = ''p:o'', pj_lease_id = ''lease_p_a1'', pj_attempt = 1,
     pj_expires_at = ''t'',
     pj_body = JobV1 [(''f'', JNum (IntN 0))] (GuardColumn \<lparr>cv_column = ''v'', cv_value = JNum (IntN 3)\<rparr>)\<rparr>"

definition sampleJob :: job where
  "sampleJob = normalizePublicJob samplePublicJob"

definition sampleReceipt :: receipt where
  "sampleReceipt = \<lparr>rc_version = ReceiptV2, rc_writeback_job_id = ''wbj_p'', rc_proposal_id = ''p'',
     rc_proposal_hash = ''sha256:h'', rc_approval_id = ''a'', rc_runner_id = ''r'',
     rc_operation = RowOp SingleRowUpdate, rc_receipt_authority = RunnerLedger, rc_status = TApplied,
     rc_source_id = ''s'', rc_schema = ''x'', rc_table = ''y'',
     rc_identities = [\<lparr>cv_column = ''k'', cv_value = JNum (IntN 1)\<rparr>], rc_set_digest = [],
     rc_rows_affected = 1, rc_idempotency_key = ''p:o'', rc_before_digest = None,
     rc_after_digest = None, rc_tombstone_digest = None, rc_forward_receipt_hash = [],
     rc_member_effects = [], rc_new_version = None, rc_source_database_mutated = True,
     rc_safe_outcome_code = ''APPLIED'', rc_safe_error_code = None, rc_executed_at = 6000,
     rc_receipt_hash = ''sha256:r'', rc_reconciliation = None, rc_inverse = None\<rparr>"

definition sampleResult :: wb_result where
  "sampleResult = receiptResult ResultV2 sampleReceipt"

subsection \<open>Stores\<close>

definition sampleEvent :: "nat \<Rightarrow> string \<Rightarrow> string \<Rightarrow> srow \<Rightarrow> time \<Rightarrow> event" where
  "sampleEvent n kind actor payload now = \<lparr>ev_id = n, ev_proposal_id = ''p'', ev_kind = kind,
     ev_actor = actor, ev_payload = payload, ev_proof = None, ev_created_at = now\<rparr>"

definition sampleEvents :: "event list" where
  "sampleEvents =
    [sampleEvent 1 ''proposal_created'' ''u'' (createdPayload sampleChange) 1000,
     sampleEvent 2 ''proposal_approved'' ''r'' (approvedPayload sampleApproval
       \<lparr>pg_approved = 1, pg_required = 1, pg_remaining = 0, pg_rejected = False, pg_complete = True\<rparr>) 2000,
     sampleEvent 3 ''proposal_pending_worker'' ''r''
       [(''proposal_hash'', JStr ''sha256:h''), (''proposal_version'', jint 1)] 3000,
     sampleEvent 4 ''writeback_job_recorded'' ''r'' (jobRecordedPayload sampleJob ''sha256:h'') 3000,
     sampleEvent 5 ''writeback_intent_recorded'' ''r'' (intentPayload (newIntent 4000 ''r'' sampleJob)) 4000,
     sampleEvent 6 ''writeback_intent_applying'' ''r'' (intentPayload (newIntent 4000 ''r'' sampleJob)) 5000,
     sampleEvent 7 ''writeback_applied'' ''r'' (receiptPayload sampleReceipt) 6000,
     sampleEvent 8 ''writeback_intent_applied'' ''r'' (intentPayload (newIntent 4000 ''r'' sampleJob)
       @ [(''result_hash'', JStr ''sha256:r'')]) 7000]"

definition sampleProposal :: "proposal_state \<Rightarrow> bool \<Rightarrow> string \<Rightarrow> proposal" where
  "sampleProposal st mutated updated = (proposalOf sampleChange)
     \<lparr>p_state := st, p_source_database_mutated := mutated, p_updated_at := updated\<rparr>"

definition sampleAttention :: attention_state where
  "sampleAttention = \<lparr>at_events = [\<lparr>ae_event_id = ''aev_00'', ae_event_type = ''proposal.created'',
       ae_severity = Informational, ae_occurred_at = 1000, ae_environment = ''unknown'',
       ae_proposal_id = Some ''p'', ae_job_id = None, ae_operation_id = None,
       ae_correlation_id = None, ae_capability = Some ''b.w'', ae_contract_digest = None,
       ae_attention_key = None, ae_attention_required = False, ae_immediate_default = False,
       ae_summary = ''Proposal created'', ae_approval_source = None, ae_worker_state = None,
       ae_failure_class = None, ae_expires_at = None, ae_workbench_path = None,
       ae_details = [(''source_database_changed'', JBool False)],
       ae_payload_hash = ''sha256:00''\<rparr>], at_items = [], at_deliveries = []\<rparr>"

definition sampleIntent :: intent where
  "sampleIntent = newIntent 4000 ''r'' sampleJob"

definition createdStore :: store where
  "createdStore = emptyStore\<lparr>s_proposals := [sampleProposal PendingReview False ''t''],
     s_events := take 1 sampleEvents, s_attention := sampleAttention\<rparr>"

definition approvedStore :: store where
  "approvedStore = createdStore\<lparr>s_proposals := [sampleProposal Approved False ''t''],
     s_events := take 2 sampleEvents,
     s_approvals := [newApproval 2000 ''p'' sampleApproval ApRowApproved emptyStore]\<rparr>"

definition jobStore :: store where
  "jobStore = approvedStore\<lparr>s_proposals := [sampleProposal PendingWorker False ''t''],
     s_events := take 4 sampleEvents,
     s_jobs := [\<lparr>jr_id = ''wbj_p'', jr_proposal_id = ''p'', jr_proposal_hash = ''sha256:h'',
       jr_status = JobPendingWorker, jr_job = Some sampleJob, jr_created_at = 3000,
       jr_updated_at = 3000\<rparr>]\<rparr>"

definition claimedStore :: store where
  "claimedStore = jobStore\<lparr>s_events := take 5 sampleEvents, s_intents := [sampleIntent]\<rparr>"

definition applyingIntent :: intent where
  "applyingIntent = sampleIntent\<lparr>in_status := IntentApplying, in_updated_at := 5000\<rparr>"

definition applyingStore :: store where
  "applyingStore = claimedStore\<lparr>s_events := take 6 sampleEvents, s_intents := [applyingIntent]\<rparr>"

definition receiptStore :: store where
  "receiptStore = applyingStore\<lparr>s_proposals := [sampleProposal Applied True ''t''],
     s_events := take 7 sampleEvents, s_receipts := [receiptRow sampleReceipt emptyStore],
     s_jobs := [\<lparr>jr_id = ''wbj_p'', jr_proposal_id = ''p'', jr_proposal_hash = ''sha256:h'',
       jr_status = JobTerminal TApplied, jr_job = Some sampleJob, jr_created_at = 3000,
       jr_updated_at = 6000\<rparr>],
     s_idempotency := [\<lparr>ir_idempotency_key = ''p:o'', ir_writeback_job_id = ''wbj_p'',
       ir_proposal_id = ''p'', ir_receipt_status = TApplied\<rparr>]\<rparr>"

definition appliedIntent :: intent where
  "appliedIntent = sampleIntent\<lparr>in_status := IntentTerminal TApplied, in_result := Some sampleResult,
     in_updated_at := 7000\<rparr>"

definition appliedStore :: store where
  "appliedStore = receiptStore\<lparr>s_events := take 8 sampleEvents, s_intents := [appliedIntent]\<rparr>"

text \<open>A second branch: the approved proposal is queued and leased by a worker.\<close>

definition sampleEnqueue :: enqueue_options where
  "sampleEnqueue = \<lparr>eo_proposal_id = ''p'', eo_execution_mode = None, eo_contract_digest = None,
     eo_max_attempts = Some 2, eo_queue_limit = None, eo_now = Some 4000\<rparr>"

definition sampleClaim :: claim_options where
  "sampleClaim = \<lparr>cl_worker_id = ''w'', cl_lease_seconds = Some 60, cl_execution_mode = None,
     cl_capability = None, cl_tenant = None, cl_contract_digest = None, cl_max_concurrent = Some 1,
     cl_rate_limit = None, cl_proposal_ttl = None, cl_policy = None, cl_now = Some 5000\<rparr>"

definition queuedItem :: worker_item where
  "queuedItem = newQueueItem ''p'' Legacy None 2 4000"

definition queuedStore :: store where
  "queuedStore = approvedStore\<lparr>s_queue := [queuedItem],
     s_events := take 2 sampleEvents @
       [sampleEvent 3 ''writeback_worker_queued'' ''runner'' (queuedPayload queuedItem) 4000]\<rparr>"

definition leasedItem :: worker_item where
  "leasedItem = leaseItem ''w'' ''wlease_00'' 65000 5000 queuedItem"

definition leasedStore :: store where
  "leasedStore = queuedStore\<lparr>s_queue := [leasedItem],
     s_events := s_events queuedStore @ [sampleEvent 4 ''writeback_worker_claimed'' ''w''
       (claimedPayload sampleRuntime queuedItem ''wlease_00'' 65000) 5000]\<rparr>"

subsection \<open>The steps between them\<close>

lemma sample_parsed: "parseChangeSet sampleRuntime sampleChange = Inr sampleChange"
  by code_simp

lemma created: "createProposal sampleRuntime 1000 sampleChange emptyStore
    = Inr (sampleProposal PendingReview False ''t'', createdStore)"
  by code_simp

lemma approved: "approveProposal sampleRuntime 2000 ''p'' sampleApproval createdStore
    = Inr (sampleProposal Approved False ''t'', approvedStore)"
  by code_simp

lemma job_created: "createWritebackJobFromProposal sampleRuntime 3000 ''p'' sampleJobOptions approvedStore
    = Inr (samplePublicJob, jobStore)"
  by code_simp

lemma claimed: "claimWritebackIntent sampleRuntime 4000 (PublicJob samplePublicJob) ''r'' jobStore
    = Inr (Proceed, claimedStore)"
  by code_simp

lemma applying: "markWritebackIntentApplying sampleRuntime 5000 ''wbi:wbj_p'' ''r'' claimedStore
    = (None, applyingStore)"
  by code_simp

lemma receipt_recorded: "recordExecutionReceipt sampleRuntime 6000 sampleReceipt applyingStore
    = Inr (sampleProposal Applied True ''t'', receiptStore)"
  by code_simp

lemma intent_completed: "completeWritebackIntent sampleRuntime 7000 ''wbi:wbj_p'' sampleResult receiptStore
    = (None, appliedStore)"
  by code_simp

lemma item_queued: "enqueueWorkerProposal sampleRuntime 4000 sampleEnqueue approvedStore
    = Inr (queuedItem, queuedStore)"
  by code_simp

lemma item_leased: "claimWorkerItem sampleRuntime 5000 sampleClaim queuedStore
    = Inr (Some leasedItem, leasedStore)"
  by code_simp

subsection \<open>Reachability\<close>

lemma reachable_created: "reachable sampleRuntime createdStore"
  by (rule reachable_step [OF reachable_empty store_step.create [OF created]])

lemma reachable_approved: "reachable sampleRuntime approvedStore"
  by (rule reachable_step [OF reachable_created store_step.approve [OF approved]])

lemma reachable_job: "reachable sampleRuntime jobStore"
  by (rule reachable_step [OF reachable_approved store_step.create_job [OF job_created]])

lemma reachable_claimed: "reachable sampleRuntime claimedStore"
  by (rule reachable_step [OF reachable_job store_step.claim_intent [OF claimed]])

lemma reachable_applying: "reachable sampleRuntime applyingStore"
  by (rule reachable_step [OF reachable_claimed store_step.applying [OF applying]])

lemma reachable_receipt: "reachable sampleRuntime receiptStore"
  by (rule reachable_step [OF reachable_applying store_step.receipt [OF receipt_recorded]])

lemma reachable_applied: "reachable sampleRuntime appliedStore"
  by (rule reachable_step [OF reachable_receipt store_step.complete_intent [OF intent_completed]])

lemma reachable_queued: "reachable sampleRuntime queuedStore"
  by (rule reachable_step [OF reachable_approved store_step.enqueue [OF item_queued]])

lemma reachable_leased: "reachable sampleRuntime leasedStore"
  by (rule reachable_step [OF reachable_queued store_step.claim [OF item_leased]])

lemma history_to_applied: "(store_step sampleRuntime)\<^sup>*\<^sup>* approvedStore appliedStore"
  by (meson applying claimed converse_rtranclp_into_rtranclp intent_completed job_created
      receipt_recorded rtranclp.rtrancl_refl store_step.applying store_step.claim_intent
      store_step.complete_intent store_step.create_job store_step.receipt)

end
