(* ===== verification/Privacy.thy ===== *)
theory Privacy
  imports Json
begin

text \<open>
  The privacy boundary of Scoped Explore: \<open>packages/protocol/src/privacy-boundary.ts\<close> (the four
  budgets and the suppression of small cohorts) and
  \<open>packages/proposal-store/src/privacy-release.ts\<close> (the normal form of release claims).  The ledger
  that makes the budgets cumulative is in theory \<open>ExploreLedger\<close>.
\<close>

subsection \<open>Budgets\<close>

record privacy_limits =
  max_queries_per_session :: int
  rate_limit_per_minute :: int
  max_extracted_cells_per_session :: int
  max_differencing_queries :: int
  max_response_cells :: int

record privacy_usage =
  query_count :: int
  queries_last_minute :: int
  extracted_cells :: int
  differencing_attempts :: int

definition enforcePrivacyBudgets ::
  "privacy_limits \<Rightarrow> privacy_usage \<Rightarrow> int \<Rightarrow> bool \<Rightarrow> unit result" where
  "enforcePrivacyBudgets limits snapshot estimated aggregate =
     bindE (throwIf (query_count snapshot \<ge> max_queries_per_session limits)
              (PrivacyBoundaryError ''QUERY_BUDGET_EXHAUSTED'')) (\<lambda>_.
     bindE (throwIf (queries_last_minute snapshot \<ge> rate_limit_per_minute limits)
              (PrivacyBoundaryError ''RATE_LIMIT_EXHAUSTED'')) (\<lambda>_.
     bindE (throwIf (estimated > max_response_cells limits
                \<or> extracted_cells snapshot + estimated > max_extracted_cells_per_session limits)
              (PrivacyBoundaryError ''EXTRACTION_BUDGET_EXHAUSTED'')) (\<lambda>_.
     throwIf (aggregate \<and> differencing_attempts snapshot \<ge> max_differencing_queries limits)
              (PrivacyBoundaryError ''DIFFERENCING_BUDGET_EXHAUSTED''))))"

definition withinBudgets ::
  "privacy_limits \<Rightarrow> privacy_usage \<Rightarrow> int \<Rightarrow> bool \<Rightarrow> bool" where
  "withinBudgets limits usage estimated aggregate \<longleftrightarrow>
     query_count usage + 1 \<le> max_queries_per_session limits
   \<and> queries_last_minute usage + 1 \<le> rate_limit_per_minute limits
   \<and> estimated \<le> max_response_cells limits
   \<and> extracted_cells usage + estimated \<le> max_extracted_cells_per_session limits
   \<and> (aggregate \<longrightarrow> differencing_attempts usage + 1 \<le> max_differencing_queries limits)"

lemma enforcePrivacyBudgets_ok:
  "enforcePrivacyBudgets l u c a = Inr () \<longleftrightarrow> withinBudgets l u c a"
  by (auto simp: enforcePrivacyBudgets_def withinBudgets_def bindE_eq_Inr)

lemma enforcePrivacyBudgets_error:
  "enforcePrivacyBudgets l u c a = Inl e \<Longrightarrow> e \<in> PrivacyBoundaryError `
     {''QUERY_BUDGET_EXHAUSTED'', ''RATE_LIMIT_EXHAUSTED'', ''EXTRACTION_BUDGET_EXHAUSTED'',
      ''DIFFERENCING_BUDGET_EXHAUSTED''}"
  by (auto simp: enforcePrivacyBudgets_def bindE_eq_Inl simp del: list.simps)

subsection \<open>Cohort suppression\<close>

type_synonym row = "(string \<times> json) list"

record shape_input =
  sh_rows :: "row list"
  output_fields :: "string list"
  cohort_field :: string
  minimum_cohort_size :: int
  maximum_groups :: nat
  top_n :: nat
  period_field :: "string option"
  sh_periods :: "string list option"

record shape_output =
  sh_groups :: "row list"
  suppressed_groups :: nat
  returned_cells :: nat

definition inPeriod :: "string \<Rightarrow> string \<Rightarrow> row \<Rightarrow> bool" where
  "inPeriod pf p r \<longleftrightarrow> field r pf = JStr p"

definition cohortSize :: "shape_input \<Rightarrow> row \<Rightarrow> int option" where
  "cohortSize i r = (case safeIntegerOf (jsNumber (field r (cohort_field i))) of
      Some n \<Rightarrow> (if n < 0 then None else Some n)
    | None \<Rightarrow> None)"

definition projectRow :: "string list \<Rightarrow> row \<Rightarrow> row" where
  "projectRow fs r = map (\<lambda>f. (f, field r f)) fs"

definition visibleRow :: "shape_input \<Rightarrow> row \<Rightarrow> row list result" where
  "visibleRow i r = (case cohortSize i r of
      None \<Rightarrow> Inl (PrivacyBoundaryError ''INVALID_COHORT_SIZE'')
    | Some n \<Rightarrow> Inr (if n < minimum_cohort_size i then [] else [projectRow (output_fields i) r]))"

definition shapePrivacySuppressedGroups :: "shape_input \<Rightarrow> shape_output result" where
  "shapePrivacySuppressedGroups i =
     (let periods = (case presentStr (period_field i) of
            Some _ \<Rightarrow> optOr (sh_periods i) [] | None \<Rightarrow> []);
          counts = (case presentStr (period_field i) of
            None \<Rightarrow> [length (sh_rows i)]
          | Some pf \<Rightarrow> map (\<lambda>p. length (filter (inPeriod pf p) (sh_rows i))) periods)
      in bindE (throwIf (presentStr (period_field i) \<noteq> None \<and> periods = [])
                 (PrivacyBoundaryError ''GROUP_LIMIT_EXCEEDED'')) (\<lambda>_.
         bindE (throwIf (\<exists>c \<in> set counts. maximum_groups i < c)
                 (PrivacyBoundaryError ''GROUP_LIMIT_EXCEEDED'')) (\<lambda>_.
         bindE (traverseE (visibleRow i) (sh_rows i)) (\<lambda>vs.
         let visible = concat vs;
             groups = (case presentStr (period_field i) of
                 Some pf \<Rightarrow> concat (map (\<lambda>p. take (top_n i) (filter (inPeriod pf p) visible)) periods)
               | None \<Rightarrow> take (top_n i) visible)
         in Inr \<lparr>sh_groups = groups,
                 suppressed_groups = length (filter (\<lambda>v. v = []) vs),
                 returned_cells = length groups * length (output_fields i)\<rparr>))))"

lemma traverseE_visibleRow:
  assumes "traverseE (visibleRow i) rs = Inr vs"
  shows "concat vs = map (projectRow (output_fields i))
           (filter (\<lambda>r. minimum_cohort_size i \<le> the (cohortSize i r)) rs)
       \<and> length (filter (\<lambda>v. v = []) vs)
           = length (filter (\<lambda>r. the (cohortSize i r) < minimum_cohort_size i) rs)
       \<and> (\<forall>r \<in> set rs. cohortSize i r \<noteq> None)"
  using assms
  by (induction rs arbitrary: vs)
    (auto simp: visibleRow_def bindE_eq_Inr split: option.splits if_splits)

lemma traverseE_visibleRow_error:
  "(\<exists>r \<in> set rs. cohortSize i r = None) \<Longrightarrow>
   traverseE (visibleRow i) rs = Inl (PrivacyBoundaryError ''INVALID_COHORT_SIZE'')"
proof (induction rs)
  case (Cons r rs)
  then show ?case by (cases "cohortSize i r") (auto simp: visibleRow_def)
qed simp

text \<open>What an answer may contain: only projections of rows whose cohort meets the minimum.\<close>

lemma shape_groups_visible:
  assumes "shapePrivacySuppressedGroups i = Inr out" and "g \<in> set (sh_groups out)"
  shows "\<exists>r \<in> set (sh_rows i). g = projectRow (output_fields i) r
           \<and> (\<exists>n. cohortSize i r = Some n \<and> minimum_cohort_size i \<le> n)"
proof -
  from assms obtain vs where vs: "traverseE (visibleRow i) (sh_rows i) = Inr vs"
    and "g \<in> set (concat vs)"
    by (auto simp: shapePrivacySuppressedGroups_def bindE_eq_Inr Let_def
        split: option.splits dest!: in_set_takeD simp del: set_concat) (auto dest!: in_set_takeD)
  with traverseE_visibleRow [OF vs] show ?thesis by (auto simp: image_iff) (metis option.sel)
qed

lemma shape_suppressed_count:
  assumes "shapePrivacySuppressedGroups i = Inr out"
  shows "suppressed_groups out
    = length (filter (\<lambda>r. the (cohortSize i r) < minimum_cohort_size i) (sh_rows i))"
proof -
  from assms obtain vs where vs: "traverseE (visibleRow i) (sh_rows i) = Inr vs"
    and "suppressed_groups out = length (filter (\<lambda>v. v = []) vs)"
    by (auto simp: shapePrivacySuppressedGroups_def bindE_eq_Inr Let_def split: option.splits)
  with traverseE_visibleRow [OF vs] show ?thesis by simp
qed

lemma length_concat_take_le:
  "length (concat (map (\<lambda>p. take n (f p)) ps)) \<le> length ps * n"
  by (induction ps) (auto simp: min_def)

lemma shape_group_bounds:
  assumes "shapePrivacySuppressedGroups i = Inr out"
  shows "length (sh_groups out) \<le> (case presentStr (period_field i) of
            None \<Rightarrow> top_n i | Some _ \<Rightarrow> length (optOr (sh_periods i) []) * top_n i)"
    and "returned_cells out = length (sh_groups out) * length (output_fields i)"
  using assms length_concat_take_le
  by (auto simp: shapePrivacySuppressedGroups_def bindE_eq_Inr Let_def split: option.splits)

lemma shape_group_limit:
  assumes "shapePrivacySuppressedGroups i = Inr out" and "presentStr (period_field i) = None"
  shows "length (sh_rows i) \<le> maximum_groups i"
  using assms by (auto simp: shapePrivacySuppressedGroups_def bindE_eq_Inr Let_def)

subsection \<open>Release claims\<close>

datatype release_kind = ScalarTotal | SuppressedGrouping

record release_claim =
  complement_fingerprints :: "string list"
  release_kind_of :: release_kind
  conflict_reason :: "string option"

definition oppositeKind :: "release_kind \<Rightarrow> release_kind" where
  "oppositeKind k = (case k of ScalarTotal \<Rightarrow> SuppressedGrouping | SuppressedGrouping \<Rightarrow> ScalarTotal)"

record release_input =
  ri_scope_fingerprint :: string
  ri_complement_fingerprints :: "string list"
  ri_release_kind :: release_kind
  ri_query_fingerprint :: string
  ri_boundary_digest :: string
  additional_releases :: "release_claim list"

definition normalClaim :: "release_claim \<Rightarrow> release_claim" where
  "normalClaim c =
     c\<lparr>complement_fingerprints := sortBy strLe (uniqueList (complement_fingerprints c))\<rparr>"

definition claimKey :: "release_claim \<Rightarrow> release_kind \<times> string option \<times> string list" where
  "claimKey c = (release_kind_of c, conflict_reason c, complement_fingerprints c)"

text \<open>
  The \<open>flatMap\<close> of the source, with its set of seen keys: two normalized claims with the same key
  are the same claim, so the key is the normalized claim itself.
\<close>

fun dedupeClaims :: "(release_kind \<times> string option \<times> string list) list \<Rightarrow> release_claim list
    \<Rightarrow> release_claim list" where
  "dedupeClaims seen [] = []"
| "dedupeClaims seen (c # cs) =
     (let n = normalClaim c in
      if complement_fingerprints n = [] then dedupeClaims seen cs
      else if claimKey n \<in> set seen then dedupeClaims seen cs
      else n # dedupeClaims (claimKey n # seen) cs)"

definition normalizedExplorePrivacyReleaseClaims :: "release_input \<Rightarrow> release_claim list" where
  "normalizedExplorePrivacyReleaseClaims i =
     dedupeClaims [] (\<lparr>complement_fingerprints = ri_complement_fingerprints i,
       release_kind_of = ri_release_kind i, conflict_reason = None\<rparr> # additional_releases i)"

lemma dedupeClaims_unseen:
  "c \<in> set (dedupeClaims seen cs) \<Longrightarrow> claimKey c \<notin> set seen"
  by (induction seen cs rule: dedupeClaims.induct) (auto simp: Let_def split: if_splits)

lemma dedupeClaims_distinct: "distinct (map claimKey (dedupeClaims seen cs))"
  by (induction seen cs rule: dedupeClaims.induct)
    (auto simp: Let_def dest: dedupeClaims_unseen)

lemma dedupeClaims_normal:
  "c \<in> set (dedupeClaims seen cs) \<Longrightarrow> complement_fingerprints c \<noteq> [] \<and> normalClaim c = c
     \<and> distinct (complement_fingerprints c) \<and> sorted_wrt strLe (complement_fingerprints c)"
proof (induction seen cs rule: dedupeClaims.induct)
  case (2 seen d cs)
  have "distinct (complement_fingerprints (normalClaim d))"
    and "sorted_wrt strLe (complement_fingerprints (normalClaim d))"
    by (simp_all add: normalClaim_def sorted_strLe)
  moreover from this have "normalClaim (normalClaim d) = normalClaim d"
    by (simp add: normalClaim_def uniqueList_distinct sortBy_sorted)
  ultimately show ?case using 2 by (simp add: Let_def split: if_splits) blast
qed simp

lemma dedupeClaims_subset:
  "c \<in> set (dedupeClaims seen cs) \<Longrightarrow> \<exists>d \<in> set cs. c = normalClaim d"
  by (induction seen cs rule: dedupeClaims.induct) (auto simp: Let_def split: if_splits)

end
