(* ===== verification/ProtocolProperties.thy ===== *)
theory ProtocolProperties
  imports Samples Privacy
begin

text \<open>
  What the protocol layer guarantees on its own: the canonical form behind every hash, the secret
  check, the authority a parsed change set or writeback job can carry, the conversion of receipts,
  and the privacy boundary.
\<close>

subsection \<open>Canonical JSON\<close>

text \<open>The canonical digest does not depend on the order in which object entries were inserted, at any depth.\<close>

theorem digest_ignores_insertion_order:
  assumes "sameJson i j" and "keysDistinct i"
  shows "canonicalJsonDigest rt i = canonicalJsonDigest rt j"
  by (simp add: canonicalJsonDigest_def canonicalJsonStringify_def canonical_same [OF assms])

theorem digest_ignores_insertion_order_witness:
  "canonicalJsonDigest sampleRuntime (JObj [(''b'', JNull), (''a'', JArr [JBool True])])
    = canonicalJsonDigest sampleRuntime (JObj [(''a'', JArr [JBool True]), (''b'', JNull)])"
proof (rule digest_ignores_insertion_order)
  show "sameJson (JObj [(''b'', JNull), (''a'', JArr [JBool True])]) (JObj [(''a'', JArr [JBool True]), (''b'', JNull)])"
    by (rule same_obj [of "[(''a'', JArr [JBool True]), (''b'', JNull)]"]) (simp_all add: add_mset_commute same_leaf)
qed simp

text \<open>C30: The serializer accepts exactly the values made of finite numbers, strings, booleans, null, arrays and
  objects, its result is a fixed point of canonicalization (so a stored canonical text hashes to the
  same digest when it is read back), and it only rejects with a \<open>TypeError\<close>.\<close>

theorem canonical_form_is_stable:
  assumes "keysDistinct j"
  shows "((\<exists>c. canonicalJsonValue j = Inr c) \<longleftrightarrow> jsonPlain j)
    \<and> (canonicalJsonValue j = Inr c \<longrightarrow> canonicalJsonValue c = Inr c
         \<and> canonicalJsonDigest rt c = canonicalJsonDigest rt j)"
  using canonical_total [of j] canonical_idem_aux(1) [of j c] assms
  by (auto simp: canonicalJsonDigest_def canonicalJsonStringify_def)

theorem canonical_form_is_stable_witness:
  "canonicalJsonDigest sampleRuntime (JObj [(''a'', JNum (IntN 0)), (''b'', JNull)])
    = canonicalJsonDigest sampleRuntime (JObj [(''b'', JNull), (''a'', JNum NegZero)])"
proof -
  have "canonicalJsonValue (JObj [(''b'', JNull), (''a'', JNum NegZero)])
      = Inr (JObj [(''a'', JNum (IntN 0)), (''b'', JNull)])" by code_simp
  with canonical_form_is_stable [of "JObj [(''b'', JNull), (''a'', JNum NegZero)]"
      "JObj [(''a'', JNum (IntN 0)), (''b'', JNull)]" sampleRuntime]
  show ?thesis by simp
qed

subsection \<open>Secrets\<close>

text \<open>C29: The secret check accepts exactly the values in which no key matches the key pattern and no string the
  value pattern, at any depth, and otherwise always answers with the one error.\<close>

theorem secret_check_is_exact:
  "assertNoSecretMaterial j = (if secretFree j then Inr () else Inl (storeErr ''SECRET_MATERIAL_REJECTED''))"
proof (cases "assertNoSecretMaterial j")
  case (Inl e)
  then have "\<not> secretFree j" by (metis Inl_Inr_False assertNoSecretMaterial_iff)
  with Inl assertNoSecretMaterial_error(1) [OF Inl] show ?thesis by (simp add: secretRejected_def)
qed simp

subsection \<open>Change sets\<close>

text \<open>C27: No change set of the versions 1 to 3 that parses can write outside its allowlist or through the column of
  its principal scope, and one that names a single row can write neither its primary key nor its
  tenant column; its freshness dependencies all live in the source it writes.\<close>

theorem parsed_change_set_stays_in_scope:
  assumes "parseChangeSet rt c = Inr d" and "\<And>i h. cs_body d \<noteq> BodyCompensation i h"
  shows "set (map fst (cs_patch d)) \<subseteq> set (cs_allowed_columns d)
    \<and> (\<forall>p. cs_principal_scope d = Some p \<longrightarrow> ps_column p \<notin> set (cs_allowed_columns d))
    \<and> ((\<forall>op fs l. cs_body d \<noteq> BodyV3 op fs l) \<longrightarrow> cs_pk_column d \<notin> set (cs_allowed_columns d)
          \<and> cv_column (cs_tenant d) \<notin> set (cs_allowed_columns d))
    \<and> (\<forall>f. cs_freshness d = Some f \<longrightarrow> (\<forall>x \<in> set (fa_dependencies f). fd_source_id x = cs_source_id d))"
proof -
  have "cs_pk_column d \<notin> set (cs_allowed_columns d) \<and> cv_column (cs_tenant d) \<notin> set (cs_allowed_columns d)"
    if "\<forall>op fs l. cs_body d \<noteq> BodyV3 op fs l"
    using parsed_single_row_identity [OF assms(1)] assms(2) that by (cases "cs_body d") auto
  moreover have "fd_source_id x = cs_source_id d"
    if "cs_freshness d = Some f" "x \<in> set (fa_dependencies f)" for f x
    using parsed_freshness [OF assms(1) that(1) assms(2)] that(2) by blast
  ultimately show ?thesis
    using parsed_patch_allowed [OF assms] parsed_scope_column_protected [OF assms] by blast
qed

theorem parsed_change_set_stays_in_scope_witness:
  "set (map fst (cs_patch sampleChange)) \<subseteq> set (cs_allowed_columns sampleChange)
    \<and> cs_pk_column sampleChange \<notin> set (cs_allowed_columns sampleChange)"
proof -
  have "cs_body sampleChange = BodyV1" by (simp add: sampleChange_def)
  with parsed_change_set_stays_in_scope [OF sample_parsed] show ?thesis by simp
qed

definition sampleInsert :: change_set where
  "sampleInsert = sampleChange\<lparr>cs_before := [], cs_pk_value := None, cs_expected_version := None,
     cs_deduplication := Some [\<lparr>dc_column = ''d'', dc_value = JStr ''p'', dc_source = DedupProposalId\<rparr>,
       \<lparr>dc_column = ''n'', dc_value = JStr ''t'', dc_source = DedupTrustedTenant\<rparr>],
     cs_body := BodyV2 SingleRowInsert None\<rparr>"

text \<open>A single-row change set that parses is guarded: an UPDATE or DELETE carries a reviewed before image, a
  primary-key value and an exact version guard, and an INSERT an empty before image and source-enforced
  deduplication on the proposal and on the trusted tenant.\<close>

theorem parsed_row_change_is_guarded:
  assumes "parseChangeSet rt c = Inr d" and "cs_body d = BodyV2 op l"
  shows "(if op = SingleRowInsert then cs_before d = [] \<and> cs_expected_version d = None
           \<and> (\<exists>ds. cs_deduplication d = Some ds \<and> (\<exists>x \<in> set ds. dc_source x = DedupProposalId)
               \<and> (\<exists>x \<in> set ds. dc_source x = DedupTrustedTenant \<and> dc_column x = cv_column (cs_tenant d)
                    \<and> dc_value x = cv_value (cs_tenant d)))
         else cs_before d \<noteq> [] \<and> truthy (cs_pk_value d) \<and> cs_expected_version d \<noteq> None
           \<and> cs_deduplication d = None)
    \<and> (op = SingleRowDelete \<longrightarrow> cs_patch d = [] \<and> cs_after d = [] \<and> cs_allowed_columns d = [])
    \<and> (op = SingleRowUpdate \<longrightarrow> cs_patch d \<noteq> [] \<and> cs_after d \<noteq> [])"
  using assms
  by (auto simp: parseChangeSet_def changeSetIssues_def changeSetV2Issues_def nonInsertIssues_def
      insertIssues_def split: option.splits if_splits)

theorem parsed_row_change_is_guarded_witness:
  "cs_before sampleInsert = [] \<and> cs_deduplication sampleInsert \<noteq> None"
proof -
  have "parseChangeSet sampleRuntime sampleInsert = Inr sampleInsert" by code_simp
  moreover have "cs_body sampleInsert = BodyV2 SingleRowInsert None" by (simp add: sampleInsert_def)
  ultimately show ?thesis using parsed_row_change_is_guarded by fastforce
qed

definition sampleMember :: "int \<Rightarrow> frozen_member" where
  "sampleMember n = \<lparr>fm_primary_key = \<lparr>cv_column = ''k'', cv_value = JNum (IntN n)\<rparr>,
     fm_expected_version = Some \<lparr>cv_column = ''v'', cv_value = JNum (IntN 1)\<rparr>,
     fm_before = [(''f'', JNum (IntN 1))], fm_after = [(''f'', JNum (IntN 0))],
     fm_before_digest = Some ''sha256:b'', fm_after_digest = Some ''sha256:a'',
     fm_tombstone_digest = None, fm_deduplication = None\<rparr>"

definition sampleFrozenSet :: frozen_set where
  "sampleFrozenSet = \<lparr>fs_max_rows = 5, fs_row_count = 2,
     fs_aggregate_bounds = [\<lparr>ab_column = ''f'', ab_measure = AbsoluteDelta, ab_maximum = 3, ab_actual = 2\<rparr>],
     fs_members = [sampleMember 1, sampleMember 2], fs_set_digest = ''sha256:s''\<rparr>"

definition sampleSetChange :: change_set where
  "sampleSetChange = sampleChange\<lparr>cs_pk_value := None, cs_expected_version := None,
     cs_wb_executor := Some ''sql_update'', cs_body := BodyV3 SetUpdate sampleFrozenSet None\<rparr>"

text \<open>C28: A set change that parses freezes its members: their number is the declared one and within the reviewed
  bound of at most 100, every aggregate is within its reviewed maximum, their primary keys are distinct
  and in the deterministic order (given that \<open>localeCompare\<close> is transitive), and every member of an
  UPDATE or DELETE carries its own version guard and before digest.\<close>

theorem parsed_set_change_is_frozen:
  assumes "parseChangeSet rt c = Inr d" and "cs_body d = BodyV3 op fs l"
    and "\<And>x y z. localeLe rt x y \<Longrightarrow> localeLe rt y z \<Longrightarrow> localeLe rt x z"
  shows "int (length (fs_members fs)) = fs_row_count fs \<and> fs_row_count fs \<le> fs_max_rows fs
    \<and> fs_max_rows fs \<le> 100 \<and> (\<forall>b \<in> set (fs_aggregate_bounds fs). ab_actual b \<le> ab_maximum b)
    \<and> distinct (map memberIdentity (fs_members fs))
    \<and> sorted_wrt (localeLe rt) (map memberIdentity (fs_members fs))
    \<and> (op \<noteq> BatchInsert \<longrightarrow> (\<forall>m \<in> set (fs_members fs). fm_expected_version m \<noteq> None
          \<and> fm_before_digest m \<noteq> None \<and> cv_column (fm_primary_key m) = cs_pk_column d))"
proof -
  have "sorted_wrt (localeLe rt) (map memberIdentity (fs_members fs))"
    by (rule someDescent_sorted [THEN iffD1]) (use assms(3) parsed_frozen_set [OF assms(1,2)] in blast)+
  then show ?thesis
    using parsed_frozen_set [OF assms(1,2)] parsed_set_members_guarded [OF assms(1,2)] by blast
qed

theorem parsed_set_change_is_frozen_witness:
  "sorted_wrt strLe (map memberIdentity (fs_members sampleFrozenSet))
    \<and> fs_row_count sampleFrozenSet \<le> fs_max_rows sampleFrozenSet"
proof -
  have "parseChangeSet sampleRuntime sampleSetChange = Inr sampleSetChange" by code_simp
  moreover have "cs_body sampleSetChange = BodyV3 SetUpdate sampleFrozenSet None" by (simp add: sampleSetChange_def)
  moreover have le: "localeLe sampleRuntime = strLe" by (simp add: sampleRuntime_def)
  ultimately show ?thesis
    using parsed_set_change_is_frozen [of sampleRuntime sampleSetChange sampleSetChange SetUpdate sampleFrozenSet None]
      strLe_trans unfolding le by blast
qed

definition sampleInverse :: inverse_descriptor where
  "sampleInverse = \<lparr>id_availability = Available, id_reason_codes = [], id_operation = RestoreUpdate,
     id_cardinality = SingleRow, id_forward_proposal_id = ''q'', id_forward_writeback_job_id = ''j'',
     id_source_id = ''s'', id_schema = ''x'', id_table = ''y'', id_primary_key_column = ''k'',
     id_tenant_guard = cs_tenant sampleChange, id_principal_scope = None, id_allowed_columns = [''f''],
     id_members = [\<lparr>im_primary_key = \<lparr>cv_column = ''k'', cv_value = JNum (IntN 1)\<rparr>,
       im_expected_state = [(''f'', JNum (IntN 0))],
       im_restore_values = Some [(''f'', JNum (IntN 55))]\<rparr>],
     id_max_rows = 1, id_aggregate_bounds = [],
     id_version_advance = Some \<lparr>va_column = ''v'', va_strategy = IntegerIncrement\<rparr>,
     id_lineage = \<lparr>rl_root_proposal_id = ''q'', rl_parent_proposal_id = ''q'',
       rl_reverts_proposal_id = ''q'', rl_depth = 1\<rparr>\<rparr>"

definition sampleCompensation :: change_set where
  "sampleCompensation = sampleChange\<lparr>cs_wb_executor := Some ''sql_update'', cs_expected_version := None,
     cs_body := BodyCompensation sampleInverse ''sha256:f''\<rparr>"

text \<open>A compensation that parses has no authority of its own: it carries an available reviewed inverse whose
  source, table, key column, tenant guard, principal scope and allowlist are the proposal's, for the
  trusted tenant, and it claims no mutation yet.\<close>

theorem parsed_compensation_is_bound:
  assumes "parseChangeSet rt c = Inr d" and "cs_body d = BodyCompensation i h"
  shows "id_availability i = Available \<and> id_source_id i = cs_source_id d \<and> id_schema i = cs_schema d
    \<and> id_table i = cs_table d \<and> id_primary_key_column i = cs_pk_column d \<and> id_tenant_guard i = cs_tenant d
    \<and> cv_value (cs_tenant d) = JStr (cs_tenant_id d) \<and> id_principal_scope i = cs_principal_scope d
    \<and> id_allowed_columns i = cs_allowed_columns d \<and> int (length (id_members i)) \<le> id_max_rows i
    \<and> distinct (map (\<lambda>m. jsonStringify (cv_value (im_primary_key m))) (id_members i))
    \<and> \<not> cs_source_database_mutated d \<and> cs_mode d = ReviewRequired"
  using parsed_compensation_authority [OF assms] assms
  by (auto simp: parseChangeSet_def changeSetIssues_def compensationIssues_def inverseDescriptorIssues_def Let_def)

theorem parsed_compensation_is_bound_witness:
  "id_tenant_guard sampleInverse = cs_tenant sampleCompensation
    \<and> id_allowed_columns sampleInverse = cs_allowed_columns sampleCompensation"
proof -
  have "parseChangeSet sampleRuntime sampleCompensation = Inr sampleCompensation" by code_simp
  moreover have "cs_body sampleCompensation = BodyCompensation sampleInverse ''sha256:f''"
    by (simp add: sampleCompensation_def)
  ultimately show ?thesis using parsed_compensation_is_bound by metis
qed

subsection \<open>Jobs and receipts\<close>

text \<open>No single-row job that the worker accepts, public or normalized, writes outside its allowlist, and none
  that writes anything may write its primary key, its tenant column or its principal-scope column.\<close>

theorem accepted_row_job_is_safe:
  assumes "parseWritebackJob rt x = Inr k" and "jb_version k = LegacyJob \<or> jb_version k = NormalizedV2"
  shows "set (map fst (jb_patch k)) \<subseteq> set (jb_allowed_columns k)
    \<and> (jb_patch k = [] \<or> (jb_pk_column k \<notin> set (jb_allowed_columns k)
          \<and> cv_column (jb_tenant_guard k) \<notin> set (jb_allowed_columns k)
          \<and> (\<forall>p. jb_principal_scope k = Some p \<longrightarrow> ps_column p \<notin> set (jb_allowed_columns k))))"
  using parsed_row_job_safe [OF assms] by (auto simp: identitySafe_def)

theorem accepted_row_job_is_safe_witness:
  "set (map fst (jb_patch sampleJob)) \<subseteq> set (jb_allowed_columns sampleJob)"
proof -
  have "parseWritebackJob sampleRuntime (PublicJob samplePublicJob) = Inr sampleJob" by code_simp
  moreover have "jb_version sampleJob = LegacyJob" by code_simp
  ultimately show ?thesis using accepted_row_job_is_safe by blast
qed

text \<open>C31: Every receipt of the versions 2 to 4 that parses converts to a writeback result, which the result parser
  accepts and which reports the receipt's job, operation, status, affected rows and hash; and a receipt
  that reports affected rows reports a mutated source.\<close>

theorem receipts_convert:
  assumes "parseExecutionReceipt rt r = Inr s" and "rc_version s \<noteq> ReceiptV1"
  shows "(\<exists>w. receiptToWritebackResult rt s = Inr w \<and> parseWritebackResult rt w = Inr w
      \<and> wr_job_id w = rc_writeback_job_id s \<and> wr_status w = rc_status s
      \<and> wr_affected_rows w = rc_rows_affected s \<and> wr_operation w = rc_operation s
      \<and> wr_result_hash w = Some (rc_receipt_hash s))
    \<and> (0 < rc_rows_affected s \<longrightarrow> rc_source_database_mutated s)"
proof -
  from receiptToWritebackResult_total [OF assms] obtain w where w: "receiptToWritebackResult rt s = Inr w"
    "wr_job_id w = rc_writeback_job_id s" "wr_status w = rc_status s" "wr_affected_rows w = rc_rows_affected s"
    "wr_operation w = rc_operation s" "wr_result_hash w = Some (rc_receipt_hash s)" by blast
  have "parseWritebackResult rt w = Inr w"
    using w(1) by (auto simp: receiptToWritebackResult_def parseWritebackResult_def split: result_version.splits)
  with w parsed_receipt_mutation [OF assms] show ?thesis by blast
qed

theorem receipts_convert_witness:
  "\<exists>w. receiptToWritebackResult sampleRuntime sampleReceipt = Inr w \<and> wr_affected_rows w = 1"
proof -
  have "parseExecutionReceipt sampleRuntime sampleReceipt = Inr sampleReceipt" by code_simp
  moreover have "rc_version sampleReceipt \<noteq> ReceiptV1" "rc_rows_affected sampleReceipt = 1"
    by (simp_all add: sampleReceipt_def)
  ultimately show ?thesis using receipts_convert [of sampleRuntime sampleReceipt sampleReceipt] by auto
qed

subsection \<open>The privacy boundary\<close>

text \<open>A query is admitted exactly when, with it counted in, the session's queries, the minute's queries, the
  extracted cells and (for an aggregate) the differencing attempts stay within the reviewed limits and its
  own estimate within the response limit; a refusal names one of the four budgets.\<close>

theorem budgets_admit_exactly:
  "enforcePrivacyBudgets l u cells aggregate = Inr () \<longleftrightarrow> withinBudgets l u cells aggregate"
  by (rule enforcePrivacyBudgets_ok)

definition sampleShape :: shape_input where
  "sampleShape = \<lparr>sh_rows = [[(''g'', JStr ''a''), (''n'', JNum (IntN 9))], [(''g'', JStr ''b''), (''n'', JNum (IntN 2))]],
     output_fields = [''g''], cohort_field = ''n'', minimum_cohort_size = 5, maximum_groups = 4,
     top_n = 3, period_field = None, sh_periods = None\<rparr>"

definition sampleShaped :: shape_output where
  "sampleShaped = \<lparr>sh_groups = [[(''g'', JStr ''a'')]], suppressed_groups = 1, returned_cells = 1\<rparr>"

text \<open>C35: An answer contains only the reviewed output fields of rows whose cohort reaches the minimum, no more than
  the reviewed number of groups (per period), it reports exactly how many rows it suppressed, and a row
  without a usable cohort size refuses the whole answer.\<close>

theorem small_cohorts_are_suppressed:
  assumes "shapePrivacySuppressedGroups i = Inr out"
  shows "(\<forall>g \<in> set (sh_groups out). \<exists>r \<in> set (sh_rows i). g = projectRow (output_fields i) r
        \<and> (\<exists>n. cohortSize i r = Some n \<and> minimum_cohort_size i \<le> n))
    \<and> suppressed_groups out
        = length (filter (\<lambda>r. the (cohortSize i r) < minimum_cohort_size i) (sh_rows i))
    \<and> (\<forall>r \<in> set (sh_rows i). cohortSize i r \<noteq> None)
    \<and> length (sh_groups out) \<le> (case presentStr (period_field i) of None \<Rightarrow> top_n i
         | Some _ \<Rightarrow> length (optOr (sh_periods i) []) * top_n i)
    \<and> returned_cells out = length (sh_groups out) * length (output_fields i)"
proof -
  from assms obtain vs where vs: "traverseE (visibleRow i) (sh_rows i) = Inr vs"
    by (auto simp: shapePrivacySuppressedGroups_def bindE_eq_Inr Let_def split: option.splits)
  show ?thesis
    using shape_groups_visible [OF assms] shape_suppressed_count [OF assms] shape_group_bounds [OF assms]
      traverseE_visibleRow [OF vs] by blast
qed

theorem small_cohorts_are_suppressed_witness:
  "suppressed_groups sampleShaped = length (filter (\<lambda>r. the (cohortSize sampleShape r) < 5) (sh_rows sampleShape))"
proof -
  have "shapePrivacySuppressedGroups sampleShape = Inr sampleShaped" by code_simp
  moreover have "minimum_cohort_size sampleShape = 5" by (simp add: sampleShape_def)
  ultimately show ?thesis using small_cohorts_are_suppressed by metis
qed

lemma claimKey_inject: "claimKey c = claimKey d \<longleftrightarrow> c = d"
  by (cases c; cases d) (auto simp: claimKey_def)

lemma normalClaim_nonempty: "complement_fingerprints (normalClaim c) = [] \<longleftrightarrow> complement_fingerprints c = []"
proof -
  have "set (complement_fingerprints (normalClaim c)) = set (complement_fingerprints c)"
    by (simp add: normalClaim_def)
  then show ?thesis by (metis set_empty)
qed

lemma dedupeClaims_complete:
  "c \<in> set cs \<Longrightarrow> complement_fingerprints c \<noteq> [] \<Longrightarrow>
     claimKey (normalClaim c) \<in> set seen \<or> normalClaim c \<in> set (dedupeClaims seen cs)"
proof (induction cs arbitrary: seen)
  case (Cons d cs)
  show ?case
  proof (cases "normalClaim c = normalClaim d")
    case True
    with Cons.prems(2) normalClaim_nonempty [of c] show ?thesis by (simp add: Let_def)
  next
    case False
    with Cons.prems(1) have "c \<in> set cs" by auto
    with Cons.IH [of seen] Cons.IH [of "claimKey (normalClaim d) # seen"] Cons.prems(2) False
    show ?thesis by (simp add: Let_def claimKey_inject split: if_split)
  qed
qed simp

text \<open>The claims a release makes are a normal form: every claim has at least one complement, sorted and without
  duplicates, no two claims are equal, each one normalizes a claim of the input, and every claim of the
  input that names a complement is there.\<close>

theorem release_claims_are_normal:
  assumes "cs = \<lparr>complement_fingerprints = ri_complement_fingerprints i,
       release_kind_of = ri_release_kind i, conflict_reason = None\<rparr> # additional_releases i"
  shows "distinct (normalizedExplorePrivacyReleaseClaims i)
    \<and> (\<forall>c \<in> set (normalizedExplorePrivacyReleaseClaims i). complement_fingerprints c \<noteq> []
         \<and> distinct (complement_fingerprints c) \<and> sorted_wrt strLe (complement_fingerprints c))
    \<and> set (normalizedExplorePrivacyReleaseClaims i)
        = normalClaim ` {c \<in> set cs. complement_fingerprints c \<noteq> []}"
proof -
  have eq: "normalizedExplorePrivacyReleaseClaims i = dedupeClaims [] cs"
    unfolding normalizedExplorePrivacyReleaseClaims_def assms ..
  have "distinct (dedupeClaims [] cs)"
    using dedupeClaims_distinct [of "[]" cs] unfolding distinct_map by (rule conjunct1)
  moreover have "set (dedupeClaims [] cs) = normalClaim ` {c \<in> set cs. complement_fingerprints c \<noteq> []}"
  proof
    show "set (dedupeClaims [] cs) \<subseteq> normalClaim ` {c \<in> set cs. complement_fingerprints c \<noteq> []}"
      using dedupeClaims_subset dedupeClaims_normal normalClaim_nonempty by fastforce
    show "normalClaim ` {c \<in> set cs. complement_fingerprints c \<noteq> []} \<subseteq> set (dedupeClaims [] cs)"
      using dedupeClaims_complete [of _ cs "[]"] by auto
  qed
  ultimately show ?thesis
    unfolding eq using dedupeClaims_normal by blast
qed

definition sampleRelease :: release_input where
  "sampleRelease = \<lparr>ri_scope_fingerprint = ''s'', ri_complement_fingerprints = [''b'', ''a'', ''b''],
     ri_release_kind = ScalarTotal, ri_query_fingerprint = ''q'', ri_boundary_digest = ''d'',
     additional_releases = []\<rparr>"

theorem release_claims_are_normal_witness: "distinct (normalizedExplorePrivacyReleaseClaims sampleRelease)"
  using release_claims_are_normal [OF refl, of sampleRelease] by blast

subsection \<open>Attention\<close>

text \<open>Recording attention is idempotent: a second recording of the same input returns the event of the first
  and changes nothing, no event is ever lost, and every event that requires attention has an item that
  tracks it.\<close>

theorem attention_is_idempotent:
  assumes "attention_ok rt a" and "recordAttentionEventInternal rt x a = Inr (e, b)"
  shows "recordAttentionEventInternal rt x b = Inr (e, b) \<and> attention_ok rt b
    \<and> e \<in> set (at_events b) \<and> (b = a \<or> at_events b = at_events a @ [e])
    \<and> at_deliveries b = at_deliveries a
    \<and> (ae_attention_required e \<longrightarrow> (\<exists>k. ae_attention_key e = Some k \<and> k \<in> ai_attention_key ` set (at_items b)))"
proof -
  have ok: "attention_ok rt b" using assms by (rule recordAttentionEventInternal_ok)
  moreover have e: "e \<in> set (at_events b)" using recordAttentionEventInternal_events [OF assms(2)] by simp
  moreover from attention_ok_eventD [OF ok e]
  have "ae_attention_required e \<longrightarrow> (\<exists>k. ae_attention_key e = Some k \<and> k \<in> ai_attention_key ` set (at_items b))"
    by (auto simp: eventOk_def)
  ultimately show ?thesis
    using recordAttentionEventInternal_replay [OF assms] recordAttentionEventInternal_events [OF assms(2)]
    by blast
qed

definition sampleAttentionInput :: attention_input where
  "sampleAttentionInput = hd (attentionEventsForProposalEvent sampleRuntime
     (raisedBy (sampleProposal PendingReview False ''t'') (hd sampleEvents) ''unknown''))"

lemma sample_attention: "(case recordAttentionEventInternal sampleRuntime sampleAttentionInput (s_attention emptyStore) of
    Inr (e, b) \<Rightarrow> b = sampleAttention | Inl _ \<Rightarrow> False)"
  by code_simp

theorem attention_is_idempotent_witness:
  "\<exists>e. recordAttentionEventInternal sampleRuntime sampleAttentionInput sampleAttention = Inr (e, sampleAttention)"
proof -
  from sample_attention obtain e where run: "recordAttentionEventInternal sampleRuntime sampleAttentionInput
      (s_attention emptyStore) = Inr (e, sampleAttention)" by (auto split: sum.splits)
  have "attention_ok sampleRuntime (s_attention emptyStore)"
    using emptyStore_ok [of sampleRuntime] by (simp add: store_ok_def)
  from attention_is_idempotent [OF this run] show ?thesis by blast
qed

end
