(* ===== verification/ProposalProperties.thy ===== *)
theory ProposalProperties
  imports Samples
begin

text \<open>
  What one call of an operation on a proposal guarantees: the checks a successful call has made, the
  rows it has written, and the errors that follow.  The properties that hold over whole histories of
  calls are in the root theory.
\<close>

subsection \<open>Lookups after an operation\<close>

lemma getProposal_updateState: "getProposal q (updateProposalState rt now pid st s)
    = map_option (\<lambda>p. if p_id p = pid then p\<lparr>p_state := st, p_updated_at := isoString rt now\<rparr> else p)
        (getProposal q s)"
  by (simp add: getProposal_def updateProposalState_def findRow_updateWhere)

lemma getProposal_require: "requireProposal pid s = Inr p \<longleftrightarrow> getProposal pid s = Some p"
  by (simp add: requireProposal_def)

lemma addDecision_tables [simp]:
  "s_approvals (addDecision rt now a st s) = s_approvals s @ [a]"
  "getProposal q (addDecision rt now a st s) = (case st of None \<Rightarrow> getProposal q s
     | Some x \<Rightarrow> getProposal q (updateProposalState rt now (ap_proposal_id a) x s))"
  by (simp_all add: addDecision_def Let_def getProposal_def updateProposalState_def split: option.split)

lemma approvers_fresh:
  assumes "\<forall>a \<in> set aps. ap_proposal_id a = pid \<longrightarrow> ap_approver a \<noteq> ap_approver b"
    and "ap_proposal_id b = pid" "ap_status b = ApRowApproved"
  shows "approvalCount pid (aps @ [b]) = approvalCount pid aps + 1"
proof -
  have "ap_approver b \<notin> ap_approver ` {x \<in> set aps. ap_proposal_id x = pid \<and> ap_status x = ApRowApproved}"
    using assms(1) by auto
  then show ?thesis using assms(2,3) by (simp add: approvalCount_append)
qed

subsection \<open>Approval\<close>

text \<open>C17: A successful approval was of the exact pending revision the reviewer named, by a reviewer who
  had no decision on it yet; it adds exactly that reviewer's row, raises the count of distinct
  approvers by one, and approves the proposal exactly when the quorum of its change set is met.\<close>

theorem approval_counts_one_reviewer:
  assumes "approveProposal rt now pid opts s = Inr (q, t)"
  shows "\<exists>p. getProposal pid s = Some p \<and> p_state p = PendingReview
    \<and> p_hash p = ao_hash opts \<and> p_version p = ao_version opts
    \<and> cs_mode (p_change_set p) \<noteq> ReadOnlyMode \<and> cs_mode (p_change_set p) \<noteq> ShadowMode
    \<and> (\<forall>a \<in> set (s_approvals s). ap_proposal_id a = pid \<longrightarrow> ap_approver a \<noteq> ao_approver opts)
    \<and> s_approvals t = s_approvals s @ [newApproval now pid opts ApRowApproved s]
    \<and> approvalCount pid (s_approvals t) = approvalCount pid (s_approvals s) + 1
    \<and> getProposal pid t = Some q
    \<and> p_state q = (if requiredApprovalCount p \<le> approvalCount pid (s_approvals s) + 1
                   then Approved else PendingReview)"
  using assms
proof (rule approveProposal_effect)
  fix p pg
  let ?a = "newApproval now pid opts ApRowApproved s"
  assume p: "requireProposal pid s = Inr p" "writable p" "p_hash p = ao_hash opts"
      "p_version p = ao_version opts" "p_state p = PendingReview"
    and once: "\<forall>a \<in> set (s_approvals s). ap_proposal_id a = pid \<longrightarrow> ap_approver a \<noteq> ao_approver opts"
    and pg: "pg = approvalCount pid (s_approvals s @ [?a])" and q: "requireProposal pid t = Inr q"
    and "\<exists>kind payload. appendEvent rt now pid kind (ao_approver opts) payload None
      (addDecision rt now ?a (if requiredApprovalCount p \<le> pg then Some Approved else None) s) = Inr t"
  then obtain kind payload where ev: "appendEvent rt now pid kind (ao_approver opts) payload None
      (addDecision rt now ?a (if requiredApprovalCount p \<le> pg then Some Approved else None) s) = Inr t"
    by blast
  have count: "approvalCount pid (s_approvals s @ [?a]) = approvalCount pid (s_approvals s) + 1"
    by (rule approvers_fresh) (use once in \<open>simp_all add: newApproval_def\<close>)
  have "p_id p = pid" using p(1) by blast
  moreover have "s_approvals t = s_approvals s @ [?a]" by (simp add: appendEvent_tables(2) [OF ev])
  moreover have "p_state q = (if requiredApprovalCount p \<le> pg then Approved else PendingReview)"
    using q p(1,5) \<open>p_id p = pid\<close>
    by (auto simp: getProposal_require appendEvent_tables(7) [OF ev] getProposal_updateState
        newApproval_def split: if_splits)
  ultimately show ?thesis
    using p q once count pg by (auto simp: getProposal_require writable_def)
qed

theorem approval_counts_one_reviewer_witness:
  "p_state (sampleProposal Approved False ''t'') = Approved
    \<and> approvalCount ''p'' (s_approvals approvedStore) = 1"
  using approval_counts_one_reviewer [OF approved]
  by (auto simp: createdStore_def emptyStore_def approvalCount_def sampleProposal_def)

text \<open>The budget a policy limit leaves, as the sources compute it before a policy approves.\<close>

definition limitRespected :: "runtime \<Rightarrow> string \<Rightarrow> proposal \<Rightarrow> time \<times> time \<Rightarrow> store \<Rightarrow> policy_limit \<Rightarrow> bool" where
  "limitRespected rt actor p window s l \<longleftrightarrow>
     (let rows = policyHistory actor p (optOr (pl_scope l) TenantPolicy) window s in
      case pl_kind l of
        LimitCount \<Rightarrow> int (length rows) + 1 \<le> pl_max l
      | LimitTotal \<Rightarrow> (\<exists>f v vs. presentStr (pl_field l) = Some f
          \<and> patchInteger (p_change_set p) (Some f) = Some v
          \<and> map (historyValue rt (Some f)) rows = map Some vs \<and> sum_list vs + v \<le> pl_max l))"

lemma map_Some_the: "None \<notin> set xs \<Longrightarrow> xs = map Some (map the xs)"
  by (induction xs) auto

definition clearOutcome :: "limit_outcome \<Rightarrow> bool" where
  "clearOutcome x \<longleftrightarrow> (case x of LimitTripped _ \<Rightarrow> False | _ \<Rightarrow> True)"

lemma optOr_the: "None \<notin> set xs \<Longrightarrow> map (\<lambda>x. optOr x d) xs = map the xs"
proof (rule map_cong [OF refl])
  fix x assume "None \<notin> set xs" "x \<in> set xs"
  then show "optOr x d = the x" by (cases x) auto
qed

lemma evaluateLimit_respected:
  assumes "clearOutcome (evaluateLimit rt actor p window s l)"
  shows "limitRespected rt actor p window s l"
proof (cases "pl_kind l")
  case LimitCount
  with assms show ?thesis
    by (auto simp: evaluateLimit_def limitRespected_def clearOutcome_def Let_def not_less split: if_splits)
next
  case LimitTotal
  let ?rows = "policyHistory actor p (optOr (pl_scope l) TenantPolicy) window s"
  let ?vs = "map (historyValue rt (presentStr (pl_field l))) ?rows"
  from LimitTotal assms obtain f v where f: "presentStr (pl_field l) = Some f" and ok: "None \<notin> set ?vs"
    and v: "patchInteger (p_change_set p) (Some f) = Some v"
    and le: "sum_list (map (\<lambda>x. optOr x 0) ?vs) + v \<le> pl_max l"
    by (auto simp: evaluateLimit_def clearOutcome_def Let_def not_less split: if_splits)
  have vs: "map (historyValue rt (Some f)) ?rows = map Some (map the ?vs)"
    using map_Some_the [OF ok] f by simp
  have "map (\<lambda>x. optOr x 0) ?vs = map the ?vs" by (rule optOr_the [OF ok])
  with le have "sum_list (map the ?vs) + v \<le> pl_max l" by (simp del: map_map)
  with f v vs show ?thesis
    unfolding limitRespected_def Let_def LimitTotal limit_kind.case by blast
qed

lemma trippedOf_Nil: "trippedOf xs = [] \<Longrightarrow> x \<in> set xs \<Longrightarrow> clearOutcome x"
  by (auto simp: trippedOf_def clearOutcome_def split: limit_outcome.splits)

lemma appendRows_tables:
  assumes "foldE (appendRow rt now) xs s = Inr t"
  shows "s_approvals t = s_approvals s" "getProposal q t = getProposal q s"
  using storeView_eqD(1,2) [OF store_log.appends_view [OF assms]] by (simp_all add: getProposal_def)

lemma approved_by_policy:
  assumes "approveProposalByPolicy rt clock pid opts s = Inr (d, t)" and "pd_approved d"
  shows "\<exists>p. getProposal pid s = Some p \<and> p_state p = PendingReview \<and> requiredApprovalCount p = 1
    \<and> p_hash p = po_hash opts \<and> p_version p = po_version opts
    \<and> (\<forall>l \<in> set (po_limits opts). limitRespected rt (policyActor opts) p
          (utcDayWindow (optOr (po_now opts) clock)) s l)
    \<and> s_approvals t = s_approvals s @ [policyApproval (optOr (po_now opts) clock) pid opts s]
    \<and> map_option p_state (getProposal pid t) = Some Approved"
  using assms(1)
proof (rule approveProposalByPolicy_effect [OF _ refl refl])
  fix p payload xs u
  let ?now = "optOr (po_now opts) clock"
  let ?a = "policyApproval ?now pid opts s"
  assume p: "requireProposal pid s = Inr p" "writable p" "p_hash p = po_hash opts"
      "p_version p = po_version opts" "p_state p = PendingReview" "requiredApprovalCount p \<le> 1"
    and clear: "trippedOf (map (evaluateLimit rt (policyActor opts) p (utcDayWindow ?now) s) (po_limits opts)) = []"
    and ev: "appendEvent rt clock pid ''proposal_approved'' (policyActor opts) payload None
         (addDecision rt ?now ?a (Some Approved) s) = Inr u"
    and rows: "foldE (appendRow rt clock) xs u = Inr t"
  have "limitRespected rt (policyActor opts) p (utcDayWindow ?now) s l" if "l \<in> set (po_limits opts)" for l
    by (rule evaluateLimit_respected) (use trippedOf_Nil [OF clear] that in auto)
  moreover have "s_approvals t = s_approvals s @ [?a]"
    by (simp add: appendRows_tables(1) [OF rows] appendEvent_tables(2) [OF ev])
  moreover have "ap_proposal_id ?a = p_id p" using p(1) by (auto simp: policyApproval_def newApproval_def)
  then have "map_option p_state (getProposal pid t) = Some Approved"
    using p(1)
    by (auto simp: appendRows_tables(2) [OF rows] appendEvent_tables(7) [OF ev] getProposal_require
        getProposal_updateState)
  ultimately show ?thesis
    using p requiredApprovalCount_pos [of p] by (auto simp: getProposal_require)
qed (use assms(2) in simp)

text \<open>C18: When a reviewed policy approves a proposal, a single approval was required, every one of its
  daily limits still has room for this proposal (a count for one more approval, a total for the
  value its patch sets, with every earlier value readable), and the one row added is the policy's.\<close>

theorem policy_approval_within_limits:
  assumes "approveProposalByPolicy rt clock pid opts s = Inr (d, t)" and "pd_approved d"
  shows "\<exists>p. getProposal pid s = Some p \<and> p_state p = PendingReview \<and> requiredApprovalCount p = 1
    \<and> p_hash p = po_hash opts \<and> p_version p = po_version opts
    \<and> (\<forall>l \<in> set (po_limits opts). limitRespected rt (policyActor opts) p
          (utcDayWindow (optOr (po_now opts) clock)) s l)
    \<and> s_approvals t = s_approvals s @ [policyApproval (optOr (po_now opts) clock) pid opts s]
    \<and> map_option p_state (getProposal pid t) = Some Approved"
  by (rule approved_by_policy [OF assms])

definition samplePolicy :: policy_options where
  "samplePolicy = \<lparr>po_policy = ''auto'', po_hash = ''sha256:h'', po_version = 1, po_reason = ''small'',
     po_limits = [\<lparr>pl_kind = LimitCount, pl_max = 2, pl_field = None, pl_scope = None\<rparr>,
       \<lparr>pl_kind = LimitTotal, pl_max = 9, pl_field = Some ''f'', pl_scope = None\<rparr>],
     po_now = Some 2000, po_freshness_proof_digest = None\<rparr>"

lemma sample_policy_approved: "(case approveProposalByPolicy sampleRuntime 2000 ''p'' samplePolicy createdStore of
    Inr (d, t) \<Rightarrow> pd_approved d | Inl _ \<Rightarrow> False)"
  by code_simp

theorem policy_approval_within_limits_witness:
  "\<exists>d t. approveProposalByPolicy sampleRuntime 2000 ''p'' samplePolicy createdStore = Inr (d, t)
     \<and> map_option p_state (getProposal ''p'' t) = Some Approved"
proof -
  from sample_policy_approved obtain d t
    where "approveProposalByPolicy sampleRuntime 2000 ''p'' samplePolicy createdStore = Inr (d, t)"
      "pd_approved d" by (auto split: sum.splits)
  with policy_approval_within_limits [OF this] show ?thesis by blast
qed

text \<open>A policy that does not approve (because several reviewers are required, or because a limit
  would be exceeded) changes no proposal and adds no approval: the decision stays with the reviewers.\<close>

theorem policy_deferral_changes_nothing:
  assumes "approveProposalByPolicy rt clock pid opts s = Inr (d, t)" and "\<not> pd_approved d"
  shows "s_proposals t = s_proposals s \<and> s_approvals t = s_approvals s \<and> s_queue t = s_queue s
    \<and> s_jobs t = s_jobs s \<and> s_intents t = s_intents s \<and> s_receipts t = s_receipts s
    \<and> length (s_events t) = length (s_events s) + 1"
  using assms(1)
proof (rule approveProposalByPolicy_effect [OF _ refl refl])
  fix p kind payload
  assume ev: "appendEvent rt clock pid kind (policyActor opts) payload None s = Inr t"
  then have "length (s_events t) = length (s_events s) + 1" by (rule appendEvent_shape) simp
  then show ?thesis using appendEvent_tables [OF ev] by simp
qed (use assms(2) in simp)

definition sampleStrictPolicy :: policy_options where
  "sampleStrictPolicy = samplePolicy\<lparr>po_limits :=
     [\<lparr>pl_kind = LimitTotal, pl_max = -1, pl_field = Some ''f'', pl_scope = None\<rparr>]\<rparr>"

lemma sample_policy_deferred: "(case approveProposalByPolicy sampleRuntime 2000 ''p'' sampleStrictPolicy createdStore of
    Inr (d, t) \<Rightarrow> \<not> pd_approved d | Inl _ \<Rightarrow> False)"
  by code_simp

theorem policy_deferral_changes_nothing_witness:
  "\<exists>d t. approveProposalByPolicy sampleRuntime 2000 ''p'' sampleStrictPolicy createdStore = Inr (d, t)
     \<and> s_proposals t = s_proposals createdStore"
proof -
  from sample_policy_deferred obtain d t
    where "approveProposalByPolicy sampleRuntime 2000 ''p'' sampleStrictPolicy createdStore = Inr (d, t)"
      "\<not> pd_approved d" by (auto split: sum.splits)
  with policy_deferral_changes_nothing [OF this] show ?thesis by blast
qed

text \<open>C32: A rejection is final: after it neither a reviewer nor a policy can approve the proposal, and it can
  neither be handed to a worker nor be turned into a writeback job.\<close>

theorem rejection_is_final:
  assumes "rejectProposal rt now pid opts s = Inr (q, t)"
  shows "p_state q = Rejected
    \<and> (\<exists>e. approveProposal rt now2 pid opts2 t = Inl e)
    \<and> (\<exists>e. approveProposalByPolicy rt now2 pid popts t = Inl e)
    \<and> (\<exists>e. markPendingWorker rt now2 pid h v t = Inl e)
    \<and> (\<exists>e. createWritebackJobFromProposal rt now2 pid jopts t = Inl e)
    \<and> (\<exists>e. rejectProposal rt now2 pid opts2 t = Inl e)"
proof -
  from assms obtain p kind payload u where p: "requireProposal pid s = Inr p"
    and ev: "appendEvent rt now pid kind (ao_approver opts) payload None u = Inr t"
    and u: "s_proposals u = s_proposals (updateProposalState rt now pid Rejected s)"
    and q: "requireProposal pid t = Inr q"
    by (auto simp: rejectProposal_def bindE_eq_Inr Let_def)
  have "getProposal pid t = getProposal pid (updateProposalState rt now pid Rejected s)"
    unfolding appendEvent_tables(7) [OF ev] by (simp add: getProposal_def u)
  with p q have t: "requireProposal pid t = Inr q" and st: "p_state q = Rejected"
    by (auto simp: getProposal_require getProposal_updateState dest: getProposal_in)
  have none: "\<exists>e. m = Inl e" if "\<And>y. m \<noteq> Inr y" for m :: "'z result"
    using that by (cases m) auto
  show ?thesis
  proof (intro conjI none)
    show "approveProposal rt now2 pid opts2 t \<noteq> Inr y" for y
      using t st by (auto simp: approveProposal_def bindE_eq_Inr assertPendingReview_def)
    show "approveProposalByPolicy rt now2 pid popts t \<noteq> Inr y" for y
      using t st by (auto simp: approveProposalByPolicy_def bindE_eq_Inr assertPendingReview_def Let_def)
    show "markPendingWorker rt now2 pid h v t \<noteq> Inr y" for y
      using t st by (auto simp: markPendingWorker_def bindE_eq_Inr)
    show "createWritebackJobFromProposal rt now2 pid jopts t \<noteq> Inr y" for y
      using t st by (auto simp: createWritebackJobFromProposal_def bindE_eq_Inr)
    show "rejectProposal rt now2 pid opts2 t \<noteq> Inr y" for y
      using t st by (auto simp: rejectProposal_def bindE_eq_Inr)
  qed (rule st)
qed

lemma sample_rejected: "(case rejectProposal sampleRuntime 2000 ''p'' sampleApproval createdStore of
    Inr (q, t) \<Rightarrow> True | Inl _ \<Rightarrow> False)"
  by code_simp

theorem rejection_is_final_witness:
  "\<exists>q t. rejectProposal sampleRuntime 2000 ''p'' sampleApproval createdStore = Inr (q, t)
     \<and> p_state q = Rejected \<and> (\<exists>e. approveProposal sampleRuntime 3000 ''p'' sampleApproval t = Inl e)"
proof -
  from sample_rejected obtain q t where "rejectProposal sampleRuntime 2000 ''p'' sampleApproval createdStore
      = Inr (q, t)" by (auto split: sum.splits)
  with rejection_is_final [OF this] show ?thesis by blast
qed

subsection \<open>Creation\<close>

lemma secretFree_passes: "secretFree j \<Longrightarrow> assertNoSecretMaterial j = Inr ()"
  by simp

text \<open>A created proposal is stored exactly as its change set describes, the change set parses and holds
  no secret-like key or string at any depth, and submitting the same change set again, at any later
  time, returns the stored proposal and changes nothing.\<close>

theorem creation_is_idempotent:
  assumes "createProposal rt now c s = Inr (p, t)"
  shows "getProposal (cs_proposal_id c) t = Some p \<and> p_hash p = cs_proposal_hash c
    \<and> p_version p = cs_proposal_version c \<and> secretFree (changeSetJson c)
    \<and> parseChangeSet rt c = Inr c \<and> createProposal rt later c t = Inr (p, t)
    \<and> (getProposal (cs_proposal_id c) s = None \<longrightarrow> p = proposalOf c)"
proof -
  from assms have c: "parseChangeSet rt c = Inr c" "secretFree (changeSetJson c)"
    by (auto simp: createProposal_def bindE_eq_Inr dest: parseChangeSet_id)
  have p: "getProposal (cs_proposal_id c) t = Some p \<and> p_hash p = cs_proposal_hash c
      \<and> p_version p = cs_proposal_version c \<and> (getProposal (cs_proposal_id c) s = None \<longrightarrow> p = proposalOf c)"
  proof (cases "getProposal (cs_proposal_id c) s")
    case (Some x)
    with assms c show ?thesis by (auto simp: createProposal_def bindE_eq_Inr)
  next
    case None
    with assms c obtain u kind payload where
      ev: "appendEvent rt now (cs_proposal_id c) kind (cs_principal_id c) payload None
          (s\<lparr>s_proposals := s_proposals s @ [proposalOf c]\<rparr>) = Inr u"
      and t: "s_proposals t = s_proposals u" and p: "getProposal (cs_proposal_id c) t = Some p"
      by (auto simp: createProposal_def bindE_eq_Inr Let_def attachShadowChangeSetToActiveStudies_def
          split: if_splits)
    have "getProposal (cs_proposal_id c) t
        = getProposal (cs_proposal_id c) (s\<lparr>s_proposals := s_proposals s @ [proposalOf c]\<rparr>)"
      using appendEvent_tables(1) [OF ev] by (simp add: getProposal_def t)
    also have "\<dots> = Some (proposalOf c)"
      using None by (simp add: getProposal_def findRow_append findRow_Cons proposalOf_def)
    finally show ?thesis using p by (simp add: proposalOf_def)
  qed
  with c show ?thesis by (simp add: createProposal_def secretFree_passes)
qed

theorem creation_is_idempotent_witness:
  "createProposal sampleRuntime 9000 sampleChange createdStore
    = Inr (sampleProposal PendingReview False ''t'', createdStore)"
  using creation_is_idempotent [OF created] by blast

text \<open>A stored proposal is immutable: submitting a change set under its id with another hash or another
  version is refused, whatever the rest of it says.\<close>

theorem resubmission_must_match:
  assumes "getProposal (cs_proposal_id c) s = Some p"
    and "p_hash p \<noteq> cs_proposal_hash c \<or> p_version p \<noteq> cs_proposal_version c"
  shows "\<exists>e. createProposal rt now c s = Inl e
    \<and> (parseChangeSet rt c = Inr c \<and> secretFree (changeSetJson c) \<longrightarrow>
         e = storeErr ''PROPOSAL_IMMUTABILITY_VIOLATION'')"
proof -
  have "createProposal rt now c s \<noteq> Inr r" for r
    using assms by (auto simp: createProposal_def bindE_eq_Inr dest: parseChangeSet_id)
  then obtain e where e: "createProposal rt now c s = Inl e" by (meson sum.exhaust)
  with assms show ?thesis by (auto simp: createProposal_def secretFree_passes)
qed

theorem resubmission_must_match_witness:
  "createProposal sampleRuntime 5000 (sampleChange\<lparr>cs_proposal_hash := ''sha256:other''\<rparr>) createdStore
     \<noteq> Inr (sampleProposal PendingReview False ''t'', createdStore)"
proof -
  let ?c = "sampleChange\<lparr>cs_proposal_hash := ''sha256:other''\<rparr>"
  have "getProposal (cs_proposal_id ?c) createdStore = Some (sampleProposal PendingReview False ''t'')"
    by code_simp
  from resubmission_must_match [OF this, of sampleRuntime 5000] show ?thesis
    by (auto simp: sampleProposal_def proposalOf_def sampleChange_def)
qed

end
