(* ===== verification/WritebackProperties.thy ===== *)
theory WritebackProperties
  imports ProposalProperties
begin

text \<open>
  What one call of a writeback operation guarantees: the authority a job carries, the intent that
  crosses the mutation boundary once, the finality of a completed intent, and the recording of
  receipts.
\<close>

subsection \<open>Jobs\<close>

lemma getProposal_upsertJob [simp]: "getProposal q (upsertJob now jid pid h j s) = getProposal q s"
  by (simp add: getProposal_def upsertJob_def)




subsection \<open>Intents\<close>

lemma requireIntent_get: "requireWritebackIntent iid s = Inr i \<longleftrightarrow> getWritebackIntent iid s = Some i"
  by (simp add: requireWritebackIntent_def)

lemma getIntent_update:
  "(\<And>i. in_id (f i) = in_id i) \<Longrightarrow> getWritebackIntent iid (updateIntent iid f s)
     = map_option f (getWritebackIntent iid s)"
  by (cases "findRow in_id iid (s_intents s)")
    (auto simp: getWritebackIntent_def updateIntent_def findRow_updateWhere dest: findRow_SomeD)

lemma thenEvent_intents:
  assumes "thenEvent u (appendEvent rt now pid kind actor payload x u) = (e, t)"
  shows "getWritebackIntent iid t = getWritebackIntent iid u"
  using assms by (auto simp: thenEvent_def appendEvent_tables(9) split: sum.splits)

lemma claim_uncertain:
  assumes i: "getWritebackIntent (''wbi:'' @ jb_id j) t = Some i" and live: "uncertainIntent (in_status i)"
    and j: "parseWritebackJob rt input = Inr j"
    and run: "claimWritebackIntent rt now input runner t = Inr (d, u)"
  shows "u = t \<and> (\<exists>m. d = NeedsReconciliation m)"
proof -
  have "\<not> terminalIntent (in_status i)"
    using live by (auto simp: uncertainIntent_def terminalIntent_def)
  with assms show ?thesis
    by (auto simp: claimWritebackIntent_def bindE_eq_Inr Let_def newIntent_def decideExisting_def)
qed

text \<open>An intent crosses the mutation boundary once: it must be freshly recorded, a second attempt to apply
  it is refused whoever makes it, and from then on a claim of its job never answers \<open>proceed\<close> (or an
  existing result) but asks for reconciliation and writes nothing.\<close>

theorem intent_applies_once:
  assumes run: "markWritebackIntentApplying rt now iid runner s = (None, t)"
  shows "map_option in_status (getWritebackIntent iid s) = Some IntentRecorded
    \<and> map_option in_status (getWritebackIntent iid t) = Some IntentApplying
    \<and> markWritebackIntentApplying rt now2 iid runner2 t = (Some (storeErr ''WRITEBACK_INTENT_NOT_CLAIMABLE''), t)
    \<and> (parseWritebackJob rt input = Inr j \<and> ''wbi:'' @ jb_id j = iid
        \<and> claimWritebackIntent rt now2 input runner2 t = Inr (d, u) \<longrightarrow>
          u = t \<and> (\<exists>m. d = NeedsReconciliation m))"
proof -
  let ?f = "\<lambda>x. x\<lparr>in_status := IntentApplying, in_runner_id := runner,
                in_reconciliation_reason := None, in_updated_at := now\<rparr>"
  from run obtain i kind payload where i: "getWritebackIntent iid s = Some i" "in_status i = IntentRecorded"
    and ev: "thenEvent (updateIntent iid ?f s) (appendEvent rt now (in_proposal_id i) kind runner payload None
        (updateIntent iid ?f s)) = (None, t)"
    by (auto simp: markWritebackIntentApplying_def requireIntent_get Let_def split: sum.splits if_splits)
  have t: "getWritebackIntent iid t = Some (?f i)"
    unfolding thenEvent_intents [OF ev] by (subst getIntent_update) (simp_all add: i)
  then have again: "requireWritebackIntent iid t = Inr (?f i)" by (simp add: requireIntent_get)
  have "u = t \<and> (\<exists>m. d = NeedsReconciliation m)"
    if "parseWritebackJob rt input = Inr j" "''wbi:'' @ jb_id j = iid"
      "claimWritebackIntent rt now2 input runner2 t = Inr (d, u)"
    by (rule claim_uncertain [OF _ _ that(1,3)]) (use t that(2) in \<open>auto simp: uncertainIntent_def\<close>)
  with i t again show ?thesis by (simp add: markWritebackIntentApplying_def)
qed

theorem intent_applies_once_witness:
  "markWritebackIntentApplying sampleRuntime 9000 ''wbi:wbj_p'' ''x'' applyingStore
     = (Some (storeErr ''WRITEBACK_INTENT_NOT_CLAIMABLE''), applyingStore)"
  using intent_applies_once [OF applying] by blast

lemma parseWritebackResult_id: "parseWritebackResult rt w = Inr x \<Longrightarrow> x = w"
  by (auto simp: parseWritebackResult_def split: result_version.splits)

lemma completeWritebackIntent_moves:
  assumes "completeWritebackIntent rt now iid w s = (None, t)" and "getWritebackIntent iid s = Some i"
    and "uncertainIntent (in_status i)"
  shows "getWritebackIntent iid t = Some (i\<lparr>in_status := IntentTerminal (wr_status w),
     in_result := Some w, in_reconciliation_reason := completionReason (wr_status w), in_updated_at := now\<rparr>)
   \<and> wr_job_id w = in_writeback_job_id i \<and> wr_status w \<noteq> TCanceled \<and> parseWritebackResult rt w = Inr w"
proof -
  let ?f = "\<lambda>x. x\<lparr>in_status := IntentTerminal (wr_status w), in_result := Some w,
     in_reconciliation_reason := completionReason (wr_status w), in_updated_at := now\<rparr>"
  from assms obtain x where x: "parseWritebackResult rt w = Inr x"
    by (auto simp: completeWritebackIntent_def bindE_eq_Inr split: sum.splits)
  with parseWritebackResult_id have w: "parseWritebackResult rt w = Inr w" by metis
  with assms obtain kind payload where w2: "wr_job_id w = in_writeback_job_id i" "wr_status w \<noteq> TCanceled"
    and ev: "thenEvent (updateIntent iid ?f s) (appendEvent rt now (in_proposal_id i) kind (wr_runner_id w)
        payload None (updateIntent iid ?f s)) = (None, t)"
    by (auto simp: completeWritebackIntent_def requireIntent_get bindE_eq_Inr Let_def
        split: sum.splits if_splits)
  have "getWritebackIntent iid t = Some (?f i)"
    unfolding thenEvent_intents [OF ev] by (subst getIntent_update) (simp_all add: assms(2))
  with w w2 show ?thesis by simp
qed

text \<open>A completed intent keeps its result: once a definite outcome has been recorded, reporting the same
  result again succeeds and changes nothing, every other result for the job is refused, and a claim of
  the job returns the recorded result.\<close>

theorem completion_is_final:
  assumes "completeWritebackIntent rt now iid w s = (None, t)" and "getWritebackIntent iid s = Some i"
    and "uncertainIntent (in_status i)" and "wr_status w \<noteq> TReconciliationRequired"
  shows "map_option in_result (getWritebackIntent iid t) = Some (Some w)
    \<and> completeWritebackIntent rt now2 iid w t = (None, t)
    \<and> (w2 \<noteq> w \<longrightarrow> (\<exists>e. completeWritebackIntent rt now2 iid w2 t = (Some e, t)))
    \<and> (parseWritebackJob rt input = Inr j \<and> ''wbi:'' @ jb_id j = iid
        \<and> claimWritebackIntent rt now2 input runner t = Inr (d, u) \<longrightarrow> u = t \<and> d = ExistingResult w)"
proof -
  let ?i = "i\<lparr>in_status := IntentTerminal (wr_status w), in_result := Some w,
     in_reconciliation_reason := completionReason (wr_status w), in_updated_at := now\<rparr>"
  from completeWritebackIntent_moves [OF assms(1-3)]
  have t: "getWritebackIntent iid t = Some ?i" and w: "wr_job_id w = in_writeback_job_id i"
    "wr_status w \<noteq> TCanceled" "parseWritebackResult rt w = Inr w" by auto
  from t have req: "requireWritebackIntent iid t = Inr ?i" by (simp add: requireIntent_get)
  have live: "\<not> uncertainIntent (IntentTerminal (wr_status w))" "terminalIntent (IntentTerminal (wr_status w))"
    using assms(4) w(2) by (cases "wr_status w"; simp add: uncertainIntent_def terminalIntent_def)+
  have same: "completeWritebackIntent rt now2 iid w t = (None, t)"
    using req w live by (simp add: completeWritebackIntent_def)
  have other: "\<exists>e. completeWritebackIntent rt now2 iid w2 t = (Some e, t)" if "w2 \<noteq> w"
    using req live that parseWritebackResult_id [of rt w2]
    by (auto simp: completeWritebackIntent_def bindE_eq_Inr split: sum.splits)
  have "u = t \<and> d = ExistingResult w"
    if "parseWritebackJob rt input = Inr j" "''wbi:'' @ jb_id j = iid"
      "claimWritebackIntent rt now2 input runner t = Inr (d, u)"
    using that t live
    by (auto simp: claimWritebackIntent_def bindE_eq_Inr Let_def newIntent_def decideExisting_def)
  with t same other show ?thesis by simp
qed

theorem completion_is_final_witness:
  "completeWritebackIntent sampleRuntime 9000 ''wbi:wbj_p'' sampleResult appliedStore = (None, appliedStore)"
proof -
  have i: "getWritebackIntent ''wbi:wbj_p'' receiptStore = Some applyingIntent" by code_simp
  have "uncertainIntent (in_status applyingIntent)" "wr_status sampleResult \<noteq> TReconciliationRequired"
    by code_simp+
  from completion_is_final [OF intent_completed i this] show ?thesis by blast
qed

subsection \<open>Receipts\<close>

lemma getProposal_insertReceipt [simp]: "getProposal q (insertReceipt r s) = getProposal q s"
  and getProposal_finish [simp]: "getProposal q (finishJob r s) = getProposal q s"
  and getProposal_replace [simp]: "getProposal q (replaceIdempotency r s) = getProposal q s"
  and getProposal_updateIntent [simp]: "getProposal q (updateIntent iid f s) = getProposal q s"
  by (simp_all add: getProposal_def finishJob_def replaceIdempotency_def updateIntent_def)

lemma getProposal_applyReceipt: "getProposal q (applyReceipt rt r p s)
    = map_option (\<lambda>x. if p_id x = rc_proposal_id r then x\<lparr>p_state := stateFromReceipt r,
        p_source_database_mutated := (rc_source_database_mutated r \<or> p_source_database_mutated p),
        p_updated_at := isoString rt (rc_executed_at r)\<rparr> else x) (getProposal q s)"
  by (simp add: getProposal_def applyReceipt_def findRow_updateWhere)

lemma receiptRows_tables:
  assumes "recordExecutionReceiptRows rt now r p s = Inr t"
  shows "s_receipts t = s_receipts (insertReceipt r s)"
    "getProposal q t = getProposal q (applyReceipt rt r p s)"
    "map_option jr_status (findRow jr_id (rc_writeback_job_id r) (s_jobs t)) = Some (JobTerminal (rc_status r))"
    "s_intents t = s_intents s" "s_queue t = s_queue s"
proof -
  let ?u = "finishJob r (replaceIdempotency r (applyReceipt rt r p (insertReceipt r s)))"
  from assms obtain kind actor payload where ev: "appendEvent rt now (rc_proposal_id r) kind actor payload None ?u = Inr t"
    and job: "findRow jr_id (rc_writeback_job_id r) (s_jobs s) \<noteq> None"
    by (auto simp: recordExecutionReceiptRows_def bindE_eq_Inr)
  show "s_receipts t = s_receipts (insertReceipt r s)"
    by (simp add: appendEvent_tables(6) [OF ev] finishJob_def replaceIdempotency_def applyReceipt_def)
  show "getProposal q t = getProposal q (applyReceipt rt r p s)"
    by (simp add: appendEvent_tables(7) [OF ev] getProposal_applyReceipt)
  show "s_intents t = s_intents s" "s_queue t = s_queue s"
    by (simp_all add: appendEvent_tables(3,4) [OF ev] finishJob_def replaceIdempotency_def applyReceipt_def
        insertReceipt_def)
  from job obtain j where "findRow jr_id (rc_writeback_job_id r) (s_jobs s) = Some j" by blast
  with findRow_SomeD [OF this] show "map_option jr_status (findRow jr_id (rc_writeback_job_id r) (s_jobs t)) = Some (JobTerminal (rc_status r))"
    by (simp add: appendEvent_tables(5) [OF ev] finishJob_def findRow_updateWhere replaceIdempotency_def)
qed

lemma insertReceipt_present: "list_ex (\<lambda>x. rr_writeback_job_id x = rc_writeback_job_id r
    \<and> rr_idempotency_key x = rc_idempotency_key r) (s_receipts (insertReceipt r s))"
  by (simp add: insertReceipt_def receiptRow_def)

text \<open>Recording a receipt leaves one row for its job and idempotency key, moves the proposal to the state the
  receipt reports and its job to the receipt's status, and never forgets a mutation; recording the
  same receipt again adds no row.\<close>

theorem receipt_recording_is_idempotent:
  assumes "recordExecutionReceipt rt now r s = Inr (q, t)"
  shows "p_state q = stateFromReceipt r \<and> getProposal (rc_proposal_id r) t = Some q
    \<and> p_source_database_mutated q = (rc_source_database_mutated r
          \<or> (\<exists>p. getProposal (rc_proposal_id r) s = Some p \<and> p_source_database_mutated p))
    \<and> (\<exists>row \<in> set (s_receipts t). rr_writeback_job_id row = rc_writeback_job_id r
          \<and> rr_idempotency_key row = rc_idempotency_key r)
    \<and> map_option jr_status (findRow jr_id (rc_writeback_job_id r) (s_jobs t)) = Some (JobTerminal (rc_status r))
    \<and> (recordExecutionReceipt rt now2 r t = Inr (q2, u) \<longrightarrow>
         s_receipts u = s_receipts t \<and> p_state q2 = p_state q)"
proof -
  have effect: "\<exists>p. getProposal (rc_proposal_id r) s = Some p \<and> recordExecutionReceiptRows rt now r p s = Inr t
      \<and> getProposal (rc_proposal_id r) t = Some q"
    if "recordExecutionReceipt rt now r s = Inr (q, t)" for now s q t
    using that parseExecutionReceipt_id
    by (fastforce simp: recordExecutionReceipt_def bindE_eq_Inr getProposal_require)
  from effect [OF assms] obtain p where p: "getProposal (rc_proposal_id r) s = Some p"
    and rows: "recordExecutionReceiptRows rt now r p s = Inr t" and q: "getProposal (rc_proposal_id r) t = Some q"
    by blast
  have state: "p_state q = stateFromReceipt r" "p_source_database_mutated q =
      (rc_source_database_mutated r \<or> p_source_database_mutated p)"
    using q p getProposal_in [OF p] by (auto simp: receiptRows_tables(2) [OF rows] getProposal_applyReceipt)
  have there: "list_ex (\<lambda>x. rr_writeback_job_id x = rc_writeback_job_id r
    \<and> rr_idempotency_key x = rc_idempotency_key r) (s_receipts t)"
    unfolding receiptRows_tables(1) [OF rows] by (rule insertReceipt_present)
  have "s_receipts u = s_receipts t \<and> p_state q2 = p_state q"
    if again: "recordExecutionReceipt rt now2 r t = Inr (q2, u)"
  proof -
    from effect [OF again] q obtain rows2: "recordExecutionReceiptRows rt now2 r q t = Inr u"
      and q2: "getProposal (rc_proposal_id r) u = Some q2" by auto
    have "s_receipts u = s_receipts t"
      using there by (simp add: receiptRows_tables(1) [OF rows2] insertReceipt_def)
    moreover have "p_state q2 = stateFromReceipt r"
      using q2 q getProposal_in [OF q] by (auto simp: receiptRows_tables(2) [OF rows2] getProposal_applyReceipt)
    ultimately show ?thesis using state by simp
  qed
  with state there p q receiptRows_tables(3) [OF rows] show ?thesis by (auto simp: list_ex_iff)
qed

theorem receipt_recording_is_idempotent_witness:
  "p_state (sampleProposal Applied True ''t'') = stateFromReceipt sampleReceipt
    \<and> (\<exists>row \<in> set (s_receipts receiptStore). rr_writeback_job_id row = ''wbj_p'')"
proof -
  have "rc_writeback_job_id sampleReceipt = ''wbj_p''" by (simp add: sampleReceipt_def)
  with receipt_recording_is_idempotent [OF receipt_recorded] show ?thesis by metis
qed

subsection \<open>Reconciliation\<close>

lemma reconcileQueue_tables:
  assumes "reconcileQueue rt now x i r s = Inr t"
  shows "getProposal q t = getProposal q s" "s_intents t = s_intents s" "s_receipts t = s_receipts s"
  using assms
  by (auto simp: reconcileQueue_def Let_def getProposal_def appendEvent_tables split: if_splits)

text \<open>C24: Reconciliation settles an intent whose outcome was unknown, and only on a receipt of the runner's own
  ledger that names the intent's job, proposal, hash and operation and reports a definite outcome,
  by an actor whose signed decision (when given, and verified when required) is bound to the
  reconciliation of this proposal revision.  The intent takes the receipt's outcome and result, and
  the proposal the state the receipt reports.\<close>

theorem reconciliation_settles_intent:
  assumes "reconcileWritebackIntent rt now x s = Inr (j, t)"
  shows "\<exists>i p w. getWritebackIntent (ri_intent_id x) s = Some i \<and> uncertainIntent (in_status i)
    \<and> getProposal (in_proposal_id i) s = Some p
    \<and> rc_receipt_authority (ri_receipt x) = RunnerLedger
    \<and> rc_writeback_job_id (ri_receipt x) = in_writeback_job_id i
    \<and> rc_proposal_hash (ri_receipt x) = in_proposal_hash i \<and> rc_operation (ri_receipt x) = in_operation i
    \<and> rc_status (ri_receipt x) \<in> {TApplied, TConflict, TFailed}
    \<and> assertOperatorDecision p DReconcile (ri_actor x) (ri_identity x) (ri_require_verified x) = Inr ()
    \<and> in_status j = IntentTerminal (rc_status (ri_receipt x)) \<and> in_result j = Some w
    \<and> wr_status w = rc_status (ri_receipt x) \<and> wr_job_id w = in_writeback_job_id i
    \<and> map_option p_state (getProposal (in_proposal_id i) t) = Some (stateFromReceipt (ri_receipt x))"
  using assms
proof (rule reconcileWritebackIntent_effect)
  fix i p w u v payload and r :: receipt
  let ?f = "\<lambda>y. y\<lparr>in_status := IntentTerminal (rc_status r), in_result := Some w,
          in_reconciliation_reason := Some (take 500 (trimStr (ri_reason x))),
          in_updated_at := rc_executed_at r\<rparr>"
  assume i: "requireWritebackIntent (ri_intent_id x) s = Inr i"
    and p: "requireProposal (in_proposal_id i) s = Inr p" and live: "uncertainIntent (in_status i)"
    and parsed: "parseExecutionReceipt rt (ri_receipt x) = Inr r" and w: "receiptToWritebackResult rt r = Inr w"
    and r: "rc_receipt_authority r = RunnerLedger" "rc_writeback_job_id r = in_writeback_job_id i"
       "rc_proposal_id r = in_proposal_id i" "rc_proposal_hash r = in_proposal_hash i"
       "rc_operation r = in_operation i" "rc_status r \<in> {TApplied, TConflict, TFailed}"
    and d: "assertOperatorDecision p DReconcile (ri_actor x) (ri_identity x) (ri_require_verified x) = Inr ()"
    and ev: "appendEvent rt now (in_proposal_id i) ''writeback_reconciled'' (ri_actor x) payload None
       (updateIntent (in_id i) ?f s) = Inr u"
    and rows: "recordExecutionReceiptRows rt now r p u = Inr v" and q: "reconcileQueue rt now x i r v = Inr t"
    and j: "requireWritebackIntent (in_id i) t = Inr j"
  have rx: "ri_receipt x = r" using parseExecutionReceipt_id [OF parsed] by simp
  have iid: "in_id i = ri_intent_id x" using requireWritebackIntent_in [OF i] by simp
  have "getWritebackIntent (in_id i) t = getWritebackIntent (in_id i) (updateIntent (in_id i) ?f s)"
    unfolding getWritebackIntent_def reconcileQueue_tables(2) [OF q] receiptRows_tables(4) [OF rows]
      appendEvent_tables(4) [OF ev] ..
  also have "\<dots> = Some (?f i)" using i by (subst getIntent_update) (simp_all add: requireIntent_get iid)
  finally have "j = ?f i" using j by (simp add: requireIntent_get)
  moreover have "map_option p_state (getProposal (in_proposal_id i) t) = Some (stateFromReceipt r)"
    using p requireProposal_in [OF p] r(3)
    by (auto simp: reconcileQueue_tables(1) [OF q] receiptRows_tables(2) [OF rows] getProposal_applyReceipt
        appendEvent_tables(7) [OF ev] getProposal_require)
  moreover have "wr_status w = rc_status r" "wr_job_id w = rc_writeback_job_id r"
    using receiptToWritebackResult_eq [OF w] by auto
  ultimately show ?thesis
    using i p live r d by (auto simp: rx requireIntent_get getProposal_require)
qed

definition sampleReconcile :: reconcile_input where
  "sampleReconcile = \<lparr>ri_intent_id = ''wbi:wbj_p'', ri_receipt = sampleReceipt, ri_actor = ''op'',
     ri_reason = ''row checked'', ri_observation = JObj [], ri_identity = None,
     ri_require_verified = False\<rparr>"

lemma sample_reconciled: "(case reconcileWritebackIntent sampleRuntime 8000 sampleReconcile applyingStore of
    Inr (j, t) \<Rightarrow> True | Inl _ \<Rightarrow> False)"
  by code_simp

theorem reconciliation_settles_intent_witness:
  "\<exists>j t. reconcileWritebackIntent sampleRuntime 8000 sampleReconcile applyingStore = Inr (j, t)
     \<and> in_status j = IntentTerminal TApplied"
proof -
  from sample_reconciled obtain j t
    where "reconcileWritebackIntent sampleRuntime 8000 sampleReconcile applyingStore = Inr (j, t)"
    by (auto split: sum.splits)
  with reconciliation_settles_intent [OF this] show ?thesis
    by (auto simp: sampleReconcile_def sampleReceipt_def)
qed

end
