(* ===== verification/QueueProperties.thy ===== *)
theory QueueProperties
  imports ProposalProperties
begin

text \<open>
  What one call of a queue operation guarantees: when an item is enqueued, which item a claim leases
  and to whom, who may finish a leased item, when a retry becomes a dead letter, and when a dead
  letter may be put back.
\<close>

subsection \<open>Lookups\<close>

lemma getItem_require: "requireWorkerQueueItem pid s = Inr w \<longleftrightarrow> workerQueueItem pid s = Some w"
  by (simp add: requireWorkerQueueItem_def)

lemma getItem_update:
  "(\<And>w. wq_proposal_id (f w) = wq_proposal_id w) \<Longrightarrow> workerQueueItem q (updateItem pid f s)
     = map_option (\<lambda>w. if wq_proposal_id w = pid then f w else w) (workerQueueItem q s)"
  by (simp add: workerQueueItem_def updateItem_def findRow_updateWhere)

lemma getItem_in: "workerQueueItem pid s = Some w \<Longrightarrow> w \<in> set (s_queue s) \<and> wq_proposal_id w = pid"
  by (auto simp: workerQueueItem_def dest: findRow_SomeD)

lemma getItem_updateState [simp]: "workerQueueItem q (updateProposalState rt now pid st s) = workerQueueItem q s"
  by (simp add: workerQueueItem_def updateProposalState_def)

lemma queue_updateState [simp]: "s_queue (updateProposalState rt now pid st s) = s_queue s"
  by (simp add: updateProposalState_def)

lemma getItem_unique: "store_ok rt s \<Longrightarrow> w \<in> set (s_queue s) \<Longrightarrow> workerQueueItem (wq_proposal_id w) s = Some w"
  by (auto simp: workerQueueItem_def store_ok_def queue_ok_def intro: findRow_distinct)

subsection \<open>Enqueueing\<close>

text \<open>Only an approved proposal is enqueued, a supervised item only under a full contract digest, and an item
  that is already queued is returned unchanged, provided its execution mode and digest are the ones asked
  for; a new item starts with no attempt, no lease and a bounded retry budget.\<close>

theorem enqueue_requires_approval:
  assumes "enqueueWorkerProposal rt clock opts s = Inr (w, t)"
  shows "(\<exists>p. getProposal (eo_proposal_id opts) s = Some p \<and> p_state p \<in> {Approved, PendingWorker})
    \<and> wq_execution_mode w = optOr (eo_execution_mode opts) Legacy
    \<and> wq_contract_digest w = eo_contract_digest opts
    \<and> (wq_execution_mode w = SupervisedWorker \<longrightarrow> (\<exists>d. wq_contract_digest w = Some d \<and> sha256Full d))
    \<and> (case workerQueueItem (eo_proposal_id opts) s of
         Some v \<Rightarrow> t = s \<and> w = v
       | None \<Rightarrow> wq_status w = Queued \<and> wq_attempts w = 0 \<and> wq_lease_owner w = None
           \<and> 1 \<le> wq_max_attempts w \<and> wq_max_attempts w \<le> 100 \<and> s_queue t = s_queue s @ [w])"
proof -
  from assms obtain p where p: "getProposal (eo_proposal_id opts) s = Some p"
      "p_state p = Approved \<or> p_state p = PendingWorker"
    and digest: "optOr (eo_execution_mode opts) Legacy = SupervisedWorker \<Longrightarrow>
       presentStr (eo_contract_digest opts) \<noteq> None"
      "\<And>d. presentStr (eo_contract_digest opts) = Some d \<Longrightarrow> sha256Full d"
    by (auto simp: enqueueWorkerProposal_def bindE_eq_Inr getProposal_require Let_def split: option.splits)
  have pid: "p_id p = eo_proposal_id opts" using getProposal_in [OF p(1)] by simp
  have sha: "\<exists>d. eo_contract_digest opts = Some d \<and> sha256Full d"
    if "optOr (eo_execution_mode opts) Legacy = SupervisedWorker"
    using digest that by (auto simp: presentStr_def split: if_splits)
  show ?thesis
  proof (cases "workerQueueItem (eo_proposal_id opts) s")
    case (Some v)
    with assms p pid sha show ?thesis
      by (auto simp: enqueueWorkerProposal_def bindE_eq_Inr getProposal_require getItem_require Let_def)
  next
    case None
    let ?item = "newQueueItem (eo_proposal_id opts) (optOr (eo_execution_mode opts) Legacy)
       (eo_contract_digest opts) (clampTo 1 100 (optOr (eo_max_attempts opts) 5)) (optOr (eo_now opts) clock)"
    from None assms p pid obtain kind payload where
      ev: "appendEvent rt clock (p_id p) kind ''runner'' payload None (s\<lparr>s_queue := s_queue s @ [?item]\<rparr>) = Inr t"
      and w: "workerQueueItem (eo_proposal_id opts) t = Some w"
      by (auto simp: enqueueWorkerProposal_def bindE_eq_Inr getProposal_require getItem_require Let_def)
    have "workerQueueItem (eo_proposal_id opts) t = Some ?item"
      using None by (simp add: appendEvent_tables(8) [OF ev])
        (simp add: workerQueueItem_def findRow_append findRow_Cons newQueueItem_def)
    with w have "w = ?item" by simp
    moreover have "s_queue t = s_queue s @ [?item]" by (simp add: appendEvent_tables(3) [OF ev])
    ultimately show ?thesis
      using None p sha clampTo_bounds [of 1 100 "optOr (eo_max_attempts opts) 5"]
      by (auto simp: newQueueItem_def)
  qed
qed

theorem enqueue_requires_approval_witness:
  "wq_attempts queuedItem = 0 \<and> s_queue queuedStore = s_queue approvedStore @ [queuedItem]"
proof -
  have "workerQueueItem (eo_proposal_id sampleEnqueue) approvedStore = None" by code_simp
  with enqueue_requires_approval [OF item_queued] show ?thesis by simp
qed

subsection \<open>Claims\<close>

lemma nextClaim_first:
  assumes "nextClaim opts now s = Some q" and "x \<in> set (s_queue s)" and "claimable opts now s x"
  shows "x = q \<or> claimBefore q x"
proof -
  let ?xs = "filter (claimable opts now s) (s_queue s)"
  from assms(1) obtain qs where qs: "sortBy claimBefore ?xs = q # qs"
    by (auto simp: nextClaim_def split: list.splits)
  have "sorted_wrt claimBefore (sortBy claimBefore ?xs)"
    by (rule sorted_sortBy) (auto simp: claimBefore_def)
  moreover have "x \<in> set (sortBy claimBefore ?xs)" using assms(2,3) by simp
  ultimately show ?thesis unfolding qs by auto
qed

definition claimNow :: "claim_options \<Rightarrow> time \<Rightarrow> time" where
  "claimNow opts clock = optOr (cl_now opts) clock"

lemma claimWorkerItem_effect:
  assumes "claimWorkerItem rt clock opts s = Inr (Some w, t)"
  obtains q p where "nextClaim opts (claimNow opts clock) s = Some q"
    and "getProposal (wq_proposal_id q) s = Some p"
    and "\<not> atCapacity opts (claimNow opts clock) s" "\<not> rateLimited opts (claimNow opts clock) s"
    and "\<not> proposalExpired rt opts (claimNow opts clock) p"
    and "claimTrips rt opts p (claimNow opts clock) s = []"
    and "grantLease rt clock opts (claimNow opts clock) q p s = Inr t"
    and "workerQueueItem (wq_proposal_id q) t = Some w"
  using assms that
  by (auto simp: claimWorkerItem_def claimNow_def Let_def bindE_eq_Inr mapE_eq_Inr getProposal_require
      split: if_splits option.splits)

lemma grantLease_item:
  assumes "grantLease rt clock opts now q p s = Inr t" and "workerQueueItem (wq_proposal_id q) s = Some q"
  shows "workerQueueItem (wq_proposal_id q) t = Some (leaseItem (cl_worker_id opts)
      (workerLeaseId rt (wq_proposal_id q) (cl_worker_id opts) (wq_attempts q + 1) now)
      (now + clampTo 15 3600 (optOr (cl_lease_seconds opts) 60) * 1000) now q)"
  using assms(1) unfolding grantLease_def Let_def
  by (auto simp: appendEvent_tables(8) getItem_update assms(2) split: if_splits)

text \<open>A claim that returns an item has leased the first eligible one: it was waiting and due (or its lease had
  lapsed), its proposal was approved, handed over or failed, the caller's scope, capacity, rate, age
  and policy limits all allowed it, and it now carries the caller's lease, bounded in time, with one
  more attempt.\<close>

theorem claim_leases_first_eligible:
  assumes "claimWorkerItem rt clock opts s = Inr (Some w, t)" and "store_ok rt s"
  shows "\<exists>q p. q \<in> set (s_queue s) \<and> getProposal (wq_proposal_id q) s = Some p
    \<and> claimable opts (claimNow opts clock) s q
    \<and> (\<forall>x \<in> set (s_queue s). claimable opts (claimNow opts clock) s x \<longrightarrow> x = q \<or> claimBefore q x)
    \<and> (\<forall>m. cl_max_concurrent opts = Some m \<longrightarrow> int (countWhere (\<lambda>x. leaseAlive (claimNow opts clock) x
           \<and> claimScope opts s x) (s_queue s)) < clampTo 1 32 m)
    \<and> \<not> rateLimited opts (claimNow opts clock) s \<and> \<not> proposalExpired rt opts (claimNow opts clock) p
    \<and> claimTrips rt opts p (claimNow opts clock) s = []
    \<and> workerQueueItem (wq_proposal_id q) t = Some w \<and> wq_status w = Leased
    \<and> wq_lease_owner w = Some (cl_worker_id opts) \<and> wq_attempts w = wq_attempts q + 1
    \<and> (\<exists>secs. 15 \<le> secs \<and> secs \<le> 3600 \<and> wq_lease_expires_at w = Some (claimNow opts clock + secs * 1000))"
  using assms(1)
proof (rule claimWorkerItem_effect)
  fix q p
  let ?now = "claimNow opts clock"
  assume q: "nextClaim opts ?now s = Some q" and p: "getProposal (wq_proposal_id q) s = Some p"
    and room: "\<not> atCapacity opts ?now s" "\<not> rateLimited opts ?now s" "\<not> proposalExpired rt opts ?now p"
      "claimTrips rt opts p ?now s = []"
    and t: "grantLease rt clock opts ?now q p s = Inr t" and w: "workerQueueItem (wq_proposal_id q) t = Some w"
  from nextClaim_in [OF q] have qin: "q \<in> set (s_queue s)" "claimable opts ?now s q" by auto
  have "w = leaseItem (cl_worker_id opts)
      (workerLeaseId rt (wq_proposal_id q) (cl_worker_id opts) (wq_attempts q + 1) ?now)
      (?now + clampTo 15 3600 (optOr (cl_lease_seconds opts) 60) * 1000) ?now q"
    using grantLease_item [OF t getItem_unique [OF assms(2) qin(1)]] w by simp
  moreover have "int (countWhere (\<lambda>x. leaseAlive ?now x \<and> claimScope opts s x) (s_queue s)) < clampTo 1 32 m"
    if "cl_max_concurrent opts = Some m" for m
    using room(1) that by (simp add: atCapacity_def)
  ultimately show ?thesis
    using qin p w room(2-4) nextClaim_first [OF q] clampTo_bounds [of 15 3600 "optOr (cl_lease_seconds opts) 60"]
    by (intro exI [of _ q] exI [of _ p]) (auto simp: leaseItem_def)
qed

theorem claim_leases_first_eligible_witness:
  "wq_attempts leasedItem = 1 \<and> wq_lease_owner leasedItem = Some ''w''"
proof -
  have "s_queue queuedStore = [queuedItem]" "wq_attempts queuedItem = 0" "cl_worker_id sampleClaim = ''w''"
    by (simp_all add: queuedStore_def queuedItem_def newQueueItem_def sampleClaim_def)
  with claim_leases_first_eligible [OF item_leased reachable_ok [OF reachable_queued]] show ?thesis by auto
qed

text \<open>C25: A lease excludes every other worker: no other worker can renew, finish, retry, dead-letter, block or
  mark the item uncertain, whatever lease id it presents, and no claim returns the item before the
  lease has run out.\<close>

theorem lease_is_exclusive:
  assumes "claimWorkerItem rt clock opts s = Inr (Some w, t)" and "store_ok rt s"
    and "other \<noteq> cl_worker_id opts"
  shows "(\<exists>e. renewWorkerLease (wq_proposal_id w) other l secs now2 t = Inl e)
    \<and> (\<exists>e. completeWorkerItem rt now2 (wq_proposal_id w) other outcome now3 lopt t = Inl e)
    \<and> (\<exists>e. retryWorkerItem rt now2 (wq_proposal_id w) other l code retryAt now3 t = Inl e)
    \<and> (\<exists>e. deadLetterWorkerItem rt now2 (wq_proposal_id w) other l code now3 t = Inl e)
    \<and> (\<exists>e. blockWorkerItem rt now2 (wq_proposal_id w) other l code now3 t = Inl e)
    \<and> (\<exists>e. requireWorkerReconciliation rt now2 (wq_proposal_id w) other l code now3 t = Inl e)
    \<and> (\<forall>e. wq_lease_expires_at w = Some e \<and> claimNow opts2 now2 < e \<longrightarrow>
          map_option wq_proposal_id (nextClaim opts2 (claimNow opts2 now2) t) \<noteq> Some (wq_proposal_id w))"
  using assms(1)
proof (rule claimWorkerItem_effect)
  fix q p
  let ?now = "claimNow opts clock"
  assume q: "nextClaim opts ?now s = Some q"
    and t: "grantLease rt clock opts ?now q p s = Inr t" and w: "workerQueueItem (wq_proposal_id q) t = Some w"
  have leased: "wq_status w = Leased" "wq_lease_owner w = Some (cl_worker_id opts)"
    using grantLease_item [OF t getItem_unique [OF assms(2) nextClaim_in [OF q, THEN conjunct1]]] w
    by (auto simp: leaseItem_def)
  have pid: "wq_proposal_id w = wq_proposal_id q" using getItem_in [OF w] by simp
  have refused: "\<exists>e. assertWorkerLease (wq_proposal_id w) other m t = Inl e" for m
    using w pid leased assms(3)
    by (cases "presentStr m") (auto simp: assertWorkerLease_def getItem_require bindE_eq_Inl requireWorkerQueueItem_def)
  have out: "\<exists>e. bindE m f = Inl e" if "\<exists>e. m = Inl e" for m :: "worker_item result" and f :: "worker_item \<Rightarrow> 'z result"
    using that by auto
  have ok: "store_ok rt t"
    using claimWorkerItem_advances [OF assms(1,2)] by (rule advances_ok)
  have "map_option wq_proposal_id (nextClaim opts2 (claimNow opts2 now2) t) \<noteq> Some (wq_proposal_id w)"
    if "wq_lease_expires_at w = Some e" "claimNow opts2 now2 < e" for e
  proof
    assume "map_option wq_proposal_id (nextClaim opts2 (claimNow opts2 now2) t) = Some (wq_proposal_id w)"
    then obtain x where x: "nextClaim opts2 (claimNow opts2 now2) t = Some x" "wq_proposal_id x = wq_proposal_id w"
      by auto
    from nextClaim_in [OF x(1)] have "x \<in> set (s_queue t)" "claimable opts2 (claimNow opts2 now2) t x" by auto
    moreover from this have "x = w" using getItem_unique [OF ok] x(2) w pid by fastforce
    ultimately show False using leased that by (auto simp: claimable_def leaseLapsed_def)
  qed
  with refused show ?thesis
    by (auto simp: renewWorkerLease_def assertActiveWorkerLease_def completeWorkerItem_def retryWorkerItem_def
        deadLetterWorkerItem_def blockWorkerItem_def requireWorkerReconciliation_def intro!: out)
qed

theorem lease_is_exclusive_witness:
  "\<exists>e. completeWorkerItem sampleRuntime 6000 (wq_proposal_id leasedItem) ''thief'' WApplied 6000
     (Some ''wlease_00'') leasedStore = Inl e"
proof -
  have "''thief'' \<noteq> cl_worker_id sampleClaim" by (simp add: sampleClaim_def)
  from lease_is_exclusive [OF item_leased reachable_ok [OF reachable_queued] this] show ?thesis by blast
qed

subsection \<open>Retries and dead letters\<close>

lemma moveItem_item:
  assumes "thenItem pid (appendEvent rt clock pid kind actor payload None (updateItem pid f s)) = Inr (w, t)"
    and "workerQueueItem pid s = Some v" and "\<And>w. wq_proposal_id (f w) = wq_proposal_id w"
  shows "w = f v \<and> workerQueueItem pid t = Some w"
proof -
  from assms(1) have ev: "appendEvent rt clock pid kind actor payload None (updateItem pid f s) = Inr t"
    and w: "workerQueueItem pid t = Some w" by (auto simp: thenItem_eq_Inr getItem_require)
  have "workerQueueItem pid t = Some (f v)"
    using getItem_in [OF assms(2)] by (simp add: appendEvent_tables(8) [OF ev] getItem_update assms(2,3))
  with w show ?thesis by simp
qed

text \<open>Only the holder of the lease reports a failed attempt; the item then leaves the lease, keeps its count
  of attempts, and is scheduled again exactly while it has attempts left: at its budget it becomes a
  dead letter, which no claim returns.\<close>

theorem retry_respects_budget:
  assumes "retryWorkerItem rt clock pid worker l code retryAt now s = Inr (w, t)" and "store_ok rt s"
  shows "(\<exists>v. workerQueueItem pid s = Some v \<and> wq_status v = Leased \<and> wq_lease_owner v = Some worker
      \<and> wq_lease_id v = Some l \<and> wq_attempts w = wq_attempts v \<and> wq_max_attempts w = wq_max_attempts v
      \<and> wq_status w = (if wq_attempts v < wq_max_attempts v then RetryWait else DeadLetter))
    \<and> wq_lease_owner w = None \<and> wq_lease_id w = None \<and> wq_lease_expires_at w = None
    \<and> wq_next_attempt_at w = retryAt \<and> wq_last_error_code w = Some code \<and> workerQueueItem pid t = Some w
    \<and> (wq_max_attempts w \<le> wq_attempts w \<longrightarrow> map_option wq_proposal_id (nextClaim opts now2 t) \<noteq> Some pid)"
proof -
  from assms(1) obtain v where lease: "assertWorkerLease pid worker (Some l) s = Inr v"
    by (auto simp: retryWorkerItem_def bindE_eq_Inr)
  note vin = assertWorkerLease_in [OF lease]
  then have v: "workerQueueItem pid s = Some v" by (simp add: getItem_require)
  let ?f = "\<lambda>x. (releaseItem (if wq_max_attempts v \<le> wq_attempts v then DeadLetter else RetryWait)
      (Some code) None now x)\<lparr>wq_next_attempt_at := retryAt\<rparr>"
  from assms(1) lease have "\<exists>kind payload. thenItem pid (appendEvent rt clock pid kind worker payload None
      (updateItem pid ?f s)) = Inr (w, t)"
    by (auto simp: retryWorkerItem_def Let_def split: if_splits)
  then obtain kind payload where "thenItem pid (appendEvent rt clock pid kind worker payload None
      (updateItem pid ?f s)) = Inr (w, t)" by blast
  from moveItem_item [OF this v] have w: "w = ?f v" "workerQueueItem pid t = Some w" by auto
  have "map_option wq_proposal_id (nextClaim opts now2 t) \<noteq> Some pid" if dead: "wq_status w = DeadLetter"
  proof
    assume "map_option wq_proposal_id (nextClaim opts now2 t) = Some pid"
    then obtain x where x: "nextClaim opts now2 t = Some x" "wq_proposal_id x = pid" by auto
    from nextClaim_in [OF x(1)] have "x \<in> set (s_queue t)" "claimable opts now2 t x" by auto
    moreover from this have "x = w"
      using getItem_unique [OF advances_ok [OF retryWorkerItem_advances [OF assms]]] x(2) w(2) by fastforce
    ultimately show False using dead by (auto simp: claimable_def leaseLapsed_def)
  qed
  with v vin w show ?thesis by (auto simp: releaseItem_def not_le)
qed

lemma sample_retried: "(case retryWorkerItem sampleRuntime 6000 ''p'' ''w'' ''wlease_00'' ''E'' 7000 6000 leasedStore of
    Inr (w, t) \<Rightarrow> True | Inl _ \<Rightarrow> False)"
  by code_simp

theorem retry_respects_budget_witness:
  "\<exists>w t. retryWorkerItem sampleRuntime 6000 ''p'' ''w'' ''wlease_00'' ''E'' 7000 6000 leasedStore = Inr (w, t)
     \<and> wq_status w = RetryWait"
proof -
  from sample_retried obtain w t where run: "retryWorkerItem sampleRuntime 6000 ''p'' ''w'' ''wlease_00'' ''E'' 7000 6000
      leasedStore = Inr (w, t)" by (auto split: sum.splits)
  have "map_option (\<lambda>v. wq_attempts v < wq_max_attempts v) (workerQueueItem ''p'' leasedStore) = Some True"
    by code_simp
  with retry_respects_budget [OF run reachable_ok [OF reachable_leased]] run show ?thesis by auto
qed

text \<open>A dead letter is put back only by a verified operator whose decision is bound to this proposal
  revision, only while no receipt proves an effect on the source, and with its attempts reset and a
  bounded new budget.\<close>

theorem requeue_needs_no_effect:
  assumes "requeueDeadLetter rt clock pid budget i reason now s = Inr (w, t)"
  shows "(\<exists>p v. getProposal pid s = Some p \<and> workerQueueItem pid s = Some v \<and> wq_status v = DeadLetter
      \<and> ip_verified i \<and> od_action (ip_decision i) = DWorkerRequeue
      \<and> od_proposal_id (ip_decision i) = pid \<and> od_proposal_hash (ip_decision i) = p_hash p
      \<and> od_proposal_version (ip_decision i) = p_version p)
    \<and> (\<forall>r \<in> set (s_receipts s). rr_proposal_id r = pid \<longrightarrow> \<not> rr_source_database_mutated r
          \<and> rr_status r \<noteq> TApplied \<and> rr_status r \<noteq> TAlreadyApplied)
    \<and> workerQueueItem pid t = Some w \<and> wq_status w = Queued \<and> wq_attempts w = 0
    \<and> 1 \<le> wq_max_attempts w \<and> wq_max_attempts w \<le> 100 \<and> wq_lease_owner w = None"
proof -
  from assms obtain p v payload where p: "getProposal pid s = Some p"
    and d: "assertOperatorDecision p DWorkerRequeue (ip_subject i) (Some i) True = Inr ()"
    and v: "workerQueueItem pid s = Some v" "wq_status v = DeadLetter" and free: "\<not> provenEffect pid s"
    and ev: "appendEvent rt clock pid ''writeback_dead_letter_requeued'' (ip_subject i) payload None
        (if p_state p = Failed
         then updateProposalState rt now pid Approved (updateItem pid (requeueItem (clampTo 1 100 budget) now) s)
         else updateItem pid (requeueItem (clampTo 1 100 budget) now) s) = Inr t"
    and w: "workerQueueItem pid t = Some w"
    by (auto simp: requeueDeadLetter_def bindE_eq_Inr thenItem_eq_Inr getProposal_require getItem_require
        assertDeadLetter_def Let_def)
  have "workerQueueItem pid t = Some (requeueItem (clampTo 1 100 budget) now v)"
    using getItem_in [OF v(1)]
    by (simp add: appendEvent_tables(8) [OF ev] getItem_update v(1) requeueItem_def)
  with w have "w = requeueItem (clampTo 1 100 budget) now v" by simp
  moreover from d have "ip_verified i" "od_action (ip_decision i) = DWorkerRequeue"
    "od_proposal_id (ip_decision i) = pid" "od_proposal_hash (ip_decision i) = p_hash p"
    "od_proposal_version (ip_decision i) = p_version p"
    using assertOperatorDecision_bound [OF d] getProposal_in [OF p] by auto
  ultimately show ?thesis
    using p v w free clampTo_bounds [of 1 100 budget]
    by (auto simp: provenEffect_def list_ex_iff requeueItem_def releaseItem_def)
qed

definition sampleRequeueIdentity :: identity_proof where
  "sampleRequeueIdentity = \<lparr>ip_provider = SignedKey, ip_verified = True, ip_subject = ''op'', ip_roles = [],
     ip_key_id = None, ip_algorithm = None, ip_issuer = None,
     ip_decision = \<lparr>od_action = DWorkerRequeue, od_proposal_id = ''p'', od_proposal_version = 1,
       od_proposal_hash = ''sha256:h'', od_subject = ''op'', od_issued_at = ''t'', od_reason = None\<rparr>,
     ip_decision_hash = ''sha256:d'', ip_signature = None, ip_integrity_hash = ''sha256:i''\<rparr>"

definition deadStore :: store where
  "deadStore = queuedStore\<lparr>s_queue := [releaseItem DeadLetter (Some ''E'') None 6000 leasedItem]\<rparr>"

lemma sample_requeued: "(case requeueDeadLetter sampleRuntime 7000 ''p'' 3 sampleRequeueIdentity None 7000 deadStore of
    Inr (w, t) \<Rightarrow> True | Inl _ \<Rightarrow> False)"
  by code_simp

theorem requeue_needs_no_effect_witness:
  "\<exists>w t. requeueDeadLetter sampleRuntime 7000 ''p'' 3 sampleRequeueIdentity None 7000 deadStore = Inr (w, t)
     \<and> wq_attempts w = 0"
proof -
  from sample_requeued obtain w t where "requeueDeadLetter sampleRuntime 7000 ''p'' 3 sampleRequeueIdentity None 7000
      deadStore = Inr (w, t)" by (auto split: sum.splits)
  with requeue_needs_no_effect [OF this] show ?thesis by blast
qed

subsection \<open>Execution-time limits\<close>

definition scopedExecutions :: "policy_limit \<Rightarrow> proposal \<Rightarrow> proposal list \<Rightarrow> proposal list" where
  "scopedExecutions l p active = filter (\<lambda>q. pl_scope l = Some TenantPolicyObject \<longrightarrow>
     p_business_object q = p_business_object p \<and> p_object_id q = p_object_id p) active"

text \<open>When the execution-time check passes for a proposal its policy approved, every limit holds for the
  executions of the UTC day with this one included: a count is at most its maximum, and a total
  is the sum of the values of all of them, each readable, and at most its maximum.\<close>

theorem execution_limits_hold:
  assumes "assertWorkerPolicyExecutionLimits rt now pid policy limits s = Inr ()"
    and "getProposal pid s = Some p" and "policyApproved (''policy:'' @ policy) p s"
    and "l \<in> set limits"
    and "active = activeExecutions rt p (executionHistory rt (''policy:'' @ policy) (p_tenant_id p) now
           (utcDayWindow now) s)"
  shows "p \<in> set active
    \<and> (pl_kind l = LimitCount \<longrightarrow> int (length (scopedExecutions l p active)) \<le> pl_max l)
    \<and> (pl_kind l = LimitTotal \<longrightarrow> (\<exists>f vs. presentStr (pl_field l) = Some f
          \<and> map (\<lambda>q. patchInteger (p_change_set q) (Some f)) (scopedExecutions l p active) = map Some vs
          \<and> sum_list vs \<le> pl_max l))"
proof -
  have scoped: "filter (\<lambda>q. optOr (pl_scope l) TenantPolicy \<noteq> TenantPolicyObject
      \<or> (p_business_object q = p_business_object p \<and> p_object_id q = p_object_id p)) active
    = scopedExecutions l p active"
    unfolding scopedExecutions_def by (rule filter_cong [OF refl]) (cases "pl_scope l"; auto)
  have "executionTrip rt p (utcDayWindow now) (list_ex (\<lambda>q. \<not> parsesAgain rt q) (executionHistory rt (''policy:'' @ policy)
      (p_tenant_id p) now (utcDayWindow now) s)) active l = None"
    using assms
    by (auto simp: assertWorkerPolicyExecutionLimits_def bindE_eq_Inr getProposal_require
        workerPolicyExecutionLimitTrips_def Let_def split: if_splits option.splits)
  note trip = this [unfolded executionTrip_def Let_def scoped]
  have "p \<in> set active" by (simp add: assms(5) activeExecutions_def)
  moreover have "int (length (scopedExecutions l p active)) \<le> pl_max l" if "pl_kind l = LimitCount"
    using trip that by (simp split: if_splits)
  moreover have "\<exists>f vs. presentStr (pl_field l) = Some f
      \<and> map (\<lambda>q. patchInteger (p_change_set q) (Some f)) (scopedExecutions l p active) = map Some vs
      \<and> sum_list vs \<le> pl_max l" if total: "pl_kind l = LimitTotal"
  proof -
    let ?vs = "\<lambda>f. map (\<lambda>q. patchInteger (p_change_set q) f) (scopedExecutions l p active)"
    from trip total obtain f where f: "presentStr (pl_field l) = Some f"
      and none: "None \<notin> set (?vs (Some f))" and le: "sum_list (map (\<lambda>v. optOr v 0) (?vs (Some f))) \<le> pl_max l"
      by (auto simp del: set_map map_map split: if_splits)
    have "map (\<lambda>v. optOr v 0) (?vs (Some f)) = map the (?vs (Some f))"
      by (rule optOr_the [OF none])
    with le f map_Some_the [OF none] show ?thesis by metis
  qed
  ultimately show ?thesis by blast
qed

definition policyStore :: store where
  "policyStore = approvedStore\<lparr>s_approvals := [policyApproval 2000 ''p'' samplePolicy emptyStore]\<rparr>"

definition sampleCountLimit :: policy_limit where
  "sampleCountLimit = \<lparr>pl_kind = LimitCount, pl_max = 1, pl_field = None, pl_scope = None\<rparr>"

theorem execution_limits_hold_witness:
  "int (length (scopedExecutions sampleCountLimit (sampleProposal Approved False ''t'')
     (activeExecutions sampleRuntime (sampleProposal Approved False ''t'') (executionHistory sampleRuntime
        ''policy:auto'' ''t'' 3000 (utcDayWindow 3000) policyStore)))) \<le> 1"
proof -
  let ?p = "sampleProposal Approved False ''t''"
  have "assertWorkerPolicyExecutionLimits sampleRuntime 3000 ''p'' ''auto'' [sampleCountLimit] policyStore = Inr ()"
    and "getProposal ''p'' policyStore = Some ?p" by code_simp+
  moreover have "policyApproved (''policy:'' @ ''auto'') ?p policyStore" by code_simp
  moreover have "p_tenant_id ?p = ''t''" "pl_kind sampleCountLimit = LimitCount" "pl_max sampleCountLimit = 1"
    by (simp_all add: sampleProposal_def proposalOf_def sampleChange_def sampleCountLimit_def)
  ultimately show ?thesis
    using execution_limits_hold [of sampleRuntime 3000 "''p''" "''auto''" "[sampleCountLimit]" policyStore ?p sampleCountLimit]
    by simp
qed

end
