(* ===== verification/WorkerControl.thy ===== *)
theory WorkerControl
  imports Attention
begin

text \<open>
  The operator control of supervised execution
  (\<open>packages/proposal-store/src/worker-control-domain.ts\<close>, the worker-control operations of
  \<open>sqlite-cloud-control-methods.ts\<close> and the gate of \<open>apps/runner/src/worker-policy.ts\<close>): the control
  document kept in the \<open>runner_state\<close> table under its integrity hash, the operator decision bound to
  the exact control revision, and the actions pause, resume, drain, enable, disable and revoke.

  The document is kept as the JSON value that the store writes and reads back.  A stored mode or
  status is read as a string.
\<close>

subsection \<open>The control document\<close>

datatype control_mode = ControlActive | ControlPaused | ControlDraining
datatype control_status = CapEnabled | CapDisabled | CapRevoked
datatype control_action = PauseAll | ResumeAll | DrainAll | CapabilityEnable | CapabilityDisable
  | DigestRevoke

definition controlModeStr :: "control_mode \<Rightarrow> string" where
  "controlModeStr m = (case m of ControlActive \<Rightarrow> ''active'' | ControlPaused \<Rightarrow> ''paused''
     | ControlDraining \<Rightarrow> ''draining'')"

definition controlStatusStr :: "control_status \<Rightarrow> string" where
  "controlStatusStr m = (case m of CapEnabled \<Rightarrow> ''enabled'' | CapDisabled \<Rightarrow> ''disabled''
     | CapRevoked \<Rightarrow> ''revoked'')"

definition controlActionStr :: "control_action \<Rightarrow> string" where
  "controlActionStr a = (case a of PauseAll \<Rightarrow> ''pause'' | ResumeAll \<Rightarrow> ''resume''
     | DrainAll \<Rightarrow> ''drain'' | CapabilityEnable \<Rightarrow> ''capability_enable''
     | CapabilityDisable \<Rightarrow> ''capability_disable'' | DigestRevoke \<Rightarrow> ''digest_revoke'')"

definition parseMode :: "json \<Rightarrow> control_mode option" where
  "parseMode j = (case j of JStr s \<Rightarrow>
       (if s = ''active'' then Some ControlActive else if s = ''paused'' then Some ControlPaused
        else if s = ''draining'' then Some ControlDraining else None)
     | _ \<Rightarrow> None)"

definition parseStatus :: "json \<Rightarrow> control_status option" where
  "parseStatus j = (case j of JStr s \<Rightarrow>
       (if s = ''enabled'' then Some CapEnabled else if s = ''disabled'' then Some CapDisabled
        else if s = ''revoked'' then Some CapRevoked else None)
     | _ \<Rightarrow> None)"

record capability_control =
  cc_capability :: string
  cc_contract_digest :: string
  cc_status :: control_status
  cc_updated_at :: string
  cc_actor :: string

record worker_control =
  wc_mode :: control_mode
  wc_revision :: int
  wc_controls :: "capability_control list"
  wc_last_decision :: "srow option"
  wc_updated_at :: string
  wc_integrity_hash :: string

record control_target =
  ct_action :: control_action
  ct_capability :: "string option"
  ct_contract_digest :: "string option"

record control_subject =
  cj_proposal_id :: string
  cj_proposal_version :: int
  cj_proposal_hash :: string

definition capabilityControlJson :: "capability_control \<Rightarrow> json" where
  "capabilityControlJson c = JObj [(''capability'', JStr (cc_capability c)),
     (''contract_digest'', JStr (cc_contract_digest c)),
     (''status'', JStr (controlStatusStr (cc_status c))),
     (''updated_at'', JStr (cc_updated_at c)), (''actor'', JStr (cc_actor c))]"

text \<open>The unsigned document, which its integrity hash covers, and the document as it is stored.\<close>

definition unsignedControl :: "worker_control \<Rightarrow> srow" where
  "unsignedControl w = [(''schema_version'', JStr ''synapsor.worker-control.v1''),
     (''mode'', JStr (controlModeStr (wc_mode w))), (''revision'', JNum (IntN (wc_revision w))),
     (''capability_controls'', JArr (map capabilityControlJson (wc_controls w)))]
     @ optField ''last_decision'' JObj (wc_last_decision w)
     @ [(''updated_at'', JStr (wc_updated_at w))]"

definition workerControlJson :: "worker_control \<Rightarrow> json" where
  "workerControlJson w =
     JObj (unsignedControl w @ [(''integrity_hash'', JStr (wc_integrity_hash w))])"

definition defaultWorkerControlState :: "runtime \<Rightarrow> worker_control" where
  "defaultWorkerControlState rt = (let w = \<lparr>wc_mode = ControlActive, wc_revision = 0,
       wc_controls = [], wc_last_decision = None, wc_updated_at = ''1970-01-01T00:00:00.000Z'',
       wc_integrity_hash = []\<rparr>
     in w\<lparr>wc_integrity_hash := digestOf rt (JObj (unsignedControl w))\<rparr>)"

abbreviation controlInvalid :: err where
  "controlInvalid \<equiv> ProposalStoreError ''WORKER_CONTROL_STATE_INVALID''"

definition parseCapabilityControl :: "json \<Rightarrow> capability_control result" where
  "parseCapabilityControl j = (case j of
      JObj es \<Rightarrow> (case (field es ''capability'', field es ''contract_digest'',
          parseStatus (field es ''status''), field es ''updated_at'', field es ''actor'') of
        (JStr capability, JStr digest, Some status, JStr updated, JStr actor) \<Rightarrow>
          bindE (throwIf (\<not> capabilityName capability \<or> \<not> sha256Full digest) controlInvalid) (\<lambda>_.
          Inr \<lparr>cc_capability = capability, cc_contract_digest = digest, cc_status = status,
            cc_updated_at = updated, cc_actor = actor\<rparr>)
      | _ \<Rightarrow> Inl controlInvalid)
    | _ \<Rightarrow> Inl controlInvalid)"

definition parseRevision :: "json \<Rightarrow> int option" where
  "parseRevision j = (case j of JNum n \<Rightarrow> (case safeIntegerOf n of
       Some i \<Rightarrow> (if 0 \<le> i then Some i else None) | None \<Rightarrow> None) | _ \<Rightarrow> None)"

definition parseWorkerControlState :: "runtime \<Rightarrow> json \<Rightarrow> worker_control result" where
  "parseWorkerControlState rt j = (case j of
      JObj es \<Rightarrow> (case (parseMode (field es ''mode''), parseRevision (field es ''revision''),
          field es ''capability_controls'', field es ''updated_at'', field es ''integrity_hash'') of
        (Some mode, Some revision, JArr entries, JStr updated, JStr integrity) \<Rightarrow>
          bindE (throwIf (field es ''schema_version'' \<noteq> JStr ''synapsor.worker-control.v1'')
                   controlInvalid) (\<lambda>_.
          bindE (traverseE parseCapabilityControl entries) (\<lambda>controls.
          (let w = \<lparr>wc_mode = mode, wc_revision = revision, wc_controls = controls,
                 wc_last_decision = asRecord (field es ''last_decision''),
                 wc_updated_at = updated, wc_integrity_hash = integrity\<rparr>
           in bindE (canonicalJsonDigest rt (JObj (unsignedControl w))) (\<lambda>digest.
              bindE (throwIf (integrity \<noteq> digest)
                       (ProposalStoreError ''WORKER_CONTROL_STATE_TAMPERED'')) (\<lambda>_. Inr w)))))
      | _ \<Rightarrow> Inl controlInvalid)
    | _ \<Rightarrow> Inl controlInvalid)"

subsection \<open>Operator decisions\<close>

definition capabilityAction :: "control_action \<Rightarrow> bool" where
  "capabilityAction a \<longleftrightarrow> a = CapabilityEnable \<or> a = CapabilityDisable \<or> a = DigestRevoke"

definition assertWorkerControlTarget :: "control_target \<Rightarrow> unit result" where
  "assertWorkerControlTarget t =
     (if capabilityAction (ct_action t) then
        bindE (throwIf (case presentStr (ct_capability t) of None \<Rightarrow> True | Some c \<Rightarrow> \<not> capabilityName c)
                 (ProposalStoreError ''WORKER_CONTROL_CAPABILITY_REQUIRED'')) (\<lambda>_.
        throwIf (case presentStr (ct_contract_digest t) of None \<Rightarrow> True | Some d \<Rightarrow> \<not> sha256Full d)
          (ProposalStoreError ''WORKER_CONTROL_DIGEST_REQUIRED''))
      else throwIf (presentStr (ct_capability t) \<noteq> None \<or> presentStr (ct_contract_digest t) \<noteq> None)
        (ProposalStoreError ''WORKER_CONTROL_TARGET_INVALID''))"

definition optString :: "string option \<Rightarrow> json" where
  "optString m = (case m of None \<Rightarrow> JNull | Some s \<Rightarrow> JStr s)"

definition controlTargetDigest :: "runtime \<Rightarrow> worker_control \<Rightarrow> control_target \<Rightarrow> string" where
  "controlTargetDigest rt w t = digestOf rt (JObj [
     (''schema_version'', JStr ''synapsor.worker-control-decision-subject.v1''),
     (''current_revision'', JNum (IntN (wc_revision w))),
     (''current_integrity_hash'', JStr (wc_integrity_hash w)),
     (''action'', JStr (controlActionStr (ct_action t))),
     (''capability'', optString (ct_capability t)),
     (''contract_digest'', optString (ct_contract_digest t))])"

definition workerControlDecisionSubject ::
  "runtime \<Rightarrow> worker_control \<Rightarrow> control_target \<Rightarrow> control_subject result" where
  "workerControlDecisionSubject rt w t = bindE (assertWorkerControlTarget t) (\<lambda>_.
     (let digest = controlTargetDigest rt w t
      in Inr \<lparr>cj_proposal_id = ''worker_control_'' @ take 32 (drop 7 digest),
           cj_proposal_version = wc_revision w + 1, cj_proposal_hash = digest\<rparr>))"

definition workerControlOperatorAction :: "control_action \<Rightarrow> decision_action" where
  "workerControlOperatorAction a = (case a of PauseAll \<Rightarrow> DWorkerPause | ResumeAll \<Rightarrow> DWorkerResume
     | DrainAll \<Rightarrow> DWorkerDrain | CapabilityEnable \<Rightarrow> DWorkerCapabilityEnable
     | CapabilityDisable \<Rightarrow> DWorkerCapabilityDisable | DigestRevoke \<Rightarrow> DWorkerDigestRevoke)"

definition decisionActionStr :: "decision_action \<Rightarrow> string" where
  "decisionActionStr a = (case a of DApprove \<Rightarrow> ''approve'' | DReject \<Rightarrow> ''reject'' | DApply \<Rightarrow> ''apply''
     | DRevert \<Rightarrow> ''revert'' | DReconcile \<Rightarrow> ''reconcile'' | DWorkerRequeue \<Rightarrow> ''worker_requeue''
     | DWorkerDiscard \<Rightarrow> ''worker_discard'' | DWorkerPause \<Rightarrow> ''worker_pause''
     | DWorkerResume \<Rightarrow> ''worker_resume'' | DWorkerDrain \<Rightarrow> ''worker_drain''
     | DWorkerCapabilityEnable \<Rightarrow> ''worker_capability_enable''
     | DWorkerCapabilityDisable \<Rightarrow> ''worker_capability_disable''
     | DWorkerDigestRevoke \<Rightarrow> ''worker_digest_revoke'' | DWorkerCancel \<Rightarrow> ''worker_cancel''
     | DAttentionAcknowledge \<Rightarrow> ''attention_acknowledge''
     | DNotificationReplay \<Rightarrow> ''notification_replay'' | DBoundaryReview \<Rightarrow> ''boundary_review''
     | DBoundaryActivate \<Rightarrow> ''boundary_activate'')"

definition decisionJson :: "operator_decision \<Rightarrow> json" where
  "decisionJson d = JObj ([(''schema_version'', JStr ''synapsor.operator-decision.v1''),
     (''action'', JStr (decisionActionStr (od_action d))), (''proposal_id'', JStr (od_proposal_id d)),
     (''proposal_version'', JNum (IntN (od_proposal_version d))),
     (''proposal_hash'', JStr (od_proposal_hash d)), (''subject'', JStr (od_subject d)),
     (''issued_at'', JStr (od_issued_at d))] @ optField ''reason'' JStr (od_reason d))"

definition identityCore :: "identity_proof \<Rightarrow> srow" where
  "identityCore i = [(''provider'', JStr (providerName (ip_provider i))),
     (''verified'', JBool (ip_verified i)), (''subject'', JStr (ip_subject i)),
     (''roles'', JArr (map JStr (ip_roles i)))]
     @ optField ''key_id'' JStr (ip_key_id i) @ optField ''algorithm'' JStr (ip_algorithm i)
     @ optField ''issuer'' JStr (ip_issuer i) @ [(''decision'', decisionJson (ip_decision i)),
       (''decision_hash'', JStr (ip_decision_hash i))]
     @ optField ''signature'' JStr (ip_signature i)"

definition identityJson :: "identity_proof \<Rightarrow> srow" where
  "identityJson i = identityCore i @ [(''integrity_hash'', JStr (ip_integrity_hash i))]"

definition assertWorkerControlOperatorDecision :: "runtime \<Rightarrow> worker_control \<Rightarrow> control_target
    \<Rightarrow> string \<Rightarrow> identity_proof option \<Rightarrow> bool \<Rightarrow> unit result" where
  "assertWorkerControlOperatorDecision rt w t actor identity requireVerified =
     bindE (throwIf (requireVerified \<and> (case identity of None \<Rightarrow> True
                | Some i \<Rightarrow> \<not> ip_verified i \<or> ip_provider i = DevEnv))
              (ProposalStoreError ''VERIFIED_OPERATOR_IDENTITY_REQUIRED'')) (\<lambda>_.
     case identity of None \<Rightarrow> Inr () | Some i \<Rightarrow>
     (let d = ip_decision i in
      bindE (throwIf (ip_subject i \<noteq> actor \<or> od_subject d \<noteq> actor)
               (ProposalStoreError ''OPERATOR_IDENTITY_MISMATCH'')) (\<lambda>_.
      bindE (workerControlDecisionSubject rt w t) (\<lambda>subject.
      bindE (throwIf (od_action d \<noteq> workerControlOperatorAction (ct_action t)
                 \<or> od_proposal_id d \<noteq> cj_proposal_id subject
                 \<or> od_proposal_version d \<noteq> cj_proposal_version subject
                 \<or> od_proposal_hash d \<noteq> cj_proposal_hash subject)
               (ProposalStoreError ''OPERATOR_DECISION_MISMATCH'')) (\<lambda>_.
      bindE (throwIf (ip_decision_hash i \<noteq> digestOf rt (decisionJson d))
               (ProposalStoreError ''OPERATOR_IDENTITY_TAMPERED'')) (\<lambda>_.
      throwIf (ip_integrity_hash i \<noteq> digestOf rt (JObj (identityCore i)))
        (ProposalStoreError ''OPERATOR_IDENTITY_TAMPERED'')))))))"

subsection \<open>The runner state and its updates\<close>

text \<open>
  The part of the store these operations touch: the rows of \<open>runner_state\<close> (key and value) and the
  attention tables.
\<close>

record control_store =
  ks_runner_state :: "(string \<times> json) list"
  ks_attention :: attention_state

definition getRunnerState :: "string \<Rightarrow> control_store \<Rightarrow> json option" where
  "getRunnerState key s = map_option snd (findRow fst key (ks_runner_state s))"

definition setRunnerState :: "string \<Rightarrow> srow \<Rightarrow> control_store \<Rightarrow> control_store result" where
  "setRunnerState key value s = bindE (assertNoSecretMaterial (JObj value)) (\<lambda>_.
     Inr (s\<lparr>ks_runner_state := upsertRow fst (key, JObj value) (ks_runner_state s)\<rparr>))"

abbreviation controlKey :: string where
  "controlKey \<equiv> ''supervised_worker_control''"

definition workerControlState :: "runtime \<Rightarrow> control_store \<Rightarrow> worker_control result" where
  "workerControlState rt s = (case getRunnerState controlKey s of
      None \<Rightarrow> Inr (defaultWorkerControlState rt)
    | Some raw \<Rightarrow> parseWorkerControlState rt raw)"

definition keyMatches :: "string \<Rightarrow> string \<Rightarrow> capability_control \<Rightarrow> bool" where
  "keyMatches capability digest c \<longleftrightarrow> cc_capability c = capability \<and> cc_contract_digest c = digest"

definition controlLe :: "runtime \<Rightarrow> capability_control \<Rightarrow> capability_control \<Rightarrow> bool" where
  "controlLe rt a b \<longleftrightarrow> firstDifference [localeCompare rt (cc_capability a) (cc_capability b),
     localeCompare rt (cc_contract_digest a) (cc_contract_digest b)] \<le> 0"

definition replaceControl ::
  "runtime \<Rightarrow> capability_control \<Rightarrow> capability_control list \<Rightarrow> capability_control list" where
  "replaceControl rt c cs = sortBy (controlLe rt)
     (filter (\<lambda>x. \<not> keyMatches (cc_capability c) (cc_contract_digest c) x) cs @ [c])"

definition actionStatus :: "control_action \<Rightarrow> control_status" where
  "actionStatus a = (if a = CapabilityEnable then CapEnabled
     else if a = CapabilityDisable then CapDisabled else CapRevoked)"

definition nextMode :: "control_action \<Rightarrow> control_mode \<Rightarrow> control_mode" where
  "nextMode a m = (if a = PauseAll then ControlPaused else if a = ResumeAll then ControlActive
     else if a = DrainAll then ControlDraining else m)"

text \<open>The mode and the capability controls after an action.\<close>

definition applyControlAction :: "runtime \<Rightarrow> time \<Rightarrow> string \<Rightarrow> control_target \<Rightarrow> worker_control
    \<Rightarrow> capability_control list result" where
  "applyControlAction rt now actor t w =
     (if \<not> capabilityAction (ct_action t) then Inr (wc_controls w)
      else (let capability = optOr (ct_capability t) []; digest = optOr (ct_contract_digest t) [];
                existing = find (keyMatches capability digest) (wc_controls w)
            in bindE (throwIf (map_option cc_status existing = Some CapRevoked
                         \<and> ct_action t = CapabilityEnable)
                       (ProposalStoreError ''WORKER_DIGEST_REVOKED'')) (\<lambda>_.
               Inr (replaceControl rt \<lparr>cc_capability = capability, cc_contract_digest = digest,
                 cc_status = actionStatus (ct_action t), cc_updated_at = isoString rt now,
                 cc_actor = actor\<rparr> (wc_controls w)))))"

definition workerControlSummary :: "control_target \<Rightarrow> string" where
  "workerControlSummary t = (case ct_action t of
      PauseAll \<Rightarrow> ''Supervised execution paused by an operator''
    | ResumeAll \<Rightarrow> ''Supervised execution resumed by an operator''
    | DrainAll \<Rightarrow> ''Supervised execution is draining without new leases''
    | CapabilityEnable \<Rightarrow> optOr (ct_capability t) [] @ '' supervised execution enabled for the exact reviewed digest''
    | CapabilityDisable \<Rightarrow> optOr (ct_capability t) [] @ '' supervised execution disabled for the exact reviewed digest''
    | DigestRevoke \<Rightarrow> optOr (ct_capability t) [] @ '' supervised execution digest revoked'')"

definition controlEventType :: "control_action \<Rightarrow> string" where
  "controlEventType a = (if a = ResumeAll \<or> a = CapabilityEnable then ''capability.activated''
     else if \<not> capabilityAction a then ''worker.paused'' else ''capability.revoked'')"

definition controlAttention :: "time \<Rightarrow> string \<Rightarrow> control_target \<Rightarrow> worker_control \<Rightarrow> attention_input" where
  "controlAttention now environment t w = \<lparr>xi_event_type = controlEventType (ct_action t),
     xi_severity = Informational, xi_environment = environment, xi_proposal_id = None,
     xi_job_id = None, xi_operation_id = None, xi_correlation_id = None,
     xi_capability = presentStr (ct_capability t),
     xi_contract_digest = presentStr (ct_contract_digest t), xi_attention_key = None,
     xi_attention_required = Some False, xi_immediate_default = Some False,
     xi_summary = Some (workerControlSummary t), xi_approval_source = None,
     xi_worker_state = Some (controlModeStr (wc_mode w)), xi_failure_class = None,
     xi_expires_at = None, xi_workbench_path = None,
     xi_details = [(''control_action'', JStr (controlActionStr (ct_action t))),
       (''control_revision'', JNum (IntN (wc_revision w))), (''source_database_changed'', JBool False)],
     xi_source_event_key = Some (''worker-control:'' @ intDecimal (wc_revision w) @ '':''
       @ wc_integrity_hash w),
     xi_now = now\<rparr>"

definition nextControl :: "runtime \<Rightarrow> time \<Rightarrow> control_target \<Rightarrow> identity_proof option
    \<Rightarrow> capability_control list \<Rightarrow> worker_control \<Rightarrow> worker_control" where
  "nextControl rt now t identity controls w =
     (let u = \<lparr>wc_mode = nextMode (ct_action t) (wc_mode w), wc_revision = wc_revision w + 1,
          wc_controls = controls, wc_last_decision = map_option identityJson identity,
          wc_updated_at = isoString rt now, wc_integrity_hash = []\<rparr>
      in u\<lparr>wc_integrity_hash := digestOf rt (JObj (unsignedControl u))\<rparr>)"

definition updateWorkerControl :: "runtime \<Rightarrow> time \<Rightarrow> control_target \<Rightarrow> string
    \<Rightarrow> identity_proof option \<Rightarrow> bool \<Rightarrow> string option \<Rightarrow> control_store
    \<Rightarrow> (worker_control \<times> control_store) result" where
  "updateWorkerControl rt now t actor identity requireVerified environment s =
     bindE (workerControlState rt s) (\<lambda>current.
     bindE (assertWorkerControlTarget t) (\<lambda>_.
     bindE (assertWorkerControlOperatorDecision rt current t actor identity requireVerified) (\<lambda>_.
     bindE (applyControlAction rt now actor t current) (\<lambda>controls.
     (let updated = nextControl rt now t identity controls current in
     bindE (assertNoSecretMaterial (workerControlJson updated)) (\<lambda>_.
     bindE (case presentStr environment of None \<Rightarrow> Inr ''unknown''
              | Some e \<Rightarrow> boundedSafeLabel e 64) (\<lambda>label.
     bindE (recordAttentionEventInternal rt (controlAttention now label t updated) (ks_attention s))
       (\<lambda>x.
     Inr (updated, s\<lparr>ks_runner_state :=
            upsertRow fst (controlKey, workerControlJson updated) (ks_runner_state s),
          ks_attention := snd x\<rparr>)))))))))"

subsection \<open>The worker's gate\<close>

definition workerControlAllowsPolicy :: "worker_control \<Rightarrow> string \<Rightarrow> string \<Rightarrow> bool" where
  "workerControlAllowsPolicy w capability digest \<longleftrightarrow>
     (case find (keyMatches capability digest) (wc_controls w) of
        None \<Rightarrow> True | Some c \<Rightarrow> cc_status c \<noteq> CapDisabled \<and> cc_status c \<noteq> CapRevoked)"

text \<open>The checks of \<open>applyProposal\<close> that no new source mutation begins against the control.\<close>

definition assertWorkerControlAllows :: "runtime \<Rightarrow> string \<Rightarrow> string \<Rightarrow> control_store \<Rightarrow> unit result" where
  "assertWorkerControlAllows rt capability digest s = bindE (workerControlState rt s) (\<lambda>w.
     bindE (throwIf (wc_mode w \<noteq> ControlActive) (ProposalStoreError ''SUPERVISED_WORKER_PAUSED'')) (\<lambda>_.
     throwIf (\<not> workerControlAllowsPolicy w capability digest)
       (ProposalStoreError ''SUPERVISED_WORKER_DIGEST_REVOKED'')))"

subsection \<open>Facts\<close>

definition controlKeyOf :: "capability_control \<Rightarrow> string \<times> string" where
  "controlKeyOf c = (cc_capability c, cc_contract_digest c)"

definition controlShape :: "capability_control \<Rightarrow> bool" where
  "controlShape c \<longleftrightarrow> capabilityName (cc_capability c) \<and> sha256Full (cc_contract_digest c)"

definition signedControl :: "runtime \<Rightarrow> worker_control \<Rightarrow> bool" where
  "signedControl rt w \<longleftrightarrow> 0 \<le> wc_revision w \<and> list_all controlShape (wc_controls w)
     \<and> (case wc_last_decision w of None \<Rightarrow> True | Some es \<Rightarrow> jsonPlain (JObj es))
     \<and> wc_integrity_hash w = digestOf rt (JObj (unsignedControl w))"

lemma find_keyMatches: "find (keyMatches c d) cs = findRow controlKeyOf (c, d) cs"
  by (simp add: findRow_def keyMatches_def [abs_def] controlKeyOf_def)

lemma parse_mode_str [simp]: "parseMode (JStr (controlModeStr m)) = Some m"
  by (cases m) (simp_all add: parseMode_def controlModeStr_def)

lemma parse_status_str [simp]: "parseStatus (JStr (controlStatusStr m)) = Some m"
  by (cases m) (simp_all add: parseStatus_def controlStatusStr_def)

lemma parse_capability_control:
  "controlShape c \<Longrightarrow> parseCapabilityControl (capabilityControlJson c) = Inr c"
  by (simp add: parseCapabilityControl_def capabilityControlJson_def controlShape_def field_def)

lemma parse_capability_controls:
  "list_all controlShape cs \<Longrightarrow> traverseE parseCapabilityControl (map capabilityControlJson cs) = Inr cs"
  by (induction cs) (simp_all add: parse_capability_control)

lemma parseCapabilityControl_shape: "parseCapabilityControl j = Inr c \<Longrightarrow> controlShape c"
  by (auto simp: parseCapabilityControl_def controlShape_def bindE_eq_Inr
      split: json.splits option.splits)

lemma parseCapabilityControls_shape:
  "traverseE parseCapabilityControl js = Inr cs \<Longrightarrow> list_all controlShape cs"
  by (induction js arbitrary: cs) (auto simp: bindE_eq_Inr dest: parseCapabilityControl_shape)

lemma plain_capability_controls: "list_all jsonPlain (map capabilityControlJson cs)"
  by (induction cs) (simp_all add: capabilityControlJson_def)

lemma plain_unsignedControl:
  "jsonPlain (JObj (unsignedControl w)) \<longleftrightarrow>
     (case wc_last_decision w of None \<Rightarrow> True | Some es \<Rightarrow> jsonPlain (JObj es))"
  using plain_capability_controls
  by (auto simp: unsignedControl_def optField_def split: option.splits)

lemma plain_strings: "list_all jsonPlain (map JStr xs)"
  by (induction xs) simp_all

lemma plain_identityJson: "jsonPlain (JObj (identityJson i))"
  by (simp add: identityJson_def identityCore_def decisionJson_def plain_optField plain_strings)

lemma field_optField_other: "k \<noteq> l \<Longrightarrow> field (optField k f m @ es) l = field es l"
  by (simp add: field_def optField_def map_of_append split: option.split)

lemma control_fields:
  shows "field (unsignedControl w @ [(''integrity_hash'', h)]) ''mode'' = JStr (controlModeStr (wc_mode w))"
    and "field (unsignedControl w @ [(''integrity_hash'', h)]) ''schema_version''
      = JStr ''synapsor.worker-control.v1''"
    and "field (unsignedControl w @ [(''integrity_hash'', h)]) ''revision'' = JNum (IntN (wc_revision w))"
    and "field (unsignedControl w @ [(''integrity_hash'', h)]) ''capability_controls''
      = JArr (map capabilityControlJson (wc_controls w))"
    and "field (unsignedControl w @ [(''integrity_hash'', h)]) ''updated_at'' = JStr (wc_updated_at w)"
    and "field (unsignedControl w @ [(''integrity_hash'', h)]) ''integrity_hash'' = h"
    and "asRecord (field (unsignedControl w @ [(''integrity_hash'', h)]) ''last_decision'')
      = wc_last_decision w"
  by (simp_all add: unsignedControl_def field_def optField_def asRecord_def split: option.split)

lemma parse_control_json:
  assumes "signedControl rt w" and "wc_revision w \<le> MAX_SAFE_INTEGER"
  shows "parseWorkerControlState rt (workerControlJson w) = Inr w"
proof -
  have rev: "parseRevision (JNum (IntN (wc_revision w))) = Some (wc_revision w)"
    using assms by (simp add: parseRevision_def safeIntegerOf_def isSafeInteger_def signedControl_def
        MAX_SAFE_INTEGER_def)
  have "canonicalJsonDigest rt (JObj (unsignedControl w)) = Inr (wc_integrity_hash w)"
    using assms(1) digestOf_eq plain_unsignedControl [of w] by (simp add: signedControl_def)
  moreover have "traverseE parseCapabilityControl (map capabilityControlJson (wc_controls w))
      = Inr (wc_controls w)"
    using assms(1) by (simp add: signedControl_def parse_capability_controls)
  moreover have eta: "\<lparr>wc_mode = wc_mode w, wc_revision = wc_revision w, wc_controls = wc_controls w,
      wc_last_decision = wc_last_decision w, wc_updated_at = wc_updated_at w,
      wc_integrity_hash = wc_integrity_hash w\<rparr> = w" by simp
  ultimately show ?thesis
    by (simp add: parseWorkerControlState_def workerControlJson_def control_fields rev Let_def eta)
qed

lemma parse_control_signed:
  assumes "parseWorkerControlState rt j = Inr w"
  shows "signedControl rt w" and "wc_revision w \<le> MAX_SAFE_INTEGER"
proof -
  from assms obtain es where shape: "list_all controlShape (wc_controls w)"
    and rev: "parseRevision (field es ''revision'') = Some (wc_revision w)"
    and d: "canonicalJsonDigest rt (JObj (unsignedControl w)) = Inr (wc_integrity_hash w)"
    by (auto simp: parseWorkerControlState_def bindE_eq_Inr Let_def
        dest!: parseCapabilityControls_shape split: json.splits option.splits)
  have "jsonPlain (JObj (unsignedControl w))"
    using d canonical_total [of "JObj (unsignedControl w)"]
    by (auto simp: canonicalJsonDigest_def canonicalJsonStringify_def mapE_eq_Inr)
  moreover have "0 \<le> wc_revision w" and "wc_revision w \<le> MAX_SAFE_INTEGER"
    using rev by (auto simp: parseRevision_def safeIntegerOf_def isSafeInteger_def
        split: json.splits jnum.splits option.splits if_splits) (simp_all add: MAX_SAFE_INTEGER_def)
  ultimately show "signedControl rt w" and "wc_revision w \<le> MAX_SAFE_INTEGER"
    using shape d by (simp_all add: signedControl_def digestOf_def flip: plain_unsignedControl)
qed

subsection \<open>What an update does\<close>

lemma applyControlAction_cases:
  assumes "applyControlAction rt now actor t w = Inr cs"
  obtains (global) "\<not> capabilityAction (ct_action t)" "cs = wc_controls w"
  | (capability) c where "capabilityAction (ct_action t)"
      "cs = replaceControl rt c (wc_controls w)" "cc_status c = actionStatus (ct_action t)"
      "controlKeyOf c = (optOr (ct_capability t) [], optOr (ct_contract_digest t) [])"
      "cc_updated_at c = isoString rt now" "cc_actor c = actor"
      "ct_action t = CapabilityEnable \<Longrightarrow> map_option cc_status
         (findRow controlKeyOf (controlKeyOf c) (wc_controls w)) \<noteq> Some CapRevoked"
  using assms
  by (cases "capabilityAction (ct_action t)")
    (auto simp: applyControlAction_def Let_def bindE_eq_Inr find_keyMatches controlKeyOf_def)

lemma updateWorkerControl_cases:
  assumes "updateWorkerControl rt now t actor identity rv env s = Inr (u, s')"
  obtains w cs e a where "workerControlState rt s = Inr w" "assertWorkerControlTarget t = Inr ()"
    "assertWorkerControlOperatorDecision rt w t actor identity rv = Inr ()"
    "applyControlAction rt now actor t w = Inr cs" "u = nextControl rt now t identity cs w"
    "secretFree (workerControlJson u)"
    "recordAttentionEventInternal rt (controlAttention now e t u) (ks_attention s) = Inr a"
    "s' = s\<lparr>ks_runner_state := upsertRow fst (controlKey, workerControlJson u) (ks_runner_state s),
        ks_attention := snd a\<rparr>"
  using assms by (auto simp: updateWorkerControl_def bindE_eq_Inr Let_def)

lemma assertWorkerControlTarget_capability:
  assumes "assertWorkerControlTarget t = Inr ()" and "capabilityAction (ct_action t)"
  obtains c d where "ct_capability t = Some c" "ct_contract_digest t = Some d"
    "capabilityName c" "sha256Full d"
  using assms
  by (auto simp: assertWorkerControlTarget_def bindE_eq_Inr presentStr_def split: option.splits if_splits)

lemma controls_replaceControl:
  "set (replaceControl rt c cs) = insert c {x \<in> set cs. controlKeyOf x \<noteq> controlKeyOf c}"
  by (auto simp: replaceControl_def keyMatches_def controlKeyOf_def)

lemma distinct_replaceControl:
  assumes "distinct (map controlKeyOf cs)"
  shows "distinct (map controlKeyOf (replaceControl rt c cs))"
proof -
  let ?xs = "filter (\<lambda>x. \<not> keyMatches (cc_capability c) (cc_contract_digest c) x) cs @ [c]"
  have "distinct (map controlKeyOf ?xs)"
    using assms by (auto simp: keyMatches_def controlKeyOf_def distinct_map_filter)
  moreover have "mset (map controlKeyOf (replaceControl rt c cs)) = mset (map controlKeyOf ?xs)"
    by (simp add: replaceControl_def)
  ultimately show ?thesis using mset_eq_imp_distinct_iff by blast
qed

text \<open>The sorted list is a map from capability and digest: replacing an entry updates the map.\<close>

lemma findRow_replaceControl:
  assumes "distinct (map controlKeyOf cs)"
  shows "findRow controlKeyOf k (replaceControl rt c cs)
    = (if k = controlKeyOf c then Some c else findRow controlKeyOf k cs)"
proof (cases "k = controlKeyOf c")
  case True
  then show ?thesis
    using findRow_distinct [OF distinct_replaceControl [OF assms], of c rt c]
    by (simp add: controls_replaceControl)
next
  case False
  show ?thesis
  proof (cases "findRow controlKeyOf k cs")
    case None
    with False have "findRow controlKeyOf k (replaceControl rt c cs) = None"
      by (auto simp: findRow_None_iff controls_replaceControl)
    with None False show ?thesis by simp
  next
    case (Some x)
    then have "x \<in> set cs" "controlKeyOf x = k" by (auto dest: findRow_SomeD)
    with False Some findRow_distinct [OF distinct_replaceControl [OF assms], of x rt c]
    show ?thesis by (simp add: controls_replaceControl)
  qed
qed

lemma control_signed_default: "signedControl rt (defaultWorkerControlState rt)"
  by (simp add: signedControl_def defaultWorkerControlState_def Let_def unsignedControl_def)

lemma controlShape_key:
  "controlShape c \<longleftrightarrow> capabilityName (fst (controlKeyOf c)) \<and> sha256Full (snd (controlKeyOf c))"
  by (simp add: controlShape_def controlKeyOf_def)

lemma nextControl_signed:
  assumes "signedControl rt w" and "assertWorkerControlTarget t = Inr ()"
    and "applyControlAction rt now actor t w = Inr cs"
  shows "signedControl rt (nextControl rt now t identity cs w)"
proof -
  from assms(3) have "list_all controlShape cs"
  proof (cases rule: applyControlAction_cases)
    case global
    with assms(1) show ?thesis by (simp add: signedControl_def)
  next
    case (capability c)
    with assms(2) obtain a d where "ct_capability t = Some a" "ct_contract_digest t = Some d"
      "capabilityName a" "sha256Full d" by (elim assertWorkerControlTarget_capability)
    with capability have "controlShape c" by (simp add: controlShape_key)
    with assms(1) capability(2) show ?thesis
      by (auto simp: signedControl_def list_all_iff controls_replaceControl)
  qed
  then show ?thesis
    using assms(1) plain_identityJson
    by (simp add: signedControl_def nextControl_def Let_def unsignedControl_def split: option.split)
qed

subsection \<open>Histories\<close>

text \<open>
  The steps of this part of the store: an update, a write of another runner-state key, and the
  recording of attention by the rest of the store.
\<close>

inductive controlStep :: "runtime \<Rightarrow> control_store \<Rightarrow> control_store \<Rightarrow> bool" for rt where
  control_updated: "updateWorkerControl rt now t actor identity rv env s = Inr (u, s') \<Longrightarrow>
    controlStep rt s s'"
| runner_state_set: "key \<noteq> controlKey \<Longrightarrow> setRunnerState key value s = Inr s' \<Longrightarrow> controlStep rt s s'"
| attention_recorded: "recordAttentionEventInternal rt x (ks_attention s) = Inr (e, a) \<Longrightarrow>
    controlStep rt s (s\<lparr>ks_attention := a\<rparr>)"

definition emptyControl :: control_store where
  "emptyControl = \<lparr>ks_runner_state = [],
     ks_attention = \<lparr>at_events = [], at_items = [], at_deliveries = []\<rparr>\<rparr>"

definition soundControl :: "runtime \<Rightarrow> worker_control \<Rightarrow> bool" where
  "soundControl rt w \<longleftrightarrow> signedControl rt w \<and> distinct (map controlKeyOf (wc_controls w))"

definition control_inv :: "runtime \<Rightarrow> control_store \<Rightarrow> bool" where
  "control_inv rt s \<longleftrightarrow> attention_ok rt (ks_attention s)
     \<and> (case getRunnerState controlKey s of None \<Rightarrow> True
        | Some j \<Rightarrow> (\<exists>w. j = workerControlJson w \<and> soundControl rt w))"

definition storedRevision :: "control_store \<Rightarrow> int" where
  "storedRevision s = (case getRunnerState controlKey s of
      Some (JObj es) \<Rightarrow> (case field es ''revision'' of JNum (IntN n) \<Rightarrow> n | _ \<Rightarrow> 0)
    | _ \<Rightarrow> 0)"

definition controlRel :: "control_store \<Rightarrow> control_store \<Rightarrow> bool" where
  "controlRel s t \<longleftrightarrow> storedRevision s \<le> storedRevision t
     \<and> (\<exists>es. at_events (ks_attention t) = at_events (ks_attention s) @ es)"

lemma parse_own_document:
  assumes "signedControl rt w" and "parseWorkerControlState rt (workerControlJson w) = Inr u"
  shows "u = w"
proof (cases "wc_revision w \<le> MAX_SAFE_INTEGER")
  case True
  with assms parse_control_json show ?thesis by fastforce
next
  case False
  then have "parseRevision (JNum (IntN (wc_revision w))) = None"
    by (simp add: parseRevision_def safeIntegerOf_def isSafeInteger_def)
  with assms(2) show ?thesis
    by (simp add: parseWorkerControlState_def workerControlJson_def control_fields)
qed

lemma storedRevision_document:
  "getRunnerState controlKey s = Some (workerControlJson w) \<Longrightarrow> storedRevision s = wc_revision w"
  by (simp add: storedRevision_def workerControlJson_def control_fields)

lemma getRunnerState_upsert:
  "getRunnerState k (s\<lparr>ks_runner_state := upsertRow fst (k', v) (ks_runner_state s), ks_attention := a\<rparr>)
    = (if k = k' then Some v else getRunnerState k s)"
  "getRunnerState k (s\<lparr>ks_runner_state := upsertRow fst (k', v) (ks_runner_state s)\<rparr>)
    = (if k = k' then Some v else getRunnerState k s)"
  "getRunnerState k (s\<lparr>ks_attention := a\<rparr>) = getRunnerState k s"
  by (simp_all add: getRunnerState_def findRow_upsertRow)

lemma workerControlState_sound:
  assumes "control_inv rt s" and "workerControlState rt s = Inr w"
  shows "soundControl rt w" and "storedRevision s = wc_revision w"
proof -
  have "soundControl rt w \<and> storedRevision s = wc_revision w"
  proof (cases "getRunnerState controlKey s")
    case None
    with assms(2) control_signed_default show ?thesis
      by (auto simp: workerControlState_def soundControl_def storedRevision_def
          defaultWorkerControlState_def Let_def)
  next
    case (Some j)
    with assms(1) obtain w0 where j: "j = workerControlJson w0" and w0: "soundControl rt w0"
      by (auto simp: control_inv_def)
    with assms(2) Some have "w = w0"
      by (auto simp: workerControlState_def soundControl_def intro: parse_own_document)
    with w0 j Some storedRevision_document show ?thesis by simp
  qed
  then show "soundControl rt w" and "storedRevision s = wc_revision w" by simp_all
qed

lemma nextControl_sound:
  assumes "soundControl rt w" and "assertWorkerControlTarget t = Inr ()"
    and "applyControlAction rt now actor t w = Inr cs"
  shows "soundControl rt (nextControl rt now t identity cs w)"
  using assms(3)
proof (cases rule: applyControlAction_cases)
  case global
  with assms nextControl_signed show ?thesis
    by (simp add: soundControl_def) (simp add: nextControl_def Let_def)
next
  case (capability c)
  with assms nextControl_signed distinct_replaceControl show ?thesis
    by (simp add: soundControl_def) (simp add: nextControl_def Let_def)
qed

lemma nextControl_revision [simp]:
  "wc_revision (nextControl rt now t identity cs w) = wc_revision w + 1"
  "wc_mode (nextControl rt now t identity cs w) = nextMode (ct_action t) (wc_mode w)"
  "wc_controls (nextControl rt now t identity cs w) = cs"
  "wc_last_decision (nextControl rt now t identity cs w) = map_option identityJson identity"
  by (simp_all add: nextControl_def Let_def)

text \<open>An update from a good state stores a sound document with the next revision.\<close>

lemma updateWorkerControl_sound:
  assumes "control_inv rt s" and "updateWorkerControl rt now t actor identity rv env s = Inr (u, s')"
  shows "control_inv rt s'" and "soundControl rt u"
    and "getRunnerState controlKey s' = Some (workerControlJson u)"
    and "storedRevision s' = storedRevision s + 1"
    and "\<exists>es. at_events (ks_attention s') = at_events (ks_attention s) @ es"
proof -
  from assms(2) obtain w cs e ev a where w: "workerControlState rt s = Inr w"
    and t: "assertWorkerControlTarget t = Inr ()"
    and cs: "applyControlAction rt now actor t w = Inr cs" and u: "u = nextControl rt now t identity cs w"
    and a: "recordAttentionEventInternal rt (controlAttention now e t u) (ks_attention s) = Inr (ev, a)"
    and s': "s' = s\<lparr>ks_runner_state := upsertRow fst (controlKey, workerControlJson u) (ks_runner_state s),
        ks_attention := a\<rparr>"
    by (cases rule: updateWorkerControl_cases) force
  from workerControlState_sound [OF assms(1) w] have sw: "soundControl rt w"
    and rev: "storedRevision s = wc_revision w" .
  from nextControl_sound [OF sw t cs] u show su: "soundControl rt u" by simp
  show g: "getRunnerState controlKey s' = Some (workerControlJson u)"
    by (simp add: s' getRunnerState_upsert)
  from storedRevision_document [OF g] u rev show "storedRevision s' = storedRevision s + 1" by simp
  from recordAttentionEventInternal_events [OF a]
  show "\<exists>es. at_events (ks_attention s') = at_events (ks_attention s) @ es"
    by (auto simp: s')
  from assms(1) have "attention_ok rt (ks_attention s)" by (simp add: control_inv_def)
  from recordAttentionEventInternal_ok [OF this a] g su show "control_inv rt s'"
    by (auto simp: control_inv_def s')
qed

interpretation control: state_machine "controlStep rt" "control_inv rt" controlRel
  for rt
proof
  fix s t :: control_store
  assume step: "controlStep rt s t" and i: "control_inv rt s"
  from step i have "control_inv rt t \<and> controlRel s t"
  proof (cases rule: controlStep.cases)
    case (control_updated now tg actor identity rv env u)
    with updateWorkerControl_sound [OF i, of now tg actor identity rv env u t]
    show ?thesis by (simp add: controlRel_def)
  next
    case (runner_state_set key v)
    then have "getRunnerState controlKey t = getRunnerState controlKey s"
      "ks_attention t = ks_attention s"
      by (auto simp: setRunnerState_def bindE_eq_Inr getRunnerState_upsert)
    with i show ?thesis by (simp add: control_inv_def controlRel_def storedRevision_def)
  next
    case (attention_recorded x e a)
    with i recordAttentionEventInternal_events [OF attention_recorded(2)]
      recordAttentionEventInternal_ok [OF _ attention_recorded(2)]
    show ?thesis
      by (auto simp: control_inv_def controlRel_def storedRevision_def getRunnerState_upsert)
  qed
  then show "control_inv rt t" and "controlRel s t" by simp_all
next
  show "controlRel s s" for s by (simp add: controlRel_def)
  show "controlRel s t \<Longrightarrow> controlRel t u \<Longrightarrow> controlRel s u" for s t u
    by (auto simp: controlRel_def)
qed

lemma control_inv_empty: "control_inv rt emptyControl"
  by (simp add: control_inv_def emptyControl_def getRunnerState_def attention_ok_def)

end
