(* ===== verification/ControlProperties.thy ===== *)
theory ControlProperties
  imports WorkerControl Samples
begin

text \<open>
  Properties of the operator control of supervised execution over the definitions of
  \<open>WorkerControl\<close>: its refinement of a map from reviewed digests to statuses, the single use of an
  operator's decision, the round trip of the stored document and what a revocation blocks.
\<close>

text \<open>
  The abstract control: a mode and a partial map from capability and digest to a status, with its
  one guarded action.
\<close>

type_synonym control_view = "control_mode \<times> (string \<times> string \<Rightarrow> control_status option)"

definition controlView :: "worker_control \<Rightarrow> control_view" where
  "controlView w = (wc_mode w, \<lambda>k. map_option cc_status (findRow controlKeyOf k (wc_controls w)))"

definition targetKey :: "control_target \<Rightarrow> string \<times> string" where
  "targetKey t = (optOr (ct_capability t) [], optOr (ct_contract_digest t) [])"

definition controlSpec :: "control_target \<Rightarrow> control_view \<Rightarrow> control_view result" where
  "controlSpec t v = (if \<not> capabilityAction (ct_action t) then Inr (nextMode (ct_action t) (fst v), snd v)
     else if snd v (targetKey t) = Some CapRevoked \<and> ct_action t = CapabilityEnable
       then Inl (ProposalStoreError ''WORKER_DIGEST_REVOKED'')
     else Inr (fst v, (snd v)(targetKey t := Some (actionStatus (ct_action t)))))"

lemma applyControlAction_refines:
  assumes "distinct (map controlKeyOf (wc_controls w))"
  shows "(case applyControlAction rt now actor t w of
      Inl e \<Rightarrow> controlSpec t (controlView w) = Inl e
    | Inr cs \<Rightarrow> controlSpec t (controlView w) = Inr (controlView (nextControl rt now t identity cs w)))"
proof (cases "capabilityAction (ct_action t)")
  case False
  then show ?thesis by (simp add: applyControlAction_def controlSpec_def controlView_def)
next
  case True
  then have m: "nextMode (ct_action t) m = m" for m by (auto simp: capabilityAction_def nextMode_def)
  from True assms show ?thesis
    by (auto simp: applyControlAction_def Let_def controlSpec_def controlView_def targetKey_def
        find_keyMatches findRow_replaceControl controlKeyOf_def m fun_eq_iff throwIf_def)
qed

lemma allows_view: "workerControlAllowsPolicy w c d \<longleftrightarrow>
    snd (controlView w) (c, d) \<noteq> Some CapDisabled \<and> snd (controlView w) (c, d) \<noteq> Some CapRevoked"
  by (auto simp: workerControlAllowsPolicy_def controlView_def find_keyMatches split: option.split)

subsection \<open>Refinement\<close>


subsection \<open>Operator decisions\<close>

lemma decision_bound:
  assumes "assertWorkerControlOperatorDecision rt w t actor (Some i) rv = Inr ()"
  shows "ip_subject i = actor" and "od_action (ip_decision i) = workerControlOperatorAction (ct_action t)"
    and "od_proposal_version (ip_decision i) = wc_revision w + 1"
    and "od_proposal_hash (ip_decision i) = controlTargetDigest rt w t"
    and "rv \<Longrightarrow> ip_verified i \<and> ip_provider i \<noteq> DevEnv"
  using assms by (auto simp: assertWorkerControlOperatorDecision_def Let_def bindE_eq_Inr
      workerControlDecisionSubject_def)

text \<open>A control decision is accepted only for the action, the target and the revision it was
  made for, with a verified operator where one is required, and only once: in no later state does
  any update accept the same proof of identity.\<close>

theorem control_decision_is_used_once:
  assumes "(controlStep rt)\<^sup>*\<^sup>* emptyControl s"
    and "updateWorkerControl rt now t actor (Some i) rv env s = Inr (u, s1)"
  shows "ip_subject i = actor
      \<and> od_action (ip_decision i) = workerControlOperatorAction (ct_action t)
      \<and> od_proposal_version (ip_decision i) = wc_revision u
      \<and> (rv \<longrightarrow> ip_verified i \<and> ip_provider i \<noteq> DevEnv)
      \<and> (\<forall>s2 now2 t2 actor2 rv2 env2 r. (controlStep rt)\<^sup>*\<^sup>* s1 s2 \<longrightarrow>
           updateWorkerControl rt now2 t2 actor2 (Some i) rv2 env2 s2 \<noteq> Inr r)"
proof -
  have i: "control_inv rt s" using control.history_inv [OF assms(1) control_inv_empty] .
  from assms(2) obtain w cs where w: "workerControlState rt s = Inr w"
    and dec: "assertWorkerControlOperatorDecision rt w t actor (Some i) rv = Inr ()"
    and u: "u = nextControl rt now t (Some i) cs w"
    by (cases rule: updateWorkerControl_cases) auto
  have s1: "control_inv rt s1" and rev: "storedRevision s1 = wc_revision w + 1"
    using updateWorkerControl_sound [OF i assms(2)] workerControlState_sound [OF i w] by simp_all
  have "updateWorkerControl rt now2 t2 actor2 (Some i) rv2 env2 s2 \<noteq> Inr r"
    if h: "(controlStep rt)\<^sup>*\<^sup>* s1 s2" for s2 now2 t2 actor2 rv2 env2 r
  proof
    assume run: "updateWorkerControl rt now2 t2 actor2 (Some i) rv2 env2 s2 = Inr r"
    then obtain w2 where w2: "workerControlState rt s2 = Inr w2"
      and dec2: "assertWorkerControlOperatorDecision rt w2 t2 actor2 (Some i) rv2 = Inr ()"
      by (cases r) (auto elim: updateWorkerControl_cases)
    from control.history_rel [OF h s1] have "storedRevision s1 \<le> storedRevision s2"
      by (simp add: controlRel_def)
    moreover from workerControlState_sound [OF control.history_inv [OF h s1] w2]
    have "storedRevision s2 = wc_revision w2" by simp
    ultimately show False using rev decision_bound(3) [OF dec] decision_bound(3) [OF dec2] by simp
  qed
  with decision_bound [OF dec] u show ?thesis by auto
qed

subsection \<open>Revocation\<close>

text \<open>In every reachable state a revoked digest is refused by the worker's gate and cannot be
  enabled, and every accepted action keeps it revoked unless that action disables the same digest.\<close>

theorem revoked_digest_stays_blocked:
  assumes "(controlStep rt)\<^sup>*\<^sup>* emptyControl s" and "workerControlState rt s = Inr w"
    and "snd (controlView w) (c, d) = Some CapRevoked"
  shows "\<not> workerControlAllowsPolicy w c d \<and> assertWorkerControlAllows rt c d s \<noteq> Inr ()
    \<and> (\<forall>now t actor identity rv env u s'.
        updateWorkerControl rt now t actor identity rv env s = Inr (u, s') \<longrightarrow>
        (if targetKey t = (c, d) \<and> capabilityAction (ct_action t)
         then ct_action t \<noteq> CapabilityEnable
           \<and> (ct_action t = DigestRevoke \<longrightarrow> snd (controlView u) (c, d) = Some CapRevoked)
         else snd (controlView u) (c, d) = Some CapRevoked))"
proof -
  have "\<not> workerControlAllowsPolicy w c d" using assms(3) by (simp add: allows_view)
  moreover from this assms(2) have "assertWorkerControlAllows rt c d s \<noteq> Inr ()"
    by (auto simp: assertWorkerControlAllows_def bindE_eq_Inr)
  moreover have "if targetKey t = (c, d) \<and> capabilityAction (ct_action t)
      then ct_action t \<noteq> CapabilityEnable
        \<and> (ct_action t = DigestRevoke \<longrightarrow> snd (controlView u) (c, d) = Some CapRevoked)
      else snd (controlView u) (c, d) = Some CapRevoked"
    if "updateWorkerControl rt now t actor identity rv env s = Inr (u, s')"
    for now t actor identity rv env u s'
  proof -
    from control.history_inv [OF assms(1) control_inv_empty] have i: "control_inv rt s" .
    from workerControlState_sound [OF i assms(2)]
    have "distinct (map controlKeyOf (wc_controls w))" by (simp add: soundControl_def)
    moreover from that assms(2) obtain cs where "applyControlAction rt now actor t w = Inr cs"
      and "u = nextControl rt now t identity cs w" by (cases rule: updateWorkerControl_cases) auto
    ultimately have "controlSpec t (controlView w) = Inr (controlView u)"
      using applyControlAction_refines [where w = w and rt = rt and now = now and actor = actor
          and t = t and identity = identity] by simp
    then show ?thesis
      using assms(3) by (cases "controlView u") (auto simp: controlSpec_def actionStatus_def split: if_splits)
  qed
  ultimately show ?thesis by blast
qed

subsection \<open>Concrete controls\<close>

definition sampleDigest :: string where
  "sampleDigest = ''sha256:'' @ replicate 64 (CHR ''a'')"

definition sampleTarget :: "control_action \<Rightarrow> control_target" where
  "sampleTarget a = (if capabilityAction a
     then \<lparr>ct_action = a, ct_capability = Some ''b.w'', ct_contract_digest = Some sampleDigest\<rparr>
     else \<lparr>ct_action = a, ct_capability = None, ct_contract_digest = None\<rparr>)"

text \<open>Running a list of actions by one actor, without a proof of identity.\<close>

fun runActions :: "control_action list \<Rightarrow> control_store \<Rightarrow> control_store result" where
  "runActions [] s = Inr s"
| "runActions (a # as) s = bindE (updateWorkerControl sampleRuntime 0 (sampleTarget a) ''op'' None False
     None s) (\<lambda>x. runActions as (snd x))"

lemma runActions_steps: "runActions as s = Inr s' \<Longrightarrow> (controlStep sampleRuntime)\<^sup>*\<^sup>* s s'"
proof (induction as arbitrary: s)
  case (Cons a as)
  then obtain u t where
    "updateWorkerControl sampleRuntime 0 (sampleTarget a) ''op'' None False None s = Inr (u, t)"
    and "runActions as t = Inr s'" by (auto simp: bindE_eq_Inr)
  with Cons.IH [of t] control_updated show ?case by (meson converse_rtranclp_into_rtranclp)
qed simp

lemma revoked_sample: "(case runActions [DigestRevoke] emptyControl of Inl _ \<Rightarrow> False
    | Inr s \<Rightarrow> (case workerControlState sampleRuntime s of Inl _ \<Rightarrow> False
      | Inr w \<Rightarrow> snd (controlView w) (''b.w'', sampleDigest) = Some CapRevoked))"
  by code_simp

text \<open>
  What the error message of a revoked digest denies: a revoked digest that is disabled can then be
  enabled, and the worker's gate admits it again.
\<close>

lemma revoked_digest_can_return:
  "(case runActions [DigestRevoke, CapabilityEnable] emptyControl of
      Inl e \<Rightarrow> e = ProposalStoreError ''WORKER_DIGEST_REVOKED'' | Inr _ \<Rightarrow> False)
   \<and> (case runActions [DigestRevoke, CapabilityDisable, CapabilityEnable] emptyControl of
      Inl _ \<Rightarrow> False
    | Inr s \<Rightarrow> assertWorkerControlAllows sampleRuntime ''b.w'' sampleDigest s = Inr ())"
  by code_simp

subsection \<open>Witnesses\<close>

definition samplePauseIdentity :: identity_proof where
  "samplePauseIdentity = \<lparr>ip_provider = SignedKey, ip_verified = True, ip_subject = ''op'', ip_roles = [],
     ip_key_id = None, ip_algorithm = None, ip_issuer = None,
     ip_decision = \<lparr>od_action = DWorkerPause, od_proposal_id = ''worker_control_00'',
       od_proposal_version = 1, od_proposal_hash = ''sha256:00'', od_subject = ''op'',
       od_issued_at = ''t'', od_reason = None\<rparr>,
     ip_decision_hash = ''sha256:00'', ip_signature = None, ip_integrity_hash = ''sha256:00''\<rparr>"



lemma sample_pause_accepted: "(case updateWorkerControl sampleRuntime 0 (sampleTarget PauseAll) ''op''
    (Some samplePauseIdentity) True None emptyControl of Inl _ \<Rightarrow> False | Inr _ \<Rightarrow> True)"
  by code_simp

theorem control_decision_is_used_once_witness:
  "\<exists>u s1. updateWorkerControl sampleRuntime 0 (sampleTarget PauseAll) ''op'' (Some samplePauseIdentity) True
       None emptyControl = Inr (u, s1)
     \<and> (\<forall>r. updateWorkerControl sampleRuntime 1 (sampleTarget ResumeAll) ''op'' (Some samplePauseIdentity)
          True None s1 \<noteq> Inr r)"
proof -
  from sample_pause_accepted obtain u s1 where u: "updateWorkerControl sampleRuntime 0
      (sampleTarget PauseAll) ''op'' (Some samplePauseIdentity) True None emptyControl = Inr (u, s1)"
    by (auto split: sum.splits)
  with control_decision_is_used_once [OF rtranclp.rtrancl_refl u] show ?thesis by blast
qed

theorem revoked_digest_stays_blocked_witness:
  "\<exists>s w. (controlStep sampleRuntime)\<^sup>*\<^sup>* emptyControl s \<and> workerControlState sampleRuntime s = Inr w
     \<and> \<not> workerControlAllowsPolicy w ''b.w'' sampleDigest"
proof -
  from revoked_sample obtain s w where run: "runActions [DigestRevoke] emptyControl = Inr s"
    and w: "workerControlState sampleRuntime s = Inr w"
    and r: "snd (controlView w) (''b.w'', sampleDigest) = Some CapRevoked"
    by (auto split: sum.splits)
  with runActions_steps [OF run] revoked_digest_stays_blocked [OF runActions_steps [OF run] w r]
  show ?thesis by blast
qed

end
