(* ===== verification/CloudOutbox.thy ===== *)
theory CloudOutbox
  imports Writeback
begin

text \<open>
  The durable outbox to the cloud control plane and the governance events that come back
  (\<open>packages/proposal-store/src/sqlite-cloud-control-methods.ts\<close>): enqueueing, claiming under a lease in
  the order of each proposal's sequence, acknowledging, failing with a retry budget, requeueing and
  compaction, and the recording of a governance event with its projection on the proposal.

  Claiming runs in a transaction.  \<open>recordCloudGovernanceEvent\<close> does not: it is modelled with the
  state it leaves behind when it throws.
\<close>

subsection \<open>State\<close>

datatype outbox_status = OutPending | OutLeased | OutAcknowledged | OutDeadLetter
  | OutReconciliationRequired

record outbox_item =
  ob_event_id :: string
  ob_proposal_id :: "string option"
  ob_sequence :: int
  ob_kind :: string
  ob_status :: outbox_status
  ob_payload_hash :: string
  ob_payload :: srow
  ob_attempts :: int
  ob_max_attempts :: int
  ob_next_attempt_at :: time
  ob_lease_owner :: "string option"
  ob_lease_expires_at :: "time option"
  ob_last_error_code :: "string option"
  ob_created_at :: time
  ob_updated_at :: time
  ob_sent_at :: "time option"
  ob_acknowledged_at :: "time option"

record governance_event =
  gv_event_id :: string
  gv_proposal_id :: string
  gv_cloud_proposal_id :: "string option"
  gv_kind :: string
  gv_state :: string
  gv_payload :: srow
  gv_integrity_hash :: string
  gv_created_at :: string

record cloud_store =
  cl_store :: store
  cl_outbox :: "outbox_item list"
  cl_governance :: "governance_event list"

definition emptyCloud :: "store \<Rightarrow> cloud_store" where
  "emptyCloud s = \<lparr>cl_store = s, cl_outbox = [], cl_governance = []\<rparr>"

subsection \<open>Enqueueing\<close>

record outbox_input =
  oi_event_id :: string
  oi_proposal_id :: "string option"
  oi_sequence :: "int option"
  oi_kind :: string
  oi_payload :: srow
  oi_max_attempts :: "int option"

definition findOutbox :: "string \<Rightarrow> cloud_store \<Rightarrow> outbox_item option" where
  "findOutbox eid s = findRow ob_event_id eid (cl_outbox s)"

definition requireCloudOutboxItem :: "string \<Rightarrow> cloud_store \<Rightarrow> outbox_item result" where
  "requireCloudOutboxItem eid s =
     requireSome (storeErr ''CLOUD_OUTBOX_EVENT_NOT_FOUND'') (findOutbox eid s)"

definition newOutboxItem :: "time \<Rightarrow> string \<Rightarrow> string \<Rightarrow> outbox_input \<Rightarrow> outbox_item" where
  "newOutboxItem now eid hash x = \<lparr>ob_event_id = eid, ob_proposal_id = oi_proposal_id x,
     ob_sequence = max 0 (optOr (oi_sequence x) 0), ob_kind = oi_kind x, ob_status = OutPending,
     ob_payload_hash = hash, ob_payload = oi_payload x, ob_attempts = 0,
     ob_max_attempts = clampTo 1 100 (optOr (oi_max_attempts x) 12), ob_next_attempt_at = now,
     ob_lease_owner = None, ob_lease_expires_at = None, ob_last_error_code = None,
     ob_created_at = now, ob_updated_at = now, ob_sent_at = None, ob_acknowledged_at = None\<rparr>"

definition enqueueCloudOutbox ::
  "runtime \<Rightarrow> time \<Rightarrow> outbox_input \<Rightarrow> cloud_store \<Rightarrow> (outbox_item \<times> cloud_store) result" where
  "enqueueCloudOutbox rt now x s = (let eid = trimStr (oi_event_id x) in
     bindE (throwIf (eid = []) (storeErr ''CLOUD_OUTBOX_EVENT_ID_REQUIRED'')) (\<lambda>_.
     bindE (throwIf (oi_kind x \<notin> set [''proposal'', ''activity'', ''result''])
              (storeErr ''CLOUD_OUTBOX_KIND_INVALID'')) (\<lambda>_.
     bindE (case presentStr (oi_proposal_id x) of None \<Rightarrow> Inr ()
              | Some pid \<Rightarrow> mapE (\<lambda>_. ()) (requireProposal pid (cl_store s))) (\<lambda>_.
     bindE (assertNoSecretMaterial (JObj (oi_payload x))) (\<lambda>_.
     bindE (canonicalJsonDigest rt (JObj (oi_payload x))) (\<lambda>hash.
     bindE (case findOutbox eid s of
              Some _ \<Rightarrow> Inr s
            | None \<Rightarrow> bindE (throwIf (case oi_proposal_id x of None \<Rightarrow> False
                  | Some pid \<Rightarrow> getProposal pid (cl_store s) = None)
                  (SqliteError ''FOREIGN KEY cloud_outbox.proposal_id'')) (\<lambda>_.
                Inr (s\<lparr>cl_outbox := cl_outbox s @ [newOutboxItem now eid hash x]\<rparr>))) (\<lambda>t.
     bindE (requireCloudOutboxItem eid t) (\<lambda>item.
     bindE (throwIf (ob_payload_hash item \<noteq> hash \<or> ob_kind item \<noteq> oi_kind x
                \<or> ob_proposal_id item \<noteq> oi_proposal_id x)
              (storeErr ''CLOUD_OUTBOX_IDEMPOTENCY_MISMATCH'')) (\<lambda>_.
     Inr (item, t))))))))))"

subsection \<open>Claiming\<close>

definition releaseLapsed :: "time \<Rightarrow> outbox_item list \<Rightarrow> outbox_item list" where
  "releaseLapsed now = updateWhere
     (\<lambda>i. ob_status i = OutLeased \<and> (case ob_lease_expires_at i of None \<Rightarrow> False | Some t \<Rightarrow> t \<le> now))
     (\<lambda>i. i\<lparr>ob_status := OutPending, ob_lease_owner := None, ob_lease_expires_at := None,
        ob_updated_at := now\<rparr>)"

text \<open>An earlier item of the same proposal that is not acknowledged; \<open>NULL\<close> equals nothing.\<close>

definition heldBack :: "outbox_item list \<Rightarrow> outbox_item \<Rightarrow> bool" where
  "heldBack xs c = list_ex (\<lambda>e. ob_proposal_id e \<noteq> None \<and> ob_proposal_id e = ob_proposal_id c
     \<and> ob_sequence e < ob_sequence c \<and> ob_status e \<noteq> OutAcknowledged) xs"

definition outboxLe :: "outbox_item \<Rightarrow> outbox_item \<Rightarrow> bool" where
  "outboxLe a b \<longleftrightarrow> ob_sequence a < ob_sequence b \<or> (ob_sequence a = ob_sequence b
     \<and> (ob_created_at a < ob_created_at b \<or> (ob_created_at a = ob_created_at b
        \<and> strLe (ob_event_id a) (ob_event_id b))))"

definition outboxClaimable :: "time \<Rightarrow> outbox_item list \<Rightarrow> outbox_item \<Rightarrow> bool" where
  "outboxClaimable now xs c \<longleftrightarrow> ob_status c = OutPending \<and> ob_next_attempt_at c \<le> now \<and> \<not> heldBack xs c"

definition leaseOutbox :: "string \<Rightarrow> time \<Rightarrow> time \<Rightarrow> outbox_item \<Rightarrow> outbox_item" where
  "leaseOutbox owner expires now i = i\<lparr>ob_status := OutLeased, ob_lease_owner := Some owner,
     ob_lease_expires_at := Some expires, ob_attempts := ob_attempts i + 1,
     ob_sent_at := Some (optOr (ob_sent_at i) now), ob_updated_at := now\<rparr>"

definition claimRow :: "string \<Rightarrow> time \<Rightarrow> time \<Rightarrow> string
    \<Rightarrow> string list \<times> outbox_item list \<Rightarrow> string list \<times> outbox_item list" where
  "claimRow owner expires now eid st =
     (let matches = \<lambda>i. ob_event_id i = eid \<and> ob_status i = OutPending
      in (if countWhere matches (snd st) = 1 then fst st @ [eid] else fst st,
          updateWhere matches (leaseOutbox owner expires now) (snd st)))"

definition leaseMillis :: "int option \<Rightarrow> int" where
  "leaseMillis m = clampTo 1000 300000 (optOr m 30000)"

definition claimLimit :: "int option \<Rightarrow> nat" where
  "claimLimit m = nat (clampTo 1 100 (optOr m 10))"

definition claimCloudOutbox :: "string \<Rightarrow> int option \<Rightarrow> int option \<Rightarrow> time \<Rightarrow> cloud_store
    \<Rightarrow> (outbox_item list \<times> cloud_store) result" where
  "claimCloudOutbox owner0 limit lease now s = (let owner = trimStr owner0 in
     bindE (throwIf (owner = []) (storeErr ''CLOUD_OUTBOX_OWNER_REQUIRED'')) (\<lambda>_.
     (let expires = now + leaseMillis lease;
          xs = releaseLapsed now (cl_outbox s);
          rows = take (claimLimit limit) (sortBy outboxLe (filter (outboxClaimable now xs) xs));
          r = fold (claimRow owner expires now) (map ob_event_id rows) ([], xs);
          t = s\<lparr>cl_outbox := snd r\<rparr>
      in bindE (traverseE (\<lambda>eid. requireCloudOutboxItem eid t) (fst r)) (\<lambda>items. Inr (items, t)))))"

subsection \<open>Acknowledging, failing and requeueing\<close>

definition updateOutbox ::
  "(outbox_item \<Rightarrow> bool) \<Rightarrow> (outbox_item \<Rightarrow> outbox_item) \<Rightarrow> cloud_store \<Rightarrow> cloud_store" where
  "updateOutbox p f s = s\<lparr>cl_outbox := updateWhere p f (cl_outbox s)\<rparr>"

definition acknowledgeCloudOutbox ::
  "string \<Rightarrow> string \<Rightarrow> time \<Rightarrow> cloud_store \<Rightarrow> (outbox_item \<times> cloud_store) result" where
  "acknowledgeCloudOutbox eid owner now s =
     (let matches = \<lambda>i. ob_event_id i = eid \<and> ob_status i = OutLeased \<and> ob_lease_owner i = Some owner;
          t = updateOutbox matches (\<lambda>i. i\<lparr>ob_status := OutAcknowledged, ob_lease_owner := None,
            ob_lease_expires_at := None, ob_acknowledged_at := Some now, ob_last_error_code := None,
            ob_updated_at := now\<rparr>) s
      in bindE (throwIf (countWhere matches (cl_outbox s) \<noteq> 1)
                 (storeErr ''CLOUD_OUTBOX_LEASE_MISMATCH'')) (\<lambda>_.
         mapE (\<lambda>i. (i, t)) (requireCloudOutboxItem eid t)))"

record outbox_failure =
  of_error_code :: string
  of_retryable :: bool
  of_retry_after_ms :: "int option"
  of_reconciliation :: bool

definition failureStatus :: "outbox_failure \<Rightarrow> outbox_item \<Rightarrow> outbox_status" where
  "failureStatus f i = (if of_reconciliation f then OutReconciliationRequired
     else if of_retryable f \<and> \<not> ob_max_attempts i \<le> ob_attempts i then OutPending else OutDeadLetter)"

definition retryDelay :: "outbox_failure \<Rightarrow> outbox_item \<Rightarrow> int" where
  "retryDelay f i = clampTo 0 3600000
     (optOr (of_retry_after_ms f) (min 300000 (500 * 2 ^ nat (min (ob_attempts i) 9))))"

definition failCloudOutbox :: "string \<Rightarrow> string \<Rightarrow> outbox_failure \<Rightarrow> time \<Rightarrow> cloud_store
    \<Rightarrow> (outbox_item \<times> cloud_store) result" where
  "failCloudOutbox eid owner f now s =
     bindE (requireCloudOutboxItem eid s) (\<lambda>current.
     bindE (throwIf (ob_status current \<noteq> OutLeased \<or> ob_lease_owner current \<noteq> Some owner)
              (storeErr ''CLOUD_OUTBOX_LEASE_MISMATCH'')) (\<lambda>_.
     (let t = updateOutbox (\<lambda>i. ob_event_id i = eid) (\<lambda>i. i\<lparr>ob_status := failureStatus f current,
            ob_lease_owner := None, ob_lease_expires_at := None,
            ob_last_error_code := Some (of_error_code f),
            ob_next_attempt_at := now + retryDelay f current, ob_updated_at := now\<rparr>) s
      in mapE (\<lambda>i. (i, t)) (requireCloudOutboxItem eid t))))"

definition requeueCloudOutbox ::
  "string \<Rightarrow> time \<Rightarrow> cloud_store \<Rightarrow> (outbox_item \<times> cloud_store) result" where
  "requeueCloudOutbox eid now s =
     bindE (requireCloudOutboxItem eid s) (\<lambda>current.
     bindE (throwIf (ob_status current \<noteq> OutDeadLetter \<and> ob_status current \<noteq> OutReconciliationRequired)
              (storeErr ''CLOUD_OUTBOX_NOT_REQUEUEABLE'')) (\<lambda>_.
     (let t = updateOutbox (\<lambda>i. ob_event_id i = eid) (\<lambda>i. i\<lparr>ob_status := OutPending, ob_attempts := 0,
            ob_lease_owner := None, ob_lease_expires_at := None, ob_last_error_code := None,
            ob_next_attempt_at := now, ob_updated_at := now\<rparr>) s
      in mapE (\<lambda>i. (i, t)) (requireCloudOutboxItem eid t))))"

definition listCloudOutbox ::
  "outbox_status option \<Rightarrow> string option \<Rightarrow> int option \<Rightarrow> cloud_store \<Rightarrow> outbox_item list" where
  "listCloudOutbox status pid limit s = take (nat (clampTo 1 10000 (optOr limit 100)))
     (sortBy outboxLe (filter (\<lambda>i. (status = None \<or> status = Some (ob_status i))
        \<and> (presentStr pid = None \<or> presentStr pid = ob_proposal_id i)) (cl_outbox s)))"

definition compactCloudOutbox :: "time \<Rightarrow> cloud_store \<Rightarrow> nat \<times> cloud_store" where
  "compactCloudOutbox before s =
     (let old = \<lambda>i. ob_status i = OutAcknowledged
            \<and> (case ob_acknowledged_at i of None \<Rightarrow> False | Some t \<Rightarrow> t < before)
      in (countWhere old (cl_outbox s), s\<lparr>cl_outbox := filter (\<lambda>i. \<not> old i) (cl_outbox s)\<rparr>))"

subsection \<open>Governance events\<close>

record governance_input =
  gi_event_id :: string
  gi_proposal_id :: string
  gi_cloud_proposal_id :: "string option"
  gi_kind :: string
  gi_state :: string
  gi_payload :: srow
  gi_created_at :: "string option"

definition governanceJson :: "governance_input \<Rightarrow> string \<Rightarrow> json" where
  "governanceJson x createdAt = JObj ([(''event_id'', JStr (gi_event_id x)),
     (''proposal_id'', JStr (gi_proposal_id x))]
     @ optField ''cloud_proposal_id'' JStr (presentStr (gi_cloud_proposal_id x))
     @ [(''kind'', JStr (gi_kind x)), (''state'', JStr (gi_state x)),
        (''authority'', JStr ''synapsor_cloud''), (''payload'', JObj (gi_payload x)),
        (''created_at'', JStr createdAt)])"

definition governanceEventOf :: "governance_input \<Rightarrow> string \<Rightarrow> string \<Rightarrow> governance_event" where
  "governanceEventOf x createdAt hash = \<lparr>gv_event_id = gi_event_id x,
     gv_proposal_id = gi_proposal_id x, gv_cloud_proposal_id = presentStr (gi_cloud_proposal_id x),
     gv_kind = gi_kind x, gv_state = gi_state x, gv_payload = gi_payload x,
     gv_integrity_hash = hash, gv_created_at = createdAt\<rparr>"

definition insertGovernance :: "governance_event \<Rightarrow> cloud_store \<Rightarrow> cloud_store" where
  "insertGovernance g s = (if findRow gv_event_id (gv_event_id g) (cl_governance s) = None
     then s\<lparr>cl_governance := cl_governance s @ [g]\<rparr> else s)"

definition cloudProjected :: "proposal_state \<Rightarrow> string \<Rightarrow> proposal \<Rightarrow> proposal" where
  "cloudProjected st createdAt p = p\<lparr>p_state := st,
     p_source_database_mutated := (if st = Applied then True else p_source_database_mutated p),
     p_updated_at := createdAt\<rparr>"

definition projectGovernance ::
  "runtime \<Rightarrow> time \<Rightarrow> governance_event \<Rightarrow> cloud_store \<Rightarrow> err option \<times> cloud_store" where
  "projectGovernance rt clock g s = (case localStateFromCloudGovernance (gv_state g) of
      None \<Rightarrow> (None, s)
    | Some st \<Rightarrow>
        (let matches = \<lambda>p. p_id p = gv_proposal_id g \<and> activeState (p_state p);
             t = (cl_store s)\<lparr>s_proposals :=
               updateWhere matches (cloudProjected st (gv_created_at g)) (s_proposals (cl_store s))\<rparr>
         in if countWhere matches (s_proposals (cl_store s)) \<noteq> 1 then (None, s\<lparr>cl_store := t\<rparr>)
            else (case appendEvent rt clock (gv_proposal_id g) (''proposal_cloud_'' @ proposalStateStr st)
                ''synapsor_cloud'' [(''cloud_event_id'', JStr (gv_event_id g)),
                  (''cloud_proposal_id'', JStr (optOr (gv_cloud_proposal_id g) (gv_proposal_id g))),
                  (''cloud_state'', JStr (gv_state g)), (''authority'', JStr ''synapsor_cloud'')] None t of
                Inl e \<Rightarrow> (Some e, s\<lparr>cl_store := t\<rparr>)
              | Inr u \<Rightarrow> (None, s\<lparr>cl_store := u\<rparr>))))"

definition governanceLe :: "governance_event \<Rightarrow> governance_event \<Rightarrow> bool" where
  "governanceLe a b \<longleftrightarrow> strLess (gv_created_at a) (gv_created_at b)
     \<or> (gv_created_at a = gv_created_at b \<and> strLe (gv_event_id a) (gv_event_id b))"

definition listCloudGovernanceEvents :: "string option \<Rightarrow> cloud_store \<Rightarrow> governance_event list" where
  "listCloudGovernanceEvents pid s = sortBy governanceLe (filter (\<lambda>g. presentStr pid = None
     \<or> presentStr pid = Some (gv_proposal_id g)) (cl_governance s))"

definition recordCloudGovernanceEvent ::
  "runtime \<Rightarrow> time \<Rightarrow> governance_input \<Rightarrow> cloud_store \<Rightarrow> governance_event result \<times> cloud_store" where
  "recordCloudGovernanceEvent rt clock x s =
     (let createdAt = optOr (gi_created_at x) (isoString rt clock) in
      case bindE (requireProposal (gi_proposal_id x) (cl_store s)) (\<lambda>_.
           bindE (assertNoSecretMaterial (JObj (gi_payload x))) (\<lambda>_.
           canonicalJsonDigest rt (governanceJson x createdAt))) of
        Inl e \<Rightarrow> (Inl e, s)
      | Inr hash \<Rightarrow>
          (let g = governanceEventOf x createdAt hash in
           case projectGovernance rt clock g (insertGovernance g s) of
             (Some e, t) \<Rightarrow> (Inl e, t)
           | (None, t) \<Rightarrow>
               (case find (\<lambda>v. gv_event_id v = gi_event_id x)
                   (listCloudGovernanceEvents (Some (gi_proposal_id x)) t) of
                  Some stored \<Rightarrow> (if gv_integrity_hash stored = hash then (Inr stored, t)
                    else (Inl (storeErr ''CLOUD_GOVERNANCE_EVENT_MISMATCH''), t))
                | None \<Rightarrow> (Inl (storeErr ''CLOUD_GOVERNANCE_EVENT_MISMATCH''), t))))"

subsection \<open>The invariant\<close>

definition outboxItemOk :: "runtime \<Rightarrow> store \<Rightarrow> outbox_item \<Rightarrow> bool" where
  "outboxItemOk rt st i \<longleftrightarrow> ob_kind i \<in> set [''proposal'', ''activity'', ''result'']
     \<and> 0 \<le> ob_sequence i \<and> 0 \<le> ob_attempts i \<and> 1 \<le> ob_max_attempts i \<and> ob_max_attempts i \<le> 100
     \<and> secretFree (JObj (ob_payload i)) \<and> canonicalJsonDigest rt (JObj (ob_payload i)) = Inr (ob_payload_hash i)
     \<and> (ob_status i = OutLeased \<longleftrightarrow> ob_lease_owner i \<noteq> None)
     \<and> (ob_status i = OutLeased \<longleftrightarrow> ob_lease_expires_at i \<noteq> None)
     \<and> (ob_status i = OutAcknowledged \<longleftrightarrow> ob_acknowledged_at i \<noteq> None)
     \<and> (case ob_proposal_id i of None \<Rightarrow> True | Some pid \<Rightarrow> getProposal pid st \<noteq> None)"

definition outbox_ok :: "runtime \<Rightarrow> cloud_store \<Rightarrow> bool" where
  "outbox_ok rt s \<longleftrightarrow> distinct (map ob_event_id (cl_outbox s))
     \<and> (\<forall>i \<in> set (cl_outbox s). outboxItemOk rt (cl_store s) i)
     \<and> distinct (map gv_event_id (cl_governance s))
     \<and> (\<forall>g \<in> set (cl_governance s). getProposal (gv_proposal_id g) (cl_store s) \<noteq> None)"

lemma outbox_ok_itemD: "outbox_ok rt s \<Longrightarrow> i \<in> set (cl_outbox s) \<Longrightarrow> outboxItemOk rt (cl_store s) i"
  by (simp add: outbox_ok_def)

lemma findOutbox_in: "findOutbox eid s = Some i \<Longrightarrow> i \<in> set (cl_outbox s) \<and> ob_event_id i = eid"
  by (auto simp: findOutbox_def dest: findRow_SomeD)

lemma requireCloudOutboxItem_eq [simp]:
  "requireCloudOutboxItem eid s = Inr i \<longleftrightarrow> findOutbox eid s = Some i"
  by (simp add: requireCloudOutboxItem_def)

text \<open>An update that keeps the identity of the items it changes.\<close>

lemma outbox_ok_update:
  assumes ok: "outbox_ok rt s" and id: "\<And>i. ob_event_id (f i) = ob_event_id i"
    and item: "\<And>i. i \<in> set (cl_outbox s) \<Longrightarrow> p i \<Longrightarrow> outboxItemOk rt (cl_store s) (f i)"
  shows "outbox_ok rt (updateOutbox p f s)"
proof -
  have "\<forall>i \<in> set (updateWhere p f (cl_outbox s)). outboxItemOk rt (cl_store s) i"
    using ok item by (auto simp: outbox_ok_def updateWhere_def)
  with ok id show ?thesis by (simp add: outbox_ok_def updateOutbox_def map_key_updateWhere)
qed

lemma findOutbox_update:
  "(\<And>i. ob_event_id (f i) = ob_event_id i) \<Longrightarrow> findOutbox eid (updateOutbox p f s)
     = map_option (\<lambda>i. if p i then f i else i) (findOutbox eid s)"
  by (simp add: findOutbox_def updateOutbox_def findRow_updateWhere)

lemma outboxItemOk_store:
  assumes "\<And>pid. getProposal pid st \<noteq> None \<Longrightarrow> getProposal pid st' \<noteq> None" and "outboxItemOk rt st i"
  shows "outboxItemOk rt st' i"
  using assms by (auto simp: outboxItemOk_def split: option.splits)

lemma outbox_ok_store:
  assumes "\<And>pid. getProposal pid (cl_store s) \<noteq> None \<Longrightarrow> getProposal pid st' \<noteq> None" and "outbox_ok rt s"
  shows "outbox_ok rt (s\<lparr>cl_store := st'\<rparr>)"
  using assms outboxItemOk_store [OF assms(1)] by (simp add: outbox_ok_def)

subsection \<open>What each operation does\<close>

lemma assertEntries_secretFree [simp]: "assertEntries es = Inr u \<longleftrightarrow> secretFree (JObj es)"
  using assertNoSecretMaterial_iff [of "JObj es" u] by simp

lemma enqueueCloudOutbox_cases:
  assumes "enqueueCloudOutbox rt now x s = Inr (i, t)"
  obtains (stored) "t = s" "findOutbox (trimStr (oi_event_id x)) s = Some i"
      "ob_kind i = oi_kind x" "ob_proposal_id i = oi_proposal_id x"
      "canonicalJsonDigest rt (JObj (oi_payload x)) = Inr (ob_payload_hash i)"
  | (new) hash where "findOutbox (trimStr (oi_event_id x)) s = None"
      "i = newOutboxItem now (trimStr (oi_event_id x)) hash x" "t = s\<lparr>cl_outbox := cl_outbox s @ [i]\<rparr>"
      "outboxItemOk rt (cl_store s) i" "ob_event_id i = trimStr (oi_event_id x)"
proof (cases "findOutbox (trimStr (oi_event_id x)) s")
  case (Some j)
  with assms that(1) show ?thesis by (auto simp: enqueueCloudOutbox_def Let_def bindE_eq_Inr)
next
  case None
  have id [simp]: "ob_event_id (newOutboxItem now e h x) = e" for e h by (simp add: newOutboxItem_def)
  have bounds: "1 \<le> clampTo 1 100 n" "clampTo 1 100 n \<le> 100" for n
    using clampTo_bounds [of 1 100 n] by simp_all
  let ?hash = "ob_payload_hash i"
  from None assms have run: "i = newOutboxItem now (trimStr (oi_event_id x)) ?hash x
      \<and> t = s\<lparr>cl_outbox := cl_outbox s @ [i]\<rparr>
      \<and> canonicalJsonDigest rt (JObj (oi_payload x)) = Inr ?hash \<and> secretFree (JObj (oi_payload x))
      \<and> oi_kind x \<in> set [''proposal'', ''activity'', ''result'']
      \<and> (case oi_proposal_id x of None \<Rightarrow> True | Some pid \<Rightarrow> getProposal pid (cl_store s) \<noteq> None)"
    by (auto simp: enqueueCloudOutbox_def Let_def bindE_eq_Inr findOutbox_def findRow_append findRow_Cons
        split: option.splits)
  then have i: "i = newOutboxItem now (trimStr (oi_event_id x)) ?hash x"
    and t: "t = s\<lparr>cl_outbox := cl_outbox s @ [i]\<rparr>" by blast+
  have "outboxItemOk rt (cl_store s) (newOutboxItem now e ?hash x)" for e
    using run by (simp add: outboxItemOk_def newOutboxItem_def bounds)
  with i have "outboxItemOk rt (cl_store s) i" by metis
  moreover have "ob_event_id i = trimStr (oi_event_id x)" by (subst i) simp
  ultimately show ?thesis using None i t that(2) by blast
qed

lemma enqueueCloudOutbox_ok:
  assumes "enqueueCloudOutbox rt now x s = Inr (i, t)" and "outbox_ok rt s"
  shows "outbox_ok rt t"
  using assms(1)
proof (cases rule: enqueueCloudOutbox_cases)
  case stored
  with assms(2) show ?thesis by simp
next
  case (new hash)
  then have "ob_event_id i \<notin> ob_event_id ` set (cl_outbox s)"
    by (simp add: findOutbox_def findRow_None_iff)
  with new assms(2) show ?thesis by (simp add: outbox_ok_def)
qed

lemma releaseLapsed_ids [simp]: "map ob_event_id (releaseLapsed now xs) = map ob_event_id xs"
  by (simp add: releaseLapsed_def map_key_updateWhere)

lemma releaseLapsed_ok:
  "\<forall>i \<in> set xs. outboxItemOk rt st i \<Longrightarrow> \<forall>i \<in> set (releaseLapsed now xs). outboxItemOk rt st i"
  by (auto simp: releaseLapsed_def updateWhere_def outboxItemOk_def)

lemma leaseOutbox_simps [simp]:
  "ob_event_id (leaseOutbox w e n i) = ob_event_id i" "ob_status (leaseOutbox w e n i) = OutLeased"
  "ob_lease_owner (leaseOutbox w e n i) = Some w" "ob_lease_expires_at (leaseOutbox w e n i) = Some e"
  "ob_attempts (leaseOutbox w e n i) = ob_attempts i + 1"
  "ob_proposal_id (leaseOutbox w e n i) = ob_proposal_id i" "ob_kind (leaseOutbox w e n i) = ob_kind i"
  "ob_sequence (leaseOutbox w e n i) = ob_sequence i" "ob_payload (leaseOutbox w e n i) = ob_payload i"
  "ob_payload_hash (leaseOutbox w e n i) = ob_payload_hash i"
  "ob_max_attempts (leaseOutbox w e n i) = ob_max_attempts i"
  "ob_acknowledged_at (leaseOutbox w e n i) = ob_acknowledged_at i"
  by (simp_all add: leaseOutbox_def)

lemma countWhere_one:
  assumes "distinct (map key xs)" and "r \<in> set xs" and "P r"
  shows "countWhere (\<lambda>i. key i = key r \<and> P i) xs = 1"
  using assms
proof (induction xs)
  case (Cons x xs)
  show ?case
  proof (cases "x = r")
    case True
    with Cons.prems have "filter (\<lambda>i. key i = key r \<and> P i) xs = []"
      by (auto simp: filter_empty_conv) (metis imageI)
    with True Cons.prems show ?thesis by (simp add: countWhere_def)
  next
    case False
    with Cons.prems have "r \<in> set xs" by simp
    with Cons.prems(1) have "key x \<noteq> key r" by (auto simp: rev_image_eqI)
    with Cons \<open>r \<in> set xs\<close> show ?thesis by (simp add: countWhere_def)
  qed
qed simp

lemma map_key_unique: "distinct (map key xs) \<Longrightarrow> a \<in> set xs \<Longrightarrow> b \<in> set xs \<Longrightarrow> key a = key b \<Longrightarrow> a = b"
  by (auto simp: distinct_map inj_on_def)

lemma fold_claimRow:
  assumes "distinct (map ob_event_id xs)" and "distinct ids"
    and "\<forall>eid \<in> set ids. \<exists>i \<in> set xs. ob_event_id i = eid \<and> ob_status i = OutPending"
  shows "fold (claimRow w e n) ids (acc, xs)
    = (acc @ ids, updateWhere (\<lambda>i. ob_event_id i \<in> set ids) (leaseOutbox w e n) xs)"
  using assms
proof (induction ids arbitrary: acc xs)
  case (Cons eid ids)
  let ?m = "\<lambda>i. ob_event_id i = eid \<and> ob_status i = OutPending"
  let ?ys = "updateWhere ?m (leaseOutbox w e n) xs"
  obtain r where r: "r \<in> set xs" "ob_event_id r = eid" "ob_status r = OutPending"
    using Cons.prems(3) by auto
  have one: "countWhere ?m xs = 1"
    using countWhere_one [OF Cons.prems(1) r(1), where P = "\<lambda>i. ob_status i = OutPending"] r by simp
  have step: "claimRow w e n eid (acc, xs) = (acc @ [eid], ?ys)"
    using one by (simp add: claimRow_def Let_def)
  have "\<exists>i \<in> set ?ys. ob_event_id i = eid' \<and> ob_status i = OutPending" if "eid' \<in> set ids" for eid'
  proof -
    from that Cons.prems(3) obtain i where "i \<in> set xs" "ob_event_id i = eid'"
      "ob_status i = OutPending" by auto
    moreover from that Cons.prems(2) have "eid' \<noteq> eid" by auto
    ultimately show ?thesis by (force simp: updateWhere_def)
  qed
  with Cons.IH [of ?ys "acc @ [eid]"] Cons.prems
  have "fold (claimRow w e n) ids (acc @ [eid], ?ys)
      = (acc @ eid # ids, updateWhere (\<lambda>i. ob_event_id i \<in> set ids) (leaseOutbox w e n) ?ys)"
    by (simp add: map_key_updateWhere)
  moreover have "updateWhere (\<lambda>i. ob_event_id i \<in> set ids) (leaseOutbox w e n) ?ys
      = updateWhere (\<lambda>i. ob_event_id i \<in> set (eid # ids)) (leaseOutbox w e n) xs"
  proof -
    have "ob_status x = OutPending" if "x \<in> set xs" "ob_event_id x = eid" for x
      using map_key_unique [OF Cons.prems(1) that(1) r(1)] r that(2) by simp
    moreover have "eid \<notin> set ids" using Cons.prems(2) by simp
    ultimately show ?thesis by (auto simp: updateWhere_def)
  qed
  ultimately show ?case using step by simp
qed (simp add: updateWhere_def)

text \<open>The rows a claim selects, and what it makes of them.\<close>

definition selected :: "int option \<Rightarrow> time \<Rightarrow> cloud_store \<Rightarrow> outbox_item list" where
  "selected limit now s = (let xs = releaseLapsed now (cl_outbox s)
     in take (claimLimit limit) (sortBy outboxLe (filter (outboxClaimable now xs) xs)))"

lemma selected_in:
  assumes "i \<in> set (selected limit now s)"
  shows "i \<in> set (releaseLapsed now (cl_outbox s))"
    and "outboxClaimable now (releaseLapsed now (cl_outbox s)) i"
  using assms by (auto simp: selected_def Let_def dest!: in_set_takeD)

lemma selected_distinct:
  assumes "distinct (map ob_event_id (cl_outbox s))"
  shows "distinct (map ob_event_id (selected limit now s))"
proof -
  let ?xs = "releaseLapsed now (cl_outbox s)"
  let ?f = "filter (outboxClaimable now ?xs) ?xs"
  have "distinct (map ob_event_id ?f)" using assms by (simp add: distinct_map_filter)
  moreover have "mset (map ob_event_id (sortBy outboxLe ?f)) = mset (map ob_event_id ?f)" by simp
  ultimately have "distinct (map ob_event_id (sortBy outboxLe ?f))"
    using mset_eq_imp_distinct_iff by blast
  then show ?thesis by (simp add: selected_def Let_def flip: take_map)
qed

lemma selected_length: "length (selected limit now s) \<le> 100"
proof -
  have "clampTo 1 100 n \<le> 100" for n using clampTo_bounds [of 1 100 n] by simp
  then have "claimLimit limit \<le> 100" by (simp add: claimLimit_def nat_le_iff)
  then show ?thesis by (simp add: selected_def Let_def)
qed

lemma findRow_update_member:
  assumes "distinct (map key xs)" and "r \<in> set xs" and "P r" and "\<And>x. key (f x) = key x"
  shows "findRow key (key r) (updateWhere P f xs) = Some (f r)"
  using assms by (simp add: findRow_updateWhere findRow_distinct)

lemma claimCloudOutbox_eq:
  assumes "outbox_ok rt s" and "trimStr owner \<noteq> []"
  shows "claimCloudOutbox owner limit lease now s =
    (let f = leaseOutbox (trimStr owner) (now + leaseMillis lease) now; rows = selected limit now s
     in Inr (map f rows, s\<lparr>cl_outbox := updateWhere (\<lambda>i. ob_event_id i \<in> ob_event_id ` set rows) f
       (releaseLapsed now (cl_outbox s))\<rparr>))"
proof -
  let ?f = "leaseOutbox (trimStr owner) (now + leaseMillis lease) now"
  let ?xs = "releaseLapsed now (cl_outbox s)" and ?rows = "selected limit now s"
  let ?t = "s\<lparr>cl_outbox := updateWhere (\<lambda>i. ob_event_id i \<in> ob_event_id ` set ?rows) ?f ?xs\<rparr>"
  have d: "distinct (map ob_event_id ?xs)" using assms(1) by (simp add: outbox_ok_def)
  have fold: "fold (claimRow (trimStr owner) (now + leaseMillis lease) now) (map ob_event_id ?rows) ([], ?xs)
      = (map ob_event_id ?rows, cl_outbox ?t)"
    using fold_claimRow [OF d, of "map ob_event_id ?rows" "trimStr owner" "now + leaseMillis lease" now "[]"]
      selected_distinct [of s limit now] assms(1) selected_in [of _ limit now s]
    by (auto simp: outbox_ok_def outboxClaimable_def)
  have "findOutbox (ob_event_id r) ?t = Some (?f r)" if "r \<in> set ?rows" for r
    using findRow_update_member [OF d, of r "\<lambda>i. ob_event_id i \<in> ob_event_id ` set ?rows" ?f]
      that selected_in [OF that] by (simp add: findOutbox_def)
  then have "traverseE (\<lambda>eid. requireCloudOutboxItem eid ?t) (map ob_event_id rows) = Inr (map ?f rows)"
    if "set rows \<subseteq> set ?rows" for rows
    using that by (induction rows) (auto simp: requireCloudOutboxItem_def)
  with fold assms(2) show ?thesis
    by (simp add: claimCloudOutbox_def Let_def selected_def)
qed

lemma claimCloudOutbox_ok:
  assumes ok: "outbox_ok rt s" and run: "claimCloudOutbox owner limit lease now s = Inr (items, t)"
  shows "outbox_ok rt t"
proof -
  let ?u = "s\<lparr>cl_outbox := releaseLapsed now (cl_outbox s)\<rparr>"
  let ?f = "leaseOutbox (trimStr owner) (now + leaseMillis lease) now"
  let ?p = "\<lambda>i. ob_event_id i \<in> ob_event_id ` set (selected limit now s)"
  have owner: "trimStr owner \<noteq> []" using run by (auto simp: claimCloudOutbox_def Let_def bindE_eq_Inr)
  have u: "outbox_ok rt ?u"
    using ok releaseLapsed_ok [of "cl_outbox s" rt "cl_store s" now] by (auto simp: outbox_ok_def)
  have "outboxItemOk rt (cl_store ?u) (?f i)" if i: "i \<in> set (cl_outbox ?u)" and "?p i" for i
  proof -
    from that(2) obtain r where r: "r \<in> set (selected limit now s)" "ob_event_id i = ob_event_id r" by auto
    have "i = r"
      using map_key_unique [of ob_event_id, OF _ i] selected_in(1) [OF r(1)] r(2) u
      by (simp add: outbox_ok_def)
    then have "ob_status i = OutPending" using selected_in(2) [OF r(1)] by (simp add: outboxClaimable_def)
    with outbox_ok_itemD [OF u i] show ?thesis by (auto simp: outboxItemOk_def)
  qed
  then have "outbox_ok rt (updateOutbox ?p ?f ?u)" using outbox_ok_update [OF u] by simp
  moreover have "t = updateOutbox ?p ?f ?u"
    using run claimCloudOutbox_eq [OF ok owner, of limit lease now] by (simp add: updateOutbox_def Let_def)
  ultimately show ?thesis by simp
qed

lemma acknowledgeCloudOutbox_cases:
  assumes "acknowledgeCloudOutbox eid owner now s = Inr (i, t)" and "outbox_ok rt s"
  obtains j where "findOutbox eid s = Some j" "ob_status j = OutLeased" "ob_lease_owner j = Some owner"
    "t = updateOutbox (\<lambda>i. ob_event_id i = eid) (\<lambda>i. i\<lparr>ob_status := OutAcknowledged,
        ob_lease_owner := None, ob_lease_expires_at := None, ob_acknowledged_at := Some now,
        ob_last_error_code := None, ob_updated_at := now\<rparr>) s"
    "ob_status i = OutAcknowledged" "ob_event_id i = eid"
proof -
  let ?m = "\<lambda>i. ob_event_id i = eid \<and> ob_status i = OutLeased \<and> ob_lease_owner i = Some owner"
  let ?f = "\<lambda>i. i\<lparr>ob_status := OutAcknowledged, ob_lease_owner := None, ob_lease_expires_at := None,
      ob_acknowledged_at := Some now, ob_last_error_code := None, ob_updated_at := now\<rparr>"
  from assms(1) have one: "countWhere ?m (cl_outbox s) = 1" and t: "t = updateOutbox ?m ?f s"
    and i: "findOutbox eid t = Some i"
    by (simp_all add: acknowledgeCloudOutbox_def Let_def bindE_eq_Inr mapE_eq_Inr)
  from one have "filter ?m (cl_outbox s) \<noteq> []" by (auto simp: countWhere_def)
  then obtain j where j: "j \<in> set (cl_outbox s)" "?m j" by (auto simp: filter_empty_conv)
  have d: "distinct (map ob_event_id (cl_outbox s))" using assms(2) by (simp add: outbox_ok_def)
  have f: "findOutbox eid s = Some j" using findRow_distinct [OF d j(1)] j(2) by (simp add: findOutbox_def)
  have "?m x = (ob_event_id x = eid)" if "x \<in> set (cl_outbox s)" for x
    using map_key_unique [OF d that j(1)] j(2) by auto
  then have "t = updateOutbox (\<lambda>i. ob_event_id i = eid) ?f s"
    unfolding t updateOutbox_def updateWhere_def by (auto intro!: arg_cong [where f = "\<lambda>x. s\<lparr>cl_outbox := x\<rparr>"])
  moreover from this i f have "i = ?f j" by (auto simp: findOutbox_update dest: findOutbox_in)
  ultimately show ?thesis using that [OF f] j(2) by auto
qed

lemma acknowledgeCloudOutbox_ok:
  assumes "acknowledgeCloudOutbox eid owner now s = Inr (i, t)" and "outbox_ok rt s"
  shows "outbox_ok rt t"
  using assms
proof (cases rule: acknowledgeCloudOutbox_cases)
  case (1 j)
  show ?thesis unfolding 1(4)
    by (rule outbox_ok_update [OF assms(2)])
      (auto simp: outboxItemOk_def dest: outbox_ok_itemD [OF assms(2)])
qed

text \<open>Both ways of leaving the lease without an acknowledgement.\<close>

lemma outbox_ok_settle:
  assumes "outbox_ok rt s" and "st \<noteq> OutLeased" and "st \<noteq> OutAcknowledged" and "0 \<le> n"
    and "findOutbox eid s = Some j" and "ob_status j \<noteq> OutAcknowledged"
  shows "outbox_ok rt (updateOutbox (\<lambda>i. ob_event_id i = eid) (\<lambda>i. i\<lparr>ob_status := st,
    ob_attempts := (if b then n else ob_attempts i), ob_lease_owner := None,
    ob_lease_expires_at := None, ob_last_error_code := c, ob_next_attempt_at := x, ob_updated_at := y\<rparr>) s)"
proof (rule outbox_ok_update [OF assms(1)])
  fix i assume i: "i \<in> set (cl_outbox s)" "ob_event_id i = eid"
  have "i = j" using map_key_unique [of ob_event_id, OF _ i(1)] findOutbox_in [OF assms(5)] i(2) assms(1)
    by (simp add: outbox_ok_def)
  with outbox_ok_itemD [OF assms(1) i(1)] assms(2-4,6)
  show "outboxItemOk rt (cl_store s) (i\<lparr>ob_status := st,
    ob_attempts := (if b then n else ob_attempts i), ob_lease_owner := None,
    ob_lease_expires_at := None, ob_last_error_code := c, ob_next_attempt_at := x, ob_updated_at := y\<rparr>)"
    by (auto simp: outboxItemOk_def)
qed simp

lemma failCloudOutbox_cases:
  assumes "failCloudOutbox eid owner f now s = Inr (i, t)"
  obtains j where "findOutbox eid s = Some j" "ob_status j = OutLeased" "ob_lease_owner j = Some owner"
    "t = updateOutbox (\<lambda>i. ob_event_id i = eid) (\<lambda>i. i\<lparr>ob_status := failureStatus f j,
        ob_lease_owner := None, ob_lease_expires_at := None,
        ob_last_error_code := Some (of_error_code f),
        ob_next_attempt_at := now + retryDelay f j, ob_updated_at := now\<rparr>) s"
    "i = j\<lparr>ob_status := failureStatus f j, ob_lease_owner := None, ob_lease_expires_at := None,
        ob_last_error_code := Some (of_error_code f),
        ob_next_attempt_at := now + retryDelay f j, ob_updated_at := now\<rparr>"
proof -
  from assms obtain j where j: "findOutbox eid s = Some j" by (auto simp: failCloudOutbox_def bindE_eq_Inr)
  with findOutbox_in [OF j] assms that show ?thesis
    by (simp add: failCloudOutbox_def Let_def bindE_eq_Inr mapE_eq_Inr findOutbox_update)
qed

lemma failCloudOutbox_ok:
  assumes "failCloudOutbox eid owner f now s = Inr (i, t)" and "outbox_ok rt s"
  shows "outbox_ok rt t"
  using assms(1)
proof (cases rule: failCloudOutbox_cases)
  case (1 j)
  have "failureStatus f j \<noteq> OutLeased" "failureStatus f j \<noteq> OutAcknowledged"
    by (simp_all add: failureStatus_def)
  from outbox_ok_settle [OF assms(2) this, where n = 0 and eid = eid and j = j and b = False] 1
  show ?thesis by simp
qed

lemma requeueCloudOutbox_ok:
  assumes "requeueCloudOutbox eid now s = Inr (i, t)" and "outbox_ok rt s"
  shows "outbox_ok rt t"
proof -
  from assms(1) obtain j where "findOutbox eid s = Some j"
    and "ob_status j = OutDeadLetter \<or> ob_status j = OutReconciliationRequired"
    and t: "t = updateOutbox (\<lambda>i. ob_event_id i = eid) (\<lambda>i. i\<lparr>ob_status := OutPending, ob_attempts := 0,
            ob_lease_owner := None, ob_lease_expires_at := None, ob_last_error_code := None,
            ob_next_attempt_at := now, ob_updated_at := now\<rparr>) s"
    by (auto simp: requeueCloudOutbox_def Let_def bindE_eq_Inr mapE_eq_Inr)
  then show ?thesis using outbox_ok_settle [OF assms(2), where st = OutPending and n = 0 and eid = eid and j = j
        and b = True] by auto
qed

lemma compactCloudOutbox_ok: "compactCloudOutbox before s = (n, t) \<Longrightarrow> outbox_ok rt s \<Longrightarrow> outbox_ok rt t"
  by (auto simp: compactCloudOutbox_def Let_def outbox_ok_def distinct_map_filter)

subsection \<open>Governance events and the rest of the store\<close>

abbreviation proposalIds :: "cloud_store \<Rightarrow> string list" where
  "proposalIds s \<equiv> map p_id (s_proposals (cl_store s))"

lemma getProposal_ids: "getProposal pid st \<noteq> None \<longleftrightarrow> pid \<in> set (map p_id (s_proposals st))"
  by (auto simp: getProposal_def findRow_None_iff)

lemma projectGovernance_frame:
  assumes "projectGovernance rt clock g s = (e, t)"
  shows "cl_outbox t = cl_outbox s" and "cl_governance t = cl_governance s"
    and "proposalIds t = proposalIds s"
proof -
  let ?p = "\<lambda>st. updateWhere (\<lambda>p. p_id p = gv_proposal_id g \<and> activeState (p_state p))
      (cloudProjected st (gv_created_at g)) (s_proposals (cl_store s))"
  have ids: "map p_id (?p st) = map p_id (s_proposals (cl_store s))" for st
    by (simp add: map_key_updateWhere cloudProjected_def)
  from assms ids show "cl_outbox t = cl_outbox s" and "cl_governance t = cl_governance s"
    and "proposalIds t = proposalIds s"
    by (auto simp: projectGovernance_def Let_def split: option.splits if_splits sum.splits
        elim!: appendEvent_shape)
qed

lemma insertGovernance_simps [simp]:
  "cl_outbox (insertGovernance g s) = cl_outbox s" "cl_store (insertGovernance g s) = cl_store s"
  by (simp_all add: insertGovernance_def)

lemma recordCloudGovernanceEvent_cases:
  assumes "recordCloudGovernanceEvent rt clock x s = (r, t)"
  obtains (refused) e where "r = Inl e" "t = s"
  | (written) hash e where "getProposal (gi_proposal_id x) (cl_store s) \<noteq> None"
      "canonicalJsonDigest rt (governanceJson x (optOr (gi_created_at x) (isoString rt clock))) = Inr hash"
      "projectGovernance rt clock (governanceEventOf x (optOr (gi_created_at x) (isoString rt clock)) hash)
        (insertGovernance (governanceEventOf x (optOr (gi_created_at x) (isoString rt clock)) hash) s) = (e, t)"
      "r = (case e of Some er \<Rightarrow> Inl er | None \<Rightarrow>
        (case find (\<lambda>v. gv_event_id v = gi_event_id x) (listCloudGovernanceEvents (Some (gi_proposal_id x)) t) of
           Some stored \<Rightarrow> (if gv_integrity_hash stored = hash then Inr stored
             else Inl (storeErr ''CLOUD_GOVERNANCE_EVENT_MISMATCH''))
         | None \<Rightarrow> Inl (storeErr ''CLOUD_GOVERNANCE_EVENT_MISMATCH'')))"
proof -
  let ?c = "optOr (gi_created_at x) (isoString rt clock)"
  show ?thesis
  proof (cases "bindE (requireProposal (gi_proposal_id x) (cl_store s)) (\<lambda>_.
      bindE (assertNoSecretMaterial (JObj (gi_payload x))) (\<lambda>_. canonicalJsonDigest rt (governanceJson x ?c)))")
    case (Inl e)
    with assms have "r = Inl e" and "t = s" by (simp_all add: recordCloudGovernanceEvent_def Let_def)
    then show ?thesis by (rule that(1))
  next
    case (Inr hash)
    obtain e u where pr: "projectGovernance rt clock (governanceEventOf x ?c hash)
        (insertGovernance (governanceEventOf x ?c hash) s) = (e, u)" by force
    from Inr have "getProposal (gi_proposal_id x) (cl_store s) \<noteq> None"
      and "canonicalJsonDigest rt (governanceJson x ?c) = Inr hash"
      by (auto simp: bindE_eq_Inr requireProposal_def)
    with assms Inr pr that(2) [of hash e] show ?thesis
      by (simp add: recordCloudGovernanceEvent_def Let_def split: option.splits if_splits)
  qed
qed

lemma recordCloudGovernanceEvent_frame:
  assumes "recordCloudGovernanceEvent rt clock x s = (r, t)"
  shows "cl_outbox t = cl_outbox s" and "proposalIds t = proposalIds s"
    and "\<exists>gs. cl_governance t = cl_governance s @ gs \<and> (\<forall>g \<in> set gs. gv_event_id g = gi_event_id x)"
proof -
  have "cl_outbox t = cl_outbox s \<and> proposalIds t = proposalIds s
    \<and> (\<exists>gs. cl_governance t = cl_governance s @ gs \<and> (\<forall>g \<in> set gs. gv_event_id g = gi_event_id x))"
    using assms
  proof (cases rule: recordCloudGovernanceEvent_cases)
    case (written hash e)
    let ?g = "governanceEventOf x (optOr (gi_created_at x) (isoString rt clock)) hash"
    have "cl_governance (insertGovernance ?g s) = cl_governance s
        \<or> cl_governance (insertGovernance ?g s) = cl_governance s @ [?g]"
      by (simp add: insertGovernance_def)
    moreover have "gv_event_id ?g = gi_event_id x" by (simp add: governanceEventOf_def)
    ultimately show ?thesis using projectGovernance_frame [OF written(3)] by auto
  qed simp
  then show "cl_outbox t = cl_outbox s" and "proposalIds t = proposalIds s"
    and "\<exists>gs. cl_governance t = cl_governance s @ gs \<and> (\<forall>g \<in> set gs. gv_event_id g = gi_event_id x)"
    by blast+
qed

lemma outbox_ok_ids:
  assumes "outbox_ok rt s" and "proposalIds t = proposalIds s" and "cl_outbox t = cl_outbox s"
    and "cl_governance t = cl_governance s"
  shows "outbox_ok rt t"
proof -
  have "getProposal pid (cl_store t) \<noteq> None \<longleftrightarrow> getProposal pid (cl_store s) \<noteq> None" for pid
    by (simp only: getProposal_ids assms(2))
  with outbox_ok_store [of s "cl_store t" rt] assms(1,3,4)
  show ?thesis by (auto simp: outbox_ok_def outboxItemOk_def split: option.splits)
qed

lemma recordCloudGovernanceEvent_ok:
  assumes "recordCloudGovernanceEvent rt clock x s = (r, t)" and "outbox_ok rt s"
  shows "outbox_ok rt t"
  using assms(1)
proof (cases rule: recordCloudGovernanceEvent_cases)
  case refused
  with assms(2) show ?thesis by simp
next
  case (written hash e)
  let ?g = "governanceEventOf x (optOr (gi_created_at x) (isoString rt clock)) hash"
  have "outbox_ok rt (insertGovernance ?g s)"
    using assms(2) written(1)
    by (auto simp: insertGovernance_def outbox_ok_def findRow_None_iff governanceEventOf_def)
  with projectGovernance_frame [OF written(3)] show ?thesis
    by (auto intro: outbox_ok_ids)
qed

subsection \<open>Histories\<close>

text \<open>
  The rest of the Runner changes the store in between; it deletes no proposal.
\<close>

inductive cloudStep :: "runtime \<Rightarrow> cloud_store \<Rightarrow> cloud_store \<Rightarrow> bool" for rt where
  outbox_enqueued: "enqueueCloudOutbox rt now x s = Inr (i, t) \<Longrightarrow> cloudStep rt s t"
| outbox_claimed: "claimCloudOutbox owner limit lease now s = Inr (is, t) \<Longrightarrow> cloudStep rt s t"
| outbox_acknowledged: "acknowledgeCloudOutbox eid owner now s = Inr (i, t) \<Longrightarrow> cloudStep rt s t"
| outbox_failed: "failCloudOutbox eid owner f now s = Inr (i, t) \<Longrightarrow> cloudStep rt s t"
| outbox_requeued: "requeueCloudOutbox eid now s = Inr (i, t) \<Longrightarrow> cloudStep rt s t"
| outbox_compacted: "compactCloudOutbox before s = (n, t) \<Longrightarrow> cloudStep rt s t"
| governance_recorded: "recordCloudGovernanceEvent rt now gi s = (r, t) \<Longrightarrow> cloudStep rt s t"
| store_changed: "set (map p_id (s_proposals (cl_store s))) \<subseteq> set (map p_id (s_proposals st)) \<Longrightarrow>
    cloudStep rt s (s\<lparr>cl_store := st\<rparr>)"

definition governanceGrows :: "cloud_store \<Rightarrow> cloud_store \<Rightarrow> bool" where
  "governanceGrows s t \<longleftrightarrow> (\<exists>gs. cl_governance t = cl_governance s @ gs)"

lemma cloudStep_ok: "cloudStep rt s t \<Longrightarrow> outbox_ok rt s \<Longrightarrow> outbox_ok rt t"
proof (induction rule: cloudStep.induct)
  case (store_changed s st)
  then have "getProposal pid (cl_store s) \<noteq> None \<Longrightarrow> getProposal pid st \<noteq> None" for pid
    using getProposal_ids by blast
  with store_changed.prems show ?case by (intro outbox_ok_store)
qed (auto intro: enqueueCloudOutbox_ok claimCloudOutbox_ok acknowledgeCloudOutbox_ok failCloudOutbox_ok
    requeueCloudOutbox_ok compactCloudOutbox_ok recordCloudGovernanceEvent_ok)

lemma claimCloudOutbox_frame:
  "claimCloudOutbox owner limit lease now s = Inr (is, t) \<Longrightarrow>
     cl_governance t = cl_governance s \<and> cl_store t = cl_store s"
  by (auto simp: claimCloudOutbox_def Let_def bindE_eq_Inr)

lemma updateOutbox_simps [simp]:
  "cl_governance (updateOutbox p f s) = cl_governance s" "cl_store (updateOutbox p f s) = cl_store s"
  "cl_outbox (updateOutbox p f s) = updateWhere p f (cl_outbox s)"
  by (simp_all add: updateOutbox_def)

lemma cloudStep_governance: "cloudStep rt s t \<Longrightarrow> governanceGrows s t"
proof (induction rule: cloudStep.induct)
  case (governance_recorded now gi s r t)
  then show ?case using recordCloudGovernanceEvent_frame(3) by (fastforce simp: governanceGrows_def)
next
  case (outbox_enqueued now x s i t)
  then show ?case by (cases rule: enqueueCloudOutbox_cases) (auto simp: governanceGrows_def)
next
  case (outbox_claimed owner limit lease now s "is" t)
  then show ?case using claimCloudOutbox_frame by (fastforce simp: governanceGrows_def)
qed (auto simp: governanceGrows_def acknowledgeCloudOutbox_def failCloudOutbox_def requeueCloudOutbox_def
    compactCloudOutbox_def Let_def bindE_eq_Inr mapE_eq_Inr)

interpretation cloud: state_machine "cloudStep rt" "outbox_ok rt" governanceGrows
  for rt
proof
  show "cloudStep rt s t \<Longrightarrow> outbox_ok rt s \<Longrightarrow> outbox_ok rt t" for s t by (rule cloudStep_ok)
  show "cloudStep rt s t \<Longrightarrow> outbox_ok rt s \<Longrightarrow> governanceGrows s t" for s t by (rule cloudStep_governance)
  show "governanceGrows s s" for s by (simp add: governanceGrows_def)
  show "governanceGrows s t \<Longrightarrow> governanceGrows t u \<Longrightarrow> governanceGrows s u" for s t u
    by (auto simp: governanceGrows_def)
qed

lemma outbox_ok_empty: "outbox_ok rt (emptyCloud st)"
  by (simp add: outbox_ok_def emptyCloud_def)

end
