(* ===== verification/CloudSync.thy ===== *)
theory CloudSync
  imports CloudOutbox
begin

text \<open>
  The link to the cloud control plane (\<open>packages/mcp-server/src/cloud-linked.ts\<close>): what of a change
  set may leave the machine, the classification of delivery failures and the synchronizer, which
  claims due outbox items, delivers them, records what the cloud answers, polls the state of
  acknowledged proposals and compacts the outbox.

  The HTTP client (\<open>packages/control-plane-client\<close>) is the parameter \<open>cloud_api\<close>; each of its calls
  either fails with one of the errors the synchronizer tells apart or returns a JSON object, and may
  depend on the time of the call.  One drain happens at one time.
\<close>

subsection \<open>What may leave the machine\<close>

definition stripColumn :: "string \<Rightarrow> srow \<Rightarrow> srow" where
  "stripColumn column = filter (\<lambda>e. fst e \<noteq> column)"

definition stripFrozenMember :: "string \<Rightarrow> frozen_member \<Rightarrow> frozen_member" where
  "stripFrozenMember column m =
     m\<lparr>fm_before := stripColumn column (fm_before m), fm_after := stripColumn column (fm_after m)\<rparr>"

definition stripInverseMember :: "string \<Rightarrow> inverse_member \<Rightarrow> inverse_member" where
  "stripInverseMember column m = m\<lparr>im_expected_state := stripColumn column (im_expected_state m),
     im_restore_values := map_option (stripColumn column) (im_restore_values m)\<rparr>"

definition stripBody :: "string \<Rightarrow> cs_body \<Rightarrow> cs_body" where
  "stripBody column b = (case b of
      BodyV3 op fs l \<Rightarrow> BodyV3 op (fs\<lparr>fs_members := map (stripFrozenMember column) (fs_members fs)\<rparr>) l
    | BodyCompensation d h \<Rightarrow>
        BodyCompensation (d\<lparr>id_members := map (stripInverseMember column) (id_members d)\<rparr>) h
    | _ \<Rightarrow> b)"

definition stripCloudPrincipalColumn :: "string \<Rightarrow> change_set \<Rightarrow> change_set" where
  "stripCloudPrincipalColumn column c = c\<lparr>cs_before := stripColumn column (cs_before c),
     cs_after := stripColumn column (cs_after c), cs_body := stripBody column (cs_body c)\<rparr>"

definition cloudSafeChangeSet :: "change_set \<Rightarrow> change_set" where
  "cloudSafeChangeSet c0 = (let c = c0\<lparr>cs_evidence_items := []\<rparr> in
     case cs_principal_scope c of None \<Rightarrow> c
     | Some p \<Rightarrow> (stripCloudPrincipalColumn (ps_column p) c)\<lparr>
         cs_principal_id := ps_value_fingerprint p, cs_principal_scope := Some (p\<lparr>ps_value := None\<rparr>)\<rparr>)"

subsection \<open>Failures\<close>

text \<open>
  \<open>CloudControlError\<close> with its code, HTTP status, retryability and delay, \<open>McpRuntimeError\<close> with its
  code, and every other error, those of the store among them.
\<close>

datatype sync_error = CloudControlError string int bool "int option" | McpRuntimeError string
  | OtherError

definition classifyCloudSyncFailure :: "sync_error \<Rightarrow> outbox_failure" where
  "classifyCloudSyncFailure e = (case e of
      CloudControlError code status retryable after \<Rightarrow>
        (let reconciliation = status \<in> set [409, 412, 422] \<or> code \<in> set [''contract_digest_mismatch'',
               ''proposal_hash_mismatch'', ''cloud_state_conflict'']
         in \<lparr>of_error_code = code, of_retryable = retryable \<and> \<not> reconciliation,
              of_retry_after_ms = after, of_reconciliation = reconciliation\<rparr>)
    | McpRuntimeError code \<Rightarrow> \<lparr>of_error_code = code, of_retryable = False, of_retry_after_ms = None,
        of_reconciliation = False\<rparr>
    | OtherError \<Rightarrow> \<lparr>of_error_code = ''cloud_sync_internal'', of_retryable = False,
        of_retry_after_ms = None, of_reconciliation = False\<rparr>)"

subsection \<open>Delivery\<close>

record cloud_api =
  ca_submit_proposal :: "time \<Rightarrow> srow \<Rightarrow> sync_error + srow"
  ca_submit_activity :: "time \<Rightarrow> srow \<Rightarrow> sync_error + srow"
  ca_result :: "time \<Rightarrow> srow \<Rightarrow> string \<Rightarrow> sync_error + srow"
  ca_proposal_status :: "time \<Rightarrow> string \<Rightarrow> sync_error + srow"

definition nonEmptyString :: "json \<Rightarrow> string option" where
  "nonEmptyString j = (case j of JStr s \<Rightarrow> presentStr (Some (trimStr s)) | _ \<Rightarrow> None)"

definition deliver :: "cloud_api \<Rightarrow> time \<Rightarrow> outbox_item \<Rightarrow> sync_error + srow" where
  "deliver api now i =
     (if ob_kind i = ''proposal'' then ca_submit_proposal api now (ob_payload i)
      else if ob_kind i = ''activity'' then ca_submit_activity api now (ob_payload i)
      else if ob_kind i = ''result'' then
        (case (asRecord (field (ob_payload i) ''result''),
               nonEmptyString (field (ob_payload i) ''lease_id'')) of
           (Some r, Some lease) \<Rightarrow> ca_result api now r lease
         | _ \<Rightarrow> Inl (McpRuntimeError ''CLOUD_RESULT_OUTBOX_INVALID''))
      else Inl (McpRuntimeError ''CLOUD_OUTBOX_KIND_UNSUPPORTED''))"

definition ackEventId :: "outbox_item \<Rightarrow> string" where
  "ackEventId i = ''cloud-governance:ack:'' @ ob_event_id i"

definition firstSome :: "'a option \<Rightarrow> 'a option \<Rightarrow> 'a option" where
  "firstSome a b = (case a of None \<Rightarrow> b | Some x \<Rightarrow> Some x)"

definition ackInput :: "outbox_item \<Rightarrow> string \<Rightarrow> srow \<Rightarrow> governance_input" where
  "ackInput i pid response = \<lparr>gi_event_id = ackEventId i, gi_proposal_id = pid,
     gi_cloud_proposal_id = Some (optOr (firstSome (nonEmptyString (field response ''proposal_id''))
       (nonEmptyString (field response ''id''))) pid),
     gi_kind = ''proposal.cloud_acknowledged'',
     gi_state = optOr (nonEmptyString (field response ''status'')) ''pending_review'',
     gi_payload = optField ''request_id'' JStr (nonEmptyString (field response ''request_id''))
       @ [(''evidence_residency'', JStr ''metadata_only''), (''payload_hash'', JStr (ob_payload_hash i))],
     gi_created_at = None\<rparr>"

text \<open>The record of the cloud's answer to a proposal; other items record nothing.\<close>

definition recordAck ::
  "runtime \<Rightarrow> time \<Rightarrow> outbox_item \<Rightarrow> srow \<Rightarrow> cloud_store \<Rightarrow> sync_error option \<times> cloud_store" where
  "recordAck rt now i response s = (case presentStr (ob_proposal_id i) of
      Some pid \<Rightarrow> (if ob_kind i = ''proposal'' then
          (case recordCloudGovernanceEvent rt now (ackInput i pid response) s of
             (Inl _, t) \<Rightarrow> (Some OtherError, t) | (Inr _, t) \<Rightarrow> (None, t))
        else (None, s))
    | None \<Rightarrow> (None, s))"

text \<open>The body of the \<open>try\<close>: the error it throws, if any, and the state it leaves.\<close>

definition deliverItem ::
  "runtime \<Rightarrow> time \<Rightarrow> string \<Rightarrow> cloud_api \<Rightarrow> outbox_item \<Rightarrow> cloud_store \<Rightarrow> sync_error option \<times> cloud_store" where
  "deliverItem rt now owner api i s = (case deliver api now i of
      Inl e \<Rightarrow> (Some e, s)
    | Inr response \<Rightarrow> (case recordAck rt now i response s of
        (Some e, t) \<Rightarrow> (Some e, t)
      | (None, t) \<Rightarrow> (case acknowledgeCloudOutbox (ob_event_id i) owner now t of
          Inl _ \<Rightarrow> (Some OtherError, t)
        | Inr (_, u) \<Rightarrow> (None, u))))"

fun syncItems :: "runtime \<Rightarrow> time \<Rightarrow> string \<Rightarrow> cloud_api \<Rightarrow> outbox_item list \<Rightarrow> nat \<Rightarrow> nat \<Rightarrow> cloud_store
    \<Rightarrow> (nat \<times> nat) result \<times> cloud_store" where
  "syncItems rt now owner api [] acknowledged failed s = (Inr (acknowledged, failed), s)"
| "syncItems rt now owner api (i # is) acknowledged failed s =
     (case deliverItem rt now owner api i s of
        (None, t) \<Rightarrow> syncItems rt now owner api is (acknowledged + 1) failed t
      | (Some e, t) \<Rightarrow>
          (case failCloudOutbox (ob_event_id i) owner (classifyCloudSyncFailure e) now t of
             Inl err \<Rightarrow> (Inl err, t)
           | Inr (_, u) \<Rightarrow> syncItems rt now owner api is acknowledged (failed + 1) u))"

subsection \<open>Reconciliation\<close>

definition stringField :: "string \<Rightarrow> srow \<Rightarrow> srow" where
  "stringField k es = optField k JStr (nonEmptyString (field es k))"

definition numberField :: "string \<Rightarrow> srow \<Rightarrow> srow" where
  "numberField k es = (case field es k of JNum n \<Rightarrow> [(k, JNum n)] | _ \<Rightarrow> [])"

definition anyField :: "string \<Rightarrow> srow \<Rightarrow> srow" where
  "anyField k es = (case field es k of JUndefined \<Rightarrow> [] | j \<Rightarrow> [(k, j)])"

definition governanceDecision :: "runtime \<Rightarrow> srow \<Rightarrow> json" where
  "governanceDecision rt es = JObj (stringField ''status'' es
     @ [(''authority'', JStr ''synapsor_cloud'')]
     @ optField ''actor_fingerprint'' (\<lambda>a. JStr (digestOf rt (JObj [(''actor'', JStr a)])))
         (nonEmptyString (field es ''actor''))
     @ stringField ''decided_at'' es)"

definition governanceJob :: "srow \<Rightarrow> json" where
  "governanceJob es = JObj (stringField ''job_id'' es @ stringField ''status'' es
     @ numberField ''attempt_count'' es @ stringField ''leased_runner_id'' es
     @ anyField ''lease_expires_at'' es)"

definition governanceResult :: "srow \<Rightarrow> json" where
  "governanceResult es = JObj (stringField ''status'' es
     @ [(''source_database_mutated'', JBool (field es ''source_database_mutated'' = JBool True))]
     @ numberField ''affected_rows'' es @ stringField ''receipt_id'' es
     @ stringField ''result_hash'' es @ stringField ''error_code'' es)"

definition cloudGovernanceStatusPayload :: "runtime \<Rightarrow> srow \<Rightarrow> srow" where
  "cloudGovernanceStatusPayload rt response =
     stringField ''contract_id'' response @ stringField ''contract_version_id'' response
     @ stringField ''contract_digest'' response @ stringField ''source_id'' response
     @ [(''terminal'', JBool (field response ''terminal'' = JBool True)),
        (''evidence_residency'', JStr ''metadata_only'')]
     @ optField ''decision'' (governanceDecision rt) (asRecord (field response ''decision''))
     @ optField ''job'' governanceJob (asRecord (field response ''job''))
     @ optField ''result'' governanceResult (asRecord (field response ''result''))
     @ anyField ''updated_at'' response"

definition terminalCloudStates :: "string list" where
  "terminalCloudStates =
     [''applied'', ''failed'', ''conflict'', ''indeterminate'', ''canceled'', ''rejected'']"

definition stateInput :: "runtime \<Rightarrow> string \<Rightarrow> srow \<Rightarrow> governance_input result" where
  "stateInput rt pid response =
     (let state = optOr (nonEmptyString (field response ''status'')) ''unknown'';
          payload = cloudGovernanceStatusPayload rt response
      in bindE (canonicalJsonDigest rt (JObj [(''proposal_id'', JStr pid), (''state'', JStr state),
              (''payload'', JObj payload)])) (\<lambda>identity.
         Inr \<lparr>gi_event_id = ''cloud-governance:state:'' @ pid @ '':'' @ take 20 (drop 7 identity),
           gi_proposal_id = pid,
           gi_cloud_proposal_id = Some (optOr (nonEmptyString (field response ''proposal_id'')) pid),
           gi_kind = ''proposal.cloud_'' @ state, gi_state = state, gi_payload = payload,
           gi_created_at = None\<rparr>))"

definition lastTerminal :: "governance_event list \<Rightarrow> bool" where
  "lastTerminal gs \<longleftrightarrow> gs \<noteq> [] \<and> gv_state (last gs) \<in> set terminalCloudStates"

fun reconcileItems :: "runtime \<Rightarrow> time \<Rightarrow> cloud_api \<Rightarrow> string list \<Rightarrow> nat \<Rightarrow> cloud_store
    \<Rightarrow> (sync_error + nat) \<times> cloud_store" where
  "reconcileItems rt now api [] recorded s = (Inr recorded, s)"
| "reconcileItems rt now api (pid # pids) recorded s =
     (let events = listCloudGovernanceEvents (Some pid) s in
      if lastTerminal events then reconcileItems rt now api pids recorded s
      else (case ca_proposal_status api now pid of
        Inl e \<Rightarrow> (Inl e, s)
      | Inr response \<Rightarrow> (case stateInput rt pid response of
          Inl _ \<Rightarrow> (Inl OtherError, s)
        | Inr x \<Rightarrow> (case recordCloudGovernanceEvent rt now x s of
            (Inl _, t) \<Rightarrow> (Inl OtherError, t)
          | (Inr _, t) \<Rightarrow> reconcileItems rt now api pids
              (if list_ex (\<lambda>g. gv_event_id g = gi_event_id x) events then recorded else recorded + 1) t))))"

definition lastItems :: "nat \<Rightarrow> 'a list \<Rightarrow> 'a list" where
  "lastItems n xs = drop (length xs - n) xs"

definition acknowledgedProposals :: "cloud_store \<Rightarrow> string list" where
  "acknowledgedProposals s = List.map_filter (\<lambda>i. if ob_kind i = ''proposal''
     then presentStr (ob_proposal_id i) else None)
     (listCloudOutbox (Some OutAcknowledged) None (Some 10000) s)"

definition reconcileOnce ::
  "runtime \<Rightarrow> time \<Rightarrow> cloud_api \<Rightarrow> cloud_store \<Rightarrow> (sync_error + nat \<times> nat) \<times> cloud_store" where
  "reconcileOnce rt now api s = (let pids = acknowledgedProposals s in
     case reconcileItems rt now api (lastItems 100 pids) 0 s of
       (Inl e, t) \<Rightarrow> (Inl e, t) | (Inr n, t) \<Rightarrow> (Inr (length pids, n), t))"

subsection \<open>One drain\<close>

record synchronizer =
  sy_last_reconciled_at :: "time option"
  sy_reconciliation_error :: "string option"
  sy_last_compacted_at :: "time option"
  sy_last_compacted_count :: nat

definition compactAcknowledged ::
  "int \<Rightarrow> time \<Rightarrow> synchronizer \<times> cloud_store \<Rightarrow> synchronizer \<times> cloud_store" where
  "compactAcknowledged retentionDays now x = (case x of (y, s) \<Rightarrow>
     if (case sy_last_compacted_at y of None \<Rightarrow> False | Some t \<Rightarrow> now - t < 3600000) then (y, s)
     else (case compactCloudOutbox (now - retentionDays * 86400000) s of (n, t) \<Rightarrow>
       (y\<lparr>sy_last_compacted_count := n, sy_last_compacted_at := Some now\<rparr>, t)))"

definition reconcileStep ::
  "runtime \<Rightarrow> time \<Rightarrow> cloud_api \<Rightarrow> synchronizer \<times> cloud_store \<Rightarrow> synchronizer \<times> cloud_store" where
  "reconcileStep rt now api x = (case x of (y, s) \<Rightarrow> (case reconcileOnce rt now api s of
      (Inl e, t) \<Rightarrow>
        (y\<lparr>sy_reconciliation_error := Some (of_error_code (classifyCloudSyncFailure e))\<rparr>, t)
    | (Inr _, t) \<Rightarrow> (y\<lparr>sy_last_reconciled_at := Some now, sy_reconciliation_error := None\<rparr>, t)))"

record drain_counts =
  dn_claimed :: nat
  dn_acknowledged :: nat
  dn_failed :: nat

definition performDrainOnce :: "runtime \<Rightarrow> time \<Rightarrow> string \<Rightarrow> int \<Rightarrow> cloud_api \<Rightarrow> synchronizer \<times> cloud_store
    \<Rightarrow> drain_counts result \<times> synchronizer \<times> cloud_store" where
  "performDrainOnce rt now owner retentionDays api x = (case x of (y, s) \<Rightarrow>
     (case claimCloudOutbox owner (Some 10) (Some 30000) now s of
        Inl e \<Rightarrow> (Inl e, y, s)
      | Inr (items, t) \<Rightarrow> (case syncItems rt now owner api items 0 0 t of
          (Inl e, u) \<Rightarrow> (Inl e, y, u)
        | (Inr (acknowledged, failed), u) \<Rightarrow>
            (Inr \<lparr>dn_claimed = length items, dn_acknowledged = acknowledged, dn_failed = failed\<rparr>,
             compactAcknowledged retentionDays now (reconcileStep rt now api (y, u))))))"

text \<open>The timer of \<open>start\<close>: one drain at each of these times.\<close>

primrec drains :: "runtime \<Rightarrow> string \<Rightarrow> int \<Rightarrow> cloud_api \<Rightarrow> time list \<Rightarrow> synchronizer \<times> cloud_store
    \<Rightarrow> synchronizer \<times> cloud_store" where
  "drains rt owner retentionDays api [] x = x"
| "drains rt owner retentionDays api (t # ts) x =
     drains rt owner retentionDays api ts (snd (performDrainOnce rt t owner retentionDays api x))"

subsection \<open>Deliveries the cloud accepts\<close>

definition sameContent :: "outbox_item \<Rightarrow> outbox_item \<Rightarrow> bool" where
  "sameContent i j \<longleftrightarrow> ob_event_id j = ob_event_id i \<and> ob_proposal_id j = ob_proposal_id i
     \<and> ob_kind j = ob_kind i \<and> ob_payload j = ob_payload i \<and> ob_payload_hash j = ob_payload_hash i"

text \<open>
  The cloud accepts the content of an item whenever it is delivered, with an answer that is free of
  secrets and leaves the proposal under review.
\<close>

definition accepted :: "cloud_api \<Rightarrow> outbox_item \<Rightarrow> bool" where
  "accepted api i \<longleftrightarrow> (\<forall>now j. sameContent i j \<longrightarrow> (\<exists>response. deliver api now j = Inr response
     \<and> (\<forall>pid. localStateFromCloudGovernance (gi_state (ackInput j pid response)) = None
          \<and> secretFree (JObj (gi_payload (ackInput j pid response))))))"

definition due :: "time \<Rightarrow> outbox_item \<Rightarrow> bool" where
  "due now i \<longleftrightarrow> ob_next_attempt_at i \<le> now \<and> (ob_status i = OutPending \<or> (ob_status i = OutLeased
     \<and> (case ob_lease_expires_at i of None \<Rightarrow> False | Some t \<Rightarrow> t \<le> now)))"

definition freshAck :: "cloud_store \<Rightarrow> outbox_item \<Rightarrow> bool" where
  "freshAck s i \<longleftrightarrow> ackEventId i \<notin> gv_event_id ` set (cl_governance s)"

lemma sameContent_refl [simp]: "sameContent i i"
  by (simp add: sameContent_def)

lemma accepted_same: "accepted api i \<Longrightarrow> sameContent i j \<Longrightarrow> accepted api j"
  by (simp add: accepted_def sameContent_def)

lemma find_unique: "x \<in> set xs \<Longrightarrow> P x \<Longrightarrow> (\<And>y. y \<in> set xs \<Longrightarrow> P y \<Longrightarrow> y = x) \<Longrightarrow> find P xs = Some x"
proof (induction xs)
  case (Cons a xs)
  show ?case
  proof (cases "P a")
    case True
    then have "a = x" using Cons.prems(3) by (meson list.set_intros(1))
    with True show ?thesis by simp
  next
    case False
    with Cons.prems(1,2) have "x \<in> set xs" by auto
    then have "find P xs = Some x" using Cons.IH Cons.prems(2,3) by (meson list.set_intros(2))
    with False show ?thesis by simp
  qed
qed simp

lemma ackInput_simps [simp]:
  "gi_event_id (ackInput i pid r) = ackEventId i" "gi_proposal_id (ackInput i pid r) = pid"
  "gi_created_at (ackInput i pid r) = None"
  by (simp_all add: ackInput_def)

lemma plain_ackInput: "jsonPlain (governanceJson (ackInput i pid r) c)"
  by (simp add: governanceJson_def ackInput_def plain_optField)

lemma recordAck_accepted:
  assumes s: "outbox_ok rt s" and i: "i \<in> set (cl_outbox s)" and fresh: "freshAck s i"
    and local: "\<And>pid. localStateFromCloudGovernance (gi_state (ackInput i pid r)) = None"
    and free: "\<And>pid. secretFree (JObj (gi_payload (ackInput i pid r)))"
  shows "\<exists>t gs. recordAck rt now i r s = (None, t) \<and> cl_outbox t = cl_outbox s \<and> cl_store t = cl_store s
    \<and> cl_governance t = cl_governance s @ gs \<and> (\<forall>g \<in> set gs. gv_event_id g = ackEventId i) \<and> outbox_ok rt t"
proof (cases "\<exists>pid. presentStr (ob_proposal_id i) = Some pid \<and> ob_kind i = ''proposal''")
  case False
  then have "recordAck rt now i r s = (None, s)" by (auto simp: recordAck_def split: option.split)
  with s show ?thesis by (intro exI [of _ s] exI [of _ "[]"]) simp
next
  case True
  then obtain pid where pid: "presentStr (ob_proposal_id i) = Some pid" "ob_kind i = ''proposal''" by blast
  then have "ob_proposal_id i = Some pid" by (auto simp: presentStr_def split: if_splits)
  with outbox_ok_itemD [OF s i] have p: "getProposal pid (cl_store s) \<noteq> None" by (simp add: outboxItemOk_def)
  let ?x = "ackInput i pid r" and ?c = "isoString rt now"
  let ?h = "digestOf rt (governanceJson ?x ?c)"
  let ?g = "governanceEventOf ?x ?c ?h"
  let ?t = "s\<lparr>cl_governance := cl_governance s @ [?g]\<rparr>"
  have gid: "gv_event_id ?g = ackEventId i" "gv_proposal_id ?g = pid" "gv_integrity_hash ?g = ?h"
    "gv_state ?g = gi_state ?x"
    by (simp_all add: governanceEventOf_def)
  have ins: "insertGovernance ?g s = ?t"
    using fresh gid by (simp add: insertGovernance_def freshAck_def findRow_None_iff)
  have "pid \<noteq> []" using pid by (auto simp: presentStr_def split: if_splits)
  have find: "find (\<lambda>v. gv_event_id v = ackEventId i) (listCloudGovernanceEvents (Some pid) ?t) = Some ?g"
  proof (rule find_unique)
    have "\<forall>y \<in> set (cl_governance s). gv_event_id y \<noteq> ackEventId i"
      using fresh by (force simp: freshAck_def)
    then show "\<And>y. y \<in> set (listCloudGovernanceEvents (Some pid) ?t) \<Longrightarrow> gv_event_id y = ackEventId i \<Longrightarrow> y = ?g"
      by (auto simp: listCloudGovernanceEvents_def split: if_splits)
  qed (use gid \<open>pid \<noteq> []\<close> in \<open>simp_all add: listCloudGovernanceEvents_def presentStr_def\<close>)
  have pre: "bindE (requireProposal pid (cl_store s)) (\<lambda>_. bindE (assertNoSecretMaterial (JObj (gi_payload ?x)))
      (\<lambda>_. canonicalJsonDigest rt (governanceJson ?x ?c))) = Inr ?h"
    using p free [of pid] digestOf_eq [OF plain_ackInput]
    by (auto simp: requireProposal_def bindE_eq_Inr)
  have "recordCloudGovernanceEvent rt now ?x s = (Inr ?g, ?t)"
    using pre ins find gid local [of pid]
    by (simp add: recordCloudGovernanceEvent_def Let_def projectGovernance_def del: assertNoSecretMaterial.simps)
  then have "recordAck rt now i r s = (None, ?t)" and "outbox_ok rt ?t"
    using pid recordCloudGovernanceEvent_ok [OF _ s] by (auto simp: recordAck_def)
  with gid show ?thesis by (intro exI [of _ ?t] exI [of _ "[?g]"]) simp
qed

definition ackItem :: "time \<Rightarrow> outbox_item \<Rightarrow> outbox_item" where
  "ackItem now i = i\<lparr>ob_status := OutAcknowledged, ob_lease_owner := None, ob_lease_expires_at := None,
     ob_acknowledged_at := Some now, ob_last_error_code := None, ob_updated_at := now\<rparr>"

lemma ackItem_simps [simp]: "ob_event_id (ackItem now i) = ob_event_id i"
  "ob_status (ackItem now i) = OutAcknowledged"
  by (simp_all add: ackItem_def)

lemma acknowledge_holder:
  assumes "outbox_ok rt s" and "findOutbox eid s = Some i" and "ob_status i = OutLeased"
    and "ob_lease_owner i = Some w"
  shows "acknowledgeCloudOutbox eid w now s
    = Inr (ackItem now i, updateOutbox (\<lambda>j. ob_event_id j = eid) (ackItem now) s)"
proof -
  let ?m = "\<lambda>j. ob_event_id j = eid \<and> ob_status j = OutLeased \<and> ob_lease_owner j = Some w"
  from findOutbox_in [OF assms(2)] have i: "i \<in> set (cl_outbox s)" "ob_event_id i = eid" by simp_all
  have d: "distinct (map ob_event_id (cl_outbox s))" using assms(1) by (simp add: outbox_ok_def)
  have one: "countWhere ?m (cl_outbox s) = 1"
    using countWhere_one [OF d i(1), where P = "\<lambda>j. ob_status j = OutLeased \<and> ob_lease_owner j = Some w"]
      i(2) assms(3,4) by simp
  have "?m j = (ob_event_id j = eid)" if "j \<in> set (cl_outbox s)" for j
    using map_key_unique [OF d that i(1)] i(2) assms(3,4) by auto
  then have upd: "updateOutbox ?m (ackItem now) s = updateOutbox (\<lambda>j. ob_event_id j = eid) (ackItem now) s"
    unfolding updateOutbox_def updateWhere_def by (auto intro!: arg_cong [where f = "\<lambda>x. s\<lparr>cl_outbox := x\<rparr>"])
  have "requireCloudOutboxItem eid (updateOutbox (\<lambda>j. ob_event_id j = eid) (ackItem now) s) = Inr (ackItem now i)"
    using assms(2) i(2) by (simp add: findOutbox_update)
  with one upd show ?thesis
    by (simp add: acknowledgeCloudOutbox_def Let_def ackItem_def [abs_def] mapE_def del: requireCloudOutboxItem_eq)
qed

text \<open>Delivering a leased item that the cloud accepts acknowledges exactly that item.\<close>

definition leasedBy :: "string \<Rightarrow> cloud_store \<Rightarrow> outbox_item \<Rightarrow> bool" where
  "leasedBy w s i \<longleftrightarrow> findOutbox (ob_event_id i) s = Some i \<and> ob_status i = OutLeased
     \<and> ob_lease_owner i = Some w"

definition newEvents :: "string list \<Rightarrow> cloud_store \<Rightarrow> cloud_store \<Rightarrow> bool" where
  "newEvents ids s t \<longleftrightarrow> (\<exists>gs. cl_governance t = cl_governance s @ gs \<and> gv_event_id ` set gs \<subseteq> set ids)"

lemma deliverItem_accepted:
  assumes s: "outbox_ok rt s" and i: "leasedBy w s i" and acc: "accepted api i" and fresh: "freshAck s i"
  shows "\<exists>t. deliverItem rt now w api i s = (None, t) \<and> outbox_ok rt t \<and> newEvents [ackEventId i] s t
    \<and> cl_outbox t = updateWhere (\<lambda>j. ob_event_id j = ob_event_id i) (ackItem now) (cl_outbox s)"
proof -
  have f: "findOutbox (ob_event_id i) s = Some i" and st: "ob_status i = OutLeased" "ob_lease_owner i = Some w"
    using i by (simp_all add: leasedBy_def)
  obtain r where d: "deliver api now i = Inr r"
    and r: "\<And>pid. localStateFromCloudGovernance (gi_state (ackInput i pid r)) = None"
      "\<And>pid. secretFree (JObj (gi_payload (ackInput i pid r)))"
    using acc sameContent_refl unfolding accepted_def by blast
  obtain t gs where t: "recordAck rt now i r s = (None, t)" "cl_outbox t = cl_outbox s" "outbox_ok rt t"
      "cl_governance t = cl_governance s @ gs" "\<forall>g \<in> set gs. gv_event_id g = ackEventId i"
    using recordAck_accepted [OF s _ fresh r, of now] findOutbox_in [OF f] by blast
  have "findOutbox (ob_event_id i) t = Some i" using f t(2) by (simp add: findOutbox_def)
  from acknowledge_holder [OF t(3) this st, of now] acknowledgeCloudOutbox_ok [OF _ t(3)]
  have "acknowledgeCloudOutbox (ob_event_id i) w now t = Inr (ackItem now i,
      updateOutbox (\<lambda>j. ob_event_id j = ob_event_id i) (ackItem now) t)"
    and "outbox_ok rt (updateOutbox (\<lambda>j. ob_event_id j = ob_event_id i) (ackItem now) t)" by simp_all
  with d t show ?thesis by (auto simp: deliverItem_def newEvents_def)
qed

lemma ackEventId_eq [simp]: "ackEventId i = ackEventId j \<longleftrightarrow> ob_event_id i = ob_event_id j"
  by (simp add: ackEventId_def)

lemma updateWhere_ack:
  "updateWhere (\<lambda>j. ob_event_id j \<in> A) (ackItem now) (updateWhere (\<lambda>j. ob_event_id j = e) (ackItem now) xs)
     = updateWhere (\<lambda>j. ob_event_id j \<in> insert e A) (ackItem now) xs"
  by (auto simp: updateWhere_def ackItem_def)

lemma newEvents_trans: "newEvents xs s t \<Longrightarrow> newEvents ys t u \<Longrightarrow> newEvents (xs @ ys) s u"
  unfolding newEvents_def by (metis append.assoc image_Un set_append sup.mono)

lemma syncItems_accepted:
  assumes "outbox_ok rt s" and "distinct (map ob_event_id is)"
    and "\<forall>i \<in> set is. leasedBy w s i \<and> accepted api i \<and> freshAck s i"
  shows "\<exists>t. syncItems rt now w api is a f s = (Inr (a + length is, f), t) \<and> outbox_ok rt t
    \<and> newEvents (map ackEventId is) s t
    \<and> cl_outbox t = updateWhere (\<lambda>j. ob_event_id j \<in> ob_event_id ` set is) (ackItem now) (cl_outbox s)"
  using assms
proof (induction "is" arbitrary: s a)
  case Nil
  then show ?case by (simp add: newEvents_def updateWhere_def)
next
  case (Cons i "is")
  then obtain t where t: "deliverItem rt now w api i s = (None, t)" "outbox_ok rt t"
      "newEvents [ackEventId i] s t"
      "cl_outbox t = updateWhere (\<lambda>j. ob_event_id j = ob_event_id i) (ackItem now) (cl_outbox s)"
    using deliverItem_accepted [of rt s w i api now] by auto
  have "leasedBy w t j \<and> accepted api j \<and> freshAck t j" if j: "j \<in> set is" for j
  proof -
    have ne: "ob_event_id j \<noteq> ob_event_id i" using Cons.prems(2) j by (auto simp: image_iff)
    from Cons.prems(3) j have "leasedBy w s j" "accepted api j" "freshAck s j" by auto
    moreover have "findOutbox (ob_event_id j) t = findOutbox (ob_event_id j) s"
      using ne by (cases "findRow ob_event_id (ob_event_id j) (cl_outbox s)")
        (auto simp: findOutbox_def t(4) findRow_updateWhere dest: findRow_SomeD)
    moreover have "freshAck t j"
      using \<open>freshAck s j\<close> t(3) ne by (auto simp: freshAck_def newEvents_def image_subset_iff)
    ultimately show ?thesis by (simp add: leasedBy_def)
  qed
  with Cons.IH [OF t(2), of "a + 1"] Cons.prems(2) obtain u where
    u: "syncItems rt now w api is (a + 1) f t = (Inr (a + 1 + length is, f), u)" "outbox_ok rt u"
    "newEvents (map ackEventId is) t u"
    "cl_outbox u = updateWhere (\<lambda>j. ob_event_id j \<in> ob_event_id ` set is) (ackItem now) (cl_outbox t)"
    by auto
  have "newEvents (map ackEventId (i # is)) s u"
    using newEvents_trans [OF t(3) u(3)] by simp
  moreover have "cl_outbox u = updateWhere (\<lambda>j. ob_event_id j \<in> ob_event_id ` set (i # is)) (ackItem now)
      (cl_outbox s)"
    by (simp add: u(4) t(4) updateWhere_ack)
  ultimately show ?case using t(1) u(1,2) by simp
qed

subsection \<open>Reconciliation leaves the outbox alone\<close>

definition stateEventPrefix :: string where
  "stateEventPrefix = ''cloud-governance:state:''"

lemma stateInput_id: "stateInput rt pid r = Inr x \<Longrightarrow> startsWith (gi_event_id x) stateEventPrefix"
  by (auto simp: stateInput_def Let_def bindE_eq_Inr stateEventPrefix_def)

lemma reconcileItems_frame:
  assumes "reconcileItems rt now api pids n s = (r, t)" and "outbox_ok rt s"
  shows "outbox_ok rt t \<and> cl_outbox t = cl_outbox s \<and> (\<exists>gs. cl_governance t = cl_governance s @ gs
    \<and> (\<forall>g \<in> set gs. startsWith (gv_event_id g) stateEventPrefix))"
  using assms
proof (induction pids arbitrary: n s)
  case (Cons pid pids)
  show ?case
  proof (cases "\<exists>x u v. recordCloudGovernanceEvent rt now x s = (u, v) \<and> startsWith (gi_event_id x) stateEventPrefix
      \<and> (t = v \<or> (\<exists>m. reconcileItems rt now api pids m v = (r, t)))")
    case True
    then obtain x u v where rec: "recordCloudGovernanceEvent rt now x s = (u, v)"
      and x: "startsWith (gi_event_id x) stateEventPrefix"
      and t: "t = v \<or> (\<exists>m. reconcileItems rt now api pids m v = (r, t))" by blast
    from recordCloudGovernanceEvent_ok [OF rec Cons.prems(2)] have v: "outbox_ok rt v" .
    from recordCloudGovernanceEvent_frame [OF rec] obtain gs where gs: "cl_outbox v = cl_outbox s"
      "cl_governance v = cl_governance s @ gs" "\<forall>g \<in> set gs. gv_event_id g = gi_event_id x" by blast
    from t show ?thesis
    proof
      assume "t = v"
      with v gs x show ?thesis by auto
    next
      assume "\<exists>m. reconcileItems rt now api pids m v = (r, t)"
      with Cons.IH v obtain hs where "outbox_ok rt t" "cl_outbox t = cl_outbox v"
        "cl_governance t = cl_governance v @ hs"
        "\<forall>g \<in> set hs. startsWith (gv_event_id g) stateEventPrefix" by blast
      with gs x show ?thesis by auto
    qed
  next
    case False
    with Cons.prems(1) have "t = s \<or> reconcileItems rt now api pids n s = (r, t)"
      by (auto simp: Let_def split: if_splits sum.splits prod.splits dest!: stateInput_id)
    then show ?thesis
    proof
      assume "reconcileItems rt now api pids n s = (r, t)"
      with Cons.IH Cons.prems(2) show ?thesis by blast
    qed (use Cons.prems(2) in simp)
  qed
qed simp

subsection \<open>Every drain makes progress\<close>

definition unacknowledged :: "cloud_store \<Rightarrow> outbox_item list" where
  "unacknowledged s = filter (\<lambda>i. ob_status i \<noteq> OutAcknowledged) (cl_outbox s)"

definition deliverable :: "runtime \<Rightarrow> cloud_api \<Rightarrow> time set \<Rightarrow> cloud_store \<Rightarrow> bool" where
  "deliverable rt api ts s \<longleftrightarrow> outbox_ok rt s
     \<and> (\<forall>i \<in> set (unacknowledged s). accepted api i \<and> freshAck s i \<and> (\<forall>t \<in> ts. due t i))"

lemma releaseLapsed_in:
  assumes "i \<in> set (releaseLapsed now xs)"
  obtains j where "j \<in> set xs" "sameContent j i" "ob_sequence i = ob_sequence j"
    "ob_next_attempt_at i = ob_next_attempt_at j"
    "ob_status i = OutAcknowledged \<longleftrightarrow> ob_status j = OutAcknowledged" "\<And>t. due t j \<Longrightarrow> due t i"
    "due now j \<Longrightarrow> ob_status i = OutPending"
  using assms unfolding releaseLapsed_def
  by (elim in_updateWhereE) (force simp: sameContent_def due_def split: if_splits)

lemma releaseLapsed_member: "i \<in> set xs \<Longrightarrow> \<exists>j \<in> set (releaseLapsed now xs).
    ob_event_id j = ob_event_id i \<and> (ob_status j = OutAcknowledged \<longleftrightarrow> ob_status i = OutAcknowledged)
      \<and> ob_proposal_id j = ob_proposal_id i \<and> ob_sequence j = ob_sequence i"
  unfolding releaseLapsed_def updateWhere_def by (induction xs) auto

lemma minimal_sequence:
  assumes "i \<in> A" and "finite A"
  obtains m where "m \<in> A" and "\<forall>j \<in> A. ob_sequence m \<le> ob_sequence (j :: outbox_item)"
  using assms arg_min_if_finite [of A ob_sequence] by (metis empty_iff leI)

text \<open>If everything unacknowledged is due, the item of the least sequence is not held back.\<close>

lemma selected_nonempty:
  assumes "i \<in> set (unacknowledged s)" and "\<forall>j \<in> set (unacknowledged s). due now j"
  shows "selected limit now s \<noteq> []"
proof -
  let ?xs = "releaseLapsed now (cl_outbox s)"
  let ?A = "{j \<in> set ?xs. ob_status j \<noteq> OutAcknowledged}"
  have pending: "ob_status j = OutPending \<and> ob_next_attempt_at j \<le> now" if "j \<in> ?A" for j
    using that assms(2) by (auto elim!: releaseLapsed_in simp: unacknowledged_def due_def)
  have "?A \<noteq> {}"
    using assms(1) releaseLapsed_member [of i "cl_outbox s" now] by (auto simp: unacknowledged_def)
  then obtain m where m: "m \<in> ?A" "\<forall>j \<in> ?A. ob_sequence m \<le> ob_sequence j"
    using minimal_sequence [of _ ?A] by auto
  then have "\<not> heldBack ?xs m" by (fastforce simp: heldBack_def list_ex_iff)
  with pending [OF m(1)] m(1) have "m \<in> set (filter (outboxClaimable now ?xs) ?xs)"
    by (simp add: outboxClaimable_def)
  then have "sortBy outboxLe (filter (outboxClaimable now ?xs) ?xs) \<noteq> []" by (metis empty_iff list.set(1) set_sortBy)
  moreover have "0 < claimLimit limit"
    using clampTo_bounds [of 1 100 "optOr limit 10"] by (simp add: claimLimit_def)
  ultimately show ?thesis by (simp add: selected_def Let_def)
qed

lemma compactAcknowledged_frame:
  assumes "compactAcknowledged d now (y, s) = (y', t)" and "outbox_ok rt s"
  shows "outbox_ok rt t" and "unacknowledged t = unacknowledged s" and "cl_governance t = cl_governance s"
proof -
  obtain n u where "compactCloudOutbox (now - d * 86400000) s = (n, u)" by force
  moreover from this have "unacknowledged u = unacknowledged s" "cl_governance u = cl_governance s"
    by (auto simp: compactCloudOutbox_def Let_def unacknowledged_def intro: filter_cong)
  ultimately show "outbox_ok rt t" and "unacknowledged t = unacknowledged s" and "cl_governance t = cl_governance s"
    using assms compactCloudOutbox_ok by (auto simp: compactAcknowledged_def split: if_splits)
qed

lemma reconcileStep_frame:
  assumes "reconcileStep rt now api (y, s) = (y', t)" and "outbox_ok rt s"
  shows "outbox_ok rt t \<and> cl_outbox t = cl_outbox s \<and> (\<exists>gs. cl_governance t = cl_governance s @ gs
    \<and> (\<forall>g \<in> set gs. startsWith (gv_event_id g) stateEventPrefix))"
proof -
  obtain r where "reconcileItems rt now api (lastItems 100 (acknowledgedProposals s)) 0 s = (r, t)"
    using assms(1) by (auto simp: reconcileStep_def reconcileOnce_def Let_def split: sum.splits prod.splits)
  from reconcileItems_frame [OF this assms(2)] show ?thesis .
qed

lemma ackEventId_not_state: "\<not> startsWith (ackEventId i) stateEventPrefix"
  by (simp add: ackEventId_def stateEventPrefix_def)

lemma deliverable_fewer:
  "deliverable rt api ts s \<Longrightarrow> ts' \<subseteq> ts \<Longrightarrow> deliverable rt api ts' s"
  by (auto simp: deliverable_def)

lemma filter_acknowledged: "filter (\<lambda>i. ob_status i \<noteq> OutAcknowledged)
      (updateWhere (\<lambda>i. ob_event_id i \<in> A) (ackItem n)
        (updateWhere (\<lambda>i. ob_event_id i \<in> A) (leaseOutbox w e m) xs))
    = filter (\<lambda>i. ob_status i \<noteq> OutAcknowledged \<and> ob_event_id i \<notin> A) xs"
  by (induction xs) (simp_all add: updateWhere_def)

lemma length_released: "length (filter (\<lambda>i. ob_status i \<noteq> OutAcknowledged) (releaseLapsed now xs))
    = length (filter (\<lambda>i. ob_status i \<noteq> OutAcknowledged) xs)"
  unfolding releaseLapsed_def updateWhere_def by (induction xs) simp_all

text \<open>
  One drain of a deliverable outbox keeps it deliverable and acknowledges what it claims: at least
  one item, if any is left.
\<close>

lemma performDrainOnce_progress:
  assumes d: "deliverable rt api (insert now ts) s" and w: "trimStr w = w" "w \<noteq> []"
    and run: "performDrainOnce rt now w days api (y, s) = (r, y', t)"
  shows "deliverable rt api ts t"
    and "length (unacknowledged t) < length (unacknowledged s) \<or> unacknowledged t = []"
    and "\<exists>n. r = Inr \<lparr>dn_claimed = n, dn_acknowledged = n, dn_failed = 0\<rparr>"
proof -
  let ?rows = "selected (Some 10) now s" and ?f = "leaseOutbox w (now + 30000) now"
  let ?xs = "releaseLapsed now (cl_outbox s)"
  let ?sel = "\<lambda>i. ob_event_id i \<in> ob_event_id ` set ?rows"
  let ?u = "s\<lparr>cl_outbox := updateWhere ?sel ?f ?xs\<rparr>"
  have s: "outbox_ok rt s" using d by (simp add: deliverable_def)
  have claim: "claimCloudOutbox w (Some 10) (Some 30000) now s = Inr (map ?f ?rows, ?u)"
    using claimCloudOutbox_eq [OF s, of w "Some 10" "Some 30000" now] w
    by (simp add: Let_def leaseMillis_def clampTo_def)
  have u: "outbox_ok rt ?u" by (rule claimCloudOutbox_ok [OF s claim])
  have dx: "distinct (map ob_event_id ?xs)" using s by (simp add: outbox_ok_def)
  have good: "accepted api i \<and> freshAck s i" if i: "i \<in> set ?xs" "ob_status i \<noteq> OutAcknowledged" for i
  proof -
    from i(1) obtain j where "j \<in> set (cl_outbox s)" "sameContent j i"
      "ob_status i = OutAcknowledged \<longleftrightarrow> ob_status j = OutAcknowledged" by (rule releaseLapsed_in)
    with i(2) d show ?thesis
      by (auto simp: deliverable_def unacknowledged_def freshAck_def sameContent_def ackEventId_def
          intro: accepted_same)
  qed
  have items: "leasedBy w ?u i \<and> accepted api i \<and> freshAck ?u i" if "i \<in> set (map ?f ?rows)" for i
  proof -
    from that obtain q where q: "q \<in> set ?rows" and i: "i = ?f q" by auto
    from selected_in [OF q] have qx: "q \<in> set ?xs" "ob_status q \<noteq> OutAcknowledged"
      by (simp_all add: outboxClaimable_def)
    have "findOutbox (ob_event_id q) ?u = Some (?f q)"
      using findRow_update_member [OF dx qx(1), of ?sel ?f] q by (simp add: findOutbox_def)
    moreover have "accepted api (?f q)"
      using good [OF qx] by (auto intro: accepted_same simp: sameContent_def)
    ultimately show ?thesis using good [OF qx] i by (simp add: leasedBy_def freshAck_def ackEventId_def)
  qed
  have "distinct (map ob_event_id (map ?f ?rows))"
    using selected_distinct [of s "Some 10" now] s by (simp add: outbox_ok_def o_def)
  from syncItems_accepted [OF u this, where w = w and api = api and now = now and a = 0 and f = 0] items obtain v where
    v: "syncItems rt now w api (map ?f ?rows) 0 0 ?u = (Inr (length ?rows, 0), v)" "outbox_ok rt v"
      "newEvents (map ackEventId (map ?f ?rows)) ?u v"
      "cl_outbox v = updateWhere ?sel (ackItem now) (cl_outbox ?u)" by (auto simp: image_image)
  obtain y1 p where p: "reconcileStep rt now api (y, v) = (y1, p)" by force
  with run claim v(1) have t: "compactAcknowledged days now (y1, p) = (y', t)"
    and r: "r = Inr \<lparr>dn_claimed = length ?rows, dn_acknowledged = length ?rows, dn_failed = 0\<rparr>"
    by (simp_all add: performDrainOnce_def)
  from r show "\<exists>n. r = Inr \<lparr>dn_claimed = n, dn_acknowledged = n, dn_failed = 0\<rparr>" by blast
  from reconcileStep_frame [OF p v(2)] obtain gs where pv: "outbox_ok rt p" "cl_outbox p = cl_outbox v"
    "cl_governance p = cl_governance v @ gs" "\<forall>g \<in> set gs. startsWith (gv_event_id g) stateEventPrefix" by blast
  note tt = compactAcknowledged_frame [OF t pv(1)]
  have left: "unacknowledged t = filter (\<lambda>i. ob_status i \<noteq> OutAcknowledged \<and> \<not> ?sel i) ?xs"
    unfolding tt(2) by (simp add: pv(2) v(4) unacknowledged_def filter_acknowledged)
  show "deliverable rt api ts t"
    unfolding deliverable_def
  proof (intro conjI ballI)
    show "outbox_ok rt t" by (rule tt(1))
  next
    fix i assume "i \<in> set (unacknowledged t)"
    with left have i: "i \<in> set ?xs" "ob_status i \<noteq> OutAcknowledged" "\<not> ?sel i" by auto
    from good [OF i(1,2)] show "accepted api i" by simp
    from v(3) obtain hs where "cl_governance v = cl_governance s @ hs"
      "\<forall>g \<in> set hs. gv_event_id g \<in> ackEventId ` set ?rows"
      by (auto simp: newEvents_def image_image ackEventId_def image_subset_iff)
    with tt(3) pv(3) have gov: "cl_governance t = cl_governance s @ hs @ gs" by simp
    have "ackEventId i \<notin> ackEventId ` set ?rows" using i(3) by (auto simp: ackEventId_def)
    moreover have "ackEventId i \<notin> gv_event_id ` set gs" using pv(4) ackEventId_not_state by (metis imageE)
    ultimately show "freshAck t i"
      using good [OF i(1,2)] gov \<open>\<forall>g \<in> set hs. _ g\<close> by (auto simp: freshAck_def)
    show "due t' i" if t': "t' \<in> ts" for t'
    proof (rule releaseLapsed_in [OF i(1)])
      fix j assume "j \<in> set (cl_outbox s)" and keep: "\<And>t. due t j \<Longrightarrow> due t i"
        and "ob_status i = OutAcknowledged \<longleftrightarrow> ob_status j = OutAcknowledged"
      with i(2) d t' show "due t' i" by (auto simp: deliverable_def unacknowledged_def)
    qed
  qed
  show "length (unacknowledged t) < length (unacknowledged s) \<or> unacknowledged t = []"
  proof (cases "unacknowledged s")
    case Nil
    then have "filter (\<lambda>i. ob_status i \<noteq> OutAcknowledged) ?xs = []"
      using length_released [of now "cl_outbox s"] by (simp add: unacknowledged_def)
    with left show ?thesis by (auto simp: filter_empty_conv)
  next
    case (Cons i rest)
    with d have "\<forall>j \<in> set (unacknowledged s). due now j" by (simp add: deliverable_def)
    with Cons selected_nonempty [of i s now "Some 10"] have "?rows \<noteq> []" by simp
    then obtain q where q: "q \<in> set ?rows" using list.set_sel(1) by blast
    define ys where "ys = filter (\<lambda>i. ob_status i \<noteq> OutAcknowledged) ?xs"
    from selected_in [OF q] have "q \<in> set ys" by (simp add: outboxClaimable_def ys_def)
    then have "length (filter (\<lambda>i. \<not> ?sel i) ys) < length ys"
      by (rule length_filter_less) (use q in auto)
    moreover have "unacknowledged t = filter (\<lambda>i. \<not> ?sel i) ys"
      by (simp add: left ys_def conj_commute)
    ultimately have "length (unacknowledged t) < length ys" by simp
    then have "length (unacknowledged t) < length (filter (\<lambda>i. ob_status i \<noteq> OutAcknowledged) ?xs)"
      by (simp add: ys_def)
    then show ?thesis using length_released by (simp add: unacknowledged_def)
  qed
qed

lemma drains_progress:
  assumes "deliverable rt api (set ts) (snd x)" and "trimStr w = w" "w \<noteq> []"
    and "length (unacknowledged (snd x)) \<le> length ts"
  shows "unacknowledged (snd (drains rt w days api ts x)) = []"
  using assms(1,4)
proof (induction ts arbitrary: x)
  case (Cons t ts)
  obtain y s where x: "x = (y, s)" by (cases x)
  obtain r y' s' where run: "performDrainOnce rt t w days api (y, s) = (r, y', s')" by (metis prod_cases3)
  have d: "deliverable rt api (insert t (set ts)) s" using Cons.prems(1) x by simp
  from performDrainOnce_progress(1,2) [OF d assms(2,3) run] Cons.prems(2) x
  have "deliverable rt api (set ts) s'" "length (unacknowledged s') \<le> length ts" by auto
  with Cons.IH [of "(y', s')"] show ?case by (simp add: x run)
qed simp

end
