(* ===== verification/CloudProperties.thy ===== *)
theory CloudProperties
  imports CloudSync Samples
begin

text \<open>
  Properties of the cloud link over the definitions of \<open>CloudOutbox\<close> and \<open>CloudSync\<close>: ordered and
  exclusive delivery, the retry budget, progress of the synchronizer, the permanence of governance
  events and what of a change set leaves the machine.
\<close>

lemma reachable_outbox: "(cloudStep rt)\<^sup>*\<^sup>* (emptyCloud st) s \<Longrightarrow> outbox_ok rt s"
  using cloud.history_inv outbox_ok_empty by blast

subsection \<open>What leaves the machine\<close>

lemma stripColumn_simps [simp]:
  "stripColumn k [] = []" "set (stripColumn k r) = {e \<in> set r. fst e \<noteq> k}"
  by (auto simp: stripColumn_def)




lemma cloudSafe_scoped:
  assumes "cs_principal_scope c = Some p"
  shows "cloudSafeChangeSet c = c\<lparr>cs_principal_id := ps_value_fingerprint p,
    cs_before := stripColumn (ps_column p) (cs_before c), cs_after := stripColumn (ps_column p) (cs_after c),
    cs_principal_scope := Some (p\<lparr>ps_value := None\<rparr>), cs_evidence_items := [],
    cs_body := stripBody (ps_column p) (cs_body c)\<rparr>"
  using assms by (simp add: cloudSafeChangeSet_def Let_def stripCloudPrincipalColumn_def)










text \<open>
  The scope of a compensation's inverse keeps its value: the upload no longer matches the schema,
  which wants both scopes to agree.
\<close>

theorem scoped_compensation_is_refused:
  assumes "parseChangeSet rt c = Inr c" and "cs_principal_scope c = Some p" and "ps_value p = Some v"
    and "cs_body c = BodyCompensation d h"
  shows "\<exists>e. parseChangeSet rt (cloudSafeChangeSet c) = Inl e"
    and "\<exists>d' p'. cs_body (cloudSafeChangeSet c) = BodyCompensation d' h
      \<and> id_principal_scope d' = Some p' \<and> ps_value p' = Some v"
proof -
  have p: "id_principal_scope d = Some p"
    using assms by (auto simp: parseChangeSet_def changeSetIssues_def compensationIssues_def)
  let ?d = "d\<lparr>id_members := map (stripInverseMember (ps_column p)) (id_members d)\<rparr>"
  have b: "cs_body (cloudSafeChangeSet c) = BodyCompensation ?d h"
    using assms(4) by (simp add: cloudSafe_scoped [OF assms(2)] stripBody_def)
  with p assms(3) show "\<exists>d' p'. cs_body (cloudSafeChangeSet c) = BodyCompensation d' h
      \<and> id_principal_scope d' = Some p' \<and> ps_value p' = Some v" by auto
  have "id_principal_scope ?d \<noteq> cs_principal_scope (cloudSafeChangeSet c)"
    using p assms(3) by (auto simp: cloudSafe_scoped [OF assms(2)] dest: arg_cong [where f = ps_value])
  then have "compensationIssues rt ?d (cloudSafeChangeSet c) \<noteq> []" by (simp add: compensationIssues_def)
  with b show "\<exists>e. parseChangeSet rt (cloudSafeChangeSet c) = Inl e"
    by (simp add: parseChangeSet_def zodParse_def changeSetIssues_def)
qed

subsection \<open>Claims\<close>

text \<open>C37: In every history a claim leases at most the requested number of due items, each for between
  one second and five minutes and with one more attempt; every item of the same proposal with a
  smaller sequence has been acknowledged; until the lease runs out no other owner can acknowledge
  or fail the item, and no claim returns it.\<close>

theorem claim_is_ordered_and_exclusive:
  assumes "(cloudStep rt)\<^sup>*\<^sup>* (emptyCloud st) s"
    and "claimCloudOutbox owner limit lease now s = Inr (items, t)" and "i \<in> set items"
  shows "length items \<le> claimLimit limit \<and> length items \<le> 100
    \<and> (\<exists>j. findOutbox (ob_event_id i) s = Some j \<and> due now j \<and> ob_attempts i = ob_attempts j + 1
         \<and> sameContent j i)
    \<and> findOutbox (ob_event_id i) t = Some i \<and> ob_status i = OutLeased
    \<and> ob_lease_owner i = Some (trimStr owner)
    \<and> (\<exists>e. ob_lease_expires_at i = Some e \<and> now + 1000 \<le> e \<and> e \<le> now + 300000
         \<and> (\<forall>owner2 limit2 lease2 now2 items2 u. now2 < e
             \<and> claimCloudOutbox owner2 limit2 lease2 now2 t = Inr (items2, u)
             \<longrightarrow> ob_event_id i \<notin> ob_event_id ` set items2))
    \<and> (\<forall>k \<in> set (cl_outbox s). ob_proposal_id k \<noteq> None \<and> ob_proposal_id k = ob_proposal_id i
         \<and> ob_sequence k < ob_sequence i \<longrightarrow> ob_status k = OutAcknowledged)
    \<and> (\<forall>other now2 f. other \<noteq> trimStr owner \<longrightarrow>
         (\<exists>e. acknowledgeCloudOutbox (ob_event_id i) other now2 t = Inl e)
       \<and> (\<exists>e. failCloudOutbox (ob_event_id i) other f now2 t = Inl e))"
proof -
  have s: "outbox_ok rt s" using reachable_outbox [OF assms(1)] .
  have w: "trimStr owner \<noteq> []" using assms(2) by (auto simp: claimCloudOutbox_def Let_def bindE_eq_Inr)
  let ?f = "leaseOutbox (trimStr owner) (now + leaseMillis lease) now"
  let ?rows = "selected limit now s" and ?xs = "releaseLapsed now (cl_outbox s)"
  have items: "items = map ?f ?rows" and t: "t = s\<lparr>cl_outbox := updateWhere
      (\<lambda>i. ob_event_id i \<in> ob_event_id ` set ?rows) ?f ?xs\<rparr>"
    using claimCloudOutbox_eq [OF s w, of limit lease now] assms(2) by (simp_all add: Let_def)
  from assms(3) items obtain q where q: "q \<in> set ?rows" and i: "i = ?f q" by auto
  from selected_in [OF q] have qx: "q \<in> set ?xs" and cq: "outboxClaimable now ?xs q" .
  have dx: "distinct (map ob_event_id ?xs)" using s by (simp add: outbox_ok_def)
  have lim: "length items \<le> claimLimit limit" by (simp add: items selected_def Let_def)
  have find: "findOutbox (ob_event_id i) t = Some i"
    using findRow_update_member [OF dx qx, of "\<lambda>i. ob_event_id i \<in> ob_event_id ` set ?rows" ?f] q i
    by (simp add: findOutbox_def t)
  have bounds: "1000 \<le> leaseMillis lease" "leaseMillis lease \<le> 300000"
    using clampTo_bounds [of 1000 300000 "optOr lease 30000"] by (simp_all add: leaseMillis_def)
  have source: "\<exists>j. findOutbox (ob_event_id i) s = Some j \<and> due now j \<and> ob_attempts i = ob_attempts j + 1
      \<and> sameContent j i"
  proof -
    from qx obtain j where "j \<in> set (cl_outbox s)" and q_eq: "q = j \<or> (ob_status j = OutLeased
        \<and> (case ob_lease_expires_at j of None \<Rightarrow> False | Some t \<Rightarrow> t \<le> now)
        \<and> q = j\<lparr>ob_status := OutPending, ob_lease_owner := None, ob_lease_expires_at := None,
            ob_updated_at := now\<rparr>)"
      unfolding releaseLapsed_def by (elim in_updateWhereE) (auto split: if_splits)
    then have "findOutbox (ob_event_id j) s = Some j"
      using s findRow_distinct [of ob_event_id "cl_outbox s" j] by (simp add: findOutbox_def outbox_ok_def)
    moreover have "ob_event_id j = ob_event_id q" "ob_attempts j = ob_attempts q" "sameContent j q" "due now j"
      using q_eq cq by (auto simp: sameContent_def due_def outboxClaimable_def)
    ultimately show ?thesis by (auto simp: i sameContent_def)
  qed
  have order: "ob_status k = OutAcknowledged" if k: "k \<in> set (cl_outbox s)" "ob_proposal_id k \<noteq> None"
    "ob_proposal_id k = ob_proposal_id i" "ob_sequence k < ob_sequence i" for k
  proof (rule ccontr)
    assume "ob_status k \<noteq> OutAcknowledged"
    with k(1) obtain k' where "k' \<in> set ?xs" "ob_status k' \<noteq> OutAcknowledged"
      "ob_proposal_id k' = ob_proposal_id k" "ob_sequence k' = ob_sequence k"
      using releaseLapsed_member by metis
    with k i cq show False by (auto simp: outboxClaimable_def heldBack_def list_ex_iff)
  qed
  have later: "ob_event_id i \<notin> ob_event_id ` set items2"
    if "now2 < now + leaseMillis lease" "claimCloudOutbox owner2 limit2 lease2 now2 t = Inr (items2, u)"
    for owner2 limit2 lease2 now2 items2 u
  proof
    note run2 = that(2)
    assume "ob_event_id i \<in> ob_event_id ` set items2"
    moreover have tok: "outbox_ok rt t" by (rule claimCloudOutbox_ok [OF s assms(2)])
    moreover have w2: "trimStr owner2 \<noteq> []" using that(2) by (auto simp: claimCloudOutbox_def Let_def bindE_eq_Inr)
    ultimately obtain r where r: "r \<in> set (selected limit2 now2 t)" and rid: "ob_event_id r = ob_event_id i"
      using claimCloudOutbox_eq [OF tok w2, of limit2 lease2 now2] run2 by (auto simp: Let_def)
    from selected_in [OF r] have rx: "r \<in> set (releaseLapsed now2 (cl_outbox t))"
      and rp: "ob_status r = OutPending" by (simp_all add: outboxClaimable_def)
    from rx obtain j where j: "j \<in> set (cl_outbox t)" "ob_event_id j = ob_event_id r"
      "r = j \<or> (case ob_lease_expires_at j of None \<Rightarrow> False | Some t \<Rightarrow> t \<le> now2)"
      unfolding releaseLapsed_def by (elim in_updateWhereE) (auto split: if_splits)
    have "j = i" using map_key_unique [of ob_event_id, OF _ j(1)] findOutbox_in [OF find] j(2) rid tok
      by (simp add: outbox_ok_def)
    with j(3) rp i that(1) show False by simp
  qed
  have refused: "(\<exists>e. acknowledgeCloudOutbox (ob_event_id i) other now2 t = Inl e)
      \<and> (\<exists>e. failCloudOutbox (ob_event_id i) other f now2 t = Inl e)"
    if "other \<noteq> trimStr owner" for other now2 f
  proof
    have "acknowledgeCloudOutbox (ob_event_id i) other now2 t \<noteq> Inr x" for x
      using find i that claimCloudOutbox_ok [OF s assms(2)]
      by (cases x) (auto elim!: acknowledgeCloudOutbox_cases)
    then show "\<exists>e. acknowledgeCloudOutbox (ob_event_id i) other now2 t = Inl e"
      by (metis sum.exhaust)
    have "failCloudOutbox (ob_event_id i) other f now2 t \<noteq> Inr x" for x
      using find i that by (cases x) (auto elim!: failCloudOutbox_cases)
    then show "\<exists>e. failCloudOutbox (ob_event_id i) other f now2 t = Inl e" by (metis sum.exhaust)
  qed
  have fields: "ob_status i = OutLeased" "ob_lease_owner i = Some (trimStr owner)"
    "ob_lease_expires_at i = Some (now + leaseMillis lease)" by (simp_all add: i)
  have "length items \<le> 100" using selected_length [of limit now s] items by simp
  moreover have "\<exists>e. ob_lease_expires_at i = Some e \<and> now + 1000 \<le> e \<and> e \<le> now + 300000
         \<and> (\<forall>owner2 limit2 lease2 now2 items2 u. now2 < e
             \<and> claimCloudOutbox owner2 limit2 lease2 now2 t = Inr (items2, u)
             \<longrightarrow> ob_event_id i \<notin> ob_event_id ` set items2)"
    using bounds fields(3) by (intro exI [of _ "now + leaseMillis lease"] conjI allI impI; (elim conjE)?)
      (simp_all add: later)
  ultimately show ?thesis using lim find source fields(1,2) order refused
    by (intro conjI; (simp; fail)?; blast)
qed

subsection \<open>The retry budget\<close>

text \<open>What a claim makes of one item.\<close>

lemma claim_item:
  assumes s: "outbox_ok rt s" and run: "claimCloudOutbox owner limit lease now s = Inr (items, t)"
    and i: "findOutbox eid s = Some i"
  shows "\<exists>j. findOutbox eid t = Some j \<and> (j = i \<or> (ob_status i \<in> {OutPending, OutLeased}
    \<and> ob_max_attempts j = ob_max_attempts i
    \<and> (ob_status j = OutPending \<and> ob_status i = OutLeased \<and> ob_attempts j = ob_attempts i
     \<or> ob_status j = OutLeased \<and> ob_attempts j = ob_attempts i + 1)))"
proof -
  let ?sel = "\<lambda>i. ob_event_id i \<in> ob_event_id ` set (selected limit now s)"
  let ?f = "leaseOutbox (trimStr owner) (now + leaseMillis lease) now"
  let ?xs = "releaseLapsed now (cl_outbox s)"
  have w: "trimStr owner \<noteq> []" using run by (auto simp: claimCloudOutbox_def Let_def bindE_eq_Inr)
  have t: "cl_outbox t = updateWhere ?sel ?f ?xs"
    using claimCloudOutbox_eq [OF s w, of limit lease now] run by (simp add: Let_def)
  obtain k where k: "findRow ob_event_id eid ?xs = Some k" and ki: "k = i \<or> (ob_status i = OutLeased
      \<and> k = i\<lparr>ob_status := OutPending, ob_lease_owner := None, ob_lease_expires_at := None, ob_updated_at := now\<rparr>)"
    using i by (auto simp: releaseLapsed_def findRow_updateWhere findOutbox_def)
  have find: "findOutbox eid t = Some (if ?sel k then ?f k else k)"
    using k by (simp add: findOutbox_def t findRow_updateWhere)
  have "ob_status k = OutPending" if "?sel k"
  proof -
    from that obtain r where r: "r \<in> set (selected limit now s)" "ob_event_id k = ob_event_id r" by auto
    have "k = r" using map_key_unique [of ob_event_id ?xs k r] findRow_SomeD [OF k] selected_in(1) [OF r(1)] r(2) s
      by (auto simp: outbox_ok_def)
    with selected_in(2) [OF r(1)] show ?thesis by (simp add: outboxClaimable_def)
  qed
  with ki find show ?thesis by (cases "?sel k") auto
qed

text \<open>How many more deliveries of an item may fail before it is settled.\<close>

definition failuresLeft :: "outbox_item option \<Rightarrow> nat" where
  "failuresLeft x = (case x of None \<Rightarrow> 0 | Some i \<Rightarrow> (let left = nat (ob_max_attempts i - ob_attempts i) in
     if ob_status i = OutPending then max 1 left else if ob_status i = OutLeased then Suc left else 0))"

text \<open>
  Histories of one item that count its failed deliveries.  The operator neither requeues it nor
  enqueues it again after its compaction; everything else may happen.
\<close>

inductive deliveryRun :: "runtime \<Rightarrow> string \<Rightarrow> cloud_store \<Rightarrow> nat \<Rightarrow> cloud_store \<Rightarrow> bool" for rt eid s where
  run_start: "deliveryRun rt eid s 0 s"
| run_claim: "deliveryRun rt eid s n t \<Longrightarrow> claimCloudOutbox owner limit lease now t = Inr (items, u)
    \<Longrightarrow> deliveryRun rt eid s n u"
| run_fail: "deliveryRun rt eid s n t \<Longrightarrow> failCloudOutbox eid owner f now t = Inr (j, u)
    \<Longrightarrow> deliveryRun rt eid s (Suc n) u"
| run_acknowledge: "deliveryRun rt eid s n t \<Longrightarrow> acknowledgeCloudOutbox eid owner now t = Inr (j, u)
    \<Longrightarrow> deliveryRun rt eid s n u"
| run_other: "deliveryRun rt eid s n t \<Longrightarrow> cloudStep rt t u
    \<Longrightarrow> findOutbox eid u = findOutbox eid t \<or> findOutbox eid u = None \<Longrightarrow> deliveryRun rt eid s n u"

lemma deliveryRun_ok: "deliveryRun rt eid s n t \<Longrightarrow> outbox_ok rt s \<Longrightarrow> outbox_ok rt t"
  by (induction rule: deliveryRun.induct)
    (auto intro: claimCloudOutbox_ok failCloudOutbox_ok acknowledgeCloudOutbox_ok cloudStep_ok)

lemma failuresLeft_claim:
  assumes "outbox_ok rt s" and "claimCloudOutbox owner limit lease now s = Inr (items, t)"
  shows "failuresLeft (findOutbox eid t) \<le> failuresLeft (findOutbox eid s)"
proof (cases "findOutbox eid s")
  case None
  have w: "trimStr owner \<noteq> []" using assms(2) by (auto simp: claimCloudOutbox_def Let_def bindE_eq_Inr)
  from None claimCloudOutbox_eq [OF assms(1) w, of limit lease now] assms(2) have "findOutbox eid t = None"
    by (auto simp: Let_def findOutbox_def findRow_updateWhere releaseLapsed_def)
  then show ?thesis by (simp add: failuresLeft_def)
next
  case (Some i)
  from claim_item [OF assms Some] obtain j where "findOutbox eid t = Some j" and "j = i \<or>
      (ob_status i \<in> {OutPending, OutLeased} \<and> ob_max_attempts j = ob_max_attempts i
      \<and> (ob_status j = OutPending \<and> ob_status i = OutLeased \<and> ob_attempts j = ob_attempts i
       \<or> ob_status j = OutLeased \<and> ob_attempts j = ob_attempts i + 1))" by blast
  with Some show ?thesis by (auto simp: failuresLeft_def Let_def)
qed

lemma failuresLeft_fail:
  assumes "failCloudOutbox eid owner f now s = Inr (j, t)"
  shows "Suc (failuresLeft (findOutbox eid t)) \<le> failuresLeft (findOutbox eid s)"
  using assms
proof (cases rule: failCloudOutbox_cases)
  case (1 i)
  from findOutbox_in [OF 1(1)] have "ob_event_id i = eid" by simp
  with 1 show ?thesis by (auto simp: findOutbox_update failuresLeft_def failureStatus_def Let_def)
qed

lemma failuresLeft_acknowledge:
  assumes "acknowledgeCloudOutbox eid owner now s = Inr (j, t)" and "outbox_ok rt s"
  shows "failuresLeft (findOutbox eid t) = 0"
  using assms
proof (cases rule: acknowledgeCloudOutbox_cases)
  case (1 i)
  from findOutbox_in [OF 1(1)] have "ob_event_id i = eid" by simp
  with 1 show ?thesis by (simp add: findOutbox_update failuresLeft_def)
qed

lemma failuresLeft_run:
  "deliveryRun rt eid s n t \<Longrightarrow> outbox_ok rt s \<Longrightarrow>
     n + failuresLeft (findOutbox eid t) \<le> failuresLeft (findOutbox eid s)"
proof (induction rule: deliveryRun.induct)
  case (run_claim n t owner limit lease now items u)
  with failuresLeft_claim [OF deliveryRun_ok [OF run_claim(1)] run_claim(2), of eid] show ?case by simp
next
  case (run_fail n t owner f now j u)
  with failuresLeft_fail [OF run_fail(2)] show ?case by simp
next
  case (run_acknowledge n t owner now j u)
  with failuresLeft_acknowledge [OF run_acknowledge(2) deliveryRun_ok [OF run_acknowledge(1)]]
  show ?case by simp
next
  case (run_other n t u)
  then show ?case by (auto simp: failuresLeft_def)
qed simp

lemma settled_not_claimed:
  assumes t: "outbox_ok rt t" and z: "failuresLeft (findOutbox eid t) = 0"
    and run: "claimCloudOutbox owner limit lease now t = Inr (items, u)"
  shows "eid \<notin> ob_event_id ` set items"
proof
  assume "eid \<in> ob_event_id ` set items"
  then obtain i where i: "i \<in> set items" "ob_event_id i = eid" by auto
  have w: "trimStr owner \<noteq> []" using run by (auto simp: claimCloudOutbox_def Let_def bindE_eq_Inr)
  with claimCloudOutbox_eq [OF t w, of limit lease now] run i obtain q where q: "q \<in> set (selected limit now t)"
    and qi: "ob_event_id q = eid" by (auto simp: Let_def)
  from selected_in [OF q] obtain j where j: "j \<in> set (cl_outbox t)" "ob_event_id j = ob_event_id q"
    "ob_status j = OutPending \<or> ob_status j = OutLeased"
    unfolding releaseLapsed_def outboxClaimable_def by (elim in_updateWhereE) (auto split: if_splits)
  have "findOutbox eid t = Some j"
    using findRow_distinct [of ob_event_id "cl_outbox t" j] j(1,2) qi t by (simp add: findOutbox_def outbox_ok_def)
  with z j(3) show False by (auto simp: failuresLeft_def Let_def split: if_splits)
qed

lemma failure_outcome:
  assumes "failCloudOutbox eid owner f now s = Inr (j, t)"
  shows "now \<le> ob_next_attempt_at j \<and> ob_next_attempt_at j \<le> now + 3600000
    \<and> ob_status j \<in> {OutPending, OutDeadLetter, OutReconciliationRequired}
    \<and> (ob_status j = OutPending \<longrightarrow> ob_attempts j < ob_max_attempts j \<and> of_retryable f)"
  using assms
proof (cases rule: failCloudOutbox_cases)
  case (1 i)
  have "0 \<le> retryDelay f i \<and> retryDelay f i \<le> 3600000"
    using clampTo_bounds [of 0 3600000] by (simp add: retryDelay_def)
  with 1(5) show ?thesis by (auto simp: failureStatus_def)
qed

text \<open>C38: A delivery that keeps failing ends: whatever else happens to the outbox, an item that is not
  requeued fails at most once more than the attempts it has left, and at most 101 times; each failure
  postpones it by at most an hour; once the failures left are used up it is acknowledged,
  dead-lettered or up for reconciliation, and no claim returns it.\<close>

theorem failing_delivery_ends:
  assumes "(cloudStep rt)\<^sup>*\<^sup>* (emptyCloud st) s" and "findOutbox eid s = Some i"
    and "deliveryRun rt eid s n t"
  shows "n + failuresLeft (findOutbox eid t) \<le> failuresLeft (Some i)
    \<and> failuresLeft (Some i) \<le> nat (ob_max_attempts i - ob_attempts i) + 1
    \<and> failuresLeft (Some i) \<le> 101
    \<and> (\<forall>owner f now j u. failCloudOutbox eid owner f now t = Inr (j, u) \<longrightarrow>
         now \<le> ob_next_attempt_at j \<and> ob_next_attempt_at j \<le> now + 3600000
       \<and> ob_status j \<in> {OutPending, OutDeadLetter, OutReconciliationRequired}
       \<and> (ob_status j = OutPending \<longrightarrow> ob_attempts j < ob_max_attempts j \<and> of_retryable f))
    \<and> (failuresLeft (findOutbox eid t) = 0 \<longrightarrow>
         (\<forall>j. findOutbox eid t = Some j \<longrightarrow>
            ob_status j \<in> {OutAcknowledged, OutDeadLetter, OutReconciliationRequired})
       \<and> (\<forall>owner limit lease now items u. claimCloudOutbox owner limit lease now t = Inr (items, u) \<longrightarrow>
            eid \<notin> ob_event_id ` set items))"
proof -
  have s: "outbox_ok rt s" using reachable_outbox [OF assms(1)] .
  have "0 \<le> ob_attempts i" "ob_max_attempts i \<le> 100" "1 \<le> ob_max_attempts i"
    using outbox_ok_itemD [OF s] findOutbox_in [OF assms(2)] by (auto simp: outboxItemOk_def)
  then have bounds: "failuresLeft (Some i) \<le> 101"
      "failuresLeft (Some i) \<le> nat (ob_max_attempts i - ob_attempts i) + 1"
    by (auto simp: failuresLeft_def Let_def)
  have left: "n + failuresLeft (findOutbox eid t) \<le> failuresLeft (Some i)"
    using failuresLeft_run [OF assms(3) s] assms(2) by simp
  have settled: "ob_status j \<in> {OutAcknowledged, OutDeadLetter, OutReconciliationRequired}"
    if "failuresLeft (Some j) = 0" for j
    using that by (cases "ob_status j") (auto simp: failuresLeft_def Let_def)
  then have ended: "failuresLeft (findOutbox eid t) = 0 \<longrightarrow> (\<forall>j. findOutbox eid t = Some j \<longrightarrow>
      ob_status j \<in> {OutAcknowledged, OutDeadLetter, OutReconciliationRequired})" by metis
  have free: "failuresLeft (findOutbox eid t) = 0 \<longrightarrow> (\<forall>owner limit lease now items u.
      claimCloudOutbox owner limit lease now t = Inr (items, u) \<longrightarrow> eid \<notin> ob_event_id ` set items)"
    using settled_not_claimed [OF deliveryRun_ok [OF assms(3) s]] by blast
  show ?thesis by (intro conjI allI impI)
    (rule left bounds ended [rule_format] free [rule_format] failure_outcome [THEN conjunct1]
      failure_outcome [THEN conjunct2, THEN conjunct1]
      failure_outcome [THEN conjunct2, THEN conjunct2, THEN conjunct1]
      failure_outcome [THEN conjunct2, THEN conjunct2, THEN conjunct2, THEN mp, THEN conjunct1]
      failure_outcome [THEN conjunct2, THEN conjunct2, THEN conjunct2, THEN mp, THEN conjunct2]; assumption)+
qed

subsection \<open>Progress\<close>


subsection \<open>Governance events\<close>

lemma find_member: "find P xs = Some x \<Longrightarrow> x \<in> set xs \<and> P x"
  by (induction xs) (auto split: if_splits)

lemma record_again:
  assumes t: "outbox_ok rt t" and g: "g \<in> set (cl_governance t)" and x: "gi_event_id x = gv_event_id g"
    and run: "recordCloudGovernanceEvent rt now x t = (r, u)"
  shows "cl_governance u = cl_governance t \<and> (\<forall>h. r = Inr h \<longrightarrow> h = g
    \<and> canonicalJsonDigest rt (governanceJson x (optOr (gi_created_at x) (isoString rt now)))
        = Inr (gv_integrity_hash g))"
  using run
proof (cases rule: recordCloudGovernanceEvent_cases)
  case (written hash e)
  have "findRow gv_event_id (gi_event_id x) (cl_governance t) \<noteq> None"
    using g x by (auto simp: findRow_None_iff)
  then have gov: "cl_governance u = cl_governance t"
    using projectGovernance_frame(2) [OF written(3)] by (simp add: insertGovernance_def governanceEventOf_def)
  have "h = g \<and> gv_integrity_hash h = hash" if "r = Inr h" for h
  proof -
    from written(4) that have "find (\<lambda>v. gv_event_id v = gi_event_id x)
        (listCloudGovernanceEvents (Some (gi_proposal_id x)) u) = Some h" and hash: "gv_integrity_hash h = hash"
      by (auto split: option.splits if_splits)
    then have "h \<in> set (cl_governance t)" and "gv_event_id h = gv_event_id g"
      using gov x by (auto simp: listCloudGovernanceEvents_def split: if_splits dest!: find_member)
    with map_key_unique [of gv_event_id, OF _ _ g] t hash show ?thesis by (simp add: outbox_ok_def)
  qed
  with gov written(2) show ?thesis by auto
qed simp

text \<open>Governance events are permanent: in every later state a stored event is still there, as it
  was, and is the only one with its id; recording an event under its id again returns the stored
  event, and only if the whole new event has the stored digest, and adds nothing either way.\<close>

theorem governance_events_are_permanent:
  assumes "(cloudStep rt)\<^sup>*\<^sup>* (emptyCloud st) s" and "g \<in> set (cl_governance s)"
    and "(cloudStep rt)\<^sup>*\<^sup>* s t"
  shows "g \<in> set (cl_governance t)
    \<and> (\<forall>h \<in> set (cl_governance t). gv_event_id h = gv_event_id g \<longrightarrow> h = g)
    \<and> (\<forall>x now r u. gi_event_id x = gv_event_id g \<and> recordCloudGovernanceEvent rt now x t = (r, u) \<longrightarrow>
        cl_governance u = cl_governance t \<and> (\<forall>h. r = Inr h \<longrightarrow> h = g
          \<and> canonicalJsonDigest rt (governanceJson x (optOr (gi_created_at x) (isoString rt now)))
              = Inr (gv_integrity_hash g)))"
proof -
  have s: "outbox_ok rt s" using reachable_outbox [OF assms(1)] .
  have t: "outbox_ok rt t" using cloud.history_inv [OF assms(3) s] .
  have g: "g \<in> set (cl_governance t)"
    using cloud.history_rel [OF assms(3) s] assms(2) by (auto simp: governanceGrows_def)
  have only: "h = g" if "h \<in> set (cl_governance t)" "gv_event_id h = gv_event_id g" for h
    using map_key_unique [of gv_event_id, OF _ that(1) g that(2)] t by (simp add: outbox_ok_def)
  with g record_again [OF t g] show ?thesis by blast
qed

subsection \<open>A concrete cloud link\<close>

definition sampleOutboxInput :: outbox_input where
  "sampleOutboxInput = \<lparr>oi_event_id = ''e'', oi_proposal_id = Some ''p'', oi_sequence = Some 1,
     oi_kind = ''proposal'', oi_payload = [(''k'', JStr ''v'')], oi_max_attempts = Some 2\<rparr>"

definition sampleItem :: outbox_item where
  "sampleItem = newOutboxItem 1000 ''e'' ''sha256:00'' sampleOutboxInput"

definition sampleCloud :: cloud_store where
  "sampleCloud = (emptyCloud createdStore)\<lparr>cl_outbox := [sampleItem]\<rparr>"

definition sampleLeased :: outbox_item where
  "sampleLeased = leaseOutbox ''w'' 32000 2000 sampleItem"

definition leasedCloud :: cloud_store where
  "leasedCloud = sampleCloud\<lparr>cl_outbox := [sampleLeased]\<rparr>"



lemma sample_enqueued: "enqueueCloudOutbox sampleRuntime 1000 sampleOutboxInput (emptyCloud createdStore)
    = Inr (sampleItem, sampleCloud)"
  by code_simp

lemma sample_claimed: "claimCloudOutbox ''w'' None None 2000 sampleCloud = Inr ([sampleLeased], leasedCloud)"
  by code_simp

lemma sampleCloud_reachable: "(cloudStep sampleRuntime)\<^sup>*\<^sup>* (emptyCloud createdStore) sampleCloud"
  using outbox_enqueued [OF sample_enqueued] by blast

text \<open>
  Times that differ have different texts, and documents that differ early in their text have different
  digests.
\<close>

definition echoRuntime :: runtime where
  "echoRuntime = sampleRuntime\<lparr>sha256Hex := take 60, isoString := intDecimal\<rparr>"

definition sampleGovernance :: "string \<Rightarrow> governance_input" where
  "sampleGovernance st = \<lparr>gi_event_id = ''g'', gi_proposal_id = ''p'', gi_cloud_proposal_id = None,
     gi_kind = ''k'', gi_state = st, gi_payload = [], gi_created_at = None\<rparr>"

text \<open>
  The digest of an event covers the time of its recording, so the same event is refused a second
  later.
\<close>

lemma replayed_event_is_refused:
  "(case recordCloudGovernanceEvent echoRuntime 1000 (sampleGovernance ''pending_review'') (emptyCloud createdStore)
    of (Inl _, _) \<Rightarrow> False
     | (Inr _, s) \<Rightarrow> fst (recordCloudGovernanceEvent echoRuntime 2000 (sampleGovernance ''pending_review'') s)
         = Inl (storeErr ''CLOUD_GOVERNANCE_EVENT_MISMATCH''))"
  by code_simp

text \<open>
  For the same reason a poll that finds nothing new fails: the event of the state it finds is stored,
  with the digest of the time it was first found.
\<close>

lemma unchanged_poll_fails:
  assumes "outbox_ok rt s" and "\<not> lastTerminal (listCloudGovernanceEvents (Some pid) s)"
    and "ca_proposal_status api now pid = Inr response" and "stateInput rt pid response = Inr x"
    and "g \<in> set (cl_governance s)" and "gi_event_id x = gv_event_id g"
    and "canonicalJsonDigest rt (governanceJson x (isoString rt now)) \<noteq> Inr (gv_integrity_hash g)"
  shows "fst (reconcileItems rt now api (pid # pids) n s) = Inl OtherError"
proof -
  have c: "gi_created_at x = None" using assms(4) by (auto simp: stateInput_def Let_def bindE_eq_Inr)
  obtain r u where run: "recordCloudGovernanceEvent rt now x s = (r, u)" by force
  from record_again [OF assms(1,5,6) run] assms(7) c obtain e where "r = Inl e" by (cases r) auto
  with assms(2-4) run show ?thesis by (simp add: Let_def)
qed

text \<open>An event that is refused for its digest has already been projected on its proposal.\<close>

lemma refused_event_is_projected:
  assumes s: "outbox_ok rt s" and d: "distinct (map p_id (s_proposals (cl_store s)))"
    and g: "g \<in> set (cl_governance s)" "gi_event_id x = gv_event_id g"
    and p: "getProposal (gi_proposal_id x) (cl_store s) = Some p" "activeState (p_state p)"
    and st: "localStateFromCloudGovernance (gi_state x) = Some st"
    and hash: "canonicalJsonDigest rt (governanceJson x (optOr (gi_created_at x) (isoString rt now))) = Inr hash"
      "hash \<noteq> gv_integrity_hash g"
    and free: "secretFree (JObj (gi_payload x))" and run: "recordCloudGovernanceEvent rt now x s = (r, t)"
  shows "(\<exists>e. r = Inl e) \<and> map_option p_state (getProposal (gi_proposal_id x) (cl_store t)) = Some st"
proof -
  let ?c = "optOr (gi_created_at x) (isoString rt now)" and ?pid = "gi_proposal_id x"
  let ?m = "\<lambda>p. p_id p = ?pid \<and> activeState (p_state p)"
  let ?g = "governanceEventOf x ?c hash"
  have "bindE (requireProposal ?pid (cl_store s)) (\<lambda>_. bindE (assertNoSecretMaterial (JObj (gi_payload x)))
      (\<lambda>_. canonicalJsonDigest rt (governanceJson x ?c))) = Inr hash"
    using p free hash(1) by (auto simp: requireProposal_def bindE_eq_Inr)
  with run obtain e where pr: "projectGovernance rt now ?g (insertGovernance ?g s) = (e, t)"
    by (auto simp: recordCloudGovernanceEvent_def Let_def split: prod.splits option.splits if_splits)
  have ids: "gv_proposal_id ?g = ?pid" "gv_state ?g = gi_state x" by (simp_all add: governanceEventOf_def)
  from p(1) have mem: "p \<in> set (s_proposals (cl_store s))" "p_id p = ?pid"
    by (auto simp: getProposal_def dest: findRow_SomeD)
  have one: "countWhere ?m (s_proposals (cl_store s)) = 1"
    using countWhere_one [OF d mem(1), where P = "\<lambda>p. activeState (p_state p)"] mem(2) p(2) by simp
  have "s_proposals (cl_store t) = updateWhere ?m (cloudProjected st (gv_created_at ?g)) (s_proposals (cl_store s))"
    using pr one st ids by (auto simp: projectGovernance_def Let_def split: sum.splits elim!: appendEvent_shape)
  moreover have "p_id (cloudProjected st c q) = p_id q" for c q by (simp add: cloudProjected_def)
  ultimately have "getProposal ?pid (cl_store t) = Some (cloudProjected st (gv_created_at ?g) p)"
    using p mem(2) by (simp add: getProposal_def findRow_updateWhere)
  then have "map_option p_state (getProposal ?pid (cl_store t)) = Some st" by (simp add: cloudProjected_def)
  moreover have "\<exists>e. r = Inl e"
    using record_again [OF s g run] hash by (cases r) auto
  ultimately show ?thesis by simp
qed

subsection \<open>Witnesses\<close>




theorem claim_is_ordered_and_exclusive_witness:
  "ob_lease_owner sampleLeased = Some ''w''
    \<and> (\<exists>e. acknowledgeCloudOutbox ''e'' ''v'' 2500 leasedCloud = Inl e)
    \<and> (\<exists>e. failCloudOutbox ''e'' ''v'' \<lparr>of_error_code = ''c'', of_retryable = True, of_retry_after_ms = None,
         of_reconciliation = False\<rparr> 2500 leasedCloud = Inl e)"
proof -
  have w: "trimStr ''w'' = ''w''" by code_simp
  have "ob_event_id sampleLeased = ''e''" by code_simp
  with claim_is_ordered_and_exclusive [OF sampleCloud_reachable sample_claimed, of sampleLeased] w
  show ?thesis by simp
qed

definition sampleFailure :: outbox_failure where
  "sampleFailure = classifyCloudSyncFailure (CloudControlError ''unavailable'' 503 True None)"

definition failedCloud :: cloud_store where
  "failedCloud = leasedCloud\<lparr>cl_outbox := [sampleLeased\<lparr>ob_status := OutPending, ob_lease_owner := None,
     ob_lease_expires_at := None, ob_last_error_code := Some ''unavailable'', ob_next_attempt_at := 4000,
     ob_updated_at := 3000\<rparr>]\<rparr>"

lemma sample_failed: "failCloudOutbox ''e'' ''w'' sampleFailure 3000 leasedCloud
    = Inr (hd (cl_outbox failedCloud), failedCloud)"
  by code_simp

theorem failing_delivery_ends_witness:
  "failuresLeft (Some sampleItem) = 2 \<and> deliveryRun sampleRuntime ''e'' sampleCloud 1 failedCloud
    \<and> failuresLeft (findOutbox ''e'' failedCloud) \<le> 1"
proof -
  have i: "findOutbox ''e'' sampleCloud = Some sampleItem" by code_simp
  have f: "failuresLeft (Some sampleItem) = 2" by code_simp
  have run: "deliveryRun sampleRuntime ''e'' sampleCloud (Suc 0) failedCloud"
    by (rule run_fail [OF run_claim [OF run_start sample_claimed] sample_failed])
  from failing_delivery_ends [OF sampleCloud_reachable i run] f
  have "failuresLeft (findOutbox ''e'' failedCloud) \<le> 1" by simp
  with f run show ?thesis by simp
qed


theorem governance_events_are_permanent_witness:
  "\<exists>g s. recordCloudGovernanceEvent echoRuntime 1000 (sampleGovernance ''pending_review'')
       (emptyCloud createdStore) = (Inr g, s)
     \<and> (\<forall>t. (cloudStep echoRuntime)\<^sup>*\<^sup>* s t \<longrightarrow> g \<in> set (cl_governance t))"
proof -
  have "(case recordCloudGovernanceEvent echoRuntime 1000 (sampleGovernance ''pending_review'')
       (emptyCloud createdStore) of (Inl _, _) \<Rightarrow> False | (Inr g, s) \<Rightarrow> g \<in> set (cl_governance s))"
    by code_simp
  then obtain g s where r: "recordCloudGovernanceEvent echoRuntime 1000 (sampleGovernance ''pending_review'')
      (emptyCloud createdStore) = (Inr g, s)" and g: "g \<in> set (cl_governance s)"
    by (cases "recordCloudGovernanceEvent echoRuntime 1000 (sampleGovernance ''pending_review'')
      (emptyCloud createdStore)") (auto split: sum.splits)
  have "(cloudStep echoRuntime)\<^sup>*\<^sup>* (emptyCloud createdStore) s"
    using governance_recorded [OF r] by blast
  from governance_events_are_permanent [OF this g] r show ?thesis by blast
qed

end
