(* ===== verification/JobIntegrity.thy ===== *)
theory JobIntegrity
  imports Writeback
begin

text \<open>
  What the worker core (\<open>packages/worker-core/src/index.ts\<close>) re-checks of a job before an adapter
  touches the source database: the integrity of a frozen set and of a compensation, the inverse a
  successful compensation leaves behind, and the classification of a source against a frozen set
  when an outcome has to be reconciled.

  Numbers are exact here: a decimal text is read as its rational value and sums are rational, so the
  rounding of double additions is not modelled.
\<close>

subsection \<open>Scalars\<close>

text \<open>The value of the canonical text of a number, with a sign, a fraction and an exponent.\<close>

definition decimalRat :: "string \<Rightarrow> rat" where
  "decimalRat s =
     (let negative = (s \<noteq> [] \<and> hd s = CHR ''-''); t = (if negative then tl s else s);
          mantissa = takeWhile (\<lambda>c. c \<noteq> CHR ''e'') t; e = drop (length mantissa + 1) t;
          whole = takeWhile (\<lambda>c. c \<noteq> CHR ''.'') mantissa; fraction = drop (length whole + 1) mantissa;
          m = of_int (digitsValue (whole @ fraction)) / 10 ^ length fraction;
          n = nat (digitsValue (filter isDigit e));
          r = (if e \<noteq> [] \<and> hd e = CHR ''-'' then m / 10 ^ n else m * 10 ^ n)
      in if negative then - r else r)"

definition jnumRat :: "jnum \<Rightarrow> rat option" where
  "jnumRat n = (case n of IntN i \<Rightarrow> Some (of_int i) | NegZero \<Rightarrow> Some 0 | Dec s \<Rightarrow> Some (decimalRat s)
     | NonFinite \<Rightarrow> None)"

definition ratNum :: "runtime \<Rightarrow> rat \<Rightarrow> jnum" where
  "ratNum rt r = (case quotient_of r of (p, q) \<Rightarrow> if q = 1 then IntN p else Dec (decimalText rt r))"

definition numPlusOne :: "runtime \<Rightarrow> jnum \<Rightarrow> jnum" where
  "numPlusOne rt n = (case n of IntN i \<Rightarrow> IntN (i + 1)
     | _ \<Rightarrow> (case jnumRat n of None \<Rightarrow> NonFinite | Some r \<Rightarrow> ratNum rt (r + 1)))"

text \<open>\<open>===\<close> on scalars.\<close>

definition strictEq :: "json \<Rightarrow> json \<Rightarrow> bool" where
  "strictEq a b = (case (a, b) of
      (JNum m, JNum n) \<Rightarrow> jnumRat m \<noteq> None \<and> jnumRat m = jnumRat n | _ \<Rightarrow> a = b)"

definition isNumber :: "json \<Rightarrow> bool" where
  "isNumber j = (case j of JNum _ \<Rightarrow> True | _ \<Rightarrow> False)"

text \<open>\<open>String(value)\<close>.\<close>

fun stringOf :: "json \<Rightarrow> string" and joinedItems :: "json list \<Rightarrow> string" where
  "stringOf (JStr s) = s"
| "stringOf (JArr xs) = joinedItems xs"
| "stringOf (JObj es) = ''[object Object]''"
| "stringOf JUndefined = ''undefined''"
| "stringOf JNull = ''null''"
| "stringOf (JBool b) = (if b then ''true'' else ''false'')"
| "stringOf (JNum n) = (if n = NonFinite then ''NaN'' else jsonStringify (JNum n))"
| "joinedItems [] = []"
| "joinedItems (x # xs) = (if x = JNull \<or> x = JUndefined then [] else stringOf x)
     @ (if xs = [] then [] else CHR '','' # joinedItems xs)"

definition asScalar :: "json \<Rightarrow> json" where
  "asScalar j = (case j of JArr _ \<Rightarrow> JStr (stringOf j) | JObj _ \<Rightarrow> JStr (stringOf j) | _ \<Rightarrow> j)"

text \<open>\<open>{ ...a, ...b }\<close>: a key keeps its first position and takes its last value.\<close>

definition spreadRow :: "srow \<Rightarrow> srow \<Rightarrow> srow" where
  "spreadRow a b = fold (upsertRow fst) b a"

text \<open>\<open>JSON.stringify\<close> leaves out the properties that are \<open>undefined\<close>.\<close>

fun dropUndefined :: "json \<Rightarrow> json" and dropUndefinedEntries :: "srow \<Rightarrow> srow" where
  "dropUndefined (JArr xs) = JArr (map dropUndefined xs)"
| "dropUndefined (JObj es) = JObj (dropUndefinedEntries es)"
| "dropUndefined j = j"
| "dropUndefinedEntries [] = []"
| "dropUndefinedEntries ((k, v) # es) =
     (if v = JUndefined then [] else [(k, dropUndefined v)]) @ dropUndefinedEntries es"

definition reconciliationDigest :: "runtime \<Rightarrow> json \<Rightarrow> string" where
  "reconciliationDigest rt j = ''sha256:'' @ sha256Hex rt (jsonStringify (dropUndefined j))"

definition recordValuesMatch :: "(json \<Rightarrow> json \<Rightarrow> bool) \<Rightarrow> srow \<Rightarrow> srow \<Rightarrow> bool" where
  "recordValuesMatch valuesEqual actual expected =
     list_all (\<lambda>e. valuesEqual (field actual (fst e)) (snd e)) expected"

definition recordsEqual :: "srow \<Rightarrow> srow \<Rightarrow> bool" where
  "recordsEqual l r \<longleftrightarrow> sortBy strLe (map fst l) = sortBy strLe (map fst r)
     \<and> list_all (\<lambda>e. strictEq (field l (fst e)) (field r (fst e))) l"

definition finiteNumber :: "json \<Rightarrow> string \<Rightarrow> rat result" where
  "finiteNumber v column = (case v of
      JNum n \<Rightarrow> requireSome (PlainError (''SET_AGGREGATE_VALUE_INVALID:'' @ column)) (jnumRat n)
    | _ \<Rightarrow> Inl (PlainError (''SET_AGGREGATE_VALUE_INVALID:'' @ column)))"

subsection \<open>Compensations\<close>

definition checkCompensationMember ::
  "job \<Rightarrow> reversal_operation \<Rightarrow> inverse_descriptor \<Rightarrow> inverse_member \<Rightarrow> unit result" where
  "checkCompensationMember j op d m =
     bindE (throwIf (cv_column (im_primary_key m) \<noteq> jb_pk_column j)
              (PlainError ''COMPENSATION_PRIMARY_KEY_MISMATCH'')) (\<lambda>_.
     case op of
       RestoreUpdate \<Rightarrow>
         bindE (throwIf (map_option va_strategy (id_version_advance d) \<noteq> Some IntegerIncrement)
                  (PlainError ''COMPENSATION_VERSION_GUARD_REQUIRED'')) (\<lambda>_.
         bindE (throwIf (\<not> isNumber (field (im_expected_state m)
                    (case id_version_advance d of None \<Rightarrow> [] | Some v \<Rightarrow> va_column v)))
                  (PlainError ''COMPENSATION_VERSION_GUARD_REQUIRED'')) (\<lambda>_.
         bindE (throwIf (optOr (im_restore_values m) [] = [])
                  (PlainError ''COMPENSATION_RESTORE_VALUES_REQUIRED'')) (\<lambda>_.
         throwIf (\<exists>e \<in> set (optOr (im_restore_values m) []). fst e \<notin> set (jb_allowed_columns j))
           (PlainError ''COMPENSATION_COLUMN_NOT_ALLOWED''))))
     | RemoveInsert \<Rightarrow> throwIf (im_expected_state m = [] \<or> im_restore_values m \<noteq> None)
         (PlainError ''COMPENSATION_EXPECTED_STATE_REQUIRED'')
     | RestoreInsert \<Rightarrow> throwIf (im_expected_state m \<noteq> [] \<or> optOr (im_restore_values m) [] = [])
         (PlainError ''COMPENSATION_RESTORE_VALUES_REQUIRED''))"

definition assertCompensationJobIntegrity ::
  "runtime \<Rightarrow> job \<Rightarrow> reversal_operation \<Rightarrow> inverse_descriptor \<Rightarrow> unit result" where
  "assertCompensationJobIntegrity rt j op d =
     (let identities = map (\<lambda>m. jsonStringify (cv_value (im_primary_key m))) (id_members d) in
     bindE (throwIf (id_availability d \<noteq> Available) (PlainError ''COMPENSATION_UNAVAILABLE'')) (\<lambda>_.
     bindE (throwIf (id_operation d \<noteq> op) (PlainError ''COMPENSATION_OPERATION_MISMATCH'')) (\<lambda>_.
     bindE (throwIf (id_source_id d \<noteq> jb_source_id j \<or> id_schema d \<noteq> jb_schema j
                \<or> id_table d \<noteq> jb_table j \<or> id_primary_key_column d \<noteq> jb_pk_column j)
              (PlainError ''COMPENSATION_TARGET_MISMATCH'')) (\<lambda>_.
     bindE (throwIf (cv_column (id_tenant_guard d) \<noteq> cv_column (jb_tenant_guard j)
                \<or> \<not> strictEq (cv_value (id_tenant_guard d)) (cv_value (jb_tenant_guard j)))
              (PlainError ''COMPENSATION_TENANT_MISMATCH'')) (\<lambda>_.
     bindE (throwIf (id_principal_scope d \<noteq> jb_principal_scope j)
              (PlainError ''COMPENSATION_PRINCIPAL_SCOPE_MISMATCH'')) (\<lambda>_.
     bindE (throwIf (id_members d = [] \<or> int (length (id_members d)) > id_max_rows d \<or> id_max_rows d > 100)
              (PlainError ''COMPENSATION_ROW_CAP_EXCEEDED'')) (\<lambda>_.
     bindE (throwIf (hasDuplicates identities) (PlainError ''COMPENSATION_IDENTITY_NOT_UNIQUE'')) (\<lambda>_.
     bindE (throwIf (someDescent rt identities) (PlainError ''COMPENSATION_IDENTITY_ORDER_INVALID'')) (\<lambda>_.
     bindE (throwIf (length (id_allowed_columns d) \<noteq> length (uniqueList (jb_allowed_columns j))
                \<or> (\<exists>c \<in> set (id_allowed_columns d). c \<notin> set (jb_allowed_columns j)))
              (PlainError ''COMPENSATION_ALLOWLIST_MISMATCH'')) (\<lambda>_.
     mapE (\<lambda>_. ()) (traverseE (checkCompensationMember j op d) (id_members d))))))))))))"

text \<open>The number of a version column plus one, \<open>Number(value) + 1\<close>.\<close>

definition nextVersion :: "runtime \<Rightarrow> json \<Rightarrow> json" where
  "nextVersion rt v = JNum (numPlusOne rt (jsNumber v))"

definition compensationLineage :: "job \<Rightarrow> inverse_descriptor \<Rightarrow> reversal_lineage" where
  "compensationLineage j d = (if rl_depth (id_lineage d) \<ge> 16 then id_lineage d
     else \<lparr>rl_root_proposal_id = rl_root_proposal_id (id_lineage d),
       rl_parent_proposal_id = jb_proposal_id j, rl_reverts_proposal_id = jb_proposal_id j,
       rl_depth = rl_depth (id_lineage d) + 1\<rparr>)"

text \<open>The object \<open>common\<close>: it has no principal scope.\<close>

definition compensationCommon :: "job \<Rightarrow> inverse_descriptor \<Rightarrow> inverse_descriptor" where
  "compensationCommon j d = (let exhausted = rl_depth (id_lineage d) \<ge> 16 in
     \<lparr>id_availability = (if exhausted then BestEffortUnavailable else Available),
      id_reason_codes = (if exhausted then [''REVERSAL_CHAIN_DEPTH_EXHAUSTED''] else []),
      id_operation = RestoreUpdate, id_cardinality = id_cardinality d,
      id_forward_proposal_id = jb_proposal_id j, id_forward_writeback_job_id = jb_id j,
      id_source_id = id_source_id d, id_schema = id_schema d, id_table = id_table d,
      id_primary_key_column = id_primary_key_column d, id_tenant_guard = id_tenant_guard d,
      id_principal_scope = None, id_allowed_columns = id_allowed_columns d, id_members = [],
      id_max_rows = id_max_rows d, id_aggregate_bounds = id_aggregate_bounds d,
      id_version_advance = None, id_lineage = compensationLineage j d\<rparr>)"

definition invertUpdateMember ::
  "runtime \<Rightarrow> inverse_descriptor \<Rightarrow> string \<Rightarrow> inverse_member \<Rightarrow> inverse_member" where
  "invertUpdateMember rt d version m = \<lparr>im_primary_key = im_primary_key m,
     im_expected_state = spreadRow (optOr (im_restore_values m) [])
       [(version, nextVersion rt (field (im_expected_state m) version))],
     im_restore_values = Some (filter (\<lambda>e. fst e \<in> set (id_allowed_columns d)) (im_expected_state m))\<rparr>"

definition compensationInverseFromJob ::
  "runtime \<Rightarrow> job \<Rightarrow> reversal_operation \<Rightarrow> inverse_descriptor \<Rightarrow> inverse_descriptor result" where
  "compensationInverseFromJob rt j op d =
     bindE (assertCompensationJobIntegrity rt j op d) (\<lambda>_.
     Inr (case op of
       RestoreUpdate \<Rightarrow> (compensationCommon j d)\<lparr>id_operation := RestoreUpdate,
         id_members := map (invertUpdateMember rt d
           (case id_version_advance d of None \<Rightarrow> [] | Some v \<Rightarrow> va_column v)) (id_members d),
         id_version_advance := id_version_advance d\<rparr>
     | RemoveInsert \<Rightarrow> (compensationCommon j d)\<lparr>id_operation := RestoreInsert,
         id_members := map (\<lambda>m. \<lparr>im_primary_key = im_primary_key m, im_expected_state = [],
           im_restore_values = Some (im_expected_state m)\<rparr>) (id_members d)\<rparr>
     | RestoreInsert \<Rightarrow> (compensationCommon j d)\<lparr>id_operation := RemoveInsert,
         id_members := map (\<lambda>m. \<lparr>im_primary_key = im_primary_key m,
           im_expected_state = optOr (im_restore_values m) [], im_restore_values = None\<rparr>) (id_members d)\<rparr>))"

subsection \<open>Frozen sets\<close>

definition dedupSourceStr :: "dedup_source \<Rightarrow> string" where
  "dedupSourceStr s = (case s of DedupProposalId \<Rightarrow> ''proposal_id''
     | DedupTrustedTenant \<Rightarrow> ''trusted_tenant'' | DedupFixed \<Rightarrow> ''fixed'')"

definition measureStr :: "bound_measure \<Rightarrow> string" where
  "measureStr m = (case m of BeforeMeasure \<Rightarrow> ''before'' | AfterMeasure \<Rightarrow> ''after''
     | AbsoluteDelta \<Rightarrow> ''absolute_delta'')"

definition componentJson :: "dedup_component \<Rightarrow> json" where
  "componentJson c = JObj [(''column'', JStr (dc_column c)), (''value'', dc_value c),
     (''source'', JStr (dedupSourceStr (dc_source c)))]"

definition setMemberJson :: "frozen_member \<Rightarrow> json" where
  "setMemberJson m = JObj ([(''primary_key'', columnValueJson (fm_primary_key m))]
     @ optField ''expected_version'' columnValueJson (fm_expected_version m)
     @ [(''before'', JObj (fm_before m)), (''after'', JObj (fm_after m))]
     @ optField ''before_digest'' JStr (fm_before_digest m)
     @ optField ''after_digest'' JStr (fm_after_digest m)
     @ optField ''tombstone_digest'' JStr (fm_tombstone_digest m)
     @ optField ''deduplication'' (\<lambda>cs. JObj [(''components'', JArr (map componentJson cs))])
         (fm_deduplication m))"

definition boundJson :: "runtime \<Rightarrow> aggregate_bound \<Rightarrow> json" where
  "boundJson rt b = JObj [(''column'', JStr (ab_column b)), (''measure'', JStr (measureStr (ab_measure b))),
     (''maximum'', JNum (ratNum rt (ab_maximum b))), (''actual'', JNum (ratNum rt (ab_actual b)))]"

definition legacyBoundJson :: "runtime \<Rightarrow> aggregate_bound \<Rightarrow> json" where
  "legacyBoundJson rt b = JObj [(''column'', JStr (ab_column b)), (''maximum'', JNum (ratNum rt (ab_maximum b))),
     (''measure'', JStr (measureStr (ab_measure b))), (''actual'', JNum (ratNum rt (ab_actual b)))]"

definition setMaterial :: "(aggregate_bound \<Rightarrow> json) \<Rightarrow> set_operation \<Rightarrow> frozen_set \<Rightarrow> json" where
  "setMaterial bound op fs = JObj [(''operation'', JStr (operationStr (SetOp op))),
     (''members'', JArr (map setMemberJson (fs_members fs))),
     (''aggregate_bounds'', JArr (map bound (fs_aggregate_bounds fs)))]"

definition reviewedDigestMatches ::
  "runtime \<Rightarrow> string option \<Rightarrow> json \<Rightarrow> json option \<Rightarrow> bool result" where
  "reviewedDigestMatches rt actual current legacy = (case presentStr actual of
      None \<Rightarrow> Inr False
    | Some a \<Rightarrow> bindE (canonicalJsonDigest rt current) (\<lambda>c. Inr (a \<in> set ([c, reconciliationDigest rt current]
        @ map (reconciliationDigest rt) (case legacy of None \<Rightarrow> [] | Some l \<Rightarrow> [l])))))"

definition requireDigest :: "runtime \<Rightarrow> string option \<Rightarrow> json \<Rightarrow> json option \<Rightarrow> string \<Rightarrow> unit result" where
  "requireDigest rt actual current legacy code =
     bindE (reviewedDigestMatches rt actual current legacy) (\<lambda>ok. throwIf (\<not> ok) (PlainError code))"

definition beforeMaterial :: "frozen_member \<Rightarrow> json" where
  "beforeMaterial m = JObj [(''primary_key'', cv_value (fm_primary_key m)), (''before'', JObj (fm_before m))]"

definition afterMaterial :: "frozen_member \<Rightarrow> json" where
  "afterMaterial m = JObj [(''primary_key'', cv_value (fm_primary_key m)), (''after'', JObj (fm_after m))]"

text \<open>The tenant guard and the principal scope in a row image.\<close>

definition checkImageScope :: "job \<Rightarrow> srow \<Rightarrow> unit result" where
  "checkImageScope j img =
     bindE (throwIf (\<not> strictEq (field img (cv_column (jb_tenant_guard j))) (cv_value (jb_tenant_guard j)))
              (PlainError ''SET_TENANT_GUARD_MISMATCH'')) (\<lambda>_.
     throwIf (case jb_principal_scope j of None \<Rightarrow> False
         | Some p \<Rightarrow> \<not> strictEq (field img (ps_column p)) (optOr (ps_value p) JUndefined))
       (PlainError ''SET_PRINCIPAL_SCOPE_MISMATCH''))"

definition checkUpdateMember :: "runtime \<Rightarrow> job \<Rightarrow> frozen_member \<Rightarrow> unit result" where
  "checkUpdateMember rt j m = (case (jb_version_advance j, fm_expected_version m) of
      (Some a, Some v) \<Rightarrow>
        bindE (throwIf (va_strategy a \<noteq> IntegerIncrement \<or> cv_column v \<noteq> va_column a)
                 (PlainError ''SET_VERSION_GUARD_REQUIRED'')) (\<lambda>_.
        bindE (throwIf (\<not> isNumber (cv_value v) \<or> \<not> strictEq (field (fm_before m) (va_column a)) (cv_value v))
                 (PlainError ''SET_VERSION_GUARD_MISMATCH'')) (\<lambda>_.
        bindE (checkImageScope j (fm_before m)) (\<lambda>_.
        bindE (throwIf (\<not> recordsEqual (fm_after m) (spreadRow (spreadRow (fm_before m) (jb_patch j))
                   [(va_column a, nextVersion rt (cv_value v))]))
                 (PlainError ''SET_AFTER_STATE_MISMATCH'')) (\<lambda>_.
        bindE (requireDigest rt (fm_before_digest m) (beforeMaterial m) None ''SET_BEFORE_DIGEST_MISMATCH'') (\<lambda>_.
        requireDigest rt (fm_after_digest m) (afterMaterial m) None ''SET_AFTER_DIGEST_MISMATCH'')))))
    | _ \<Rightarrow> Inl (PlainError ''SET_VERSION_GUARD_REQUIRED''))"

definition checkDeleteMember :: "runtime \<Rightarrow> job \<Rightarrow> frozen_member \<Rightarrow> unit result" where
  "checkDeleteMember rt j m = (case fm_expected_version m of
      None \<Rightarrow> Inl (PlainError ''SET_VERSION_GUARD_MISMATCH'')
    | Some v \<Rightarrow>
        bindE (throwIf (\<not> strictEq (field (fm_before m) (cv_column v)) (cv_value v))
                 (PlainError ''SET_VERSION_GUARD_MISMATCH'')) (\<lambda>_.
        bindE (checkImageScope j (fm_before m)) (\<lambda>_.
        bindE (throwIf (fm_after m \<noteq> []) (PlainError ''SET_DELETE_PATCH_FORBIDDEN'')) (\<lambda>_.
        bindE (requireDigest rt (fm_before_digest m) (beforeMaterial m) None ''SET_BEFORE_DIGEST_MISMATCH'') (\<lambda>_.
        requireDigest rt (fm_tombstone_digest m) (JObj [(''primary_key'', cv_value (fm_primary_key m)),
          (''expected_version'', columnValueJson v)]) None ''SET_TOMBSTONE_DIGEST_MISMATCH'')))))"

definition checkInsertMember :: "runtime \<Rightarrow> job \<Rightarrow> frozen_member \<Rightarrow> unit result" where
  "checkInsertMember rt j m =
     (let components = optOr (fm_deduplication m) [];
          primary = find (\<lambda>c. dc_column c = jb_pk_column j) components;
          tenant = find (\<lambda>c. dc_column c = cv_column (jb_tenant_guard j)) components
      in
     bindE (throwIf (\<not> (case primary of None \<Rightarrow> False
                 | Some c \<Rightarrow> strictEq (dc_value c) (cv_value (fm_primary_key m)))
               \<or> \<not> (case tenant of None \<Rightarrow> False
                 | Some c \<Rightarrow> dc_source c = DedupTrustedTenant
                     \<and> strictEq (dc_value c) (cv_value (jb_tenant_guard j))))
              (PlainError ''BATCH_DEDUP_REQUIRED'')) (\<lambda>_.
     bindE (throwIf (\<not> strictEq (field (fm_after m) (jb_pk_column j)) (cv_value (fm_primary_key m))
               \<or> \<not> strictEq (field (fm_after m) (cv_column (jb_tenant_guard j))) (cv_value (jb_tenant_guard j)))
              (PlainError ''BATCH_IDENTITY_MISMATCH'')) (\<lambda>_.
     bindE (throwIf (case jb_principal_scope j of None \<Rightarrow> False
               | Some p \<Rightarrow> \<not> strictEq (field (fm_after m) (ps_column p)) (optOr (ps_value p) JUndefined))
              (PlainError ''BATCH_PRINCIPAL_SCOPE_MISMATCH'')) (\<lambda>_.
     requireDigest rt (fm_after_digest m) (afterMaterial m) None ''SET_AFTER_DIGEST_MISMATCH''))))"

definition checkSetMember :: "runtime \<Rightarrow> job \<Rightarrow> set_operation \<Rightarrow> frozen_member \<Rightarrow> unit result" where
  "checkSetMember rt j op m =
     bindE (throwIf (cv_column (fm_primary_key m) \<noteq> jb_pk_column j) (PlainError ''SET_PRIMARY_KEY_MISMATCH'')) (\<lambda>_.
     case op of SetUpdate \<Rightarrow> checkUpdateMember rt j m | SetDelete \<Rightarrow> checkDeleteMember rt j m
       | BatchInsert \<Rightarrow> checkInsertMember rt j m)"

definition memberMeasure :: "aggregate_bound \<Rightarrow> frozen_member \<Rightarrow> rat result" where
  "memberMeasure b m =
     (let before = finiteNumber (field (fm_before m) (ab_column b)) (ab_column b);
          after = finiteNumber (field (fm_after m) (ab_column b)) (ab_column b)
      in case ab_measure b of
           BeforeMeasure \<Rightarrow> mapE abs before
         | AfterMeasure \<Rightarrow> mapE abs after
         | AbsoluteDelta \<Rightarrow> bindE after (\<lambda>x. mapE (\<lambda>y. abs (x - y)) before))"

definition checkBound :: "frozen_set \<Rightarrow> aggregate_bound \<Rightarrow> unit result" where
  "checkBound fs b =
     bindE (traverseE (memberMeasure b) (fs_members fs)) (\<lambda>ms.
     throwIf (sum_list ms \<noteq> ab_actual b \<or> sum_list ms > ab_maximum b) (PlainError ''SET_AGGREGATE_BOUND_MISMATCH''))"

definition assertFrozenSetJobIntegrity :: "runtime \<Rightarrow> job \<Rightarrow> set_operation \<Rightarrow> frozen_set \<Rightarrow> unit result" where
  "assertFrozenSetJobIntegrity rt j op fs = (let identities = map memberIdentity (fs_members fs) in
     bindE (throwIf (fs_row_count fs \<noteq> int (length (fs_members fs)) \<or> fs_row_count fs < 1
                \<or> fs_row_count fs > fs_max_rows fs \<or> fs_max_rows fs > 100)
              (PlainError ''SET_ROW_CAP_EXCEEDED'')) (\<lambda>_.
     bindE (throwIf (hasDuplicates identities) (PlainError ''SET_IDENTITY_NOT_UNIQUE'')) (\<lambda>_.
     bindE (throwIf (someDescent rt identities) (PlainError ''SET_IDENTITY_ORDER_INVALID'')) (\<lambda>_.
     bindE (traverseE (checkSetMember rt j op) (fs_members fs)) (\<lambda>_.
     bindE (traverseE (checkBound fs) (fs_aggregate_bounds fs)) (\<lambda>_.
     requireDigest rt (Some (fs_set_digest fs)) (setMaterial (boundJson rt) op fs)
       (Some (setMaterial (legacyBoundJson rt) op fs)) ''SET_DIGEST_MISMATCH''))))))"

subsection \<open>Reconciliation\<close>

datatype classification = MatchesReviewedBefore | MatchesProposed | NotObserved | TargetAbsent | Drifted

record member_observation =
  mo_primary_key :: column_value
  mo_classification :: classification
  mo_observed :: srow
  mo_observed_digest :: string

record reconciliation_observation =
  ro_operation :: operation
  ro_classification :: classification
  ro_target_identity :: "column_value list"
  ro_expected :: srow
  ro_observed :: srow
  ro_observed_digest :: string
  ro_members :: "member_observation list"

definition observedRow :: "string list \<Rightarrow> srow \<Rightarrow> srow" where
  "observedRow columns row = map (\<lambda>c. (c, asScalar (field row c))) columns"

definition rowKey :: "string \<Rightarrow> srow \<Rightarrow> string" where
  "rowKey pk row = jsonStringify (asScalar (field row pk))"

text \<open>A \<open>Map\<close> from the identity of a row to the row: a later row replaces an earlier one.\<close>

definition rowsByIdentity :: "string \<Rightarrow> srow list \<Rightarrow> (string \<times> srow) list" where
  "rowsByIdentity pk rows = fold (\<lambda>r m. upsertRow fst (rowKey pk r, r) m) rows []"

definition observedMember ::
  "runtime \<Rightarrow> column_value \<Rightarrow> classification \<Rightarrow> srow \<Rightarrow> member_observation" where
  "observedMember rt pk c observed = \<lparr>mo_primary_key = pk, mo_classification = c, mo_observed = observed,
     mo_observed_digest = reconciliationDigest rt (JObj observed)\<rparr>"

definition memberClassification ::
  "(json \<Rightarrow> json \<Rightarrow> bool) \<Rightarrow> set_operation \<Rightarrow> frozen_member \<Rightarrow> srow option \<Rightarrow> classification" where
  "memberClassification eq op m found = (case found of
      None \<Rightarrow> (if op = SetDelete then TargetAbsent else NotObserved)
    | Some row \<Rightarrow>
        (let before = recordValuesMatch eq row (fm_before m); after = recordValuesMatch eq row (fm_after m) in
         if op = SetDelete then (if before then MatchesReviewedBefore else Drifted)
         else if after then MatchesProposed
         else if before then MatchesReviewedBefore else Drifted))"

definition observeMember ::
  "runtime \<Rightarrow> (json \<Rightarrow> json \<Rightarrow> bool) \<Rightarrow> set_operation \<Rightarrow> (string \<times> srow) list \<Rightarrow> frozen_member
    \<Rightarrow> member_observation" where
  "observeMember rt eq op rows m = (let found = map_of rows (memberIdentity m) in
     observedMember rt (fm_primary_key m) (memberClassification eq op m found)
       (case found of None \<Rightarrow> []
        | Some row \<Rightarrow> observedRow (map fst (spreadRow (fm_before m) (fm_after m))) row))"

definition setClassification :: "set_operation \<Rightarrow> bool \<Rightarrow> classification list \<Rightarrow> classification" where
  "setClassification op strange cs = (let every = (\<lambda>c. list_all ((=) c) cs) in
     if strange then Drifted
     else if op = SetDelete then
       (if every TargetAbsent then TargetAbsent
        else if every MatchesReviewedBefore then MatchesReviewedBefore else Drifted)
     else if every MatchesProposed then MatchesProposed
     else if op = SetUpdate \<and> every MatchesReviewedBefore then MatchesReviewedBefore
     else if op = BatchInsert \<and> every NotObserved then NotObserved
     else Drifted)"

definition memberDigestJson :: "member_observation list \<Rightarrow> json" where
  "memberDigestJson ms = JArr (map (\<lambda>m. JObj [(''primary_key'', columnValueJson (mo_primary_key m)),
     (''observed'', JObj (mo_observed m))]) ms)"

definition classifyFrozenSetReconciliation ::
  "runtime \<Rightarrow> set_operation \<Rightarrow> string \<Rightarrow> frozen_set \<Rightarrow> srow list \<Rightarrow> (json \<Rightarrow> json \<Rightarrow> bool)
    \<Rightarrow> reconciliation_observation" where
  "classifyFrozenSetReconciliation rt op pk fs rows eq =
     (let byIdentity = rowsByIdentity pk rows; members = map (observeMember rt eq op byIdentity) (fs_members fs);
          strange = (hasDuplicates (map (rowKey pk) rows)
            \<or> (\<exists>k \<in> set (map fst byIdentity). k \<notin> set (map memberIdentity (fs_members fs))));
          observed = [(''row_count'', JNum (IntN (int (length rows)))),
            (''set_digest'', JStr (reconciliationDigest rt (memberDigestJson members)))]
      in \<lparr>ro_operation = SetOp op,
          ro_classification = setClassification op strange (map mo_classification members),
          ro_target_identity = map fm_primary_key (fs_members fs),
          ro_expected = [(''row_count'', JNum (IntN (fs_row_count fs))), (''max_rows'', JNum (IntN (fs_max_rows fs))),
            (''set_digest'', JStr (fs_set_digest fs))],
          ro_observed = observed, ro_observed_digest = reconciliationDigest rt (JObj observed),
          ro_members = members\<rparr>)"

end
