(* ===== verification/SourceClient.thy ===== *)
theory SourceClient
  imports JobIntegrity
begin

text \<open>
  The source database as the adapters see it.  An adapter of the Runner sends one statement at a
  time over a \<open>PostgresApplyClient\<close> and reads rows and a row count back.  The client and the server
  behind it are not part of the repository: \<open>query :: sql_statement \<Rightarrow> ('w, query_result) io\<close> is a
  parameter of every definition that talks to the source, where \<open>'w\<close> is the world outside the
  adapter.  The statements are the ones the adapters build, with the identifiers and the bound
  values of the SQL text as arguments.

  The locale \<open>sql_source\<close> states what PostgreSQL documents of these statements, and the adapters'
  lemmas rest on it.  It is interpreted on tables in memory whose client fails when a schedule says
  so; that client is also the one the witnesses run.
\<close>

subsection \<open>Effects\<close>

text \<open>An asynchronous operation: a result or an exception, and the world after it.\<close>

type_synonym ('w, 'a) io = "'w \<Rightarrow> 'a result \<times> 'w"

definition returnM :: "'a \<Rightarrow> ('w, 'a) io" where
  "returnM x w = (Inr x, w)"

definition throwM :: "err \<Rightarrow> ('w, 'a) io" where
  "throwM e w = (Inl e, w)"

definition liftE :: "'a result \<Rightarrow> ('w, 'a) io" where
  "liftE r w = (r, w)"

definition bindM :: "('w, 'a) io \<Rightarrow> ('a \<Rightarrow> ('w, 'b) io) \<Rightarrow> ('w, 'b) io" where
  "bindM m f w = (case m w of (Inl e, v) \<Rightarrow> (Inl e, v) | (Inr x, v) \<Rightarrow> f x v)"

definition catchM :: "('w, 'a) io \<Rightarrow> (err \<Rightarrow> ('w, 'a) io) \<Rightarrow> ('w, 'a) io" where
  "catchM m h w = (case m w of (Inl e, v) \<Rightarrow> h e v | (Inr x, v) \<Rightarrow> (Inr x, v))"

definition whenM :: "bool \<Rightarrow> ('w, unit) io \<Rightarrow> ('w, unit) io" where
  "whenM c m = (if c then m else returnM ())"

fun traverseM :: "('a \<Rightarrow> ('w, 'b) io) \<Rightarrow> 'a list \<Rightarrow> ('w, 'b list) io" where
  "traverseM f [] = returnM []"
| "traverseM f (x # xs) = bindM (f x) (\<lambda>y. bindM (traverseM f xs) (\<lambda>ys. returnM (y # ys)))"

text \<open>A loop that returns early: the first answer ends it.\<close>

fun firstM :: "('a \<Rightarrow> ('w, 'b option) io) \<Rightarrow> 'a list \<Rightarrow> ('w, 'b option) io" where
  "firstM f [] = returnM None"
| "firstM f (x # xs) = bindM (f x) (\<lambda>r. case r of None \<Rightarrow> firstM f xs | Some b \<Rightarrow> returnM (Some b))"

lemma returnM_run [simp]: "returnM x w = (Inr x, w)"
  and throwM_run [simp]: "throwM e w = (Inl e, w)"
  and liftE_run [simp]: "liftE r w = (r, w)"
  by (simp_all add: returnM_def throwM_def liftE_def)

lemma bindM_Inl [simp]: "m w = (Inl e, v) \<Longrightarrow> bindM m f w = (Inl e, v)"
  and bindM_Inr [simp]: "m w = (Inr x, v) \<Longrightarrow> bindM m f w = f x v"
  by (simp_all add: bindM_def)

lemma bindM_eq_Inr:
  "bindM m f w = (Inr y, v) \<longleftrightarrow> (\<exists>x u. m w = (Inr x, u) \<and> f x u = (Inr y, v))"
  by (auto simp: bindM_def split: prod.splits sum.splits)

lemma bindM_eq_Inl:
  "bindM m f w = (Inl e, v) \<longleftrightarrow> m w = (Inl e, v) \<or> (\<exists>x u. m w = (Inr x, u) \<and> f x u = (Inl e, v))"
  by (auto simp: bindM_def split: prod.splits sum.splits)

subsection \<open>Statements\<close>

type_synonym sql_table = "string \<times> string"

datatype sql_condition =
    CEq string json
  | CSame string json
  | CIn string "json list"

datatype sql_projection = SqlColumn string | SqlText string string | SqlOne

datatype sql_assignment = SetTo string json | Increment string

datatype sql_statement =
    SqlBegin
  | SqlCommit
  | SqlRollback
  | SqlSetLocal string int
  | SqlSetConfig string string string string
  | SqlMigrate sql_table
  | SqlSelect sql_table "sql_projection list" "sql_condition list" "string option" "nat option" bool
  | SqlUpdate sql_table "sql_assignment list" "sql_condition list" "sql_projection list"
  | SqlInsert sql_table srow "sql_projection list"
  | SqlDelete sql_table "sql_condition list"
  | SqlDeleteSafety sql_table
  | SqlUniqueKeys sql_table
  | SqlRelation sql_table
  | SqlViewDependencies json
  | SqlPolicies json
  | SqlClaimReceipt sql_table string string string
  | SqlReadReceipt sql_table string
  | SqlRecordReceipt sql_table string string string

record query_result =
  qr_rows :: "srow list"
  qr_count :: "int option"

type_synonym 'w client = "sql_statement \<Rightarrow> ('w, query_result) io"

definition firstRow :: "query_result \<Rightarrow> srow option" where
  "firstRow q = (case qr_rows q of [] \<Rightarrow> None | r # _ \<Rightarrow> Some r)"

text \<open>\<open>rows[0]?.column\<close> and a truthiness test on the row count.\<close>

definition firstField :: "query_result \<Rightarrow> string \<Rightarrow> json" where
  "firstField q c = (case firstRow q of None \<Rightarrow> JUndefined | Some r \<Rightarrow> field r c)"

definition anyRow :: "query_result \<Rightarrow> bool" where
  "anyRow q \<longleftrightarrow> qr_count q \<noteq> None \<and> qr_count q \<noteq> Some 0"

definition exactlyOne :: "query_result \<Rightarrow> bool" where
  "exactlyOne q \<longleftrightarrow> qr_count q = Some 1"

definition assigned :: "sql_assignment \<Rightarrow> string" where
  "assigned a = (case a of SetTo c _ \<Rightarrow> c | Increment c \<Rightarrow> c)"

subsection \<open>The laws of a source\<close>

type_synonym tables = "sql_table \<Rightarrow> srow multiset"

text \<open>
  \<open>eq\<close> is the equality of the column types (\<open>=\<close>, which no null satisfies) and \<open>same\<close> is
  \<open>IS NOT DISTINCT FROM\<close>.
\<close>

definition holds ::
  "(json \<Rightarrow> json \<Rightarrow> bool) \<Rightarrow> (json \<Rightarrow> json \<Rightarrow> bool) \<Rightarrow> srow \<Rightarrow> sql_condition \<Rightarrow> bool" where
  "holds eq same r c = (case c of
      CEq k v \<Rightarrow> eq (field r k) v
    | CSame k v \<Rightarrow> same (field r k) v
    | CIn k vs \<Rightarrow> list_ex (eq (field r k)) vs)"

definition matching ::
  "(json \<Rightarrow> json \<Rightarrow> bool) \<Rightarrow> (json \<Rightarrow> json \<Rightarrow> bool) \<Rightarrow> sql_condition list \<Rightarrow> srow \<Rightarrow> bool" where
  "matching eq same cs r = list_all (holds eq same r) cs"

definition project :: "(json \<Rightarrow> json) \<Rightarrow> srow \<Rightarrow> sql_projection list \<Rightarrow> srow" where
  "project asText r ps = map (\<lambda>p. case p of SqlColumn c \<Rightarrow> (c, field r c)
     | SqlText c a \<Rightarrow> (a, asText (field r c)) | SqlOne \<Rightarrow> (''?column?'', JNum (IntN 1))) ps"

text \<open>A statement that only reads, or only sets the session.\<close>

definition reading :: "sql_statement \<Rightarrow> bool" where
  "reading s = (case s of SqlSetLocal _ _ \<Rightarrow> True | SqlSetConfig _ _ _ _ \<Rightarrow> True
     | SqlSelect _ _ _ _ _ _ \<Rightarrow> True | SqlDeleteSafety _ \<Rightarrow> True | SqlUniqueKeys _ \<Rightarrow> True
     | SqlRelation _ \<Rightarrow> True | SqlViewDependencies _ \<Rightarrow> True | SqlPolicies _ \<Rightarrow> True
     | SqlReadReceipt _ _ \<Rightarrow> True | _ \<Rightarrow> False)"

text \<open>
  The world of a session: the committed tables and receipts, and the ones its open transaction
  sees.  \<open>updated\<close> and \<open>inserted\<close> give the row a statement leaves behind, with whatever defaults
  and generated columns the table has.  A statement in a transaction never changes what is
  committed; COMMIT makes the working state the committed one, and when its acknowledgement is lost
  either state may be the committed one; ROLLBACK keeps the committed state, acknowledged or not.
  The migration is a \<open>CREATE TABLE IF NOT EXISTS\<close> and changes neither rows nor receipts.
\<close>

locale sql_source =
  fixes query :: "'w client"
    and committed working :: "'w \<Rightarrow> tables"
    and in_transaction :: "'w \<Rightarrow> bool"
    and receipts pending :: "'w \<Rightarrow> string \<Rightarrow> (string \<times> string option) option"
    and eq same :: "json \<Rightarrow> json \<Rightarrow> bool"
    and asText :: "json \<Rightarrow> json"
    and updated :: "sql_assignment list \<Rightarrow> srow \<Rightarrow> srow"
    and inserted :: "srow \<Rightarrow> srow"
  assumes begin_law: "query SqlBegin w = (Inr q, v) \<Longrightarrow> 
        in_transaction v \<and> working v = committed w \<and> pending v = receipts w"
    and commit_law: "query SqlCommit w = (Inr q, v) \<Longrightarrow> committed v = working w \<and> receipts v = pending w"
    and commit_lost: "query SqlCommit w = (Inl e, v) \<Longrightarrow>
        committed v = committed w \<and> receipts v = receipts w
        \<or> committed v = working w \<and> receipts v = pending w"
    and isolation: "in_transaction w \<or> s = SqlBegin \<Longrightarrow> s \<noteq> SqlCommit \<Longrightarrow> query s w = (r, v) \<Longrightarrow>
        committed v = committed w \<and> receipts v = receipts w"
    and stays_open: "in_transaction w \<Longrightarrow> s \<notin> {SqlCommit, SqlRollback} \<Longrightarrow> query s w = (r, v) \<Longrightarrow>
        in_transaction v"
    and migrate_law: "query (SqlMigrate t) w = (r, v) \<Longrightarrow> committed v = committed w \<and> receipts v = receipts w"
    and reading_law: "reading s \<Longrightarrow> query s w = (Inr q, v) \<Longrightarrow> working v = working w \<and> pending v = pending w"
    and select_law: "query (SqlSelect t ps cs order cap lock) w = (Inr q, v) \<Longrightarrow> \<exists>rs.
        mset rs = filter_mset (matching eq same cs) (working w t)
        \<and> qr_rows q = map (\<lambda>r. project asText r ps) (case cap of None \<Rightarrow> rs | Some n \<Rightarrow> take n rs)
        \<and> qr_count q = Some (int (length (qr_rows q)))"
    and update_law: "query (SqlUpdate t as cs ps) w = (Inr q, v) \<Longrightarrow>
        working v = (working w)(t := filter_mset (\<lambda>r. \<not> matching eq same cs r) (working w t)
          + image_mset (updated as) (filter_mset (matching eq same cs) (working w t)))
        \<and> pending v = pending w
        \<and> qr_count q = Some (int (size (filter_mset (matching eq same cs) (working w t))))"
    and insert_law: "query (SqlInsert t row ps) w = (Inr q, v) \<Longrightarrow> (\<exists>n.
        working v = (working w)(t := working w t + replicate_mset n (inserted row))
        \<and> pending v = pending w \<and> qr_count q = Some (int n))"
    and delete_law: "query (SqlDelete t cs) w = (Inr q, v) \<Longrightarrow>
        working v = (working w)(t := filter_mset (\<lambda>r. \<not> matching eq same cs r) (working w t))
        \<and> pending v = pending w
        \<and> qr_count q = Some (int (size (filter_mset (matching eq same cs) (working w t))))"
    and claim_law: "query (SqlClaimReceipt t k j p) w = (Inr q, v) \<Longrightarrow> working v = working w
        \<and> (case pending w k of
             None \<Rightarrow> qr_count q = Some 1 \<and> pending v = (pending w)(k \<mapsto> (''in_progress'', None))
           | Some _ \<Rightarrow> qr_count q = Some 0 \<and> pending v = pending w)"
    and read_law: "query (SqlReadReceipt t k) w = (Inr q, v) \<Longrightarrow> firstRow q =
        map_option (\<lambda>(s, h). [(''status'', JStr s),
          (''result_hash'', case h of None \<Rightarrow> JNull | Some x \<Rightarrow> JStr x)]) (pending w k)"
    and record_law: "query (SqlRecordReceipt t k st h) w = (Inr q, v) \<Longrightarrow> working v = working w
        \<and> (case pending w k of
             None \<Rightarrow> qr_count q = Some 0 \<and> pending v = pending w
           | Some _ \<Rightarrow> qr_count q = Some 1 \<and> pending v = (pending w)(k \<mapsto> (st, Some h)))"

subsection \<open>What an operation leaves alone\<close>

text \<open>
  \<open>stays\<close>: run inside a transaction, the operation stays inside and leaves a view of the world
  alone, whether it returns or throws.  \<open>quiet\<close>: an operation that returns has left the view alone.
\<close>

definition stays :: "('w \<Rightarrow> bool) \<Rightarrow> ('w \<Rightarrow> 'c) \<Rightarrow> ('w, 'a) io \<Rightarrow> bool" where
  "stays inside view m \<longleftrightarrow> (\<forall>w r v. inside w \<longrightarrow> m w = (r, v) \<longrightarrow> inside v \<and> view v = view w)"

definition quiet :: "('w \<Rightarrow> 'c) \<Rightarrow> ('w, 'a) io \<Rightarrow> bool" where
  "quiet view m \<longleftrightarrow> (\<forall>w x v. m w = (Inr x, v) \<longrightarrow> view v = view w)"

lemma stays_simps [simp]:
  "stays i c (returnM x)" "stays i c (throwM e)" "stays i c (liftE r)"
  by (simp_all add: stays_def)

lemma stays_bindM [intro]: "stays i c m \<Longrightarrow> (\<And>x. stays i c (f x)) \<Longrightarrow> stays i c (bindM m f)"
proof (unfold stays_def, intro allI impI)
  fix w r v
  assume m: "\<forall>w r v. i w \<longrightarrow> m w = (r, v) \<longrightarrow> i v \<and> c v = c w"
    and f: "\<And>x. \<forall>w r v. i w \<longrightarrow> f x w = (r, v) \<longrightarrow> i v \<and> c v = c w"
    and w: "i w" and run: "bindM m f w = (r, v)"
  obtain r1 u where u: "m w = (r1, u)" by fastforce
  with m w have "i u \<and> c u = c w" by blast
  then show "i v \<and> c v = c w" using run u f by (cases r1) (auto simp: bindM_def)
qed

lemma stays_whenM [intro]: "(b \<Longrightarrow> stays i c m) \<Longrightarrow> stays i c (whenM b m)"
  by (simp add: whenM_def)

lemma stays_traverseM [intro]: "(\<And>x. stays i c (f x)) \<Longrightarrow> stays i c (traverseM f xs)"
  by (induction xs) (auto intro!: stays_bindM)

lemma stays_firstM [intro]: "(\<And>x. stays i c (f x)) \<Longrightarrow> stays i c (firstM f xs)"
  by (induction xs) (auto intro!: stays_bindM split: option.splits)

lemma quiet_simps [simp]: "quiet c (returnM x)" "quiet c (throwM e)" "quiet c (liftE r)"
  by (simp_all add: quiet_def)

lemma quiet_bindM [intro]: "quiet c m \<Longrightarrow> (\<And>x. quiet c (f x)) \<Longrightarrow> quiet c (bindM m f)"
  unfolding quiet_def bindM_def by (auto split: prod.split_asm sum.split_asm)

lemma quiet_whenM [intro]: "(b \<Longrightarrow> quiet c m) \<Longrightarrow> quiet c (whenM b m)"
  by (simp add: whenM_def)

lemma quiet_traverseM [intro]: "(\<And>x. quiet c (f x)) \<Longrightarrow> quiet c (traverseM f xs)"
  by (induction xs) (auto intro!: quiet_bindM)

lemma quiet_firstM [intro]: "(\<And>x. quiet c (f x)) \<Longrightarrow> quiet c (firstM f xs)"
  by (induction xs) (auto intro!: quiet_bindM split: option.splits)

subsection \<open>Facts about every source\<close>

text \<open>One row, and only it, satisfies the conditions, and it is replaced or deleted.\<close>

definition oneRow :: "(srow \<Rightarrow> bool) \<Rightarrow> (srow \<Rightarrow> srow multiset) \<Rightarrow> srow multiset \<Rightarrow> srow multiset \<Rightarrow> bool" where
  "oneRow p f M N \<longleftrightarrow> (\<exists>r R. M = add_mset r R \<and> p r \<and> (\<forall>x \<in># R. \<not> p x) \<and> N = f r + R)"

lemma size_one_filter:
  assumes "size (filter_mset p M) = 1"
  shows "oneRow p f M (filter_mset (\<lambda>x. \<not> p x) M + (\<Sum>r \<in># filter_mset p M. f r))"
proof -
  obtain r where r: "filter_mset p M = {#r#}" using assms size_1_singleton_mset by metis
  then have "M = add_mset r (filter_mset (\<lambda>x. \<not> p x) M)"
    by (metis add_mset_add_single multiset_partition union_commute)
  moreover have "p r" using r by (metis filter_mset_eq_conv union_single_eq_member multi_member_this)
  ultimately show ?thesis unfolding oneRow_def
    by (intro exI [of _ r] exI [of _ "filter_mset (\<lambda>x. \<not> p x) M"]) (simp add: r add.commute)
qed

context sql_source
begin

lemma query_stays:
  "s \<notin> {SqlCommit, SqlRollback} \<Longrightarrow> stays in_transaction (\<lambda>w. (committed w, receipts w)) (query s)"
  unfolding stays_def using isolation stays_open by (metis insertCI)

lemma query_quiet: "reading s \<Longrightarrow> quiet (\<lambda>w. (working w, pending w)) (query s)"
  unfolding quiet_def using reading_law by blast

lemma update_one:
  assumes "query (SqlUpdate t as cs ps) w = (Inr q, v)" and "qr_count q = Some 1"
  shows "oneRow (matching eq same cs) (\<lambda>r. {#updated as r#}) (working w t) (working v t)
    \<and> (\<forall>u. u \<noteq> t \<longrightarrow> working v u = working w u) \<and> pending v = pending w"
  using update_law [OF assms(1)] assms(2)
    size_one_filter [of "matching eq same cs" "working w t" "\<lambda>r. {#updated as r#}"]
  by (simp add: image_mset.compositionality)

lemma delete_one:
  assumes "query (SqlDelete t cs) w = (Inr q, v)" and "qr_count q = Some 1"
  shows "oneRow (matching eq same cs) (\<lambda>r. {#}) (working w t) (working v t)
    \<and> (\<forall>u. u \<noteq> t \<longrightarrow> working v u = working w u) \<and> pending v = pending w"
  using delete_law [OF assms(1)] assms(2)
    size_one_filter [of "matching eq same cs" "working w t" "\<lambda>r. {#}"]
  by simp

end

end
