(* ===== verification/PostgresValues.thy ===== *)
theory PostgresValues
  imports SourceClient
begin

text \<open>
  The pure part of the PostgreSQL adapter (\<open>packages/postgres/src/index.ts\<close>): the normal form under
  which versions and timestamps are compared, the statements of the single-row operations, the guards
  they refuse to build without, the identity a result reports, the safe error codes and the results.

  A date value read from the database is its text; \<open>Date\<close> objects are not modelled.
\<close>

subsection \<open>Versions and timestamps\<close>

text \<open>A text matches a pattern in which \<open>0\<close> stands for a digit.\<close>

definition shapedLike :: "string \<Rightarrow> string \<Rightarrow> bool" where
  "shapedLike p s \<longleftrightarrow> list_all2 (\<lambda>a c. if a = CHR ''0'' then isDigit c else a = c) p s"

record timestamp =
  ts_date :: string
  ts_time :: string
  ts_fraction :: string
  ts_offset :: string

text \<open>The timestamp expression of \<open>normalizeVersionValue\<close>; an absent offset is the empty string.\<close>

definition matchTimestamp :: "string \<Rightarrow> timestamp option" where
  "matchTimestamp s =
     (let date = take 10 s; sep = take 1 (drop 10 s); clock = take 8 (drop 11 s); rest = drop 19 s;
          dotted = (rest \<noteq> [] \<and> hd rest = CHR ''.'');
          fraction = (if dotted then takeWhile isDigit (tl rest) else []);
          offset = (if dotted then dropWhile isDigit (tl rest) else rest)
      in if shapedLike ''0000-00-00'' date \<and> sep \<in> set [''T'', ''t'', '' ''] \<and> shapedLike ''00:00:00'' clock
            \<and> (dotted \<longrightarrow> 1 \<le> length fraction \<and> length fraction \<le> 9)
            \<and> (offset \<in> set [[], ''Z'', ''z'']
               \<or> (hd offset \<in> set ''+-''
                  \<and> list_ex (\<lambda>p. shapedLike p (tl offset)) [''00'', ''0000'', ''00:00'']))
         then Some \<lparr>ts_date = date, ts_time = clock, ts_fraction = fraction, ts_offset = offset\<rparr>
         else None)"

definition offsetMinutes :: "string \<Rightarrow> int" where
  "offsetMinutes offset =
     (let sign = (if startsWith offset ''-'' then -1 else 1);
          compact = filter (\<lambda>c. c \<noteq> CHR '':'') (tl offset)
      in sign * (digitsValue (take 2 compact) * 60 + digitsValue (take 2 (drop 2 compact))))"

text \<open>The days from the epoch to a civil date and back, and \<open>Date.UTC\<close> in seconds (a two-digit
  year counts from 1900).\<close>

definition daysFromCivil :: "int \<Rightarrow> int \<Rightarrow> int \<Rightarrow> int" where
  "daysFromCivil y m d = (let z = (if m \<le> 2 then y - 1 else y); era = z div 400; yoe = z - era * 400;
      doy = (153 * ((m + 9) mod 12) + 2) div 5 + d - 1; doe = yoe * 365 + yoe div 4 - yoe div 100 + doy
    in era * 146097 + doe - 719468)"

definition civilFromDays :: "int \<Rightarrow> int \<times> int \<times> int" where
  "civilFromDays n = (let z = n + 719468; era = z div 146097; doe = z - era * 146097;
      yoe = (doe - doe div 1460 + doe div 36524 - doe div 146096) div 365;
      doy = doe - (365 * yoe + yoe div 4 - yoe div 100); mp = (5 * doy + 2) div 153;
      m = (if mp < 10 then mp + 3 else mp - 9)
    in (yoe + era * 400 + (if m \<le> 2 then 1 else 0), m, doy - (153 * mp + 2) div 5 + 1))"

definition dateUtcSeconds :: "int \<Rightarrow> int \<Rightarrow> int \<Rightarrow> int \<Rightarrow> int \<Rightarrow> int \<Rightarrow> int" where
  "dateUtcSeconds y month d h mi sec =
     (let year = (if 0 \<le> y \<and> y \<le> 99 then 1900 + y else y);
          days = daysFromCivil (year + month div 12) (month mod 12 + 1) 1 + d - 1
      in ((days * 24 + h) * 60 + mi) * 60 + sec)"

definition pad2 :: "int \<Rightarrow> string" where
  "pad2 n = (let s = intDecimal n in replicate (2 - length s) (CHR ''0'') @ s)"

definition utcText :: "int \<Rightarrow> string" where
  "utcText secs = (case civilFromDays (secs div 86400) of (y, m, d) \<Rightarrow>
     (let r = secs mod 86400 in intDecimal y @ ''-'' @ pad2 m @ ''-'' @ pad2 d @ '' ''
        @ pad2 (r div 3600) @ '':'' @ pad2 (r div 60 mod 60) @ '':'' @ pad2 (r mod 60)))"

definition timestampSeconds :: "timestamp \<Rightarrow> int" where
  "timestampSeconds t = (let d = ts_date t; c = ts_time t; num = (\<lambda>n k s. digitsValue (take n (drop k s)))
     in dateUtcSeconds (num 4 0 d) (num 2 5 d - 1) (num 2 8 d) (num 2 0 c) (num 2 3 c) (num 2 6 c))"

definition normalizeText :: "string \<Rightarrow> string" where
  "normalizeText s = (let text = trimStr s in case matchTimestamp text of
      None \<Rightarrow> text
    | Some t \<Rightarrow> (let fraction = take 6 (ts_fraction t @ replicate (6 - length (ts_fraction t)) (CHR ''0''))
        in (if ts_offset t \<in> set [[], ''Z'', ''z''] then ts_date t @ '' '' @ ts_time t
            else utcText (timestampSeconds t - offsetMinutes (ts_offset t) * 60))
           @ ''.'' @ fraction))"

definition normalizeVersionValue :: "json \<Rightarrow> string" where
  "normalizeVersionValue v = normalizeText (if v = JNull \<or> v = JUndefined then [] else stringOf v)"

definition versionValuesMatch :: "json \<Rightarrow> json \<Rightarrow> bool" where
  "versionValuesMatch actual expected \<longleftrightarrow> normalizeVersionValue actual = normalizeVersionValue expected"

definition valuesMatch :: "srow \<Rightarrow> srow \<Rightarrow> bool" where
  "valuesMatch row expected = list_all (\<lambda>e. versionValuesMatch (field row (fst e)) (snd e)) expected"

subsection \<open>The job\<close>

definition operationOf :: "job \<Rightarrow> operation" where
  "operationOf j = optOr (jb_operation j) (RowOp SingleRowUpdate)"

definition quotePostgresIdentifier :: "string \<Rightarrow> unit result" where
  "quotePostgresIdentifier s = throwIf (\<not> safeIdentifier s) (PlainError (''unsafe postgres identifier: '' @ s))"

definition quoteAll :: "string list \<Rightarrow> 'a \<Rightarrow> 'a result" where
  "quoteAll cs x = bindE (traverseE quotePostgresIdentifier cs) (\<lambda>_. Inr x)"

definition principalScope :: "job \<Rightarrow> column_value option result" where
  "principalScope j = (case jb_principal_scope j of
      None \<Rightarrow> Inr None
    | Some p \<Rightarrow> (case ps_value p of
        None \<Rightarrow> Inl (PlainError ''PRINCIPAL_SCOPE_VALUE_REQUIRED'')
      | Some v \<Rightarrow> Inr (Some \<lparr>cv_column = ps_column p, cv_value = v\<rparr>)))"

definition targetTable :: "job \<Rightarrow> sql_table" where
  "targetTable j = (jb_schema j, jb_table j)"

definition equals :: "column_value \<Rightarrow> sql_condition" where
  "equals c = CEq (cv_column c) (cv_value c)"

definition scopeConditions :: "column_value option \<Rightarrow> sql_condition list" where
  "scopeConditions m = map equals (case m of None \<Rightarrow> [] | Some c \<Rightarrow> [c])"

definition scopeColumns :: "column_value option \<Rightarrow> string list" where
  "scopeColumns m = map cv_column (case m of None \<Rightarrow> [] | Some c \<Rightarrow> [c])"

definition exactConflictGuard :: "job \<Rightarrow> string \<Rightarrow> column_value result" where
  "exactConflictGuard j operation = (case jb_conflict_guard j of
      GuardRowHash _ \<Rightarrow> Inl (PlainError ''ROW_HASH_CONFLICT_GUARD_UNSUPPORTED'')
    | GuardColumn c \<Rightarrow> bindE (throwIf (cv_column c = ''__row_hash'')
        (PlainError ''ROW_HASH_CONFLICT_GUARD_UNSUPPORTED'')) (\<lambda>_. Inr c)
    | GuardNone \<Rightarrow> Inl (PlainError (operation @ '' requires an exact version-column guard'')))"

definition validatePatch :: "job \<Rightarrow> string \<Rightarrow> unit result" where
  "validatePatch j engine = (let allowed = set (jb_allowed_columns j) in
     bindE (throwIf (jb_patch j = []) (PlainError (engine @ '' writeback patch must not be empty''))) (\<lambda>_.
     bindE (throwIf (jb_pk_column j \<in> allowed)
              (PlainError (engine @ '' primary key column must not be patch-allowlisted''))) (\<lambda>_.
     bindE (throwIf (cv_column (jb_tenant_guard j) \<in> allowed)
              (PlainError (engine @ '' tenant guard column must not be patch-allowlisted''))) (\<lambda>_.
     bindE (principalScope j) (\<lambda>scope.
     bindE (throwIf (\<exists>c \<in> set (scopeColumns scope). c \<in> allowed)
              (PlainError (engine @ '' principal scope column must not be patch-allowlisted''))) (\<lambda>_.
     bindE (traverseE (\<lambda>e. throwIf (fst e \<notin> allowed)
                (PlainError (engine @ '' patch column not allowlisted: '' @ fst e))) (jb_patch j)) (\<lambda>_.
     Inr ())))))))"

subsection \<open>The single-row statements\<close>

text \<open>The guards every single-row statement carries: identity, tenant, principal and version.\<close>

definition rowConditions :: "job \<Rightarrow> json \<Rightarrow> column_value option \<Rightarrow> sql_condition list" where
  "rowConditions j pk scope = [CEq (jb_pk_column j) pk, equals (jb_tenant_guard j)] @ scopeConditions scope"

definition rowColumns :: "job \<Rightarrow> column_value option \<Rightarrow> string list" where
  "rowColumns j scope = [jb_pk_column j, cv_column (jb_tenant_guard j)] @ scopeColumns scope"

definition tableNames :: "job \<Rightarrow> string list" where
  "tableNames j = [jb_schema j, jb_table j]"

definition advanceV2 :: "job \<Rightarrow> version_advance option" where
  "advanceV2 j = (if jb_version j = NormalizedV2 then jb_version_advance j else None)"

definition patchAssignments :: "job \<Rightarrow> sql_assignment list" where
  "patchAssignments j = map (\<lambda>e. SetTo (fst e) (snd e)) (jb_patch j)"

definition advanceAssignments :: "version_advance option \<Rightarrow> sql_assignment list" where
  "advanceAssignments m = (case m of None \<Rightarrow> []
     | Some a \<Rightarrow> (if va_strategy a = IntegerIncrement then [Increment (va_column a)] else []))"

definition buildPostgresUpdate :: "job \<Rightarrow> sql_statement result" where
  "buildPostgresUpdate j =
     bindE (throwIf (operationOf j \<noteq> RowOp SingleRowUpdate)
              (PlainError ''postgres update builder requires single_row_update'')) (\<lambda>_.
     bindE (exactConflictGuard j ''postgres update'') (\<lambda>guard.
     bindE (validatePatch j ''postgres'') (\<lambda>_.
     bindE (requireSome (PlainError ''postgres update requires primary-key value'') (jb_pk_value j)) (\<lambda>pk.
     bindE (principalScope j) (\<lambda>scope.
     let sets = patchAssignments j @ advanceAssignments (advanceV2 j) in
     quoteAll (map assigned sets @ rowColumns j scope @ [cv_column guard]
         @ (case advanceV2 j of None \<Rightarrow> [] | Some a \<Rightarrow> [va_column a]) @ tableNames j)
       (SqlUpdate (targetTable j) sets (rowConditions j pk scope @ [equals guard])
         (case advanceV2 j of None \<Rightarrow> []
          | Some a \<Rightarrow> [SqlText (va_column a) ''__synapsor_result_version''])))))))"

fun dedupValues :: "dedup_component list \<Rightarrow> srow \<Rightarrow> srow result" where
  "dedupValues [] vs = Inr vs"
| "dedupValues (c # cs) vs =
     bindE (throwIf (dc_column c \<in> set (map fst vs)) (PlainError ''INSERT_DEDUP_COLUMN_COLLISION'')) (\<lambda>_.
     dedupValues cs (vs @ [(dc_column c, dc_value c)]))"

definition insertValues :: "job \<Rightarrow> srow result" where
  "insertValues j = (case jb_deduplication j of
      None \<Rightarrow> Inl (PlainError ''INSERT_DEDUP_REQUIRED'')
    | Some cs \<Rightarrow>
        bindE (throwIf (jb_operation j \<noteq> Some (RowOp SingleRowInsert)) (PlainError ''INSERT_DEDUP_REQUIRED'')) (\<lambda>_.
        bindE (dedupValues cs (jb_patch j)) (\<lambda>vs.
        bindE (throwIf (\<not> list_ex (\<lambda>c. dc_source c = DedupTrustedTenant
                     \<and> dc_column c = cv_column (jb_tenant_guard j)
                     \<and> strictEq (dc_value c) (cv_value (jb_tenant_guard j))) cs
                  \<or> \<not> list_ex (\<lambda>c. dc_source c = DedupProposalId) cs)
                 (PlainError ''INSERT_DEDUP_REQUIRED'')) (\<lambda>_.
        bindE (principalScope j) (\<lambda>scope. case scope of
            None \<Rightarrow> Inr vs
          | Some p \<Rightarrow> bindE (throwIf (cv_column p \<in> set (map fst vs))
              (PlainError ''PRINCIPAL_SCOPE_COLUMN_COLLISION'')) (\<lambda>_.
              Inr (vs @ [(cv_column p, cv_value p)])))))))"

definition buildPostgresInsert :: "job \<Rightarrow> sql_statement result" where
  "buildPostgresInsert j =
     bindE (throwIf (operationOf j \<noteq> RowOp SingleRowInsert \<or> jb_version j \<noteq> NormalizedV2
                \<or> jb_deduplication j = None)
              (PlainError ''postgres insert requires a v2 single_row_insert job with deduplication'')) (\<lambda>_.
     bindE (validatePatch j ''postgres'') (\<lambda>_.
     bindE (insertValues j) (\<lambda>row.
     quoteAll (tableNames j @ map fst row @ [jb_pk_column j])
       (SqlInsert (targetTable j) row [SqlText (jb_pk_column j) ''__synapsor_primary_key'']))))"

definition buildPostgresDelete :: "job \<Rightarrow> sql_statement result" where
  "buildPostgresDelete j =
     bindE (throwIf (operationOf j \<noteq> RowOp SingleRowDelete)
              (PlainError ''postgres delete builder requires single_row_delete'')) (\<lambda>_.
     bindE (exactConflictGuard j ''postgres delete'') (\<lambda>guard.
     bindE (requireSome (PlainError ''postgres delete requires primary-key and exact version guards'')
              (jb_pk_value j)) (\<lambda>pk.
     bindE (principalScope j) (\<lambda>scope.
     quoteAll (rowColumns j scope @ [cv_column guard] @ tableNames j)
       (SqlDelete (targetTable j) (rowConditions j pk scope @ [equals guard]))))))"

subsection \<open>Identities and digests\<close>

definition dedupIdentity :: "dedup_component list \<Rightarrow> column_value list \<Rightarrow> column_value list" where
  "dedupIdentity cs ids = fold (\<lambda>c acc. if dc_column c \<in> set (map cv_column acc) then acc
     else acc @ [\<lparr>cv_column = dc_column c, cv_value = dc_value c\<rparr>]) cs ids"

definition identityForJob :: "job \<Rightarrow> json option \<Rightarrow> column_value list" where
  "identityForJob j key = (case jb_version j of
      NormalizedV3 \<Rightarrow> map fm_primary_key (case jb_frozen_set j of None \<Rightarrow> [] | Some fs \<Rightarrow> fs_members fs)
    | NormalizedV4 \<Rightarrow> map im_primary_key (case jb_compensation j of None \<Rightarrow> [] | Some d \<Rightarrow> id_members d)
    | _ \<Rightarrow>
        (let present = (case key of None \<Rightarrow> None | Some k \<Rightarrow> (if k = JNull \<or> k = JUndefined then None else Some k));
             own = (case present of
                Some k \<Rightarrow> [\<lparr>cv_column = jb_pk_column j, cv_value = asScalar k\<rparr>]
              | None \<Rightarrow> (case jb_pk_value j of None \<Rightarrow> []
                  | Some v \<Rightarrow> [\<lparr>cv_column = jb_pk_column j, cv_value = v\<rparr>]));
             full = (if jb_version j = NormalizedV2 then dedupIdentity (optOr (jb_deduplication j) []) own else own)
         in take 8 (if full = [] then [jb_tenant_guard j] else full)))"

definition identityJson :: "column_value list \<Rightarrow> json" where
  "identityJson ids = JArr (map columnValueJson ids)"

definition guardJson :: "conflict_guard \<Rightarrow> json" where
  "guardJson g = JObj (case g of
      GuardColumn c \<Rightarrow> [(''kind'', JStr ''version_column''), (''column'', JStr (cv_column c)),
        (''expected_value'', cv_value c)]
    | GuardRowHash h \<Rightarrow> [(''kind'', JStr ''row_hash''), (''expected_hash'', JStr h)]
    | GuardNone \<Rightarrow> [(''kind'', JStr ''none'')])"

definition resultHash :: "runtime \<Rightarrow> job \<Rightarrow> string \<Rightarrow> json option \<Rightarrow> string" where
  "resultHash rt j status version = reconciliationDigest rt (JObj ([(''job_id'', JStr (jb_id j)),
     (''status'', JStr status)] @ optField ''version'' id version))"

end
