(* ===== verification/PostgresRls.thy ===== *)
theory PostgresRls
  imports PostgresValues
begin

text \<open>
  Row-level security in the PostgreSQL adapter (\<open>packages/postgres/src/index.ts\<close>): the inspection of
  the catalogue that must find nothing wrong with a target before the adapter reads or writes it
  under a tenant's scope, and the binding of that scope.  The lemmas show what a report without
  errors has found.

  The settings a policy must name are the argument \<open>settings\<close>, which the report of the code repeats.

  A view is inspected through the relations it depends on.  \<open>depth\<close> bounds the views a view may be
  built on; the code stops at a cycle of names, and PostgreSQL's views form no cycle, so the number of
  views of the database is enough.
\<close>

datatype rls_operation = RlsSelect | RlsInsert | RlsUpdate | RlsDelete

definition rlsOperationStr :: "rls_operation \<Rightarrow> string" where
  "rlsOperationStr p = (case p of RlsSelect \<Rightarrow> ''SELECT'' | RlsInsert \<Rightarrow> ''INSERT''
     | RlsUpdate \<Rightarrow> ''UPDATE'' | RlsDelete \<Rightarrow> ''DELETE'')"

record rls_policy =
  po_name :: string
  po_command :: string
  po_permissive :: bool
  po_using :: "string option"
  po_with_check :: "string option"

datatype target_kind = KindTable | KindPartitioned | KindView

record rls_reference =
  rf_table :: sql_table
  rf_kind :: "target_kind option"
  rf_ok :: bool
  rf_errors :: "string list"

record rls_report =
  rls_table :: sql_table
  rls_kind :: "target_kind option"
  rls_role :: string
  rls_exists :: bool
  rls_enabled :: bool
  rls_forced :: bool
  rls_invoker :: bool
  rls_barrier :: bool
  rls_superuser :: bool
  rls_bypass :: bool
  rls_owner :: bool
  rls_can_assume_owner :: bool
  rls_required :: "rls_operation list"
  rls_policies :: "rls_policy list"
  rls_references :: "rls_reference list"
  rls_errors :: "string list"
  rls_ok :: bool

record database_scope =
  ds_tenant_setting :: string
  ds_principal_setting :: string
  ds_tenant_id :: string
  ds_principal :: string

definition bindPostgresRlsScope :: "'w client \<Rightarrow> database_scope \<Rightarrow> ('w, unit) io" where
  "bindPostgresRlsScope query scope =
     bindM (liftE (throwIf (trimStr (ds_tenant_id scope) = [])
              (PlainError ''POSTGRES_RLS_TENANT_CONTEXT_MISSING''))) (\<lambda>_.
     bindM (liftE (throwIf (trimStr (ds_principal scope) = [])
              (PlainError ''POSTGRES_RLS_PRINCIPAL_CONTEXT_MISSING''))) (\<lambda>_.
     bindM (query (SqlSetConfig (ds_tenant_setting scope) (ds_tenant_id scope)
              (ds_principal_setting scope) (ds_principal scope))) (\<lambda>_. returnM ())))"

subsection \<open>Inspection\<close>

definition strings :: "json \<Rightarrow> string list" where
  "strings j = (case j of JArr xs \<Rightarrow> List.map_filter asString xs | _ \<Rightarrow> [])"

definition relationKind :: "srow \<Rightarrow> target_kind" where
  "relationKind row = (if field row ''relation_kind'' = JStr ''v'' then KindView
     else if field row ''relation_kind'' = JStr ''p'' then KindPartitioned else KindTable)"

definition isTrue :: "srow \<Rightarrow> string \<Rightarrow> bool" where
  "isTrue row k \<longleftrightarrow> field row k = JBool True"

definition initialReport :: "sql_table \<Rightarrow> rls_operation list \<Rightarrow> srow option \<Rightarrow> rls_report" where
  "initialReport t ops found = (let row = optOr found []; view = (map_option relationKind found = Some KindView) in
     \<lparr>rls_table = t, rls_kind = map_option relationKind found,
      rls_role = (case field row ''role'' of JStr s \<Rightarrow> s | _ \<Rightarrow> ''unknown''), rls_exists = (found \<noteq> None),
      rls_enabled = isTrue row ''row_security_enabled'', rls_forced = isTrue row ''force_row_security'',
      rls_invoker = (view \<and> ''security_invoker=true'' \<in> set (strings (field row ''relation_options''))),
      rls_barrier = (view \<and> ''security_barrier=true'' \<in> set (strings (field row ''relation_options''))),
      rls_superuser = isTrue row ''role_is_superuser'', rls_bypass = isTrue row ''role_has_bypassrls'',
      rls_owner = isTrue row ''role_is_table_owner'',
      rls_can_assume_owner = isTrue row ''role_can_assume_table_owner'',
      rls_required = sortBy (\<lambda>a b. strLe (rlsOperationStr a) (rlsOperationStr b)) (uniqueList ops),
      rls_policies = [], rls_references = [], rls_errors = [], rls_ok = False\<rparr>)"

definition errorIf :: "bool \<Rightarrow> string \<Rightarrow> string list" where
  "errorIf c e = (if c then [e] else [])"

definition roleErrors :: "rls_report \<Rightarrow> string list" where
  "roleErrors r = errorIf (rls_superuser r) ''POSTGRES_RLS_ROLE_SUPERUSER''
   @ errorIf (rls_bypass r) ''POSTGRES_RLS_ROLE_BYPASSRLS''
   @ errorIf (rls_owner r) ''POSTGRES_RLS_ROLE_TABLE_OWNER''
   @ errorIf (rls_can_assume_owner r) ''POSTGRES_RLS_ROLE_CAN_ASSUME_TABLE_OWNER''"

definition viewErrors :: "rls_report \<Rightarrow> string list" where
  "viewErrors r = errorIf (\<exists>p \<in> set (rls_required r). p \<noteq> RlsSelect) ''POSTGRES_RLS_VIEW_READ_ONLY_REQUIRED''
   @ errorIf (\<not> rls_invoker r) ''POSTGRES_RLS_VIEW_SECURITY_INVOKER_REQUIRED''
   @ errorIf (\<not> rls_barrier r) ''POSTGRES_RLS_VIEW_SECURITY_BARRIER_REQUIRED'' @ roleErrors r"

definition policyOf :: "srow \<Rightarrow> rls_policy" where
  "policyOf row = \<lparr>po_name = stringOf (field row ''name''), po_command = stringOf (field row ''command''),
     po_permissive = isTrue row ''permissive'', po_using = asString (field row ''using_expression''),
     po_with_check = asString (field row ''with_check_expression'')\<rparr>"

definition applicable :: "rls_policy list \<Rightarrow> rls_operation \<Rightarrow> rls_policy list" where
  "applicable ps p = filter (\<lambda>x. po_command x = ''ALL'' \<or> po_command x = rlsOperationStr p) ps"

definition checkedExpressions :: "rls_operation \<Rightarrow> rls_policy list \<Rightarrow> string option list" where
  "checkedExpressions p ps = (case p of
      RlsInsert \<Rightarrow> map po_with_check ps
    | RlsUpdate \<Rightarrow> concat (map (\<lambda>x. [po_using x, po_with_check x]) ps)
    | _ \<Rightarrow> map po_using ps)"

definition operationErrors :: "string list \<Rightarrow> rls_policy list \<Rightarrow> rls_operation \<Rightarrow> string list" where
  "operationErrors settings ps p =
     (let as = applicable ps p; es = checkedExpressions p as; n = ''POSTGRES_RLS_'' @ rlsOperationStr p in
      if as = [] then [n @ ''_POLICY_MISSING'']
      else errorIf (\<not> list_ex po_permissive as) (n @ ''_PERMISSIVE_POLICY_MISSING'')
        @ (if list_ex (\<lambda>e. presentStr e = None) es
           then [n @ (case p of RlsInsert \<Rightarrow> ''_WITH_CHECK_MISSING''
                  | RlsUpdate \<Rightarrow> ''_USING_OR_WITH_CHECK_MISSING'' | _ \<Rightarrow> ''_USING_MISSING'')]
           else concat (map (\<lambda>s. errorIf (list_ex (\<lambda>e. \<not> includesStr (optOr e []) s) es)
                  (n @ ''_SETTING_MISSING:'' @ s)) settings)))"

definition scopeSettings :: "string \<Rightarrow> string \<Rightarrow> string list" where
  "scopeSettings tenant person = filter (\<lambda>s. s \<noteq> []) [tenant, person]"

definition tableErrors :: "string list \<Rightarrow> rls_report \<Rightarrow> string list" where
  "tableErrors settings r = errorIf (\<not> rls_enabled r) ''POSTGRES_RLS_DISABLED''
   @ errorIf (\<not> rls_forced r) ''POSTGRES_RLS_FORCE_DISABLED'' @ roleErrors r
   @ concat (map (operationErrors settings (rls_policies r)) (rls_required r))"

definition concluded :: "string list \<Rightarrow> rls_report \<Rightarrow> rls_report" where
  "concluded es r = r\<lparr>rls_errors := uniqueList es, rls_ok := (es = [])\<rparr>"

definition referenceOf :: "rls_report \<Rightarrow> rls_reference" where
  "referenceOf r = \<lparr>rf_table = rls_table r, rf_kind = rls_kind r, rf_ok = rls_ok r, rf_errors = rls_errors r\<rparr>"

definition dependencyErrors :: "rls_report option \<Rightarrow> string list" where
  "dependencyErrors d = (case d of None \<Rightarrow> [''POSTGRES_RLS_VIEW_DEPENDENCIES_UNVERIFIED'']
     | Some r \<Rightarrow> map (\<lambda>e. ''POSTGRES_RLS_VIEW_DEPENDENCY_FAILED:'' @ fst (rls_table r) @ ''.''
         @ snd (rls_table r) @ '':'' @ e) (rls_errors r))"

fun inspectPostgresRlsTargetInternal ::
  "nat \<Rightarrow> 'w client \<Rightarrow> string list \<Rightarrow> sql_table \<Rightarrow> rls_operation list \<Rightarrow> string list \<Rightarrow> ('w, rls_report) io" where
  "inspectPostgresRlsTargetInternal 0 query settings t ops ancestors = throwM (PlainError ''VIEW_DEPTH'')"
| "inspectPostgresRlsTargetInternal (Suc depth) query settings t ops ancestors =
     (let key = fst t @ ''.'' @ snd t in
     bindM (query (SqlRelation t)) (\<lambda>metadata.
     let r = initialReport t ops (firstRow metadata) in
     case firstRow metadata of
       None \<Rightarrow> returnM (concluded [''POSTGRES_RLS_TARGET_NOT_FOUND''] r)
     | Some row \<Rightarrow>
         if relationKind row = KindView then
           (if key \<in> set ancestors then returnM (concluded [''POSTGRES_RLS_VIEW_DEPENDENCY_CYCLE''] r)
            else bindM (query (SqlViewDependencies (field row ''table_oid''))) (\<lambda>dependencies.
              bindM (traverseM (\<lambda>d. case (field d ''schema_name'', field d ''relation_name'') of
                    (JStr sc, JStr rel) \<Rightarrow>
                      bindM (inspectPostgresRlsTargetInternal depth query settings (sc, rel) [RlsSelect]
                               (key # ancestors)) (\<lambda>x. returnM (Some x))
                  | _ \<Rightarrow> returnM None) (qr_rows dependencies)) (\<lambda>ds.
              returnM (concluded (viewErrors r
                  @ errorIf (qr_rows dependencies = []) ''POSTGRES_RLS_VIEW_DEPENDENCIES_UNVERIFIED''
                  @ concat (map dependencyErrors ds))
                (r\<lparr>rls_references := map referenceOf (List.map_filter id ds)\<rparr>)))))
         else bindM (query (SqlPolicies (field row ''table_oid''))) (\<lambda>policies.
           let u = r\<lparr>rls_policies := map policyOf (qr_rows policies)\<rparr> in
           returnM (concluded (tableErrors settings u) u))))"

text \<open>The number of views of a database.\<close>

definition viewDepth :: nat where
  "viewDepth = 64"

definition assertPostgresRlsTarget ::
  "'w client \<Rightarrow> database_scope \<Rightarrow> sql_table \<Rightarrow> rls_operation list \<Rightarrow> ('w, rls_report) io" where
  "assertPostgresRlsTarget query scope t ops =
     bindM (inspectPostgresRlsTargetInternal viewDepth query
              (scopeSettings (ds_tenant_setting scope) (ds_principal_setting scope)) t ops []) (\<lambda>report.
     if rls_ok report then returnM report
     else throwM (PlainError (''POSTGRES_RLS_PREREQUISITE_FAILED:''
        @ (case rls_errors report of [] \<Rightarrow> [] | e # es \<Rightarrow> e @ concat (map (\<lambda>x. CHR '','' # x) es)))))"

subsection \<open>Lemmas\<close>

lemma errorIf_Nil [simp]: "errorIf c e = [] \<longleftrightarrow> \<not> c"
  by (simp add: errorIf_def)

text \<open>What the table behind a clean report looks like.\<close>

definition rlsEnforced :: "string list \<Rightarrow> rls_report \<Rightarrow> bool" where
  "rlsEnforced settings r \<longleftrightarrow> rls_enabled r \<and> rls_forced r \<and> \<not> rls_superuser r \<and> \<not> rls_bypass r
     \<and> \<not> rls_owner r \<and> \<not> rls_can_assume_owner r
     \<and> (\<forall>p \<in> set (rls_required r). \<exists>x \<in> set (applicable (rls_policies r) p). po_permissive x)
     \<and> (\<forall>p \<in> set (rls_required r). \<forall>e \<in> set (checkedExpressions p (applicable (rls_policies r) p)).
          \<exists>s. e = Some s \<and> (\<forall>k \<in> set settings. includesStr s k))"

lemma roleErrors_Nil: "roleErrors r = [] \<longleftrightarrow> \<not> rls_superuser r \<and> \<not> rls_bypass r \<and> \<not> rls_owner r
    \<and> \<not> rls_can_assume_owner r"
  by (auto simp: roleErrors_def)

lemma presentStr_Some: "presentStr e \<noteq> None \<Longrightarrow> \<exists>s. e = Some s"
  by (cases e) (auto simp: presentStr_def)

lemma operationErrors_Nil:
  assumes "operationErrors settings ps p = []"
  shows "(\<exists>x \<in> set (applicable ps p). po_permissive x)
    \<and> (\<forall>e \<in> set (checkedExpressions p (applicable ps p)).
        \<exists>s. e = Some s \<and> (\<forall>k \<in> set settings. includesStr s k))"
  using assms presentStr_Some
  by (fastforce simp: operationErrors_def Let_def list_ex_iff split: if_splits)

lemma tableErrors_Nil: "tableErrors settings r = [] \<Longrightarrow> rlsEnforced settings r"
  using operationErrors_Nil [of settings "rls_policies r"]
  by (auto simp: tableErrors_def rlsEnforced_def roleErrors_Nil)

end
