(* ===== verification/PostgresResults.thy ===== *)
theory PostgresResults
  imports PostgresRls
begin

text \<open>
  What the PostgreSQL adapter (\<open>packages/postgres/src/index.ts\<close>) reports: the outcome of a mutation and
  the result of each protocol version, the safe error codes a caught error is reduced to, and the
  classification of a source row when an unknown outcome is reconciled.

  The clock is read once per operation: \<open>completed_at\<close> is \<open>clock\<close>.
\<close>

subsection \<open>Configuration\<close>

record receipts_config =
  rx_authority :: receipt_authority
  rx_auto_migrate :: bool
  rx_schema :: "string option"
  rx_table :: "string option"

record runner_config =
  cf_runner_id :: string
  cf_database_url :: string
  cf_statement_timeout :: "int option"
  cf_dry_run :: bool
  cf_receipts :: "receipts_config option"
  cf_database_scope :: "database_scope option"

definition receiptAuthority :: "runner_config \<Rightarrow> receipt_authority" where
  "receiptAuthority cfg = (case cf_receipts cfg of None \<Rightarrow> SourceDb | Some r \<Rightarrow> rx_authority r)"

definition sourceReceiptTable :: "runner_config \<Rightarrow> sql_table result" where
  "sourceReceiptTable cfg =
     (let schema = (case cf_receipts cfg of None \<Rightarrow> None | Some r \<Rightarrow> presentStr (rx_schema r));
          tab = (case cf_receipts cfg of None \<Rightarrow> None | Some r \<Rightarrow> rx_table r);
          name = optOr tab ''synapsor_writeback_receipts''
      in if schema = None \<and> presentStr tab = None then Inr ([], ''synapsor_writeback_receipts'')
         else quoteAll (name # (case schema of None \<Rightarrow> [] | Some s \<Rightarrow> [s])) (optOr schema [], name))"

subsection \<open>Outcomes and results\<close>

record outcome =
  oc_status :: terminal_status
  oc_affected_rows :: int
  oc_code :: "string option"
  oc_identity :: "column_value list"
  oc_result_version :: "json option"
  oc_before_digest :: "string option"
  oc_after_digest :: "string option"
  oc_tombstone_digest :: "string option"
  oc_member_effects :: "member_effect list option"
  oc_inverse :: "inverse_descriptor option"

definition outcomeOf :: "terminal_status \<Rightarrow> int \<Rightarrow> string option \<Rightarrow> column_value list \<Rightarrow> outcome" where
  "outcomeOf st n code ids = \<lparr>oc_status = st, oc_affected_rows = n, oc_code = code, oc_identity = ids,
     oc_result_version = None, oc_before_digest = None, oc_after_digest = None,
     oc_tombstone_digest = None, oc_member_effects = None, oc_inverse = None\<rparr>"

definition conflictOutcome :: "job \<Rightarrow> string \<Rightarrow> outcome" where
  "conflictOutcome j code = outcomeOf TConflict 0 (Some code) (identityForJob j None)"

definition failedOutcome :: "job \<Rightarrow> string \<Rightarrow> outcome" where
  "failedOutcome j code = outcomeOf TFailed 0 (Some code) (identityForJob j None)"

definition blankResult :: "job \<Rightarrow> runner_config \<Rightarrow> time \<Rightarrow> terminal_status \<Rightarrow> wb_result" where
  "blankResult j cfg clock st = \<lparr>wr_version = (case jb_version j of LegacyJob \<Rightarrow> ResultLegacy
       | NormalizedV2 \<Rightarrow> ResultV2 | NormalizedV3 \<Rightarrow> ResultV3 | NormalizedV4 \<Rightarrow> ResultV4),
     wr_job_id = jb_id j, wr_runner_id = cf_runner_id cfg, wr_operation = operationOf j,
     wr_receipt_authority = receiptAuthority cfg, wr_status = st, wr_affected_rows = 0,
     wr_identities = [], wr_result_version = None, wr_set_digest = [], wr_member_effects = [],
     wr_before_digest = None, wr_after_digest = None, wr_tombstone_digest = None, wr_inverse = None,
     wr_result_hash = None, wr_completed_at = clock, wr_error_code = None, wr_intent_id = None\<rparr>"

definition capturedInverse :: "job \<Rightarrow> terminal_status \<Rightarrow> inverse_descriptor option" where
  "capturedInverse j st = (if succeeded st then jb_inverse_capture j else None)"

definition compensationOf :: "job \<Rightarrow> (reversal_operation \<times> inverse_descriptor) option" where
  "compensationOf j = (case (jb_operation j, jb_compensation j) of
      (Some (ReversalOp op), Some d) \<Rightarrow> Some (op, d) | _ \<Rightarrow> None)"

definition frozenSetOf :: "job \<Rightarrow> (set_operation \<times> frozen_set) option" where
  "frozenSetOf j = (case (jb_operation j, jb_frozen_set j) of
      (Some (SetOp op), Some fs) \<Rightarrow> Some (op, fs) | _ \<Rightarrow> None)"

text \<open>Reading a property of a compensation or a frozen set the schema requires.\<close>

definition requireCompensation :: "job \<Rightarrow> (reversal_operation \<times> inverse_descriptor) result" where
  "requireCompensation j = requireSome (PlainError ''COMPENSATION'') (compensationOf j)"

definition requireFrozenSet :: "job \<Rightarrow> (set_operation \<times> frozen_set) result" where
  "requireFrozenSet j = requireSome (PlainError ''FROZEN_SET'') (frozenSetOf j)"

definition outcomeInverse :: "runtime \<Rightarrow> job \<Rightarrow> outcome \<Rightarrow> inverse_descriptor option result" where
  "outcomeInverse rt j out = (if \<not> succeeded (oc_status out) then Inr None else case oc_inverse out of
      Some d \<Rightarrow> Inr (Some d)
    | None \<Rightarrow> bindE (requireCompensation j) (\<lambda>(op, d). mapE Some (compensationInverseFromJob rt j op d)))"

definition resultFromOutcome ::
  "runtime \<Rightarrow> job \<Rightarrow> runner_config \<Rightarrow> time \<Rightarrow> outcome \<Rightarrow> string option \<Rightarrow> wb_result result" where
  "resultFromOutcome rt j cfg clock out overrideHash =
     (let st = oc_status out;
          base = (blankResult j cfg clock st)\<lparr>wr_affected_rows := oc_affected_rows out,
            wr_result_hash := Some (optOr overrideHash
              (resultHash rt j (terminalStatusStr st) (oc_result_version out))),
            wr_error_code := oc_code out\<rparr>
      in case jb_version j of
           NormalizedV4 \<Rightarrow> bindE (outcomeInverse rt j out) (\<lambda>d.
             Inr (base\<lparr>wr_identities := identityForJob j None,
               wr_member_effects := optOr (oc_member_effects out) [], wr_inverse := d\<rparr>))
         | NormalizedV3 \<Rightarrow> Inr (base\<lparr>wr_identities := identityForJob j None,
             wr_set_digest := (case jb_frozen_set j of None \<Rightarrow> [] | Some fs \<Rightarrow> fs_set_digest fs),
             wr_member_effects := optOr (oc_member_effects out) [], wr_inverse := capturedInverse j st\<rparr>)
         | LegacyJob \<Rightarrow> Inr (base\<lparr>wr_result_version := (case oc_result_version out of None \<Rightarrow> None
             | Some v \<Rightarrow> (if v = JNull then None else Some (JStr (stringOf v))))\<rparr>)
         | NormalizedV2 \<Rightarrow> Inr (base\<lparr>wr_identities := oc_identity out,
             wr_result_version := oc_result_version out, wr_before_digest := oc_before_digest out,
             wr_after_digest := oc_after_digest out, wr_tombstone_digest := oc_tombstone_digest out,
             wr_inverse := capturedInverse j st\<rparr>))"

definition failedResult :: "runtime \<Rightarrow> job \<Rightarrow> runner_config \<Rightarrow> time \<Rightarrow> string \<Rightarrow> wb_result result" where
  "failedResult rt j cfg clock code = resultFromOutcome rt j cfg clock (failedOutcome j code) None"

definition reconciliationResult ::
  "runtime \<Rightarrow> job \<Rightarrow> runner_config \<Rightarrow> time \<Rightarrow> string \<Rightarrow> string \<Rightarrow> wb_result" where
  "reconciliationResult rt j cfg clock intent code =
     (let base = (blankResult j cfg clock TReconciliationRequired)\<lparr>
            wr_result_hash := Some (resultHash rt j ''reconciliation_required'' None),
            wr_error_code := Some code, wr_intent_id := Some intent\<rparr>
      in case jb_version j of
           LegacyJob \<Rightarrow> base
         | NormalizedV3 \<Rightarrow> base\<lparr>wr_identities := identityForJob j None,
             wr_set_digest := (case jb_frozen_set j of None \<Rightarrow> [] | Some fs \<Rightarrow> fs_set_digest fs)\<rparr>
         | _ \<Rightarrow> base\<lparr>wr_identities := identityForJob j None\<rparr>)"

definition sourceReconciliationIntentId :: "runtime \<Rightarrow> job \<Rightarrow> string" where
  "sourceReconciliationIntentId rt j = ''source-db:'' @ reconciliationDigest rt (JObj
     [(''authority'', JStr ''source_db''), (''engine'', JStr ''postgres''), (''source_id'', JStr (jb_source_id j)),
      (''job_id'', JStr (jb_id j)), (''idempotency_key'', JStr (jb_idempotency_key j))])"

definition asAlreadyApplied ::
  "runtime \<Rightarrow> wb_result \<Rightarrow> job \<Rightarrow> runner_config \<Rightarrow> time \<Rightarrow> wb_result result" where
  "asAlreadyApplied rt w j cfg clock = (if \<not> succeeded (wr_status w) then Inr w
     else resultFromOutcome rt j cfg clock
       ((outcomeOf TAlreadyApplied 0 None (identityForJob j None))\<lparr>oc_result_version := wr_result_version w\<rparr>)
       (wr_result_hash w))"

definition resultHashFromResult :: "runtime \<Rightarrow> job \<Rightarrow> wb_result \<Rightarrow> string" where
  "resultHashFromResult rt j w = (case wr_result_hash w of
      Some h \<Rightarrow> (if startsWith h ''sha256:'' then h
        else resultHash rt j (terminalStatusStr (wr_status w)) (wr_result_version w))
    | None \<Rightarrow> resultHash rt j (terminalStatusStr (wr_status w)) (wr_result_version w))"

definition resultFromExistingReceipt ::
  "runtime \<Rightarrow> job \<Rightarrow> runner_config \<Rightarrow> time \<Rightarrow> json \<Rightarrow> json \<Rightarrow> wb_result result" where
  "resultFromExistingReceipt rt j cfg clock status hash =
     (let h = (case asString hash of None \<Rightarrow> None | Some s \<Rightarrow> (if s = [] then None else Some s));
          value = optOr h (resultHash rt j ''idempotent'' None)
      in if status \<in> {JStr ''applied'', JStr ''already_applied''} then
           resultFromOutcome rt j cfg clock (outcomeOf TAlreadyApplied 0 None (identityForJob j None)) (Some value)
         else if status = JStr ''conflict'' then
           resultFromOutcome rt j cfg clock (conflictOutcome j ''IDEMPOTENT_CONFLICT'') (Some value)
         else failedResult rt j cfg clock
           (if status = JStr ''failed'' then ''IDEMPOTENT_FAILED'' else ''SOURCE_RECEIPT_UNAVAILABLE''))"

subsection \<open>Error codes\<close>

definition rlsCodes :: "string list" where
  "rlsCodes = [''POSTGRES_RLS_PREREQUISITE_FAILED'', ''ROW_HASH_CONFLICT_GUARD_UNSUPPORTED'',
     ''POSTGRES_RLS_TENANT_CONTEXT_MISSING'', ''POSTGRES_RLS_PRINCIPAL_CONTEXT_MISSING'',
     ''POSTGRES_RLS_TENANT_CONTEXT_MISMATCH'', ''POSTGRES_RLS_PRINCIPAL_CONTEXT_MISMATCH'']"

definition knownCodes :: "string list" where
  "knownCodes = [''MULTI_ROW_WRITE_BLOCKED'', ''VERSION_CONFLICT'', ''VERSION_DID_NOT_ADVANCE'',
     ''INSERT_DEDUP_CONFLICT'', ''INSERT_DEDUP_UNIQUENESS_UNPROVEN'', ''INSERT_DEDUP_COMPONENT_CONFLICT'',
     ''INSERT_CONSTRAINT_FAILED'', ''DELETE_CASCADE_BLOCKED'', ''DELETE_TRIGGER_BLOCKED'',
     ''SOURCE_RECEIPT_UNAVAILABLE'', ''RUNNER_LEDGER_UNAVAILABLE'', ''SET_ROW_CAP_EXCEEDED'',
     ''SET_IDENTITY_NOT_UNIQUE'', ''SET_IDENTITY_ORDER_INVALID'', ''SET_PRIMARY_KEY_MISMATCH'',
     ''SET_VERSION_GUARD_REQUIRED'', ''SET_VERSION_GUARD_MISMATCH'', ''SET_TENANT_GUARD_MISMATCH'',
     ''SET_AFTER_STATE_MISMATCH'', ''SET_BEFORE_DIGEST_MISMATCH'', ''SET_AFTER_DIGEST_MISMATCH'',
     ''SET_TOMBSTONE_DIGEST_MISMATCH'', ''SET_AGGREGATE_BOUND_MISMATCH'', ''SET_AGGREGATE_VALUE_INVALID'',
     ''SET_DIGEST_MISMATCH'', ''SET_ATOMICITY_VIOLATION'', ''SET_DRIFT_CONFLICT'', ''BATCH_DEDUP_REQUIRED'',
     ''BATCH_IDENTITY_MISMATCH'', ''BATCH_COLUMN_NOT_ALLOWED'', ''COMPENSATION_UNAVAILABLE'',
     ''COMPENSATION_OPERATION_MISMATCH'', ''COMPENSATION_TARGET_MISMATCH'', ''COMPENSATION_TENANT_MISMATCH'',
     ''COMPENSATION_ROW_CAP_EXCEEDED'', ''COMPENSATION_IDENTITY_NOT_UNIQUE'',
     ''COMPENSATION_IDENTITY_ORDER_INVALID'', ''COMPENSATION_ALLOWLIST_MISMATCH'',
     ''COMPENSATION_PRIMARY_KEY_MISMATCH'', ''COMPENSATION_VERSION_GUARD_REQUIRED'',
     ''COMPENSATION_RESTORE_VALUES_REQUIRED'', ''COMPENSATION_EXPECTED_STATE_REQUIRED'',
     ''COMPENSATION_COLUMN_NOT_ALLOWED'', ''COMPENSATION_TARGET_PRESENT'', ''COMPENSATION_TARGET_MISSING'',
     ''COMPENSATION_TRIGGER_BLOCKED'', ''COMPENSATION_CASCADE_BLOCKED'', ''COMPENSATION_ATOMICITY_VIOLATION'',
     ''ROW_CHANGED_AFTER_FORWARD_WRITE'']"

definition errorMessage :: "err \<Rightarrow> string" where
  "errorMessage e = (case e of PlainError m \<Rightarrow> m | DbError code m \<Rightarrow> m | _ \<Rightarrow> [])"

definition uniqueViolation :: "err \<Rightarrow> bool" where
  "uniqueViolation e = (case e of DbError code m \<Rightarrow> code = ''23505'' | _ \<Rightarrow> False)"

definition safeErrorCode :: "err \<Rightarrow> operation option \<Rightarrow> string" where
  "safeErrorCode e op = (if e = OutcomeUnknown then ''OUTCOME_UNKNOWN''
     else case find (includesStr (errorMessage e)) rlsCodes of
       Some known \<Rightarrow> known
     | None \<Rightarrow>
         if uniqueViolation e \<and> op \<in> {Some (RowOp SingleRowInsert), Some (SetOp BatchInsert)}
         then ''INSERT_DEDUP_CONFLICT''
         else (case find (includesStr (errorMessage e)) knownCodes of
             Some known \<Rightarrow> known | None \<Rightarrow> ''TRANSACTION_FAILED''))"

end
