(* ===== verification/PostgresMutation.thy ===== *)
theory PostgresMutation
  imports PostgresResults
begin

text \<open>
  The mutations of the PostgreSQL adapter (\<open>packages/postgres/src/index.ts\<close>): the freshness locks,
  the guarded update, insert and delete of one row, the frozen sets and the compensations.  Each runs
  inside the transaction \<open>sourceTransaction\<close> opens and answers with an outcome.
\<close>

subsection \<open>Locks and catalogue checks\<close>

definition freshnessDependencies :: "job \<Rightarrow> freshness_dependency list" where
  "freshnessDependencies j = (case jb_freshness j of None \<Rightarrow> [] | Some f \<Rightarrow> fa_dependencies f)"

definition dependencyTable :: "freshness_dependency \<Rightarrow> sql_table" where
  "dependencyTable d = (fd_schema d, fd_table d)"

definition lockDependency :: "'w client \<Rightarrow> job \<Rightarrow> freshness_dependency \<Rightarrow> ('w, string option) io" where
  "lockDependency query j d =
     bindM (liftE (if presentStr (fd_principal_column d) = None then Inr None else principalScope j)) (\<lambda>scope.
     if presentStr (fd_principal_column d) \<noteq> None \<and> scope = None
     then returnM (Some ''FRESHNESS_DEPENDENCY_SCOPE_INVALID'')
     else (let extra = (case scope of None \<Rightarrow> [] | Some c \<Rightarrow> [CEq (optOr (fd_principal_column d) []) (cv_value c)])
      in bindM (liftE (quoteAll ([cv_column (fd_primary_key d), fd_tenant_column d]
             @ (case presentStr (fd_principal_column d) of None \<Rightarrow> [] | Some c \<Rightarrow> [c])
             @ [cv_column (fd_expected_version d), fd_schema d, fd_table d]) ())) (\<lambda>_.
         bindM (query (SqlSelect (dependencyTable d)
             [SqlText (cv_column (fd_expected_version d)) ''__synapsor_freshness_version'']
             ([equals (fd_primary_key d), CEq (fd_tenant_column d) (cv_value (jb_tenant_guard j))] @ extra)
             None None True)) (\<lambda>found.
         returnM (if exactlyOne found
             \<and> versionValuesMatch (firstField found ''__synapsor_freshness_version'')
                 (cv_value (fd_expected_version d))
           then None else Some ''FRESHNESS_DEPENDENCY_STALE'')))))"

definition lockPostgresFreshnessDependencies :: "'w client \<Rightarrow> job \<Rightarrow> ('w, string option) io" where
  "lockPostgresFreshnessDependencies query j = firstM (lockDependency query j) (freshnessDependencies j)"

definition reviewedBefore :: "job \<Rightarrow> srow" where
  "reviewedBefore j = (case (jb_version j, jb_inverse_capture j) of
      (NormalizedV2, Some d) \<Rightarrow> (if id_operation d \<noteq> RestoreUpdate then []
        else (case id_members d of [] \<Rightarrow> [] | m # _ \<Rightarrow> optOr (im_restore_values m) []))
    | _ \<Rightarrow> [])"

definition lockTargetRow :: "'w client \<Rightarrow> job \<Rightarrow> ('w, srow option) io" where
  "lockTargetRow query j = (case jb_pk_value j of
      None \<Rightarrow> returnM None
    | Some pk \<Rightarrow>
        (let guard = guardColumn (jb_conflict_guard j);
             others = filter (\<lambda>c. guard \<noteq> Some c) (map fst (reviewedBefore j))
         in bindM (liftE (principalScope j)) (\<lambda>scope.
            bindM (liftE (quoteAll ((case guard of None \<Rightarrow> [] | Some c \<Rightarrow> [c]) @ others @ rowColumns j scope
                @ tableNames j) ())) (\<lambda>_.
            bindM (query (SqlSelect (targetTable j)
                ([SqlText (jb_pk_column j) ''__synapsor_primary_key'']
                  @ (case guard of None \<Rightarrow> [] | Some c \<Rightarrow> [SqlText c ''__synapsor_conflict_value''])
                  @ map SqlColumn others)
                (rowConditions j pk scope) None None True)) (\<lambda>found.
            returnM (if anyRow found then firstRow found else None))))))"

text \<open>The catalogue answers to a delete or a compensation: user triggers, widening foreign keys.\<close>

definition safetyCode :: "'w client \<Rightarrow> job \<Rightarrow> string \<Rightarrow> bool \<Rightarrow> ('w, string option) io" where
  "safetyCode query j prefix cascades =
     bindM (query (SqlDeleteSafety (targetTable j))) (\<lambda>safety.
     returnM (if firstField safety ''has_user_trigger'' = JBool True then Some (prefix @ ''_TRIGGER_BLOCKED'')
       else if cascades \<and> firstField safety ''has_widening_fk'' = JBool True then Some (prefix @ ''_CASCADE_BLOCKED'')
       else None))"

subsection \<open>One row\<close>

definition requireOne :: "query_result \<Rightarrow> string \<Rightarrow> string \<Rightarrow> unit result" where
  "requireOne q none many = throwIf (\<not> exactlyOne q) (PlainError (if qr_count q = Some 0 then none else many))"

definition verifyVersionAdvanced :: "runtime \<Rightarrow> job \<Rightarrow> json option \<Rightarrow> unit result" where
  "verifyVersionAdvanced rt j actual =
     (if jb_version j \<noteq> NormalizedV2 \<or> jb_operation j \<noteq> Some (RowOp SingleRowUpdate) then Inr ()
      else case jb_version_advance j of None \<Rightarrow> Inr () | Some a \<Rightarrow>
        throwIf (case (actual, jb_conflict_guard j) of
            (Some v, GuardColumn c) \<Rightarrow>
              (if va_strategy a = IntegerIncrement
               then \<not> isNumber (cv_value c) \<or> \<not> strictEq (JNum (jsNumber v)) (nextVersion rt (cv_value c))
               else versionValuesMatch v (cv_value c))
          | _ \<Rightarrow> True) (PlainError ''VERSION_DID_NOT_ADVANCE''))"

definition reviewedDigest :: "runtime \<Rightarrow> job \<Rightarrow> string" where
  "reviewedDigest rt j = reconciliationDigest rt (JObj [(''identity'', identityJson (identityForJob j None)),
     (''reviewed'', JObj (jb_patch j)), (''expected'', guardJson (jb_conflict_guard j))])"

definition updatePostgres :: "runtime \<Rightarrow> 'w client \<Rightarrow> job \<Rightarrow> ('w, outcome) io" where
  "updatePostgres rt query j =
     bindM (liftE (buildPostgresUpdate j)) (\<lambda>update.
     bindM (query update) (\<lambda>done.
     bindM (liftE (requireOne done ''VERSION_CONFLICT'' ''MULTI_ROW_WRITE_BLOCKED'')) (\<lambda>_.
     let seen = firstField done ''__synapsor_result_version'';
         version = (if seen = JNull \<or> seen = JUndefined then None else Some (asScalar seen)) in
     bindM (liftE (verifyVersionAdvanced rt j version)) (\<lambda>_.
     returnM ((outcomeOf TApplied 1 None (identityForJob j None))\<lparr>oc_result_version := version,
       oc_before_digest := Some (reviewedDigest rt j),
       oc_after_digest := Some (reconciliationDigest rt (JObj ([(''identity'', identityJson (identityForJob j None)),
         (''patch'', JObj (jb_patch j))] @ optField ''version'' id version)))\<rparr>)))))"

definition deletePostgres :: "runtime \<Rightarrow> 'w client \<Rightarrow> job \<Rightarrow> ('w, outcome) io" where
  "deletePostgres rt query j =
     bindM (safetyCode query j ''DELETE'' True) (\<lambda>unsafe. case unsafe of
       Some code \<Rightarrow> returnM (failedOutcome j code)
     | None \<Rightarrow>
         bindM (liftE (buildPostgresDelete j)) (\<lambda>deletion.
         bindM (query deletion) (\<lambda>done.
         bindM (liftE (requireOne done ''VERSION_CONFLICT'' ''MULTI_ROW_WRITE_BLOCKED'')) (\<lambda>_.
         returnM ((outcomeOf TApplied 1 None (identityForJob j None))\<lparr>
           oc_before_digest := Some (reviewedDigest rt j),
           oc_tombstone_digest := Some (reconciliationDigest rt (JObj
             [(''identity'', identityJson (identityForJob j None)),
              (''expected'', guardJson (jb_conflict_guard j))]))\<rparr>)))))"

subsection \<open>Inserts\<close>

record unique_key =
  uk_valid :: bool
  uk_ready :: bool
  uk_non_partial :: bool
  uk_count :: jnum
  uk_columns :: "(int \<times> string option) list"

definition integerOf :: "jnum \<Rightarrow> int option" where
  "integerOf n = (case n of IntN i \<Rightarrow> Some i | NegZero \<Rightarrow> Some 0 | _ \<Rightarrow> None)"

definition addKeyRow :: "srow \<Rightarrow> (string \<times> unique_key) list \<Rightarrow> (string \<times> unique_key) list" where
  "addKeyRow row keys =
     (let raw = field row ''index_id''; id = (if raw = JNull \<or> raw = JUndefined then [] else stringOf raw) in
      if id = [] then keys
      else (let key = (case map_of keys id of Some k \<Rightarrow> k | None \<Rightarrow>
                 \<lparr>uk_valid = isTrue row ''is_valid'', uk_ready = isTrue row ''is_ready'',
                  uk_non_partial = isTrue row ''is_non_partial'', uk_count = jsNumber (field row ''key_count''),
                  uk_columns = []\<rparr>);
                pos = integerOf (jsNumber (field row ''key_position''))
            in upsertRow fst (id, case pos of
                 Some p \<Rightarrow> (if p > 0 then key\<lparr>uk_columns := upsertRow fst
                     (p, asString (field row ''column_name'')) (uk_columns key)\<rparr> else key)
               | None \<Rightarrow> key) keys))"

fun deduplicationValues :: "column_value list \<Rightarrow> srow \<Rightarrow> srow result" where
  "deduplicationValues [] vs = Inr vs"
| "deduplicationValues (c # cs) vs =
     bindE (throwIf (\<exists>v \<in> set_option (map_of vs (cv_column c)). jsonStringify v \<noteq> jsonStringify (cv_value c))
              (PlainError ''INSERT_DEDUP_COMPONENT_CONFLICT'')) (\<lambda>_.
     deduplicationValues cs (upsertRow fst (cv_column c, cv_value c) vs))"

definition keyProven :: "srow \<Rightarrow> unique_key \<Rightarrow> bool" where
  "keyProven vs key \<longleftrightarrow> uk_valid key \<and> uk_ready key \<and> uk_non_partial key
     \<and> (case integerOf (uk_count key) of None \<Rightarrow> False
        | Some n \<Rightarrow> 1 \<le> n \<and> int (length (uk_columns key)) = n
            \<and> list_all (\<lambda>p. case map_of (uk_columns key) p of
                 Some (Some c) \<Rightarrow> c \<noteq> [] \<and> c \<in> set (map fst vs) \<and> field vs c \<noteq> JNull
               | _ \<Rightarrow> False) [1..n])"

definition componentValues :: "dedup_component list \<Rightarrow> column_value option \<Rightarrow> column_value list" where
  "componentValues cs scope = map (\<lambda>c. \<lparr>cv_column = dc_column c, cv_value = dc_value c\<rparr>) cs
     @ (case scope of None \<Rightarrow> [] | Some p \<Rightarrow> [p])"

definition assertPostgresInsertDedupUniqueness ::
  "'w client \<Rightarrow> job \<Rightarrow> dedup_component list list \<Rightarrow> ('w, unit) io" where
  "assertPostgresInsertDedupUniqueness query j sets =
     bindM (query (SqlUniqueKeys (targetTable j))) (\<lambda>metadata.
     let keys = map snd (fold addKeyRow (qr_rows metadata) []) in
     bindM (liftE (principalScope j)) (\<lambda>scope.
     bindM (traverseM (\<lambda>cs. liftE (bindE (deduplicationValues (componentValues cs scope) []) (\<lambda>vs.
         throwIf (\<not> list_ex (keyProven vs) keys) (PlainError ''INSERT_DEDUP_UNIQUENESS_UNPROVEN'')))) sets) (\<lambda>_.
     returnM ())))"

definition dedupConditions :: "dedup_component list \<Rightarrow> column_value option \<Rightarrow> sql_condition list" where
  "dedupConditions cs scope = map equals (componentValues cs scope)"

definition insertPostgres :: "runtime \<Rightarrow> 'w client \<Rightarrow> job \<Rightarrow> ('w, outcome) io" where
  "insertPostgres rt query j = (case (jb_version j, jb_deduplication j) of
      (NormalizedV2, Some cs) \<Rightarrow>
        bindM (assertPostgresInsertDedupUniqueness query j [cs]) (\<lambda>_.
        bindM (liftE (principalScope j)) (\<lambda>scope.
        bindM (liftE (quoteAll (map cv_column (componentValues cs scope) @ [jb_pk_column j] @ tableNames j) ())) (\<lambda>_.
        bindM (query (SqlSelect (targetTable j) [SqlText (jb_pk_column j) ''__synapsor_primary_key'']
            (dedupConditions cs scope) None None False)) (\<lambda>existing.
        if anyRow existing then returnM (outcomeOf TConflict 0 (Some ''INSERT_DEDUP_CONFLICT'')
            (identityForJob j (Some (firstField existing ''__synapsor_primary_key''))))
        else
          bindM (liftE (buildPostgresInsert j)) (\<lambda>insertion.
          bindM (query insertion) (\<lambda>done.
          bindM (liftE (requireOne done ''INSERT_CONSTRAINT_FAILED'' ''MULTI_ROW_WRITE_BLOCKED'')) (\<lambda>_.
          let ids = identityForJob j (Some (firstField done ''__synapsor_primary_key'')) in
          bindM (liftE (insertValues j)) (\<lambda>vs.
          returnM ((outcomeOf TApplied 1 None ids)\<lparr>oc_after_digest := Some (reconciliationDigest rt
            (JObj [(''identity'', identityJson ids), (''values'', JObj vs)]))\<rparr>)))))))))
    | _ \<Rightarrow> throwM (PlainError ''INSERT_DEDUP_REQUIRED''))"

subsection \<open>Frozen sets\<close>

definition validateBatchInsertMember :: "job \<Rightarrow> frozen_member \<Rightarrow> unit result" where
  "validateBatchInsertMember j m = (let dedup = map dc_column (optOr (fm_deduplication m) []) in
     bindE (throwIf (\<exists>e \<in> set (fm_after m). fst e \<notin> set (jb_allowed_columns j) \<and> fst e \<notin> set dedup
                \<and> Some (fst e) \<noteq> map_option ps_column (jb_principal_scope j))
              (PlainError ''BATCH_COLUMN_NOT_ALLOWED'')) (\<lambda>_.
     throwIf (jb_pk_column j \<notin> set dedup \<or> cv_column (jb_tenant_guard j) \<notin> set dedup)
       (PlainError ''BATCH_DEDUP_REQUIRED'')))"

definition validateSetJob :: "runtime \<Rightarrow> job \<Rightarrow> set_operation \<Rightarrow> frozen_set \<Rightarrow> unit result" where
  "validateSetJob rt j op fs =
     bindE (assertFrozenSetJobIntegrity rt j op fs) (\<lambda>_.
     bindE (throwIf (fs_row_count fs \<noteq> int (length (fs_members fs)) \<or> fs_row_count fs > fs_max_rows fs
                \<or> fs_max_rows fs > 100) (PlainError ''SET_ROW_CAP_EXCEEDED'')) (\<lambda>_.
     case op of
       SetUpdate \<Rightarrow>
         bindE (validatePatch j ''postgres'') (\<lambda>_.
         bindE (throwIf (map_option va_strategy (jb_version_advance j) \<noteq> Some IntegerIncrement)
                  (PlainError ''SET_INTEGER_VERSION_REQUIRED'')) (\<lambda>_.
         throwIf (\<exists>m \<in> set (fs_members fs). fm_expected_version m = None
             \<or> map_option cv_column (fm_expected_version m) \<noteq> map_option va_column (jb_version_advance j))
           (PlainError ''SET_VERSION_GUARD_REQUIRED'')))
     | SetDelete \<Rightarrow>
         bindE (throwIf (jb_allowed_columns j \<noteq> [] \<or> jb_patch j \<noteq> [])
                  (PlainError ''SET_DELETE_PATCH_FORBIDDEN'')) (\<lambda>_.
         throwIf (\<exists>m \<in> set (fs_members fs). fm_expected_version m = None)
           (PlainError ''SET_VERSION_GUARD_REQUIRED''))
     | BatchInsert \<Rightarrow> mapE (\<lambda>_. ()) (traverseE (\<lambda>m.
         bindE (throwIf (optOr (fm_deduplication m) [] = []) (PlainError ''BATCH_DEDUP_REQUIRED'')) (\<lambda>_.
         validateBatchInsertMember j m)) (fs_members fs))))"

definition memberConditions :: "job \<Rightarrow> column_value option \<Rightarrow> json list \<Rightarrow> sql_condition list" where
  "memberConditions j scope keys = [equals (jb_tenant_guard j)] @ scopeConditions scope
     @ [CIn (jb_pk_column j) keys]"

definition lockPostgresFrozenMembers :: "'w client \<Rightarrow> job \<Rightarrow> frozen_set \<Rightarrow> ('w, bool) io" where
  "lockPostgresFrozenMembers query j fs =
     bindM (liftE (principalScope j)) (\<lambda>scope.
     let columns = uniqueList (jb_pk_column j # concat (map (\<lambda>m. map fst (fm_before m)) (fs_members fs))
           @ scopeColumns scope) in
     bindM (liftE (quoteAll (columns @ cv_column (jb_tenant_guard j) # tableNames j) ())) (\<lambda>_.
     bindM (query (SqlSelect (targetTable j) (map SqlColumn columns)
         (memberConditions j scope (map (\<lambda>m. cv_value (fm_primary_key m)) (fs_members fs)))
         (Some (jb_pk_column j)) None True)) (\<lambda>found.
     returnM (qr_count found = Some (fs_row_count fs)
       \<and> list_all (\<lambda>m. case map_of (rowsByIdentity (jb_pk_column j) (qr_rows found)) (memberIdentity m) of
            None \<Rightarrow> False | Some row \<Rightarrow> valuesMatch row (fm_before m)) (fs_members fs)))))"

definition noMemberEffect :: "column_value \<Rightarrow> member_effect" where
  "noMemberEffect pk = \<lparr>me_primary_key = pk, me_before_digest = None, me_after_digest = None,
     me_tombstone_digest = None\<rparr>"

definition memberStatement ::
  "job \<Rightarrow> set_operation \<Rightarrow> column_value option \<Rightarrow> frozen_member \<Rightarrow> sql_statement" where
  "memberStatement j op scope m =
     (let conds = rowConditions j (cv_value (fm_primary_key m)) scope
            @ map equals (case fm_expected_version m of None \<Rightarrow> [] | Some v \<Rightarrow> [v])
      in if op = SetUpdate
         then SqlUpdate (targetTable j) (patchAssignments j
           @ (case jb_version_advance j of None \<Rightarrow> [] | Some a \<Rightarrow> [Increment (va_column a)])) conds []
         else SqlDelete (targetTable j) conds)"

definition memberNames ::
  "job \<Rightarrow> set_operation \<Rightarrow> column_value option \<Rightarrow> frozen_member \<Rightarrow> string list" where
  "memberNames j op scope m = (if op = SetUpdate then map fst (jb_patch j)
       @ (case jb_version_advance j of None \<Rightarrow> [] | Some a \<Rightarrow> [va_column a]) else []) @ rowColumns j scope
     @ (case fm_expected_version m of None \<Rightarrow> [] | Some v \<Rightarrow> [cv_column v]) @ tableNames j"

definition mutateSetMember ::
  "'w client \<Rightarrow> job \<Rightarrow> set_operation \<Rightarrow> frozen_member \<Rightarrow> ('w, member_effect) io" where
  "mutateSetMember query j op m =
     bindM (liftE (principalScope j)) (\<lambda>scope.
     bindM (liftE (quoteAll (memberNames j op scope m) ())) (\<lambda>_.
     bindM (query (memberStatement j op scope m)) (\<lambda>done.
     bindM (liftE (throwIf (\<not> exactlyOne done) (PlainError ''SET_ATOMICITY_VIOLATION''))) (\<lambda>_.
     returnM (if op = SetUpdate
       then (noMemberEffect (fm_primary_key m))\<lparr>me_before_digest := fm_before_digest m,
         me_after_digest := fm_after_digest m\<rparr>
       else (noMemberEffect (fm_primary_key m))\<lparr>me_before_digest := fm_before_digest m,
         me_tombstone_digest := fm_tombstone_digest m\<rparr>)))))"

definition memberPresent :: "'w client \<Rightarrow> job \<Rightarrow> frozen_member \<Rightarrow> ('w, unit option) io" where
  "memberPresent query j m = (let cs = optOr (fm_deduplication m) [] in
     bindM (liftE (principalScope j)) (\<lambda>scope.
     bindM (liftE (quoteAll (map cv_column (componentValues cs scope) @ tableNames j) ())) (\<lambda>_.
     bindM (query (SqlSelect (targetTable j) [SqlOne] (dedupConditions cs scope) None (Some 1) True)) (\<lambda>existing.
     returnM (if anyRow existing then Some () else None)))))"

definition insertMember :: "'w client \<Rightarrow> job \<Rightarrow> frozen_member \<Rightarrow> ('w, member_effect) io" where
  "insertMember query j m =
     bindM (liftE (quoteAll (tableNames j @ map fst (fm_after m) @ [jb_pk_column j]) ())) (\<lambda>_.
     bindM (query (SqlInsert (targetTable j) (fm_after m) [SqlText (jb_pk_column j) ''__synapsor_primary_key''])) (\<lambda>done.
     bindM (liftE (throwIf (\<not> exactlyOne done \<or> \<not> versionValuesMatch (firstField done ''__synapsor_primary_key'')
              (cv_value (fm_primary_key m))) (PlainError ''SET_ATOMICITY_VIOLATION''))) (\<lambda>_.
     returnM ((noMemberEffect (fm_primary_key m))\<lparr>me_after_digest := fm_after_digest m\<rparr>))))"

definition appliedMembers :: "job \<Rightarrow> int \<Rightarrow> member_effect list \<Rightarrow> outcome" where
  "appliedMembers j n effects = (outcomeOf TApplied n None (identityForJob j None))\<lparr>
     oc_member_effects := Some effects\<rparr>"

definition insertPostgresBatch :: "'w client \<Rightarrow> job \<Rightarrow> frozen_set \<Rightarrow> ('w, outcome) io" where
  "insertPostgresBatch query j fs =
     bindM (assertPostgresInsertDedupUniqueness query j
              (map (\<lambda>m. optOr (fm_deduplication m) []) (fs_members fs))) (\<lambda>_.
     bindM (firstM (memberPresent query j) (fs_members fs)) (\<lambda>present.
     if present \<noteq> None then returnM (conflictOutcome j ''INSERT_DEDUP_CONFLICT'')
     else bindM (traverseM (insertMember query j) (fs_members fs)) (\<lambda>effects.
       returnM (appliedMembers j (fs_row_count fs) effects))))"

definition mutatePostgresSet ::
  "runtime \<Rightarrow> 'w client \<Rightarrow> job \<Rightarrow> set_operation \<Rightarrow> frozen_set \<Rightarrow> ('w, outcome) io" where
  "mutatePostgresSet rt query j op fs =
     bindM (liftE (validateSetJob rt j op fs)) (\<lambda>_.
     if op = BatchInsert then insertPostgresBatch query j fs
     else
       bindM (lockPostgresFrozenMembers query j fs) (\<lambda>locked.
       if \<not> locked then returnM (conflictOutcome j ''SET_DRIFT_CONFLICT'')
       else
         bindM (if op = SetDelete then safetyCode query j ''DELETE'' True else returnM None) (\<lambda>unsafe.
         case unsafe of
           Some code \<Rightarrow> returnM (failedOutcome j code)
         | None \<Rightarrow> bindM (traverseM (mutateSetMember query j op) (fs_members fs)) (\<lambda>effects.
             returnM (appliedMembers j (fs_row_count fs) effects)))))"

subsection \<open>Compensations\<close>

definition sortedColumns :: "srow \<Rightarrow> srow" where
  "sortedColumns row = map (\<lambda>c. (c, field row c)) (sortBy strLe (map fst row))"

definition compensationProjection :: "job \<Rightarrow> column_value option \<Rightarrow> inverse_descriptor \<Rightarrow> string list" where
  "compensationProjection j scope d = sortBy strLe (uniqueList (rowColumns j scope
     @ concat (map (\<lambda>m. map fst (im_expected_state m) @ map fst (optOr (im_restore_values m) [])) (id_members d))
     @ (case id_version_advance d of None \<Rightarrow> [] | Some a \<Rightarrow> [va_column a])))"

definition lockPostgresCompensationMembers ::
  "'w client \<Rightarrow> job \<Rightarrow> inverse_descriptor \<Rightarrow> ('w, srow list) io" where
  "lockPostgresCompensationMembers query j d =
     bindM (liftE (principalScope j)) (\<lambda>scope.
     let columns = compensationProjection j scope d in
     bindM (liftE (quoteAll (columns @ tableNames j) ())) (\<lambda>_.
     bindM (query (SqlSelect (targetTable j) (map SqlColumn columns)
         (memberConditions j scope (map (\<lambda>m. cv_value (im_primary_key m)) (id_members d)))
         (Some (jb_pk_column j)) None True)) (\<lambda>found. returnM (qr_rows found))))"

definition memberConditionsSame ::
  "job \<Rightarrow> column_value option \<Rightarrow> inverse_member \<Rightarrow> sql_condition list" where
  "memberConditionsSame j scope m =
     [equals (jb_tenant_guard j), CEq (jb_pk_column j) (cv_value (im_primary_key m))] @ scopeConditions scope
     @ map (\<lambda>e. CSame (fst e) (snd e)) (im_expected_state m)"

definition imageDigest :: "runtime \<Rightarrow> column_value \<Rightarrow> string \<Rightarrow> json \<Rightarrow> string" where
  "imageDigest rt pk label row =
     reconciliationDigest rt (JObj [(''primary_key'', columnValueJson pk), (label, row)])"

definition restoredRow :: "job \<Rightarrow> column_value option \<Rightarrow> inverse_member \<Rightarrow> srow" where
  "restoredRow j scope m = spreadRow (optOr (im_restore_values m) [])
     ([(jb_pk_column j, cv_value (im_primary_key m)),
       (cv_column (jb_tenant_guard j), cv_value (jb_tenant_guard j))]
      @ (case scope of None \<Rightarrow> [] | Some p \<Rightarrow> [(cv_column p, cv_value p)]))"

definition compensationAdvance :: "inverse_descriptor \<Rightarrow> string" where
  "compensationAdvance d = (case id_version_advance d of None \<Rightarrow> [] | Some a \<Rightarrow> va_column a)"

definition compensationStatement ::
  "job \<Rightarrow> reversal_operation \<Rightarrow> inverse_descriptor \<Rightarrow> column_value option \<Rightarrow> inverse_member \<Rightarrow> sql_statement" where
  "compensationStatement j op d scope m = (case op of
      RestoreInsert \<Rightarrow> SqlInsert (targetTable j) (sortedColumns (restoredRow j scope m)) []
    | RemoveInsert \<Rightarrow> SqlDelete (targetTable j) (memberConditionsSame j scope m)
    | RestoreUpdate \<Rightarrow> SqlUpdate (targetTable j)
        (map (\<lambda>e. SetTo (fst e) (snd e)) (sortedColumns (optOr (im_restore_values m) []))
          @ [Increment (compensationAdvance d)]) (memberConditionsSame j scope m) [])"

definition compensationNames ::
  "job \<Rightarrow> reversal_operation \<Rightarrow> inverse_descriptor \<Rightarrow> column_value option \<Rightarrow> inverse_member \<Rightarrow> string list" where
  "compensationNames j op d scope m = (if op = RestoreInsert then map fst (restoredRow j scope m)
     else rowColumns j scope @ map fst (im_expected_state m)
       @ (if op = RestoreUpdate then map fst (optOr (im_restore_values m) []) @ [compensationAdvance d] else []))
     @ tableNames j"

definition compensationEffect ::
  "runtime \<Rightarrow> job \<Rightarrow> reversal_operation \<Rightarrow> inverse_descriptor \<Rightarrow> column_value option \<Rightarrow> inverse_member \<Rightarrow> member_effect" where
  "compensationEffect rt j op d scope m =
     (let pk = im_primary_key m; before = imageDigest rt pk ''before'' (JObj (im_expected_state m)) in
     case op of
       RestoreInsert \<Rightarrow> (noMemberEffect pk)\<lparr>me_after_digest :=
         Some (imageDigest rt pk ''after'' (JObj (restoredRow j scope m)))\<rparr>
     | RemoveInsert \<Rightarrow> (noMemberEffect pk)\<lparr>me_before_digest := Some before,
         me_tombstone_digest := Some (imageDigest rt pk ''deleted'' (JBool True))\<rparr>
     | RestoreUpdate \<Rightarrow> (noMemberEffect pk)\<lparr>me_before_digest := Some before,
         me_after_digest := Some (imageDigest rt pk ''after'' (JObj (spreadRow (optOr (im_restore_values m) [])
           [(compensationAdvance d, nextVersion rt (field (im_expected_state m) (compensationAdvance d)))])))\<rparr>)"

definition compensateMember ::
  "runtime \<Rightarrow> 'w client \<Rightarrow> job \<Rightarrow> reversal_operation \<Rightarrow> inverse_descriptor \<Rightarrow> inverse_member
    \<Rightarrow> ('w, member_effect) io" where
  "compensateMember rt query j op d m =
     bindM (liftE (principalScope j)) (\<lambda>scope.
     bindM (liftE (quoteAll (compensationNames j op d scope m) ())) (\<lambda>_.
     bindM (query (compensationStatement j op d scope m)) (\<lambda>done.
     bindM (liftE (throwIf (\<not> exactlyOne done) (PlainError ''COMPENSATION_ATOMICITY_VIOLATION''))) (\<lambda>_.
     returnM (compensationEffect rt j op d scope m)))))"

definition compensationConflict ::
  "job \<Rightarrow> reversal_operation \<Rightarrow> inverse_descriptor \<Rightarrow> srow list \<Rightarrow> string option" where
  "compensationConflict j op d rows = (let byIdentity = rowsByIdentity (jb_pk_column j) rows in
     if op = RestoreInsert then (if rows \<noteq> [] then Some ''COMPENSATION_TARGET_PRESENT'' else None)
     else if length rows \<noteq> length (id_members d) then Some ''COMPENSATION_TARGET_MISSING''
     else if list_all (\<lambda>m. case map_of byIdentity (jsonStringify (cv_value (im_primary_key m))) of
            None \<Rightarrow> False | Some row \<Rightarrow> valuesMatch row (im_expected_state m)) (id_members d)
     then None else Some ''ROW_CHANGED_AFTER_FORWARD_WRITE'')"

definition mutatePostgresCompensation ::
  "runtime \<Rightarrow> 'w client \<Rightarrow> job \<Rightarrow> reversal_operation \<Rightarrow> inverse_descriptor \<Rightarrow> ('w, outcome) io" where
  "mutatePostgresCompensation rt query j op d =
     bindM (liftE (assertCompensationJobIntegrity rt j op d)) (\<lambda>_.
     bindM (lockPostgresCompensationMembers query j d) (\<lambda>rows.
     case compensationConflict j op d rows of
       Some code \<Rightarrow> returnM (conflictOutcome j code)
     | None \<Rightarrow>
         bindM (if op = RestoreUpdate then returnM None
                else safetyCode query j ''COMPENSATION'' (op = RemoveInsert)) (\<lambda>unsafe.
         case unsafe of
           Some code \<Rightarrow> returnM (failedOutcome j code)
         | None \<Rightarrow>
             bindM (traverseM (compensateMember rt query j op d) (id_members d)) (\<lambda>effects.
             bindM (liftE (compensationInverseFromJob rt j op d)) (\<lambda>backward.
             returnM ((appliedMembers j (int (length (id_members d))) effects)\<lparr>
               oc_inverse := Some backward\<rparr>))))))"

subsection \<open>The mutation of a job\<close>

definition mutateRow :: "runtime \<Rightarrow> 'w client \<Rightarrow> job \<Rightarrow> ('w, outcome) io" where
  "mutateRow rt query j =
     bindM (lockTargetRow query j) (\<lambda>locked. case locked of
       None \<Rightarrow> returnM (conflictOutcome j ''ROW_NOT_FOUND'')
     | Some row \<Rightarrow>
         (let actual = (case guardColumn (jb_conflict_guard j) of None \<Rightarrow> JUndefined
                | Some c \<Rightarrow> (let v = field row ''__synapsor_conflict_value'' in
                    if v = JNull \<or> v = JUndefined then field row c else v));
              stale = (case jb_conflict_guard j of GuardColumn c \<Rightarrow> \<not> versionValuesMatch actual (cv_value c) | _ \<Rightarrow> False)
          in if stale then returnM ((conflictOutcome j ''VERSION_CONFLICT'')\<lparr>oc_result_version :=
               (if actual = JUndefined then None else Some (asScalar actual))\<rparr>)
             else if \<not> valuesMatch row (reviewedBefore j)
             then returnM (conflictOutcome j ''ROW_CHANGED_AFTER_PROPOSAL'')
             else if operationOf j = RowOp SingleRowDelete then deletePostgres rt query j
             else updatePostgres rt query j))"

definition mutatePostgres :: "runtime \<Rightarrow> 'w client \<Rightarrow> job \<Rightarrow> ('w, outcome) io" where
  "mutatePostgres rt query j =
     (if jb_version j = NormalizedV4
      then bindM (liftE (requireCompensation j)) (\<lambda>(op, d). mutatePostgresCompensation rt query j op d)
      else bindM (lockPostgresFreshnessDependencies query j) (\<lambda>stale. case stale of
          Some code \<Rightarrow> returnM (conflictOutcome j code)
        | None \<Rightarrow>
            if jb_version j = NormalizedV3
            then bindM (liftE (requireFrozenSet j)) (\<lambda>(op, fs). mutatePostgresSet rt query j op fs)
            else if operationOf j = RowOp SingleRowInsert then insertPostgres rt query j
            else mutateRow rt query j))"

end
