(* ===== verification/PostgresApply.thy ===== *)
theory PostgresApply
  imports PostgresMutation
begin

text \<open>
  Applying a job (\<open>packages/postgres/src/index.ts\<close>): the source transaction with its scope and
  timeouts, source-database receipts, the runner ledger around the mutation, and the reconciliation
  of a source whose outcome is unknown.

  The pool is the operation \<open>connect\<close>; releasing it has no observable effect.  The test-only
  failpoints are the operation \<open>failpoint\<close>, which production configurations leave out.
\<close>

subsection \<open>The source transaction\<close>

definition rlsOperationForJob :: "job \<Rightarrow> rls_operation" where
  "rlsOperationForJob j =
     (if operationOf j \<in> {RowOp SingleRowInsert, SetOp BatchInsert, ReversalOp RestoreInsert} then RlsInsert
      else if operationOf j \<in> {RowOp SingleRowDelete, SetOp SetDelete, ReversalOp RemoveInsert} then RlsDelete
      else RlsUpdate)"

definition assertDatabaseScopeMatchesJob :: "job \<Rightarrow> database_scope \<Rightarrow> unit result" where
  "assertDatabaseScopeMatchesJob j scope =
     bindE (throwIf (stringOf (cv_value (jb_tenant_guard j)) \<noteq> ds_tenant_id scope)
              (PlainError ''POSTGRES_RLS_TENANT_CONTEXT_MISMATCH'')) (\<lambda>_.
     throwIf (\<exists>p \<in> set_option (jb_principal_scope j). \<exists>v \<in> set_option (ps_value p).
         stringOf v \<noteq> ds_principal scope) (PlainError ''POSTGRES_RLS_PRINCIPAL_CONTEXT_MISMATCH''))"

definition bindDatabaseScope :: "'w client \<Rightarrow> job \<Rightarrow> database_scope \<Rightarrow> sql_table list \<Rightarrow> ('w, unit) io" where
  "bindDatabaseScope query j scope dependencies =
     bindM (liftE (assertDatabaseScopeMatchesJob j scope)) (\<lambda>_.
     bindM (assertPostgresRlsTarget query scope (targetTable j) [RlsSelect, rlsOperationForJob j]) (\<lambda>_.
     bindM (traverseM (\<lambda>t. assertPostgresRlsTarget query scope t [RlsSelect]) dependencies) (\<lambda>_.
     bindPostgresRlsScope query scope)))"

definition optionM :: "('a \<Rightarrow> ('w, unit) io) \<Rightarrow> 'a option \<Rightarrow> ('w, unit) io" where
  "optionM f m = (case m of None \<Rightarrow> returnM () | Some x \<Rightarrow> f x)"

definition openTransaction :: "'w client \<Rightarrow> job \<Rightarrow> runner_config \<Rightarrow> ('w, unit) io" where
  "openTransaction query j cfg =
     bindM (optionM (\<lambda>ms. bindM (query (SqlSetLocal ''statement_timeout'' ms)) (\<lambda>_.
         bindM (query (SqlSetLocal ''lock_timeout'' ms)) (\<lambda>_. returnM ()))) (cf_statement_timeout cfg)) (\<lambda>_.
     optionM (\<lambda>scope. bindDatabaseScope query j scope (map dependencyTable (freshnessDependencies j)))
       (cf_database_scope cfg))"

definition sourceTransaction ::
  "'w client \<Rightarrow> job \<Rightarrow> runner_config \<Rightarrow> (string \<Rightarrow> ('w, unit) io) \<Rightarrow> ('w, 'a) io \<Rightarrow> ('w, 'a) io" where
  "sourceTransaction query j cfg failpoint body =
     bindM (query SqlBegin) (\<lambda>_.
     catchM
       (bindM (openTransaction query j cfg) (\<lambda>_.
        bindM (failpoint ''after_source_begin'') (\<lambda>_.
        bindM body (\<lambda>x.
        bindM (failpoint ''after_source_mutation'') (\<lambda>_.
        bindM (failpoint ''before_source_commit'') (\<lambda>_.
        bindM (catchM (query SqlCommit) (\<lambda>_. throwM OutcomeUnknown)) (\<lambda>_.
        returnM x)))))))
       (\<lambda>e. if e = OutcomeUnknown then throwM e
         else bindM (catchM (query SqlRollback) (\<lambda>_. throwM OutcomeUnknown)) (\<lambda>_. throwM e)))"

definition noFailpoint :: "string \<Rightarrow> ('w, unit) io" where
  "noFailpoint name = returnM ()"

subsection \<open>Source receipts\<close>

definition claimSourceReceipt ::
  "runtime \<Rightarrow> 'w client \<Rightarrow> job \<Rightarrow> runner_config \<Rightarrow> time \<Rightarrow> ('w, wb_result option) io" where
  "claimSourceReceipt rt query j cfg clock =
     bindM (liftE (sourceReceiptTable cfg)) (\<lambda>t.
     bindM (query (SqlClaimReceipt t (jb_idempotency_key j) (jb_id j) (jb_proposal_id j))) (\<lambda>claimed.
     if exactlyOne claimed then returnM None
     else bindM (query (SqlReadReceipt t (jb_idempotency_key j))) (\<lambda>receipt.
       bindM (liftE (case firstRow receipt of
           None \<Rightarrow> failedResult rt j cfg clock ''SOURCE_RECEIPT_UNAVAILABLE''
         | Some row \<Rightarrow> resultFromExistingReceipt rt j cfg clock (field row ''status'') (field row ''result_hash'')))
         (\<lambda>w. returnM (Some w)))))"

definition recordSourceReceipt ::
  "'w client \<Rightarrow> job \<Rightarrow> runner_config \<Rightarrow> string \<Rightarrow> string \<Rightarrow> ('w, unit) io" where
  "recordSourceReceipt query j cfg status hash =
     bindM (liftE (sourceReceiptTable cfg)) (\<lambda>t.
     bindM (query (SqlRecordReceipt t (jb_idempotency_key j) status hash)) (\<lambda>done.
     liftE (throwIf (\<not> exactlyOne done) (PlainError ''SOURCE_RECEIPT_UNAVAILABLE''))))"

definition applyWithSourceReceipt ::
  "runtime \<Rightarrow> 'w client \<Rightarrow> job \<Rightarrow> runner_config \<Rightarrow> time \<Rightarrow> ('w, wb_result) io" where
  "applyWithSourceReceipt rt query j cfg clock =
     bindM (claimSourceReceipt rt query j cfg clock) (\<lambda>existing. case existing of
       Some w \<Rightarrow> returnM w
     | None \<Rightarrow>
         bindM (mutatePostgres rt query j) (\<lambda>out.
         bindM (liftE (resultFromOutcome rt j cfg clock out None)) (\<lambda>w.
         bindM (recordSourceReceipt query j cfg (terminalStatusStr (oc_status out))
                  (resultHashFromResult rt j w)) (\<lambda>_.
         returnM w))))"

subsection \<open>The runner ledger\<close>

record 'w intent_store =
  st_claim :: "job \<Rightarrow> string \<Rightarrow> ('w, string \<times> claim_decision) io"
  st_applying :: "string \<Rightarrow> string \<Rightarrow> ('w, unit) io"
  st_complete :: "string \<Rightarrow> wb_result \<Rightarrow> ('w, unit) io"
  st_reconcile :: "string \<Rightarrow> string \<Rightarrow> ('w, unit) io"

text \<open>Whether an operation returned, with its error as a value (\<open>try\<close> and \<open>catch\<close> as one step).\<close>

definition attempt :: "('w, 'a) io \<Rightarrow> ('w, err + 'a) io" where
  "attempt m w = (case m w of (r, v) \<Rightarrow> (Inr r, v))"

definition finishLedger ::
  "'w intent_store \<Rightarrow> (string \<Rightarrow> ('w, unit) io) \<Rightarrow> job \<Rightarrow> runner_config \<Rightarrow> runtime \<Rightarrow> time \<Rightarrow> string
    \<Rightarrow> (err + wb_result) \<Rightarrow> ('w, wb_result) io" where
  "finishLedger ledger failpoint j cfg rt clock iid r = (case r of
      Inl e \<Rightarrow>
        if e = OutcomeUnknown then
          bindM (st_reconcile ledger iid ''database COMMIT acknowledgement was not observed'') (\<lambda>_.
          returnM (reconciliationResult rt j cfg clock iid ''RECONCILIATION_REQUIRED''))
        else
          bindM (liftE (failedResult rt j cfg clock (safeErrorCode e (Some (operationOf j))))) (\<lambda>w.
          bindM (st_complete ledger iid w) (\<lambda>_. returnM w))
    | Inr w \<Rightarrow>
        bindM (attempt (failpoint ''after_source_commit'')) (\<lambda>stopped. case stopped of
          Inl _ \<Rightarrow>
            bindM (st_reconcile ledger iid ''process stopped after source COMMIT and before ledger completion'') (\<lambda>_.
            returnM (reconciliationResult rt j cfg clock iid ''RECONCILIATION_REQUIRED''))
        | Inr _ \<Rightarrow>
            bindM (st_complete ledger iid w) (\<lambda>_.
            bindM (failpoint ''after_intent_completed'') (\<lambda>_. returnM w))))"

definition applyWithRunnerLedger ::
  "runtime \<Rightarrow> 'w client \<Rightarrow> 'w intent_store option \<Rightarrow> (string \<Rightarrow> ('w, unit) io) \<Rightarrow> job \<Rightarrow> runner_config
    \<Rightarrow> time \<Rightarrow> ('w, wb_result) io" where
  "applyWithRunnerLedger rt query store failpoint j cfg clock = (case store of
      None \<Rightarrow> liftE (failedResult rt j cfg clock ''RUNNER_LEDGER_UNAVAILABLE'')
    | Some ledger \<Rightarrow>
        bindM (st_claim ledger j (cf_runner_id cfg)) (\<lambda>(iid, decision). case decision of
          ExistingResult w \<Rightarrow> liftE (asAlreadyApplied rt w j cfg clock)
        | NeedsReconciliation reason \<Rightarrow>
            returnM (reconciliationResult rt j cfg clock iid ''RECONCILIATION_REQUIRED'')
        | Proceed \<Rightarrow>
            bindM (failpoint ''after_intent_recorded'') (\<lambda>_.
            bindM (attempt (st_applying ledger iid (cf_runner_id cfg))) (\<lambda>crossed. case crossed of
              Inl _ \<Rightarrow>
                bindM (st_reconcile ledger iid
                  ''another worker crossed or may have crossed the source mutation boundary'') (\<lambda>_.
                returnM (reconciliationResult rt j cfg clock iid ''RECONCILIATION_REQUIRED''))
            | Inr _ \<Rightarrow>
                bindM (failpoint ''after_intent_applying'') (\<lambda>_.
                bindM (attempt (bindM (sourceTransaction query j cfg failpoint (mutatePostgres rt query j))
                    (\<lambda>out. liftE (resultFromOutcome rt j cfg clock out None)))) (\<lambda>r.
                finishLedger ledger failpoint j cfg rt clock iid r))))))"

subsection \<open>Applying a job\<close>

definition validateOperation :: "runtime \<Rightarrow> job \<Rightarrow> unit result" where
  "validateOperation rt j = (case jb_version j of
      NormalizedV4 \<Rightarrow> bindE (requireCompensation j) (\<lambda>(op, d). assertCompensationJobIntegrity rt j op d)
    | NormalizedV3 \<Rightarrow> bindE (requireFrozenSet j) (\<lambda>(op, fs). validateSetJob rt j op fs)
    | _ \<Rightarrow> mapE (\<lambda>_. ()) (if operationOf j = RowOp SingleRowUpdate then buildPostgresUpdate j
        else if operationOf j = RowOp SingleRowInsert then buildPostgresInsert j
        else buildPostgresDelete j))"

definition applyPostgresJobWithClient ::
  "runtime \<Rightarrow> 'w client \<Rightarrow> 'w intent_store option \<Rightarrow> (string \<Rightarrow> ('w, unit) io) \<Rightarrow> job \<Rightarrow> runner_config
    \<Rightarrow> time \<Rightarrow> ('w, wb_result) io" where
  "applyPostgresJobWithClient rt query store failpoint j cfg clock =
     bindM (liftE (validateOperation rt j)) (\<lambda>_.
     if receiptAuthority cfg = RunnerLedger then applyWithRunnerLedger rt query store failpoint j cfg clock
     else
       bindM (whenM (\<exists>r \<in> set_option (cf_receipts cfg). rx_auto_migrate r)
         (bindM (liftE (sourceReceiptTable cfg)) (\<lambda>t. bindM (query (SqlMigrate t)) (\<lambda>_. returnM ())))) (\<lambda>_.
       catchM (sourceTransaction query j cfg noFailpoint (applyWithSourceReceipt rt query j cfg clock))
         (\<lambda>e. if e = OutcomeUnknown
           then returnM (reconciliationResult rt j cfg clock (sourceReconciliationIntentId rt j) ''OUTCOME_UNKNOWN'')
           else throwM e)))"

definition applyPostgresJob ::
  "runtime \<Rightarrow> ('w, unit) io \<Rightarrow> 'w client \<Rightarrow> 'w intent_store option \<Rightarrow> (string \<Rightarrow> ('w, unit) io) \<Rightarrow> job
    \<Rightarrow> runner_config \<Rightarrow> time \<Rightarrow> ('w, wb_result) io" where
  "applyPostgresJob rt connect query store failpoint j cfg clock =
     (if cf_dry_run cfg then
        liftE (bindE (validateOperation rt j) (\<lambda>_. resultFromOutcome rt j cfg clock
          (outcomeOf (if jb_version j = NormalizedV4 then TCanceled else TApplied) 0 None (identityForJob j None)) None))
      else if cf_database_url cfg = [] then liftE (failedResult rt j cfg clock ''DATABASE_UNAVAILABLE'')
      else catchM (bindM connect (\<lambda>_. applyPostgresJobWithClient rt query store failpoint j cfg clock))
        (\<lambda>e. liftE (failedResult rt j cfg clock (safeErrorCode e (Some (operationOf j))))))"

subsection \<open>Reconciliation\<close>

definition reconciliationProjection :: "job \<Rightarrow> column_value option \<Rightarrow> string list" where
  "reconciliationProjection j scope = uniqueList ([jb_pk_column j, cv_column (jb_tenant_guard j)]
     @ jb_allowed_columns j @ scopeColumns scope
     @ (case (jb_version j, jb_frozen_set j) of (NormalizedV3, Some fs) \<Rightarrow>
          concat (map (\<lambda>m. map fst (fm_before m) @ map fst (fm_after m)) (fs_members fs)) | _ \<Rightarrow> [])
     @ (case (jb_version j, jb_compensation j) of (NormalizedV4, Some d) \<Rightarrow>
          concat (map (\<lambda>m. map fst (im_expected_state m) @ map fst (optOr (im_restore_values m) [])) (id_members d))
        | _ \<Rightarrow> [])
     @ (case guardColumn (jb_conflict_guard j) of None \<Rightarrow> [] | Some c \<Rightarrow> [c])
     @ (if jb_version j = NormalizedV2 then map dc_column (optOr (jb_deduplication j) []) else []))"

definition memberKeys :: "job \<Rightarrow> json list option" where
  "memberKeys j = (case jb_version j of
      NormalizedV4 \<Rightarrow> map_option (\<lambda>d. map (\<lambda>m. cv_value (im_primary_key m)) (id_members d)) (jb_compensation j)
    | NormalizedV3 \<Rightarrow> map_option (\<lambda>fs. map (\<lambda>m. cv_value (fm_primary_key m)) (fs_members fs)) (jb_frozen_set j)
    | _ \<Rightarrow> None)"

definition buildPostgresReconciliationRead :: "job \<Rightarrow> sql_statement result" where
  "buildPostgresReconciliationRead j = bindE (principalScope j) (\<lambda>scope.
     let columns = reconciliationProjection j scope; select = SqlSelect (targetTable j) (map SqlColumn columns) in
     bindE (quoteAll (columns @ tableNames j) ()) (\<lambda>_.
     case memberKeys j of
       Some keys \<Rightarrow> Inr (select (memberConditions j scope keys) (Some (jb_pk_column j)) None False)
     | None \<Rightarrow>
         (case (operationOf j = RowOp SingleRowInsert \<and> jb_version j = NormalizedV2, jb_deduplication j) of
            (True, Some cs) \<Rightarrow> Inr (select (dedupConditions cs scope) None (Some 2) False)
          | _ \<Rightarrow> bindE (requireSome (PlainError ''RECONCILIATION_TARGET_IDENTITY_REQUIRED'') (jb_pk_value j)) (\<lambda>pk.
              Inr (select (rowConditions j pk scope) None (Some 2) False)))))"

definition versionStillExpected :: "job \<Rightarrow> srow \<Rightarrow> bool" where
  "versionStillExpected j row = (case jb_conflict_guard j of
      GuardColumn c \<Rightarrow> versionValuesMatch (field row (cv_column c)) (cv_value c) | _ \<Rightarrow> False)"

definition versionMatchesProposed :: "runtime \<Rightarrow> job \<Rightarrow> srow \<Rightarrow> bool" where
  "versionMatchesProposed rt j row = (case (advanceV2 j, jb_conflict_guard j) of
      (Some a, GuardColumn c) \<Rightarrow>
        (let actual = field row (va_column a) in
         if va_strategy a = IntegerIncrement
         then isNumber (cv_value c) \<and> strictEq (JNum (jsNumber actual)) (nextVersion rt (cv_value c))
         else \<not> versionValuesMatch actual (cv_value c))
    | _ \<Rightarrow> True)"

definition rowClassification :: "runtime \<Rightarrow> job \<Rightarrow> srow option \<Rightarrow> classification" where
  "rowClassification rt j found = (case found of
      None \<Rightarrow> (if operationOf j = RowOp SingleRowDelete then TargetAbsent else NotObserved)
    | Some row \<Rightarrow>
        if operationOf j = RowOp SingleRowInsert
        then (if valuesMatch row (jb_patch j) then MatchesProposed else Drifted)
        else if operationOf j = RowOp SingleRowDelete
        then (if versionStillExpected j row then MatchesReviewedBefore else Drifted)
        else if valuesMatch row (jb_patch j) \<and> versionMatchesProposed rt j row then MatchesProposed
        else if versionStillExpected j row then MatchesReviewedBefore
        else Drifted)"

definition reconciliationObservation ::
  "runtime \<Rightarrow> job \<Rightarrow> column_value option \<Rightarrow> srow option \<Rightarrow> reconciliation_observation" where
  "reconciliationObservation rt j scope found =
     (let observed = (case found of None \<Rightarrow> [] | Some row \<Rightarrow> observedRow (reconciliationProjection j scope) row) in
      \<lparr>ro_operation = operationOf j, ro_classification = rowClassification rt j found,
       ro_target_identity = identityForJob j (map_option (\<lambda>row. field row (jb_pk_column j)) found),
       ro_expected = [(''tenant'', cv_value (jb_tenant_guard j))] @ optField ''primary_key'' id (jb_pk_value j)
         @ (case jb_conflict_guard j of GuardColumn c \<Rightarrow> [(''expected_version'', cv_value c)] | _ \<Rightarrow> []),
       ro_observed = observed, ro_observed_digest = reconciliationDigest rt (JObj observed), ro_members = []\<rparr>)"

definition compensationExpectedAfter ::
  "runtime \<Rightarrow> reversal_operation \<Rightarrow> inverse_descriptor \<Rightarrow> inverse_member \<Rightarrow> srow" where
  "compensationExpectedAfter rt op d m = (case op of
      RemoveInsert \<Rightarrow> []
    | RestoreInsert \<Rightarrow> optOr (im_restore_values m) []
    | RestoreUpdate \<Rightarrow> spreadRow (optOr (im_restore_values m) [])
        [(compensationAdvance d, nextVersion rt (field (im_expected_state m) (compensationAdvance d)))])"

definition compensationClassification ::
  "runtime \<Rightarrow> reversal_operation \<Rightarrow> inverse_descriptor \<Rightarrow> inverse_member \<Rightarrow> srow option \<Rightarrow> classification" where
  "compensationClassification rt op d m found = (case found of
      None \<Rightarrow> (if op = RemoveInsert then MatchesProposed else NotObserved)
    | Some row \<Rightarrow>
        (let before = valuesMatch row (im_expected_state m);
             after = valuesMatch row (compensationExpectedAfter rt op d m)
         in if op = RemoveInsert then (if before then MatchesReviewedBefore else Drifted)
            else if after then MatchesProposed
            else if op = RestoreUpdate \<and> before then MatchesReviewedBefore else Drifted))"

definition compensationSetClassification :: "reversal_operation \<Rightarrow> classification list \<Rightarrow> classification" where
  "compensationSetClassification op cs =
     (if list_all ((=) MatchesProposed) cs then MatchesProposed
      else if list_all (\<lambda>c. c = MatchesReviewedBefore \<or> (op = RestoreInsert \<and> c = NotObserved)) cs
      then (if op = RestoreInsert then NotObserved else MatchesReviewedBefore)
      else Drifted)"

definition classifyCompensationReconciliation ::
  "runtime \<Rightarrow> job \<Rightarrow> column_value option \<Rightarrow> reversal_operation \<Rightarrow> inverse_descriptor \<Rightarrow> srow list
    \<Rightarrow> reconciliation_observation" where
  "classifyCompensationReconciliation rt j scope op d rows =
     (let byIdentity = rowsByIdentity (jb_pk_column j) rows;
          members = map (\<lambda>m. let found = map_of byIdentity (jsonStringify (cv_value (im_primary_key m))) in
              observedMember rt (im_primary_key m) (compensationClassification rt op d m found)
                (case found of None \<Rightarrow> []
                 | Some row \<Rightarrow> observedRow (compensationProjection j scope d) row)) (id_members d);
          observed = [(''row_count'', JNum (IntN (int (length rows)))),
            (''member_digest'', JStr (reconciliationDigest rt (memberDigestJson members)))]
      in \<lparr>ro_operation = ReversalOp op,
          ro_classification = compensationSetClassification op (map mo_classification members),
          ro_target_identity = identityForJob j None,
          ro_expected = [(''row_count'', JNum (IntN (int (length (id_members d)))))],
          ro_observed = observed, ro_observed_digest = reconciliationDigest rt (JObj observed),
          ro_members = members\<rparr>)"

definition classifySource ::
  "runtime \<Rightarrow> job \<Rightarrow> column_value option \<Rightarrow> query_result \<Rightarrow> reconciliation_observation result" where
  "classifySource rt j scope found = (case jb_version j of
      NormalizedV3 \<Rightarrow> bindE (requireFrozenSet j) (\<lambda>(op, fs).
        Inr (classifyFrozenSetReconciliation rt op (jb_pk_column j) fs (qr_rows found) versionValuesMatch))
    | NormalizedV4 \<Rightarrow> bindE (requireCompensation j) (\<lambda>(op, d).
        Inr (classifyCompensationReconciliation rt j scope op d (qr_rows found)))
    | _ \<Rightarrow> bindE (throwIf (\<exists>n \<in> set_option (qr_count found). n > 1)
        (PlainError ''RECONCILIATION_IDENTITY_NOT_UNIQUE'')) (\<lambda>_.
        Inr (reconciliationObservation rt j scope (firstRow found))))"

definition inspectionError :: "err \<Rightarrow> err" where
  "inspectionError e = (let code = safeErrorCode e None in
     PlainError (if code = ''TRANSACTION_FAILED'' then ''RECONCILIATION_INSPECTION_FAILED'' else code))"

definition inspectPostgresWritebackSource ::
  "runtime \<Rightarrow> ('w, unit) io \<Rightarrow> 'w client \<Rightarrow> job \<Rightarrow> string \<Rightarrow> database_scope option
    \<Rightarrow> ('w, reconciliation_observation) io" where
  "inspectPostgresWritebackSource rt connect query j url scoped =
     (if url = [] then throwM (PlainError ''DATABASE_UNAVAILABLE'')
      else bindM (attempt connect) (\<lambda>connected. case connected of
        Inl e \<Rightarrow> throwM (inspectionError e)
      | Inr _ \<Rightarrow> catchM
        (bindM (liftE (buildPostgresReconciliationRead j)) (\<lambda>select.
         bindM (query SqlBegin) (\<lambda>_.
         bindM (optionM (\<lambda>scope. bindDatabaseScope query j scope []) scoped) (\<lambda>_.
         bindM (query select) (\<lambda>found.
         bindM (query SqlCommit) (\<lambda>_.
         bindM (liftE (principalScope j)) (\<lambda>scope. liftE (classifySource rt j scope found))))))))
        (\<lambda>e. bindM (attempt (query SqlRollback)) (\<lambda>_. throwM (inspectionError e)))))"

end
