(* ===== verification/MemorySource.thy ===== *)
theory MemorySource
  imports SourceClient
begin

text \<open>
  A source in memory: tables and receipts as lists, one open transaction, and a schedule of faults.
  \<open>memClient\<close> answers the statements of the adapters; it interprets \<open>sql_source\<close>, so what the
  adapters' lemmas assume of PostgreSQL can hold, and the witnesses run the adapters on it.
\<close>

subsection \<open>The client\<close>

datatype mem_fault = Sound | Fails err | AnswerLost err

record mem_db =
  md_committed :: "(sql_table \<times> srow list) list"
  md_working :: "(sql_table \<times> srow list) list"
  md_receipts :: "(string \<times> string \<times> string option) list"
  md_pending :: "(string \<times> string \<times> string option) list"
  md_open :: bool
  md_unique :: "srow list"
  md_safety :: "srow list"
  md_faults :: "mem_fault list"

definition rowsOf :: "(sql_table \<times> srow list) list \<Rightarrow> sql_table \<Rightarrow> srow list" where
  "rowsOf ts t = (case map_of ts t of None \<Rightarrow> [] | Some rs \<Rightarrow> rs)"

definition memEq :: "json \<Rightarrow> json \<Rightarrow> bool" where
  "memEq a b \<longleftrightarrow> a \<noteq> JNull \<and> a \<noteq> JUndefined \<and> strictEq a b"

definition memSame :: "json \<Rightarrow> json \<Rightarrow> bool" where
  "memSame a b \<longleftrightarrow> memEq a b \<or> (a = JNull \<and> b = JNull)"

definition memText :: "json \<Rightarrow> json" where
  "memText j = (if j = JNull then JNull else JStr (stringOf j))"

definition memAssign :: "sql_assignment \<Rightarrow> srow \<Rightarrow> srow" where
  "memAssign a r = (case a of
      SetTo c v \<Rightarrow> upsertRow fst (c, v) r
    | Increment c \<Rightarrow> (case field r c of
        JNum (IntN i) \<Rightarrow> upsertRow fst (c, JNum (IntN (i + 1))) r | _ \<Rightarrow> r))"

definition memUpdated :: "sql_assignment list \<Rightarrow> srow \<Rightarrow> srow" where
  "memUpdated as r = fold memAssign as r"

definition memInserted :: "srow \<Rightarrow> srow" where
  "memInserted r = r"

abbreviation memMatching :: "sql_condition list \<Rightarrow> srow \<Rightarrow> bool" where
  "memMatching \<equiv> matching memEq memSame"

definition answer :: "srow list \<Rightarrow> query_result" where
  "answer rs = \<lparr>qr_rows = rs, qr_count = Some (int (length rs))\<rparr>"

definition counted :: "nat \<Rightarrow> srow list \<Rightarrow> query_result" where
  "counted n rs = \<lparr>qr_rows = rs, qr_count = Some (int n)\<rparr>"

definition memWrite :: "sql_table \<Rightarrow> srow list \<Rightarrow> mem_db \<Rightarrow> mem_db" where
  "memWrite t rs d = d\<lparr>md_working := (t, rs) # md_working d\<rparr>"

definition memProject :: "sql_projection list \<Rightarrow> srow list \<Rightarrow> srow list" where
  "memProject ps rs = map (\<lambda>r. project memText r ps) rs"

definition memRun :: "sql_statement \<Rightarrow> mem_db \<Rightarrow> query_result \<times> mem_db" where
  "memRun s d = (case s of
      SqlBegin \<Rightarrow> (answer [], d\<lparr>md_working := md_committed d, md_pending := md_receipts d, md_open := True\<rparr>)
    | SqlCommit \<Rightarrow> (answer [], d\<lparr>md_committed := md_working d, md_receipts := md_pending d, md_open := False\<rparr>)
    | SqlRollback \<Rightarrow> (answer [], d\<lparr>md_open := False\<rparr>)
    | SqlSelect t ps cs order cap lock \<Rightarrow>
        (let rs = filter (memMatching cs) (rowsOf (md_working d) t)
         in (answer (memProject ps (case cap of None \<Rightarrow> rs | Some n \<Rightarrow> take n rs)), d))
    | SqlUpdate t as cs ps \<Rightarrow>
        (let rs = rowsOf (md_working d) t; hit = filter (memMatching cs) rs
         in (counted (length hit) (memProject ps (map (memUpdated as) hit)),
             memWrite t (map (\<lambda>r. if memMatching cs r then memUpdated as r else r) rs) d))
    | SqlInsert t row ps \<Rightarrow>
        (counted 1 (memProject ps [memInserted row]), memWrite t (rowsOf (md_working d) t @ [memInserted row]) d)
    | SqlDelete t cs \<Rightarrow>
        (let rs = rowsOf (md_working d) t
         in (counted (length (filter (memMatching cs) rs)) [],
             memWrite t (filter (\<lambda>r. \<not> memMatching cs r) rs) d))
    | SqlDeleteSafety t \<Rightarrow> (answer (md_safety d), d)
    | SqlUniqueKeys t \<Rightarrow> (answer (md_unique d), d)
    | SqlClaimReceipt t k j p \<Rightarrow> (case map_of (md_pending d) k of
          None \<Rightarrow> (counted 1 [], d\<lparr>md_pending := (k, ''in_progress'', None) # md_pending d\<rparr>)
        | Some _ \<Rightarrow> (counted 0 [], d))
    | SqlReadReceipt t k \<Rightarrow> (answer (case map_of (md_pending d) k of None \<Rightarrow> []
          | Some (st, h) \<Rightarrow> [[(''status'', JStr st),
              (''result_hash'', case h of None \<Rightarrow> JNull | Some x \<Rightarrow> JStr x)]]), d)
    | SqlRecordReceipt t k st h \<Rightarrow> (case map_of (md_pending d) k of
          None \<Rightarrow> (counted 0 [], d)
        | Some _ \<Rightarrow> (counted 1 [], d\<lparr>md_pending := (k, st, Some h) # md_pending d\<rparr>))
    | _ \<Rightarrow> (answer [], d))"

definition memClient :: "mem_db client" where
  "memClient s d = (case md_faults d of
      [] \<Rightarrow> (case memRun s d of (q, v) \<Rightarrow> (Inr q, v))
    | Sound # fs \<Rightarrow> (case memRun s (d\<lparr>md_faults := fs\<rparr>) of (q, v) \<Rightarrow> (Inr q, v))
    | Fails e # fs \<Rightarrow> (Inl e, d\<lparr>md_faults := fs\<rparr>)
    | AnswerLost e # fs \<Rightarrow> (Inl e, snd (memRun s (d\<lparr>md_faults := fs\<rparr>))))"

subsection \<open>It is a source\<close>

definition memTables :: "(sql_table \<times> srow list) list \<Rightarrow> tables" where
  "memTables ts t = mset (rowsOf ts t)"

definition memCommitted :: "mem_db \<Rightarrow> tables" where
  "memCommitted d = memTables (md_committed d)"

definition memWorking :: "mem_db \<Rightarrow> tables" where
  "memWorking d = memTables (md_working d)"

definition memReceipts :: "mem_db \<Rightarrow> string \<Rightarrow> (string \<times> string option) option" where
  "memReceipts d = map_of (md_receipts d)"

definition memPending :: "mem_db \<Rightarrow> string \<Rightarrow> (string \<times> string option) option" where
  "memPending d = map_of (md_pending d)"

lemmas mem_views = memCommitted_def memWorking_def memReceipts_def memPending_def

lemma rowsOf_Cons: "rowsOf ((t, rs) # ts) u = (if u = t then rs else rowsOf ts u)"
  by (simp add: rowsOf_def)

lemma memTables_Cons: "memTables ((t, rs) # ts) = (memTables ts)(t := mset rs)"
  by (auto simp: memTables_def rowsOf_Cons)

lemma mset_update_where:
  "image_mset (\<lambda>r. if p r then f r else r) M
     = filter_mset (\<lambda>r. \<not> p r) M + image_mset f (filter_mset p M)"
  by (induction M) auto

text \<open>A statement whose answer arrived was run; one whose answer did not either was run or was not.\<close>

lemma memClient_ok:
  assumes "memClient s d = (Inr q, v)"
  shows "\<exists>fs. memRun s (d\<lparr>md_faults := fs\<rparr>) = (q, v)"
proof (cases "md_faults d")
  case Nil
  then have same: "d\<lparr>md_faults := []\<rparr> = d" by (cases d) simp
  from Nil assms have "memRun s d = (q, v)" by (simp add: memClient_def split: prod.split_asm)
  then show ?thesis by (intro exI [of _ "[]"]) (simp only: same)
qed (use assms in \<open>auto simp: memClient_def split: mem_fault.splits prod.splits\<close>)

lemma memClient_cases:
  assumes "memClient s d = (r, v)"
  shows "\<exists>fs. v = d\<lparr>md_faults := fs\<rparr> \<or> v = snd (memRun s (d\<lparr>md_faults := fs\<rparr>))"
proof (cases r)
  case (Inr q)
  with assms memClient_ok show ?thesis by (metis snd_conv)
qed (use assms in \<open>auto simp: memClient_def split: list.splits mem_fault.splits prod.splits\<close>)

lemma memRun_isolated: "s \<noteq> SqlCommit \<Longrightarrow>
    md_committed (snd (memRun s d)) = md_committed d \<and> md_receipts (snd (memRun s d)) = md_receipts d"
  by (cases s) (auto simp: memRun_def memWrite_def Let_def split: option.splits)

lemma memRun_open: "s \<noteq> SqlCommit \<Longrightarrow> s \<noteq> SqlRollback \<Longrightarrow> md_open d \<Longrightarrow> md_open (snd (memRun s d))"
  by (cases s) (auto simp: memRun_def memWrite_def Let_def split: option.splits)

interpretation mem: sql_source memClient memCommitted memWorking md_open memReceipts memPending
  memEq memSame memText memUpdated memInserted
proof
  fix w v :: mem_db and q
  assume "memClient SqlBegin w = (Inr q, v)"
  from memClient_ok [OF this] show "md_open v \<and> memWorking v = memCommitted w \<and> memPending v = memReceipts w"
    by (auto simp: memRun_def mem_views)
next
  fix w v :: mem_db and q
  assume "memClient SqlCommit w = (Inr q, v)"
  from memClient_ok [OF this] show "memCommitted v = memWorking w \<and> memReceipts v = memPending w"
    by (auto simp: memRun_def mem_views)
next
  fix w v :: mem_db and e
  assume "memClient SqlCommit w = (Inl e, v)"
  from memClient_cases [OF this] show "memCommitted v = memCommitted w \<and> memReceipts v = memReceipts w
      \<or> memCommitted v = memWorking w \<and> memReceipts v = memPending w"
    by (auto simp: memRun_def mem_views)
next
  fix w v :: mem_db and s and r :: "query_result result"
  assume "s \<noteq> SqlCommit" and "memClient s w = (r, v)"
  from memClient_cases [OF this(2)] memRun_isolated [OF this(1)]
  show "memCommitted v = memCommitted w \<and> memReceipts v = memReceipts w"
    by (auto simp: mem_views)
next
  fix w v :: mem_db and s and r :: "query_result result"
  assume "md_open w" and "s \<notin> {SqlCommit, SqlRollback}" and "memClient s w = (r, v)"
  from memClient_cases [OF this(3)] memRun_open this(1,2) show "md_open v" by auto
next
  fix t and w v :: mem_db and r :: "query_result result"
  assume "memClient (SqlMigrate t) w = (r, v)"
  from memClient_cases [OF this] show "memCommitted v = memCommitted w \<and> memReceipts v = memReceipts w"
    by (auto simp: memRun_def mem_views)
next
  fix w v :: mem_db and s q
  assume "reading s" and "memClient s w = (Inr q, v)"
  from memClient_ok [OF this(2)] this(1) show "memWorking v = memWorking w \<and> memPending v = memPending w"
    by (cases s) (auto simp: reading_def memRun_def mem_views Let_def)
next
  fix t ps cs order cap lock and w v :: mem_db and q
  assume "memClient (SqlSelect t ps cs order cap lock) w = (Inr q, v)"
  from memClient_ok [OF this] show "\<exists>rs. mset rs = filter_mset (memMatching cs) (memWorking w t)
      \<and> qr_rows q = map (\<lambda>r. project memText r ps) (case cap of None \<Rightarrow> rs | Some n \<Rightarrow> take n rs)
      \<and> qr_count q = Some (int (length (qr_rows q)))"
    by (intro exI [of _ "filter (memMatching cs) (rowsOf (md_working w) t)"])
      (auto simp: memRun_def mem_views memTables_def answer_def memProject_def Let_def)
next
  fix t as cs ps and w v :: mem_db and q
  assume "memClient (SqlUpdate t as cs ps) w = (Inr q, v)"
  from memClient_ok [OF this] show "memWorking v = (memWorking w)(t :=
      filter_mset (\<lambda>r. \<not> memMatching cs r) (memWorking w t)
        + image_mset (memUpdated as) (filter_mset (memMatching cs) (memWorking w t)))
      \<and> memPending v = memPending w
      \<and> qr_count q = Some (int (size (filter_mset (memMatching cs) (memWorking w t))))"
    by (auto simp: memRun_def mem_views memTables_Cons mset_update_where memTables_def counted_def
        memWrite_def Let_def size_mset [symmetric] simp del: size_mset)
next
  fix t row ps and w v :: mem_db and q
  assume "memClient (SqlInsert t row ps) w = (Inr q, v)"
  from memClient_ok [OF this] show "\<exists>n. memWorking v = (memWorking w)(t := memWorking w t
      + replicate_mset n (memInserted row)) \<and> memPending v = memPending w \<and> qr_count q = Some (int n)"
    by (intro exI [of _ 1]) (auto simp: memRun_def mem_views memTables_Cons counted_def memWrite_def
        memTables_def)
next
  fix t cs and w v :: mem_db and q
  assume "memClient (SqlDelete t cs) w = (Inr q, v)"
  from memClient_ok [OF this] show "memWorking v = (memWorking w)(t :=
      filter_mset (\<lambda>r. \<not> memMatching cs r) (memWorking w t)) \<and> memPending v = memPending w
      \<and> qr_count q = Some (int (size (filter_mset (memMatching cs) (memWorking w t))))"
    by (auto simp: memRun_def mem_views memTables_Cons memTables_def counted_def memWrite_def Let_def
        size_mset [symmetric] simp del: size_mset)
next
  fix t k j p and w v :: mem_db and q
  assume "memClient (SqlClaimReceipt t k j p) w = (Inr q, v)"
  from memClient_ok [OF this] show "memWorking v = memWorking w \<and> (case memPending w k of
      None \<Rightarrow> qr_count q = Some 1 \<and> memPending v = (memPending w)(k \<mapsto> (''in_progress'', None))
    | Some _ \<Rightarrow> qr_count q = Some 0 \<and> memPending v = memPending w)"
    by (auto simp: memRun_def mem_views counted_def split: option.splits)
next
  fix t k and w v :: mem_db and q
  assume "memClient (SqlReadReceipt t k) w = (Inr q, v)"
  from memClient_ok [OF this] show "firstRow q = map_option (\<lambda>(s, h). [(''status'', JStr s),
      (''result_hash'', case h of None \<Rightarrow> JNull | Some x \<Rightarrow> JStr x)]) (memPending w k)"
    by (auto simp: memRun_def mem_views answer_def firstRow_def split: option.splits)
next
  fix t k st h and w v :: mem_db and q
  assume "memClient (SqlRecordReceipt t k st h) w = (Inr q, v)"
  from memClient_ok [OF this] show "memWorking v = memWorking w \<and> (case memPending w k of
      None \<Rightarrow> qr_count q = Some 0 \<and> memPending v = memPending w
    | Some _ \<Rightarrow> qr_count q = Some 1 \<and> memPending v = (memPending w)(k \<mapsto> (st, Some h)))"
    by (auto simp: memRun_def mem_views counted_def split: option.splits)
qed

end
