(* ===== verification/PostgresLemmas.thy ===== *)
theory PostgresLemmas
  imports PostgresApply MemorySource
begin

text \<open>
  Lemmas about the PostgreSQL adapter over any source that obeys the laws of \<open>sql_source\<close>: the steps
  of a transaction that only read, the rows a mutation changes, and what is committed when a
  transaction has returned or thrown.
\<close>

subsection \<open>The statements of a job and their effect\<close>

text \<open>What one statement that reported one row has done to the tables.\<close>

definition sqlEffect ::
  "(json \<Rightarrow> json \<Rightarrow> bool) \<Rightarrow> (json \<Rightarrow> json \<Rightarrow> bool) \<Rightarrow> (sql_assignment list \<Rightarrow> srow \<Rightarrow> srow) \<Rightarrow> (srow \<Rightarrow> srow)
    \<Rightarrow> sql_statement \<Rightarrow> tables \<Rightarrow> tables \<Rightarrow> bool" where
  "sqlEffect eq same updated inserted s W V = (case s of
      SqlUpdate t as cs ps \<Rightarrow> oneRow (matching eq same cs) (\<lambda>r. {#updated as r#}) (W t) (V t) \<and> (\<forall>u. u \<noteq> t \<longrightarrow> V u = W u)
    | SqlDelete t cs \<Rightarrow> oneRow (matching eq same cs) (\<lambda>r. {#}) (W t) (V t) \<and> (\<forall>u. u \<noteq> t \<longrightarrow> V u = W u)
    | SqlInsert t row ps \<Rightarrow> V = W(t := add_mset (inserted row) (W t))
    | _ \<Rightarrow> V = W)"

fun sqlEffects ::
  "(json \<Rightarrow> json \<Rightarrow> bool) \<Rightarrow> (json \<Rightarrow> json \<Rightarrow> bool) \<Rightarrow> (sql_assignment list \<Rightarrow> srow \<Rightarrow> srow) \<Rightarrow> (srow \<Rightarrow> srow)
    \<Rightarrow> sql_statement list \<Rightarrow> tables \<Rightarrow> tables \<Rightarrow> bool" where
  "sqlEffects eq same updated inserted [] W V = (V = W)"
| "sqlEffects eq same updated inserted (s # ss) W V =
     (\<exists>U. sqlEffect eq same updated inserted s W U \<and> sqlEffects eq same updated inserted ss U V)"

text \<open>The mutating statements an adapter sends for a job, in order: the abstract description of a job.\<close>

definition insertStatement :: "job \<Rightarrow> frozen_member \<Rightarrow> sql_statement" where
  "insertStatement j m = SqlInsert (targetTable j) (fm_after m) [SqlText (jb_pk_column j) ''__synapsor_primary_key'']"

definition jobStatements :: "job \<Rightarrow> sql_statement list result" where
  "jobStatements j = bindE (principalScope j) (\<lambda>scope. case jb_version j of
      NormalizedV4 \<Rightarrow> bindE (requireCompensation j) (\<lambda>(op, d).
        Inr (map (compensationStatement j op d scope) (id_members d)))
    | NormalizedV3 \<Rightarrow> bindE (requireFrozenSet j) (\<lambda>(op, fs).
        Inr (map (if op = BatchInsert then insertStatement j else memberStatement j op scope) (fs_members fs)))
    | _ \<Rightarrow> mapE (\<lambda>s. [s]) (if operationOf j = RowOp SingleRowInsert then buildPostgresInsert j
        else if operationOf j = RowOp SingleRowDelete then buildPostgresDelete j else buildPostgresUpdate j))"

definition mutates :: "sql_statement \<Rightarrow> bool" where
  "mutates s = (case s of SqlUpdate _ _ _ _ \<Rightarrow> True | SqlInsert _ _ _ \<Rightarrow> True | SqlDelete _ _ \<Rightarrow> True | _ \<Rightarrow> False)"

lemma quoteAll_Inr [simp]: "quoteAll cs x = Inr y \<longleftrightarrow> list_all safeIdentifier cs \<and> y = x"
proof -
  have "(\<exists>us. traverseE quotePostgresIdentifier cs = Inr us) \<longleftrightarrow> list_all safeIdentifier cs"
    by (induction cs) (auto simp: quotePostgresIdentifier_def bindE_eq_Inr)
  then show ?thesis by (auto simp: quoteAll_def bindE_eq_Inr)
qed

lemma builders_mutate:
  "buildPostgresUpdate j = Inr s \<Longrightarrow> mutates s"
  "buildPostgresInsert j = Inr s \<Longrightarrow> mutates s"
  "buildPostgresDelete j = Inr s \<Longrightarrow> mutates s"
  by (auto simp: buildPostgresUpdate_def buildPostgresInsert_def buildPostgresDelete_def bindE_eq_Inr
      mutates_def Let_def)

lemma builders_scope:
  "buildPostgresUpdate j = Inr s \<Longrightarrow> \<exists>scope. principalScope j = Inr scope"
  "buildPostgresInsert j = Inr s \<Longrightarrow> \<exists>scope. principalScope j = Inr scope"
  "buildPostgresDelete j = Inr s \<Longrightarrow> \<exists>scope. principalScope j = Inr scope"
  by (auto simp: buildPostgresUpdate_def buildPostgresInsert_def buildPostgresDelete_def validatePatch_def
      bindE_eq_Inr Let_def)

lemma jobStatements_row:
  assumes "(if operationOf j = RowOp SingleRowInsert then buildPostgresInsert j
      else if operationOf j = RowOp SingleRowDelete then buildPostgresDelete j else buildPostgresUpdate j) = Inr s"
    and "jb_version j \<notin> {NormalizedV3, NormalizedV4}"
  shows "jobStatements j = Inr [s]"
proof -
  from assms(1) builders_scope obtain scope where "principalScope j = Inr scope" by (metis (no_types))
  with assms show ?thesis by (cases "jb_version j") (simp_all add: jobStatements_def)
qed

lemma memberStatement_mutates: "mutates (memberStatement j op scope m)"
  by (simp add: memberStatement_def mutates_def Let_def)

lemma compensationStatement_mutates: "mutates (compensationStatement j op d scope m)"
  by (cases op) (simp_all add: compensationStatement_def mutates_def)

lemma mutates_inside: "mutates s \<or> reading s \<Longrightarrow> s \<notin> {SqlCommit, SqlRollback}"
  by (auto simp: mutates_def reading_def)

subsection \<open>Binding a pure step\<close>

lemma bindM_assoc: "bindM (bindM m f) g = bindM m (\<lambda>x. bindM (f x) g)"
  by (rule ext) (simp add: bindM_def split: prod.split sum.split)

lemma bindM_returnM: "bindM (returnM x) f = f x"
  by (rule ext) (simp add: bindM_def)

lemma stays_liftE [intro]: "(\<And>x. r = Inr x \<Longrightarrow> stays i c (f x)) \<Longrightarrow> stays i c (bindM (liftE r) f)"
  by (cases r) (simp_all add: stays_def bindM_def)

lemma quiet_liftE [intro]: "(\<And>x. r = Inr x \<Longrightarrow> quiet c (f x)) \<Longrightarrow> quiet c (bindM (liftE r) f)"
  by (cases r) (simp_all add: quiet_def bindM_def)

lemma stays_optionM [intro]: "(\<And>x. stays i c (f x)) \<Longrightarrow> stays i c (optionM f m)"
  by (cases m) (simp_all add: optionM_def)

lemma quiet_optionM [intro]: "(\<And>x. quiet c (f x)) \<Longrightarrow> quiet c (optionM f m)"
  by (cases m) (simp_all add: optionM_def)

lemma bindM_liftE_eq [simp]: "bindM (liftE r) f w = (Inr y, v) \<longleftrightarrow> (\<exists>x. r = Inr x \<and> f x w = (Inr y, v))"
  by (auto simp: bindM_eq_Inr)

lemma exactlyOne_requireOne [simp]: "requireOne q a b = Inr u \<longleftrightarrow> exactlyOne q"
  by (simp add: requireOne_def)

context sql_source
begin

abbreviation "inside \<equiv> stays in_transaction (\<lambda>w. (committed w, receipts w))"
abbreviation "reads \<equiv> quiet (\<lambda>w. (working w, pending w))"

lemma query_inside [intro, simp]: "mutates s \<or> reading s \<Longrightarrow> inside (query s)"
  using query_stays mutates_inside by blast

lemma statements_reading [simp]:
  "reading (SqlSelect t ps cs order n lock)" "reading (SqlDeleteSafety t)" "reading (SqlUniqueKeys t)"
  "reading (SqlRelation t)" "reading (SqlViewDependencies x)" "reading (SqlPolicies x)"
  "reading (SqlSetLocal k i)" "reading (SqlSetConfig a b c d)" "reading (SqlReadReceipt t k)"
  by (simp_all add: reading_def)

lemma statements_mutating [simp]:
  "mutates (SqlUpdate t as cs ps)" "mutates (SqlInsert t row ps)" "mutates (SqlDelete t cs)"
  by (simp_all add: mutates_def)

text \<open>The reading steps: they stay inside the transaction and change nothing in it.\<close>

lemma inspect_inside: "inside (inspectPostgresRlsTargetInternal depth query settings t ops ancestors)"
  by (induction depth arbitrary: t ops ancestors)
    (auto simp: Let_def intro!: stays_bindM stays_traverseM split: option.splits json.splits)

lemma inspect_reads: "reads (inspectPostgresRlsTargetInternal depth query settings t ops ancestors)"
  by (induction depth arbitrary: t ops ancestors)
    (auto simp: Let_def query_quiet intro!: quiet_bindM quiet_traverseM split: option.splits json.splits)

lemma open_inside: "inside (openTransaction query j cfg)"
  unfolding openTransaction_def bindDatabaseScope_def assertPostgresRlsTarget_def bindPostgresRlsScope_def
  by (intro stays_bindM stays_optionM stays_traverseM inspect_inside query_inside stays_simps)
    (auto intro: inspect_inside)

lemma open_reads: "reads (openTransaction query j cfg)"
  unfolding openTransaction_def bindDatabaseScope_def assertPostgresRlsTarget_def bindPostgresRlsScope_def
  by (intro quiet_bindM quiet_optionM quiet_traverseM inspect_reads query_quiet quiet_simps)
    (auto intro: inspect_reads)

lemma locks_inside [intro]:
  "inside (lockPostgresFreshnessDependencies query j)" "inside (lockTargetRow query j)"
  "inside (safetyCode query j c b)" "inside (assertPostgresInsertDedupUniqueness query j sets)"
  "inside (lockPostgresFrozenMembers query j fs)" "inside (memberPresent query j m)"
  "inside (lockPostgresCompensationMembers query j d)"
  by (auto simp: lockPostgresFreshnessDependencies_def lockDependency_def lockTargetRow_def safetyCode_def
      assertPostgresInsertDedupUniqueness_def lockPostgresFrozenMembers_def memberPresent_def
      lockPostgresCompensationMembers_def Let_def
      intro!: stays_bindM stays_firstM stays_traverseM split: option.splits)

lemma locks_read [intro]:
  "reads (lockPostgresFreshnessDependencies query j)" "reads (lockTargetRow query j)"
  "reads (safetyCode query j c b)" "reads (assertPostgresInsertDedupUniqueness query j sets)"
  "reads (lockPostgresFrozenMembers query j fs)" "reads (memberPresent query j m)"
  "reads (lockPostgresCompensationMembers query j d)"
  by (auto simp: lockPostgresFreshnessDependencies_def lockDependency_def lockTargetRow_def safetyCode_def
      assertPostgresInsertDedupUniqueness_def lockPostgresFrozenMembers_def memberPresent_def
      lockPostgresCompensationMembers_def Let_def query_quiet
      intro!: quiet_bindM quiet_firstM quiet_traverseM split: option.splits)

lemma members_inside [intro]:
  "inside (mutateSetMember query j op m)" "inside (insertMember query j m)"
  "inside (compensateMember rt query j rop d im)"
  by (auto simp: mutateSetMember_def insertMember_def compensateMember_def memberStatement_mutates
      compensationStatement_mutates intro!: stays_bindM)

lemma rows_inside [intro]:
  "inside (updatePostgres rt query j)" "inside (deletePostgres rt query j)" "inside (insertPostgres rt query j)"
  by (auto simp: updatePostgres_def deletePostgres_def insertPostgres_def Let_def builders_mutate
      intro!: stays_liftE stays_bindM locks_inside split: option.splits job_version.splits)

lemma sets_inside:
  "inside (insertPostgresBatch query j fs)" "inside (mutatePostgresSet rt query j op fs)"
  "inside (mutatePostgresCompensation rt query j rop d)" "inside (mutateRow rt query j)"
  unfolding mutatePostgresCompensation_def mutatePostgresSet_def insertPostgresBatch_def mutateRow_def
  by (auto simp: Let_def intro!: stays_bindM stays_firstM stays_traverseM locks_inside members_inside rows_inside
      split: option.splits)

lemma mutate_inside: "inside (mutatePostgres rt query j)"
  unfolding mutatePostgres_def
  by (auto intro!: stays_bindM locks_inside rows_inside sets_inside split: option.splits)

text \<open>A statement whose row count was one has exactly its effect.\<close>

abbreviation "effect \<equiv> sqlEffect eq same updated inserted"
abbreviation "effects \<equiv> sqlEffects eq same updated inserted"

lemma query_effect:
  assumes "query s w = (Inr q, v)" and "exactlyOne q" and "mutates s"
  shows "effect s (working w) (working v) \<and> pending v = pending w"
proof (cases s)
  case (SqlUpdate t as cs ps)
  then show ?thesis using update_one assms by (simp add: sqlEffect_def exactlyOne_def)
next
  case (SqlInsert t row ps)
  with insert_law assms obtain n where n: "working v = (working w)(t := working w t + replicate_mset n (inserted row))"
    "pending v = pending w" "qr_count q = Some (int n)" by blast
  with assms(2) have "n = 1" by (simp add: exactlyOne_def)
  with n SqlInsert show ?thesis by (simp add: sqlEffect_def)
next
  case (SqlDelete t cs)
  then show ?thesis using delete_one assms by (simp add: sqlEffect_def exactlyOne_def)
qed (use assms(3) in \<open>simp_all add: mutates_def\<close>)

text \<open>A loop over statements, each of which must report one row.\<close>

lemma traverse_effects:
  assumes "\<And>x u y v. x \<in> set xs \<Longrightarrow> f x u = (Inr y, v) \<Longrightarrow>
      effect (st x) (working u) (working v) \<and> pending v = pending u"
    and "traverseM f xs w = (Inr ys, v)"
  shows "effects (map st xs) (working w) (working v) \<and> pending v = pending w"
  using assms
proof (induction xs arbitrary: w ys)
  case (Cons x xs)
  then obtain y u zs where first: "f x w = (Inr y, u)" and rest: "traverseM f xs u = (Inr zs, v)"
    by (auto simp: bindM_eq_Inr)
  from Cons.prems(1) [OF _ first] have "effect (st x) (working w) (working u) \<and> pending u = pending w"
    by simp
  moreover have "effects (map st xs) (working u) (working v) \<and> pending v = pending u"
    using Cons.prems(1) by (intro Cons.IH [OF _ rest]) (meson list.set_intros(2))
  ultimately show ?case by auto
qed simp

lemma reads_D: "reads m \<Longrightarrow> m w = (Inr x, v) \<Longrightarrow> working v = working w \<and> pending v = pending w"
  by (auto simp: quiet_def)

lemma setMember_effect:
  assumes "principalScope j = Inr scope" and "mutateSetMember query j op m w = (Inr y, v)"
  shows "effect (memberStatement j op scope m) (working w) (working v) \<and> pending v = pending w"
  using assms query_effect [OF _ _ memberStatement_mutates]
  by (auto simp: mutateSetMember_def bindM_eq_Inr)

lemma insertMember_effect:
  assumes "insertMember query j m w = (Inr y, v)"
  shows "effect (insertStatement j m) (working w) (working v) \<and> pending v = pending w"
  using assms query_effect [of "insertStatement j m"]
  by (auto simp: insertMember_def insertStatement_def bindM_eq_Inr)

lemma compensate_effect:
  assumes "principalScope j = Inr scope" and "compensateMember rt query j op d m w = (Inr y, v)"
  shows "effect (compensationStatement j op d scope m) (working w) (working v) \<and> pending v = pending w"
  using assms query_effect [OF _ _ compensationStatement_mutates]
  by (auto simp: compensateMember_def bindM_eq_Inr)

text \<open>A step that reads, then another.\<close>

lemma after_reading:
  assumes "bindM m f w = (Inr y, v)" and "reads m"
  obtains x u where "m w = (Inr x, u)" "f x u = (Inr y, v)" "working u = working w" "pending u = pending w"
proof -
  from assms(1) obtain x u where "m w = (Inr x, u)" "f x u = (Inr y, v)" by (auto simp: bindM_eq_Inr)
  with reads_D [OF assms(2)] that show thesis by blast
qed

text \<open>
  What an outcome says of the tables: an applied mutation has the effect of the statements of its
  job, in order, and any other outcome has changed nothing.
\<close>

definition outcomeHolds :: "job \<Rightarrow> outcome \<Rightarrow> 'w \<Rightarrow> 'w \<Rightarrow> bool" where
  "outcomeHolds j out w v \<longleftrightarrow> pending v = pending w
     \<and> (if oc_status out = TApplied
        then \<exists>ss. jobStatements j = Inr ss \<and> effects ss (working w) (working v)
        else working v = working w)"

lemma outcome_simps [simp]:
  "oc_status (conflictOutcome j c) = TConflict" "oc_status (failedOutcome j c) = TFailed"
  "oc_status (outcomeOf st n code ids) = st" "oc_status (appliedMembers j n es) = TApplied"
  by (simp_all add: conflictOutcome_def failedOutcome_def outcomeOf_def appliedMembers_def)

lemma update_holds:
  assumes "updatePostgres rt query j w = (Inr out, v)" and "jb_version j \<notin> {NormalizedV3, NormalizedV4}"
    and "operationOf j \<notin> {RowOp SingleRowInsert, RowOp SingleRowDelete}"
  shows "outcomeHolds j out w v"
proof -
  from assms(1) obtain s q u where s: "buildPostgresUpdate j = Inr s" and q: "query s w = (Inr q, u)"
    and one: "exactlyOne q" and out: "oc_status out = TApplied" "v = u"
    by (auto simp: updatePostgres_def bindM_eq_Inr Let_def)
  from query_effect [OF q one builders_mutate(1) [OF s]] out s assms(2,3) show ?thesis
    by (auto simp: outcomeHolds_def jobStatements_row)
qed

lemma delete_holds:
  assumes "deletePostgres rt query j w = (Inr out, v)" and "jb_version j \<notin> {NormalizedV3, NormalizedV4}"
    and "operationOf j = RowOp SingleRowDelete"
  shows "outcomeHolds j out w v"
proof -
  from assms(1) obtain unsafe u where same: "working u = working w" "pending u = pending w"
    and rest: "(case unsafe of Some code \<Rightarrow> returnM (failedOutcome j code)
     | None \<Rightarrow> bindM (liftE (buildPostgresDelete j)) (\<lambda>deletion.
         bindM (query deletion) (\<lambda>done.
         bindM (liftE (requireOne done ''VERSION_CONFLICT'' ''MULTI_ROW_WRITE_BLOCKED'')) (\<lambda>_.
         returnM ((outcomeOf TApplied 1 None (identityForJob j None))\<lparr>
           oc_before_digest := Some (reviewedDigest rt j),
           oc_tombstone_digest := Some (reconciliationDigest rt (JObj
             [(''identity'', identityJson (identityForJob j None)),
              (''expected'', guardJson (jb_conflict_guard j))]))\<rparr>))))) u = (Inr out, v)"
    unfolding deletePostgres_def by (blast elim: after_reading intro: locks_read(3))
  show ?thesis
  proof (cases unsafe)
    case None
    with rest obtain s q where s: "buildPostgresDelete j = Inr s" and q: "query s u = (Inr q, v)"
      and one: "exactlyOne q" and out: "oc_status out = TApplied"
      by (auto simp: bindM_eq_Inr)
    from query_effect [OF q one builders_mutate(3) [OF s]] out s same assms(2,3) show ?thesis
      by (auto simp: outcomeHolds_def jobStatements_row)
  qed (use rest same in \<open>auto simp: outcomeHolds_def\<close>)
qed

lemma insert_holds:
  assumes "insertPostgres rt query j w = (Inr out, v)" and "operationOf j = RowOp SingleRowInsert"
  shows "outcomeHolds j out w v"
proof -
  from assms(1) obtain cs where v2: "jb_version j = NormalizedV2" and cs: "jb_deduplication j = Some cs"
    by (auto simp: insertPostgres_def split: job_version.splits option.splits)
  with assms(1) obtain u scope existing x where u: "working u = working w" "pending u = pending w"
    and scope: "principalScope j = Inr scope"
    and found: "query (SqlSelect (targetTable j) [SqlText (jb_pk_column j) ''__synapsor_primary_key'']
      (dedupConditions cs scope) None None False) u = (Inr existing, x)"
    and rest: "(if anyRow existing then returnM (outcomeOf TConflict 0 (Some ''INSERT_DEDUP_CONFLICT'')
            (identityForJob j (Some (firstField existing ''__synapsor_primary_key''))))
        else
          bindM (liftE (buildPostgresInsert j)) (\<lambda>insertion.
          bindM (query insertion) (\<lambda>done.
          bindM (liftE (requireOne done ''INSERT_CONSTRAINT_FAILED'' ''MULTI_ROW_WRITE_BLOCKED'')) (\<lambda>_.
          let ids = identityForJob j (Some (firstField done ''__synapsor_primary_key'')) in
          bindM (liftE (insertValues j)) (\<lambda>vs.
          returnM ((outcomeOf TApplied 1 None ids)\<lparr>oc_after_digest := Some (reconciliationDigest rt
            (JObj [(''identity'', identityJson ids), (''values'', JObj vs)]))\<rparr>)))))) x = (Inr out, v)"
    by (auto simp: insertPostgres_def elim!: after_reading [OF _ locks_read(4)]) (auto simp: bindM_eq_Inr)
  from reads_D [OF query_quiet found] u have x: "working x = working w" "pending x = pending w" by simp_all
  show ?thesis
  proof (cases "anyRow existing")
    case False
    with rest obtain s q where s: "buildPostgresInsert j = Inr s" and q: "query s x = (Inr q, v)"
      and one: "exactlyOne q" and out: "oc_status out = TApplied"
      by (auto simp: bindM_eq_Inr Let_def)
    from query_effect [OF q one builders_mutate(2) [OF s]] out s x scope v2 assms(2) show ?thesis
      by (auto simp: outcomeHolds_def jobStatements_row)
  qed (use rest x in \<open>auto simp: outcomeHolds_def\<close>)
qed

lemma row_holds:
  assumes "mutateRow rt query j w = (Inr out, v)" and "jb_version j \<notin> {NormalizedV3, NormalizedV4}"
    and "operationOf j \<noteq> RowOp SingleRowInsert"
  shows "outcomeHolds j out w v"
proof -
  from assms(1) obtain locked u where same: "working u = working w" "pending u = pending w"
    and rest: "(case locked of
       None \<Rightarrow> returnM (conflictOutcome j ''ROW_NOT_FOUND'')
     | Some row \<Rightarrow>
         (let actual = (case guardColumn (jb_conflict_guard j) of None \<Rightarrow> JUndefined
                | Some c \<Rightarrow> (let v = field row ''__synapsor_conflict_value'' in
                    if v = JNull \<or> v = JUndefined then field row c else v));
              stale = (case jb_conflict_guard j of GuardColumn c \<Rightarrow> \<not> versionValuesMatch actual (cv_value c) | _ \<Rightarrow> False)
          in if stale then returnM ((conflictOutcome j ''VERSION_CONFLICT'')\<lparr>oc_result_version :=
               (if actual = JUndefined then None else Some (asScalar actual))\<rparr>)
             else if \<not> valuesMatch row (reviewedBefore j)
             then returnM (conflictOutcome j ''ROW_CHANGED_AFTER_PROPOSAL'')
             else if operationOf j = RowOp SingleRowDelete then deletePostgres rt query j
             else updatePostgres rt query j)) u = (Inr out, v)"
    unfolding mutateRow_def by (blast elim: after_reading intro: locks_read(2))
  consider "oc_status out = TConflict" "v = u" | "operationOf j = RowOp SingleRowDelete"
      "deletePostgres rt query j u = (Inr out, v)"
    | "operationOf j \<noteq> RowOp SingleRowDelete" "updatePostgres rt query j u = (Inr out, v)"
    using rest by (auto simp: Let_def split: option.splits if_splits)
  then have "outcomeHolds j out u v"
    using delete_holds [OF _ assms(2)] update_holds [OF _ assms(2)] assms(3)
    by cases (auto simp: outcomeHolds_def)
  with same show ?thesis unfolding outcomeHolds_def by auto
qed

lemma reading_holds:
  assumes "bindM m f w = (Inr out, v)" and "reads m"
    and "\<And>x u. f x u = (Inr out, v) \<Longrightarrow> outcomeHolds j out u v"
  shows "outcomeHolds j out w v"
  using assms(1)
proof (rule after_reading [OF _ assms(2)])
  fix x u
  assume run: "f x u = (Inr out, v)" and "working u = working w" "pending u = pending w"
  with assms(3) [OF run] show ?thesis unfolding outcomeHolds_def by auto
qed

lemma present_reads: "reads (firstM (memberPresent query j) ms)"
  by (intro quiet_firstM locks_read)

lemma inserts_hold:
  assumes "bindM (firstM (memberPresent query j) (fs_members fs)) (\<lambda>present.
      if present \<noteq> None then returnM (conflictOutcome j ''INSERT_DEDUP_CONFLICT'')
      else bindM (traverseM (insertMember query j) (fs_members fs)) (\<lambda>effects.
        returnM (appliedMembers j (fs_row_count fs) effects))) w = (Inr out, v)"
    and job: "jobStatements j = Inr (map (insertStatement j) (fs_members fs))"
  shows "outcomeHolds j out w v"
  using assms(1)
proof (rule reading_holds [OF _ present_reads])
  fix present u
  assume last: "(if present \<noteq> None then returnM (conflictOutcome j ''INSERT_DEDUP_CONFLICT'')
      else bindM (traverseM (insertMember query j) (fs_members fs)) (\<lambda>effects.
        returnM (appliedMembers j (fs_row_count fs) effects))) u = (Inr out, v)"
  show "outcomeHolds j out u v"
  proof (cases "present = None")
    case True
    with last obtain es where es: "traverseM (insertMember query j) (fs_members fs) u = (Inr es, v)"
      and out: "oc_status out = TApplied" by (auto simp: bindM_eq_Inr)
    from traverse_effects [OF insertMember_effect es] out job show ?thesis by (simp add: outcomeHolds_def)
  qed (use last in \<open>auto simp: outcomeHolds_def\<close>)
qed

lemma batch_holds:
  assumes "insertPostgresBatch query j fs w = (Inr out, v)"
    and job: "jobStatements j = Inr (map (insertStatement j) (fs_members fs))"
  shows "outcomeHolds j out w v"
  using assms(1) unfolding insertPostgresBatch_def
  by (rule reading_holds [OF _ locks_read(4)]) (rule inserts_hold [OF _ job])

lemma members_hold:
  assumes "(case unsafe of Some code \<Rightarrow> returnM (failedOutcome j code)
     | None \<Rightarrow> bindM (traverseM (mutateSetMember query j op) (fs_members fs)) (\<lambda>effects.
         returnM (appliedMembers j n effects))) u = (Inr out, v)"
    and scope: "principalScope j = Inr scope"
    and job: "jobStatements j = Inr (map (memberStatement j op scope) (fs_members fs))"
  shows "outcomeHolds j out u v"
proof (cases unsafe)
  case None
  with assms(1) obtain es where es: "traverseM (mutateSetMember query j op) (fs_members fs) u = (Inr es, v)"
    and out: "oc_status out = TApplied" by (auto simp: bindM_eq_Inr)
  from traverse_effects [OF setMember_effect [OF scope] es] out job show ?thesis
    by (simp add: outcomeHolds_def)
qed (use assms(1) in \<open>auto simp: outcomeHolds_def\<close>)

lemma set_holds:
  assumes run: "mutatePostgresSet rt query j op fs w = (Inr out, v)"
    and job: "jb_version j = NormalizedV3" "requireFrozenSet j = Inr (op, fs)"
    and scope: "principalScope j = Inr scope"
  shows "outcomeHolds j out w v"
proof (cases "op = BatchInsert")
  case True
  with run have "insertPostgresBatch query j fs w = (Inr out, v)" by (auto simp: mutatePostgresSet_def)
  then show ?thesis by (rule batch_holds) (simp add: jobStatements_def scope job True)
next
  case False
  have statements: "jobStatements j = Inr (map (memberStatement j op scope) (fs_members fs))"
    by (simp add: jobStatements_def scope job False)
  from run False have "bindM (lockPostgresFrozenMembers query j fs) (\<lambda>locked.
       if \<not> locked then returnM (conflictOutcome j ''SET_DRIFT_CONFLICT'')
       else
         bindM (if op = SetDelete then safetyCode query j ''DELETE'' True else returnM None) (\<lambda>unsafe.
         case unsafe of
           Some code \<Rightarrow> returnM (failedOutcome j code)
         | None \<Rightarrow> bindM (traverseM (mutateSetMember query j op) (fs_members fs)) (\<lambda>effects.
             returnM (appliedMembers j (fs_row_count fs) effects)))) w = (Inr out, v)"
    by (simp add: mutatePostgresSet_def)
  then show ?thesis
  proof (rule reading_holds [OF _ locks_read(5)])
    fix locked u
    assume last: "(if \<not> locked then returnM (conflictOutcome j ''SET_DRIFT_CONFLICT'')
       else
         bindM (if op = SetDelete then safetyCode query j ''DELETE'' True else returnM None) (\<lambda>unsafe.
         case unsafe of
           Some code \<Rightarrow> returnM (failedOutcome j code)
         | None \<Rightarrow> bindM (traverseM (mutateSetMember query j op) (fs_members fs)) (\<lambda>effects.
             returnM (appliedMembers j (fs_row_count fs) effects)))) u = (Inr out, v)"
    have quiet: "reads (if op = SetDelete then safetyCode query j ''DELETE'' True else returnM None)" by auto
    show "outcomeHolds j out u v"
    proof (cases locked)
      case True
      with last show ?thesis
        by (simp only: not_True_eq_False if_False)
          (erule reading_holds [OF _ quiet], erule members_hold [OF _ scope statements])
    qed (use last in \<open>auto simp: outcomeHolds_def\<close>)
  qed
qed

lemma compensated_hold:
  assumes "(case unsafe of Some code \<Rightarrow> returnM (failedOutcome j code)
     | None \<Rightarrow> bindM (traverseM (compensateMember rt query j op d) (id_members d)) (\<lambda>effects.
         bindM (liftE (compensationInverseFromJob rt j op d)) (\<lambda>backward.
         returnM ((appliedMembers j (int (length (id_members d))) effects)\<lparr>
           oc_inverse := Some backward\<rparr>)))) u = (Inr out, v)"
    and scope: "principalScope j = Inr scope"
    and job: "jobStatements j = Inr (map (compensationStatement j op d scope) (id_members d))"
  shows "outcomeHolds j out u v"
proof (cases unsafe)
  case None
  with assms(1) obtain es where es: "traverseM (compensateMember rt query j op d) (id_members d) u = (Inr es, v)"
    and out: "oc_status out = TApplied" by (auto simp: bindM_eq_Inr)
  from traverse_effects [OF compensate_effect [OF scope] es] out job show ?thesis
    by (simp add: outcomeHolds_def)
qed (use assms(1) in \<open>auto simp: outcomeHolds_def\<close>)

lemma compensation_holds:
  assumes run: "mutatePostgresCompensation rt query j op d w = (Inr out, v)"
    and job: "jb_version j = NormalizedV4" "requireCompensation j = Inr (op, d)"
    and scope: "principalScope j = Inr scope"
  shows "outcomeHolds j out w v"
proof -
  have statements: "jobStatements j = Inr (map (compensationStatement j op d scope) (id_members d))"
    by (simp add: jobStatements_def scope job)
  have quiet: "reads (if op = RestoreUpdate then returnM None
      else safetyCode query j ''COMPENSATION'' (op = RemoveInsert))" by auto
  from run have "bindM (lockPostgresCompensationMembers query j d) (\<lambda>rows.
     case compensationConflict j op d rows of
       Some code \<Rightarrow> returnM (conflictOutcome j code)
     | None \<Rightarrow>
         bindM (if op = RestoreUpdate then returnM None
                else safetyCode query j ''COMPENSATION'' (op = RemoveInsert)) (\<lambda>unsafe.
         case unsafe of
           Some code \<Rightarrow> returnM (failedOutcome j code)
         | None \<Rightarrow>
             bindM (traverseM (compensateMember rt query j op d) (id_members d)) (\<lambda>effects.
             bindM (liftE (compensationInverseFromJob rt j op d)) (\<lambda>backward.
             returnM ((appliedMembers j (int (length (id_members d))) effects)\<lparr>
               oc_inverse := Some backward\<rparr>))))) w = (Inr out, v)"
    by (simp add: mutatePostgresCompensation_def)
  then show ?thesis
  proof (rule reading_holds [OF _ locks_read(7)])
    fix rows u
    assume last: "(case compensationConflict j op d rows of
       Some code \<Rightarrow> returnM (conflictOutcome j code)
     | None \<Rightarrow>
         bindM (if op = RestoreUpdate then returnM None
                else safetyCode query j ''COMPENSATION'' (op = RemoveInsert)) (\<lambda>unsafe.
         case unsafe of
           Some code \<Rightarrow> returnM (failedOutcome j code)
         | None \<Rightarrow>
             bindM (traverseM (compensateMember rt query j op d) (id_members d)) (\<lambda>effects.
             bindM (liftE (compensationInverseFromJob rt j op d)) (\<lambda>backward.
             returnM ((appliedMembers j (int (length (id_members d))) effects)\<lparr>
               oc_inverse := Some backward\<rparr>))))) u = (Inr out, v)"
    show "outcomeHolds j out u v"
    proof (cases "compensationConflict j op d rows")
      case None
      with last show ?thesis
        by (simp only: option.case)
          (erule reading_holds [OF _ quiet], erule compensated_hold [OF _ scope statements])
    qed (use last in \<open>auto simp: outcomeHolds_def\<close>)
  qed
qed

lemma set_scope: "mutatePostgresSet rt query j op fs w = (Inr out, v) \<Longrightarrow> \<exists>scope. principalScope j = Inr scope"
  by (auto simp: mutatePostgresSet_def insertPostgresBatch_def assertPostgresInsertDedupUniqueness_def
      lockPostgresFrozenMembers_def bindM_eq_Inr Let_def split: if_splits)

lemma compensation_scope:
  "mutatePostgresCompensation rt query j op d w = (Inr out, v) \<Longrightarrow> \<exists>scope. principalScope j = Inr scope"
  by (auto simp: mutatePostgresCompensation_def lockPostgresCompensationMembers_def bindM_eq_Inr Let_def)

lemma mutate_holds:
  assumes run: "mutatePostgres rt query j w = (Inr out, v)"
  shows "outcomeHolds j out w v"
proof (cases "jb_version j = NormalizedV4")
  case True
  with run obtain op d where job: "requireCompensation j = Inr (op, d)"
    and body: "mutatePostgresCompensation rt query j op d w = (Inr out, v)"
    by (auto simp: mutatePostgres_def)
  from compensation_scope [OF body] obtain scope where "principalScope j = Inr scope" ..
  from compensation_holds [OF body True job this] show ?thesis .
next
  case False
  with run have "bindM (lockPostgresFreshnessDependencies query j) (\<lambda>stale. case stale of
      Some code \<Rightarrow> returnM (conflictOutcome j code)
    | None \<Rightarrow>
        if jb_version j = NormalizedV3
        then bindM (liftE (requireFrozenSet j)) (\<lambda>(op, fs). mutatePostgresSet rt query j op fs)
        else if operationOf j = RowOp SingleRowInsert then insertPostgres rt query j
        else mutateRow rt query j) w = (Inr out, v)" by (simp add: mutatePostgres_def)
  then show ?thesis
  proof (rule reading_holds [OF _ locks_read(1)])
    fix stale u
    assume rest: "(case stale of
        Some code \<Rightarrow> returnM (conflictOutcome j code)
      | None \<Rightarrow>
          if jb_version j = NormalizedV3
          then bindM (liftE (requireFrozenSet j)) (\<lambda>(op, fs). mutatePostgresSet rt query j op fs)
          else if operationOf j = RowOp SingleRowInsert then insertPostgres rt query j
          else mutateRow rt query j) u = (Inr out, v)"
    consider code where "stale = Some code" | "stale = None" "jb_version j = NormalizedV3"
      | "stale = None" "jb_version j \<noteq> NormalizedV3" by blast
    then show "outcomeHolds j out u v"
    proof cases
      case 2
      with rest obtain op fs where job: "requireFrozenSet j = Inr (op, fs)"
        and body: "mutatePostgresSet rt query j op fs u = (Inr out, v)" by auto
      from set_scope [OF body] obtain scope where "principalScope j = Inr scope" ..
      from set_holds [OF body 2(2) job this] show ?thesis .
    next
      case 3
      with rest False show ?thesis using insert_holds row_holds by (auto split: if_splits)
    qed (use rest in \<open>auto simp: outcomeHolds_def\<close>)
  qed
qed

subsubsection \<open>The transaction\<close>

definition committedAs :: "('w, 'a) io \<Rightarrow> 'a \<Rightarrow> 'w \<Rightarrow> 'w \<Rightarrow> bool" where
  "committedAs body x w v \<longleftrightarrow> (\<exists>a b. working a = committed w \<and> pending a = receipts w
     \<and> body a = (Inr x, b) \<and> committed v = working b \<and> receipts v = pending b)"

definition untouched :: "'w \<Rightarrow> 'w \<Rightarrow> bool" where
  "untouched w v \<longleftrightarrow> committed v = committed w \<and> receipts v = receipts w"

lemma inside_D: "inside m \<Longrightarrow> in_transaction w \<Longrightarrow> m w = (r, v) \<Longrightarrow> in_transaction v \<and> untouched w v"
  by (auto simp: stays_def untouched_def)

lemma commit_result:
  assumes "bindM (catchM (query SqlCommit) (\<lambda>_. throwM OutcomeUnknown)) (\<lambda>_. returnM x) w = (r, v)"
  shows "(r = Inr x \<and> committed v = working w \<and> receipts v = pending w)
    \<or> (r = Inl OutcomeUnknown \<and> (untouched w v \<or> committed v = working w \<and> receipts v = pending w))"
proof -
  obtain q u where q: "query SqlCommit w = (q, u)" by fastforce
  show ?thesis
  proof (cases q)
    case (Inl e)
    with q assms have "r = Inl OutcomeUnknown" "v = u" by (simp_all add: bindM_def catchM_def)
    with commit_lost [of w e u] q Inl show ?thesis by (auto simp: untouched_def)
  next
    case (Inr a)
    with q assms have "r = Inr x" "v = u" by (simp_all add: bindM_def catchM_def)
    with commit_law [of w a u] q Inr show ?thesis by simp
  qed
qed

lemma transaction_result:
  fixes body :: "('w, 'a) io"
  assumes "inside body" and "\<And>n. inside (failpoint n)" and "\<And>n. reads (failpoint n)"
    and run: "sourceTransaction query j cfg failpoint body w = (r, v)"
  shows "(case r of Inr x \<Rightarrow> committedAs body x w v
    | Inl e \<Rightarrow> untouched w v \<or> (e = OutcomeUnknown \<and> (\<exists>x. committedAs body x w v)))"
proof -
  define before :: "('w, 'a) io" where "before = bindM (openTransaction query j cfg) (\<lambda>_.
     bindM (failpoint ''after_source_begin'') (\<lambda>_. bindM body (\<lambda>x.
     bindM (failpoint ''after_source_mutation'') (\<lambda>_.
     bindM (failpoint ''before_source_commit'') (\<lambda>_. returnM x)))))"
  define ending where "ending = (\<lambda>x :: 'a. bindM (catchM (query SqlCommit) (\<lambda>_. throwM OutcomeUnknown)) (\<lambda>_. returnM x))"
  define undo :: "err \<Rightarrow> ('w, 'a) io" where "undo = (\<lambda>e. if e = OutcomeUnknown then throwM e
     else bindM (catchM (query SqlRollback) (\<lambda>_. throwM OutcomeUnknown)) (\<lambda>_. throwM e))"
  have shape: "sourceTransaction query j cfg failpoint body
      = bindM (query SqlBegin) (\<lambda>_. catchM (bindM before ending) undo)"
    by (simp add: sourceTransaction_def before_def ending_def undo_def bindM_assoc bindM_returnM)
  have before_inside: "inside before" unfolding before_def
    by (intro stays_bindM open_inside assms(1,2) stays_simps)
  have undone: "untouched u t" if "undo e u = (q, t)" "in_transaction u" for e q u t
    using that isolation [of u SqlRollback]
    by (auto simp: undo_def bindM_def catchM_def untouched_def split: if_splits prod.splits sum.splits)
  obtain q w1 where q: "query SqlBegin w = (q, w1)" by fastforce
  show ?thesis
  proof (cases q)
    case (Inl e)
    with q run isolation [of w SqlBegin] show ?thesis by (auto simp: shape bindM_def untouched_def)
  next
    case (Inr q')
    with q begin_law isolation [of w SqlBegin] have w1: "in_transaction w1" "working w1 = committed w"
      "pending w1 = receipts w" "untouched w w1" by (auto simp: untouched_def)
    from run q Inr have main: "catchM (bindM before ending) undo w1 = (r, v)" by (simp add: shape)
    obtain s w2 where s: "before w1 = (s, w2)" by fastforce
    from inside_D [OF before_inside w1(1) s] w1(4) have w2: "in_transaction w2" "untouched w w2"
      by (auto simp: untouched_def)
    show ?thesis
    proof (cases s)
      case (Inl e)
      with main s have "undo e w2 = (r, v)" by (simp add: catchM_def bindM_def)
      with undone w2 have "untouched w v" by (auto simp: untouched_def)
      moreover have "\<exists>e'. r = Inl e'" using \<open>undo e w2 = (r, v)\<close>
        by (auto simp: undo_def bindM_def catchM_def split: if_splits prod.splits sum.splits)
      ultimately show ?thesis by auto
    next
      case (Inr x)
      from s Inr obtain a b where a: "working a = working w1" "pending a = pending w1"
        and body: "body a = (Inr x, b)" and b: "working w2 = working b" "pending w2 = pending b"
        unfolding before_def
        by (auto simp: bindM_eq_Inr dest!: reads_D [OF open_reads] reads_D [OF assms(3)])
      have finished: "committedAs body x w t" if "committed t = working w2" "receipts t = pending w2" for t
        unfolding committedAs_def using that a b body w1 by auto
      obtain y t where y: "ending x w2 = (y, t)" by fastforce
      from commit_result [of x w2 y t] y
      consider "y = Inr x" "committedAs body x w t"
        | "y = Inl OutcomeUnknown" "untouched w2 t \<or> committedAs body x w t"
        using finished by (auto simp: ending_def)
      then show ?thesis
      proof cases
        case 1
        with main s Inr y show ?thesis by (auto simp: catchM_def bindM_def)
      next
        case 2
        with main s Inr y w2 show ?thesis
          by (auto simp: catchM_def bindM_def undo_def untouched_def)
      qed
    qed
  qed
qed

end

end
