(* ===== verification/PostgresSamples.thy ===== *)
theory PostgresSamples
  imports PostgresLemmas Samples
begin

text \<open>
  A source in memory with the row of the sample job and a row of another tenant with the same key, and
  the runs of the adapter on it that the witnesses use, evaluated.
\<close>

text \<open>A sequence of attempts to apply one job, each by its own runner configuration and at its own time.\<close>

fun applyAttempts ::
  "runtime \<Rightarrow> 'w client \<Rightarrow> 'w intent_store option \<Rightarrow> (string \<Rightarrow> ('w, unit) io) \<Rightarrow> job
    \<Rightarrow> (runner_config \<times> time) list \<Rightarrow> 'w \<Rightarrow> 'w" where
  "applyAttempts rt query store failpoint j [] w = w"
| "applyAttempts rt query store failpoint j ((cfg, clock) # as) w =
     applyAttempts rt query store failpoint j as
       (snd (applyPostgresJobWithClient rt query store failpoint j cfg clock w))"

definition sampleRow :: "string \<Rightarrow> int \<Rightarrow> srow" where
  "sampleRow tenant f = [(''k'', JNum (IntN 1)), (''n'', JStr tenant), (''f'', JNum (IntN f)), (''v'', JNum (IntN 3))]"

definition sampleSource :: "mem_fault list \<Rightarrow> mem_db" where
  "sampleSource faults = \<lparr>md_committed = [((''x'', ''y''), [sampleRow ''t'' 55, sampleRow ''other'' 55])],
     md_working = [], md_receipts = [], md_pending = [], md_open = False, md_unique = [], md_safety = [],
     md_faults = faults\<rparr>"

definition sampleConfig :: runner_config where
  "sampleConfig = \<lparr>cf_runner_id = ''r'', cf_database_url = ''url'', cf_statement_timeout = Some 1000,
     cf_dry_run = False, cf_receipts = None, cf_database_scope = None\<rparr>"

text \<open>Begin, two time limits, claim, lock, update, record: the eighth statement is the commit.\<close>

definition lostCommit :: "mem_fault list" where
  "lostCommit = replicate 7 Sound @ [AnswerLost (DbError ''08006'' ''lost'')]"

definition sampleRun :: "mem_db \<Rightarrow> wb_result result \<times> mem_db" where
  "sampleRun = applyPostgresJobWithClient sampleRuntime memClient None noFailpoint sampleJob sampleConfig 7000"

definition sampleAttempts :: "(runner_config \<times> time) list \<Rightarrow> mem_db \<Rightarrow> mem_db" where
  "sampleAttempts = applyAttempts sampleRuntime memClient None noFailpoint sampleJob"

definition sampleRows :: "mem_db \<Rightarrow> srow list" where
  "sampleRows d = rowsOf (md_committed d) (''x'', ''y'')"

lemma sample_authority: "receiptAuthority sampleConfig = SourceDb"
  by (simp add: receiptAuthority_def sampleConfig_def)

lemma sample_run: "map_sum id wr_status (fst (sampleRun (sampleSource []))) = Inr TApplied"
  by code_simp

lemma sample_run_rows: "sampleRows (snd (sampleRun (sampleSource []))) = [sampleRow ''t'' 0, sampleRow ''other'' 55]"
  by code_simp

lemma lost_run: "map_sum id wr_status (fst (sampleRun (sampleSource lostCommit))) = Inr TReconciliationRequired"
  by code_simp

lemma retried_rows: "sampleRows (sampleAttempts [(sampleConfig, 1), (sampleConfig, 2)] (sampleSource lostCommit))
    = [sampleRow ''t'' 0, sampleRow ''other'' 55]"
  by code_simp

lemma written_source:
  assumes "sampleRows d = [sampleRow ''t'' 0, sampleRow ''other'' 55]"
  shows "memCommitted d \<noteq> memCommitted (sampleSource faults)"
proof -
  have "sampleRow ''t'' 0 \<in># memCommitted d (''x'', ''y'')"
    using assms by (simp add: memCommitted_def memTables_def sampleRows_def)
  moreover have "sampleRow ''t'' 0 \<notin># memCommitted (sampleSource faults) (''x'', ''y'')"
    by (simp add: memCommitted_def memTables_def rowsOf_def sampleSource_def sampleRow_def)
  ultimately show ?thesis by metis
qed

end
