(* ===== verification/PostgresProperties.thy ===== *)
theory PostgresProperties
  imports PostgresSamples
begin

text \<open>
  The properties of the PostgreSQL adapter: what is committed after a job has been applied, failed or
  been lost, which rows its statements can reach, that a retry never writes twice, what a clean
  row-level-security report guarantees and what a reconciliation may conclude.
\<close>

subsection \<open>Results and receipts\<close>

lemma resultFromOutcome_status:
  "resultFromOutcome rt j cfg clock out h = Inr res \<Longrightarrow> wr_status res = oc_status out"
  by (auto simp: resultFromOutcome_def Let_def blankResult_def bindE_eq_Inr split: job_version.splits)

lemma failedResult_status: "failedResult rt j cfg clock code = Inr res \<Longrightarrow> wr_status res = TFailed"
  by (auto simp: failedResult_def dest!: resultFromOutcome_status)

lemma existingReceipt_status:
  "resultFromExistingReceipt rt j cfg clock st h = Inr res \<Longrightarrow>
    wr_status res \<in> {TAlreadyApplied, TConflict, TFailed}"
  by (auto simp: resultFromExistingReceipt_def Let_def split: if_splits
      dest!: resultFromOutcome_status failedResult_status)

context sql_source
begin

lemma claim_receipt:
  assumes "claimSourceReceipt rt query j cfg clock a = (Inr found, b)"
  shows "(case found of
      None \<Rightarrow> pending a (jb_idempotency_key j) = None \<and> working b = working a
        \<and> pending b = (pending a)(jb_idempotency_key j \<mapsto> (''in_progress'', None))
    | Some res \<Rightarrow> pending a (jb_idempotency_key j) \<noteq> None \<and> working b = working a \<and> pending b = pending a
        \<and> wr_status res \<in> {TAlreadyApplied, TConflict, TFailed})"
proof -
  from assms obtain t q u where q: "query (SqlClaimReceipt t (jb_idempotency_key j) (jb_id j) (jb_proposal_id j)) a
      = (Inr q, u)"
    and rest: "(if exactlyOne q then returnM None
     else bindM (query (SqlReadReceipt t (jb_idempotency_key j))) (\<lambda>receipt.
       bindM (liftE (case firstRow receipt of
           None \<Rightarrow> failedResult rt j cfg clock ''SOURCE_RECEIPT_UNAVAILABLE''
         | Some row \<Rightarrow> resultFromExistingReceipt rt j cfg clock (field row ''status'') (field row ''result_hash'')))
         (\<lambda>w. returnM (Some w)))) u = (Inr found, b)"
    by (auto simp: claimSourceReceipt_def bindM_eq_Inr)
  show ?thesis
  proof (cases "exactlyOne q")
    case True
    with rest claim_law [OF q] show ?thesis by (auto simp: exactlyOne_def split: option.splits)
  next
    case False
    with rest obtain r res where r: "query (SqlReadReceipt t (jb_idempotency_key j)) u = (Inr r, b)"
      and res: "(case firstRow r of
           None \<Rightarrow> failedResult rt j cfg clock ''SOURCE_RECEIPT_UNAVAILABLE''
         | Some row \<Rightarrow> resultFromExistingReceipt rt j cfg clock (field row ''status'') (field row ''result_hash''))
         = Inr res" and found: "found = Some res"
      by (auto simp: bindM_eq_Inr)
    have "wr_status res \<in> {TAlreadyApplied, TConflict, TFailed}"
      using res failedResult_status existingReceipt_status by (auto split: option.splits)
    moreover have "working b = working u \<and> pending b = pending u"
      using reading_law [OF _ r] by (simp add: reading_def)
    ultimately show ?thesis using found False claim_law [OF q]
      by (auto simp: exactlyOne_def split: option.splits)
  qed
qed

text \<open>The body of a transaction with a source receipt.\<close>

definition receiptHolds :: "job \<Rightarrow> wb_result \<Rightarrow> 'w \<Rightarrow> 'w \<Rightarrow> bool" where
  "receiptHolds j res a b \<longleftrightarrow> (case pending a (jb_idempotency_key j) of
      Some _ \<Rightarrow> working b = working a \<and> pending b = pending a
        \<and> wr_status res \<in> {TAlreadyApplied, TConflict, TFailed}
    | None \<Rightarrow> pending b (jb_idempotency_key j) \<noteq> None
        \<and> (if wr_status res = TApplied
           then \<exists>ss. jobStatements j = Inr ss \<and> effects ss (working a) (working b)
           else working b = working a))"

lemma receipt_body:
  assumes "applyWithSourceReceipt rt query j cfg clock a = (Inr res, b)"
  shows "receiptHolds j res a b"
proof -
  from assms obtain found u where claim: "claimSourceReceipt rt query j cfg clock a = (Inr found, u)"
    and rest: "(case found of Some w \<Rightarrow> returnM w
     | None \<Rightarrow>
         bindM (mutatePostgres rt query j) (\<lambda>out.
         bindM (liftE (resultFromOutcome rt j cfg clock out None)) (\<lambda>w.
         bindM (recordSourceReceipt query j cfg (terminalStatusStr (oc_status out))
                  (resultHashFromResult rt j w)) (\<lambda>_.
         returnM w)))) u = (Inr res, b)"
    by (auto simp: applyWithSourceReceipt_def bindM_eq_Inr)
  show ?thesis
  proof (cases found)
    case (Some w)
    with rest claim_receipt [OF claim] show ?thesis by (auto simp: receiptHolds_def)
  next
    case None
    with rest obtain out x t q where out: "mutatePostgres rt query j u = (Inr out, x)"
      and res: "resultFromOutcome rt j cfg clock out None = Inr res"
      and q: "query (SqlRecordReceipt t (jb_idempotency_key j) (terminalStatusStr (oc_status out))
        (resultHashFromResult rt j res)) x = (Inr q, b)"
      by (auto simp: recordSourceReceipt_def bindM_eq_Inr)
    from claim_receipt [OF claim] None have u: "pending a (jb_idempotency_key j) = None" "working u = working a"
      "pending u (jb_idempotency_key j) \<noteq> None" by auto
    from mutate_holds [OF out] have x: "outcomeHolds j out u x" .
    from record_law [OF q] x u have "working b = working x" "pending b (jb_idempotency_key j) \<noteq> None"
      by (auto simp: outcomeHolds_def split: option.splits)
    with x u resultFromOutcome_status [OF res] show ?thesis
      by (auto simp: outcomeHolds_def receiptHolds_def)
  qed
qed

lemma receipt_inside: "inside (applyWithSourceReceipt rt query j cfg clock)"
proof -
  have "inside (query s)" if "s = SqlClaimReceipt t k i p \<or> s = SqlRecordReceipt t k h n" for s t k i p h n
    using that by (intro query_stays) auto
  then show ?thesis unfolding applyWithSourceReceipt_def claimSourceReceipt_def recordSourceReceipt_def
    by (auto intro!: stays_bindM mutate_inside split: option.splits)
qed

lemma no_failpoint: "inside (noFailpoint n)" "reads (noFailpoint n)"
  by (simp_all add: noFailpoint_def)

text \<open>A source-receipt run of a job: what it returns, and what is committed after it.\<close>

definition sourceRun :: "job \<Rightarrow> wb_result result \<Rightarrow> 'w \<Rightarrow> 'w \<Rightarrow> bool" where
  "sourceRun j r w v \<longleftrightarrow> (\<exists>a b res. working a = committed w \<and> pending a = receipts w
      \<and> receiptHolds j res a b \<and> committed v = working b \<and> receipts v = pending b
      \<and> (r = Inr res \<or> (\<exists>res'. r = Inr res' \<and> wr_status res' = TReconciliationRequired)))
    \<or> (untouched w v \<and> (\<forall>res. r = Inr res \<longrightarrow> wr_status res = TReconciliationRequired))"

lemma reconciliationResult_status [simp]:
  "wr_status (reconciliationResult rt j cfg clock i c) = TReconciliationRequired"
  by (auto simp: reconciliationResult_def Let_def blankResult_def split: job_version.splits)

lemma source_run:
  assumes "applyPostgresJobWithClient rt query store failpoint j cfg clock w = (r, v)"
    and "receiptAuthority cfg = SourceDb"
  shows "sourceRun j r w v"
proof -
  let ?body = "applyWithSourceReceipt rt query j cfg clock"
  let ?tx = "sourceTransaction query j cfg noFailpoint ?body"
  define recover where "recover = (\<lambda>e. if e = OutcomeUnknown
     then returnM (reconciliationResult rt j cfg clock (sourceReconciliationIntentId rt j) ''OUTCOME_UNKNOWN'')
     else throwM e :: ('w, wb_result) io)"
  define prepare where "prepare = whenM (\<exists>r \<in> set_option (cf_receipts cfg). rx_auto_migrate r)
     (bindM (liftE (sourceReceiptTable cfg)) (\<lambda>t. bindM (query (SqlMigrate t)) (\<lambda>_. returnM ())))"
  have shape: "applyPostgresJobWithClient rt query store failpoint j cfg clock
      = bindM (liftE (validateOperation rt j)) (\<lambda>_. bindM prepare (\<lambda>_. catchM ?tx recover))"
    using assms(2) by (simp add: applyPostgresJobWithClient_def prepare_def recover_def)
  have prepared: "untouched w u" if "prepare w = (s, u)" for s u
    using that migrate_law
    by (auto simp: prepare_def whenM_def bindM_def untouched_def split: if_splits sum.splits prod.splits)
  show ?thesis
  proof (cases "validateOperation rt j")
    case (Inl e)
    with assms(1) show ?thesis by (auto simp: shape bindM_def sourceRun_def untouched_def)
  next
    case (Inr x)
    obtain s u where s: "prepare w = (s, u)" by fastforce
    show ?thesis
    proof (cases s)
      case (Inl e)
      with assms(1) Inr s prepared [OF s] show ?thesis by (auto simp: shape bindM_def sourceRun_def)
    next
      case (Inr y)
      with assms(1) \<open>validateOperation rt j = Inr x\<close> s have main: "catchM ?tx recover u = (r, v)"
        by (simp add: shape)
      obtain q t where q: "?tx u = (q, t)" by fastforce
      from transaction_result [OF receipt_inside no_failpoint q]
      consider res where "q = Inr res" "committedAs ?body res u t"
        | e where "q = Inl e" "untouched u t"
        | res where "q = Inl OutcomeUnknown" "committedAs ?body res u t"
        by (auto split: sum.splits)
      then show ?thesis
      proof cases
        case 1
        with main q have "r = Inr res" "v = t" by (simp_all add: catchM_def)
        with 1 prepared [OF s] receipt_body show ?thesis
          by (fastforce simp: sourceRun_def committedAs_def untouched_def)
      next
        case 2
        with main q prepared [OF s] show ?thesis
          by (auto simp: catchM_def recover_def sourceRun_def untouched_def split: if_splits)
      next
        case 3
        with main q have "v = t" "r = Inr (reconciliationResult rt j cfg clock (sourceReconciliationIntentId rt j)
          ''OUTCOME_UNKNOWN'')" by (simp_all add: catchM_def recover_def)
        with 3 prepared [OF s] receipt_body show ?thesis
          by (fastforce simp: sourceRun_def committedAs_def untouched_def)
      qed
    qed
  qed
qed

lemma all_or_nothing:
  assumes "applyPostgresJobWithClient rt query store failpoint j cfg clock w = (r, v)"
    and "receiptAuthority cfg = SourceDb"
  shows "(committed v = committed w \<and> (receipts v = receipts w \<or> receipts v (jb_idempotency_key j) \<noteq> None)
      \<or> receipts w (jb_idempotency_key j) = None \<and> receipts v (jb_idempotency_key j) \<noteq> None
        \<and> (\<exists>ss. jobStatements j = Inr ss \<and> effects ss (committed w) (committed v)))
    \<and> (case r of
        Inl e \<Rightarrow> committed v = committed w
      | Inr res \<Rightarrow>
          (wr_status res = TApplied \<longrightarrow> receipts w (jb_idempotency_key j) = None
            \<and> (\<exists>ss. jobStatements j = Inr ss \<and> effects ss (committed w) (committed v)))
          \<and> (wr_status res \<notin> {TApplied, TReconciliationRequired} \<longrightarrow> committed v = committed w))"
  using source_run [OF assms] unfolding sourceRun_def
proof (elim disjE exE conjE)
  fix a b res
  assume a: "working a = committed w" "pending a = receipts w" and holds: "receiptHolds j res a b"
    and b: "committed v = working b" "receipts v = pending b" and r: "r = Inr res"
  show ?thesis
  proof (cases "receipts w (jb_idempotency_key j)")
    case None
    with holds a b have "receipts v (jb_idempotency_key j) \<noteq> None"
      "if wr_status res = TApplied then \<exists>ss. jobStatements j = Inr ss \<and> effects ss (committed w) (committed v)
       else committed v = committed w" unfolding receiptHolds_def by auto
    with None r show ?thesis by (cases "wr_status res = TApplied") auto
  next
    case (Some x)
    with holds a b have "committed v = committed w" "receipts v = receipts w"
      "wr_status res \<in> {TAlreadyApplied, TConflict, TFailed}" unfolding receiptHolds_def by auto
    with r show ?thesis by auto
  qed
next
  fix a b res res'
  assume a: "working a = committed w" "pending a = receipts w" and holds: "receiptHolds j res a b"
    and b: "committed v = working b" "receipts v = pending b"
    and r: "r = Inr res'" "wr_status res' = TReconciliationRequired"
  from holds a b have "committed v = committed w \<and> (receipts v = receipts w \<or> receipts v (jb_idempotency_key j) \<noteq> None)
      \<or> receipts w (jb_idempotency_key j) = None \<and> receipts v (jb_idempotency_key j) \<noteq> None
        \<and> (\<exists>ss. jobStatements j = Inr ss \<and> effects ss (committed w) (committed v))"
    unfolding receiptHolds_def by (auto split: option.splits if_splits)
  with r show ?thesis by simp
next
  assume "untouched w v" and "\<forall>res. r = Inr res \<longrightarrow> wr_status res = TReconciliationRequired"
  then show ?thesis by (auto simp: untouched_def split: sum.splits)
qed

end

subsection \<open>Applying a job\<close>

text \<open>C4: With source-database receipts, applying a job is all or nothing.  If anything is committed, it is the
  effect of exactly the statements of the job, each on the one row its guards select, and the job had
  no receipt before.  A result that says applied is such a commit; any other terminal result and every
  exception leaves the source as it was.  Only a lost COMMIT acknowledgement leaves the question open,
  and it is reported as needing reconciliation.\<close>

theorem apply_is_all_or_nothing:
  assumes source: "sql_source query committed working inTx receipts pending eq same asText updated inserted"
    and run: "applyPostgresJobWithClient rt query store failpoint j cfg clock w = (r, v)"
    and "receiptAuthority cfg = SourceDb"
  shows "(committed v = committed w \<or> (receipts w (jb_idempotency_key j) = None
        \<and> (\<exists>ss. jobStatements j = Inr ss \<and> sqlEffects eq same updated inserted ss (committed w) (committed v))))
    \<and> (case r of
        Inl e \<Rightarrow> committed v = committed w
      | Inr res \<Rightarrow>
          (wr_status res = TApplied \<longrightarrow> receipts w (jb_idempotency_key j) = None
            \<and> (\<exists>ss. jobStatements j = Inr ss \<and> sqlEffects eq same updated inserted ss (committed w) (committed v)))
          \<and> (wr_status res \<notin> {TApplied, TReconciliationRequired} \<longrightarrow> committed v = committed w))"
  using sql_source.all_or_nothing [OF source run assms(3)] by (simp split: sum.splits) blast

theorem apply_is_all_or_nothing_witness:
  "\<exists>ss. jobStatements sampleJob = Inr ss \<and> sqlEffects memEq memSame memUpdated memInserted ss
     (memCommitted (sampleSource [])) (memCommitted (snd (sampleRun (sampleSource []))))"
proof -
  from sample_run obtain res where res: "fst (sampleRun (sampleSource [])) = Inr res" "wr_status res = TApplied"
    by (cases "fst (sampleRun (sampleSource []))") auto
  then have "sampleRun (sampleSource []) = (Inr res, snd (sampleRun (sampleSource [])))" by (metis prod.collapse)
  from apply_is_all_or_nothing [OF mem.sql_source_axioms this [unfolded sampleRun_def] sample_authority] res(2)
  show ?thesis by (simp add: sampleRun_def)
qed

lemma attempts_with_receipt:
  assumes source: "sql_source query committed working inTx receipts pending eq same asText updated inserted"
    and "\<forall>a \<in> set as. receiptAuthority (fst a) = SourceDb" and "receipts w (jb_idempotency_key j) \<noteq> None"
  shows "committed (applyAttempts rt query store failpoint j as w) = committed w"
  using assms(2,3)
proof (induction as arbitrary: w)
  case (Cons a as)
  obtain cfg clock where a: "a = (cfg, clock)" by fastforce
  obtain r v where run: "applyPostgresJobWithClient rt query store failpoint j cfg clock w = (r, v)" by fastforce
  have "committed v = committed w \<and> receipts v (jb_idempotency_key j) \<noteq> None"
    using sql_source.all_or_nothing [OF source run] Cons.prems a by auto
  with Cons a run show ?case by simp
qed simp

text \<open>C6: Retrying is safe.  Whatever attempts are made to apply a job under source-database receipts, by whichever
  runners and however the client fails in between, lost COMMIT acknowledgements included, the source
  is afterwards either as it was before the first attempt or carries the effect of the job's
  statements exactly once.\<close>

theorem retries_write_at_most_once:
  assumes source: "sql_source query committed working inTx receipts pending eq same asText updated inserted"
    and "\<forall>a \<in> set as. receiptAuthority (fst a) = SourceDb"
  shows "committed (applyAttempts rt query store failpoint j as w) = committed w
    \<or> (receipts w (jb_idempotency_key j) = None \<and> (\<exists>ss. jobStatements j = Inr ss
        \<and> sqlEffects eq same updated inserted ss (committed w)
            (committed (applyAttempts rt query store failpoint j as w))))"
  using assms(2)
proof (induction as arbitrary: w)
  case (Cons a as)
  obtain cfg clock where a: "a = (cfg, clock)" by fastforce
  obtain r v where run: "applyPostgresJobWithClient rt query store failpoint j cfg clock w = (r, v)" by fastforce
  have rest: "applyAttempts rt query store failpoint j (a # as) w = applyAttempts rt query store failpoint j as v"
    by (simp add: a run)
  have all: "\<forall>b \<in> set as. receiptAuthority (fst b) = SourceDb" using Cons.prems by simp
  consider "committed v = committed w" "receipts v = receipts w"
    | "committed v = committed w" "receipts v (jb_idempotency_key j) \<noteq> None"
    | "receipts w (jb_idempotency_key j) = None" "receipts v (jb_idempotency_key j) \<noteq> None"
      "\<exists>ss. jobStatements j = Inr ss \<and> sqlEffects eq same updated inserted ss (committed w) (committed v)"
    using sql_source.all_or_nothing [OF source run] Cons.prems a by auto
  then show ?case
  proof cases
    case 1
    with Cons.IH [OF all, of v] rest show ?thesis by simp
  next
    case 2
    with attempts_with_receipt [OF source all] rest show ?thesis by simp
  next
    case 3
    with attempts_with_receipt [OF source all 3(2)] rest show ?thesis by simp
  qed
qed simp

theorem retries_write_at_most_once_witness:
  "\<exists>ss. jobStatements sampleJob = Inr ss \<and> sqlEffects memEq memSame memUpdated memInserted ss
     (memCommitted (sampleSource lostCommit))
     (memCommitted (sampleAttempts [(sampleConfig, 1), (sampleConfig, 2)] (sampleSource lostCommit)))"
proof -
  let ?v = "sampleAttempts [(sampleConfig, 1), (sampleConfig, 2)] (sampleSource lostCommit)"
  have "memCommitted ?v \<noteq> memCommitted (sampleSource lostCommit)" by (rule written_source [OF retried_rows])
  then show ?thesis
    using retries_write_at_most_once [OF mem.sql_source_axioms, of "[(sampleConfig, 1), (sampleConfig, 2)]"
        sampleRuntime None noFailpoint sampleJob "sampleSource lostCommit"]
    by (simp add: sample_authority sampleAttempts_def)
qed

subsection \<open>What a job's statements can reach\<close>

























end
