(* ===== verification/LedgerExecution.thy ===== *)
theory LedgerExecution
  imports PostgresProperties
begin

text \<open>
  The runner ledger and the source together.  Runners apply one job concurrently: each step of
  \<open>applyWithRunnerLedger\<close> between two awaits is a step here, on the store of
  \<open>packages/proposal-store\<close> and on a source; a runner may crash between any two of them, start again, and
  every other operation of the store may happen in between.  The invariant counts the source
  transactions sent.
\<close>

subsection \<open>The ledger of the store\<close>

definition ledgerCall :: "err option \<times> store \<Rightarrow> unit result \<times> store" where
  "ledgerCall x = (case x of (None, t) \<Rightarrow> (Inr (), t) | (Some e, t) \<Rightarrow> (Inl e, t))"

text \<open>The store as the \<open>WritebackIntentStore\<close> of the adapters.\<close>

definition storeLedger :: "runtime \<Rightarrow> time \<Rightarrow> store intent_store" where
  "storeLedger rt now = \<lparr>
     st_claim = (\<lambda>j runner s. case claimWritebackIntent rt now (NormalizedJob j) runner s of
         Inl e \<Rightarrow> (Inl e, s) | Inr (d, t) \<Rightarrow> (Inr (in_id (newIntent now runner j), d), t)),
     st_applying = (\<lambda>iid runner s. ledgerCall (markWritebackIntentApplying rt now iid runner s)),
     st_complete = (\<lambda>iid w s. ledgerCall (completeWritebackIntent rt now iid w s)),
     st_reconcile = (\<lambda>iid reason s. ledgerCall (requireWritebackReconciliation rt now iid reason s))\<rparr>"

lemma ledger_simps [simp]:
  "st_claim (storeLedger rt now) j runner s = (case claimWritebackIntent rt now (NormalizedJob j) runner s of
     Inl e \<Rightarrow> (Inl e, s) | Inr (d, t) \<Rightarrow> (Inr (in_id (newIntent now runner j), d), t))"
  "st_applying (storeLedger rt now) iid runner s = ledgerCall (markWritebackIntentApplying rt now iid runner s)"
  "st_complete (storeLedger rt now) iid w s = ledgerCall (completeWritebackIntent rt now iid w s)"
  "st_reconcile (storeLedger rt now) iid reason s = ledgerCall (requireWritebackReconciliation rt now iid reason s)"
  by (simp_all add: storeLedger_def)

definition jobIntent :: "job \<Rightarrow> string" where
  "jobIntent j = ''wbi:'' @ jb_id j"

subsection \<open>The steps of concurrent runners\<close>

datatype phase = Idle | Claimed | Crossed | Answered "outcome result"

record 'd ledger_system =
  ls_store :: store
  ls_source :: 'd
  ls_phase :: "string \<Rightarrow> phase"
  ls_sent :: nat

definition enter :: "string \<Rightarrow> phase \<Rightarrow> store \<Rightarrow> 'd ledger_system \<Rightarrow> 'd ledger_system" where
  "enter r p t y = y\<lparr>ls_store := t, ls_phase := (ls_phase y)(r := p)\<rparr>"

definition withResult ::
  "runtime \<Rightarrow> job \<Rightarrow> runner_config \<Rightarrow> time \<Rightarrow> outcome result \<Rightarrow> wb_result result" where
  "withResult rt j cfg now x = bindE x (\<lambda>out. resultFromOutcome rt j cfg now out None)"

inductive ledger_step ::
  "runtime \<Rightarrow> 'd client \<Rightarrow> job \<Rightarrow> (string \<Rightarrow> runner_config) \<Rightarrow> 'd ledger_system \<Rightarrow> 'd ledger_system \<Rightarrow> bool"
  for rt :: runtime and query :: "'d client" and j :: job and cfg :: "string \<Rightarrow> runner_config" where
  claim: "ls_phase y r = Idle \<Longrightarrow> st_claim (storeLedger rt now) j r (ls_store y) = (Inr (iid, d), t) \<Longrightarrow>
    ledger_step rt query j cfg y (enter r (if d = Proceed then Claimed else Idle) t y)"
| cross: "ls_phase y r = Claimed \<Longrightarrow>
    st_applying (storeLedger rt now) (jobIntent j) r (ls_store y) = (Inr (), t) \<Longrightarrow>
    ledger_step rt query j cfg y (enter r Crossed t y)"
| refused: "ls_phase y r = Claimed \<Longrightarrow>
    st_applying (storeLedger rt now) (jobIntent j) r (ls_store y) = (Inl e, t) \<Longrightarrow>
    st_reconcile (storeLedger rt now) (jobIntent j)
      ''another worker crossed or may have crossed the source mutation boundary'' t = (x, u) \<Longrightarrow>
    ledger_step rt query j cfg y (enter r Idle u y)"
| send: "ls_phase y r = Crossed \<Longrightarrow>
    sourceTransaction query j (cfg r) noFailpoint (mutatePostgres rt query j) (ls_source y) = (x, d) \<Longrightarrow>
    ledger_step rt query j cfg y (enter r (Answered x) (ls_store y) (y\<lparr>ls_source := d, ls_sent := Suc (ls_sent y)\<rparr>))"
| finish: "ls_phase y r = Answered x \<Longrightarrow>
    finishLedger (storeLedger rt now) noFailpoint j (cfg r) rt now (jobIntent j)
      (withResult rt j (cfg r) now x) (ls_store y) = (w, t) \<Longrightarrow>
    ledger_step rt query j cfg y (enter r Idle t y)"
| crash: "ledger_step rt query j cfg y (enter r Idle (ls_store y) y)"
| other: "store_step rt (ls_store y) t \<Longrightarrow> ledger_step rt query j cfg y (y\<lparr>ls_store := t\<rparr>)"

subsection \<open>The invariant\<close>

definition boundaryCrossed :: "string \<Rightarrow> store \<Rightarrow> bool" where
  "boundaryCrossed iid s \<longleftrightarrow> (\<exists>i \<in> set (s_intents s). in_id i = iid \<and> in_status i \<noteq> IntentRecorded)"

definition atBoundary :: "'d ledger_system \<Rightarrow> string set" where
  "atBoundary y = {r. ls_phase y r = Crossed}"

definition ledger_ok :: "runtime \<Rightarrow> job \<Rightarrow> 'd ledger_system \<Rightarrow> bool" where
  "ledger_ok rt j y \<longleftrightarrow> store_ok rt (ls_store y) \<and> finite (atBoundary y)
     \<and> ls_sent y + card (atBoundary y) \<le> (if boundaryCrossed (jobIntent j) (ls_store y) then 1 else 0)"

lemma advances_crossed: "advances rt s t \<Longrightarrow> boundaryCrossed iid s \<Longrightarrow> boundaryCrossed iid t"
  by (fastforce simp: advances_def store_evolves_def covers_def boundaryCrossed_def intentEvolves_def intentCore_def)

lemma enter_simps [simp]:
  "ls_store (enter r p t y) = t" "ls_source (enter r p t y) = ls_source y" "ls_sent (enter r p t y) = ls_sent y"
  by (simp_all add: enter_def)

lemma atBoundary_enter: "p \<noteq> Crossed \<Longrightarrow> atBoundary (enter r p t y) = atBoundary y - {r}"
  by (auto simp: atBoundary_def enter_def)

lemma ledger_ok_leave:
  assumes "ledger_ok rt j y" and "advances rt (ls_store y) t" and "p \<noteq> Crossed"
  shows "ledger_ok rt j (enter r p t y)"
proof -
  have "card (atBoundary y - {r}) \<le> card (atBoundary y)"
    using assms(1) by (intro card_mono) (auto simp: ledger_ok_def)
  with assms advances_crossed [OF assms(2)] show ?thesis
    by (auto simp: ledger_ok_def atBoundary_enter [OF assms(3)] advances_ok split: if_splits)
qed

lemma ledgerCall_snd: "ledgerCall x = (r, t) \<Longrightarrow> snd x = t"
  by (auto simp: ledgerCall_def split: prod.splits option.splits)

lemma ledger_calls_advance:
  assumes "store_ok rt s"
  shows "st_claim (storeLedger rt now) j runner s = (cr, t) \<Longrightarrow> advances rt s t"
    and "st_applying (storeLedger rt now) iid runner s = (ar, t) \<Longrightarrow> advances rt s t"
    and "st_complete (storeLedger rt now) iid w s = (ar, t) \<Longrightarrow> advances rt s t"
    and "st_reconcile (storeLedger rt now) iid reason s = (ar, t) \<Longrightarrow> advances rt s t"
  using assms
  by (auto split: sum.splits prod.splits dest: claimWritebackIntent_advances simp: advances_refl
      dest!: ledgerCall_snd intro: markWritebackIntentApplying_advances completeWritebackIntent_advances
      requireWritebackReconciliation_advances)

lemma finishLedger_advances:
  assumes "store_ok rt s"
    and "finishLedger (storeLedger rt now) noFailpoint j cfg rt now iid x s = (w, t)"
  shows "advances rt s t"
  using assms ledger_calls_advance [OF assms(1)]
  by (auto simp: finishLedger_def noFailpoint_def bindM_def attempt_def advances_refl
      simp del: ledger_simps split: sum.splits prod.splits if_splits)

lemma crossing_is_first:
  assumes ok: "store_ok rt s" and run: "markWritebackIntentApplying rt now iid runner s = (None, t)"
  shows "\<not> boundaryCrossed iid s \<and> boundaryCrossed iid t"
proof -
  from run obtain i where i: "requireWritebackIntent iid s = Inr i" and rec: "in_status i = IntentRecorded"
    by (auto simp: markWritebackIntentApplying_def split: sum.splits if_splits)
  define f where "f = (\<lambda>x :: intent. x\<lparr>in_status := IntentApplying, in_runner_id := runner,
     in_reconciliation_reason := None, in_updated_at := now\<rparr>)"
  from run i rec have "appendEvent rt now (in_proposal_id i) ''writeback_intent_applying'' runner
      (intentPayload i) None (updateIntent iid f s) = Inr t"
    by (auto simp: markWritebackIntentApplying_def f_def Let_def thenEvent_def split: sum.splits)
  from appendEvent_tables(4) [OF this] have t: "s_intents t = updateWhere (\<lambda>x. in_id x = iid) f (s_intents s)"
    by (simp add: updateIntent_def)
  from requireWritebackIntent_in [OF i] have mem: "i \<in> set (s_intents s)" "in_id i = iid" by auto
  have "\<not> boundaryCrossed iid s" using unique_intent [OF ok] mem rec by (force simp: boundaryCrossed_def)
  moreover have "f i \<in> set (s_intents t)" using mem by (auto simp: t updateWhere_def)
  then have "boundaryCrossed iid t" using mem by (auto simp: boundaryCrossed_def f_def intro: bexI [of _ "f i"])
  ultimately show ?thesis ..
qed

lemma ledger_step_ok: "ledger_step rt query j cfg y z \<Longrightarrow> ledger_ok rt j y \<Longrightarrow> ledger_ok rt j z"
proof (induction rule: ledger_step.induct)
  case (claim y r now iid d t)
  then have "advances rt (ls_store y) t"
    using ledger_calls_advance(1) [of rt "ls_store y"] by (simp add: ledger_ok_def del: ledger_simps)
  with claim show ?case by (intro ledger_ok_leave) auto
next
  case (cross y r now t)
  then have ok: "store_ok rt (ls_store y)" by (simp add: ledger_ok_def)
  from cross have "markWritebackIntentApplying rt now (jobIntent j) r (ls_store y) = (None, t)"
    by (auto simp: ledgerCall_def split: prod.splits option.splits)
  from crossing_is_first [OF ok this] cross.prems
  have none: "ls_sent y = 0" "atBoundary y = {}" and now: "boundaryCrossed (jobIntent j) t"
    by (auto simp: ledger_ok_def)
  have "advances rt (ls_store y) t" using ledger_calls_advance(2) [OF ok cross.hyps(2)] .
  moreover have "atBoundary (enter r Crossed t y) = {r}"
    using none(2) by (auto simp: atBoundary_def enter_def)
  ultimately show ?case using none now by (auto simp: ledger_ok_def advances_ok)
next
  case (refused y r now e t x u)
  then have ok: "store_ok rt (ls_store y)" by (simp add: ledger_ok_def)
  from ledger_calls_advance(2) [OF ok refused.hyps(2)] have 1: "advances rt (ls_store y) t" .
  from ledger_calls_advance(4) [OF advances_ok [OF 1] refused.hyps(3)] have "advances rt (ls_store y) u"
    using 1 by (blast intro: advances_trans)
  with refused.prems show ?case by (intro ledger_ok_leave) auto
next
  case (send y r x d)
  let ?z = "enter r (Answered x) (ls_store y) (y\<lparr>ls_source := d, ls_sent := Suc (ls_sent y)\<rparr>)"
  have "atBoundary ?z = atBoundary y - {r}" by (auto simp: atBoundary_def enter_def)
  moreover have "r \<in> atBoundary y" using send by (simp add: atBoundary_def)
  moreover have "finite (atBoundary y)" using send by (simp add: ledger_ok_def)
  ultimately have "Suc (card (atBoundary ?z)) = card (atBoundary y)" by (metis card_Suc_Diff1)
  with send \<open>atBoundary ?z = atBoundary y - {r}\<close> show ?case by (auto simp: ledger_ok_def)
next
  case (finish y r x now w t)
  then have "advances rt (ls_store y) t" using finishLedger_advances by (auto simp: ledger_ok_def)
  with finish.prems show ?case by (intro ledger_ok_leave) auto
next
  case (crash y r)
  then show ?case by (intro ledger_ok_leave) (auto simp: ledger_ok_def advances_refl)
next
  case (other y t)
  then have "advances rt (ls_store y) t" using store_step_advances by (auto simp: ledger_ok_def)
  with other advances_crossed [OF this] show ?case
    by (auto simp: ledger_ok_def atBoundary_def advances_ok split: if_splits)
qed

subsection \<open>The source behind the boundary\<close>

definition sourceOf ::
  "(json \<Rightarrow> json \<Rightarrow> bool) \<Rightarrow> (json \<Rightarrow> json \<Rightarrow> bool) \<Rightarrow> (sql_assignment list \<Rightarrow> srow \<Rightarrow> srow) \<Rightarrow> (srow \<Rightarrow> srow)
    \<Rightarrow> job \<Rightarrow> ('d \<Rightarrow> tables) \<Rightarrow> tables \<Rightarrow> 'd ledger_system \<Rightarrow> bool" where
  "sourceOf eq same updated inserted j committed start y \<longleftrightarrow>
     (if ls_sent y = 0 then committed (ls_source y) = start
      else committed (ls_source y) = start
        \<or> (\<exists>ss. jobStatements j = Inr ss \<and> sqlEffects eq same updated inserted ss start (committed (ls_source y))))"

context sql_source
begin

lemma one_transaction:
  assumes "sourceTransaction query j cfg noFailpoint (mutatePostgres rt query j) w = (r, v)"
  shows "committed v = committed w
    \<or> (\<exists>ss. jobStatements j = Inr ss \<and> effects ss (committed w) (committed v))"
  using transaction_result [OF mutate_inside no_failpoint assms] mutate_holds
  by (fastforce simp: committedAs_def outcomeHolds_def untouched_def split: sum.splits if_splits)

lemma ledger_step_source:
  assumes "ledger_step rt query j cfg y z" and "ledger_ok rt j y"
    and "sourceOf eq same updated inserted j committed start y"
  shows "sourceOf eq same updated inserted j committed start z"
  using assms
proof (induction rule: ledger_step.induct)
  case (send y r x d)
  then have "r \<in> atBoundary y" "finite (atBoundary y)" by (auto simp: atBoundary_def ledger_ok_def)
  then have "0 < card (atBoundary y)" by (auto simp: card_gt_0_iff)
  moreover have "ls_sent y + card (atBoundary y) \<le> 1" using send(3) by (auto simp: ledger_ok_def split: if_splits)
  ultimately have "ls_sent y = 0" by simp
  with send(4) one_transaction [OF send(2)] show ?case by (simp add: sourceOf_def)
qed (simp_all add: sourceOf_def)

end

lemma ledger_history:
  assumes source: "sql_source query committed working inTx receipts pending eq same asText updated inserted"
    and "(ledger_step rt query j cfg)\<^sup>*\<^sup>* y z" and "ledger_ok rt j y"
    and "sourceOf eq same updated inserted j committed start y"
  shows "ledger_ok rt j z \<and> sourceOf eq same updated inserted j committed start z"
  using assms(2)
proof (induction rule: rtranclp_induct)
  case (step u v)
  then show ?case
    using ledger_step_ok [OF step(2)] sql_source.ledger_step_source [OF source step(2)] by blast
qed (use assms(3,4) in blast)

text \<open>C3: The source is written at most once.  However many runners apply a job under the runner ledger, however
  their steps interleave with each other, with crashes and with every other operation of the store, at
  most one of them sends a source transaction, and what is committed is afterwards either what it was
  or the effect of the job's statements.\<close>

theorem ledger_sends_at_most_once:
  assumes "sql_source query committed working inTx receipts pending eq same asText updated inserted"
    and "reachable rt (ls_store y)" and "ls_phase y = (\<lambda>_. Idle)" and "ls_sent y = 0" and "(ledger_step rt query j cfg)\<^sup>*\<^sup>* y z"
  shows "ls_sent z \<le> 1
    \<and> (committed (ls_source z) = committed (ls_source y)
       \<or> (ls_sent z = 1 \<and> (\<exists>ss. jobStatements j = Inr ss
            \<and> sqlEffects eq same updated inserted ss (committed (ls_source y)) (committed (ls_source z)))))"
proof -
  have "ledger_ok rt j y" using assms(3,4) reachable_ok [OF assms(2)] by (simp add: ledger_ok_def atBoundary_def)
  moreover have "sourceOf eq same updated inserted j committed (committed (ls_source y)) y"
    using assms(4) by (simp add: sourceOf_def)
  ultimately have z: "ledger_ok rt j z" "sourceOf eq same updated inserted j committed (committed (ls_source y)) z"
    using ledger_history [OF assms(1,5)] by blast+
  then have "ls_sent z \<le> 1" by (auto simp: ledger_ok_def split: if_splits)
  with z(2) show ?thesis by (cases "ls_sent z") (auto simp: sourceOf_def)
qed

text \<open>One runner that claims, crosses and sends.\<close>

definition sampleSystem :: "mem_db ledger_system" where
  "sampleSystem = \<lparr>ls_store = jobStore, ls_source = sampleSource [], ls_phase = (\<lambda>_. Idle), ls_sent = 0\<rparr>"

definition sampleSent :: "outcome result \<times> mem_db" where
  "sampleSent = sourceTransaction memClient sampleJob sampleConfig noFailpoint
     (mutatePostgres sampleRuntime memClient sampleJob) (sampleSource [])"

lemma sample_sent_rows: "sampleRows (snd sampleSent) = [sampleRow ''t'' 0, sampleRow ''other'' 55]"
  by code_simp

lemma sample_claim: "claimWritebackIntent sampleRuntime 4000 (NormalizedJob sampleJob) ''r'' jobStore = Inr (Proceed, claimedStore)"
  by code_simp

lemma sample_intent: "jobIntent sampleJob = ''wbi:wbj_p''"
  by code_simp

definition sentSystem :: "mem_db ledger_system" where
  "sentSystem = enter ''r'' (Answered (fst sampleSent)) applyingStore
     ((enter ''r'' Crossed applyingStore (enter ''r'' Claimed claimedStore sampleSystem))
       \<lparr>ls_source := snd sampleSent, ls_sent := 1\<rparr>)"

lemma sample_ledger_run: "(ledger_step sampleRuntime memClient sampleJob (\<lambda>_. sampleConfig))\<^sup>*\<^sup>* sampleSystem sentSystem"
proof -
  let ?step = "ledger_step sampleRuntime memClient sampleJob (\<lambda>_. sampleConfig)"
  let ?y = "enter ''r'' Claimed claimedStore sampleSystem" and ?z = "enter ''r'' Crossed applyingStore
    (enter ''r'' Claimed claimedStore sampleSystem)"
  have one: "?step sampleSystem ?y"
    using ledger_step.claim [where y = sampleSystem and r = "''r''" and now = 4000 and t = claimedStore
        and d = Proceed and rt = sampleRuntime and j = sampleJob and query = memClient]
    by (simp add: sampleSystem_def sample_claim)
  have two: "?step ?y ?z"
    by (rule ledger_step.cross [where now = 5000])
      (simp_all add: enter_def sample_intent applying ledgerCall_def)
  have "?step ?z (enter ''r'' (Answered (fst sampleSent)) (ls_store ?z)
      (?z\<lparr>ls_source := snd sampleSent, ls_sent := Suc (ls_sent ?z)\<rparr>))"
    by (rule ledger_step.send) (simp_all add: enter_def sampleSent_def sampleSystem_def)
  then have three: "?step ?z sentSystem" by (simp add: sentSystem_def sampleSystem_def)
  from one two three show ?thesis by (meson converse_rtranclp_into_rtranclp rtranclp.rtrancl_refl)
qed

theorem ledger_sends_at_most_once_witness:
  "\<exists>ss. jobStatements sampleJob = Inr ss \<and> sqlEffects memEq memSame memUpdated memInserted ss
     (memCommitted (sampleSource [])) (memCommitted (snd sampleSent))"
proof -
  have "ls_source sentSystem = snd sampleSent" by (simp add: sentSystem_def)
  with ledger_sends_at_most_once [OF mem.sql_source_axioms, OF _ _ _ sample_ledger_run] reachable_job
    written_source [OF sample_sent_rows, of "[]"]
  show ?thesis by (simp add: sampleSystem_def)
qed

end
