(* ===== verification/AdapterProperties.thy ===== *)
theory AdapterProperties
  imports PostgresSamples
begin

text \<open>
  Properties of the checks around a mutation: the integrity of frozen sets, the inverse of a
  compensation, the report on row-level security and the classification of an uncertain source.
\<close>

subsection \<open>Frozen sets\<close>

text \<open>What the members of a set UPDATE are held to.\<close>

definition reviewedUpdate :: "runtime \<Rightarrow> job \<Rightarrow> frozen_member \<Rightarrow> bool" where
  "reviewedUpdate rt j m \<longleftrightarrow> (\<exists>a v. jb_version_advance j = Some a \<and> fm_expected_version m = Some v
     \<and> va_strategy a = IntegerIncrement \<and> cv_column v = va_column a
     \<and> strictEq (field (fm_before m) (va_column a)) (cv_value v)
     \<and> strictEq (field (fm_before m) (cv_column (jb_tenant_guard j))) (cv_value (jb_tenant_guard j))
     \<and> (\<forall>p \<in> set_option (jb_principal_scope j).
          strictEq (field (fm_before m) (ps_column p)) (optOr (ps_value p) JUndefined))
     \<and> recordsEqual (fm_after m) (spreadRow (spreadRow (fm_before m) (jb_patch j))
          [(va_column a, nextVersion rt (cv_value v))]))"

text \<open>C22: A frozen UPDATE that passes the integrity check of the worker has between one and a hundred members
  within its own bound, distinct keys in order, and every member's after image is its reviewed before
  image with the patch and the next version and nothing else, inside the tenant and the principal
  scope; every aggregate is what the members add up to and within its maximum.\<close>

theorem frozen_update_is_as_reviewed:
  assumes "assertFrozenSetJobIntegrity rt j SetUpdate fs = Inr ()"
  shows "(1 \<le> length (fs_members fs) \<and> int (length (fs_members fs)) \<le> fs_max_rows fs \<and> fs_max_rows fs \<le> 100)
    \<and> distinct (map memberIdentity (fs_members fs)) \<and> \<not> someDescent rt (map memberIdentity (fs_members fs))
    \<and> (\<forall>m \<in> set (fs_members fs). cv_column (fm_primary_key m) = jb_pk_column j \<and> reviewedUpdate rt j m)
    \<and> (\<forall>b \<in> set (fs_aggregate_bounds fs). \<exists>ms. traverseE (memberMeasure b) (fs_members fs) = Inr ms
         \<and> ab_actual b = sum_list ms \<and> sum_list ms \<le> ab_maximum b)"
proof -
  from assms obtain us where members: "traverseE (checkSetMember rt j SetUpdate) (fs_members fs) = Inr us"
    by (auto simp: assertFrozenSetJobIntegrity_def Let_def bindE_eq_Inr)
  from assms obtain vs where bounds: "traverseE (checkBound fs) (fs_aggregate_bounds fs) = Inr vs"
    by (auto simp: assertFrozenSetJobIntegrity_def Let_def bindE_eq_Inr mapE_eq_Inr)
  have shape: "fs_row_count fs = int (length (fs_members fs)) \<and> 1 \<le> fs_row_count fs
      \<and> fs_row_count fs \<le> fs_max_rows fs \<and> fs_max_rows fs \<le> 100"
    "distinct (map memberIdentity (fs_members fs)) \<and> \<not> someDescent rt (map memberIdentity (fs_members fs))"
    using assms by (simp_all add: assertFrozenSetJobIntegrity_def Let_def bindE_eq_Inr not_less Suc_le_eq)
  have "cv_column (fm_primary_key m) = jb_pk_column j \<and> reviewedUpdate rt j m" if "m \<in> set (fs_members fs)" for m
    using traverseE_each [OF members that]
    by (auto simp: checkSetMember_def checkUpdateMember_def checkImageScope_def reviewedUpdate_def bindE_eq_Inr
        split: option.splits)
  moreover have "\<exists>ms. traverseE (memberMeasure b) (fs_members fs) = Inr ms \<and> ab_actual b = sum_list ms
      \<and> sum_list ms \<le> ab_maximum b" if "b \<in> set (fs_aggregate_bounds fs)" for b
    using traverseE_each [OF bounds that] by (auto simp: checkBound_def bindE_eq_Inr not_less)
  moreover have "1 \<le> length (fs_members fs)" using shape by simp
  ultimately show ?thesis using shape by simp
qed

definition sampleMember :: frozen_member where
  "sampleMember = \<lparr>fm_primary_key = \<lparr>cv_column = ''k'', cv_value = JNum (IntN 1)\<rparr>,
     fm_expected_version = Some \<lparr>cv_column = ''v'', cv_value = JNum (IntN 3)\<rparr>, fm_before = sampleRow ''t'' 55,
     fm_after = [(''k'', JNum (IntN 1)), (''n'', JStr ''t''), (''f'', JNum (IntN 0)), (''v'', JNum (IntN 4))],
     fm_before_digest = Some ''sha256:00'', fm_after_digest = Some ''sha256:00'', fm_tombstone_digest = None,
     fm_deduplication = None\<rparr>"

definition sampleSet :: frozen_set where
  "sampleSet = \<lparr>fs_max_rows = 2, fs_row_count = 1, fs_aggregate_bounds =
     [\<lparr>ab_column = ''f'', ab_measure = AbsoluteDelta, ab_maximum = 60, ab_actual = 55\<rparr>],
     fs_members = [sampleMember], fs_set_digest = ''sha256:00''\<rparr>"

definition sampleSetJob :: job where
  "sampleSetJob = sampleJob\<lparr>jb_version := NormalizedV3, jb_operation := Some (SetOp SetUpdate), jb_pk_value := None,
     jb_version_advance := Some \<lparr>va_column = ''v'', va_strategy = IntegerIncrement\<rparr>,
     jb_frozen_set := Some sampleSet\<rparr>"

lemma sample_set_checked: "assertFrozenSetJobIntegrity sampleRuntime sampleSetJob SetUpdate sampleSet = Inr ()"
  by code_simp

theorem frozen_update_is_as_reviewed_witness:
  "reviewedUpdate sampleRuntime sampleSetJob sampleMember
    \<and> traverseE (memberMeasure (hd (fs_aggregate_bounds sampleSet))) [sampleMember] = Inr [55]"
  using frozen_update_is_as_reviewed [OF sample_set_checked]
  by (auto simp: sampleSet_def bindE_eq_Inr)

subsection \<open>Reverting a revert\<close>


text \<open>The inverse a compensation leaves behind carries no principal scope.\<close>

lemma inverse_drops_principal:
  "compensationInverseFromJob rt j op d = Inr e \<Longrightarrow> id_principal_scope e = None"
  by (cases op) (auto simp: compensationInverseFromJob_def bindE_eq_Inr compensationCommon_def Let_def)


lemma allowed_of_integrity:
  assumes "assertCompensationJobIntegrity rt j op d = Inr ()"
  shows "set (id_allowed_columns d) \<subseteq> set (jb_allowed_columns j)"
  using assms by (auto simp: assertCompensationJobIntegrity_def Let_def bindE_eq_Inr)

text \<open>The refusals that concern the principal have no safe error code of their own.\<close>

lemma principal_mismatch_is_unspecific:
  "map (\<lambda>m. safeErrorCode (PlainError m) (Some (SetOp SetUpdate))) [''SET_PRINCIPAL_SCOPE_MISMATCH'',
     ''BATCH_PRINCIPAL_SCOPE_MISMATCH'', ''COMPENSATION_PRINCIPAL_SCOPE_MISMATCH''] = replicate 3 ''TRANSACTION_FAILED''"
  by code_simp









subsection \<open>Row-level security\<close>

text \<open>A target the database scope protects: a table with forced row-level security and complete policies, or
  an invoker view with a barrier that is read only and stands on protected targets alone.\<close>

inductive protected :: "string list \<Rightarrow> rls_report \<Rightarrow> bool" for settings :: "string list" where
  table: "rls_kind r \<noteq> Some KindView \<Longrightarrow> rlsEnforced settings r \<Longrightarrow> protected settings r"
| view: "rls_kind r = Some KindView \<Longrightarrow> set (rls_required r) \<subseteq> {RlsSelect} \<Longrightarrow> rls_invoker r \<Longrightarrow>
    rls_barrier r \<Longrightarrow> roleErrors r = [] \<Longrightarrow> ds \<noteq> [] \<Longrightarrow> rls_references r = map referenceOf ds \<Longrightarrow>
    (\<forall>d \<in> set ds. protected settings d \<and> set (rls_required d) = {RlsSelect}) \<Longrightarrow> protected settings r"

lemma traverseM_results:
  "traverseM f xs w = (Inr ys, v) \<Longrightarrow> length ys = length xs \<and> (\<forall>y \<in> set ys. \<exists>x \<in> set xs. \<exists>a b. f x a = (Inr y, b))"
proof (induction xs arbitrary: w ys)
  case (Cons x xs)
  then obtain y u zs where "f x w = (Inr y, u)" "traverseM f xs u = (Inr zs, v)" "ys = y # zs"
    by (auto simp: bindM_eq_Inr)
  with Cons.IH [of u zs] show ?case by fastforce
qed simp

lemma uniqueList_Nil [simp]: "uniqueList xs = [] \<longleftrightarrow> xs = []"
  by (cases xs) simp_all

lemma inspected_ok:
  assumes "inspectPostgresRlsTargetInternal depth query settings t ops anc w = (Inr r, v)"
  shows "rls_errors r = [] \<longleftrightarrow> rls_ok r"
proof -
  obtain es x where "r = concluded es x"
    using assms by (cases depth) (auto simp: Let_def bindM_eq_Inr split: option.splits if_split_asm)
  then show ?thesis by (simp add: concluded_def)
qed

lemma initialReport_required [simp]: "set (rls_required (initialReport t ops found)) = set ops"
  by (simp add: initialReport_def Let_def)

lemma initialReport_kind [simp]: "rls_kind (initialReport t ops found) = map_option relationKind found"
  by (simp add: initialReport_def Let_def)

lemma concluded_simps [simp]:
  "rls_ok (concluded es r) \<longleftrightarrow> es = []" "rls_kind (concluded es r) = rls_kind r"
  "rls_required (concluded es r) = rls_required r" "rls_references (concluded es r) = rls_references r"
  "rls_invoker (concluded es r) = rls_invoker r" "rls_barrier (concluded es r) = rls_barrier r"
  "roleErrors (concluded es r) = roleErrors r" "rlsEnforced s (concluded es r) = rlsEnforced s r"
  by (simp_all add: concluded_def roleErrors_def rlsEnforced_def)

lemma inspected_view:
  assumes "rls_ok (concluded (viewErrors r @ errorIf (rows = []) u @ concat (map dependencyErrors ds)) r')"
    and "r' = r\<lparr>rls_references := map referenceOf (List.map_filter id ds)\<rparr>"
    and "rls_kind r = Some KindView" and "length ds = length rows"
    and "\<And>x. Some x \<in> set ds \<Longrightarrow> rls_errors x = [] \<Longrightarrow> protected settings x \<and> set (rls_required x) = {RlsSelect}"
  shows "protected settings (concluded es r')"
proof -
  from assms(1) have none: "viewErrors r = []" "rows \<noteq> []" "\<forall>d \<in> set ds. dependencyErrors d = []" by auto
  then have "\<exists>x. d = Some x \<and> rls_errors x = []" if "d \<in> set ds" for d
    using that by (cases d) (auto simp: dependencyErrors_def)
  then have ds: "ds = map Some (List.map_filter id ds)" and clean: "\<forall>x \<in> set (List.map_filter id ds). rls_errors x = []"
    by (induction ds) (fastforce simp: map_filter_simps)+
  then have some: "x \<in> set (List.map_filter id ds) \<Longrightarrow> Some x \<in> set ds" for x
    by (metis image_eqI list.set_map)
  show ?thesis
  proof (rule protected.view)
    show "List.map_filter id ds \<noteq> []" using ds assms(4) none(2) by (metis length_0_conv list.map_disc_iff)
    show "\<forall>d \<in> set (List.map_filter id ds). protected settings d \<and> set (rls_required d) = {RlsSelect}"
      using assms(5) some clean by blast
  qed (use assms none in \<open>auto simp: viewErrors_def roleErrors_Nil concluded_def\<close>)
qed

lemma inspected_protected:
  "inspectPostgresRlsTargetInternal depth query settings t ops anc w = (Inr r, v) \<Longrightarrow> rls_ok r \<Longrightarrow>
    protected settings r \<and> set (rls_required r) = set ops"
proof (induction depth arbitrary: t ops anc w r v)
  case (Suc depth)
  from Suc.prems obtain metadata u row where metadata: "firstRow metadata = Some row"
    and rest: "(if relationKind row = KindView then
           (if fst t @ CHR ''.'' # snd t \<in> set anc
            then returnM (concluded [''POSTGRES_RLS_VIEW_DEPENDENCY_CYCLE''] (initialReport t ops (firstRow metadata)))
            else bindM (query (SqlViewDependencies (field row ''table_oid''))) (\<lambda>dependencies.
              bindM (traverseM (\<lambda>d. case (field d ''schema_name'', field d ''relation_name'') of
                    (JStr sc, JStr rel) \<Rightarrow>
                      bindM (inspectPostgresRlsTargetInternal depth query settings (sc, rel) [RlsSelect]
                               ((fst t @ CHR ''.'' # snd t) # anc)) (\<lambda>x. returnM (Some x))
                  | _ \<Rightarrow> returnM None) (qr_rows dependencies)) (\<lambda>ds.
              returnM (concluded (viewErrors (initialReport t ops (firstRow metadata))
                  @ errorIf (qr_rows dependencies = []) ''POSTGRES_RLS_VIEW_DEPENDENCIES_UNVERIFIED''
                  @ concat (map dependencyErrors ds))
                ((initialReport t ops (firstRow metadata))\<lparr>rls_references := map referenceOf (List.map_filter id ds)\<rparr>)))))
         else bindM (query (SqlPolicies (field row ''table_oid''))) (\<lambda>policies.
           let u = (initialReport t ops (firstRow metadata))\<lparr>rls_policies := map policyOf (qr_rows policies)\<rparr> in
           returnM (concluded (tableErrors settings u) u))) u = (Inr r, v)"
    by (auto simp: bindM_eq_Inr Let_def split: option.splits)
  show ?case
  proof (cases "relationKind row = KindView")
    case False
    with rest obtain ps pol where r: "r = concluded (tableErrors settings ps) ps"
      and ps: "ps = (initialReport t ops (firstRow metadata))\<lparr>rls_policies := pol\<rparr>"
      by (auto simp: bindM_eq_Inr Let_def)
    from ps metadata False have "rls_kind ps \<noteq> Some KindView" "set (rls_required ps) = set ops" by simp_all
    with r Suc.prems(2) tableErrors_Nil show ?thesis by (auto intro!: protected.table)
  next
    case True
    let ?f = "\<lambda>d. case (field d ''schema_name'', field d ''relation_name'') of
        (JStr sc, JStr rel) \<Rightarrow>
          bindM (inspectPostgresRlsTargetInternal depth query settings (sc, rel) [RlsSelect]
                   ((fst t @ CHR ''.'' # snd t) # anc)) (\<lambda>x. returnM (Some x))
      | _ \<Rightarrow> returnM None"
    let ?r = "initialReport t ops (firstRow metadata)"
    let ?res = "\<lambda>dependencies ds. concluded (viewErrors ?r
        @ errorIf (qr_rows dependencies = []) ''POSTGRES_RLS_VIEW_DEPENDENCIES_UNVERIFIED''
        @ concat (map dependencyErrors ds)) (?r\<lparr>rls_references := map referenceOf (List.map_filter id ds)\<rparr>)"
    from True rest Suc.prems(2) have "fst t @ CHR ''.'' # snd t \<notin> set anc" by (auto split: if_splits)
    with rest True have "bindM (query (SqlViewDependencies (field row ''table_oid''))) (\<lambda>deps.
        bindM (traverseM ?f (qr_rows deps)) (\<lambda>ds. returnM (?res deps ds))) u = (Inr r, v)" by simp
    from this [unfolded bindM_eq_Inr] obtain dependencies :: query_result and ds a b where
      ds: "traverseM ?f (qr_rows dependencies) a = (Inr ds, b)" and r: "r = ?res dependencies ds"
      by auto
    have "protected settings x \<and> set (rls_required x) = {RlsSelect}" if "Some x \<in> set ds" "rls_errors x = []" for x
    proof -
      from traverseM_results [OF ds] that(1) obtain sc rel a b where
        "inspectPostgresRlsTargetInternal depth query settings (sc, rel) [RlsSelect]
           ((fst t @ CHR ''.'' # snd t) # anc) a = (Inr x, b)"
        by (fastforce simp: bindM_eq_Inr split: json.splits)
      with Suc.IH [OF this] inspected_ok [OF this] that(2) show ?thesis by simp
    qed
    with r Suc.prems(2) traverseM_results [OF ds] True metadata show ?thesis
      by (auto intro!: inspected_view [OF _ refl] simp del: concluded_simps(1))
  qed
qed simp

text \<open>C20: A target passes the row-level security check only when the database enforces the scope by itself.  A
  table has row-level security enabled and forced, a role that cannot evade it, and for every
  operation asked for a permissive policy and only policies whose expressions name every scope
  setting; a view is a read-only invoker view with a barrier over relations that pass the check
  themselves, down to the tables.\<close>

theorem rls_target_is_protected:
  assumes "assertPostgresRlsTarget query scope t ops w = (Inr r, v)"
  shows "protected (scopeSettings (ds_tenant_setting scope) (ds_principal_setting scope)) r
    \<and> set (rls_required r) = set ops"
  using assms inspected_protected
  by (fastforce simp: assertPostgresRlsTarget_def bindM_eq_Inr throwM_def split: if_splits)

text \<open>A catalogue with one protected table and one policy.\<close>

definition sampleCatalog :: "unit client" where
  "sampleCatalog s u = (Inr \<lparr>qr_rows = (case s of
       SqlRelation t \<Rightarrow> [[(''relation_kind'', JStr ''r''), (''row_security_enabled'', JBool True),
         (''force_row_security'', JBool True), (''table_oid'', JNum (IntN 7))]]
     | SqlPolicies j \<Rightarrow> [[(''name'', JStr ''p''), (''command'', JStr ''ALL''), (''permissive'', JBool True),
         (''using_expression'', JStr ''n = a.t and m = a.p''), (''with_check_expression'', JNull)]]
     | _ \<Rightarrow> []), qr_count = None\<rparr>, u)"

definition sampleScope :: database_scope where
  "sampleScope = \<lparr>ds_tenant_setting = ''a.t'', ds_principal_setting = ''a.p'', ds_tenant_id = ''t'', ds_principal = ''u''\<rparr>"

definition sampleReport :: rls_report where
  "sampleReport = projr (fst (assertPostgresRlsTarget sampleCatalog sampleScope (''x'', ''y'') [RlsSelect] ()))"

lemma sample_report: "assertPostgresRlsTarget sampleCatalog sampleScope (''x'', ''y'') [RlsSelect] () = (Inr sampleReport, ())"
  by code_simp

theorem rls_target_is_protected_witness: "protected [''a.t'', ''a.p''] sampleReport"
  using rls_target_is_protected [OF sample_report] by (simp add: scopeSettings_def sampleScope_def)

subsection \<open>Reconciliation\<close>

lemma upsert_fresh: "fst e \<notin> fst ` set acc \<Longrightarrow> upsertRow fst e acc = acc @ [e]"
  by (simp add: upsertRow_def findRow_None_iff)

lemma rowsByIdentity_fold: "distinct (map (rowKey pk) rows) \<Longrightarrow> fst ` set acc \<inter> rowKey pk ` set rows = {} \<Longrightarrow>
    fold (\<lambda>r m. upsertRow fst (rowKey pk r, r) m) rows acc = acc @ map (\<lambda>r. (rowKey pk r, r)) rows"
  by (induction rows arbitrary: acc) (auto simp: upsert_fresh)

lemma rowsByIdentity_distinct: "distinct (map (rowKey pk) rows) \<Longrightarrow>
    rowsByIdentity pk rows = map (\<lambda>r. (rowKey pk r, r)) rows"
  by (simp add: rowsByIdentity_def rowsByIdentity_fold)

lemma map_of_keys: "map_of (map (\<lambda>r. (f r, r)) rows) k = Some row \<Longrightarrow> row \<in> set rows \<and> f row = k"
  by (auto dest: map_of_SomeD)

lemma map_of_keys_None: "map_of (map (\<lambda>r. (f r, r)) rows) k = None \<longleftrightarrow> k \<notin> f ` set rows"
  by (induction rows) auto

lemma memberClassification_cases:
  "memberClassification eq op m found = MatchesProposed \<Longrightarrow>
    op \<noteq> SetDelete \<and> (\<exists>row. found = Some row \<and> recordValuesMatch eq row (fm_after m))"
  "memberClassification eq op m found = MatchesReviewedBefore \<Longrightarrow>
    \<exists>row. found = Some row \<and> recordValuesMatch eq row (fm_before m)
      \<and> (op \<noteq> SetDelete \<longrightarrow> \<not> recordValuesMatch eq row (fm_after m))"
  "memberClassification eq op m found = TargetAbsent \<Longrightarrow> found = None"
  "memberClassification eq op m found = NotObserved \<Longrightarrow> found = None"
  by (auto simp: memberClassification_def Let_def split: option.splits if_splits)

lemma setClassification_cases:
  assumes "setClassification op strange cs \<noteq> Drifted"
  shows "\<not> strange \<and> (\<forall>c \<in> set cs. c = setClassification op strange cs)
    \<and> (setClassification op strange cs = MatchesProposed \<longrightarrow> op \<noteq> SetDelete)
    \<and> (setClassification op strange cs = MatchesReviewedBefore \<longrightarrow> op \<noteq> BatchInsert)"
  using assms by (auto simp: setClassification_def Let_def list_all_iff split: if_split_asm)

definition observedAs :: "(srow \<Rightarrow> bool) \<Rightarrow> string \<Rightarrow> srow list \<Rightarrow> frozen_member \<Rightarrow> bool" where
  "observedAs p pk rows m \<longleftrightarrow> (\<exists>row \<in> set rows. rowKey pk row = memberIdentity m \<and> p row)"

text \<open>C21: A reconciliation never claims more than the source shows.  Whatever it concludes other than drift, each
  row seen is a reviewed member and no member has two; proposed means every member's row carries its
  reviewed after values (and the operation is not a delete), before means every row still carries its
  reviewed before values and, for an update, not the after values; absent and not observed mean there
  is no row at all.\<close>

theorem reconciliation_is_sound:
  assumes "classifyFrozenSetReconciliation rt op pk fs rows eq = r" and "ro_classification r \<noteq> Drifted"
  shows "distinct (map (rowKey pk) rows) \<and> rowKey pk ` set rows \<subseteq> memberIdentity ` set (fs_members fs)
    \<and> (case ro_classification r of
        MatchesProposed \<Rightarrow> op \<noteq> SetDelete
          \<and> (\<forall>m \<in> set (fs_members fs). observedAs (\<lambda>x. recordValuesMatch eq x (fm_after m)) pk rows m)
      | MatchesReviewedBefore \<Rightarrow> op \<noteq> BatchInsert
          \<and> (\<forall>m \<in> set (fs_members fs). observedAs (\<lambda>x. recordValuesMatch eq x (fm_before m)
               \<and> (op = SetUpdate \<longrightarrow> \<not> recordValuesMatch eq x (fm_after m))) pk rows m)
      | _ \<Rightarrow> rows = [])"
proof -
  let ?found = "\<lambda>m. map_of (rowsByIdentity pk rows) (memberIdentity m)"
  let ?cs = "map (\<lambda>m. memberClassification eq op m (?found m)) (fs_members fs)"
  define strange where "strange \<longleftrightarrow> hasDuplicates (map (rowKey pk) rows)
      \<or> (\<exists>k \<in> set (map fst (rowsByIdentity pk rows)). k \<notin> set (map memberIdentity (fs_members fs)))"
  have c: "ro_classification r = setClassification op strange ?cs"
    unfolding assms(1) [symmetric] strange_def
    by (simp only: classifyFrozenSetReconciliation_def Let_def observeMember_def observedMember_def comp_def
        list.map_comp reconciliation_observation.simps member_observation.simps)
  note claim = setClassification_cases [of op strange ?cs, folded c, OF assms(2)]
  from claim have distinct: "distinct (map (rowKey pk) rows)" by (simp add: strange_def)
  note found = rowsByIdentity_distinct [OF this]
  have known: "rowKey pk ` set rows \<subseteq> memberIdentity ` set (fs_members fs)"
    using claim by (auto simp: strange_def found)
  have every: "\<forall>m \<in> set (fs_members fs). memberClassification eq op m (?found m) = ro_classification r"
    using claim by simp
  from claim have op: "ro_classification r = MatchesProposed \<longrightarrow> op \<noteq> SetDelete"
      "ro_classification r = MatchesReviewedBefore \<longrightarrow> op \<noteq> BatchInsert" by blast+
  have seen: "observedAs p pk rows m" if "?found m = Some row" "p row" for p m row
  proof -
    have "row \<in> set rows \<and> rowKey pk row = memberIdentity m"
      by (rule map_of_keys) (use that(1) in \<open>simp only: found\<close>)
    with that(2) show ?thesis by (auto simp: observedAs_def)
  qed
  have none: "rows = []" if "\<forall>m \<in> set (fs_members fs). ?found m = None"
  proof (rule ccontr)
    assume "rows \<noteq> []"
    then have "hd rows \<in> set rows" by simp
    with known obtain m where "m \<in> set (fs_members fs)" and m: "rowKey pk (hd rows) = memberIdentity m" by blast
    from that \<open>m \<in> set (fs_members fs)\<close> have "memberIdentity m \<notin> rowKey pk ` set rows"
      by (simp add: found map_of_keys_None)
    with m \<open>hd rows \<in> set rows\<close> show False by (metis imageI)
  qed
  show ?thesis
  proof (cases "ro_classification r")
    case MatchesProposed
    have "observedAs (\<lambda>x. recordValuesMatch eq x (fm_after m)) pk rows m" if "m \<in> set (fs_members fs)" for m
      using memberClassification_cases(1) [of eq op m "?found m"] every MatchesProposed that
      by (auto intro: seen)
    with MatchesProposed distinct known op show ?thesis by simp
  next
    case MatchesReviewedBefore
    have "observedAs (\<lambda>x. recordValuesMatch eq x (fm_before m)
        \<and> (op = SetUpdate \<longrightarrow> \<not> recordValuesMatch eq x (fm_after m))) pk rows m" if "m \<in> set (fs_members fs)" for m
      using memberClassification_cases(2) [of eq op m "?found m"] every MatchesReviewedBefore that
      by (auto intro: seen)
    with MatchesReviewedBefore distinct known op show ?thesis by simp
  next
    case NotObserved
    with every memberClassification_cases(4) none have "rows = []" by metis
    with NotObserved distinct known show ?thesis by simp
  next
    case TargetAbsent
    with every memberClassification_cases(3) none have "rows = []" by metis
    with TargetAbsent show ?thesis by simp
  qed (use assms(2) in simp)
qed

definition sampleReconciliation :: reconciliation_observation where
  "sampleReconciliation = classifyFrozenSetReconciliation sampleRuntime SetUpdate ''k'' sampleSet
     [fm_after sampleMember] strictEq"

lemma sample_proposed: "ro_classification sampleReconciliation = MatchesProposed"
  by code_simp

theorem reconciliation_is_sound_witness:
  "observedAs (\<lambda>x. recordValuesMatch strictEq x (fm_after sampleMember)) ''k'' [fm_after sampleMember] sampleMember"
  using reconciliation_is_sound [OF sampleReconciliation_def [symmetric]]
  by (simp add: sample_proposed sampleSet_def)

end
