(* ===== verification/Capabilities.thy ===== *)
theory Capabilities
  imports PostgresValues
begin

text \<open>
  The reviewed configuration the MCP server runs on and the authority it derives from it: the types of
  \<open>packages/mcp-server/src/runtime-types.ts\<close> and \<open>packages/spec/src/types.ts\<close> that a tool call reads,
  \<open>capability-authority.ts\<close> (who may execute, which columns a capability reads), the trusted-context
  half of \<open>trusted-context.ts\<close> and its argument checks, and the conversions of \<open>safe-values.ts\<close>.

  A record with own keys is an association list with distinct keys; the process environment is a
  function.  Fields a modelled operation never reads are left out of the records.
\<close>

subsection \<open>Capabilities\<close>

datatype runner_mode = RunReadOnly | RunShadow | RunReview | RunCloud
datatype context_provider = StaticDev | EnvironmentProvider | HttpClaims | CloudSessionProvider
  | ReviewedOrganization
datatype capability_kind = ReadCapability | AggregateRead | ProposalCapability
datatype runtime_wb_mode = DirectSql | AppHandler | CloudWorkerMode | NoWriteback
datatype arg_type = StringArg | NumberArg | BooleanArg

record scalar_arg =
  sa_type :: arg_type
  sa_required :: "bool option"
  sa_max_length :: "nat option"
  sa_minimum :: "rat option"
  sa_maximum :: "rat option"
  sa_enum :: "json list option"

datatype arg_config =
    ScalarArg scalar_arg
  | ObjectArrayArg "bool option" nat "(string \<times> scalar_arg) list"

record capability_target =
  ct_schema :: string
  ct_table :: string
  ct_primary_key :: string
  ct_tenant_key :: "string option"
  ct_principal_scope_key :: "string option"

record fixed_term =
  ft_column :: string
  ft_value :: json

record reviewed_bound =
  rb_column :: string
  rb_measure :: bound_measure
  rb_maximum :: rat

datatype component_source = FromProposalId | FromTrustedTenant | FromFixed | FromItemField

record declared_component =
  dd_column :: string
  dd_source :: component_source
  dd_fixed :: "json option"
  dd_item_field :: "string option"

datatype operation_kind = UpdateOp | InsertOp | DeleteOp

record operation_spec =
  os_kind :: operation_kind
  os_set :: bool
  os_selection :: "fixed_term list option"
  os_max_rows :: "int option"
  os_aggregate_bounds :: "reviewed_bound list"
  os_items_from_arg :: "string option"
  os_deduplication :: "declared_component list option"
  os_version_advance :: "version_advance option"

datatype aggregate_function = CountFn | SumFn | AvgFn

record aggregate_read =
  ag_function :: aggregate_function
  ag_count_rows :: bool
  ag_column :: "string option"
  ag_selection :: "fixed_term list option"

record patch_binding =
  pb_fixed :: "json option"
  pb_from_arg :: "string option"
  pb_from_item :: "string option"

record numeric_bound =
  nb_minimum :: "rat option"
  nb_maximum :: "rat option"

record transition_guard =
  tg_from_column :: "string option"
  tg_allowed :: "(string \<times> string list) list"

record approval_spec =
  as_mode :: "string option"
  as_required_role :: "string option"
  as_required_approvals :: "int option"
  as_policy :: "string option"

subsection \<open>Protected reads\<close>

datatype protected_value = FixedValue json | FromArg string
datatype comparison_operator = EqOp | NeqOp | LtOp | LteOp | GtOp | GteOp

datatype protected_predicate =
    ComparePredicate string "string option" comparison_operator protected_value
  | InPredicate string "string option" "json list"

record relationship_link =
  ln_schema :: string
  ln_table :: string
  ln_primary_key :: string
  ln_tenant_key :: "string option"
  ln_principal_scope_key :: "string option"
  ln_local_key :: string
  ln_target_key :: string
  ln_keep_null :: bool

text \<open>The one-hop form older contracts use.\<close>

record legacy_relationship =
  lr_name :: string
  lr_schema :: string
  lr_table :: string
  lr_primary_key :: string
  lr_tenant_key :: "string option"
  lr_principal_scope_key :: "string option"
  lr_local_key :: string
  lr_target_key :: string

record relationship_path =
  rp_name :: string
  rp_links :: "relationship_link list"

datatype base_function = BCount | BCountDistinct | BSum | BAvg

record base_measure =
  bm_function :: base_function
  bm_field :: "string option"
  bm_relationship :: "string option"

datatype derived_measure =
    QuotientMeasure bool base_measure base_measure
  | PostAggregate base_measure

datatype measure_function = MCount | MCountDistinct | MSum | MAvg | MStddevSamp | MStddevPop | MVarSamp
  | MVarPop | MNullCount | MNonNullCount | MCompletionRate | MReviewedDerived

record measure_spec =
  ms_name :: string
  ms_function :: measure_function
  ms_field :: "string option"
  ms_relationship :: "string option"
  ms_derived :: "derived_measure option"

record numeric_band =
  nd_edges :: "rat list"
  nd_labels :: "string list"

record dimension_spec =
  dm_name :: string
  dm_field :: string
  dm_relationship :: "string option"
  dm_band :: "numeric_band option"

datatype time_unit = HourBucket | DayBucket | WeekBucket | MonthBucket | QuarterBucket | YearBucket
  | DayOfWeekBucket

record time_bucket =
  tb_name :: string
  tb_field :: string
  tb_bucket :: time_unit
  tb_relationship :: "string option"

record comparison_spec =
  cm_field :: string
  cm_relationship :: "string option"
  cm_ranges :: "(protected_value \<times> protected_value) list"

datatype sort_direction = Ascending | Descending

datatype aggregate_order =
    OrderByMeasure string sort_direction
  | OrderByChange string sort_direction
  | OrderByTime sort_direction

record protected_aggregate =
  pa_measures :: "measure_spec list"
  pa_dimensions :: "dimension_spec list"
  pa_time_bucket :: "time_bucket option"
  pa_comparison :: "comparison_spec option"
  pa_order_by :: "aggregate_order option"

record time_window =
  tw_field :: string
  tw_relationship :: "string option"
  tw_start :: string
  tw_end :: string

text \<open>The two modes of a protected read share everything but the aggregate.\<close>

record protected_read =
  pr_rows :: bool
  pr_organization_id :: "string option"
  pr_predicates :: "protected_predicate list"
  pr_relationship :: "legacy_relationship option"
  pr_relationships :: "relationship_path list"
  pr_time_window :: "time_window option"
  pr_row_order :: "(string \<times> sort_direction) list"
  pr_aggregate :: "protected_aggregate option"
  pr_max_rows :: int
  pr_max_groups :: int
  pr_max_ranked_groups :: "int option"
  pr_statement_timeout :: int

record capability =
  cap_name :: string
  cap_kind :: capability_kind
  cap_contract :: "contract_provenance option"
  cap_source :: string
  cap_context :: "string option"
  cap_executor :: "string option"
  cap_target :: capability_target
  cap_args :: "(string \<times> arg_config) list"
  cap_id_from_arg :: string
  cap_visible_columns :: "string list"
  cap_max_rows :: "int option"
  cap_aggregate :: "aggregate_read option"
  cap_protected :: "protected_read option"
  cap_patch :: "(string \<times> patch_binding) list option"
  cap_allowed_columns :: "string list option"
  cap_numeric_bounds :: "(string \<times> numeric_bound) list"
  cap_transition_guards :: "(string \<times> transition_guard) list"
  cap_reviewed_inverse :: bool
  cap_operation :: "operation_spec option"
  cap_guard_column :: "string option"
  cap_weak_guard_ack :: bool
  cap_approval :: "approval_spec option"
  cap_supervised_allowed :: bool
  cap_writeback :: "(runtime_wb_mode \<times> string option) option"

subsection \<open>The runtime configuration\<close>

record runtime_source =
  so_engine :: engine
  so_read_only :: bool
  so_write_url_env :: "string option"
  so_receipts :: bool

record context_config =
  cc_provider :: context_provider
  cc_values :: srow
  cc_principal_binding :: "string option"

record worker_policy =
  wp_capability :: string
  wp_contract_digest :: string
  wp_mode :: string
  wp_queue_limit :: int
  wp_max_attempts :: int
  wp_write_url_env :: string
  wp_worker_identity :: "string option"

record supervised_config =
  sw_enabled :: bool
  sw_profile :: string
  sw_capabilities :: "worker_policy list"

record approval_policy =
  ap_policy_name :: string
  ap_policy_kind :: string
  ap_policy_rules :: "srow list"
  ap_policy_limits :: "policy_limit list option"

record freshness_declaration =
  fr_id :: string
  fr_capability :: string
  fr_identity_from_arg :: string
  fr_version_column :: string

record runtime_config =
  rc_mode :: runner_mode
  rc_policies :: "approval_policy list"
  rc_disable_auto_approval :: bool
  rc_proposal_freshness :: "(string \<times> freshness_declaration list) list"
  rc_sources :: "(string \<times> runtime_source) list"
  rc_trusted_context :: "context_config option"
  rc_contexts :: "(string \<times> context_config) list"
  rc_executors :: "(string \<times> json) list"
  rc_capabilities :: "capability list"
  rc_cloud_linked :: bool
  rc_supervised_worker :: "supervised_config option"

record trusted_context =
  tx_tenant_id :: string
  tx_principal :: string
  tx_provenance :: context_provider

type_synonym environment = "string \<Rightarrow> string option"

definition opKind :: "capability \<Rightarrow> operation_kind" where
  "opKind c = (case cap_operation c of None \<Rightarrow> UpdateOp | Some s \<Rightarrow> os_kind s)"

definition tenantKey :: "capability \<Rightarrow> string option" where
  "tenantKey c = presentStr (ct_tenant_key (cap_target c))"

definition principalKey :: "capability \<Rightarrow> string option" where
  "principalKey c = presentStr (ct_principal_scope_key (cap_target c))"

subsection \<open>Who may execute\<close>

definition isSetCapability :: "capability \<Rightarrow> bool" where
  "isSetCapability c \<longleftrightarrow> cap_kind c = ProposalCapability
     \<and> (case cap_operation c of None \<Rightarrow> False | Some s \<Rightarrow> os_set s)"

definition isSetSelectionCapability :: "capability \<Rightarrow> bool" where
  "isSetSelectionCapability c \<longleftrightarrow> isSetCapability c
     \<and> (case cap_operation c of None \<Rightarrow> False | Some s \<Rightarrow> os_kind s \<noteq> InsertOp)"

definition capabilityWritebackMode :: "capability \<Rightarrow> runtime_wb_mode" where
  "capabilityWritebackMode c = (case cap_writeback c of
      Some (mode, _) \<Rightarrow> mode
    | None \<Rightarrow> (case presentStr (cap_executor c) of
        None \<Rightarrow> DirectSql
      | Some e \<Rightarrow> if e \<noteq> ''sql_update'' then AppHandler else DirectSql))"

definition capabilityWritebackExecutor :: "capability \<Rightarrow> string option" where
  "capabilityWritebackExecutor c = (case cap_writeback c of
      Some (_, Some e) \<Rightarrow> Some e | _ \<Rightarrow> cap_executor c)"

text \<open>The columns a capability reads, in the order of the statement.\<close>

definition readColumns :: "capability \<Rightarrow> string list" where
  "readColumns c = (let t = cap_target c; opt = (\<lambda>k. case presentStr k of None \<Rightarrow> [] | Some s \<Rightarrow> [s]) in
     if cap_kind c = AggregateRead then
       (case cap_aggregate c of None \<Rightarrow> []
          | Some a \<Rightarrow> opt (ag_column a) @ map ft_column (optOr (ag_selection a) []))
       @ opt (ct_tenant_key t) @ opt (ct_principal_scope_key t)
     else uniqueList (cap_visible_columns c @ [ct_primary_key t] @ opt (ct_tenant_key t)
       @ opt (ct_principal_scope_key t) @ opt (cap_guard_column c)
       @ (case cap_operation c of None \<Rightarrow> []
            | Some s \<Rightarrow> map ft_column (optOr (os_selection s) []) @ map rb_column (os_aggregate_bounds s))))"

definition listedLocalCapabilities :: "runtime_config \<Rightarrow> capability list" where
  "listedLocalCapabilities cfg = (if rc_mode cfg = RunReadOnly
     then filter (\<lambda>c. cap_kind c \<in> {ReadCapability, AggregateRead}) (rc_capabilities cfg)
     else rc_capabilities cfg)"

datatype eligibility_phase = QueuePhase | ExecutePhase

record eligibility =
  el_eligible :: bool
  el_reasons :: "string list"
  el_contract_digest :: "string option"
  el_policy :: "worker_policy option"

text \<open>
  \<open>policyFor\<close> is the deployment's allowlist entry for this capability under its active contract, and
  \<open>writerReasons\<close> the checks of the source it would write to.
\<close>

definition policyFor :: "runtime_config \<Rightarrow> capability \<Rightarrow> worker_policy option" where
  "policyFor cfg c = (case (rc_supervised_worker cfg, presentStr (map_option cp_digest (cap_contract c))) of
      (Some d, Some digest) \<Rightarrow> find (\<lambda>p. wp_capability p = cap_name c \<and> wp_contract_digest p = digest
          \<and> wp_mode p = ''supervised_worker'') (sw_capabilities d)
    | _ \<Rightarrow> None)"

definition writerReasons :: "runtime_config \<Rightarrow> capability \<Rightarrow> string list" where
  "writerReasons cfg c = (case map_of (rc_sources cfg) (cap_source c) of
      None \<Rightarrow> [''writable_source_unavailable'']
    | Some s \<Rightarrow>
        if so_read_only s \<or> presentStr (so_write_url_env s) = None then [''writable_source_unavailable'']
        else issueIf (case policyFor cfg c of None \<Rightarrow> False
                 | Some p \<Rightarrow> Some (wp_write_url_env p) \<noteq> so_write_url_env s) ''writer_reference_mismatch''
           @ issueIf (\<not> so_receipts s) ''receipt_authority_missing'')"

definition resolveSupervisedWorkerEligibility ::
  "runtime_config \<Rightarrow> capability \<Rightarrow> eligibility_phase \<Rightarrow> string option \<Rightarrow> eligibility" where
  "resolveSupervisedWorkerEligibility cfg c phase worker =
     (let digest = presentStr (map_option cp_digest (cap_contract c)); policy = policyFor cfg c;
          reasons = uniqueList (
            issueIf (\<not> (case rc_supervised_worker cfg of None \<Rightarrow> False | Some d \<Rightarrow> sw_enabled d))
              ''deployment_disabled''
          @ issueIf (rc_mode cfg \<noteq> RunReview) ''review_mode_required''
          @ issueIf (rc_cloud_linked cfg) ''cloud_linked_local_execution_forbidden''
          @ issueIf (cap_kind c \<noteq> ProposalCapability) ''proposal_capability_required''
          @ issueIf (\<not> cap_supervised_allowed c) ''contract_permission_missing''
          @ issueIf (digest = None) ''active_contract_digest_missing''
          @ issueIf (policy = None) ''deployment_allowlist_mismatch''
          @ issueIf (phase \<noteq> QueuePhase \<and> (case policy of None \<Rightarrow> False
                | Some p \<Rightarrow> presentStr (wp_worker_identity p) \<noteq> None \<and> wp_worker_identity p \<noteq> worker))
              ''worker_identity_mismatch''
          @ writerReasons cfg c
          @ issueIf (tenantKey c = None) ''trusted_tenant_scope_missing''
          @ issueIf (map_option fst (cap_writeback c) \<noteq> Some DirectSql) ''direct_sql_required''
          @ issueIf (case cap_operation c of None \<Rightarrow> False | Some s \<Rightarrow> os_set s) ''single_row_required''
          @ issueIf (opKind c = DeleteOp) ''delete_ineligible''
          @ issueIf (cap_reviewed_inverse c) ''reversibility_ineligible''
          @ issueIf (opKind c = UpdateOp
              \<and> (presentStr (cap_guard_column c) = None \<or> cap_weak_guard_ack c)) ''exact_conflict_guard_required''
          @ issueIf (opKind c = InsertOp \<and> optOr (Option.bind (cap_operation c) os_deduplication) [] = [])
              ''insert_deduplication_required'')
      in \<lparr>el_eligible = (reasons = []), el_reasons = reasons, el_contract_digest = digest,
          el_policy = policy\<rparr>)"

subsection \<open>Conversions\<close>

text \<open>\<open>scalar\<close>: \<open>undefined\<close> becomes \<open>null\<close>, a value that is not a scalar its text.\<close>

definition scalarOf :: "json \<Rightarrow> json" where
  "scalarOf j = (if j = JUndefined then JNull else asScalar j)"

definition scalarRecord :: "srow \<Rightarrow> srow" where
  "scalarRecord r = map (\<lambda>e. (fst e, scalarOf (snd e))) r"

definition visibleScalarRecord :: "capability \<Rightarrow> srow \<Rightarrow> srow" where
  "visibleScalarRecord c r = scalarRecord (filter (\<lambda>e. fst e \<in> set (cap_visible_columns c)) r)"

definition padFraction :: "string \<Rightarrow> string" where
  "padFraction s = take 6 (s @ replicate (6 - length s) (CHR ''0''))"

definition conflictGuardScalar :: "json \<Rightarrow> json" where
  "conflictGuardScalar v = (case v of
      JStr s \<Rightarrow> (case matchTimestamp (trimStr s) of
          None \<Rightarrow> v
        | Some t \<Rightarrow> JStr (ts_date t @ '' '' @ ts_time t @ ''.'' @ padFraction (ts_fraction t) @ ts_offset t))
    | _ \<Rightarrow> v)"

definition sha256Json :: "runtime \<Rightarrow> json \<Rightarrow> string" where
  "sha256Json rt j = sha256Hex rt (jsonStringify (dropUndefined j))"

definition stableId :: "runtime \<Rightarrow> string \<Rightarrow> json \<Rightarrow> string" where
  "stableId rt prefix j = prefix @ ''_'' @ take 20 (sha256Json rt j)"

definition hashJson :: "runtime \<Rightarrow> json \<Rightarrow> string" where
  "hashJson rt j = ''sha256:'' @ sha256Json rt j"

definition envValue :: "environment \<Rightarrow> string \<Rightarrow> string option" where
  "envValue env name = presentStr (map_option trimStr (env name))"

definition valueFromEnvOrLiteral :: "json \<Rightarrow> json \<Rightarrow> environment \<Rightarrow> string option" where
  "valueFromEnvOrLiteral envName literal env =
     (case Option.bind (asString envName) (envValue env) of
        Some v \<Rightarrow> Some v
      | None \<Rightarrow> presentStr (map_option trimStr (asString literal)))"

end
