(* ===== verification/TrustedContexts.thy ===== *)
theory TrustedContexts
  imports Capabilities
begin

text \<open>
  \<open>packages/mcp-server/src/trusted-context.ts\<close>: where the tenant and the principal of a call come from,
  the principal scope of a change set, and the checks a model's arguments pass.  The credential
  resolver of a tenant-scoped source is left to the deployment.
\<close>

subsection \<open>Arguments of the model\<close>

definition RESERVED_MODEL_ARGS :: "string list" where
  "RESERVED_MODEL_ARGS = [''tenant_id'', ''tenantId'', ''principal'', ''principal_id'', ''project_id'',
     ''source_id'', ''allowed_columns'', ''row_version'', ''expected_version'', ''approval_identity'']"

definition rejectTrustedArgOverrides :: "srow \<Rightarrow> unit result" where
  "rejectTrustedArgOverrides args =
     throwIf (\<exists>k \<in> set (map fst args). k \<in> set RESERVED_MODEL_ARGS)
       (McpRuntimeError ''MODEL_CANNOT_OVERRIDE_BINDING'')"

definition numberOf :: "json \<Rightarrow> rat option" where
  "numberOf v = (case v of JNum n \<Rightarrow> jnumRat n | _ \<Rightarrow> None)"

definition typeMatches :: "arg_type \<Rightarrow> json \<Rightarrow> bool" where
  "typeMatches t v = (case t of
      StringArg \<Rightarrow> (case v of JStr _ \<Rightarrow> True | _ \<Rightarrow> False)
    | NumberArg \<Rightarrow> isNumber v
    | BooleanArg \<Rightarrow> (case v of JBool _ \<Rightarrow> True | _ \<Rightarrow> False))"

definition tooLong :: "scalar_arg \<Rightarrow> json \<Rightarrow> bool" where
  "tooLong spec v = (case (v, sa_max_length spec) of
      (JStr s, Some m) \<Rightarrow> m \<noteq> 0 \<and> length s > m | _ \<Rightarrow> False)"

definition belowMinimum :: "rat option \<Rightarrow> json \<Rightarrow> bool" where
  "belowMinimum bound v = (case (bound, numberOf v) of (Some b, Some x) \<Rightarrow> x < b | _ \<Rightarrow> False)"

definition aboveMaximum :: "rat option \<Rightarrow> json \<Rightarrow> bool" where
  "aboveMaximum bound v = (case (bound, numberOf v) of (Some b, Some x) \<Rightarrow> x > b | _ \<Rightarrow> False)"

definition validateScalarArg :: "scalar_arg \<Rightarrow> json \<Rightarrow> unit result" where
  "validateScalarArg spec v =
     (if v = JUndefined then
        throwIf (sa_required spec \<noteq> Some False) (McpRuntimeError ''ARGUMENT_REQUIRED'')
      else
     bindE (throwIf (\<not> typeMatches (sa_type spec) v) (McpRuntimeError ''ARGUMENT_TYPE_INVALID'')) (\<lambda>_.
     bindE (throwIf (tooLong spec v) (McpRuntimeError ''ARGUMENT_TOO_LONG'')) (\<lambda>_.
     bindE (throwIf (belowMinimum (sa_minimum spec) v) (McpRuntimeError ''ARGUMENT_BELOW_MINIMUM'')) (\<lambda>_.
     bindE (throwIf (aboveMaximum (sa_maximum spec) v) (McpRuntimeError ''ARGUMENT_ABOVE_MAXIMUM'')) (\<lambda>_.
     throwIf (case sa_enum spec of None \<Rightarrow> False | Some vs \<Rightarrow> \<not> list_ex (strictEq v) vs)
       (McpRuntimeError ''ARGUMENT_NOT_ALLOWED''))))))"

definition validateItem :: "(string \<times> scalar_arg) list \<Rightarrow> json \<Rightarrow> unit result" where
  "validateItem specs item = (case item of
      JObj es \<Rightarrow>
        bindE (throwIf (\<exists>k \<in> set (map fst es). k \<notin> set (map fst specs))
                 (McpRuntimeError ''ARGUMENT_ITEM_FIELD_NOT_ALLOWED'')) (\<lambda>_.
        mapE (\<lambda>_. ()) (traverseE (\<lambda>(k, spec). validateScalarArg spec (field es k)) specs))
    | _ \<Rightarrow> Inl (McpRuntimeError ''ARGUMENT_ITEM_TYPE_INVALID''))"

definition validateArg :: "arg_config \<Rightarrow> json \<Rightarrow> unit result" where
  "validateArg spec v = (case spec of
      ScalarArg s \<Rightarrow> validateScalarArg s v
    | ObjectArrayArg required maxItems specs \<Rightarrow>
        (if v = JUndefined then throwIf (required \<noteq> Some False) (McpRuntimeError ''ARGUMENT_REQUIRED'')
         else case v of
           JArr items \<Rightarrow>
             bindE (throwIf (items = [] \<or> length items > maxItems)
                      (McpRuntimeError ''ARGUMENT_ITEM_COUNT_INVALID'')) (\<lambda>_.
             mapE (\<lambda>_. ()) (traverseE (validateItem specs) items))
         | _ \<Rightarrow> Inl (McpRuntimeError ''ARGUMENT_TYPE_INVALID'')))"

definition validateToolArgs :: "capability \<Rightarrow> srow \<Rightarrow> unit result" where
  "validateToolArgs c args =
     bindE (throwIf (\<exists>k \<in> set (map fst args). k \<notin> set (map fst (cap_args c)))
              (McpRuntimeError (if isSetCapability c then ''MODEL_PREDICATE_REJECTED''
                 else ''ARGUMENT_NOT_ALLOWED''))) (\<lambda>_.
     mapE (\<lambda>_. ()) (traverseE (\<lambda>(k, spec). validateArg spec (field args k)) (cap_args c)))"

subsection \<open>Tenant and principal\<close>

definition contextConfigFor :: "runtime_config \<Rightarrow> capability \<Rightarrow> context_config option" where
  "contextConfigFor cfg c =
     (case Option.bind (presentStr (cap_context c)) (map_of (rc_contexts cfg)) of
        Some x \<Rightarrow> Some x | None \<Rightarrow> rc_trusted_context cfg)"

definition scopeProvider :: "context_provider \<Rightarrow> scope_provider option" where
  "scopeProvider p = (case p of EnvironmentProvider \<Rightarrow> Some ScopeEnvironment | HttpClaims \<Rightarrow> Some ScopeHttpClaims
     | CloudSessionProvider \<Rightarrow> Some ScopeCloudSession | StaticDev \<Rightarrow> Some ScopeStaticDev
     | ReviewedOrganization \<Rightarrow> None)"

definition effectivePrincipalScope ::
  "runtime \<Rightarrow> runtime_config \<Rightarrow> capability \<Rightarrow> trusted_context \<Rightarrow> principal_scope option result" where
  "effectivePrincipalScope rt cfg c ctx = (case principalKey c of
      None \<Rightarrow> Inr None
    | Some col \<Rightarrow>
        bindE (requireSome (McpRuntimeError ''TRUSTED_CONTEXT_MISSING'') (contextConfigFor cfg c)) (\<lambda>cc.
        bindE (requireSome (McpRuntimeError ''TRUSTED_BINDING_MISSING'') (scopeProvider (cc_provider cc))) (\<lambda>p.
        let binding = optOr (cc_principal_binding cc) ''principal''; val = JStr (tx_principal ctx) in
        Inr (Some \<lparr>ps_column = col, ps_binding = binding, ps_provider = p,
          ps_value_fingerprint = principalScopeFingerprint rt col binding p val, ps_value = Some val\<rparr>))))"

text \<open>The organization a configuration names, and whether a principal must be bound.\<close>

definition configuredOrganization :: "srow \<Rightarrow> string option" where
  "configuredOrganization values = (case field values ''organization_id'' of
      JStr s \<Rightarrow> Some (trimStr s)
    | _ \<Rightarrow> map_option trimStr (asString (field values ''tenant_id'')))"

definition protectedOrganization :: "capability \<Rightarrow> string option" where
  "protectedOrganization c = presentStr (Option.bind (cap_protected c) pr_organization_id)"

definition linkPrincipalScoped :: "protected_read \<Rightarrow> bool" where
  "linkPrincipalScoped p \<longleftrightarrow>
     (case pr_relationship p of None \<Rightarrow> False | Some r \<Rightarrow> presentStr (lr_principal_scope_key r) \<noteq> None)
     \<or> list_ex (\<lambda>r. list_ex (\<lambda>l. presentStr (ln_principal_scope_key l) \<noteq> None) (rp_links r))
         (pr_relationships p)"

definition principalRequired :: "context_config \<Rightarrow> capability \<Rightarrow> bool" where
  "principalRequired cc c \<longleftrightarrow> presentStr (cc_principal_binding cc) \<noteq> None \<or> principalKey c \<noteq> None
     \<or> (case cap_protected c of None \<Rightarrow> False | Some p \<Rightarrow> linkPrincipalScoped p)
     \<or> field (cc_values cc) ''principal_env'' \<noteq> JUndefined
     \<or> field (cc_values cc) ''principal_id_env'' \<noteq> JUndefined
     \<or> field (cc_values cc) ''principal'' \<noteq> JUndefined"

text \<open>\<open>String(value ?? fallback)\<close>.\<close>

definition stringOr :: "json \<Rightarrow> string \<Rightarrow> string" where
  "stringOr v fallback = (if v = JUndefined \<or> v = JNull then fallback else stringOf v)"

text \<open>
  The binding of a process-bound context: the organization frozen into the capability wins, a value
  that contradicts it is refused, and both identities must be present where they are required.
\<close>

definition processBinding ::
  "context_provider \<Rightarrow> string option \<Rightarrow> string option \<Rightarrow> string option \<Rightarrow> bool \<Rightarrow> trusted_context result" where
  "processBinding provenance org tenant princ required =
     bindE (throwIf (org \<noteq> None \<and> tenant \<noteq> None \<and> tenant \<noteq> org)
              (McpRuntimeError ''TRUSTED_ORGANIZATION_MISMATCH'')) (\<lambda>_.
     (case (if org \<noteq> None then org else tenant) of
        None \<Rightarrow> Inl (McpRuntimeError ''TRUSTED_BINDING_MISSING'')
      | Some t \<Rightarrow>
          bindE (throwIf (required \<and> princ = None) (McpRuntimeError ''TRUSTED_BINDING_MISSING'')) (\<lambda>_.
          Inr \<lparr>tx_tenant_id = t, tx_principal = optOr princ [], tx_provenance = provenance\<rparr>)))"

definition environmentBinding ::
  "environment \<Rightarrow> srow \<Rightarrow> string option \<Rightarrow> bool \<Rightarrow> trusted_context result" where
  "environmentBinding env values org required =
     processBinding EnvironmentProvider org
       (if org \<noteq> None \<and> field values ''tenant_id_env'' = JUndefined then None
        else envValue env (stringOr (field values ''tenant_id_env'') ''SYNAPSOR_TENANT_ID''))
       (envValue env (stringOr (field values ''principal_env'') ''SYNAPSOR_PRINCIPAL'')) required"

definition staticBinding ::
  "environment \<Rightarrow> srow \<Rightarrow> string option \<Rightarrow> bool \<Rightarrow> trusted_context result" where
  "staticBinding env values org required =
     processBinding StaticDev org
       (valueFromEnvOrLiteral (field values ''tenant_id_env'') (field values ''tenant_id'') env)
       (valueFromEnvOrLiteral (field values ''principal_env'') (field values ''principal'') env) required"

definition sessionBinding ::
  "context_provider \<Rightarrow> trusted_context option \<Rightarrow> string option \<Rightarrow> bool \<Rightarrow> trusted_context result" where
  "sessionBinding provider session org required = (case session of
      None \<Rightarrow> Inl (McpRuntimeError ''TRUSTED_BINDING_MISSING'')
    | Some x \<Rightarrow>
        bindE (throwIf (tx_provenance x \<noteq> provider) (McpRuntimeError ''TRUSTED_BINDING_MISSING'')) (\<lambda>_.
        bindE (throwIf (required \<and> tx_principal x = []) (McpRuntimeError ''TRUSTED_BINDING_MISSING'')) (\<lambda>_.
        bindE (throwIf (org \<noteq> None \<and> tx_tenant_id x \<noteq> [] \<and> Some (tx_tenant_id x) \<noteq> org)
                 (McpRuntimeError ''TRUSTED_ORGANIZATION_MISMATCH'')) (\<lambda>_.
        Inr (case org of None \<Rightarrow> x | Some o' \<Rightarrow> x\<lparr>tx_tenant_id := o'\<rparr>)))))"

definition resolveTrustedContext ::
  "runtime_config \<Rightarrow> environment \<Rightarrow> capability \<Rightarrow> trusted_context option \<Rightarrow> trusted_context result" where
  "resolveTrustedContext cfg env c session =
     bindE (requireSome (McpRuntimeError ''TRUSTED_CONTEXT_MISSING'') (contextConfigFor cfg c)) (\<lambda>cc.
     let values = cc_values cc; org = protectedOrganization c;
         configured = presentStr (configuredOrganization values); required = principalRequired cc c in
     bindE (throwIf (org \<noteq> None \<and> configured \<noteq> None \<and> org \<noteq> configured)
              (McpRuntimeError ''TRUSTED_ORGANIZATION_MISMATCH'')) (\<lambda>_.
     case cc_provider cc of
       EnvironmentProvider \<Rightarrow> environmentBinding env values org required
     | StaticDev \<Rightarrow> staticBinding env values org required
     | HttpClaims \<Rightarrow> sessionBinding HttpClaims session org required
     | CloudSessionProvider \<Rightarrow> sessionBinding CloudSessionProvider session org required
     | ReviewedOrganization \<Rightarrow> (case org of
           None \<Rightarrow> Inl (McpRuntimeError ''TRUSTED_ORGANIZATION_AUTHORITY_MISSING'')
         | Some o' \<Rightarrow>
             bindE (throwIf required (McpRuntimeError ''TRUSTED_BINDING_MISSING'')) (\<lambda>_.
             Inr \<lparr>tx_tenant_id = o', tx_principal = [], tx_provenance = ReviewedOrganization\<rparr>))))"

end
