(* ===== verification/ReadPlan.thy ===== *)
theory ReadPlan
  imports TrustedContexts
begin

text \<open>
  The compilation of a reviewed capability to the one statement it may read with
  (\<open>packages/mcp-server/src/read-planning.ts\<close>).

  A statement is a term whose comparisons name the placeholder they bind, and \<open>renderQuery\<close> gives the
  text the code builds from it in the PostgreSQL or the MySQL style.  The planner of protected reads
  threads the list of bound values as its state, as the closure \<open>bind\<close> does.  Every identifier
  passes \<open>quoteName\<close> where the code quotes it, so a compiled term holds safe identifiers only.
\<close>

subsection \<open>Statements\<close>

datatype placeholder_style = DollarStyle | QuestionStyle

datatype field_ref = Bare string | Qualified string string

datatype read_condition =
    Compared field_ref comparison_operator nat
  | AmongValues field_ref "nat list"
  | NullTest field_ref bool
  | KeysEqual field_ref field_ref

datatype sql_expr =
    FieldOf field_ref
  | BandOf field_ref "(nat \<times> nat) list" nat
  | BucketOf time_unit field_ref
  | CountRows
  | AggregateOf string field_ref
  | CountDistinctOf field_ref
  | NullCountOf field_ref
  | CompletionOf field_ref
  | QuotientOf bool sql_expr sql_expr
  | LeastOf "sql_expr list"
  | PeriodText string

record read_join =
  rj_left :: bool
  rj_schema :: string
  rj_table :: string
  rj_alias :: string
  rj_on :: "read_condition list"

datatype item_name = NoName | PlainName string | QuotedName string

datatype group_term = GroupOrdinal nat | GroupExpr sql_expr

datatype order_term = OrderRef field_ref sort_direction | OrderName string sort_direction
  | OrderGroup group_term

text \<open>\<open>sq_where\<close> is \<open>None\<close> where the code leaves the clause out.\<close>

record select_query =
  sq_items :: "(sql_expr \<times> item_name) list"
  sq_schema :: string
  sq_table :: string
  sq_alias :: "string option"
  sq_joins :: "read_join list"
  sq_where :: "read_condition list option"
  sq_groups :: "group_term list"
  sq_order :: "order_term list"
  sq_limit :: "int option"

datatype read_query = SelectQuery select_query | PeriodUnion "select_query list"

definition quoteName :: "string \<Rightarrow> string result" where
  "quoteName s = (if safeIdentifier s then Inr s else Inl (McpRuntimeError ''UNSAFE_IDENTIFIER''))"

subsection \<open>Fixed reads\<close>

definition optKey :: "string option \<Rightarrow> nat \<Rightarrow> (string \<times> nat) list" where
  "optKey k n = (case presentStr k of None \<Rightarrow> [] | Some s \<Rightarrow> [(s, n)])"

definition boundColumns :: "(string \<times> nat) list \<Rightarrow> read_condition list result" where
  "boundColumns cs = traverseE (\<lambda>(s, n). bindE (quoteName s) (\<lambda>q. Inr (Compared (Bare q) EqOp n))) cs"

definition aggregateTerms :: "capability \<Rightarrow> fixed_term list" where
  "aggregateTerms c = optOr (Option.bind (cap_aggregate c) ag_selection) []"

definition setTerms :: "capability \<Rightarrow> fixed_term list" where
  "setTerms c = optOr (Option.bind (cap_operation c) os_selection) []"

text \<open>The reviewed terms take the first placeholders, the tenant the next and the principal the one
  after it.\<close>

definition numberedTerms :: "capability \<Rightarrow> fixed_term list \<Rightarrow> (string \<times> nat) list" where
  "numberedTerms c terms = zip (map ft_column terms) [1..<length terms + 1]
     @ optKey (ct_tenant_key (cap_target c)) (length terms + 1)
     @ optKey (ct_principal_scope_key (cap_target c)) (length terms + 2)"

definition someIfAny :: "'a list \<Rightarrow> 'a list option" where
  "someIfAny xs = (if xs = [] then None else Some xs)"

definition aggregateName :: "aggregate_function \<Rightarrow> string" where
  "aggregateName f = (case f of CountFn \<Rightarrow> ''COUNT'' | SumFn \<Rightarrow> ''SUM'' | AvgFn \<Rightarrow> ''AVG'')"

definition aggregateExpression :: "aggregate_read \<Rightarrow> sql_expr result" where
  "aggregateExpression a =
     (if ag_function a = CountFn \<and> ag_count_rows a then Inr CountRows
      else bindE (quoteName (optOr (ag_column a) [])) (\<lambda>q.
        Inr (AggregateOf (aggregateName (ag_function a)) (Bare q))))"

definition fixedSelect ::
  "capability \<Rightarrow> (sql_expr \<times> item_name) list \<Rightarrow> read_condition list option \<Rightarrow> order_term list
   \<Rightarrow> int option \<Rightarrow> select_query result" where
  "fixedSelect c items conditions order cap =
     bindE (quoteName (ct_schema (cap_target c))) (\<lambda>s. bindE (quoteName (ct_table (cap_target c))) (\<lambda>t.
     Inr \<lparr>sq_items = items, sq_schema = s, sq_table = t, sq_alias = None, sq_joins = [],
       sq_where = conditions, sq_groups = [], sq_order = order, sq_limit = cap\<rparr>))"

definition buildSelect :: "capability \<Rightarrow> select_query result" where
  "buildSelect c =
     (if cap_protected c \<noteq> None then Inl (McpRuntimeError ''PROTECTED_READ_ARGS_REQUIRED'')
      else if cap_kind c = AggregateRead then
        bindE (requireSome (McpRuntimeError ''AGGREGATE_DEFINITION_MISSING'') (cap_aggregate c)) (\<lambda>a.
        bindE (boundColumns (numberedTerms c (aggregateTerms c))) (\<lambda>conditions.
        bindE (aggregateExpression a) (\<lambda>e.
        fixedSelect c [(e, PlainName ''aggregate_value''), (CountRows, PlainName ''group_size'')]
          (someIfAny conditions) [] None)))
      else
     bindE (traverseE quoteName (readColumns c)) (\<lambda>columns.
     let items = map (\<lambda>q. (FieldOf (Bare q), NoName)) columns in
     if isSetSelectionCapability c then
       let maxRows = optOr (Option.bind (cap_operation c) os_max_rows) 0 in
       bindE (boundColumns (numberedTerms c (setTerms c))) (\<lambda>conditions.
       bindE (quoteName (ct_primary_key (cap_target c))) (\<lambda>pk.
       fixedSelect c items (Some conditions) [OrderRef (Bare pk) Ascending] (Some (maxRows + 1))))
     else
       bindE (boundColumns ((ct_primary_key (cap_target c), 1)
           # optKey (ct_tenant_key (cap_target c)) 2 @ optKey (ct_principal_scope_key (cap_target c)) 3))
         (\<lambda>conditions.
       fixedSelect c items (Some conditions) [] (Some (max 1 (optOr (cap_max_rows c) 1))))))"

definition contextValues :: "capability \<Rightarrow> trusted_context \<Rightarrow> json list" where
  "contextValues c ctx = (if tenantKey c \<noteq> None then [JStr (tx_tenant_id ctx)] else [])
     @ (if principalKey c \<noteq> None then [JStr (tx_principal ctx)] else [])"

definition queryValues :: "capability \<Rightarrow> srow \<Rightarrow> trusted_context \<Rightarrow> json list result" where
  "queryValues c args ctx =
     (if cap_kind c = AggregateRead then
        Inr (map ft_value (aggregateTerms c) @ contextValues c ctx)
      else if isSetSelectionCapability c then
        Inr (map ft_value (setTerms c) @ contextValues c ctx)
      else if field args (cap_id_from_arg c) = JUndefined then Inl (McpRuntimeError ''LOOKUP_ARG_MISSING'')
      else Inr (field args (cap_id_from_arg c) # contextValues c ctx))"

subsection \<open>Protected reads\<close>

type_synonym 'a compiler = "(json list, 'a) io"

definition bindValue :: "json \<Rightarrow> nat compiler" where
  "bindValue v vs = (Inr (Suc (length vs)), vs @ [v])"

definition relationshipAlias :: "nat \<Rightarrow> nat \<Rightarrow> string" where
  "relationshipAlias i j = ''r'' @ natDecimal (i + 1) @ ''_'' @ natDecimal (j + 1)"

definition legacyPath :: "legacy_relationship \<Rightarrow> relationship_path" where
  "legacyPath r = \<lparr>rp_name = lr_name r, rp_links = [\<lparr>ln_schema = lr_schema r, ln_table = lr_table r,
     ln_primary_key = lr_primary_key r, ln_tenant_key = presentStr (lr_tenant_key r),
     ln_principal_scope_key = presentStr (lr_principal_scope_key r), ln_local_key = lr_local_key r,
     ln_target_key = lr_target_key r, ln_keep_null = False\<rparr>]\<rparr>"

definition relationshipPaths :: "protected_read \<Rightarrow> relationship_path list" where
  "relationshipPaths p = (if pr_relationships p \<noteq> [] then pr_relationships p
     else case pr_relationship p of None \<Rightarrow> [] | Some r \<Rightarrow> [legacyPath r])"

text \<open>The alias of a relationship is that of its last link; a later path of the same name wins.\<close>

definition relationshipAliases :: "protected_read \<Rightarrow> (string \<times> string) list" where
  "relationshipAliases p = fold (\<lambda>(i, path) m. upsertRow fst
       (rp_name path, relationshipAlias i (length (rp_links path) - 1)) m)
     (zip [0..<length (relationshipPaths p)] (relationshipPaths p)) []"

definition fieldRef :: "protected_read \<Rightarrow> string \<Rightarrow> string option \<Rightarrow> field_ref result" where
  "fieldRef p name rel =
     bindE (requireSome (McpRuntimeError ''PROTECTED_RELATIONSHIP_INVALID'')
              (case rel of None \<Rightarrow> Some ''t0'' | Some r \<Rightarrow> map_of (relationshipAliases p) r)) (\<lambda>alias.
     bindE (quoteName name) (\<lambda>q. Inr (Qualified alias q)))"

text \<open>The condition that binds a scope column of one relation to a trusted value, if it declares one.\<close>

definition scopeCondition :: "string \<Rightarrow> string option \<Rightarrow> string \<Rightarrow> read_condition list compiler" where
  "scopeCondition alias key trusted = (case presentStr key of
      None \<Rightarrow> returnM []
    | Some k \<Rightarrow> bindM (liftE (quoteName k)) (\<lambda>q. bindM (bindValue (JStr trusted)) (\<lambda>n.
        returnM [Compared (Qualified alias q) EqOp n])))"

fun compileLinks ::
  "trusted_context \<Rightarrow> nat \<Rightarrow> nat \<Rightarrow> string \<Rightarrow> bool \<Rightarrow> relationship_link list \<Rightarrow> read_join list compiler" where
  "compileLinks ctx i j source keep [] = returnM []"
| "compileLinks ctx i j source keep (l # ls) = (let alias = relationshipAlias i j; keep' = (keep \<or> ln_keep_null l) in
     bindM (liftE (quoteName (ln_local_key l))) (\<lambda>lk.
     bindM (liftE (quoteName (ln_target_key l))) (\<lambda>tk.
     bindM (scopeCondition alias (ln_tenant_key l) (tx_tenant_id ctx)) (\<lambda>tenant.
     bindM (scopeCondition alias (ln_principal_scope_key l) (tx_principal ctx)) (\<lambda>princ.
     bindM (liftE (quoteName (ln_schema l))) (\<lambda>s.
     bindM (liftE (quoteName (ln_table l))) (\<lambda>t.
     bindM (compileLinks ctx i (Suc j) alias keep' ls) (\<lambda>rest.
     returnM (\<lparr>rj_left = keep', rj_schema = s, rj_table = t, rj_alias = alias,
       rj_on = KeysEqual (Qualified source lk) (Qualified alias tk) # tenant @ princ\<rparr> # rest)))))))))"

definition compileJoins :: "protected_read \<Rightarrow> trusted_context \<Rightarrow> read_join list compiler" where
  "compileJoins p ctx = bindM
     (traverseM (\<lambda>(i, path). compileLinks ctx i 0 ''t0'' False (rp_links path))
       (zip [0..<length (relationshipPaths p)] (relationshipPaths p)))
     (\<lambda>js. returnM (concat js))"

definition protectedReadValue :: "protected_value \<Rightarrow> srow \<Rightarrow> json result" where
  "protectedReadValue v args = (case v of
      FixedValue x \<Rightarrow> Inr x
    | FromArg a \<Rightarrow> (if field args a = JUndefined then Inl (McpRuntimeError ''ARGUMENT_REQUIRED'')
        else Inr (field args a)))"

definition compilePredicate :: "protected_read \<Rightarrow> srow \<Rightarrow> protected_predicate \<Rightarrow> read_condition compiler" where
  "compilePredicate p args pred = (case pred of
      InPredicate name rel vals \<Rightarrow>
        bindM (liftE (fieldRef p name rel)) (\<lambda>ref.
        bindM (traverseM bindValue vals) (\<lambda>ns. returnM (AmongValues ref ns)))
    | ComparePredicate name rel operator v \<Rightarrow>
        bindM (liftE (fieldRef p name rel)) (\<lambda>ref.
        bindM (liftE (protectedReadValue v args)) (\<lambda>x.
        if x = JNull then
          (if operator \<noteq> EqOp \<and> operator \<noteq> NeqOp
           then throwM (McpRuntimeError ''PROTECTED_NULL_OPERATOR_INVALID'')
           else returnM (NullTest ref (operator = NeqOp)))
        else bindM (bindValue x) (\<lambda>n. returnM (Compared ref operator n)))))"

definition rangeConditions :: "field_ref \<Rightarrow> json \<Rightarrow> json result \<Rightarrow> read_condition list compiler" where
  "rangeConditions ref lo hi = bindM (bindValue lo) (\<lambda>m. bindM (liftE hi) (\<lambda>h. bindM (bindValue h) (\<lambda>n.
     returnM [Compared ref GteOp m, Compared ref LtOp n])))"

definition compileWindow :: "protected_read \<Rightarrow> read_condition list compiler" where
  "compileWindow p = (case pr_time_window p of
      None \<Rightarrow> returnM []
    | Some w \<Rightarrow> bindM (liftE (fieldRef p (tw_field w) (tw_relationship w))) (\<lambda>ref.
        rangeConditions ref (JStr (tw_start w)) (Inr (JStr (tw_end w)))))"

definition scopedWhere ::
  "capability \<Rightarrow> protected_read \<Rightarrow> srow \<Rightarrow> trusted_context \<Rightarrow> read_condition list compiler" where
  "scopedWhere c p args ctx =
     bindM (scopeCondition ''t0'' (ct_tenant_key (cap_target c)) (tx_tenant_id ctx)) (\<lambda>tenant.
     bindM (scopeCondition ''t0'' (ct_principal_scope_key (cap_target c)) (tx_principal ctx)) (\<lambda>princ.
     bindM (compileWindow p) (\<lambda>window.
     bindM (traverseM (compilePredicate p args) (pr_predicates p)) (\<lambda>preds.
     returnM (tenant @ princ @ window @ preds)))))"

definition protectedRows ::
  "capability \<Rightarrow> protected_read \<Rightarrow> srow \<Rightarrow> trusted_context \<Rightarrow> select_query compiler" where
  "protectedRows c p args ctx =
     bindM (compileJoins p ctx) (\<lambda>joins.
     bindM (liftE (quoteName (ct_schema (cap_target c)))) (\<lambda>s.
     bindM (liftE (quoteName (ct_table (cap_target c)))) (\<lambda>t.
     bindM (liftE (traverseE quoteName (cap_visible_columns c))) (\<lambda>columns.
     bindM (scopedWhere c p args ctx) (\<lambda>conditions.
     bindM (liftE (if pr_row_order p \<noteq> []
         then traverseE (\<lambda>(f, d). bindE (fieldRef p f None) (\<lambda>r. Inr (OrderRef r d))) (pr_row_order p)
         else bindE (quoteName (ct_primary_key (cap_target c))) (\<lambda>q.
           Inr [OrderRef (Qualified ''t0'' q) Ascending]))) (\<lambda>order.
     returnM \<lparr>sq_items = map (\<lambda>q. (FieldOf (Qualified ''t0'' q), QuotedName q)) columns, sq_schema = s,
       sq_table = t, sq_alias = Some ''t0'', sq_joins = joins, sq_where = someIfAny conditions,
       sq_groups = [], sq_order = order, sq_limit = Some (pr_max_rows p)\<rparr>))))))"

subsection \<open>Aggregates\<close>

definition baseMeasureFunction :: "base_function \<Rightarrow> measure_function" where
  "baseMeasureFunction f = (case f of BCount \<Rightarrow> MCount | BCountDistinct \<Rightarrow> MCountDistinct
     | BSum \<Rightarrow> MSum | BAvg \<Rightarrow> MAvg)"

definition measureName :: "measure_function \<Rightarrow> string" where
  "measureName f = (case f of MSum \<Rightarrow> ''SUM'' | MAvg \<Rightarrow> ''AVG'' | MStddevSamp \<Rightarrow> ''STDDEV_SAMP''
     | MStddevPop \<Rightarrow> ''STDDEV_POP'' | MVarSamp \<Rightarrow> ''VAR_SAMP'' | MVarPop \<Rightarrow> ''VAR_POP'' | _ \<Rightarrow> ''COUNT'')"

definition aggregateMeasure :: "measure_function \<Rightarrow> field_ref option \<Rightarrow> sql_expr result" where
  "aggregateMeasure f ref = (if f = MCount then Inr CountRows
     else bindE (requireSome (McpRuntimeError ''PROTECTED_AGGREGATE_FIELD_REQUIRED'') ref) (\<lambda>r.
       Inr (case f of MCountDistinct \<Rightarrow> CountDistinctOf r | MNonNullCount \<Rightarrow> AggregateOf ''COUNT'' r
         | MNullCount \<Rightarrow> NullCountOf r | MCompletionRate \<Rightarrow> CompletionOf r
         | _ \<Rightarrow> AggregateOf (measureName f) r)))"

text \<open>The value of an operand of a derived measure and the rows that contribute to it.\<close>

definition derivedOperand :: "protected_read \<Rightarrow> base_measure \<Rightarrow> (sql_expr \<times> sql_expr) result" where
  "derivedOperand p b = (if bm_function b = BCount then Inr (CountRows, CountRows)
     else bindE (requireSome (McpRuntimeError ''PROTECTED_DERIVED_FIELD_REQUIRED'') (presentStr (bm_field b))) (\<lambda>f.
          bindE (fieldRef p f (bm_relationship b)) (\<lambda>ref.
          bindE (aggregateMeasure (baseMeasureFunction (bm_function b)) (Some ref)) (\<lambda>e.
          Inr (e, AggregateOf ''COUNT'' ref)))))"

definition cohortName :: "nat \<Rightarrow> string" where
  "cohortName i = ''__measure_cohort_'' @ natDecimal i"

definition measureItems :: "protected_read \<Rightarrow> nat \<Rightarrow> measure_spec \<Rightarrow> (sql_expr \<times> item_name) list result" where
  "measureItems p i m =
     (if ms_function m = MReviewedDerived then (case ms_derived m of
        None \<Rightarrow> Inl (McpRuntimeError ''PROTECTED_DERIVED_REQUIRED'')
      | Some (PostAggregate b) \<Rightarrow>
          bindE (derivedOperand p b) (\<lambda>(v, n). bindE (quoteName (ms_name m)) (\<lambda>q.
          Inr [(v, QuotedName q), (LeastOf [CountRows, n], QuotedName (cohortName i))]))
      | Some (QuotientMeasure percentage num den) \<Rightarrow>
          bindE (derivedOperand p num) (\<lambda>(v, n). bindE (derivedOperand p den) (\<lambda>(w, k).
          bindE (quoteName (ms_name m)) (\<lambda>q.
          Inr [(QuotientOf percentage v w, QuotedName q), (LeastOf [CountRows, n, k], QuotedName (cohortName i))]))))
      else
        bindE (case presentStr (ms_field m) of None \<Rightarrow> Inr None
                 | Some f \<Rightarrow> mapE Some (fieldRef p f (ms_relationship m))) (\<lambda>ref.
        bindE (aggregateMeasure (ms_function m) ref) (\<lambda>e.
        bindE (quoteName (ms_name m)) (\<lambda>q.
        Inr ((e, QuotedName q) # (case ref of
            Some r \<Rightarrow> if ms_function m \<in> {MSum, MAvg, MStddevSamp, MStddevPop, MVarSamp, MVarPop}
              then [(AggregateOf ''COUNT'' r, QuotedName (cohortName i))] else []
          | None \<Rightarrow> []))))))"

definition bandExpression :: "runtime \<Rightarrow> field_ref \<Rightarrow> numeric_band \<Rightarrow> sql_expr compiler" where
  "bandExpression rt ref b =
     (let label = (\<lambda>i. if i < length (nd_labels b) then JStr (nd_labels b ! i) else JUndefined) in
     bindM (traverseM (\<lambda>(i, edge). bindM (bindValue (JNum (ratNum rt edge))) (\<lambda>m.
              bindM (bindValue (label i)) (\<lambda>n. returnM (m, n))))
            (zip [0..<length (nd_edges b)] (nd_edges b))) (\<lambda>clauses.
     bindM (bindValue (if nd_labels b = [] then JUndefined else JStr (last (nd_labels b)))) (\<lambda>final.
     returnM (BandOf ref clauses final))))"

text \<open>
  One dimension: its select item and its group.  A band binds values, so it is grouped by its ordinal
  (\<open>n\<close> is its position in the select list) and its placeholders are not repeated.
\<close>

definition compileDimension ::
  "runtime \<Rightarrow> protected_read \<Rightarrow> nat \<times> dimension_spec \<Rightarrow> ((sql_expr \<times> item_name) \<times> group_term) compiler" where
  "compileDimension rt p = (\<lambda>(n, d).
     bindM (liftE (fieldRef p (dm_field d) (dm_relationship d))) (\<lambda>ref.
     bindM (case dm_band d of None \<Rightarrow> returnM (FieldOf ref) | Some b \<Rightarrow> bandExpression rt ref b) (\<lambda>e.
     bindM (liftE (quoteName (dm_name d))) (\<lambda>q.
     returnM ((e, QuotedName q), if dm_band d = None then GroupExpr e else GroupOrdinal n)))))"

definition compileBucket ::
  "protected_read \<Rightarrow> time_bucket option \<Rightarrow> ((sql_expr \<times> item_name) \<times> group_term) list result" where
  "compileBucket p tb = (case tb of
      None \<Rightarrow> Inr []
    | Some b \<Rightarrow> bindE (fieldRef p (tb_field b) (tb_relationship b)) (\<lambda>ref.
        bindE (quoteName (tb_name b)) (\<lambda>q. let e = BucketOf (tb_bucket b) ref in
        Inr [((e, QuotedName q), GroupExpr e)])))"

definition aggregateOrdering ::
  "protected_aggregate \<Rightarrow> bool \<Rightarrow> group_term list \<Rightarrow> order_term list result" where
  "aggregateOrdering a ranged groups = (case pa_order_by a of
      Some (OrderByMeasure name d) \<Rightarrow> bindE (quoteName name) (\<lambda>q. Inr [OrderName q d])
    | Some (OrderByTime d) \<Rightarrow>
        (if \<not> ranged then (case pa_time_bucket a of None \<Rightarrow> Inl TypeError
           | Some b \<Rightarrow> bindE (quoteName (tb_name b)) (\<lambda>q. Inr [OrderName q d]))
         else Inr (map OrderGroup groups))
    | _ \<Rightarrow> Inr (map OrderGroup groups))"

definition rankedAggregate :: "protected_aggregate \<Rightarrow> bool" where
  "rankedAggregate a \<longleftrightarrow> (case pa_order_by a of Some (OrderByMeasure _ _) \<Rightarrow> True
       | Some (OrderByChange _ _) \<Rightarrow> True | _ \<Rightarrow> False)
     \<or> list_ex (\<lambda>m. ms_function m = MReviewedDerived
         \<and> (case ms_derived m of Some (PostAggregate _) \<Rightarrow> True | _ \<Rightarrow> False)) (pa_measures a)"

definition comparisonConditions ::
  "protected_read \<Rightarrow> protected_aggregate \<Rightarrow> srow \<Rightarrow> (protected_value \<times> protected_value) option
   \<Rightarrow> read_condition list compiler" where
  "comparisonConditions p a args between = (case (between, pa_comparison a) of
      (Some (lo, hi), Some cmp) \<Rightarrow>
        bindM (liftE (fieldRef p (cm_field cmp) (cm_relationship cmp))) (\<lambda>ref.
        bindM (liftE (protectedReadValue lo args)) (\<lambda>l.
        rangeConditions ref l (protectedReadValue hi args)))
    | _ \<Rightarrow> returnM [])"

definition aggregateQuery ::
  "runtime \<Rightarrow> capability \<Rightarrow> protected_read \<Rightarrow> protected_aggregate \<Rightarrow> srow \<Rightarrow> trusted_context
   \<Rightarrow> ((protected_value \<times> protected_value) \<times> string) option \<Rightarrow> select_query compiler" where
  "aggregateQuery rt c p a args ctx period =
     (let mover = (case pa_order_by a of Some (OrderByChange _ _) \<Rightarrow> True | _ \<Rightarrow> False) in
     bindM (traverseM (compileDimension rt p) (zip [1..<length (pa_dimensions a) + 1] (pa_dimensions a))) (\<lambda>dims.
     bindM (liftE (compileBucket p (if period = None \<or> \<not> mover then pa_time_bucket a else None))) (\<lambda>bucket.
     bindM (liftE (traverseE (\<lambda>(i, m). measureItems p i m)
       (zip [0..<length (pa_measures a)] (pa_measures a)))) (\<lambda>measures.
     bindM (compileJoins p ctx) (\<lambda>joins.
     bindM (liftE (quoteName (ct_schema (cap_target c)))) (\<lambda>s.
     bindM (liftE (quoteName (ct_table (cap_target c)))) (\<lambda>t.
     bindM (scopedWhere c p args ctx) (\<lambda>conditions.
     bindM (comparisonConditions p a args (map_option fst period)) (\<lambda>compared.
     let groups = map snd (dims @ bucket) in
     bindM (liftE (aggregateOrdering a (period \<noteq> None) groups)) (\<lambda>order.
     returnM \<lparr>sq_items = map fst (dims @ bucket) @ concat measures @ [(CountRows, QuotedName ''__cohort_size'')]
         @ (case period of None \<Rightarrow> [] | Some (_, name) \<Rightarrow> [(PeriodText name, QuotedName ''__period'')]),
       sq_schema = s, sq_table = t, sq_alias = Some ''t0'', sq_joins = joins,
       sq_where = someIfAny (conditions @ compared), sq_groups = groups, sq_order = order,
       sq_limit = Some ((if rankedAggregate a then optOr (pr_max_ranked_groups p) (pr_max_groups p)
         else pr_max_groups p) + 1)\<rparr>))))))))))"

definition buildProtectedReadQuery ::
  "runtime \<Rightarrow> capability \<Rightarrow> srow \<Rightarrow> trusted_context \<Rightarrow> read_query compiler" where
  "buildProtectedReadQuery rt c args ctx = (case cap_protected c of
      None \<Rightarrow> throwM (McpRuntimeError ''PROTECTED_READ_REQUIRED'')
    | Some p \<Rightarrow>
        if pr_rows p then bindM (protectedRows c p args ctx) (\<lambda>q. returnM (SelectQuery q))
        else bindM (liftE (requireSome (McpRuntimeError ''PROTECTED_AGGREGATE_REQUIRED'') (pr_aggregate p))) (\<lambda>a.
          let ranges = (case pa_comparison a of None \<Rightarrow> [] | Some cmp \<Rightarrow> cm_ranges cmp) in
          if ranges = [] then bindM (aggregateQuery rt c p a args ctx None) (\<lambda>q. returnM (SelectQuery q))
          else bindM (traverseM (\<lambda>(i, r). aggregateQuery rt c p a args ctx
                   (Some (r, if i = 0 then ''period_1'' else ''period_2'')))
                 (zip [0..<length ranges] ranges)) (\<lambda>qs. returnM (PeriodUnion qs))))"

text \<open>The statement and its values, whichever way the capability reads.\<close>

definition runtimeReadQuery ::
  "runtime \<Rightarrow> capability \<Rightarrow> srow \<Rightarrow> trusted_context \<Rightarrow> (read_query \<times> json list) result" where
  "runtimeReadQuery rt c args ctx = (if cap_protected c \<noteq> None then
       (case buildProtectedReadQuery rt c args ctx [] of (r, vs) \<Rightarrow> mapE (\<lambda>q. (q, vs)) r)
     else bindE (buildSelect c) (\<lambda>q. bindE (queryValues c args ctx) (\<lambda>vs. Inr (SelectQuery q, vs))))"

subsection \<open>The text of a statement\<close>

definition quoteText :: "placeholder_style \<Rightarrow> string \<Rightarrow> string" where
  "quoteText style s = (let q = (if style = DollarStyle then CHR 0x22 else CHR 0x60) in q # s @ [q])"

definition placeholderText :: "placeholder_style \<Rightarrow> nat \<Rightarrow> string" where
  "placeholderText style n = (if style = DollarStyle then CHR ''$'' # natDecimal n else ''?'')"

definition refText :: "placeholder_style \<Rightarrow> field_ref \<Rightarrow> string" where
  "refText style r = (case r of Bare q \<Rightarrow> quoteText style q | Qualified a q \<Rightarrow> a @ ''.'' @ quoteText style q)"

fun joinWith :: "string \<Rightarrow> string list \<Rightarrow> string" where
  "joinWith sep [] = []"
| "joinWith sep [x] = x"
| "joinWith sep (x # y # xs) = x @ sep @ joinWith sep (y # xs)"

definition operatorText :: "comparison_operator \<Rightarrow> string" where
  "operatorText c = (case c of EqOp \<Rightarrow> ''='' | NeqOp \<Rightarrow> ''<>'' | LtOp \<Rightarrow> ''<'' | LteOp \<Rightarrow> ''<=''
     | GtOp \<Rightarrow> ''>'' | GteOp \<Rightarrow> ''>='')"

definition conditionText :: "placeholder_style \<Rightarrow> read_condition \<Rightarrow> string" where
  "conditionText style c = (case c of
      Compared r operator n \<Rightarrow>
        refText style r @ '' '' @ operatorText operator @ '' '' @ placeholderText style n
    | AmongValues r ns \<Rightarrow>
        refText style r @ '' IN ('' @ joinWith '', '' (map (placeholderText style) ns) @ '')''
    | NullTest r negated \<Rightarrow> refText style r @ '' IS '' @ (if negated then ''NOT '' else []) @ ''NULL''
    | KeysEqual a b \<Rightarrow> refText style a @ '' = '' @ refText style b)"

definition unitName :: "time_unit \<Rightarrow> string" where
  "unitName u = (case u of HourBucket \<Rightarrow> ''hour'' | DayBucket \<Rightarrow> ''day'' | WeekBucket \<Rightarrow> ''week''
     | MonthBucket \<Rightarrow> ''month'' | QuarterBucket \<Rightarrow> ''quarter'' | YearBucket \<Rightarrow> ''year''
     | DayOfWeekBucket \<Rightarrow> ''day_of_week'')"

definition protectedTimeBucket :: "string \<Rightarrow> time_unit \<Rightarrow> placeholder_style \<Rightarrow> string" where
  "protectedTimeBucket col u style =
     (let q = [CHR 0x27] in
      if style = DollarStyle then
        (if u = DayOfWeekBucket then ''EXTRACT(ISODOW FROM '' @ col @ '')''
         else ''date_trunc('' @ q @ unitName u @ q @ '', '' @ col @ '')'')
      else case u of
        HourBucket \<Rightarrow> ''DATE_FORMAT('' @ col @ '', '' @ q @ ''%Y-%m-%d %H:00:00'' @ q @ '')''
      | DayBucket \<Rightarrow> ''DATE('' @ col @ '')''
      | WeekBucket \<Rightarrow> ''DATE_SUB(DATE('' @ col @ ''), INTERVAL WEEKDAY('' @ col @ '') DAY)''
      | MonthBucket \<Rightarrow> ''DATE_FORMAT('' @ col @ '', '' @ q @ ''%Y-%m-01'' @ q @ '')''
      | QuarterBucket \<Rightarrow> ''CONCAT(YEAR('' @ col @ ''), '' @ q @ ''-Q'' @ q @ '', QUARTER('' @ col @ ''))''
      | YearBucket \<Rightarrow> ''YEAR('' @ col @ '')''
      | DayOfWeekBucket \<Rightarrow> ''(WEEKDAY('' @ col @ '') + 1)'')"

fun exprText :: "placeholder_style \<Rightarrow> sql_expr \<Rightarrow> string" where
  "exprText style (FieldOf r) = refText style r"
| "exprText style (BandOf r clauses final) = (let col = refText style r; ph = placeholderText style in
     ''CASE WHEN '' @ col @ '' IS NULL THEN NULL ''
     @ joinWith '' '' (map (\<lambda>(m, n). ''WHEN '' @ col @ '' < '' @ ph m @ '' THEN '' @ ph n) clauses)
     @ '' ELSE '' @ ph final @ '' END'')"
| "exprText style (BucketOf u r) = protectedTimeBucket (refText style r) u style"
| "exprText style CountRows = ''COUNT(*)''"
| "exprText style (AggregateOf f r) = f @ ''('' @ refText style r @ '')''"
| "exprText style (CountDistinctOf r) = ''COUNT(DISTINCT '' @ refText style r @ '')''"
| "exprText style (NullCountOf r) = ''(COUNT(*) - COUNT('' @ refText style r @ ''))''"
| "exprText style (CompletionOf r) =
     ''(100.0 * COUNT('' @ refText style r @ '') / NULLIF(COUNT(*), 0))''"
| "exprText style (QuotientOf percentage a b) =
     ''CASE WHEN '' @ exprText style b @ '' IS NULL OR '' @ exprText style b @ '' = 0 THEN NULL ELSE (''
     @ (if percentage then ''100.0'' else ''1.0'') @ '' * '' @ exprText style a @ '' / ''
     @ exprText style b @ '') END''"
| "exprText style (LeastOf es) = ''LEAST('' @ joinWith '', '' (map (exprText style) es) @ '')''"
| "exprText style (PeriodText p) = [CHR 0x27] @ p @ [CHR 0x27]"

definition itemText :: "placeholder_style \<Rightarrow> sql_expr \<times> item_name \<Rightarrow> string" where
  "itemText style i = exprText style (fst i) @ (case snd i of NoName \<Rightarrow> []
     | PlainName n \<Rightarrow> '' AS '' @ n | QuotedName n \<Rightarrow> '' AS '' @ quoteText style n)"

definition joinText :: "placeholder_style \<Rightarrow> read_join \<Rightarrow> string" where
  "joinText style j = (if rj_left j then '' LEFT JOIN '' else '' JOIN '') @ quoteText style (rj_schema j)
     @ ''.'' @ quoteText style (rj_table j) @ '' '' @ rj_alias j @ '' ON ''
     @ joinWith '' AND '' (map (conditionText style) (rj_on j))"

definition groupText :: "placeholder_style \<Rightarrow> group_term \<Rightarrow> string" where
  "groupText style g = (case g of GroupOrdinal n \<Rightarrow> natDecimal n | GroupExpr e \<Rightarrow> exprText style e)"

definition directionText :: "sort_direction \<Rightarrow> string" where
  "directionText d = (case d of Ascending \<Rightarrow> ''ASC'' | Descending \<Rightarrow> ''DESC'')"

definition orderText :: "placeholder_style \<Rightarrow> order_term \<Rightarrow> string" where
  "orderText style t = (case t of OrderRef r d \<Rightarrow> refText style r @ '' '' @ directionText d
     | OrderName q d \<Rightarrow> quoteText style q @ '' '' @ directionText d
     | OrderGroup g \<Rightarrow> groupText style g)"

definition clauseText :: "string \<Rightarrow> string \<Rightarrow> string list \<Rightarrow> string" where
  "clauseText keyword sep parts = (if parts = [] then [] else keyword @ joinWith sep parts)"

definition selectText :: "placeholder_style \<Rightarrow> select_query \<Rightarrow> string" where
  "selectText style q = ''SELECT '' @ joinWith '', '' (map (itemText style) (sq_items q)) @ '' FROM ''
     @ quoteText style (sq_schema q) @ ''.'' @ quoteText style (sq_table q)
     @ (case sq_alias q of None \<Rightarrow> [] | Some a \<Rightarrow> '' '' @ a)
     @ concat (map (joinText style) (sq_joins q))
     @ (case sq_where q of None \<Rightarrow> []
        | Some cs \<Rightarrow> '' WHERE '' @ joinWith '' AND '' (map (conditionText style) cs))
     @ clauseText '' GROUP BY '' '', '' (map (groupText style) (sq_groups q))
     @ clauseText '' ORDER BY '' '', '' (map (orderText style) (sq_order q))
     @ (case sq_limit q of None \<Rightarrow> [] | Some n \<Rightarrow> '' LIMIT '' @ intDecimal n)"

definition renderQuery :: "placeholder_style \<Rightarrow> read_query \<Rightarrow> string" where
  "renderQuery style q = (case q of
      SelectQuery s \<Rightarrow> selectText style s
    | PeriodUnion ss \<Rightarrow> ''SELECT * FROM (''
        @ joinWith '' UNION ALL '' (map (\<lambda>s. ''('' @ selectText style s @ '')'') ss) @ '') AS protected_periods'')"

subsection \<open>What a read may touch\<close>

definition addTarget :: "string \<Rightarrow> string \<Rightarrow> string option \<Rightarrow> ((string \<times> string) \<times> bool) list
    \<Rightarrow> ((string \<times> string) \<times> bool) list" where
  "addTarget schema tbl key targets =
     upsertRow fst ((schema, tbl), presentStr key \<noteq> None \<or> map_of targets (schema, tbl) = Some True) targets"

text \<open>Every table of a protected read, and whether any use of it is principal scoped.\<close>

definition protectedReadTargets :: "capability \<Rightarrow> ((string \<times> string) \<times> bool) list" where
  "protectedReadTargets c = (let t = cap_target c;
       legacy = Option.bind (cap_protected c) pr_relationship;
       links = (case cap_protected c of None \<Rightarrow> [] | Some p \<Rightarrow> concat (map rp_links (pr_relationships p)))
     in fold (\<lambda>l. addTarget (ln_schema l) (ln_table l) (ln_principal_scope_key l)) links
          ((case legacy of None \<Rightarrow> id
              | Some r \<Rightarrow> addTarget (lr_schema r) (lr_table r) (lr_principal_scope_key r))
            (addTarget (ct_schema t) (ct_table t) (ct_principal_scope_key t) [])))"

definition protectedStatementTimeout :: "capability \<Rightarrow> int option \<Rightarrow> int option" where
  "protectedStatementTimeout c source = (case cap_protected c of
      None \<Rightarrow> source
    | Some p \<Rightarrow> Some (case source of None \<Rightarrow> pr_statement_timeout p | Some s \<Rightarrow> min (pr_statement_timeout p) s))"

text \<open>
  The fingerprint of a read; the reviewed records are printed with their fields in declared order.
\<close>

definition targetJson :: "capability_target \<Rightarrow> json" where
  "targetJson t = JObj ([(''schema'', JStr (ct_schema t)), (''table'', JStr (ct_table t)),
       (''primary_key'', JStr (ct_primary_key t))]
     @ optField ''tenant_key'' JStr (ct_tenant_key t)
     @ optField ''principal_scope_key'' JStr (ct_principal_scope_key t))"

definition termsJson :: "fixed_term list \<Rightarrow> json" where
  "termsJson ts = JObj [(''all'', JArr (map (\<lambda>t. JObj [(''column'', JStr (ft_column t)),
     (''operator'', JStr ''eq''), (''value'', ft_value t)]) ts))]"

definition aggregateJson :: "aggregate_read \<Rightarrow> json" where
  "aggregateJson a = JObj ([(''function'', JStr (case ag_function a of CountFn \<Rightarrow> ''count''
       | SumFn \<Rightarrow> ''sum'' | AvgFn \<Rightarrow> ''avg''))]
     @ (if ag_count_rows a then [(''count_mode'', JStr ''rows'')] else [])
     @ optField ''column'' JStr (ag_column a) @ optField ''selection'' termsJson (ag_selection a))"

definition queryFingerprintFor :: "runtime \<Rightarrow> capability \<Rightarrow> trusted_context \<Rightarrow> string" where
  "queryFingerprintFor rt c ctx = hashJson rt (JObj (
     [(''source'', JStr (cap_source c)), (''target'', targetJson (cap_target c))]
     @ optField ''selection'' termsJson (Option.bind (cap_operation c) os_selection)
     @ optField ''max_rows'' (\<lambda>n. JNum (IntN n)) (Option.bind (cap_operation c) os_max_rows)
     @ optField ''aggregate'' aggregateJson (cap_aggregate c)
     @ [(''columns'', JArr (map JStr (readColumns c))),
        (''tenant_bound'', JBool (tenantKey c \<noteq> None)), (''tenant'', JStr (tx_tenant_id ctx))]
     @ optField ''principal_scope'' (\<lambda>k. JObj [(''column'', JStr k),
         (''value_fingerprint'', JStr (digestOf rt (JObj [(''principal'', JStr (tx_principal ctx))])))])
         (principalKey c)))"

end
