(* ===== verification/ReadPlanLemmas.thy ===== *)
theory ReadPlanLemmas
  imports ReadPlan
begin

text \<open>
  Reasoning about the read planner.  A compiler only appends to the bound values; \<open>settles\<close> carries a
  fact about its result and the values bound so far, \<open>emits\<close> the placeholders of its result in the
  order of the text.  The last part reads a compiled statement: which rows it accepts.
\<close>

subsection \<open>Bound values\<close>

definition binds :: "json list \<Rightarrow> nat \<Rightarrow> json \<Rightarrow> bool" where
  "binds vs n v \<longleftrightarrow> 1 \<le> n \<and> n \<le> length vs \<and> vs ! (n - 1) = v"

lemma binds_append [intro]: "binds vs n v \<Longrightarrow> binds (vs @ new) n v"
  by (auto simp: binds_def nth_append)

lemma binds_last [simp]: "binds (vs @ [v]) (Suc (length vs)) v"
  by (simp add: binds_def)

definition settles :: "'a compiler \<Rightarrow> ('a \<Rightarrow> json list \<Rightarrow> bool) \<Rightarrow> bool" where
  "settles m R \<longleftrightarrow> (\<forall>vs a ws. m vs = (Inr a, ws) \<longrightarrow> (\<exists>new. ws = vs @ new) \<and> R a ws)"

lemma settlesD: "settles m R \<Longrightarrow> m vs = (Inr a, ws) \<Longrightarrow> R a ws"
  and settles_prefix: "settles m R \<Longrightarrow> m vs = (Inr a, ws) \<Longrightarrow> \<exists>new. ws = vs @ new"
  by (auto simp: settles_def)

lemma settles_weaken: "settles m R \<Longrightarrow> (\<And>a ws. R a ws \<Longrightarrow> Q a ws) \<Longrightarrow> settles m Q"
  by (auto simp: settles_def)

lemma settles_return [intro]: "(\<And>ws. R a ws) \<Longrightarrow> settles (returnM a) R"
  by (auto simp: settles_def)

lemma settles_lift [intro]: "(\<And>a ws. r = Inr a \<Longrightarrow> R a ws) \<Longrightarrow> settles (liftE r) R"
  by (auto simp: settles_def)

lemma settles_throw [intro]: "settles (throwM e) R"
  by (auto simp: settles_def)

lemma settles_bindValue [intro]: "settles (bindValue v) (\<lambda>n ws. binds ws n v)"
  by (auto simp: settles_def bindValue_def)

lemma settles_bind:
  assumes "settles m P" and "\<And>x vs new. P x vs \<Longrightarrow> P x (vs @ new)"
    and "\<And>x. settles (f x) (\<lambda>y ws. P x ws \<longrightarrow> Q y ws)"
  shows "settles (bindM m f) Q"
  unfolding settles_def
proof (intro allI impI)
  fix vs y ws assume "bindM m f vs = (Inr y, ws)"
  then obtain x us where m: "m vs = (Inr x, us)" and f: "f x us = (Inr y, ws)"
    by (auto simp: bindM_eq_Inr)
  from m assms(1) obtain a where us: "us = vs @ a" and P: "P x us" unfolding settles_def by metis
  from f assms(3) [of x] obtain b where ws: "ws = us @ b" and Q: "P x ws \<longrightarrow> Q y ws"
    unfolding settles_def by metis
  from P Q assms(2) [of x us b] us ws show "(\<exists>new. ws = vs @ new) \<and> Q y ws" by auto
qed

text \<open>A step whose result carries no fact.\<close>

lemma settles_skip:
  assumes "settles m (\<lambda>_ _. True)" and "\<And>x. settles (f x) Q"
  shows "settles (bindM m f) Q"
  using assms by (intro settles_bind [where P = "\<lambda>_ _. True"]) (auto intro: settles_weaken)

lemma settles_traverse:
  assumes "\<And>x. x \<in> set xs \<Longrightarrow> settles (f x) (R x)"
    and "\<And>x y vs new. R x y vs \<Longrightarrow> R x y (vs @ new)"
  shows "settles (traverseM f xs) (\<lambda>ys ws. list_all2 (\<lambda>x y. R x y ws) xs ys)"
  using assms(1)
proof (induction xs)
  case (Cons x xs)
  have IH: "settles (traverseM f xs) (\<lambda>ys ws. list_all2 (\<lambda>x y. R x y ws) xs ys)"
    using Cons by simp
  show ?case unfolding traverseM.simps
  proof (rule settles_bind [where P = "R x"])
    show "settles (f x) (R x)" using Cons.prems by simp
    fix y
    show "settles (bindM (traverseM f xs) (\<lambda>ys. returnM (y # ys)))
      (\<lambda>ys ws. R x y ws \<longrightarrow> list_all2 (\<lambda>x y. R x y ws) (x # xs) ys)"
      by (rule settles_bind [OF IH], erule list_all2_mono, erule assms(2), rule settles_return) simp
  qed (rule assms(2))
qed (simp add: settles_return)

lemma settles_traverse_any:
  "(\<And>x. x \<in> set xs \<Longrightarrow> settles (f x) (\<lambda>_ _. True)) \<Longrightarrow> settles (traverseM f xs) (\<lambda>_ _. True)"
  by (rule settles_weaken, rule settles_traverse [where R = "\<lambda>_ _ _. True"]) auto

subsection \<open>Scope conditions\<close>

definition scopedBy :: "json list \<Rightarrow> string \<Rightarrow> string option \<Rightarrow> string \<Rightarrow> read_condition list \<Rightarrow> bool" where
  "scopedBy vs alias key trusted cs \<longleftrightarrow> (\<forall>k. presentStr key = Some k \<longrightarrow>
     (\<exists>n. Compared (Qualified alias k) EqOp n \<in> set cs \<and> binds vs n (JStr trusted)))"

lemma scopedBy_mono: "scopedBy vs a k t cs \<Longrightarrow> set cs \<subseteq> set ds \<Longrightarrow> scopedBy (vs @ new) a k t ds"
  unfolding scopedBy_def by (meson binds_append subsetD)

lemma scopedBy_append: "scopedBy vs a k t cs \<Longrightarrow> scopedBy (vs @ new) a k t cs"
  by (rule scopedBy_mono) auto

lemma scopedBy_superset: "scopedBy vs a k t cs \<Longrightarrow> set cs \<subseteq> set ds \<Longrightarrow> scopedBy vs a k t ds"
  using scopedBy_mono [where new = "[]"] by simp

lemma scopeCondition_settles: "settles (scopeCondition a k t) (\<lambda>cs ws. scopedBy ws a k t cs)"
proof (cases "presentStr k")
  case None
  then show ?thesis by (auto simp: scopeCondition_def scopedBy_def intro!: settles_return)
next
  case (Some c)
  show ?thesis unfolding scopeCondition_def Some option.case
    by (rule settles_bind [where P = "\<lambda>q _. q = c"], rule settles_lift)
      (auto simp: quoteName_def scopedBy_def Some split: if_splits
        intro!: settles_bind [OF settles_bindValue] settles_return)
qed

definition joinScoped :: "trusted_context \<Rightarrow> json list \<Rightarrow> relationship_link \<Rightarrow> read_join \<Rightarrow> bool" where
  "joinScoped ctx vs l j \<longleftrightarrow> rj_schema j = ln_schema l \<and> rj_table j = ln_table l
     \<and> scopedBy vs (rj_alias j) (ln_tenant_key l) (tx_tenant_id ctx) (rj_on j)
     \<and> scopedBy vs (rj_alias j) (ln_principal_scope_key l) (tx_principal ctx) (rj_on j)"

lemma joinScoped_append: "joinScoped ctx vs l j \<Longrightarrow> joinScoped ctx (vs @ new) l j"
  by (auto simp: joinScoped_def intro: scopedBy_append)

lemma joinsScoped_append:
  "list_all2 (joinScoped ctx vs) ls js \<Longrightarrow> list_all2 (joinScoped ctx (vs @ new)) ls js"
  by (erule list_all2_mono) (rule joinScoped_append)

lemma quoteName_settles: "settles (liftE (quoteName s)) (\<lambda>q _. q = s)"
  by (rule settles_lift) (auto simp: quoteName_def split: if_splits)

lemma compileLinks_settles:
  "settles (compileLinks ctx i j src keep ls) (\<lambda>js ws. list_all2 (joinScoped ctx ws) ls js)"
proof (induction ls arbitrary: j src keep)
  case (Cons l ls)
  let ?a = "relationshipAlias i j"
  show ?case unfolding compileLinks.simps Let_def
    apply (rule settles_skip, rule settles_lift, simp)
    apply (rule settles_skip, rule settles_lift, simp)
    apply (rule settles_bind, rule scopeCondition_settles, erule scopedBy_append)
    apply (rule settles_bind, rule settles_weaken, rule scopeCondition_settles, assumption,
        erule scopedBy_append)
    apply (rule settles_bind, rule quoteName_settles, assumption)
    apply (rule settles_bind, rule quoteName_settles, assumption)
    apply (rule settles_bind, rule Cons.IH, erule joinsScoped_append)
    apply (rule settles_return)
    apply (auto simp: joinScoped_def intro: scopedBy_superset)
    done
qed (auto intro: settles_return)

definition reviewedLinks :: "protected_read \<Rightarrow> relationship_link list" where
  "reviewedLinks p = concat (map rp_links (relationshipPaths p))"

lemma compileJoins_settles:
  "settles (compileJoins p ctx) (\<lambda>js ws. list_all2 (joinScoped ctx ws) (reviewedLinks p) js)"
proof -
  let ?paths = "relationshipPaths p"
  let ?R = "\<lambda>(i, path) js ws. list_all2 (joinScoped ctx ws) (rp_links path) js"
  have "settles (traverseM (\<lambda>(i, path). compileLinks ctx i 0 ''t0'' False (rp_links path))
      (zip [0..<length ?paths] ?paths))
    (\<lambda>jss ws. list_all2 (\<lambda>x js. ?R x js ws) (zip [0..<length ?paths] ?paths) jss)"
    by (rule settles_traverse) (auto simp: compileLinks_settles intro: joinsScoped_append)
  moreover have "list_all2 (joinScoped ctx ws) (reviewedLinks p) (concat jss)"
    if "list_all2 (\<lambda>x js. ?R x js ws) (zip [0..<length ?paths] ?paths) jss" for jss ws
  proof -
    from that have "list_all2 (\<lambda>path js. list_all2 (joinScoped ctx ws) (rp_links path) js) ?paths jss"
      by (auto simp: list_all2_conv_all_nth)
    then show ?thesis unfolding reviewedLinks_def
      by (induction rule: list_all2_induct) (auto intro: list_all2_appendI)
  qed
  ultimately show ?thesis unfolding compileJoins_def
    by (auto intro!: settles_bind [where P = "\<lambda>jss ws. list_all2 (\<lambda>x js. ?R x js ws)
          (zip [0..<length ?paths] ?paths) jss"] settles_return
        elim!: list_all2_mono intro: joinScoped_append joinsScoped_append)
qed

lemma settles_True [intro]:
  "settles (bindValue v) (\<lambda>_ _. True)" "settles (liftE r) (\<lambda>_ _. True)"
  "settles (returnM a) (\<lambda>_ _. True)" "settles (throwM e) (\<lambda>_ _. True)"
  by (auto simp: settles_def bindValue_def)

lemma settles_TrueI: "settles m R \<Longrightarrow> settles m (\<lambda>_ _. True)"
  by (simp add: settles_def)

lemmas settles_parts = settles_True settles_skip settles_traverse_any

lemma scopeCondition_any: "settles (scopeCondition a k t) (\<lambda>_ _. True)"
  by (rule settles_TrueI) (rule scopeCondition_settles)

lemma rangeConditions_settles: "settles (rangeConditions r lo hi) (\<lambda>_ _. True)"
  unfolding rangeConditions_def by (intro settles_parts)

lemma compileWindow_settles: "settles (compileWindow p) (\<lambda>_ _. True)"
  unfolding compileWindow_def
  by (auto split: option.split intro!: settles_skip rangeConditions_settles)

lemma compilePredicate_settles: "settles (compilePredicate p args x) (\<lambda>_ _. True)"
  unfolding compilePredicate_def
  by (auto split: protected_predicate.split intro!: settles_skip settles_traverse_any)

lemma comparisonConditions_settles: "settles (comparisonConditions p a args b) (\<lambda>_ _. True)"
  unfolding comparisonConditions_def
  by (auto split: option.split prod.split intro!: settles_skip rangeConditions_settles)

lemma bandExpression_settles: "settles (bandExpression rt r b) (\<lambda>_ _. True)"
  unfolding bandExpression_def Let_def
  by (auto intro!: settles_skip settles_traverse_any)

lemma compileDimension_settles: "settles (compileDimension rt p x) (\<lambda>_ _. True)"
  unfolding compileDimension_def
  by (auto split: prod.split option.split intro!: settles_skip bandExpression_settles)

definition mainScoped :: "capability \<Rightarrow> trusted_context \<Rightarrow> json list \<Rightarrow> read_condition list \<Rightarrow> bool" where
  "mainScoped c ctx vs cs \<longleftrightarrow> scopedBy vs ''t0'' (ct_tenant_key (cap_target c)) (tx_tenant_id ctx) cs
     \<and> scopedBy vs ''t0'' (ct_principal_scope_key (cap_target c)) (tx_principal ctx) cs"

lemma mainScoped_append: "mainScoped c ctx vs cs \<Longrightarrow> mainScoped c ctx (vs @ new) cs"
  by (auto simp: mainScoped_def intro: scopedBy_append)

lemma scopedWhere_settles: "settles (scopedWhere c p args ctx) (\<lambda>cs ws. mainScoped c ctx ws cs)"
  unfolding scopedWhere_def
  apply (rule settles_bind, rule scopeCondition_settles, erule scopedBy_append)
  apply (rule settles_bind, rule settles_weaken, rule scopeCondition_settles, assumption,
      erule scopedBy_append)
  apply (rule settles_skip, rule compileWindow_settles)
  apply (rule settles_skip, rule settles_traverse_any, rule compilePredicate_settles)
  apply (rule settles_return)
  apply (auto simp: mainScoped_def intro: scopedBy_superset)
  done

text \<open>A compiled select reads the reviewed tables, each under its scope.\<close>

definition selectScoped ::
  "capability \<Rightarrow> protected_read \<Rightarrow> trusted_context \<Rightarrow> json list \<Rightarrow> select_query \<Rightarrow> bool" where
  "selectScoped c p ctx vs s \<longleftrightarrow> sq_schema s = ct_schema (cap_target c) \<and> sq_table s = ct_table (cap_target c)
     \<and> sq_alias s = Some ''t0'' \<and> list_all2 (joinScoped ctx vs) (reviewedLinks p) (sq_joins s)
     \<and> mainScoped c ctx vs (optOr (sq_where s) [])"

lemma selectScoped_append: "selectScoped c p ctx vs s \<Longrightarrow> selectScoped c p ctx (vs @ new) s"
  by (auto simp: selectScoped_def intro: joinsScoped_append mainScoped_append)

lemma optOr_someIfAny [simp]: "optOr (someIfAny xs) [] = xs"
  by (simp add: someIfAny_def)

lemma mainScoped_superset: "mainScoped c ctx vs cs \<Longrightarrow> mainScoped c ctx vs (cs @ ds)"
  by (auto simp: mainScoped_def intro: scopedBy_superset)

lemma protectedRows_settles:
  "settles (protectedRows c p args ctx) (\<lambda>s ws. selectScoped c p ctx ws s)"
  unfolding protectedRows_def
  apply (rule settles_bind, rule compileJoins_settles, erule joinsScoped_append)
  apply (rule settles_bind, rule quoteName_settles, assumption)
  apply (rule settles_bind, rule quoteName_settles, assumption)
  apply (rule settles_skip, rule settles_True)
  apply (rule settles_bind, rule scopedWhere_settles, erule mainScoped_append)
  apply (rule settles_skip, rule settles_True)
  apply (rule settles_return)
  apply (simp add: selectScoped_def)
  done

lemma aggregateQuery_settles:
  "settles (aggregateQuery rt c p a args ctx period) (\<lambda>s ws. selectScoped c p ctx ws s)"
  unfolding aggregateQuery_def Let_def
  apply (rule settles_skip, rule settles_traverse_any, rule compileDimension_settles)
  apply (rule settles_skip, rule settles_True)
  apply (rule settles_skip, rule settles_True)
  apply (rule settles_bind, rule compileJoins_settles, erule joinsScoped_append)
  apply (rule settles_bind, rule quoteName_settles, assumption)
  apply (rule settles_bind, rule quoteName_settles, assumption)
  apply (rule settles_bind, rule scopedWhere_settles, erule mainScoped_append)
  apply (rule settles_skip, rule comparisonConditions_settles)
  apply (rule settles_skip, rule settles_True)
  apply (rule settles_return)
  apply (simp add: selectScoped_def mainScoped_superset)
  done

definition selectsOf :: "read_query \<Rightarrow> select_query list" where
  "selectsOf q = (case q of SelectQuery s \<Rightarrow> [s] | PeriodUnion ss \<Rightarrow> ss)"

lemma buildProtectedReadQuery_settles:
  assumes "cap_protected c = Some p"
  shows "settles (buildProtectedReadQuery rt c args ctx)
    (\<lambda>q ws. \<forall>s \<in> set (selectsOf q). selectScoped c p ctx ws s)"
proof -
  have union: "settles (bindM (traverseM (\<lambda>(i, r). aggregateQuery rt c p a args ctx (f i r)) xs)
        (\<lambda>qs. returnM (PeriodUnion qs))) (\<lambda>q ws. \<forall>s \<in> set (selectsOf q). selectScoped c p ctx ws s)"
    for a f and xs :: "(nat \<times> protected_value \<times> protected_value) list"
    by (rule settles_bind [where P = "\<lambda>qs ws. list_all2 (\<lambda>x s. selectScoped c p ctx ws s) xs qs"],
        rule settles_traverse)
      (auto simp: aggregateQuery_settles selectsOf_def list_all2_conv_all_nth in_set_conv_nth
        intro: selectScoped_append intro!: settles_return)
  have one: "settles (bindM m (\<lambda>s. returnM (SelectQuery s)))
      (\<lambda>q ws. \<forall>s \<in> set (selectsOf q). selectScoped c p ctx ws s)"
    if "settles m (\<lambda>s ws. selectScoped c p ctx ws s)" for m
    by (rule settles_bind [OF that], erule selectScoped_append, rule settles_return)
      (simp add: selectsOf_def)
  show ?thesis unfolding buildProtectedReadQuery_def Let_def assms option.case
    by (auto split: option.split intro!: one protectedRows_settles aggregateQuery_settles settles_skip union)
qed

subsection \<open>The order of the placeholders\<close>

fun conditionParams :: "read_condition \<Rightarrow> nat list" where
  "conditionParams (Compared _ _ n) = [n]"
| "conditionParams (AmongValues _ ns) = ns"
| "conditionParams _ = []"

fun exprParams :: "sql_expr \<Rightarrow> nat list" where
  "exprParams (BandOf _ clauses final) = concat (map (\<lambda>(m, n). [m, n]) clauses) @ [final]"
| "exprParams (QuotientOf _ a b) = exprParams b @ exprParams b @ exprParams a @ exprParams b"
| "exprParams (LeastOf es) = concat (map exprParams es)"
| "exprParams _ = []"

definition conditionsParams :: "read_condition list \<Rightarrow> nat list" where
  "conditionsParams cs = concat (map conditionParams cs)"

definition groupParams :: "group_term \<Rightarrow> nat list" where
  "groupParams g = (case g of GroupOrdinal _ \<Rightarrow> [] | GroupExpr e \<Rightarrow> exprParams e)"

definition orderParams :: "order_term \<Rightarrow> nat list" where
  "orderParams t = (case t of OrderGroup g \<Rightarrow> groupParams g | _ \<Rightarrow> [])"

text \<open>The placeholders of a statement in the order in which its text shows them.\<close>

definition selectParams :: "select_query \<Rightarrow> nat list" where
  "selectParams q = concat (map (\<lambda>i. exprParams (fst i)) (sq_items q))
     @ concat (map (\<lambda>j. conditionsParams (rj_on j)) (sq_joins q))
     @ conditionsParams (optOr (sq_where q) []) @ concat (map groupParams (sq_groups q))
     @ concat (map orderParams (sq_order q))"

definition queryParams :: "read_query \<Rightarrow> nat list" where
  "queryParams q = concat (map selectParams (selectsOf q))"

lemma conditionsParams_simps [simp]:
  "conditionsParams [] = []" "conditionsParams (c # cs) = conditionParams c @ conditionsParams cs"
  "conditionsParams (cs @ ds) = conditionsParams cs @ conditionsParams ds"
  by (simp_all add: conditionsParams_def)

definition emits :: "'a compiler \<Rightarrow> ('a \<Rightarrow> nat list \<Rightarrow> bool) \<Rightarrow> bool" where
  "emits m P \<longleftrightarrow> (\<forall>vs a ws. m vs = (Inr a, ws) \<longrightarrow>
     length vs \<le> length ws \<and> P a [Suc (length vs)..<Suc (length ws)])"

lemma emits_weaken: "emits m P \<Longrightarrow> (\<And>a ns. P a ns \<Longrightarrow> Q a ns) \<Longrightarrow> emits m Q"
  by (simp add: emits_def)

lemma emits_return: "P a [] \<Longrightarrow> emits (returnM a) P"
  by (simp add: emits_def)

lemma emits_lift: "(\<And>a. r = Inr a \<Longrightarrow> P a []) \<Longrightarrow> emits (liftE r) P"
  by (simp add: emits_def)

lemma emits_throw: "emits (throwM e) P"
  by (simp add: emits_def)

lemma emits_bindValue: "emits (bindValue v) (\<lambda>n ns. ns = [n])"
  by (simp add: emits_def bindValue_def)

lemma emits_bind:
  assumes "emits m P" and "\<And>x ns. P x ns \<Longrightarrow> emits (f x) (\<lambda>y ms. Q y (ns @ ms))"
  shows "emits (bindM m f) Q"
  unfolding emits_def
proof (intro allI impI)
  fix vs y ws assume "bindM m f vs = (Inr y, ws)"
  then obtain x us where m: "m vs = (Inr x, us)" and f: "f x us = (Inr y, ws)"
    by (auto simp: bindM_eq_Inr)
  from m assms(1) have le: "length vs \<le> length us" and P: "P x [Suc (length vs)..<Suc (length us)]"
    unfolding emits_def by metis+
  from f assms(2) [OF P] have "length us \<le> length ws"
    and Q: "Q y ([Suc (length vs)..<Suc (length us)] @ [Suc (length us)..<Suc (length ws)])"
    unfolding emits_def by metis+
  moreover from this le have "[Suc (length vs)..<Suc (length us)] @ [Suc (length us)..<Suc (length ws)]
      = [Suc (length vs)..<Suc (length ws)]"
    using upt_add_eq_append [of "Suc (length vs)" "Suc (length us)" "length ws - length us"] by simp
  ultimately show "length vs \<le> length ws \<and> Q y [Suc (length vs)..<Suc (length ws)]"
    using le by simp
qed

lemma emits_traverse:
  assumes "\<And>x. x \<in> set xs \<Longrightarrow> emits (f x) (\<lambda>y ns. ns = pf y \<and> I y)"
  shows "emits (traverseM f xs) (\<lambda>ys ns. ns = concat (map pf ys) \<and> (\<forall>y \<in> set ys. I y))"
  using assms
proof (induction xs)
  case (Cons x xs)
  have IH: "emits (traverseM f xs) (\<lambda>ys ns. ns = concat (map pf ys) \<and> (\<forall>y \<in> set ys. I y))"
    using Cons by simp
  show ?case unfolding traverseM.simps
    by (rule emits_bind, rule Cons.prems, simp, rule emits_bind, rule IH, rule emits_return) simp
qed (simp add: emits_return)

lemma scopeCondition_emits: "emits (scopeCondition a k t) (\<lambda>cs ns. ns = conditionsParams cs)"
  unfolding scopeCondition_def
  by (cases "presentStr k")
    (auto intro!: emits_return emits_bind [OF emits_lift [where P = "\<lambda>_ ns. ns = []"]]
      emits_bind [OF emits_bindValue])

lemma compileLinks_emits: "emits (compileLinks ctx i j src keep ls)
    (\<lambda>js ns. ns = concat (map (\<lambda>j. conditionsParams (rj_on j)) js))"
proof (induction ls arbitrary: j src keep)
  case (Cons l ls)
  show ?case unfolding compileLinks.simps Let_def
    apply (rule emits_bind, rule emits_lift [where P = "\<lambda>_ ns. ns = []"], simp)
    apply (rule emits_bind, rule emits_lift [where P = "\<lambda>_ ns. ns = []"], simp)
    apply (rule emits_bind, rule scopeCondition_emits)
    apply (rule emits_bind, rule scopeCondition_emits)
    apply (rule emits_bind, rule emits_lift [where P = "\<lambda>_ ns. ns = []"], simp)
    apply (rule emits_bind, rule emits_lift [where P = "\<lambda>_ ns. ns = []"], simp)
    apply (rule emits_bind, rule Cons.IH)
    apply (rule emits_return, simp)
    done
qed (simp add: emits_return)

lemma concat_map_joins: "concat (map f (concat xss)) = concat (map (\<lambda>xs. concat (map f xs)) xss)"
  by (induction xss) simp_all

lemma compileJoins_emits:
  "emits (compileJoins p ctx) (\<lambda>js ns. ns = concat (map (\<lambda>j. conditionsParams (rj_on j)) js))"
  unfolding compileJoins_def
  apply (rule emits_bind)
   apply (rule emits_traverse [where pf = "\<lambda>js. concat (map (\<lambda>j. conditionsParams (rj_on j)) js)"
        and I = "\<lambda>_. True"])
   apply (auto simp: compileLinks_emits split: prod.split) []
  apply (rule emits_return)
  apply (simp add: concat_map_joins)
  done

lemma quiet_lift: "emits (liftE r) (\<lambda>x ns. ns = [] \<and> r = Inr x)"
  by (rule emits_lift) simp

lemma rangeConditions_emits: "emits (rangeConditions r lo hi) (\<lambda>cs ns. ns = conditionsParams cs)"
  unfolding rangeConditions_def
  by (rule emits_bind [OF emits_bindValue], rule emits_bind [OF quiet_lift],
      rule emits_bind [OF emits_bindValue], rule emits_return) simp

lemma compileWindow_emits: "emits (compileWindow p) (\<lambda>cs ns. ns = conditionsParams cs)"
  unfolding compileWindow_def
  by (auto split: option.split intro!: emits_return emits_bind [OF quiet_lift] rangeConditions_emits)

lemma compilePredicate_emits: "emits (compilePredicate p args x) (\<lambda>c ns. ns = conditionParams c)"
proof (cases x)
  case (InPredicate n r vals)
  have "emits (traverseM bindValue vals) (\<lambda>ns ms. ms = concat (map (\<lambda>n. [n]) ns) \<and> (\<forall>n \<in> set ns. True))"
    by (rule emits_traverse) (simp add: emits_bindValue)
  then have vals: "emits (traverseM bindValue vals) (\<lambda>ns ms. ms = ns)" by simp
  show ?thesis unfolding compilePredicate_def InPredicate protected_predicate.case
    by (rule emits_bind [OF quiet_lift], rule emits_bind [OF vals], rule emits_return) simp
next
  case (ComparePredicate n r op v)
  show ?thesis unfolding compilePredicate_def ComparePredicate protected_predicate.case
    by (rule emits_bind [OF quiet_lift], rule emits_bind [OF quiet_lift])
      (auto intro!: emits_return emits_throw emits_bind [OF emits_bindValue])
qed

lemma comparisonConditions_emits:
  "emits (comparisonConditions p a args b) (\<lambda>cs ns. ns = conditionsParams cs)"
  unfolding comparisonConditions_def
  by (auto split: option.split prod.split
      intro!: emits_return emits_bind [OF quiet_lift] rangeConditions_emits)

lemma scopedWhere_emits: "emits (scopedWhere c p args ctx) (\<lambda>cs ns. ns = conditionsParams cs)"
proof -
  have preds: "emits (traverseM (compilePredicate p args) xs)
      (\<lambda>cs ns. ns = concat (map conditionParams cs) \<and> (\<forall>c \<in> set cs. True))" for xs
    by (rule emits_traverse) (simp add: compilePredicate_emits)
  show ?thesis unfolding scopedWhere_def
    by (rule emits_bind [OF scopeCondition_emits], rule emits_bind [OF scopeCondition_emits],
        rule emits_bind [OF compileWindow_emits], rule emits_bind [OF preds], rule emits_return)
      (simp add: conditionsParams_def)
qed

lemma bandExpression_emits: "emits (bandExpression rt r b) (\<lambda>e ns. ns = exprParams e)"
proof -
  let ?f = "\<lambda>label (i, edge). bindM (bindValue (JNum (ratNum rt edge))) (\<lambda>m.
     bindM (bindValue (label i)) (\<lambda>n. returnM (m, n)))"
  have "emits (traverseM (?f label) xs)
      (\<lambda>cs ns. ns = concat (map (\<lambda>(m, n). [m, n]) cs) \<and> (\<forall>c \<in> set cs. True))" for label xs
    by (rule emits_traverse)
      (auto split: prod.split intro!: emits_bind [OF emits_bindValue] emits_return)
  then show ?thesis unfolding bandExpression_def Let_def
    by (rule emits_bind) (rule emits_bind [OF emits_bindValue], rule emits_return, simp)
qed

text \<open>The parts of an aggregate that bind nothing.\<close>

lemma aggregateMeasure_params: "aggregateMeasure f r = Inr e \<Longrightarrow> exprParams e = []"
  by (cases f) (auto simp: aggregateMeasure_def bindE_eq_Inr)

lemma derivedOperand_params: "derivedOperand p b = Inr (v, n) \<Longrightarrow> exprParams v = [] \<and> exprParams n = []"
  by (auto simp: derivedOperand_def bindE_eq_Inr split: if_splits dest: aggregateMeasure_params)

lemma measureItems_plain:
  assumes "measureItems p i m = Inr its" and "ms_function m \<noteq> MReviewedDerived"
  shows "\<exists>ref e q. aggregateMeasure (ms_function m) ref = Inr e
     \<and> set its \<subseteq> {(e, QuotedName q)} \<union> range (\<lambda>r. (AggregateOf ''COUNT'' r, QuotedName (cohortName i)))"
proof -
  from assms obtain ref e q where e: "aggregateMeasure (ms_function m) ref = Inr e"
    and its: "its = (e, QuotedName q) # (case ref of
        Some r \<Rightarrow> if ms_function m \<in> {MSum, MAvg, MStddevSamp, MStddevPop, MVarSamp, MVarPop}
          then [(AggregateOf ''COUNT'' r, QuotedName (cohortName i))] else []
      | None \<Rightarrow> [])"
    unfolding measureItems_def by (simp add: bindE_eq_Inr) metis
  have "set its \<subseteq> {(e, QuotedName q)} \<union> range (\<lambda>r. (AggregateOf ''COUNT'' r, QuotedName (cohortName i)))"
    unfolding its by (cases ref) auto
  with e show ?thesis by blast
qed

lemma measureItems_params:
  assumes its: "measureItems p i m = Inr its" and it: "it \<in> set its"
  shows "exprParams (fst it) = []"
proof (cases "ms_function m = MReviewedDerived")
  case False
  then obtain ref e q where e: "aggregateMeasure (ms_function m) ref = Inr e"
    and sub: "set its \<subseteq> {(e, QuotedName q)} \<union> range (\<lambda>r. (AggregateOf ''COUNT'' r, QuotedName (cohortName i)))"
    using measureItems_plain [OF its] by blast
  from sub it have "it = (e, QuotedName q) \<or> (\<exists>r. it = (AggregateOf ''COUNT'' r, QuotedName (cohortName i)))"
    by blast
  with aggregateMeasure_params [OF e] show ?thesis by auto
next
  case derived: True
  show ?thesis
  proof (cases "ms_derived m")
    case (Some d)
    have operands: "\<And>b v n. derivedOperand p b = Inr (v, n) \<Longrightarrow> exprParams v = []"
      "\<And>b v n. derivedOperand p b = Inr (v, n) \<Longrightarrow> exprParams n = []"
      using derivedOperand_params by blast+
    show ?thesis
      using its it derived Some operands
      by (cases d) (auto simp: measureItems_def bindE_eq_Inr)
  qed (use its derived in \<open>simp add: measureItems_def\<close>)
qed

lemma compileBucket_params: "compileBucket p tb = Inr bs \<Longrightarrow> b \<in> set bs \<Longrightarrow>
    exprParams (fst (fst b)) = [] \<and> groupParams (snd b) = []"
  by (auto simp: compileBucket_def bindE_eq_Inr groupParams_def Let_def split: option.splits)

lemma aggregateOrdering_params: "aggregateOrdering a r gs = Inr os \<Longrightarrow>
    \<forall>g \<in> set gs. groupParams g = [] \<Longrightarrow> concat (map orderParams os) = []"
  by (auto simp: aggregateOrdering_def bindE_eq_Inr orderParams_def
      split: option.splits aggregate_order.splits if_splits)

lemma compileDimension_emits: "emits (compileDimension rt p x)
    (\<lambda>y ns. ns = exprParams (fst (fst y)) \<and> groupParams (snd y) = [])"
proof (cases x)
  case (Pair n d)
  show ?thesis unfolding compileDimension_def Pair prod.case
  proof (cases "dm_band d")
    case None
    then show "emits (bindM (liftE (fieldRef p (dm_field d) (dm_relationship d))) (\<lambda>ref.
        bindM (case dm_band d of None \<Rightarrow> returnM (FieldOf ref) | Some b \<Rightarrow> bandExpression rt ref b) (\<lambda>e.
        bindM (liftE (quoteName (dm_name d))) (\<lambda>q. returnM ((e, QuotedName q),
          if dm_band d = None then GroupExpr e else GroupOrdinal n)))))
      (\<lambda>y ns. ns = exprParams (fst (fst y)) \<and> groupParams (snd y) = [])"
      by (auto intro!: emits_bind [OF quiet_lift]
          emits_bind [OF emits_return [where P = "\<lambda>e ns. ns = [] \<and> (\<exists>r. e = FieldOf r)"]] emits_return
          simp: groupParams_def)
  next
    case (Some b)
    then show "emits (bindM (liftE (fieldRef p (dm_field d) (dm_relationship d))) (\<lambda>ref.
        bindM (case dm_band d of None \<Rightarrow> returnM (FieldOf ref) | Some b \<Rightarrow> bandExpression rt ref b) (\<lambda>e.
        bindM (liftE (quoteName (dm_name d))) (\<lambda>q. returnM ((e, QuotedName q),
          if dm_band d = None then GroupExpr e else GroupOrdinal n)))))
      (\<lambda>y ns. ns = exprParams (fst (fst y)) \<and> groupParams (snd y) = [])"
      by (auto intro!: emits_bind [OF quiet_lift] emits_bind [OF bandExpression_emits] emits_return
          simp: groupParams_def)
  qed
qed

lemma concat_map_empty: "(\<And>x. x \<in> set xs \<Longrightarrow> f x = []) \<Longrightarrow> concat (map f xs) = []"
  by (induction xs) simp_all

lemma protectedRows_emits: "emits (protectedRows c p args ctx) (\<lambda>s ns. ns = selectParams s)"
proof -
  have order: "concat (map orderParams os) = []"
    if "(if pr_row_order p \<noteq> [] then traverseE (\<lambda>(f, d). bindE (fieldRef p f None) (\<lambda>r. Inr (OrderRef r d)))
          (pr_row_order p) else bindE (quoteName (ct_primary_key (cap_target c))) (\<lambda>q.
          Inr [OrderRef (Qualified ''t0'' q) Ascending])) = Inr os" for os
  proof -
    have "concat (map orderParams os) = []" if "traverseE (\<lambda>(f, d). bindE (fieldRef p f None)
        (\<lambda>r. Inr (OrderRef r d))) xs = Inr os" for xs
      using that by (induction xs arbitrary: os) (auto simp: bindE_eq_Inr orderParams_def)
    with that show ?thesis by (auto simp: bindE_eq_Inr orderParams_def split: if_splits)
  qed
  show ?thesis unfolding protectedRows_def
    apply (rule emits_bind [OF compileJoins_emits])
    apply (rule emits_bind [OF quiet_lift], rule emits_bind [OF quiet_lift], rule emits_bind [OF quiet_lift])
    apply (rule emits_bind [OF scopedWhere_emits])
    apply (rule emits_bind [OF quiet_lift], rule emits_return)
    apply (elim conjE, drule order)
    apply (simp add: selectParams_def comp_def concat_map_empty del: concat_eq_Nil_conv)
    done
qed

lemma traverseE_concat_params:
  "traverseE (\<lambda>(i, m). measureItems p i m) xs = Inr mss \<Longrightarrow>
   concat (map (\<lambda>it. exprParams (fst it)) (concat mss)) = []"
proof (induction xs arbitrary: mss)
  case (Cons x xs)
  then obtain ms rest where "measureItems p (fst x) (snd x) = Inr ms" "mss = ms # rest"
    "traverseE (\<lambda>(i, m). measureItems p i m) xs = Inr rest"
    by (auto simp: bindE_eq_Inr split: prod.splits)
  with Cons.IH show ?case by (auto dest: measureItems_params)
qed simp

lemma aggregateQuery_emits:
  "emits (aggregateQuery rt c p a args ctx period) (\<lambda>s ns. ns = selectParams s)"
proof -
  have dims: "emits (traverseM (compileDimension rt p) xs)
      (\<lambda>ys ns. ns = concat (map (\<lambda>y. exprParams (fst (fst y))) ys) \<and> (\<forall>y \<in> set ys. groupParams (snd y) = []))"
    for xs by (rule emits_traverse) (rule compileDimension_emits)
  show ?thesis unfolding aggregateQuery_def Let_def
    apply (rule emits_bind [OF dims])
    apply (rule emits_bind [OF quiet_lift], rule emits_bind [OF quiet_lift])
    apply (rule emits_bind [OF compileJoins_emits])
    apply (rule emits_bind [OF quiet_lift], rule emits_bind [OF quiet_lift])
    apply (rule emits_bind [OF scopedWhere_emits], rule emits_bind [OF comparisonConditions_emits])
    apply (rule emits_bind [OF quiet_lift], rule emits_return)
    apply (elim conjE)
    apply (drule traverseE_concat_params)
    apply (drule aggregateOrdering_params)
     apply (auto dest: compileBucket_params simp del: concat_eq_Nil_conv) []
    subgoal premises prems for dims ns bucket
    proof -
      from prems have bucket: "\<forall>b \<in> set bucket. exprParams (fst (fst b)) = [] \<and> groupParams (snd b) = []"
        by (auto dest: compileBucket_params)
      then have "concat (map (\<lambda>b. exprParams (fst (fst b))) bucket) = []"
        "concat (map (\<lambda>b. groupParams (snd b)) dims) = []" "concat (map (\<lambda>b. groupParams (snd b)) bucket) = []"
        using prems by auto
      then show ?thesis using prems
        by (simp add: selectParams_def comp_def del: concat_eq_Nil_conv split: option.splits)
    qed
    done
qed

lemma buildProtectedReadQuery_emits:
  "emits (buildProtectedReadQuery rt c args ctx) (\<lambda>q ns. ns = queryParams q)"
proof -
  have one: "emits (bindM m (\<lambda>s. returnM (SelectQuery s))) (\<lambda>q ns. ns = queryParams q)"
    if "emits m (\<lambda>s ns. ns = selectParams s)" for m
    by (rule emits_bind [OF that], rule emits_return) (simp add: queryParams_def selectsOf_def)
  have union: "emits (bindM (traverseM (\<lambda>(i, r). aggregateQuery rt c p a args ctx (f i r)) xs)
        (\<lambda>qs. returnM (PeriodUnion qs))) (\<lambda>q ns. ns = queryParams q)"
    for p a f and xs :: "(nat \<times> protected_value \<times> protected_value) list"
  proof -
    have "emits (traverseM (\<lambda>(i, r). aggregateQuery rt c p a args ctx (f i r)) xs)
        (\<lambda>qs ns. ns = concat (map selectParams qs) \<and> (\<forall>q \<in> set qs. True))"
      by (rule emits_traverse) (auto simp: aggregateQuery_emits split: prod.split)
    then show ?thesis
      by (rule emits_bind) (rule emits_return, simp add: queryParams_def selectsOf_def)
  qed
  show ?thesis unfolding buildProtectedReadQuery_def Let_def
    by (auto split: option.split intro!: emits_throw one protectedRows_emits aggregateQuery_emits union
        emits_bind [OF quiet_lift])
qed

subsection \<open>Fixed reads\<close>

text \<open>
  The rule the configuration is validated with (\<open>PRINCIPAL_SCOPE_TENANT_REQUIRED\<close>): a principal scope
  needs a tenant key, unless the capability is a protected read.
\<close>

definition scopeDeclared :: "capability \<Rightarrow> bool" where
  "scopeDeclared c \<longleftrightarrow> (principalKey c \<noteq> None \<longrightarrow> tenantKey c \<noteq> None \<or> cap_protected c \<noteq> None)"

lemma boundColumns_eq:
  "boundColumns cs = Inr conditions \<Longrightarrow> conditions = map (\<lambda>(s, n). Compared (Bare s) EqOp n) cs"
  by (induction cs arbitrary: conditions)
    (auto simp: boundColumns_def bindE_eq_Inr quoteName_def split: if_splits)

lemma boundColumns_params: "boundColumns cs = Inr conditions \<Longrightarrow> conditionsParams conditions = map snd cs"
  by (drule boundColumns_eq) (simp add: conditionsParams_def comp_def case_prod_beta concat_map_singleton)

lemma optKey_keys:
  "optKey (ct_tenant_key (cap_target c)) n = (case tenantKey c of None \<Rightarrow> [] | Some k \<Rightarrow> [(k, n)])"
  "optKey (ct_principal_scope_key (cap_target c)) n = (case principalKey c of None \<Rightarrow> [] | Some k \<Rightarrow> [(k, n)])"
  by (simp_all add: optKey_def tenantKey_def principalKey_def)

text \<open>The scope columns of a fixed read, numbered after \<open>n\<close> values.\<close>

definition scopeColumns :: "capability \<Rightarrow> nat \<Rightarrow> (string \<times> nat) list" where
  "scopeColumns c n = optKey (ct_tenant_key (cap_target c)) (n + 1)
     @ optKey (ct_principal_scope_key (cap_target c)) (n + 2)"

lemma scopeColumns_params:
  assumes "scopeDeclared c" and "cap_protected c = None"
  shows "map snd (scopeColumns c n) = [Suc n..<Suc (n + length (contextValues c ctx))]"
  using assms
  by (cases "tenantKey c"; cases "principalKey c")
    (auto simp: scopeColumns_def optKey_keys contextValues_def scopeDeclared_def upt_conv_Cons)

lemma scopeColumns_bound:
  assumes "scopeDeclared c" and "cap_protected c = None" and "length front = n"
  shows "tenantKey c = Some k \<Longrightarrow> (k, n + 1) \<in> set (scopeColumns c n)
      \<and> binds (front @ contextValues c ctx) (n + 1) (JStr (tx_tenant_id ctx))"
    and "principalKey c = Some k' \<Longrightarrow> (k', n + 2) \<in> set (scopeColumns c n)
      \<and> binds (front @ contextValues c ctx) (n + 2) (JStr (tx_principal ctx))"
  using assms
  by (auto simp: scopeColumns_def optKey_keys contextValues_def scopeDeclared_def binds_def nth_append)

text \<open>The three fixed forms: the conditions of the statement and its values.\<close>

lemma fixedSelect_eq:
  "fixedSelect c items cs order cap = Inr s \<Longrightarrow> s = \<lparr>sq_items = items, sq_schema = ct_schema (cap_target c),
     sq_table = ct_table (cap_target c), sq_alias = None, sq_joins = [], sq_where = cs, sq_groups = [],
     sq_order = order, sq_limit = cap\<rparr>"
  by (auto simp: fixedSelect_def bindE_eq_Inr quoteName_def split: if_splits)

lemma aggregateExpression_params: "aggregateExpression a = Inr e \<Longrightarrow> exprParams e = []"
  by (auto simp: aggregateExpression_def bindE_eq_Inr split: if_splits)

lemma fixed_read:
  assumes "buildSelect c = Inr s" and "queryValues c args ctx = Inr vs"
  shows "\<exists>front. vs = map snd front @ contextValues c ctx
     \<and> optOr (sq_where s) [] = map (\<lambda>(k, n). Compared (Bare k) EqOp n)
         (zip (map fst front) [1..<Suc (length front)] @ scopeColumns c (length front))
     \<and> sq_schema s = ct_schema (cap_target c) \<and> sq_table s = ct_table (cap_target c) \<and> sq_alias s = None
     \<and> sq_joins s = [] \<and> sq_groups s = [] \<and> (\<forall>i \<in> set (sq_items s). exprParams (fst i) = [])
     \<and> (\<forall>t \<in> set (sq_order s). orderParams t = [])"
proof -
  let ?terms = "\<lambda>ts. map (\<lambda>t. (ft_column t, ft_value t)) ts"
  have numbered: "numberedTerms c ts = zip (map fst (?terms ts)) [1..<Suc (length (?terms ts))]
      @ scopeColumns c (length (?terms ts))" for ts
    by (simp add: numberedTerms_def scopeColumns_def comp_def)
  have unprotected: "cap_protected c = None"
    using assms(1) by (auto simp: buildSelect_def split: if_splits)
  consider "cap_kind c = AggregateRead" | "cap_kind c \<noteq> AggregateRead" "isSetSelectionCapability c"
    | "cap_kind c \<noteq> AggregateRead" "\<not> isSetSelectionCapability c" by blast
  then show ?thesis
  proof cases
    case 1
    then show ?thesis using assms unprotected
      by (intro exI [of _ "?terms (aggregateTerms c)"])
        (auto simp: buildSelect_def queryValues_def bindE_eq_Inr comp_def
          dest!: fixedSelect_eq boundColumns_eq aggregateExpression_params
          simp: numbered [of "aggregateTerms c", simplified])
  next
    case 2
    then show ?thesis using assms unprotected
      by (intro exI [of _ "?terms (setTerms c)"])
        (auto simp: buildSelect_def queryValues_def bindE_eq_Inr comp_def Let_def orderParams_def
          dest!: fixedSelect_eq boundColumns_eq
          simp: numbered [of "setTerms c", simplified])
  next
    case 3
    then show ?thesis using assms unprotected
      by (intro exI [of _ "[(ct_primary_key (cap_target c), field args (cap_id_from_arg c))]"])
        (auto simp: buildSelect_def queryValues_def bindE_eq_Inr Let_def orderParams_def scopeColumns_def
          eval_nat_numeral dest!: fixedSelect_eq boundColumns_eq split: if_splits)
  qed
qed

lemma fixed_read_params:
  assumes "buildSelect c = Inr s" and "queryValues c args ctx = Inr vs" and "scopeDeclared c"
  shows "selectParams s = [1..<Suc (length vs)]"
proof -
  have "cap_protected c = None" using assms(1) by (auto simp: buildSelect_def split: if_splits)
  note scope = scopeColumns_params [OF assms(3) this, of _ ctx]
  from fixed_read [OF assms(1,2)] obtain front where
    front: "vs = map snd front @ contextValues c ctx" "sq_joins s = []" "sq_groups s = []"
      "optOr (sq_where s) [] = map (\<lambda>(k, n). Compared (Bare k) EqOp n)
         (zip (map fst front) [1..<Suc (length front)] @ scopeColumns c (length front))"
      "\<forall>i \<in> set (sq_items s). exprParams (fst i) = []" "\<forall>t \<in> set (sq_order s). orderParams t = []"
    by blast
  have "conditionsParams (optOr (sq_where s) []) = map snd (zip (map fst front) [1..<Suc (length front)]
      @ scopeColumns c (length front))" unfolding front(4)
    by (simp add: conditionsParams_def comp_def case_prod_beta del: zip_append map_append)
  also have "\<dots> = [1..<Suc (length front)] @ [Suc (length front)..<Suc (length front + length (contextValues c ctx))]"
    by (simp add: scope)
  also have "\<dots> = [1..<Suc (length vs)]"
    using front(1) upt_add_eq_append [of 1 "Suc (length front)" "length (contextValues c ctx)"]
    by (simp del: upt_Suc)
  finally show ?thesis using front by (simp add: selectParams_def concat_map_empty)
qed

subsection \<open>The rows a statement accepts\<close>

text \<open>
  \<open>env\<close> gives the row each relation contributes, \<open>None\<close> where a left join found none (the fixed reads name
  their only relation by the empty alias), and \<open>cmp\<close> the comparisons of the database.
\<close>

definition refValue :: "(string \<Rightarrow> srow option) \<Rightarrow> field_ref \<Rightarrow> json" where
  "refValue env r = (let look = (\<lambda>row c. case row of None \<Rightarrow> JNull | Some es \<Rightarrow> field es c) in
     case r of Bare c \<Rightarrow> look (env []) c | Qualified a c \<Rightarrow> look (env a) c)"

fun conditionHolds :: "(comparison_operator \<Rightarrow> json \<Rightarrow> json \<Rightarrow> bool) \<Rightarrow> json list \<Rightarrow> (string \<Rightarrow> srow option)
    \<Rightarrow> read_condition \<Rightarrow> bool" where
  "conditionHolds cmp vs env (Compared r operator n) = cmp operator (refValue env r) (vs ! (n - 1))"
| "conditionHolds cmp vs env (AmongValues r ns) = list_ex (\<lambda>n. cmp EqOp (refValue env r) (vs ! (n - 1))) ns"
| "conditionHolds cmp vs env (NullTest r negated) = ((refValue env r = JNull) \<noteq> negated)"
| "conditionHolds cmp vs env (KeysEqual a b) = cmp EqOp (refValue env a) (refValue env b)"

definition accepts :: "(comparison_operator \<Rightarrow> json \<Rightarrow> json \<Rightarrow> bool) \<Rightarrow> json list \<Rightarrow> (string \<Rightarrow> srow option)
    \<Rightarrow> select_query \<Rightarrow> bool" where
  "accepts cmp vs env s \<longleftrightarrow> env (optOr (sq_alias s) []) \<noteq> None
     \<and> list_all (\<lambda>j. if env (rj_alias j) = None then rj_left j
         else list_all (conditionHolds cmp vs env) (rj_on j)) (sq_joins s)
     \<and> list_all (conditionHolds cmp vs env) (optOr (sq_where s) [])"

text \<open>A row is in the scope of the caller: its tenant and principal columns compare equal to the trusted
  values.\<close>

definition rowInScope :: "(comparison_operator \<Rightarrow> json \<Rightarrow> json \<Rightarrow> bool) \<Rightarrow> trusted_context \<Rightarrow> string option
    \<Rightarrow> string option \<Rightarrow> srow \<Rightarrow> bool" where
  "rowInScope cmp ctx tenant princ row \<longleftrightarrow>
     (\<forall>k. presentStr tenant = Some k \<longrightarrow> cmp EqOp (field row k) (JStr (tx_tenant_id ctx)))
     \<and> (\<forall>k. presentStr princ = Some k \<longrightarrow> cmp EqOp (field row k) (JStr (tx_principal ctx)))"

lemma scopedBy_holds:
  assumes "scopedBy vs a key trusted cs" and "list_all (conditionHolds cmp vs env) cs"
    and "env a = Some row" and "presentStr key = Some k"
  shows "cmp EqOp (field row k) (JStr trusted)"
proof -
  from assms(1,4) obtain n where n: "Compared (Qualified a k) EqOp n \<in> set cs" "binds vs n (JStr trusted)"
    by (auto simp: scopedBy_def)
  from n(1) assms(2) have "conditionHolds cmp vs env (Compared (Qualified a k) EqOp n)"
    unfolding list_all_iff by blast
  with n(2) assms(3) show ?thesis by (simp add: refValue_def binds_def)
qed

definition joinInScope :: "(comparison_operator \<Rightarrow> json \<Rightarrow> json \<Rightarrow> bool) \<Rightarrow> trusted_context
    \<Rightarrow> (string \<Rightarrow> srow option) \<Rightarrow> relationship_link \<Rightarrow> read_join \<Rightarrow> bool" where
  "joinInScope cmp ctx env l j \<longleftrightarrow> rj_schema j = ln_schema l \<and> rj_table j = ln_table l
     \<and> (case env (rj_alias j) of None \<Rightarrow> True
        | Some row \<Rightarrow> rowInScope cmp ctx (ln_tenant_key l) (ln_principal_scope_key l) row)"

lemma protected_select_in_scope:
  assumes "selectScoped c p ctx vs s" and "accepts cmp vs env s"
  shows "\<exists>row. env (optOr (sq_alias s) []) = Some row
      \<and> rowInScope cmp ctx (ct_tenant_key (cap_target c)) (ct_principal_scope_key (cap_target c)) row"
    and "list_all2 (joinInScope cmp ctx env) (reviewedLinks p) (sq_joins s)"
proof -
  from assms(2) obtain row where row: "env (optOr (sq_alias s) []) = Some row" by (auto simp: accepts_def)
  have "rowInScope cmp ctx (ct_tenant_key (cap_target c)) (ct_principal_scope_key (cap_target c)) row"
    using assms row scopedBy_holds [where env = env and row = row]
    unfolding rowInScope_def selectScoped_def mainScoped_def accepts_def by fastforce
  with row show "\<exists>row. env (optOr (sq_alias s) []) = Some row
      \<and> rowInScope cmp ctx (ct_tenant_key (cap_target c)) (ct_principal_scope_key (cap_target c)) row"
    by blast
  have joins: "list_all2 (joinScoped ctx vs) (reviewedLinks p) (sq_joins s)"
    using assms(1) by (simp add: selectScoped_def)
  have "joinInScope cmp ctx env l j" if "joinScoped ctx vs l j" "j \<in> set (sq_joins s)" for l j
    using that assms(2) scopedBy_holds [where env = env and cs = "rj_on j" and cmp = cmp]
    by (auto simp: joinInScope_def rowInScope_def joinScoped_def accepts_def list_all_iff split: option.split)
  with joins show "list_all2 (joinInScope cmp ctx env) (reviewedLinks p) (sq_joins s)"
    by (auto simp: list_all2_conv_all_nth)
qed

lemma fixed_select_in_scope:
  assumes "buildSelect c = Inr s" and "queryValues c args ctx = Inr vs" and "scopeDeclared c"
    and "accepts cmp vs env s"
  shows "\<exists>row. env (optOr (sq_alias s) []) = Some row
      \<and> rowInScope cmp ctx (ct_tenant_key (cap_target c)) (ct_principal_scope_key (cap_target c)) row"
proof -
  have unprotected: "cap_protected c = None"
    using assms(1) by (auto simp: buildSelect_def split: if_splits)
  from fixed_read [OF assms(1,2)] obtain front where
    vs: "vs = map snd front @ contextValues c ctx" and unaliased: "sq_alias s = None"
    and conditions: "optOr (sq_where s) [] = map (\<lambda>(k, n). Compared (Bare k) EqOp n)
         (zip (map fst front) [1..<Suc (length front)] @ scopeColumns c (length front))" by blast
  from assms(4) unaliased obtain row where row: "env [] = Some row" by (auto simp: accepts_def)
  have holds: "cmp EqOp (field row k) v"
    if "(k, n) \<in> set (scopeColumns c (length front))" "binds vs n v" for k n v
  proof -
    have "Compared (Bare k) EqOp n \<in> set (optOr (sq_where s) [])"
      unfolding conditions using that(1) by (auto simp: image_iff intro: bexI [of _ "(k, n)"])
    with assms(4) have "conditionHolds cmp vs env (Compared (Bare k) EqOp n)"
      unfolding accepts_def list_all_iff by blast
    with row that(2) show ?thesis by (simp add: refValue_def binds_def)
  qed
  have "rowInScope cmp ctx (ct_tenant_key (cap_target c)) (ct_principal_scope_key (cap_target c)) row"
    using scopeColumns_bound [OF assms(3) unprotected, of "map snd front" "length front"] holds vs
    unfolding rowInScope_def tenantKey_def principalKey_def by fastforce
  with row unaliased show ?thesis by auto
qed

end
