(* ===== verification/ProposalBuilder.thy ===== *)
theory ProposalBuilder
  imports ReadPlan
begin

text \<open>
  How a tool call becomes a change set (\<open>packages/mcp-server/src/proposal-builder.ts\<close>): the patch the
  capability maps out of the arguments, the guards it must pass, the version and deduplication
  guards, the three versions of change set, their hash, and what the model is shown of them.

  The hash is over the JSON text of the literal the code builds, in its key order (\<open>builtJson\<close>).
\<close>

subsection \<open>Patches\<close>

definition bindingValue :: "srow \<Rightarrow> patch_binding \<Rightarrow> json" where
  "bindingValue args b = (case presentStr (pb_from_arg b) of
      Some a \<Rightarrow> scalarOf (field args a)
    | None \<Rightarrow> scalarOf (optOr (pb_fixed b) JNull))"

definition buildPatch :: "capability \<Rightarrow> srow \<Rightarrow> srow result" where
  "buildPatch c args = bindE (requireSome (McpRuntimeError ''PATCH_REQUIRED'') (cap_patch c)) (\<lambda>bs.
     Inr (map (\<lambda>(col, b). (col, bindingValue args b)) bs))"

definition itemBindingValue :: "srow \<Rightarrow> srow \<Rightarrow> patch_binding \<Rightarrow> json" where
  "itemBindingValue item args b = (case presentStr (pb_from_item b) of
      Some f \<Rightarrow> scalarOf (field item f)
    | None \<Rightarrow> bindingValue args b)"

definition buildItemPatch :: "capability \<Rightarrow> srow \<Rightarrow> srow \<Rightarrow> srow result" where
  "buildItemPatch c item args = bindE (requireSome (McpRuntimeError ''PATCH_REQUIRED'') (cap_patch c)) (\<lambda>bs.
     Inr (map (\<lambda>(col, b). (col, itemBindingValue item args b)) bs))"

definition batchItemsFromArgs :: "capability \<Rightarrow> srow \<Rightarrow> srow list result" where
  "batchItemsFromArgs c args =
     (let failed = McpRuntimeError ''BATCH_ITEMS_REQUIRED'' in
     bindE (requireSome failed (presentStr (Option.bind (cap_operation c) os_items_from_arg))) (\<lambda>a.
     case field args a of JArr items \<Rightarrow> traverseE (\<lambda>i. requireSome failed (asRecord i)) items
       | _ \<Rightarrow> Inl failed))"

definition checkNumericBound :: "srow \<Rightarrow> string \<times> numeric_bound \<Rightarrow> unit result" where
  "checkNumericBound patch b = (case map_of patch (fst b) of
      None \<Rightarrow> Inr ()
    | Some v \<Rightarrow>
        bindE (throwIf (\<not> isNumber v) (McpRuntimeError ''PATCH_NUMERIC_BOUND_TYPE_INVALID'')) (\<lambda>_.
        bindE (throwIf (belowMinimum (nb_minimum (snd b)) v) (McpRuntimeError ''PATCH_BELOW_MINIMUM'')) (\<lambda>_.
        throwIf (aboveMaximum (nb_maximum (snd b)) v) (McpRuntimeError ''PATCH_ABOVE_MAXIMUM''))))"

definition checkTransition :: "srow \<Rightarrow> srow \<Rightarrow> string \<times> transition_guard \<Rightarrow> unit result" where
  "checkTransition before patch g = (case map_of patch (fst g) of
      None \<Rightarrow> Inr ()
    | Some v \<Rightarrow> (case (field before (optOr (tg_from_column (snd g)) (fst g)), v) of
          (JStr current, JStr proposed) \<Rightarrow>
            throwIf (proposed \<notin> set (optOr (map_of (tg_allowed (snd g)) current) []))
              (McpRuntimeError ''PATCH_TRANSITION_NOT_ALLOWED'')
        | _ \<Rightarrow> Inl (McpRuntimeError ''PATCH_TRANSITION_TYPE_INVALID'')))"

definition enforcePatchGuards :: "capability \<Rightarrow> srow \<Rightarrow> srow \<Rightarrow> unit result" where
  "enforcePatchGuards c before patch =
     bindE (traverseE (checkNumericBound patch) (cap_numeric_bounds c)) (\<lambda>_.
     mapE (\<lambda>_. ()) (traverseE (checkTransition before patch) (cap_transition_guards c)))"

subsection \<open>Versions and deduplication\<close>

definition expectedVersionGuard :: "runtime \<Rightarrow> capability \<Rightarrow> srow \<Rightarrow> column_value result" where
  "expectedVersionGuard rt c row = (case presentStr (cap_guard_column c) of
      Some col \<Rightarrow>
        if field row col \<noteq> JUndefined
        then Inr \<lparr>cv_column = col, cv_value = conflictGuardScalar (field row col)\<rparr>
        else if cap_weak_guard_ack c
        then Inr \<lparr>cv_column = ''__row_hash'', cv_value = JStr (hashJson rt (JObj row))\<rparr>
        else Inl (McpRuntimeError ''CONFLICT_GUARD_MISSING'')
    | None \<Rightarrow>
        if cap_weak_guard_ack c
        then Inr \<lparr>cv_column = ''__row_hash'', cv_value = JStr (hashJson rt (JObj row))\<rparr>
        else Inl (McpRuntimeError ''CONFLICT_GUARD_MISSING''))"

definition declaredComponents :: "capability \<Rightarrow> declared_component list" where
  "declaredComponents c = optOr (Option.bind (cap_operation c) os_deduplication) []"

definition resolvedComponent :: "string \<Rightarrow> trusted_context \<Rightarrow> declared_component \<Rightarrow> dedup_component" where
  "resolvedComponent pid ctx d = (case dd_source d of
      FromProposalId \<Rightarrow> \<lparr>dc_column = dd_column d, dc_value = JStr pid, dc_source = DedupProposalId\<rparr>
    | FromTrustedTenant \<Rightarrow>
        \<lparr>dc_column = dd_column d, dc_value = JStr (tx_tenant_id ctx), dc_source = DedupTrustedTenant\<rparr>
    | _ \<Rightarrow> \<lparr>dc_column = dd_column d, dc_value = scalarOf (optOr (dd_fixed d) JNull), dc_source = DedupFixed\<rparr>)"

definition resolveDeduplication ::
  "capability \<Rightarrow> string \<Rightarrow> trusted_context \<Rightarrow> dedup_component list result" where
  "resolveDeduplication c pid ctx =
     (let declared = (if opKind c = InsertOp then declaredComponents c else []) in
     bindE (throwIf (declared = []) (McpRuntimeError ''INSERT_DEDUPLICATION_REQUIRED'')) (\<lambda>_.
     bindE (throwIf (\<exists>d \<in> set declared. dd_source d = FromItemField)
              (McpRuntimeError ''INSERT_ITEM_DEDUP_SINGLE_ROW_FORBIDDEN'')) (\<lambda>_.
     bindE (throwIf (\<not> (\<exists>d \<in> set declared. dd_source d = FromProposalId))
              (McpRuntimeError ''INSERT_PROPOSAL_ID_DEDUP_REQUIRED'')) (\<lambda>_.
     Inr (map (resolvedComponent pid ctx) declared)))))"

definition batchComponent ::
  "string \<Rightarrow> trusted_context \<Rightarrow> nat \<Rightarrow> srow \<Rightarrow> declared_component \<Rightarrow> dedup_component" where
  "batchComponent pid ctx i item d = (case dd_source d of
      FromItemField \<Rightarrow> \<lparr>dc_column = dd_column d,
        dc_value = scalarOf (field item (optOr (dd_item_field d) [])), dc_source = DedupFixed\<rparr>
    | FromProposalId \<Rightarrow>
        \<lparr>dc_column = dd_column d, dc_value = JStr (pid @ '':'' @ natDecimal i), dc_source = DedupProposalId\<rparr>
    | _ \<Rightarrow> resolvedComponent pid ctx d)"

definition resolveBatchDeduplication ::
  "capability \<Rightarrow> srow \<Rightarrow> string \<Rightarrow> trusted_context \<Rightarrow> nat \<Rightarrow> dedup_component list result" where
  "resolveBatchDeduplication c item pid ctx i =
     (let components = map (batchComponent pid ctx i item) (declaredComponents c) in
     bindE (throwIf (declaredComponents c = []) (McpRuntimeError ''BATCH_DEDUPLICATION_REQUIRED'')) (\<lambda>_.
     bindE (throwIf (\<not> (\<exists>d \<in> set components. dc_column d = ct_primary_key (cap_target c)
                 \<and> dc_value d \<noteq> JNull)) (McpRuntimeError ''BATCH_PRIMARY_KEY_REQUIRED'')) (\<lambda>_.
     bindE (throwIf (case tenantKey c of None \<Rightarrow> False
                 | Some k \<Rightarrow> \<not> (\<exists>d \<in> set components. dc_column d = k \<and> dc_value d = JStr (tx_tenant_id ctx)))
              (McpRuntimeError ''BATCH_TRUSTED_TENANT_REQUIRED'')) (\<lambda>_.
     Inr components))))"

subsection \<open>The hashed literal\<close>

definition principalSourceStr :: "principal_source \<Rightarrow> string" where
  "principalSourceStr s = (case s of TrustedSession \<Rightarrow> ''trusted_session'' | CloudSession \<Rightarrow> ''cloud_session''
     | PrincipalEnvironment \<Rightarrow> ''environment'' | PrincipalStaticDev \<Rightarrow> ''static_dev'')"

definition sourceKindStr :: "source_kind \<Rightarrow> string" where
  "sourceKindStr k = (case k of ExternalPostgres \<Rightarrow> ''external_postgres'' | ExternalMysql \<Rightarrow> ''external_mysql''
     | SynapsorTable \<Rightarrow> ''synapsor_table'')"

definition builtScopeJson :: "principal_scope \<Rightarrow> json" where
  "builtScopeJson p = JObj ([(''schema_version'', JStr ''synapsor.principal-scope.v1''),
     (''column'', JStr (ps_column p)), (''binding'', JStr (ps_binding p)),
     (''provider'', JStr (providerStr (ps_provider p)))] @ optField ''value'' id (ps_value p)
     @ [(''value_fingerprint'', JStr (ps_value_fingerprint p))])"

definition builtDedupJson :: "dedup_component list \<Rightarrow> json" where
  "builtDedupJson cs = JObj [(''components'', JArr (map (\<lambda>c. JObj [(''column'', JStr (dc_column c)),
     (''source'', JStr (dedupSourceStr (dc_source c))), (''value'', dc_value c)]) cs))]"

definition advanceJson :: "version_advance \<Rightarrow> json" where
  "advanceJson v = JObj [(''column'', JStr (va_column v)), (''strategy'', JStr (case va_strategy v of
     IntegerIncrement \<Rightarrow> ''integer_increment'' | DatabaseGenerated \<Rightarrow> ''database_generated''))]"

definition builtFreshnessJson :: "freshness_authority \<Rightarrow> json" where
  "builtFreshnessJson f = JObj (optOr (asRecord (authorityUnsignedJson f)) []
     @ [(''dependency_set_digest'', JStr (fa_dependency_set_digest f))])"

definition builtMemberJson :: "frozen_member \<Rightarrow> json" where
  "builtMemberJson m = JObj ([(''primary_key'', columnValueJson (fm_primary_key m))]
     @ optField ''expected_version'' columnValueJson (fm_expected_version m)
     @ [(''before'', JObj (fm_before m)), (''after'', JObj (fm_after m))]
     @ optField ''before_digest'' JStr (fm_before_digest m)
     @ optField ''after_digest'' JStr (fm_after_digest m)
     @ optField ''tombstone_digest'' JStr (fm_tombstone_digest m)
     @ optField ''deduplication'' builtDedupJson (fm_deduplication m))"

definition builtSetJson :: "runtime \<Rightarrow> frozen_set \<Rightarrow> json" where
  "builtSetJson rt fs = JObj [(''max_rows'', JNum (IntN (fs_max_rows fs))),
     (''row_count'', JNum (IntN (fs_row_count fs))),
     (''aggregate_bounds'', JArr (map (boundJson rt) (fs_aggregate_bounds fs))),
     (''members'', JArr (map builtMemberJson (fs_members fs))),
     (''set_digest'', JStr (fs_set_digest fs))]"

definition lineageField :: "reversal_lineage option \<Rightarrow> srow" where
  "lineageField = optField ''reversibility'' (\<lambda>l. JObj [(''mode'', JStr ''reviewed_inverse''),
     (''lineage'', JObj [(''root_proposal_id'', JStr (rl_root_proposal_id l)),
        (''parent_proposal_id'', JStr (rl_parent_proposal_id l)),
        (''reverts_proposal_id'', JStr (rl_reverts_proposal_id l)),
        (''depth'', JNum (IntN (rl_depth l)))])])"

definition versionFields :: "change_set \<Rightarrow> string \<times> srow \<times> srow" where
  "versionFields c = (case cs_body c of
      BodyV2 op l \<Rightarrow> (''synapsor.change-set.v2'', [(''operation'', JStr (operationStr (RowOp op)))], lineageField l)
    | BodyV3 op fs l \<Rightarrow> (''synapsor.change-set.v3'', [(''operation'', JStr (operationStr (SetOp op)))], lineageField l)
    | _ \<Rightarrow> (''synapsor.change-set.v1'', [], []))"

definition frozenField :: "runtime \<Rightarrow> cs_body \<Rightarrow> srow" where
  "frozenField rt b = (case b of BodyV3 _ fs _ \<Rightarrow> [(''frozen_set'', builtSetJson rt fs)] | _ \<Rightarrow> [])"

definition builtJson :: "runtime \<Rightarrow> string option \<Rightarrow> change_set \<Rightarrow> json" where
  "builtJson rt policy c = (case versionFields c of (version, operation, lineage) \<Rightarrow> JObj (
     [(''schema_version'', JStr version), (''proposal_id'', JStr (cs_proposal_id c)),
      (''proposal_version'', JNum (IntN (cs_proposal_version c))), (''action'', JStr (cs_action c))]
     @ optField ''contract'' (\<lambda>k. JObj [(''digest'', JStr (cp_digest k)), (''version'', JStr (cp_version k))])
         (cs_contract c)
     @ operation
     @ [(''mode'', JStr (if cs_mode c = ShadowMode then ''shadow'' else ''review_required'')),
        (''principal'', JObj [(''id'', JStr (cs_principal_id c)),
           (''source'', JStr (principalSourceStr (cs_principal_source c)))]),
        (''scope'', JObj [(''tenant_id'', JStr (cs_tenant_id c)),
           (''business_object'', JStr (cs_business_object c)), (''object_id'', JStr (cs_object_id c))]),
        (''source'', JObj [(''kind'', JStr (sourceKindStr (cs_source_kind c))),
           (''source_id'', JStr (cs_source_id c)), (''schema'', JStr (cs_schema c)),
           (''table'', JStr (cs_table c)), (''primary_key'', JObj ([(''column'', JStr (cs_pk_column c))]
              @ optField ''value'' id (cs_pk_value c)))]),
        (''before'', JObj (cs_before c)), (''patch'', JObj (cs_patch c)), (''after'', JObj (cs_after c)),
        (''guards'', JObj ([(''tenant'', columnValueJson (cs_tenant c))]
           @ optField ''principal_scope'' builtScopeJson (cs_principal_scope c)
           @ [(''allowed_columns'', JArr (map JStr (cs_allowed_columns c)))]
           @ optField ''expected_version'' columnValueJson (cs_expected_version c)
           @ optField ''version_advance'' advanceJson (cs_version_advance c)
           @ optField ''deduplication'' builtDedupJson (cs_deduplication c)))]
     @ optField ''freshness'' builtFreshnessJson (cs_freshness c)
     @ frozenField rt (cs_body c)
     @ lineage
     @ [(''evidence'', JObj [(''bundle_id'', JStr (cs_bundle_id c)),
           (''query_fingerprint'', JStr (cs_query_fingerprint c)), (''items'', JArr (cs_evidence_items c))]),
        (''approval'', JObj ([(''status'', JStr ''pending'')]
           @ optField ''mode'' JStr (cs_approval_mode c) @ optField ''policy'' JStr policy
           @ optField ''required_role'' JStr (cs_required_role c)
           @ optField ''required_approvals'' (\<lambda>n. JNum (IntN n)) (cs_required_approvals c))),
        (''writeback'', JObj ([(''status'', JStr ''not_applied''),
           (''mode'', JStr (if cs_wb_mode c = WbReadOnly then ''read_only'' else ''trusted_worker_required''))]
           @ optField ''executor'' JStr (cs_wb_executor c))),
        (''source_database_mutated'', JBool False), (''created_at'', JStr (cs_created_at c))]))"

definition sealed :: "runtime \<Rightarrow> string option \<Rightarrow> change_set \<Rightarrow> change_set" where
  "sealed rt policy c = c\<lparr>cs_proposal_hash := hashJson rt (builtJson rt policy c)\<rparr>"

end
