(* ===== verification/ChangeSetBuilder.thy ===== *)
theory ChangeSetBuilder
  imports ProposalBuilder
begin

text \<open>
  \<open>buildChangeSet\<close> and \<open>buildBoundedSetChangeSet\<close> of \<open>packages/mcp-server/src/proposal-builder.ts\<close>: the change
  set of one row (version 1, or 2 where the capability declares its operation) and of a frozen set,
  with the evidence and the difference that are shown of them.
\<close>

subsection \<open>The input of a builder\<close>

record build_input =
  bi_config :: runtime_config
  bi_capability :: capability
  bi_context :: trusted_context
  bi_engine :: engine
  bi_current_row :: srow
  bi_current_rows :: "srow list"
  bi_batch_items :: "srow list"
  bi_item_patches :: "srow list"
  bi_patch :: srow
  bi_proposal_id :: string
  bi_created_at :: string
  bi_deduplication :: "dedup_component list option"
  bi_bundle_id :: string
  bi_query_fingerprint :: string
  bi_object_id :: string
  bi_freshness :: "freshness_authority option"

definition principalSourceOf :: "context_provider \<Rightarrow> principal_source" where
  "principalSourceOf p = (case p of EnvironmentProvider \<Rightarrow> PrincipalEnvironment
     | CloudSessionProvider \<Rightarrow> CloudSession | StaticDev \<Rightarrow> PrincipalStaticDev | _ \<Rightarrow> TrustedSession)"

definition builtTenant :: "capability \<Rightarrow> trusted_context \<Rightarrow> column_value" where
  "builtTenant c ctx = (case ct_tenant_key (cap_target c) of
      None \<Rightarrow> \<lparr>cv_column = ''__single_tenant_dev'', cv_value = JStr ''single_tenant_dev''\<rparr>
    | Some k \<Rightarrow> \<lparr>cv_column = k,
        cv_value = JStr (if k = [] then ''single_tenant_dev'' else tx_tenant_id ctx)\<rparr>)"

definition writebackExecutorOf :: "capability \<Rightarrow> string option" where
  "writebackExecutorOf c = (case capabilityWritebackMode c of NoWriteback \<Rightarrow> Some ''none''
     | CloudWorkerMode \<Rightarrow> Some ''cloud_worker'' | DirectSql \<Rightarrow> Some ''sql_update''
     | AppHandler \<Rightarrow> capabilityWritebackExecutor c)"

definition approvalField :: "capability \<Rightarrow> (approval_spec \<Rightarrow> 'a option) \<Rightarrow> 'a option" where
  "approvalField c f = Option.bind (cap_approval c) f"

definition selfLineage :: "build_input \<Rightarrow> reversal_lineage option" where
  "selfLineage i = (if cap_reviewed_inverse (bi_capability i)
     then Some \<lparr>rl_root_proposal_id = bi_proposal_id i, rl_parent_proposal_id = bi_proposal_id i,
       rl_reverts_proposal_id = bi_proposal_id i, rl_depth = 1\<rparr> else None)"

text \<open>What every version of a built change set has in common.\<close>

definition builtEnvelope :: "build_input \<Rightarrow> principal_scope option \<Rightarrow> change_set" where
  "builtEnvelope i scope = (let c = bi_capability i; t = cap_target c; ctx = bi_context i in
     \<lparr>cs_proposal_id = bi_proposal_id i, cs_proposal_version = 1, cs_action = cap_name c,
      cs_contract = cap_contract c,
      cs_mode = (if rc_mode (bi_config i) = RunShadow then ShadowMode else ReviewRequired),
      cs_principal_id = tx_principal ctx, cs_principal_source = principalSourceOf (tx_provenance ctx),
      cs_tenant_id = tx_tenant_id ctx, cs_business_object = ct_table t, cs_object_id = bi_object_id i,
      cs_source_kind = (if bi_engine i = Postgres then ExternalPostgres else ExternalMysql),
      cs_source_id = cap_source c, cs_schema = ct_schema t, cs_table = ct_table t,
      cs_pk_column = ct_primary_key t, cs_pk_value = None, cs_before = [], cs_patch = [], cs_after = [],
      cs_tenant = builtTenant c ctx, cs_principal_scope = scope,
      cs_allowed_columns = optOr (cap_allowed_columns c) (map fst (bi_patch i)),
      cs_expected_version = None, cs_version_advance = None, cs_deduplication = None,
      cs_freshness = bi_freshness i, cs_bundle_id = bi_bundle_id i,
      cs_query_fingerprint = bi_query_fingerprint i, cs_evidence_items = [],
      cs_approval_status = ApprovalPending, cs_approval_mode = presentStr (approvalField c as_mode),
      cs_required_role = approvalField c as_required_role,
      cs_required_approvals = (if approvalField c as_required_approvals = Some 0 then None
        else approvalField c as_required_approvals),
      cs_wb_status = NotApplied,
      cs_wb_mode = (if capabilityWritebackMode c = NoWriteback then WbReadOnly else TrustedWorkerRequired),
      cs_wb_executor = writebackExecutorOf c, cs_source_database_mutated = False,
      cs_proposal_hash = [], cs_created_at = bi_created_at i, cs_body = BodyV1\<rparr>)"

subsection \<open>One row\<close>

definition rowOperationOf :: "operation_kind \<Rightarrow> row_operation" where
  "rowOperationOf k = (case k of UpdateOp \<Rightarrow> SingleRowUpdate | InsertOp \<Rightarrow> SingleRowInsert
     | DeleteOp \<Rightarrow> SingleRowDelete)"

definition setColumn :: "string \<Rightarrow> json \<Rightarrow> srow \<Rightarrow> srow" where
  "setColumn k v r = upsertRow fst (k, v) r"

text \<open>\<open>value ?? fallback\<close>.\<close>

definition orNullish :: "json \<Rightarrow> json \<Rightarrow> json" where
  "orNullish v fallback = (if v = JNull \<or> v = JUndefined then fallback else v)"

definition advancedAfter ::
  "runtime \<Rightarrow> capability \<Rightarrow> column_value option \<Rightarrow> srow \<Rightarrow> srow result" where
  "advancedAfter rt c guard img = (case Option.bind (cap_operation c) os_version_advance of
      Some a \<Rightarrow>
        (if opKind c = UpdateOp \<and> va_strategy a = IntegerIncrement then
           (case map_option cv_value guard of
              Some (JNum n) \<Rightarrow> Inr (setColumn (va_column a) (JNum (numPlusOne rt n)) img)
            | _ \<Rightarrow> Inl (McpRuntimeError ''VERSION_ADVANCE_REQUIRES_NUMBER''))
         else Inr img)
    | None \<Rightarrow> Inr img)"

definition insertColumns :: "build_input \<Rightarrow> principal_scope option \<Rightarrow> srow \<Rightarrow> srow" where
  "insertColumns i scope img = (if opKind (bi_capability i) = InsertOp then
       (let img' = fold (\<lambda>d. setColumn (dc_column d) (dc_value d)) (optOr (bi_deduplication i) []) img
        in case scope of None \<Rightarrow> img' | Some p \<Rightarrow> setColumn (ps_column p) (optOr (ps_value p) JUndefined) img')
     else img)"

definition primaryValue :: "build_input \<Rightarrow> json option" where
  "primaryValue i = (let pk = ct_primary_key (cap_target (bi_capability i));
       component = find (\<lambda>d. dc_column d = pk) (optOr (bi_deduplication i) []) in
     if opKind (bi_capability i) = InsertOp then map_option (\<lambda>d. scalarOf (dc_value d)) component
     else Some (scalarOf (orNullish (field (bi_current_row i) pk) (JStr (bi_object_id i)))))"

definition buildRowChangeSet :: "runtime \<Rightarrow> build_input \<Rightarrow> principal_scope option \<Rightarrow> change_set result" where
  "buildRowChangeSet rt i scope =
     (let c = bi_capability i; before = scalarRecord (bi_current_row i); patch = bi_patch i; kind = opKind c;
          policy = presentStr (approvalField c as_policy) in
     bindE (enforcePatchGuards c before patch) (\<lambda>_.
     bindE (if kind = InsertOp then Inr None else mapE Some (expectedVersionGuard rt c before)) (\<lambda>guard.
     bindE (advancedAfter rt c guard (case kind of DeleteOp \<Rightarrow> [] | InsertOp \<Rightarrow> patch
                | UpdateOp \<Rightarrow> spreadRow before patch)) (\<lambda>after.
     let built = (builtEnvelope i scope)\<lparr>cs_pk_value := primaryValue i, cs_before := before,
           cs_patch := patch, cs_after := insertColumns i scope after, cs_expected_version := guard\<rparr> in
     Inr (sealed rt policy (case cap_operation c of
         None \<Rightarrow> built
       | Some s \<Rightarrow> built\<lparr>cs_version_advance := os_version_advance s,
           cs_deduplication := bi_deduplication i,
           cs_body := BodyV2 (rowOperationOf kind) (selfLineage i)\<rparr>))))))"

subsection \<open>A frozen set\<close>

definition memberPk :: "capability \<Rightarrow> json \<Rightarrow> column_value" where
  "memberPk c v = \<lparr>cv_column = ct_primary_key (cap_target c), cv_value = v\<rparr>"

definition emptyMember :: "column_value \<Rightarrow> frozen_member" where
  "emptyMember pk = \<lparr>fm_primary_key = pk, fm_expected_version = None, fm_before = [], fm_after = [],
     fm_before_digest = None, fm_after_digest = None, fm_tombstone_digest = None,
     fm_deduplication = None\<rparr>"

definition addComponent :: "dedup_component \<Rightarrow> srow \<Rightarrow> srow result" where
  "addComponent d img = bindE (throwIf (dc_column d \<in> set (map fst img))
       (McpRuntimeError ''BATCH_DEDUP_COLUMN_COLLISION'')) (\<lambda>_. Inr (img @ [(dc_column d, dc_value d)]))"

definition insertMemberOf ::
  "runtime \<Rightarrow> build_input \<Rightarrow> principal_scope option \<Rightarrow> nat \<times> srow \<Rightarrow> frozen_member result" where
  "insertMemberOf rt i scope = (\<lambda>(index, itemPatch). let c = bi_capability i in
     bindE (resolveBatchDeduplication c (if index < length (bi_batch_items i) then bi_batch_items i ! index
         else []) (bi_proposal_id i) (bi_context i) index) (\<lambda>components.
     bindE (requireSome (McpRuntimeError ''BATCH_PRIMARY_KEY_REQUIRED'')
         (find (\<lambda>d. dc_column d = ct_primary_key (cap_target c)) components)) (\<lambda>primary.
     bindE (foldE addComponent components itemPatch) (\<lambda>img.
     let after = (case scope of None \<Rightarrow> img
           | Some p \<Rightarrow> setColumn (ps_column p) (optOr (ps_value p) JUndefined) img);
         m = (emptyMember (memberPk c (dc_value primary)))\<lparr>fm_after := after,
           fm_deduplication := Some components\<rparr> in
     bindE (canonicalJsonDigest rt (afterMaterial m)) (\<lambda>d. Inr (m\<lparr>fm_after_digest := Some d\<rparr>))))))"

definition deleteMemberOf :: "runtime \<Rightarrow> frozen_member \<Rightarrow> column_value \<Rightarrow> frozen_member result" where
  "deleteMemberOf rt m v =
     bindE (canonicalJsonDigest rt (beforeMaterial m)) (\<lambda>b.
     bindE (canonicalJsonDigest rt (JObj [(''primary_key'', cv_value (fm_primary_key m)),
         (''expected_version'', columnValueJson v)])) (\<lambda>t.
     Inr (m\<lparr>fm_before_digest := Some b, fm_tombstone_digest := Some t\<rparr>)))"

definition updateMemberOf ::
  "runtime \<Rightarrow> build_input \<Rightarrow> frozen_member \<Rightarrow> column_value \<Rightarrow> frozen_member result" where
  "updateMemberOf rt i m v = (case (Option.bind (cap_operation (bi_capability i)) os_version_advance, cv_value v) of
      (Some a, JNum n) \<Rightarrow>
        bindE (throwIf (va_strategy a \<noteq> IntegerIncrement) (McpRuntimeError ''SET_INTEGER_VERSION_REQUIRED'')) (\<lambda>_.
        let m' = m\<lparr>fm_after := setColumn (va_column a) (JNum (numPlusOne rt n))
              (spreadRow (fm_before m) (bi_patch i))\<rparr> in
        bindE (canonicalJsonDigest rt (beforeMaterial m')) (\<lambda>b.
        bindE (canonicalJsonDigest rt (afterMaterial m')) (\<lambda>d.
        Inr (m'\<lparr>fm_before_digest := Some b, fm_after_digest := Some d\<rparr>))))
    | _ \<Rightarrow> Inl (McpRuntimeError ''SET_INTEGER_VERSION_REQUIRED''))"

definition existingMemberOf :: "runtime \<Rightarrow> build_input \<Rightarrow> set_operation \<Rightarrow> srow \<Rightarrow> frozen_member result" where
  "existingMemberOf rt i kind rawRow = (let c = bi_capability i; before = scalarRecord rawRow in
     bindE (expectedVersionGuard rt c before) (\<lambda>v.
     bindE (throwIf (cv_column v = ''__row_hash'') (McpRuntimeError ''SET_WEAK_GUARD_FORBIDDEN'')) (\<lambda>_.
     let pk = scalarOf (field before (ct_primary_key (cap_target c))) in
     bindE (throwIf (pk = JNull) (McpRuntimeError ''SET_PRIMARY_KEY_MISSING'')) (\<lambda>_.
     let m = (emptyMember (memberPk c pk))\<lparr>fm_expected_version := Some v, fm_before := before\<rparr> in
     if kind = SetDelete then deleteMemberOf rt m v else updateMemberOf rt i m v))))"

definition setMembersOf ::
  "runtime \<Rightarrow> build_input \<Rightarrow> set_operation \<Rightarrow> principal_scope option \<Rightarrow> frozen_member list result" where
  "setMembersOf rt i kind scope = (if kind = BatchInsert
     then traverseE (insertMemberOf rt i scope)
       (zip [0..<length (bi_item_patches i)] (bi_item_patches i))
     else traverseE (existingMemberOf rt i kind) (bi_current_rows i))"

text \<open>\<open>aggregateValue\<close>: the sum of the measure over the members; \<open>numericAggregateValue\<close> refuses every
  value that is not a finite number.\<close>

definition numericAggregateValue :: "json \<Rightarrow> rat result" where
  "numericAggregateValue v = requireSome (McpRuntimeError ''SET_AGGREGATE_VALUE_INVALID'') (numberOf v)"

definition measureOf :: "string \<Rightarrow> bound_measure \<Rightarrow> frozen_member \<Rightarrow> rat result" where
  "measureOf col which m =
     (let before = numericAggregateValue (field (fm_before m) col);
          after = numericAggregateValue (field (fm_after m) col) in
      case which of
        BeforeMeasure \<Rightarrow> mapE abs before
      | AfterMeasure \<Rightarrow> mapE abs after
      | AbsoluteDelta \<Rightarrow> bindE after (\<lambda>x. bindE before (\<lambda>y. Inr \<bar>x - y\<bar>)))"

definition aggregateValue :: "frozen_member list \<Rightarrow> reviewed_bound \<Rightarrow> rat result" where
  "aggregateValue ms b = foldE (\<lambda>m total. bindE (measureOf (rb_column b) (rb_measure b) m) (\<lambda>x. Inr (total + x))) ms 0"

definition evaluatedBound :: "frozen_member list \<Rightarrow> reviewed_bound \<Rightarrow> aggregate_bound result" where
  "evaluatedBound ms b = bindE (aggregateValue ms b) (\<lambda>actual.
     Inr \<lparr>ab_column = rb_column b, ab_measure = rb_measure b, ab_maximum = rb_maximum b, ab_actual = actual\<rparr>)"

definition setOperationOf :: "operation_kind \<Rightarrow> set_operation" where
  "setOperationOf k = (case k of UpdateOp \<Rightarrow> SetUpdate | DeleteOp \<Rightarrow> SetDelete | InsertOp \<Rightarrow> BatchInsert)"

definition memberLe :: "runtime \<Rightarrow> frozen_member \<Rightarrow> frozen_member \<Rightarrow> bool" where
  "memberLe rt a b \<longleftrightarrow> localeCompare rt (memberIdentity a) (memberIdentity b) \<le> 0"

definition frozenSetOf ::
  "runtime \<Rightarrow> build_input \<Rightarrow> operation_spec \<Rightarrow> int \<Rightarrow> principal_scope option \<Rightarrow> frozen_set result" where
  "frozenSetOf rt i s maxRows scope = (let kind = setOperationOf (os_kind s) in
     bindE (throwIf (kind = SetUpdate \<and> map_option va_strategy (os_version_advance s) \<noteq> Some IntegerIncrement)
              (McpRuntimeError ''SET_VERSION_ADVANCE_UNSUPPORTED'')) (\<lambda>_.
     bindE (setMembersOf rt i kind scope) (\<lambda>rawMembers.
     let members = sortBy (memberLe rt) rawMembers in
     bindE (throwIf (hasDuplicates (map memberIdentity members)) (McpRuntimeError ''SET_IDENTITY_NOT_UNIQUE'')) (\<lambda>_.
     bindE (traverseE (evaluatedBound members) (os_aggregate_bounds s)) (\<lambda>bounds.
     bindE (throwIf (\<exists>b \<in> set bounds. ab_actual b > ab_maximum b)
              (McpRuntimeError ''SET_AGGREGATE_BOUND_EXCEEDED'')) (\<lambda>_.
     let fs = \<lparr>fs_max_rows = maxRows, fs_row_count = int (length members), fs_aggregate_bounds = bounds,
           fs_members = members, fs_set_digest = []\<rparr> in
     bindE (canonicalJsonDigest rt (setMaterial (boundJson rt) kind fs)) (\<lambda>d.
     Inr (fs\<lparr>fs_set_digest := d\<rparr>))))))))"

definition countRow :: "int \<Rightarrow> srow" where
  "countRow n = [(''row_count'', JNum (IntN n))]"

definition buildBoundedSetChangeSet ::
  "runtime \<Rightarrow> build_input \<Rightarrow> principal_scope option \<Rightarrow> change_set result" where
  "buildBoundedSetChangeSet rt i scope =
     (let c = bi_capability i; missing = McpRuntimeError ''SET_GUARDS_REQUIRED'' in
     bindE (requireSome missing (cap_operation c)) (\<lambda>s.
     bindE (requireSome missing (if os_max_rows s = Some 0 then None else os_max_rows s)) (\<lambda>maxRows.
     bindE (throwIf (\<not> os_set s \<or> os_aggregate_bounds s = []) missing) (\<lambda>_.
     bindE (frozenSetOf rt i s maxRows scope) (\<lambda>fs.
     let kind = setOperationOf (os_kind s); count = fs_row_count fs in
     Inr (sealed rt None ((builtEnvelope i scope)\<lparr>
       cs_before := countRow (if kind = BatchInsert then 0 else count),
       cs_patch := (if kind = SetUpdate then bi_patch i else []),
       cs_after := countRow (if kind = SetDelete then 0 else count),
       cs_allowed_columns := (if kind = SetDelete then [] else optOr (cap_allowed_columns c) (map fst (bi_patch i))),
       cs_version_advance := (if kind = SetUpdate then os_version_advance s else None),
       cs_approval_mode := Some (if approvalField c as_mode = Some ''operator'' then ''operator'' else ''human''),
       cs_wb_mode := TrustedWorkerRequired, cs_wb_executor := Some ''sql_update'',
       cs_body := BodyV3 kind fs (selfLineage i)\<rparr>)))))))"

definition buildChangeSet :: "runtime \<Rightarrow> build_input \<Rightarrow> change_set result" where
  "buildChangeSet rt i =
     bindE (effectivePrincipalScope rt (bi_config i) (bi_capability i) (bi_context i)) (\<lambda>scope.
     if isSetCapability (bi_capability i) then buildBoundedSetChangeSet rt i scope
     else buildRowChangeSet rt i scope)"

subsection \<open>What is shown\<close>

text \<open>The difference of a change set: column, value before, value proposed.\<close>

definition diffFromChangeSet :: "change_set \<Rightarrow> (string \<times> json \<times> json) list" where
  "diffFromChangeSet c = (case cs_body c of
      BodyV3 op fs _ \<Rightarrow>
        fold (\<lambda>(k, v). upsertRow fst (k, JNull, v)) (cs_patch c)
          [(''affected_rows'', JNum (IntN (if op = BatchInsert then 0 else fs_row_count fs)),
            JNum (IntN (if op = SetDelete then 0 else fs_row_count fs)))]
    | BodyV2 SingleRowDelete _ \<Rightarrow> map (\<lambda>(k, v). (k, v, JNull)) (cs_before c)
    | _ \<Rightarrow> map (\<lambda>(k, _). (k, orNullish (field (cs_before c) k) JNull, orNullish (field (cs_after c) k) JNull))
        (cs_patch c))"

definition tenantEvidence :: "capability \<Rightarrow> trusted_context \<Rightarrow> srow" where
  "tenantEvidence c ctx = optField ''tenant'' (\<lambda>k. JObj [(''column'', JStr k),
     (''value'', JStr (tx_tenant_id ctx))]) (tenantKey c)"

definition qualifiedTable :: "capability \<Rightarrow> string" where
  "qualifiedTable c = ct_schema (cap_target c) @ ''.'' @ ct_table (cap_target c)"

definition boundedSetEvidenceItems ::
  "capability \<Rightarrow> trusted_context \<Rightarrow> operation_kind \<Rightarrow> srow list \<Rightarrow> srow list \<Rightarrow> srow list \<Rightarrow> json list" where
  "boundedSetEvidenceItems c ctx op rows itemPatches items = (if op = InsertOp then
       map (\<lambda>(index, patch). JObj ([(''kind'', JStr ''reviewed_batch_insert_intent''),
           (''source_id'', JStr (cap_source c)), (''table'', JStr (qualifiedTable c)),
           (''item_index'', JNum (IntN (int index))),
           (''reviewed_item'', JObj (scalarRecord (if index < length items then items ! index else []))),
           (''visible_row'', JObj patch)] @ tenantEvidence c ctx))
         (zip [0..<length itemPatches] itemPatches)
     else map (\<lambda>row. JObj ([(''kind'', JStr ''external_row''), (''source_id'', JStr (cap_source c)),
           (''table'', JStr (qualifiedTable c)),
           (''primary_key'', JObj [(''column'', JStr (ct_primary_key (cap_target c))),
              (''value'', scalarOf (field row (ct_primary_key (cap_target c))))])]
         @ tenantEvidence c ctx @ [(''visible_row'', JObj (visibleScalarRecord c row))])) rows)"

end
