(* ===== verification/BuilderLemmas.thy ===== *)
theory BuilderLemmas
  imports ChangeSetBuilder
begin

text \<open>
  What the builders of \<open>ChangeSetBuilder\<close> guarantee of the change sets they return: which columns an update
  changes, that the guards come from the trusted context, and that a frozen set built from rows in
  scope passes the checks the worker repeats on it.
\<close>

subsection \<open>Rows\<close>

lemma map_of_replaced: "map_of (map (\<lambda>e. if fst e = k then (k, v) else e) r) x =
    (if x = k then (if k \<in> fst ` set r then Some v else None) else map_of r x)"
  by (induction r) (auto, metis fst_conv image_eqI)

lemma map_of_upsertRow: "map_of (upsertRow fst (k, v) r) x = (if x = k then Some v else map_of r x)"
proof (cases "k \<in> fst ` set r")
  case True
  then have "findRow fst k r \<noteq> None" unfolding findRow_None_iff by blast
  then have "upsertRow fst (k, v) r = map (\<lambda>e. if fst e = k then (k, v) else e) r"
    by (simp add: upsertRow_def updateWhere_def)
  with True map_of_replaced [of k v r x] show ?thesis by simp
next
  case False
  then have "findRow fst k r = None" "map_of r k = None" by (simp_all add: findRow_None_iff map_of_eq_None_iff)
  then show ?thesis by (simp add: upsertRow_def map_add_def split: option.split)
qed

lemma field_setColumn [simp]: "field (setColumn k v r) x = (if x = k then v else field r x)"
  by (simp add: setColumn_def field_def map_of_upsertRow)

lemma spreadRow_single: "spreadRow r [(k, v)] = setColumn k v r"
  by (simp add: spreadRow_def setColumn_def)

lemma map_of_spreadRow:
  "map_of (spreadRow a b) k = (case map_of (rev b) k of None \<Rightarrow> map_of a k | Some v \<Rightarrow> Some v)"
proof (induction b arbitrary: a)
  case (Cons e b)
  then show ?case
    by (cases e) (auto simp: spreadRow_def map_of_upsertRow split: option.splits)
qed (simp add: spreadRow_def)

lemma map_of_spreadRow_other: "k \<notin> fst ` set b \<Longrightarrow> map_of (spreadRow a b) k = map_of a k"
  by (simp add: map_of_spreadRow map_of_eq_None_iff [THEN iffD2] split: option.split)

lemma field_spreadRow_other: "k \<notin> fst ` set b \<Longrightarrow> field (spreadRow a b) k = field a k"
  by (simp add: field_def map_of_spreadRow_other)

lemma map_of_scalarRecord: "map_of (scalarRecord r) k = map_option scalarOf (map_of r k)"
  by (induction r) (auto simp: scalarRecord_def)

lemma field_scalarRecord: "field r k \<noteq> JUndefined \<Longrightarrow> field (scalarRecord r) k = scalarOf (field r k)"
  by (auto simp: field_def map_of_scalarRecord split: option.splits)

lemma scalarOf_JStr [simp]: "scalarOf (JStr s) = JStr s"
  by (simp add: scalarOf_def asScalar_def)

lemma conflictGuardScalar_JNum [simp]: "conflictGuardScalar v = JNum n \<longleftrightarrow> v = JNum n"
  by (auto simp: conflictGuardScalar_def split: json.splits option.splits)

subsection \<open>Digests\<close>

lemma canonicalJsonDigest_plain: "canonicalJsonDigest rt j = Inr d \<Longrightarrow> jsonPlain j \<and> d \<noteq> []"
  using canonical_total [of j]
  by (auto simp: canonicalJsonDigest_def canonicalJsonStringify_def mapE_eq_Inr)

lemma requireDigest_ok:
  "canonicalJsonDigest rt mat = Inr d \<Longrightarrow> requireDigest rt (Some d) mat legacy code = Inr ()"
  using canonicalJsonDigest_plain [of rt mat d]
  by (auto simp: requireDigest_def reviewedDigestMatches_def presentStr_def)

lemma strictEq_refl: "jsonPlain v \<or> v = JUndefined \<Longrightarrow> strictEq v v"
  by (cases v) (auto simp: strictEq_def jnumRat_def split: jnum.splits)

lemma plain_field: "jsonPlain (JObj es) \<Longrightarrow> jsonPlain (field es k) \<or> field es k = JUndefined"
  by (induction es) (auto simp: field_def)

lemma recordsEqual_refl: "jsonPlain (JObj es) \<Longrightarrow> recordsEqual es es"
  unfolding recordsEqual_def list_all_iff using plain_field strictEq_refl by blast

subsection \<open>Frozen members\<close>

text \<open>A row the caller may see, with the scope columns as text.\<close>

definition rowOwned :: "capability \<Rightarrow> trusted_context \<Rightarrow> srow \<Rightarrow> bool" where
  "rowOwned c ctx row \<longleftrightarrow>
     (case tenantKey c of None \<Rightarrow> False | Some k \<Rightarrow> field row k = JStr (tx_tenant_id ctx))
     \<and> (case principalKey c of None \<Rightarrow> True | Some k \<Rightarrow> field row k = JStr (tx_principal ctx))"

text \<open>The part of a job the checks of its members read.\<close>

definition jobCarries :: "build_input \<Rightarrow> principal_scope option \<Rightarrow> set_operation \<Rightarrow> job \<Rightarrow> bool" where
  "jobCarries i scope kind j \<longleftrightarrow> jb_pk_column j = ct_primary_key (cap_target (bi_capability i))
     \<and> jb_tenant_guard j = builtTenant (bi_capability i) (bi_context i) \<and> jb_principal_scope j = scope
     \<and> jb_patch j = (if kind = SetUpdate then bi_patch i else [])
     \<and> jb_version_advance j = (if kind = SetUpdate
          then Option.bind (cap_operation (bi_capability i)) os_version_advance else None)"

lemma effectivePrincipalScope_cases:
  assumes "effectivePrincipalScope rt cfg c ctx = Inr scope"
  shows "(case principalKey c of None \<Rightarrow> scope = None
     | Some k \<Rightarrow> \<exists>p. scope = Some p \<and> ps_column p = k \<and> ps_value p = Some (JStr (tx_principal ctx))
         \<and> ps_value_fingerprint p = principalScopeFingerprint rt k (ps_binding p) (ps_provider p)
             (JStr (tx_principal ctx)))"
  using assms
  by (auto simp: effectivePrincipalScope_def bindE_eq_Inr Let_def split: option.splits)

lemma builtTenant_key: "tenantKey c = Some k \<Longrightarrow>
    builtTenant c ctx = \<lparr>cv_column = k, cv_value = JStr (tx_tenant_id ctx)\<rparr>"
  by (auto simp: tenantKey_def presentStr_def builtTenant_def split: if_splits option.splits)

lemma checkImageScope_owned:
  assumes "jobCarries i scope kind j" and "rowOwned (bi_capability i) (bi_context i) row"
    and "effectivePrincipalScope rt (bi_config i) (bi_capability i) (bi_context i) = Inr scope"
  shows "checkImageScope j (scalarRecord row) = Inr ()"
proof -
  from assms(2) obtain k where k: "tenantKey (bi_capability i) = Some k"
    "field row k = JStr (tx_tenant_id (bi_context i))" by (auto simp: rowOwned_def split: option.splits)
  have tenant: "strictEq (field (scalarRecord row) (cv_column (jb_tenant_guard j))) (cv_value (jb_tenant_guard j))"
    using assms(1) k by (simp add: jobCarries_def builtTenant_key field_scalarRecord strictEq_refl)
  have scope: "case scope of None \<Rightarrow> True
      | Some p \<Rightarrow> strictEq (field (scalarRecord row) (ps_column p)) (optOr (ps_value p) JUndefined)"
    using effectivePrincipalScope_cases [OF assms(3)] assms(2)
    by (auto simp: rowOwned_def field_scalarRecord strictEq_refl split: option.splits)
  from tenant scope assms(1) show ?thesis
    by (auto simp: checkImageScope_def jobCarries_def split: option.splits)
qed

lemma expectedVersionGuard_exact:
  assumes "expectedVersionGuard rt c row = Inr v" and "cv_column v \<noteq> ''__row_hash''"
  shows "presentStr (cap_guard_column c) = Some (cv_column v)
     \<and> cv_value v = conflictGuardScalar (field row (cv_column v)) \<and> field row (cv_column v) \<noteq> JUndefined"
  using assms by (auto simp: expectedVersionGuard_def split: option.splits if_splits)

lemma existing_member:
  assumes "existingMemberOf rt i kind row = Inr m"
  shows "\<exists>v pk m0. m0 = (emptyMember (memberPk (bi_capability i) pk))\<lparr>fm_expected_version := Some v,
       fm_before := scalarRecord row\<rparr>
     \<and> expectedVersionGuard rt (bi_capability i) (scalarRecord row) = Inr v \<and> cv_column v \<noteq> ''__row_hash''
     \<and> (if kind = SetDelete then deleteMemberOf rt m0 v else updateMemberOf rt i m0 v) = Inr m"
  using assms by (fastforce simp: existingMemberOf_def bindE_eq_Inr Let_def split: if_splits)

lemma update_member_accepted:
  assumes m: "existingMemberOf rt i SetUpdate row = Inr m" and job: "jobCarries i scope SetUpdate j"
    and scope: "effectivePrincipalScope rt (bi_config i) (bi_capability i) (bi_context i) = Inr scope"
    and owned: "rowOwned (bi_capability i) (bi_context i) row"
    and advance: "Option.bind (cap_operation (bi_capability i)) os_version_advance = Some a"
      "cap_guard_column (bi_capability i) = Some (va_column a)"
  shows "checkSetMember rt j SetUpdate m = Inr ()"
proof -
  from existing_member [OF m] obtain v pk m0 where
    m0: "m0 = (emptyMember (memberPk (bi_capability i) pk))\<lparr>fm_expected_version := Some v,
       fm_before := scalarRecord row\<rparr>" and v: "cv_column v \<noteq> ''__row_hash''"
      "expectedVersionGuard rt (bi_capability i) (scalarRecord row) = Inr v"
    and upd: "updateMemberOf rt i m0 v = Inr m" by auto
  from expectedVersionGuard_exact [OF v(2,1)] advance(2) have guard: "cv_column v = va_column a"
    "cv_value v = conflictGuardScalar (field (scalarRecord row) (va_column a))"
    by (auto simp: presentStr_def split: if_splits)
  from upd advance(1) obtain n b d where n: "cv_value v = JNum n" "va_strategy a = IntegerIncrement"
    and digests: "canonicalJsonDigest rt (beforeMaterial m) = Inr b" "fm_before_digest m = Some b"
      "canonicalJsonDigest rt (afterMaterial m) = Inr d" "fm_after_digest m = Some d"
    and shape: "fm_expected_version m = Some v" "fm_before m = scalarRecord row"
      "fm_primary_key m = memberPk (bi_capability i) pk"
      "fm_after m = setColumn (va_column a) (JNum (numPlusOne rt n)) (spreadRow (scalarRecord row) (bi_patch i))"
    unfolding updateMemberOf_def m0
    by (auto simp: bindE_eq_Inr Let_def beforeMaterial_def afterMaterial_def emptyMember_def
        split: json.splits)
  have "conflictGuardScalar (field (scalarRecord row) (va_column a)) = JNum n" using guard(2) n(1) by simp
  then have before: "field (scalarRecord row) (va_column a) = JNum n" by (simp only: conflictGuardScalar_JNum)
  have "jsonPlain (JObj (fm_before m))" "jsonPlain (JObj (fm_after m))"
    using canonicalJsonDigest_plain [OF digests(1)] canonicalJsonDigest_plain [OF digests(3)]
    by (simp_all add: beforeMaterial_def afterMaterial_def)
  then have "strictEq (JNum n) (JNum n)" "recordsEqual (fm_after m) (fm_after m)"
    using plain_field [of "fm_before m" "va_column a"] shape(2) before
    by (auto intro: strictEq_refl recordsEqual_refl)
  then show ?thesis
    using shape digests job guard n before advance(1) checkImageScope_owned [OF job owned scope]
    by (simp add: checkSetMember_def checkUpdateMember_def jobCarries_def memberPk_def isNumber_def
        requireDigest_ok nextVersion_def jsNumber_def spreadRow_single)
qed

lemma delete_member_accepted:
  assumes m: "existingMemberOf rt i SetDelete row = Inr m" and job: "jobCarries i scope SetDelete j"
    and scope: "effectivePrincipalScope rt (bi_config i) (bi_capability i) (bi_context i) = Inr scope"
    and owned: "rowOwned (bi_capability i) (bi_context i) row"
    and canonical: "\<And>k. cap_guard_column (bi_capability i) = Some k \<Longrightarrow>
      conflictGuardScalar (field (scalarRecord row) k) = field (scalarRecord row) k"
  shows "checkSetMember rt j SetDelete m = Inr ()"
proof -
  from existing_member [OF m] obtain v pk m0 where
    m0: "m0 = (emptyMember (memberPk (bi_capability i) pk))\<lparr>fm_expected_version := Some v,
       fm_before := scalarRecord row\<rparr>" and v: "cv_column v \<noteq> ''__row_hash''"
      "expectedVersionGuard rt (bi_capability i) (scalarRecord row) = Inr v"
    and del: "deleteMemberOf rt m0 v = Inr m" by auto
  from expectedVersionGuard_exact [OF v(2,1)] canonical have guard:
    "cv_value v = field (scalarRecord row) (cv_column v)"
    by (auto simp: presentStr_def split: if_splits)
  from del obtain b t where digests: "canonicalJsonDigest rt (beforeMaterial m) = Inr b" "fm_before_digest m = Some b"
      "canonicalJsonDigest rt (JObj [(''primary_key'', cv_value (fm_primary_key m)),
         (''expected_version'', columnValueJson v)]) = Inr t" "fm_tombstone_digest m = Some t"
    and shape: "fm_expected_version m = Some v" "fm_before m = scalarRecord row" "fm_after m = []"
      "fm_primary_key m = memberPk (bi_capability i) pk"
    unfolding deleteMemberOf_def m0
    by (auto simp: bindE_eq_Inr beforeMaterial_def emptyMember_def)
  have "jsonPlain (JObj (fm_before m))"
    using canonicalJsonDigest_plain [OF digests(1)] by (simp add: beforeMaterial_def)
  then have "strictEq (field (scalarRecord row) (cv_column v)) (cv_value v)"
    using plain_field [of "fm_before m" "cv_column v"] shape(2) guard by (auto intro: strictEq_refl)
  then show ?thesis
    using shape digests job checkImageScope_owned [OF job owned scope]
    by (simp add: checkSetMember_def checkDeleteMember_def jobCarries_def memberPk_def requireDigest_ok)
qed

subsection \<open>Frozen sets\<close>

text \<open>\<open>localeCompare\<close> is the comparison of a total preorder.\<close>

definition localeOrder :: "runtime \<Rightarrow> bool" where
  "localeOrder rt \<longleftrightarrow> (\<forall>a b. localeLe rt a b \<or> localeLe rt b a)
     \<and> (\<forall>a b c. localeLe rt a b \<longrightarrow> localeLe rt b c \<longrightarrow> localeLe rt a c)"

lemma memberLe_iff: "memberLe rt a b \<longleftrightarrow> localeLe rt (memberIdentity a) (memberIdentity b)"
  by (simp add: memberLe_def localeCompare_def)

lemma sorted_members:
  assumes "localeOrder rt"
  shows "\<not> someDescent rt (map memberIdentity (sortBy (memberLe rt) ms))"
proof -
  have "sorted_wrt (memberLe rt) (sortBy (memberLe rt) ms)"
    by (rule sorted_sortBy) (use assms in \<open>auto simp: memberLe_iff localeOrder_def\<close>)
  moreover have "memberLe rt = (\<lambda>a b. localeLe rt (memberIdentity a) (memberIdentity b))"
    by (simp add: fun_eq_iff memberLe_iff)
  ultimately have "sorted_wrt (localeLe rt) (map memberIdentity (sortBy (memberLe rt) ms))"
    by (simp add: sorted_wrt_map)
  then show ?thesis using someDescent_sorted [of rt] assms unfolding localeOrder_def by blast
qed

lemma measureOf_member: "measureOf (ab_column b) (ab_measure b) m = Inr x \<Longrightarrow> memberMeasure b m = Inr x"
  by (auto simp: measureOf_def memberMeasure_def numericAggregateValue_def finiteNumber_def numberOf_def
      mapE_eq_Inr bindE_eq_Inr Let_def split: bound_measure.splits json.splits)

lemma aggregate_sum:
  "foldE (\<lambda>m total. bindE (measureOf (ab_column b) (ab_measure b) m) (\<lambda>x. Inr (total + x))) ms t = Inr r \<Longrightarrow>
   \<exists>xs. traverseE (memberMeasure b) ms = Inr xs \<and> r = t + sum_list xs"
proof (induction ms arbitrary: t)
  case (Cons m ms)
  then obtain x where x: "measureOf (ab_column b) (ab_measure b) m = Inr x"
    and rest: "foldE (\<lambda>m total. bindE (measureOf (ab_column b) (ab_measure b) m) (\<lambda>x. Inr (total + x))) ms (t + x) = Inr r"
    by (auto simp: bindE_eq_Inr)
  from Cons.IH [OF rest] measureOf_member [OF x] show ?case by (auto simp: algebra_simps)
qed simp

lemma evaluated_bound_checked:
  assumes "evaluatedBound (fs_members fs) rb = Inr b" and "ab_actual b \<le> ab_maximum b"
  shows "checkBound fs b = Inr ()"
proof -
  from assms(1) obtain r where r: "aggregateValue (fs_members fs) rb = Inr r"
    and b: "ab_column b = rb_column rb" "ab_measure b = rb_measure rb" "ab_actual b = r"
    by (auto simp: evaluatedBound_def bindE_eq_Inr)
  from r obtain xs where "traverseE (memberMeasure b) (fs_members fs) = Inr xs" "r = sum_list xs"
    using aggregate_sum [of b "fs_members fs" 0 r] b by (auto simp: aggregateValue_def)
  with b assms(2) show ?thesis by (simp add: checkBound_def)
qed

lemma frozenSetOf_cases:
  assumes "frozenSetOf rt i s mx scope = Inr fs"
  shows "\<exists>raw. setMembersOf rt i (setOperationOf (os_kind s)) scope = Inr raw
     \<and> fs_members fs = sortBy (memberLe rt) raw \<and> fs_row_count fs = int (length raw) \<and> fs_max_rows fs = mx
     \<and> distinct (map memberIdentity (fs_members fs))
     \<and> traverseE (evaluatedBound (fs_members fs)) (os_aggregate_bounds s) = Inr (fs_aggregate_bounds fs)
     \<and> (\<forall>b \<in> set (fs_aggregate_bounds fs). ab_actual b \<le> ab_maximum b)
     \<and> canonicalJsonDigest rt (setMaterial (boundJson rt) (setOperationOf (os_kind s)) fs)
         = Inr (fs_set_digest fs)"
  using assms
  by (auto simp: frozenSetOf_def bindE_eq_Inr Let_def setMaterial_def not_less)

text \<open>A frozen set built from rows in scope passes every check the worker repeats on it.\<close>

lemma frozen_set_accepted:
  assumes fs: "frozenSetOf rt i s mx scope = Inr fs" and order: "localeOrder rt"
    and size: "1 \<le> length (fs_members fs)" "int (length (fs_members fs)) \<le> mx" "mx \<le> 100"
    and members: "\<And>raw m. setMembersOf rt i (setOperationOf (os_kind s)) scope = Inr raw \<Longrightarrow> m \<in> set raw \<Longrightarrow>
      checkSetMember rt j (setOperationOf (os_kind s)) m = Inr ()"
  shows "assertFrozenSetJobIntegrity rt j (setOperationOf (os_kind s)) fs = Inr ()"
proof -
  from frozenSetOf_cases [OF fs] obtain raw where
    raw: "setMembersOf rt i (setOperationOf (os_kind s)) scope = Inr raw" "fs_members fs = sortBy (memberLe rt) raw"
      "fs_row_count fs = int (length raw)" "fs_max_rows fs = mx" "distinct (map memberIdentity (fs_members fs))"
    and bounds: "traverseE (evaluatedBound (fs_members fs)) (os_aggregate_bounds s) = Inr (fs_aggregate_bounds fs)"
      "\<forall>b \<in> set (fs_aggregate_bounds fs). ab_actual b \<le> ab_maximum b"
    and digest: "canonicalJsonDigest rt (setMaterial (boundJson rt) (setOperationOf (os_kind s)) fs)
         = Inr (fs_set_digest fs)" by blast
  have "\<exists>us. traverseE (checkSetMember rt j (setOperationOf (os_kind s))) (fs_members fs) = Inr us"
    by (rule traverseE_units) (use raw members in auto)
  moreover have "\<exists>us. traverseE (checkBound fs) (fs_aggregate_bounds fs) = Inr us"
  proof (rule traverseE_units)
    fix b assume "b \<in> set (fs_aggregate_bounds fs)"
    with traverseE_member [OF bounds(1) this] bounds(2) show "checkBound fs b = Inr ()"
      by (auto intro: evaluated_bound_checked)
  qed
  moreover have "\<not> someDescent rt (map memberIdentity (fs_members fs))"
    unfolding raw(2) by (rule sorted_members [OF order])
  moreover have "raw \<noteq> []" using size(1) raw(2) by auto
  ultimately show ?thesis
    using raw size requireDigest_ok [OF digest]
    by (auto simp: assertFrozenSetJobIntegrity_def Let_def)
qed

subsection \<open>One row\<close>

lemma checkNumericBound_iff: "checkNumericBound patch b = Inr u \<longleftrightarrow> (\<forall>v. map_of patch (fst b) = Some v \<longrightarrow>
    isNumber v \<and> \<not> belowMinimum (nb_minimum (snd b)) v \<and> \<not> aboveMaximum (nb_maximum (snd b)) v)"
  by (auto simp: checkNumericBound_def bindE_eq_Inr split: option.splits)

definition transitionAllowed :: "srow \<Rightarrow> string \<Rightarrow> transition_guard \<Rightarrow> json \<Rightarrow> bool" where
  "transitionAllowed before col g v \<longleftrightarrow> (\<exists>current proposed. field before (optOr (tg_from_column g) col) = JStr current
     \<and> v = JStr proposed \<and> proposed \<in> set (optOr (map_of (tg_allowed g) current) []))"

lemma checkTransition_iff: "checkTransition before patch g = Inr u \<longleftrightarrow>
    (\<forall>v. map_of patch (fst g) = Some v \<longrightarrow> transitionAllowed before (fst g) (snd g) v)"
  by (auto simp: checkTransition_def transitionAllowed_def split: option.splits json.splits)

lemma enforcePatchGuards_within:
  assumes "enforcePatchGuards c before patch = Inr u" and "map_of patch col = Some v"
  shows "(col, b) \<in> set (cap_numeric_bounds c) \<Longrightarrow>
      isNumber v \<and> \<not> belowMinimum (nb_minimum b) v \<and> \<not> aboveMaximum (nb_maximum b) v"
    and "(col, g) \<in> set (cap_transition_guards c) \<Longrightarrow> transitionAllowed before col g v"
  using assms traverseE_each [of "checkNumericBound patch" "cap_numeric_bounds c"]
    traverseE_each [of "checkTransition before patch" "cap_transition_guards c"]
  by (auto simp: enforcePatchGuards_def bindE_eq_Inr mapE_eq_Inr checkNumericBound_iff checkTransition_iff)

lemma builtJson_hash [simp]: "builtJson rt p (c\<lparr>cs_proposal_hash := h\<rparr>) = builtJson rt p c"
  by (simp add: builtJson_def versionFields_def)

lemma sealed_hash: "cs_proposal_hash (sealed rt p c) = hashJson rt (builtJson rt p (sealed rt p c))"
  by (simp add: sealed_def)

lemma builtEnvelope_fields [simp]:
  "cs_tenant_id (builtEnvelope i scope) = tx_tenant_id (bi_context i)"
  "cs_tenant (builtEnvelope i scope) = builtTenant (bi_capability i) (bi_context i)"
  "cs_principal_scope (builtEnvelope i scope) = scope"
  "cs_principal_id (builtEnvelope i scope) = tx_principal (bi_context i)"
  "cs_pk_column (builtEnvelope i scope) = ct_primary_key (cap_target (bi_capability i))"
  "cs_source_database_mutated (builtEnvelope i scope) = False"
  "cs_approval_status (builtEnvelope i scope) = ApprovalPending"
  "cs_wb_status (builtEnvelope i scope) = NotApplied"
  by (simp_all add: builtEnvelope_def Let_def)

lemma row_change_set:
  assumes "buildRowChangeSet rt i scope = Inr cs"
  shows "\<exists>guard img. enforcePatchGuards (bi_capability i) (scalarRecord (bi_current_row i)) (bi_patch i) = Inr ()
     \<and> (if opKind (bi_capability i) = InsertOp then guard = None
        else \<exists>v. guard = Some v \<and> expectedVersionGuard rt (bi_capability i) (scalarRecord (bi_current_row i)) = Inr v)
     \<and> advancedAfter rt (bi_capability i) guard (case opKind (bi_capability i) of DeleteOp \<Rightarrow> [] | InsertOp \<Rightarrow> bi_patch i
          | UpdateOp \<Rightarrow> spreadRow (scalarRecord (bi_current_row i)) (bi_patch i)) = Inr img
     \<and> cs_tenant_id cs = tx_tenant_id (bi_context i) \<and> cs_tenant cs = builtTenant (bi_capability i) (bi_context i)
     \<and> cs_principal_scope cs = scope \<and> cs_before cs = scalarRecord (bi_current_row i)
     \<and> cs_patch cs = bi_patch i \<and> cs_after cs = insertColumns i scope img \<and> cs_expected_version cs = guard
     \<and> cs_proposal_hash cs = hashJson rt (builtJson rt
         (presentStr (approvalField (bi_capability i) as_policy)) cs)"
  using assms
  by (auto simp: buildRowChangeSet_def bindE_eq_Inr mapE_eq_Inr Let_def sealed_def
      split: option.splits if_splits)

lemma advancedAfter_other:
  assumes "advancedAfter rt c guard img = Inr img'"
    and "\<And>a. Option.bind (cap_operation c) os_version_advance = Some a \<Longrightarrow> va_column a \<noteq> k"
  shows "field img' k = field img k"
  using assms by (auto simp: advancedAfter_def split: option.splits if_splits json.splits)

lemma update_changes_only:
  assumes "buildRowChangeSet rt i scope = Inr cs" and "opKind (bi_capability i) = UpdateOp"
    and "k \<notin> fst ` set (cs_patch cs)"
    and "\<And>a. Option.bind (cap_operation (bi_capability i)) os_version_advance = Some a \<Longrightarrow> va_column a \<noteq> k"
  shows "field (cs_after cs) k = field (cs_before cs) k"
proof -
  from row_change_set [OF assms(1)] assms(2) obtain guard img where
    img: "advancedAfter rt (bi_capability i) guard (spreadRow (scalarRecord (bi_current_row i)) (bi_patch i)) = Inr img"
    and cs: "cs_before cs = scalarRecord (bi_current_row i)" "cs_patch cs = bi_patch i"
      "cs_after cs = insertColumns i scope img" by auto
  have "cs_after cs = img" using cs(3) assms(2) by (simp add: insertColumns_def)
  with advancedAfter_other [OF img assms(4)] assms(3) cs show ?thesis
    by (simp add: field_spreadRow_other)
qed

end
