(* ===== verification/AuthoringSamples.thy ===== *)
theory AuthoringSamples
  imports ChangeSetBuilder Samples
begin

text \<open>
  Samples of the MCP server's configuration: a capability on the table of the sample history, its
  protected read, its bounded DELETE, the configuration and the input of the builders.
\<close>

definition sampleTarget :: capability_target where
  "sampleTarget = \<lparr>ct_schema = ''x'', ct_table = ''y'', ct_primary_key = ''k'', ct_tenant_key = Some ''n'',
     ct_principal_scope_key = None\<rparr>"

definition sampleCapability :: capability where
  "sampleCapability = \<lparr>cap_name = ''b.w'', cap_kind = ProposalCapability, cap_contract = None, cap_source = ''s'',
     cap_context = None, cap_executor = None, cap_target = sampleTarget,
     cap_args = [(''amount'', ScalarArg \<lparr>sa_type = NumberArg, sa_required = None, sa_max_length = None,
       sa_minimum = Some 0, sa_maximum = Some 50, sa_enum = None\<rparr>)], cap_id_from_arg = ''id'',
     cap_visible_columns = [''k'', ''f''], cap_max_rows = Some 5, cap_aggregate = None, cap_protected = None,
     cap_patch = Some [(''f'', \<lparr>pb_fixed = Some (JNum (IntN 0)), pb_from_arg = None, pb_from_item = None\<rparr>)],
     cap_allowed_columns = Some [''f''],
     cap_numeric_bounds = [(''f'', \<lparr>nb_minimum = Some 0, nb_maximum = Some 50\<rparr>)], cap_transition_guards = [],
     cap_reviewed_inverse = False, cap_operation = None, cap_guard_column = Some ''v'',
     cap_weak_guard_ack = False, cap_approval = None, cap_supervised_allowed = True,
     cap_writeback = Some (DirectSql, None)\<rparr>"

definition sampleContext :: trusted_context where
  "sampleContext = \<lparr>tx_tenant_id = ''t'', tx_principal = ''u'', tx_provenance = HttpClaims\<rparr>"

definition sampleLink :: relationship_link where
  "sampleLink = \<lparr>ln_schema = ''x'', ln_table = ''z'', ln_primary_key = ''k'', ln_tenant_key = Some ''n'',
     ln_principal_scope_key = Some ''u'', ln_local_key = ''f'', ln_target_key = ''k'', ln_keep_null = True\<rparr>"

definition sampleProtected :: protected_read where
  "sampleProtected = \<lparr>pr_rows = True, pr_organization_id = None,
     pr_predicates = [ComparePredicate ''f'' None GtOp (FromArg ''amount'')], pr_relationship = None,
     pr_relationships = [\<lparr>rp_name = ''owner'', rp_links = [sampleLink]\<rparr>], pr_time_window = None,
     pr_row_order = [], pr_aggregate = None, pr_max_rows = 5, pr_max_groups = 5,
     pr_max_ranked_groups = None, pr_statement_timeout = 100\<rparr>"

definition sampleReader :: capability where
  "sampleReader = sampleCapability\<lparr>cap_kind := ReadCapability, cap_protected := Some sampleProtected\<rparr>"

definition sampleDeleter :: capability where
  "sampleDeleter = sampleCapability\<lparr>cap_patch := None, cap_allowed_columns := Some [], cap_numeric_bounds := [],
     cap_operation := Some \<lparr>os_kind = DeleteOp, os_set = True,
       os_selection = Some [\<lparr>ft_column = ''f'', ft_value = JNum (IntN 0)\<rparr>], os_max_rows = Some 3,
       os_aggregate_bounds = [\<lparr>rb_column = ''f'', rb_measure = BeforeMeasure, rb_maximum = 20\<rparr>],
       os_items_from_arg = None, os_deduplication = None, os_version_advance = None\<rparr>\<rparr>"

definition sampleConfig :: runtime_config where
  "sampleConfig = \<lparr>rc_mode = RunReview, rc_policies = [], rc_disable_auto_approval = False,
     rc_proposal_freshness = [],
     rc_sources = [(''s'', \<lparr>so_engine = Postgres, so_read_only = False, so_write_url_env = Some ''W'',
       so_receipts = True\<rparr>)],
     rc_trusted_context = Some \<lparr>cc_provider = HttpClaims, cc_values = [], cc_principal_binding = None\<rparr>,
     rc_contexts = [], rc_executors = [], rc_capabilities = [sampleCapability], rc_cloud_linked = False,
     rc_supervised_worker = None\<rparr>"

definition sampleInput :: "capability \<Rightarrow> srow list \<Rightarrow> build_input" where
  "sampleInput c rows = \<lparr>bi_config = sampleConfig, bi_capability = c, bi_context = sampleContext, bi_engine = Postgres,
     bi_current_row = hd rows, bi_current_rows = rows, bi_batch_items = [], bi_item_patches = [],
     bi_patch = [(''f'', JNum (IntN 0))], bi_proposal_id = ''p'', bi_created_at = ''t'', bi_deduplication = None,
     bi_bundle_id = ''e'', bi_query_fingerprint = ''sha256:q'', bi_object_id = ''o'', bi_freshness = None\<rparr>"

end
