(* ===== verification/AuthoringProperties.thy ===== *)
theory AuthoringProperties
  imports ReadPlanLemmas BuilderLemmas AuthoringSamples
begin

text \<open>
  What the MCP server guarantees while it authors: the statements it reads with, the identity it
  trusts, the arguments it accepts and the change sets it builds.  The witnesses use the
  capabilities of \<open>AuthoringSamples\<close>.
\<close>

definition sampleRead :: "read_query \<times> json list" where
  "sampleRead = (case runtimeReadQuery sampleRuntime sampleReader [(''amount'', JNum (IntN 7))] sampleContext of
     Inr r \<Rightarrow> r)"

lemma sample_read: "runtimeReadQuery sampleRuntime sampleReader [(''amount'', JNum (IntN 7))] sampleContext
    = Inr (fst sampleRead, snd sampleRead)"
  by code_simp

subsection \<open>Reads\<close>

text \<open>C8: Every SELECT of a statement the server plans, protected or fixed, of rows or of aggregates, one period
  or a union of two, reads the reviewed table, and a row it accepts has the trusted tenant and the
  trusted principal in the columns the capability is scoped by.  The relations it joins are exactly
  the reviewed links, and the row each contributes is in the scope of its link too.\<close>

theorem every_read_is_scoped:
  assumes read: "runtimeReadQuery rt c args ctx = Inr (q, vs)" and declared: "scopeDeclared c"
    and s: "s \<in> set (selectsOf q)" and row: "accepts cmp vs env s"
  shows "sq_schema s = ct_schema (cap_target c) \<and> sq_table s = ct_table (cap_target c)
    \<and> (\<exists>r. env (optOr (sq_alias s) []) = Some r
         \<and> rowInScope cmp ctx (ct_tenant_key (cap_target c)) (ct_principal_scope_key (cap_target c)) r)
    \<and> list_all2 (joinInScope cmp ctx env)
        (case cap_protected c of None \<Rightarrow> [] | Some p \<Rightarrow> reviewedLinks p) (sq_joins s)"
proof (cases "cap_protected c")
  case None
  with read s have q: "buildSelect c = Inr s" "queryValues c args ctx = Inr vs"
    by (auto simp: runtimeReadQuery_def selectsOf_def bindE_eq_Inr)
  show ?thesis using None fixed_read [OF q] fixed_select_in_scope [OF q declared row] by auto
next
  case (Some p)
  with read have "buildProtectedReadQuery rt c args ctx [] = (Inr q, vs)"
    by (auto simp: runtimeReadQuery_def mapE_eq_Inr split: prod.splits)
  from settlesD [OF buildProtectedReadQuery_settles [OF Some] this] s
  have "selectScoped c p ctx vs s" by simp
  with Some row protected_select_in_scope [OF this row] show ?thesis by (simp add: selectScoped_def)
qed

definition sampleRows :: "string \<Rightarrow> srow option" where
  "sampleRows a = (if a = ''t0'' then Some [(''k'', JNum (IntN 1)), (''n'', JStr ''t''), (''f'', JNum (IntN 9))]
     else None)"

definition sampleCompare :: "comparison_operator \<Rightarrow> json \<Rightarrow> json \<Rightarrow> bool" where
  "sampleCompare operator a b = (if operator = EqOp then a = b else a \<noteq> b)"

theorem every_read_is_scoped_witness:
  "\<exists>s. selectsOf (fst sampleRead) = [s] \<and> rowInScope sampleCompare sampleContext (Some ''n'') None (the (sampleRows ''t0''))"
proof -
  obtain s where s: "selectsOf (fst sampleRead) = [s]" "sq_alias s = Some ''t0''"
    "accepts sampleCompare (snd sampleRead) sampleRows s"
  proof
    show "selectsOf (fst sampleRead) = [hd (selectsOf (fst sampleRead))]" by code_simp
    show "sq_alias (hd (selectsOf (fst sampleRead))) = Some ''t0''" by code_simp
    show "accepts sampleCompare (snd sampleRead) sampleRows (hd (selectsOf (fst sampleRead)))" by code_simp
  qed
  have "scopeDeclared sampleReader" by code_simp
  from every_read_is_scoped [OF sample_read this _ s(3)] s(1,2) show ?thesis
    by (auto simp: sampleReader_def sampleCapability_def sampleTarget_def sampleRows_def)
qed

text \<open>C11: The placeholders of a planned statement are numbered in the order in which they stand, without gap or
  repetition, and there is exactly one value for each: the positional placeholders of MySQL and the
  numbered ones of PostgreSQL bind the same values.\<close>

theorem placeholders_match_the_values:
  assumes read: "runtimeReadQuery rt c args ctx = Inr (q, vs)" and declared: "scopeDeclared c"
  shows "queryParams q = [1..<Suc (length vs)]"
proof (cases "cap_protected c")
  case None
  with read obtain s where "q = SelectQuery s" "buildSelect c = Inr s" "queryValues c args ctx = Inr vs"
    by (auto simp: runtimeReadQuery_def bindE_eq_Inr)
  with fixed_read_params [OF this(2,3) declared] show ?thesis
    by (simp add: queryParams_def selectsOf_def)
next
  case (Some p)
  with read have "buildProtectedReadQuery rt c args ctx [] = (Inr q, vs)"
    by (auto simp: runtimeReadQuery_def mapE_eq_Inr split: prod.splits)
  with buildProtectedReadQuery_emits [of rt c args ctx] show ?thesis
    by (fastforce simp: emits_def)
qed

theorem placeholders_match_the_values_witness: "queryParams (fst sampleRead) = [1, 2, 3, 4]"
proof -
  have "scopeDeclared sampleReader" "length (snd sampleRead) = 4" by code_simp+
  with placeholders_match_the_values [OF sample_read] show ?thesis by (simp add: upt_conv_Cons)
qed

subsection \<open>Identity and arguments\<close>

lemma presentStr_nonempty: "presentStr x = Some s \<Longrightarrow> s \<noteq> []"
  by (auto simp: presentStr_def split: option.splits if_splits)

lemma processBinding_bound:
  assumes "processBinding prov org tenant princ required = Inr ctx"
    and "\<And>s. org = Some s \<Longrightarrow> s \<noteq> []" "\<And>s. tenant = Some s \<Longrightarrow> s \<noteq> []" "\<And>s. princ = Some s \<Longrightarrow> s \<noteq> []"
  shows "tx_provenance ctx = prov \<and> tx_tenant_id ctx \<noteq> [] \<and> (\<forall>s. org = Some s \<longrightarrow> tx_tenant_id ctx = s)
    \<and> (required \<longrightarrow> tx_principal ctx \<noteq> [])"
  using assms by (cases org; cases tenant; cases princ) (auto simp: processBinding_def bindE_eq_Inr)

lemma environment_values:
  "envValue env name = Some s \<Longrightarrow> s \<noteq> []" "valueFromEnvOrLiteral n l env = Some s \<Longrightarrow> s \<noteq> []"
  by (auto simp: envValue_def valueFromEnvOrLiteral_def dest: presentStr_nonempty split: option.splits)
    (auto simp: envValue_def bind_eq_Some_conv dest: presentStr_nonempty)

text \<open>C14: A call is bound to one identity, and the model has no say in it.  It has the provenance of the provider
  the configuration names; a capability frozen to an organization is bound to that organization and to
  no other; a principal is there wherever the context, the table or one of the joined relations is
  scoped by one; a tenant from the environment or the configuration is never empty, and a session's
  identity is the verified one, unchanged but for the frozen organization.\<close>

theorem trusted_identity_is_bound:
  assumes "resolveTrustedContext cfg env c session = Inr ctx"
  shows "\<exists>cc. contextConfigFor cfg c = Some cc \<and> tx_provenance ctx = cc_provider cc
    \<and> (\<forall>org. protectedOrganization c = Some org \<longrightarrow> tx_tenant_id ctx = org
         \<and> presentStr (configuredOrganization (cc_values cc)) \<in> {None, Some org})
    \<and> (principalRequired cc c \<longrightarrow> tx_principal ctx \<noteq> [])
    \<and> (if cc_provider cc \<in> {HttpClaims, CloudSessionProvider}
       then \<exists>x. session = Some x \<and> tx_principal ctx = tx_principal x \<and> (protectedOrganization c = None \<longrightarrow> ctx = x)
       else tx_tenant_id ctx \<noteq> [])"
proof -
  from assms obtain cc where cc: "contextConfigFor cfg c = Some cc"
    by (auto simp: resolveTrustedContext_def bindE_eq_Inr)
  let ?org = "protectedOrganization c" and ?required = "principalRequired cc c" and ?vs = "cc_values cc"
  note org = presentStr_nonempty [of "Option.bind (cap_protected c) pr_organization_id", folded protectedOrganization_def]
  have configured: "presentStr (configuredOrganization ?vs) \<in> {None, Some s}" if "?org = Some s" for s
    using assms cc that by (auto simp: resolveTrustedContext_def bindE_eq_Inr Let_def)
  have "tx_provenance ctx = cc_provider cc \<and> (\<forall>s. ?org = Some s \<longrightarrow> tx_tenant_id ctx = s)
      \<and> (?required \<longrightarrow> tx_principal ctx \<noteq> [])
      \<and> (if cc_provider cc \<in> {HttpClaims, CloudSessionProvider}
         then \<exists>x. session = Some x \<and> tx_principal ctx = tx_principal x \<and> (?org = None \<longrightarrow> ctx = x)
         else tx_tenant_id ctx \<noteq> [])"
  proof (cases "cc_provider cc")
    case EnvironmentProvider
    with assms cc have "environmentBinding env ?vs ?org ?required = Inr ctx"
      by (simp add: resolveTrustedContext_def bindE_eq_Inr Let_def)
    then have "tx_provenance ctx = EnvironmentProvider \<and> tx_tenant_id ctx \<noteq> [] \<and> (\<forall>s. ?org = Some s \<longrightarrow> tx_tenant_id ctx = s)
        \<and> (?required \<longrightarrow> tx_principal ctx \<noteq> [])"
      unfolding environmentBinding_def
      by (rule processBinding_bound) (auto dest: org environment_values split: if_splits)
    with EnvironmentProvider show ?thesis by simp
  next
    case StaticDev
    with assms cc have "staticBinding env ?vs ?org ?required = Inr ctx"
      by (simp add: resolveTrustedContext_def bindE_eq_Inr Let_def)
    then have "tx_provenance ctx = StaticDev \<and> tx_tenant_id ctx \<noteq> [] \<and> (\<forall>s. ?org = Some s \<longrightarrow> tx_tenant_id ctx = s)
        \<and> (?required \<longrightarrow> tx_principal ctx \<noteq> [])"
      unfolding staticBinding_def
      by (rule processBinding_bound) (auto dest: org environment_values)
    with StaticDev show ?thesis by simp
  next
    case ReviewedOrganization
    with assms cc show ?thesis
      by (auto simp: resolveTrustedContext_def bindE_eq_Inr Let_def dest: org split: option.splits)
  qed (use assms cc in \<open>auto simp: resolveTrustedContext_def bindE_eq_Inr Let_def sessionBinding_def
      split: option.splits\<close>)
  with cc configured show ?thesis by blast
qed

theorem trusted_identity_is_bound_witness:
  "tx_tenant_id sampleContext = ''t'' \<and> resolveTrustedContext sampleConfig (\<lambda>_. None) sampleCapability (Some sampleContext)
    = Inr sampleContext \<and> tx_provenance sampleContext = HttpClaims"
proof -
  have run: "resolveTrustedContext sampleConfig (\<lambda>_. None) sampleCapability (Some sampleContext) = Inr sampleContext"
    by code_simp
  from trusted_identity_is_bound [OF this] have "tx_provenance sampleContext = HttpClaims"
    by (auto simp: sampleConfig_def sampleCapability_def contextConfigFor_def presentStr_def)
  with run show ?thesis by (simp add: sampleContext_def)
qed

text \<open>What the specification of an argument asks of its value.\<close>

definition reviewedScalar :: "scalar_arg \<Rightarrow> json \<Rightarrow> bool" where
  "reviewedScalar s v \<longleftrightarrow> (if v = JUndefined then sa_required s = Some False
     else typeMatches (sa_type s) v
       \<and> (\<forall>t n. v = JStr t \<longrightarrow> sa_max_length s = Some n \<longrightarrow> n = 0 \<or> length t \<le> n)
       \<and> (\<forall>x. numberOf v = Some x \<longrightarrow> (\<forall>lo. sa_minimum s = Some lo \<longrightarrow> lo \<le> x)
            \<and> (\<forall>hi. sa_maximum s = Some hi \<longrightarrow> x \<le> hi))
       \<and> (\<forall>vs. sa_enum s = Some vs \<longrightarrow> (\<exists>a \<in> set vs. strictEq v a)))"

definition reviewedArgument :: "arg_config \<Rightarrow> json \<Rightarrow> bool" where
  "reviewedArgument spec v \<longleftrightarrow> (case spec of ScalarArg s \<Rightarrow> reviewedScalar s v
     | ObjectArrayArg required most specs \<Rightarrow> (v = JUndefined \<and> required = Some False)
         \<or> (\<exists>items. v = JArr items \<and> items \<noteq> [] \<and> length items \<le> most
              \<and> (\<forall>item \<in> set items. \<exists>es. item = JObj es \<and> fst ` set es \<subseteq> fst ` set specs
                   \<and> (\<forall>(k, s) \<in> set specs. reviewedScalar s (field es k)))))"

lemma validateScalarArg_reviewed: "validateScalarArg s v = Inr u \<Longrightarrow> reviewedScalar s v"
  by (auto simp: validateScalarArg_def reviewedScalar_def bindE_eq_Inr tooLong_def belowMinimum_def
      aboveMaximum_def list_ex_iff split: if_splits option.splits json.splits)

lemma validateArg_reviewed:
  assumes "validateArg spec v = Inr u"
  shows "reviewedArgument spec v"
proof (cases spec)
  case (ObjectArrayArg required most specs)
  have item: "\<exists>es. item = JObj es \<and> fst ` set es \<subseteq> fst ` set specs \<and> (\<forall>(k, s) \<in> set specs. reviewedScalar s (field es k))"
    if checked: "validateItem specs item = Inr u" for item u
  proof -
    from checked obtain es us where es: "item = JObj es" "fst ` set es \<subseteq> fst ` set specs"
      "traverseE (\<lambda>(k, spec). validateScalarArg spec (field es k)) specs = Inr us"
      by (auto simp: validateItem_def bindE_eq_Inr mapE_eq_Inr split: json.splits)
    have "reviewedScalar s (field es k)" if "(k, s) \<in> set specs" for k s
      using traverseE_each [OF es(3) that] by (auto intro: validateScalarArg_reviewed)
    with es show ?thesis by auto
  qed
  from assms ObjectArrayArg have "v = JUndefined \<and> required = Some False \<or> (\<exists>items us. v = JArr items \<and> items \<noteq> []
      \<and> length items \<le> most \<and> traverseE (validateItem specs) items = Inr us)"
    by (auto simp: validateArg_def bindE_eq_Inr mapE_eq_Inr split: json.splits if_splits)
  then show ?thesis
  proof
    assume "\<exists>items us. v = JArr items \<and> items \<noteq> [] \<and> length items \<le> most \<and> traverseE (validateItem specs) items = Inr us"
    then obtain items us where items: "v = JArr items" "items \<noteq> []" "length items \<le> most"
      "traverseE (validateItem specs) items = Inr us" by blast
    have "\<exists>es. i = JObj es \<and> fst ` set es \<subseteq> fst ` set specs \<and> (\<forall>(k, s) \<in> set specs. reviewedScalar s (field es k))"
      if "i \<in> set items" for i
      using traverseE_each [OF items(4) that] item by blast
    with items(1-3) ObjectArrayArg show ?thesis by (simp add: reviewedArgument_def)
  qed (simp add: ObjectArrayArg reviewedArgument_def)
qed (use assms in \<open>auto simp: validateArg_def reviewedArgument_def intro: validateScalarArg_reviewed\<close>)

text \<open>C15: Arguments that pass are all reviewed: none of them is a name reserved for the trusted context, each is
  declared by the capability, and every declared one is absent only if it is optional and otherwise
  has its type, its bounds, its length and one of its allowed values; an array of objects has between
  one and the reviewed number of items, with declared fields only.\<close>

theorem accepted_arguments_are_reviewed:
  assumes "rejectTrustedArgOverrides args = Inr ()" and "validateToolArgs c args = Inr ()"
  shows "(\<forall>k \<in> fst ` set args. k \<notin> set RESERVED_MODEL_ARGS \<and> k \<in> fst ` set (cap_args c))
    \<and> (\<forall>(k, spec) \<in> set (cap_args c). reviewedArgument spec (field args k))"
proof -
  from assms(2) obtain us where each: "traverseE (\<lambda>(k, spec). validateArg spec (field args k)) (cap_args c) = Inr us"
    and declared: "fst ` set args \<subseteq> fst ` set (cap_args c)"
    by (auto simp: validateToolArgs_def bindE_eq_Inr mapE_eq_Inr)
  have "reviewedArgument spec (field args k)" if "(k, spec) \<in> set (cap_args c)" for k spec
    using traverseE_each [OF each that] by (auto intro: validateArg_reviewed)
  then show ?thesis using assms(1) declared by (auto simp: rejectTrustedArgOverrides_def)
qed

theorem accepted_arguments_are_reviewed_witness:
  "reviewedArgument (snd (hd (cap_args sampleCapability))) (JNum (IntN 7))"
proof -
  let ?args = "[(''amount'', JNum (IntN 7))]"
  have "rejectTrustedArgOverrides ?args = Inr ()" "validateToolArgs sampleCapability ?args = Inr ()" by code_simp+
  from accepted_arguments_are_reviewed [OF this] show ?thesis
    by (simp add: sampleCapability_def field_def)
qed

subsection \<open>Frozen sets\<close>

lemma sealed_fields [simp]:
  "cs_body (sealed rt pol c) = cs_body c" "cs_pk_column (sealed rt pol c) = cs_pk_column c"
  "cs_tenant (sealed rt pol c) = cs_tenant c" "cs_principal_scope (sealed rt pol c) = cs_principal_scope c"
  "cs_patch (sealed rt pol c) = cs_patch c" "cs_version_advance (sealed rt pol c) = cs_version_advance c"
  by (simp_all add: sealed_def)

lemma built_set_job:
  assumes cs: "buildBoundedSetChangeSet rt i scope = Inr cs" and p: "p_change_set p = cs"
    and j: "buildPublicJob rt now p eng opts = Inr j"
  shows "\<exists>s mx fs. cap_operation (bi_capability i) = Some s \<and> os_max_rows s = Some mx
    \<and> frozenSetOf rt i s mx scope = Inr fs \<and> jb_frozen_set (normalizePublicJob j) = Some fs
    \<and> jb_operation (normalizePublicJob j) = Some (SetOp (setOperationOf (os_kind s)))
    \<and> jobCarries i scope (setOperationOf (os_kind s)) (normalizePublicJob j)"
proof -
  from cs obtain s where s: "cap_operation (bi_capability i) = Some s"
    by (auto simp: buildBoundedSetChangeSet_def bindE_eq_Inr Let_def)
  with cs obtain mx fs where mx: "os_max_rows s = Some mx" "mx \<noteq> 0"
    and fs: "frozenSetOf rt i s mx scope = Inr fs"
    by (auto simp: buildBoundedSetChangeSet_def bindE_eq_Inr Let_def split: if_splits)
  note built = cs [unfolded buildBoundedSetChangeSet_def Let_def, simplified s mx fs requireSome_Some bindE_Inr]
  have body: "cs_body cs = BodyV3 (setOperationOf (os_kind s)) fs (selfLineage i)"
    using built mx fs by (auto simp: bindE_eq_Inr)
  have fields: "cs_pk_column cs = ct_primary_key (cap_target (bi_capability i))"
      "cs_tenant cs = builtTenant (bi_capability i) (bi_context i)" "cs_principal_scope cs = scope"
      "cs_patch cs = (if setOperationOf (os_kind s) = SetUpdate then bi_patch i else [])"
      "cs_version_advance cs = (if setOperationOf (os_kind s) = SetUpdate then os_version_advance s else None)"
    using built mx fs by (auto simp: bindE_eq_Inr)
  from j p body obtain capture where "pj_body j = JobV3 (setOperationOf (os_kind s)) (cs_patch cs)
      (cs_version_advance cs) fs capture" "pj_pk_column j = cs_pk_column cs" "pj_tenant_guard j = cs_tenant cs"
      "pj_principal_scope j = cs_principal_scope cs"
    by (auto simp: buildPublicJob_def bindE_eq_Inr Let_def jobBody_def)
  then have "jobCarries i scope (setOperationOf (os_kind s)) (normalizePublicJob j)
      \<and> jb_frozen_set (normalizePublicJob j) = Some fs
      \<and> jb_operation (normalizePublicJob j) = Some (SetOp (setOperationOf (os_kind s)))"
    using fields s by (simp add: normalizePublicJob_def normalizedEnvelope_def jobCarries_def)
  with s mx fs show ?thesis by blast
qed

text \<open>A deleted member whose guard the builder rewrote does not pass.\<close>

lemma delete_member_refused:
  assumes m: "existingMemberOf rt i SetDelete row = Inr m"
    and guard: "cap_guard_column (bi_capability i) = Some k"
    and rewritten: "conflictGuardScalar (field (scalarRecord row) k) \<noteq> field (scalarRecord row) k"
  shows "checkSetMember rt j SetDelete m \<noteq> Inr ()"
proof -
  from existing_member [OF m] obtain v pk m0 where
    m0: "m0 = (emptyMember (memberPk (bi_capability i) pk))\<lparr>fm_expected_version := Some v,
       fm_before := scalarRecord row\<rparr>" and v: "cv_column v \<noteq> ''__row_hash''"
      "expectedVersionGuard rt (bi_capability i) (scalarRecord row) = Inr v"
    and del: "deleteMemberOf rt m0 v = Inr m" by auto
  from expectedVersionGuard_exact [OF v(2,1)] guard have k: "cv_column v = k"
    "cv_value v = conflictGuardScalar (field (scalarRecord row) k)"
    by (auto simp: presentStr_def split: if_splits)
  from del have shape: "fm_expected_version m = Some v" "fm_before m = scalarRecord row"
    unfolding deleteMemberOf_def m0 by (auto simp: bindE_eq_Inr emptyMember_def)
  from rewritten obtain a b where "field (scalarRecord row) k = JStr a" "cv_value v = JStr b" "a \<noteq> b"
    using k(2) by (auto simp: conflictGuardScalar_def split: json.splits option.splits)
  then have "\<not> strictEq (field (scalarRecord row) k) (cv_value v)" by (simp add: strictEq_def)
  with shape k show ?thesis by (simp add: checkSetMember_def checkDeleteMember_def bindE_eq_Inr)
qed

text \<open>C10: The worker accepts what the server froze.  A change set built for a bounded UPDATE or DELETE from rows
  in the scope of the caller, at least one and at most the reviewed maximum, turns into a job whose
  frozen set passes every check the worker repeats on it: members in order, scope, guards, after
  images, digests and aggregates.  Of a DELETE this holds exactly if no row has a version the server
  writes differently into the guard; one guarded by a timestamp is refused by the worker.\<close>

theorem built_set_passes_the_worker:
  assumes cs: "buildChangeSet rt i = Inr cs" and p: "p_change_set p = cs"
    and j: "buildPublicJob rt now p eng opts = Inr j"
    and set: "isSetSelectionCapability (bi_capability i)" and order: "localeOrder rt"
    and owned: "\<forall>row \<in> set (bi_current_rows i). rowOwned (bi_capability i) (bi_context i) row"
    and s: "cap_operation (bi_capability i) = Some s" and mx: "os_max_rows s = Some mx" "mx \<le> 100"
    and size: "bi_current_rows i \<noteq> []" "int (length (bi_current_rows i)) \<le> mx"
    and guard: "cap_guard_column (bi_capability i) = Some k"
      "os_kind s = UpdateOp \<longrightarrow> map_option va_column (os_version_advance s) = Some k"
  shows "\<exists>fs. jb_frozen_set (normalizePublicJob j) = Some fs
    \<and> jb_operation (normalizePublicJob j) = Some (SetOp (setOperationOf (os_kind s)))
    \<and> (assertFrozenSetJobIntegrity rt (normalizePublicJob j) (setOperationOf (os_kind s)) fs = Inr ()
       \<longleftrightarrow> (os_kind s = DeleteOp \<longrightarrow> (\<forall>row \<in> set (bi_current_rows i).
             conflictGuardScalar (field (scalarRecord row) k) = field (scalarRecord row) k)))"
proof -
  let ?j = "normalizePublicJob j" and ?op = "setOperationOf (os_kind s)"
  from cs set obtain scope where scope: "effectivePrincipalScope rt (bi_config i) (bi_capability i) (bi_context i) = Inr scope"
    and built: "buildBoundedSetChangeSet rt i scope = Inr cs"
    by (auto simp: buildChangeSet_def bindE_eq_Inr isSetSelectionCapability_def)
  from built_set_job [OF built p j] s mx obtain fs where
    fs: "frozenSetOf rt i s mx scope = Inr fs" "jb_frozen_set ?j = Some fs" "jb_operation ?j = Some (SetOp ?op)"
    and carries: "jobCarries i scope ?op ?j" by auto
  from frozenSetOf_cases [OF fs(1)] obtain raw where
    raw: "setMembersOf rt i ?op scope = Inr raw" "fs_members fs = sortBy (memberLe rt) raw" by blast
  from set s have kind: "os_kind s = UpdateOp \<or> os_kind s = DeleteOp"
    by (cases "os_kind s") (auto simp: isSetSelectionCapability_def)
  then have members: "traverseE (existingMemberOf rt i ?op) (bi_current_rows i) = Inr raw"
    using raw(1) by (auto simp: setMembersOf_def setOperationOf_def)
  then have len: "length (fs_members fs) = length (bi_current_rows i)"
    using raw(2) by (simp add: traverseE_length)
  let ?canonical = "\<lambda>row. conflictGuardScalar (field (scalarRecord row) k) = field (scalarRecord row) k"
  have accepted: "checkSetMember rt ?j ?op m = Inr ()"
    if "m \<in> set raw" "os_kind s = DeleteOp \<longrightarrow> (\<forall>row \<in> set (bi_current_rows i). ?canonical row)" for m
  proof -
    from traverseE_member [OF members that(1)] obtain row where row: "row \<in> set (bi_current_rows i)"
      "existingMemberOf rt i ?op row = Inr m" by blast
    from kind show ?thesis
    proof
      assume "os_kind s = UpdateOp"
      then show ?thesis using row carries scope owned guard s
        by (auto simp: setOperationOf_def intro!: update_member_accepted)
    next
      assume "os_kind s = DeleteOp"
      then show ?thesis using row carries scope owned guard that(2)
        by (auto simp: setOperationOf_def intro!: delete_member_accepted)
    qed
  qed
  have refused: "assertFrozenSetJobIntegrity rt ?j ?op fs \<noteq> Inr ()"
    if del: "os_kind s = DeleteOp" and row: "row \<in> set (bi_current_rows i)" "\<not> ?canonical row" for row
  proof -
    from traverseE_each [OF members row(1)] obtain m where m: "m \<in> set (fs_members fs)"
      "existingMemberOf rt i SetDelete row = Inr m" using raw(2) del by (auto simp: setOperationOf_def)
    have no: "checkSetMember rt ?j SetDelete m \<noteq> Inr ()"
      by (rule delete_member_refused [OF m(2) guard(1) row(2)])
    show ?thesis
    proof
      assume "assertFrozenSetJobIntegrity rt ?j ?op fs = Inr ()"
      then obtain us where "traverseE (checkSetMember rt ?j SetDelete) (fs_members fs) = Inr us"
        using del by (auto simp: assertFrozenSetJobIntegrity_def Let_def bindE_eq_Inr setOperationOf_def)
      from traverseE_each [OF this m(1)] no show False by auto
    qed
  qed
  have "assertFrozenSetJobIntegrity rt ?j ?op fs = Inr ()"
    if "os_kind s = DeleteOp \<longrightarrow> (\<forall>row \<in> set (bi_current_rows i). ?canonical row)"
    by (rule frozen_set_accepted [OF fs(1) order]) (use len size mx that raw(1) accepted in \<open>auto simp: Suc_le_eq\<close>)
  with refused fs show ?thesis by blast
qed

text \<open>Two rows whose guard is a version number, and a row guarded by a time.\<close>

definition numberedRows :: "srow list" where
  "numberedRows = map (\<lambda>n. [(''k'', JNum (IntN n)), (''n'', JStr ''t''), (''f'', JNum (IntN 9)),
     (''v'', JNum (IntN 3))]) [2, 1]"

definition timedRows :: "srow list" where
  "timedRows = map (\<lambda>n. [(''k'', JNum (IntN n)), (''n'', JStr ''t''), (''f'', JNum (IntN 9)),
     (''v'', JStr ''2026-01-01T00:00:00Z'')]) [1]"

definition sampleSetChange :: "srow list \<Rightarrow> change_set" where
  "sampleSetChange rows = (case buildChangeSet sampleRuntime (sampleInput sampleDeleter rows) of Inr c \<Rightarrow> c)"

definition sampleSetProposal :: "srow list \<Rightarrow> proposal" where
  "sampleSetProposal rows = (sampleProposal Approved False ''t'')\<lparr>p_change_set := sampleSetChange rows\<rparr>"

definition sampleSetPublic :: "srow list \<Rightarrow> public_job" where
  "sampleSetPublic rows = (case buildPublicJob sampleRuntime 0 (sampleSetProposal rows) Postgres sampleJobOptions of
     Inr j \<Rightarrow> j)"

lemma sample_sets_ok:
  "\<not> isl (buildChangeSet sampleRuntime (sampleInput sampleDeleter numberedRows))"
  "\<not> isl (buildChangeSet sampleRuntime (sampleInput sampleDeleter timedRows))"
  "\<not> isl (buildPublicJob sampleRuntime 0 (sampleSetProposal numberedRows) Postgres sampleJobOptions)"
  "\<not> isl (buildPublicJob sampleRuntime 0 (sampleSetProposal timedRows) Postgres sampleJobOptions)"
  by code_simp+

lemma sample_sets_built:
  "buildChangeSet sampleRuntime (sampleInput sampleDeleter numberedRows) = Inr (sampleSetChange numberedRows)"
  "buildChangeSet sampleRuntime (sampleInput sampleDeleter timedRows) = Inr (sampleSetChange timedRows)"
  using sample_sets_ok(1,2) by (auto simp: sampleSetChange_def isl_def split: sum.splits)

lemma sample_set_jobs:
  "buildPublicJob sampleRuntime 0 (sampleSetProposal numberedRows) Postgres sampleJobOptions
    = Inr (sampleSetPublic numberedRows)"
  "buildPublicJob sampleRuntime 0 (sampleSetProposal timedRows) Postgres sampleJobOptions
    = Inr (sampleSetPublic timedRows)"
  using sample_sets_ok(3,4) by (auto simp: sampleSetPublic_def isl_def split: sum.splits)

lemma sample_locale_order: "localeOrder sampleRuntime"
  using strLe_total strLe_trans by (auto simp: localeOrder_def sampleRuntime_def)

theorem built_set_passes_the_worker_witness:
  "(\<exists>fs. jb_frozen_set (normalizePublicJob (sampleSetPublic numberedRows)) = Some fs
      \<and> assertFrozenSetJobIntegrity sampleRuntime (normalizePublicJob (sampleSetPublic numberedRows)) SetDelete fs = Inr ())
   \<and> (\<exists>fs. jb_frozen_set (normalizePublicJob (sampleSetPublic timedRows)) = Some fs
      \<and> assertFrozenSetJobIntegrity sampleRuntime (normalizePublicJob (sampleSetPublic timedRows)) SetDelete fs \<noteq> Inr ())"
proof -
  have fields: "bi_capability (sampleInput sampleDeleter rows) = sampleDeleter" "bi_current_rows (sampleInput sampleDeleter rows) = rows"
    "bi_context (sampleInput sampleDeleter rows) = sampleContext" "p_change_set (sampleSetProposal rows) = sampleSetChange rows"
    for rows by (simp_all add: sampleInput_def sampleSetProposal_def)
  have set: "isSetSelectionCapability sampleDeleter" "\<forall>row \<in> set numberedRows. rowOwned sampleDeleter sampleContext row"
    "\<forall>row \<in> set timedRows. rowOwned sampleDeleter sampleContext row" by code_simp+
  have rows: "numberedRows \<noteq> []" "timedRows \<noteq> []" "int (length numberedRows) \<le> 3" "int (length timedRows) \<le> 3"
    by code_simp+
  have op: "cap_operation sampleDeleter = Some (the (cap_operation sampleDeleter))"
    "os_max_rows (the (cap_operation sampleDeleter)) = Some 3" "cap_guard_column sampleDeleter = Some ''v''"
    "os_kind (the (cap_operation sampleDeleter)) = DeleteOp"
    by (simp_all add: sampleDeleter_def sampleCapability_def)
  have canonical: "\<forall>row \<in> set numberedRows. conflictGuardScalar (field (scalarRecord row) ''v'') = field (scalarRecord row) ''v''"
    "\<not> (\<forall>row \<in> set timedRows. conflictGuardScalar (field (scalarRecord row) ''v'') = field (scalarRecord row) ''v'')"
    by code_simp+
  note passes = built_set_passes_the_worker [where k = "''v''" and mx = 3 and s = "the (cap_operation sampleDeleter)"
      and i = "sampleInput sampleDeleter rows" and p = "sampleSetProposal rows" for rows, unfolded fields op(4),
      OF _ refl _ set(1) sample_locale_order _ op(1,2) _ _ _ op(3)]
  show ?thesis
    using passes [OF sample_sets_built(1) sample_set_jobs(1) set(2)] passes [OF sample_sets_built(2) sample_set_jobs(2) set(3)]
      rows canonical by (auto simp: setOperationOf_def)
qed

subsection \<open>Change sets of one row\<close>







end
