(* ===== verification/FreshnessCheck.thy ===== *)
theory FreshnessCheck
  imports ChangeSetBuilder
begin

text \<open>
  \<open>packages/mcp-server/src/proposal-freshness.ts\<close>: what a proposal records of the rows it rests on, and the
  proof that they have not changed since.

  The row reader of the runtime is the parameter \<open>read\<close> (its statements are \<open>ReadPlan\<close>'s); the message of an
  exception, which the model leaves out of \<open>err\<close>, is the parameter \<open>msg\<close>.  The configuration is the
  resolved and validated one.
\<close>

subsection \<open>Reading rows\<close>

record read_result =
  rr_row :: srow
  rr_rows :: "srow list option"
  rr_row_count :: int

type_synonym 'w reader = "string \<Rightarrow> runtime_source \<Rightarrow> capability \<Rightarrow> srow \<Rightarrow> trusted_context \<Rightarrow> ('w, read_result) io"

text \<open>\<open>current.rows ?? (current.rowCount === 1 ? [current.row] : [])\<close>.\<close>

definition rowsOf :: "read_result \<Rightarrow> srow list" where
  "rowsOf r = optOr (rr_rows r) (if rr_row_count r = 1 then [rr_row r] else [])"

definition capabilityNamed :: "runtime_config \<Rightarrow> string \<Rightarrow> capability option" where
  "capabilityNamed cfg name = find (\<lambda>c. cap_name c = name) (rc_capabilities cfg)"

text \<open>The capability with the version column it must read: \<open>conflict_guard: { column }\<close>.\<close>

definition versionedRead :: "capability \<Rightarrow> string \<Rightarrow> capability" where
  "versionedRead c col = c\<lparr>cap_guard_column := Some col, cap_weak_guard_ack := False\<rparr>"

subsection \<open>Capture\<close>

record captured_evidence =
  ce_dependency_id :: string
  ce_bundle_id :: string
  ce_query_fingerprint :: string
  ce_capability :: capability
  ce_primary_key :: column_value
  ce_version_column :: string

definition freshnessTargetMode :: "capability \<Rightarrow> target_mode" where
  "freshnessTargetMode c = (if opKind c = InsertOp then NotApplicable
     else if isSetCapability c then FrozenSetMode else ExactGuard)"

definition capturedDescriptor ::
  "runtime \<Rightarrow> freshness_declaration \<Rightarrow> capability \<Rightarrow> engine \<Rightarrow> trusted_context \<Rightarrow> string \<Rightarrow> string \<Rightarrow> json \<Rightarrow> json
   \<Rightarrow> freshness_dependency result" where
  "capturedDescriptor rt f c eng ctx pid createdAt pk version =
     (let t = cap_target c;
          d = \<lparr>fd_id = fr_id f, fd_capability = fr_capability f, fd_source_id = cap_source c, fd_engine = eng,
            fd_schema = ct_schema t, fd_table = ct_table t,
            fd_primary_key = \<lparr>cv_column = ct_primary_key t, cv_value = pk\<rparr>,
            fd_tenant_column = optOr (ct_tenant_key t) ''__single_tenant_dev'',
            fd_principal_column = presentStr (ct_principal_scope_key t),
            fd_expected_version = \<lparr>cv_column = fr_version_column f, cv_value = conflictGuardScalar version\<rparr>,
            fd_bundle_id = stableId rt ''evf'' (JObj [(''proposal_id'', JStr pid),
              (''dependency_id'', JStr (fr_id f)), (''primary_key'', pk), (''created_at'', JStr createdAt)]),
            fd_query_fingerprint = queryFingerprintFor rt (versionedRead c (fr_version_column f)) ctx,
            fd_descriptor_digest = []\<rparr>
      in bindE (canonicalJsonDigest rt (JObj (dependencyUnsignedJson d))) (\<lambda>h.
         Inr (d\<lparr>fd_descriptor_digest := h\<rparr>)))"

definition captureDependency ::
  "runtime \<Rightarrow> 'w reader \<Rightarrow> runtime_config \<Rightarrow> runtime_source \<Rightarrow> srow \<Rightarrow> trusted_context \<Rightarrow> string \<Rightarrow> string
   \<Rightarrow> freshness_declaration \<Rightarrow> ('w, freshness_dependency \<times> captured_evidence) io" where
  "captureDependency rt read cfg source args ctx pid createdAt f =
     bindM (liftE (requireSome (McpRuntimeError ''FRESHNESS_DEPENDENCY_INVALID'')
         (case capabilityNamed cfg (fr_capability f) of None \<Rightarrow> None
            | Some c \<Rightarrow> if cap_kind c = ReadCapability then Some c else None))) (\<lambda>c.
     let pkArg = scalarOf (field args (fr_identity_from_arg f)) in
     bindM (liftE (throwIf (pkArg = JNull) (McpRuntimeError ''FRESHNESS_DEPENDENCY_IDENTITY_MISSING''))) (\<lambda>_.
     bindM (read (cap_source c) source (versionedRead c (fr_version_column f)) [(cap_id_from_arg c, pkArg)] ctx) (\<lambda>r.
     bindM (liftE (throwIf (rr_row_count r \<noteq> 1) (McpRuntimeError ''FRESHNESS_DEPENDENCY_UNRESOLVED''))) (\<lambda>_.
     let pk = scalarOf (field (rr_row r) (ct_primary_key (cap_target c)));
         version = scalarOf (field (rr_row r) (fr_version_column f)) in
     bindM (liftE (throwIf (pk = JNull \<or> version = JNull)
         (McpRuntimeError ''FRESHNESS_DEPENDENCY_VERSION_MISSING''))) (\<lambda>_.
     bindM (liftE (capturedDescriptor rt f c (so_engine source) ctx pid createdAt pk version)) (\<lambda>d.
     returnM (d, \<lparr>ce_dependency_id = fr_id f, ce_bundle_id = fd_bundle_id d,
       ce_query_fingerprint = fd_query_fingerprint d, ce_capability = c, ce_primary_key = fd_primary_key d,
       ce_version_column = fr_version_column f\<rparr>)))))))"

definition captureProposalFreshnessAuthority ::
  "runtime \<Rightarrow> 'w reader \<Rightarrow> runtime_config \<Rightarrow> capability \<Rightarrow> srow \<Rightarrow> trusted_context \<Rightarrow> runtime_source \<Rightarrow> string
   \<Rightarrow> string \<Rightarrow> int \<Rightarrow> ('w, (freshness_authority \<times> captured_evidence list) option) io" where
  "captureProposalFreshnessAuthority rt read cfg c args ctx source pid createdAt memberCount =
     (case map_of (rc_proposal_freshness cfg) (cap_name c) of
        None \<Rightarrow> returnM None
      | Some fs \<Rightarrow>
          bindM (traverseM (captureDependency rt read cfg source args ctx pid createdAt) fs) (\<lambda>captured.
          let sorted = sortBy (\<lambda>a b. dependencyLe rt (fst a) (fst b)) captured;
              a = \<lparr>fa_target_mode = freshnessTargetMode c, fa_member_count = memberCount,
                fa_dependencies = map fst sorted, fa_dependency_set_digest = []\<rparr> in
          bindM (liftE (canonicalJsonDigest rt (authorityUnsignedJson a))) (\<lambda>h.
          bindM (liftE (parseFreshnessAuthority rt (a\<lparr>fa_dependency_set_digest := h\<rparr>))) (\<lambda>authority.
          returnM (Some (authority, map snd sorted))))))"

subsection \<open>Versions\<close>

definition versionJsonOf :: "json \<Rightarrow> json" where
  "versionJsonOf v = conflictGuardScalar (scalarOf v)"

definition versionsEqual :: "runtime \<Rightarrow> json \<Rightarrow> json \<Rightarrow> bool result" where
  "versionsEqual rt l r = bindE (canonicalJsonDigest rt (JObj [(''value'', versionJsonOf l)])) (\<lambda>a.
     bindE (canonicalJsonDigest rt (JObj [(''value'', versionJsonOf r)])) (\<lambda>b. Inr (a = b)))"

definition versionMetadataDigest :: "runtime \<Rightarrow> string \<Rightarrow> json \<Rightarrow> string result" where
  "versionMetadataDigest rt col v =
     canonicalJsonDigest rt (JObj [(''column'', JStr col), (''value'', versionJsonOf v)])"

definition versionCheck ::
  "runtime \<Rightarrow> string \<Rightarrow> item_kind \<Rightarrow> string \<Rightarrow> string \<Rightarrow> column_value \<Rightarrow> json option \<Rightarrow> freshness_item result" where
  "versionCheck rt cid kind freshCode staleCode expected observed =
     bindE (case observed of None \<Rightarrow> Inr False | Some v \<Rightarrow> versionsEqual rt v (cv_value expected)) (\<lambda>fresh.
     bindE (versionMetadataDigest rt (cv_column expected) (cv_value expected)) (\<lambda>e.
     bindE (case observed of None \<Rightarrow> Inr None
              | Some v \<Rightarrow> mapE Some (versionMetadataDigest rt (cv_column expected) v)) (\<lambda>d.
     Inr \<lparr>fi_id = cid, fi_kind = kind, fi_status = ItemStatus (if fresh then Fresh else Stale),
       fi_safe_code = (if fresh then freshCode else staleCode), fi_expected_version_digest = Some e,
       fi_observed_version_digest = d\<rparr>)))"

definition plainCheck :: "string \<Rightarrow> item_kind \<Rightarrow> check_status \<Rightarrow> string \<Rightarrow> freshness_item" where
  "plainCheck cid kind st code = \<lparr>fi_id = cid, fi_kind = kind, fi_status = ItemStatus st, fi_safe_code = code,
     fi_expected_version_digest = None, fi_observed_version_digest = None\<rparr>"

subsection \<open>The target\<close>

definition identityOf :: "capability \<Rightarrow> srow \<Rightarrow> string" where
  "identityOf c row = jsonStringify (scalarOf (field row (ct_primary_key (cap_target c))))"

text \<open>\<open>new Map(rows.map(\<dots>))\<close>: the last row of an identity is the one looked up.\<close>

definition rowOfIdentity :: "capability \<Rightarrow> srow list \<Rightarrow> string \<Rightarrow> srow option" where
  "rowOfIdentity c rows k = map_of (rev (map (\<lambda>r. (identityOf c r, r)) rows)) k"

definition memberCheckId :: "runtime \<Rightarrow> frozen_member \<Rightarrow> string result" where
  "memberCheckId rt m = mapE (\<lambda>d. ''target:'' @ take 16 (drop 7 d))
     (canonicalJsonDigest rt (columnValueJson (fm_primary_key m)))"

definition checkTargetMember ::
  "runtime \<Rightarrow> capability \<Rightarrow> srow list \<Rightarrow> frozen_member \<Rightarrow> freshness_item result" where
  "checkTargetMember rt c rows m = bindE (memberCheckId rt m) (\<lambda>cid. case fm_expected_version m of
      None \<Rightarrow> Inr (plainCheck cid TargetItem Stale ''FRESHNESS_TARGET_STALE'')
    | Some e \<Rightarrow> versionCheck rt cid TargetItem ''FRESHNESS_TARGET_FRESH'' ''FRESHNESS_TARGET_STALE'' e
        (map_option (\<lambda>row. versionJsonOf (field row (cv_column e))) (rowOfIdentity c rows (memberIdentity m))))"

definition observedVersion :: "read_result \<Rightarrow> string \<Rightarrow> json option" where
  "observedVersion r col = (if rr_row_count r = 1 then Some (versionJsonOf (field (rr_row r) col)) else None)"

definition evaluateTargetFreshness ::
  "runtime \<Rightarrow> 'w reader \<Rightarrow> proposal \<Rightarrow> freshness_authority \<Rightarrow> capability \<Rightarrow> runtime_source \<Rightarrow> trusted_context
   \<Rightarrow> ('w, freshness_item list) io" where
  "evaluateTargetFreshness rt read p a c source ctx = (let cs = p_change_set p in
     case fa_target_mode a of
       NotApplicable \<Rightarrow> returnM []
     | FrozenSetMode \<Rightarrow> (case cs_body cs of
           BodyV3 _ fs _ \<Rightarrow>
             bindM (read (cap_source c) source c [] ctx) (\<lambda>r.
             liftE (traverseE (checkTargetMember rt c (rowsOf r)) (fs_members fs)))
         | _ \<Rightarrow> returnM [plainCheck ''target'' TargetItem InvalidCheck ''FRESHNESS_TARGET_SET_INVALID''])
     | ExactGuard \<Rightarrow>
         (if (case cs_body cs of BodyV3 _ _ _ \<Rightarrow> True | BodyCompensation _ _ \<Rightarrow> True | _ \<Rightarrow> False)
          then returnM [plainCheck ''target'' TargetItem InvalidCheck ''FRESHNESS_TARGET_AUTHORITY_INVALID'']
          else case (cs_expected_version cs, cs_pk_value cs) of
            (Some e, Some pk) \<Rightarrow>
              if cv_column e = ''__row_hash'' then returnM [plainCheck ''target'' TargetItem InvalidCheck
                ''FRESHNESS_EXACT_TARGET_GUARD_REQUIRED'']
              else bindM (read (cap_source c) source (versionedRead c (cv_column e))
                  [(cap_id_from_arg c, pk)] ctx) (\<lambda>r.
                bindM (liftE (versionCheck rt ''target'' TargetItem ''FRESHNESS_TARGET_FRESH''
                  ''FRESHNESS_TARGET_STALE'' e (observedVersion r (cv_column e)))) (\<lambda>i. returnM [i]))
          | _ \<Rightarrow> returnM [plainCheck ''target'' TargetItem InvalidCheck
              ''FRESHNESS_EXACT_TARGET_GUARD_REQUIRED'']))"

subsection \<open>Authority\<close>

definition freshnessAuthorityFromChangeSet :: "runtime \<Rightarrow> change_set \<Rightarrow> freshness_authority option result" where
  "freshnessAuthorityFromChangeSet rt cs = (case cs_freshness cs of None \<Rightarrow> Inr None
     | Some a \<Rightarrow> mapE Some (parseFreshnessAuthority rt a))"

definition proposalAuthorityMatchesCapability :: "proposal \<Rightarrow> capability \<Rightarrow> bool" where
  "proposalAuthorityMatchesCapability p c = (let cs = p_change_set p; t = cap_target c in
     p_hash p = cs_proposal_hash cs \<and> p_version p = cs_proposal_version cs
     \<and> cs_source_id cs = cap_source c \<and> cs_schema cs = ct_schema t \<and> cs_table cs = ct_table t
     \<and> cs_pk_column cs = ct_primary_key t
     \<and> (case cs_contract cs of None \<Rightarrow> True
        | Some k \<Rightarrow> (case cap_contract c of None \<Rightarrow> False
            | Some k' \<Rightarrow> cp_digest k = cp_digest k' \<and> cp_version k = cp_version k')))"

definition proposalTrustedContext :: "runtime_config \<Rightarrow> capability \<Rightarrow> proposal \<Rightarrow> trusted_context" where
  "proposalTrustedContext cfg c p = (let cs = p_change_set p in
     \<lparr>tx_tenant_id = p_tenant_id p, tx_principal = optOr (p_principal p) (cs_principal_id cs),
      tx_provenance = (case contextConfigFor cfg c of Some cc \<Rightarrow> cc_provider cc
        | None \<Rightarrow> if cs_principal_source cs = CloudSession then CloudSessionProvider
            else EnvironmentProvider)\<rparr>)"

definition validateResolvedFreshnessDependency ::
  "runtime_config \<Rightarrow> capability \<Rightarrow> freshness_dependency \<Rightarrow> string option" where
  "validateResolvedFreshnessDependency cfg c d =
     (let declared = find (\<lambda>f. fr_id f = fd_id d) (optOr (map_of (rc_proposal_freshness cfg) (cap_name c)) []) in
     if (case declared of None \<Rightarrow> True | Some f \<Rightarrow> fr_capability f \<noteq> fd_capability d
           \<or> fr_version_column f \<noteq> cv_column (fd_expected_version d))
     then Some ''FRESHNESS_DEPENDENCY_AUTHORITY_MISMATCH''
     else case (capabilityNamed cfg (fd_capability d), map_of (rc_sources cfg) (fd_source_id d)) of
        (Some k, Some source) \<Rightarrow> (let t = cap_target k in
          if cap_kind k \<noteq> ReadCapability then Some ''FRESHNESS_DEPENDENCY_AUTHORITY_INVALID''
          else if cap_source k \<noteq> cap_source c \<or> fd_source_id d \<noteq> cap_source k \<or> fd_engine d \<noteq> so_engine source
          then Some ''FRESHNESS_CROSS_SOURCE_UNSUPPORTED''
          else if ct_schema t \<noteq> fd_schema d \<or> ct_table t \<noteq> fd_table d
            \<or> ct_primary_key t \<noteq> cv_column (fd_primary_key d)
            \<or> optOr (ct_tenant_key t) ''__single_tenant_dev'' \<noteq> fd_tenant_column d
            \<or> ct_principal_scope_key t \<noteq> fd_principal_column d
          then Some ''FRESHNESS_DEPENDENCY_TARGET_MISMATCH'' else None)
      | _ \<Rightarrow> Some ''FRESHNESS_DEPENDENCY_AUTHORITY_INVALID'')"

definition expectedTargetMode :: "capability \<Rightarrow> target_mode" where
  "expectedTargetMode c = (if opKind c = InsertOp then NotApplicable
     else if (case cap_operation c of None \<Rightarrow> False | Some s \<Rightarrow> os_set s) then FrozenSetMode else ExactGuard)"

definition validateFreshnessAuthorityAgainstCurrentConfig ::
  "runtime_config \<Rightarrow> capability \<Rightarrow> freshness_authority \<Rightarrow> string option" where
  "validateFreshnessAuthorityAgainstCurrentConfig cfg c a =
     (case map_of (rc_proposal_freshness cfg) (cap_name c) of
        None \<Rightarrow> Some ''FRESHNESS_POLICY_AUTHORITY_MISMATCH''
      | Some declared \<Rightarrow> (let ids = map fd_id (fa_dependencies a) in
          if fa_target_mode a \<noteq> expectedTargetMode c then Some ''FRESHNESS_TARGET_AUTHORITY_MISMATCH''
          else if length declared \<noteq> length ids \<or> hasDuplicates ids \<or> (\<exists>f \<in> set declared. fr_id f \<notin> set ids)
          then Some ''FRESHNESS_DEPENDENCY_SET_MISMATCH''
          else Option.bind (find (\<lambda>d. validateResolvedFreshnessDependency cfg c d \<noteq> None) (fa_dependencies a))
            (validateResolvedFreshnessDependency cfg c)))"

subsection \<open>Failures of a read\<close>

definition errorCodeText :: "err \<Rightarrow> string" where
  "errorCodeText e = (case e of McpRuntimeError c \<Rightarrow> c | DbError c _ \<Rightarrow> trimStr c
     | ProposalStoreError c \<Rightarrow> trimStr c | SqliteError c \<Rightarrow> trimStr c | _ \<Rightarrow> [])"

definition mentions :: "string list \<Rightarrow> string \<Rightarrow> bool" where
  "mentions ws s \<longleftrightarrow> list_ex (\<lambda>w. includesStr (lowerCase s) w) ws"

definition classifyFreshnessReadError :: "(err \<Rightarrow> string) \<Rightarrow> err \<Rightarrow> check_status \<times> string" where
  "classifyFreshnessReadError msg e = (let code = errorCodeText e in
     if mentions [''timeout'', ''pool'', ''connection'', ''econn'', ''etimedout'', ''too_many'', ''unavailable'', ''saturat'']
          (code @ '' '' @ msg e) then (Unavailable, ''FRESHNESS_TEMPORARILY_UNAVAILABLE'')
     else if mentions [''unsupported'', ''cross_source''] code then (Unsupported, ''FRESHNESS_TOPOLOGY_UNSUPPORTED'')
     else (InvalidCheck, ''FRESHNESS_CHECK_FAILED''))"

subsection \<open>The proof\<close>

definition evaluateSupportingFreshness ::
  "runtime \<Rightarrow> (err \<Rightarrow> string) \<Rightarrow> 'w reader \<Rightarrow> capability \<Rightarrow> runtime_source \<Rightarrow> trusted_context \<Rightarrow> freshness_dependency
   \<Rightarrow> ('w, freshness_item) io" where
  "evaluateSupportingFreshness rt msg read c source ctx d = (let e = fd_expected_version d in catchM
     (bindM (read (fd_source_id d) source (versionedRead c (cv_column e))
         [(cap_id_from_arg c, cv_value (fd_primary_key d))] ctx) (\<lambda>r.
      liftE (versionCheck rt (fd_id d) SupportingItem ''FRESHNESS_DEPENDENCY_FRESH''
        ''FRESHNESS_DEPENDENCY_STALE'' e (observedVersion r (cv_column e)))))
     (\<lambda>err. case classifyFreshnessReadError msg err of (status, code) \<Rightarrow>
        returnM (plainCheck (fd_id d) SupportingItem status code)))"

definition evaluateDependency ::
  "runtime \<Rightarrow> (err \<Rightarrow> string) \<Rightarrow> 'w reader \<Rightarrow> runtime_config \<Rightarrow> capability \<Rightarrow> runtime_source \<Rightarrow> trusted_context
   \<Rightarrow> freshness_dependency \<Rightarrow> ('w, freshness_item) io" where
  "evaluateDependency rt msg read cfg c source ctx d =
     (case (validateResolvedFreshnessDependency cfg c d, capabilityNamed cfg (fd_capability d)) of
        (Some code, _) \<Rightarrow> returnM (plainCheck (fd_id d) SupportingItem InvalidCheck code)
      | (None, Some k) \<Rightarrow> evaluateSupportingFreshness rt msg read k source ctx d
      | (None, None) \<Rightarrow> throwM TypeError)"

definition hasStatus :: "check_status \<Rightarrow> freshness_item list \<Rightarrow> bool" where
  "hasStatus st checks \<longleftrightarrow> list_ex (\<lambda>i. fi_status i = ItemStatus st) checks"

definition freshnessResultForChecks :: "freshness_item list \<Rightarrow> check_status" where
  "freshnessResultForChecks checks = (if hasStatus InvalidCheck checks then InvalidCheck
     else if hasStatus Unsupported checks then Unsupported
     else if hasStatus Unavailable checks then Unavailable
     else if hasStatus Stale checks then Stale else Fresh)"

definition freshnessSafeCode :: "check_status \<Rightarrow> freshness_item list \<Rightarrow> string" where
  "freshnessSafeCode st checks = (case st of
      Fresh \<Rightarrow> ''FRESHNESS_FRESH''
    | Stale \<Rightarrow> if hasStatus Stale (filter (\<lambda>i. fi_kind i = TargetItem) checks) then ''FRESHNESS_TARGET_STALE''
        else ''FRESHNESS_DEPENDENCY_STALE''
    | Unavailable \<Rightarrow> ''FRESHNESS_TEMPORARILY_UNAVAILABLE''
    | Unsupported \<Rightarrow> ''FRESHNESS_TOPOLOGY_UNSUPPORTED''
    | InvalidCheck \<Rightarrow> ''FRESHNESS_AUTHORITY_INVALID'')"

text \<open>\<open>a.source_id.localeCompare(b.source_id) || a.engine.localeCompare(b.engine)\<close>.\<close>

definition adapterLe :: "runtime \<Rightarrow> string \<times> engine \<Rightarrow> string \<times> engine \<Rightarrow> bool" where
  "adapterLe rt a b = (let c = localeCompare rt (fst a) (fst b) in
     if c \<noteq> 0 then c \<le> 0 else localeCompare rt (engineStr (snd a)) (engineStr (snd b)) \<le> 0)"

definition freshnessSourceAdapters ::
  "runtime \<Rightarrow> proposal \<Rightarrow> freshness_authority \<Rightarrow> (string \<times> engine) list" where
  "freshnessSourceAdapters rt p a = sortBy (adapterLe rt) (uniqueList
     ((p_source_id p, if p_source_kind p = ExternalMysql then Mysql else Postgres)
      # map (\<lambda>d. (fd_source_id d, fd_engine d)) (fa_dependencies a)))"

text \<open>The checks, or the result and the code that were forced; a failed read of the target leaves no check.\<close>

definition freshnessChecks ::
  "runtime \<Rightarrow> (err \<Rightarrow> string) \<Rightarrow> 'w reader \<Rightarrow> runtime_config \<Rightarrow> proposal \<Rightarrow> freshness_authority
   \<Rightarrow> ('w, freshness_item list \<times> (check_status \<times> string) option) io" where
  "freshnessChecks rt msg read cfg p a = (let capability = capabilityNamed cfg (p_action p) in
     case (capability, Option.bind capability (\<lambda>c. map_of (rc_sources cfg) (cap_source c))) of
       (Some c, Some source) \<Rightarrow>
         if cap_kind c \<noteq> ProposalCapability
         then returnM ([], Some (InvalidCheck, ''FRESHNESS_PROPOSAL_AUTHORITY_INVALID''))
         else if \<not> proposalAuthorityMatchesCapability p c
         then returnM ([], Some (InvalidCheck, ''FRESHNESS_PROPOSAL_AUTHORITY_MISMATCH''))
         else (let ctx = proposalTrustedContext cfg c p in catchM
           (bindM (evaluateTargetFreshness rt read p a c source ctx) (\<lambda>target.
            bindM (traverseM (evaluateDependency rt msg read cfg c source ctx) (fa_dependencies a)) (\<lambda>supporting.
            returnM (target @ supporting, None))))
           (\<lambda>e. returnM ([], Some (classifyFreshnessReadError msg e))))
     | _ \<Rightarrow> returnM ([], Some (InvalidCheck, ''FRESHNESS_PROPOSAL_AUTHORITY_INVALID'')))"

definition proofValidity :: "int option \<Rightarrow> int" where
  "proofValidity v = max 1000 (min (optOr v 30000) 300000)"

definition unsignedProof ::
  "runtime \<Rightarrow> time \<Rightarrow> int option \<Rightarrow> proposal \<Rightarrow> freshness_authority \<Rightarrow> freshness_item list
   \<Rightarrow> (check_status \<times> string) option \<Rightarrow> freshness_proof" where
  "unsignedProof rt now validity p a checks forced =
     (let status = (case forced of None \<Rightarrow> freshnessResultForChecks checks | Some f \<Rightarrow> fst f);
          until = now + proofValidity validity in
      \<lparr>fp_proposal_id = p_id p, fp_proposal_hash = p_hash p, fp_proposal_version = p_version p,
       fp_dependency_set_digest = fa_dependency_set_digest a, fp_checked_at = now, fp_valid_until = until,
       fp_checked_at_text = isoString rt now, fp_valid_until_text = isoString rt until,
       fp_source_adapters = freshnessSourceAdapters rt p a, fp_result = status,
       fp_safe_code = (case forced of None \<Rightarrow> freshnessSafeCode status checks | Some f \<Rightarrow> snd f),
       fp_target_count = int (length (filter (\<lambda>i. fi_kind i = TargetItem) checks)),
       fp_supporting_count = int (length (filter (\<lambda>i. fi_kind i = SupportingItem) checks)),
       fp_checks = checks, fp_proof_digest = []\<rparr>)"

text \<open>\<open>None\<close> is the evaluation of a proposal that requires no proof.\<close>

definition evaluateProposalFreshness ::
  "runtime \<Rightarrow> (err \<Rightarrow> string) \<Rightarrow> 'w reader \<Rightarrow> runtime_config \<Rightarrow> time \<Rightarrow> int option \<Rightarrow> proposal
   \<Rightarrow> ('w, freshness_proof option) io" where
  "evaluateProposalFreshness rt msg read cfg now validity p =
     bindM (liftE (freshnessAuthorityFromChangeSet rt (p_change_set p))) (\<lambda>authority. case authority of
       None \<Rightarrow> returnM None
     | Some a \<Rightarrow>
         bindM (freshnessChecks rt msg read cfg p a) (\<lambda>(checks, forced).
         let u = unsignedProof rt now validity p a checks forced in
         bindM (liftE (canonicalJsonDigest rt (JObj (proofUnsignedJson u)))) (\<lambda>d.
         bindM (liftE (parseFreshnessProof rt (u\<lparr>fp_proof_digest := d\<rparr>))) (\<lambda>proof.
         returnM (Some proof)))))"

end
