(* ===== verification/ApprovalPolicy.thy ===== *)
theory ApprovalPolicy
  imports FreshnessCheck Proposals
begin

text \<open>
  \<open>packages/mcp-server/src/approval-policy.ts\<close>: whether a proposal's writeback and its approval policy resolve,
  whether a policy qualifies a patch, and the automatic approval that follows from it.

  The automatic approval runs on the row reader and on the store; \<open>storeM\<close> and \<open>readM\<close> lift the
  operations of one and of the other.  Its clock does not advance.
\<close>

subsection \<open>What must resolve\<close>

definition unresolved :: "bool \<Rightarrow> unit result" where
  "unresolved failed = throwIf failed (McpRuntimeError ''WRITEBACK_UNRESOLVED'')"

definition assertProposalWritebackResolvable :: "runtime_config \<Rightarrow> capability \<Rightarrow> unit result" where
  "assertProposalWritebackResolvable cfg c = (if cap_kind c \<noteq> ProposalCapability then Inr ()
     else case capabilityWritebackMode c of
       DirectSql \<Rightarrow> (case map_of (rc_sources cfg) (cap_source c) of
           None \<Rightarrow> unresolved True
         | Some s \<Rightarrow> unresolved (so_read_only s \<or> presentStr (so_write_url_env s) = None))
     | AppHandler \<Rightarrow> (case presentStr (capabilityWritebackExecutor c) of
           None \<Rightarrow> unresolved True
         | Some name \<Rightarrow>
             bindE (unresolved (name = ''sql_update'')) (\<lambda>_.
             case map_of (rc_executors cfg) name of
               Some (JObj es) \<Rightarrow> unresolved (field es ''type'' \<noteq> JStr ''http_handler''
                 \<and> field es ''type'' \<noteq> JStr ''command_handler'')
             | _ \<Rightarrow> unresolved True))
     | _ \<Rightarrow> Inr ())"

definition approvalPolicyByName :: "runtime_config \<Rightarrow> string \<Rightarrow> approval_policy option" where
  "approvalPolicyByName cfg name =
     find (\<lambda>p. ap_policy_kind p = ''approval'' \<and> ap_policy_name p = name) (rc_policies cfg)"

text \<open>The policy a capability leaves its approval to.\<close>

definition policyOf :: "capability \<Rightarrow> string option" where
  "policyOf c = (if approvalField c as_mode = Some ''policy'' then presentStr (approvalField c as_policy) else None)"

definition assertApprovalPolicyResolvable :: "runtime_config \<Rightarrow> capability \<Rightarrow> unit result" where
  "assertApprovalPolicyResolvable cfg c =
     (if cap_kind c \<noteq> ProposalCapability \<or> approvalField c as_mode \<noteq> Some ''policy'' then Inr ()
      else throwIf (Option.bind (policyOf c) (approvalPolicyByName cfg) = None)
        (McpRuntimeError ''APPROVAL_POLICY_UNRESOLVED''))"

subsection \<open>Whether a patch qualifies\<close>

text \<open>\<open>typeof value === 'number' && Number.isInteger(value)\<close>.\<close>

definition integerValue :: "json \<Rightarrow> rat option" where
  "integerValue v = (case numberOf v of
      Some r \<Rightarrow> if snd (quotient_of r) = 1 then Some r else None | None \<Rightarrow> None)"

definition isNumericRuntimeProposalField :: "capability \<Rightarrow> string \<Rightarrow> bool" where
  "isNumericRuntimeProposalField c f \<longleftrightarrow> map_of (cap_numeric_bounds c) f \<noteq> None
     \<or> (case map_of (optOr (cap_patch c) []) f of
          None \<Rightarrow> False
        | Some b \<Rightarrow> (case pb_fixed b of None \<Rightarrow> False | Some v \<Rightarrow> integerValue v \<noteq> None)
            \<or> (case Option.bind (presentStr (pb_from_arg b)) (map_of (cap_args c)) of
                 Some (ScalarArg s) \<Rightarrow> sa_type s = NumberArg | _ \<Rightarrow> False))"

text \<open>The last integer maximum a policy names for a field.\<close>

definition ruleMaximum :: "approval_policy \<Rightarrow> string \<Rightarrow> rat option" where
  "ruleMaximum p f = (if f = [] then None
     else case filter (\<lambda>r. field r ''field'' = JStr f \<and> integerValue (field r ''max'') \<noteq> None) (ap_policy_rules p) of
       [] \<Rightarrow> None | rs \<Rightarrow> integerValue (field (last rs) ''max''))"

definition fieldQualifies :: "approval_policy \<Rightarrow> srow \<Rightarrow> string \<Rightarrow> bool" where
  "fieldQualifies p patch f \<longleftrightarrow> (case (ruleMaximum p f, integerValue (field patch f)) of
     (Some m, Some x) \<Rightarrow> x \<le> m | _ \<Rightarrow> False)"

definition numericFields :: "capability \<Rightarrow> srow \<Rightarrow> string list" where
  "numericFields c patch = filter (isNumericRuntimeProposalField c) (map fst patch)"

definition evaluateApprovalPolicy :: "capability \<Rightarrow> approval_policy \<Rightarrow> srow \<Rightarrow> bool" where
  "evaluateApprovalPolicy c p patch \<longleftrightarrow> numericFields c patch \<noteq> []
     \<and> list_all (fieldQualifies p patch) (numericFields c patch)"

definition ruleText :: "approval_policy \<Rightarrow> srow \<Rightarrow> string \<Rightarrow> runtime \<Rightarrow> string" where
  "ruleText p patch f rt = f @ '' '' @ stringOf (field patch f) @ '' <= ''
     @ stringOf (JNum (ratNum rt (optOr (ruleMaximum p f) 0)))"

definition policyReason :: "runtime \<Rightarrow> capability \<Rightarrow> approval_policy \<Rightarrow> srow \<Rightarrow> string" where
  "policyReason rt c p patch = ''auto-approved by policy '' @ ap_policy_name p @ '': ''
     @ joinWith '', '' (map (\<lambda>f. ruleText p patch f rt) (numericFields c patch))"

subsection \<open>Automatic approval\<close>

definition storeM :: "(store \<Rightarrow> ('a \<times> store) result) \<Rightarrow> ('w \<times> store, 'a) io" where
  "storeM f = (\<lambda>(w, s). case f s of Inl e \<Rightarrow> (Inl e, (w, s)) | Inr (a, t) \<Rightarrow> (Inr a, (w, t)))"

definition readM :: "('w, 'a) io \<Rightarrow> ('w \<times> store, 'a) io" where
  "readM m = (\<lambda>(w, s). case m w of (r, v) \<Rightarrow> (r, (v, s)))"

record auto_approval =
  aa_proposal :: proposal
  aa_approved :: bool
  aa_policy :: "string option"
  aa_tripped_limits :: "limit_trip list"
  aa_freshness :: "(check_status \<times> string) option"

definition notApproved :: "proposal \<Rightarrow> string option \<Rightarrow> auto_approval" where
  "notApproved p policy = \<lparr>aa_proposal = p, aa_approved = False, aa_policy = policy, aa_tripped_limits = [],
     aa_freshness = None\<rparr>"

definition freshnessOutcome :: "freshness_proof \<Rightarrow> check_status \<times> string" where
  "freshnessOutcome x = (fp_result x, fp_safe_code x)"

definition blockedByFreshness ::
  "runtime \<Rightarrow> time \<Rightarrow> proposal \<Rightarrow> string \<Rightarrow> freshness_proof \<Rightarrow> ('w \<times> store, auto_approval) io" where
  "blockedByFreshness rt now p policy x =
     bindM (storeM (\<lambda>s. mapE (Pair ()) (recordFreshnessApprovalBlocked rt now (p_id p) (fp_proof_digest x)
         (fp_safe_code x) (''policy:'' @ policy) s))) (\<lambda>_.
     storeM (\<lambda>s. Inr ((notApproved (optOr (getProposal (p_id p) s) p) (Some policy))
         \<lparr>aa_freshness := Some (freshnessOutcome x)\<rparr>, s)))"

definition policyOptions ::
  "runtime \<Rightarrow> capability \<Rightarrow> approval_policy \<Rightarrow> string \<Rightarrow> proposal \<Rightarrow> srow \<Rightarrow> freshness_proof option \<Rightarrow> policy_options" where
  "policyOptions rt c pol name p patch x = \<lparr>po_policy = name, po_hash = p_hash p, po_version = p_version p,
     po_reason = policyReason rt c pol patch, po_limits = optOr (ap_policy_limits pol) [], po_now = None,
     po_freshness_proof_digest = map_option fp_proof_digest x\<rparr>"

definition approveUnder ::
  "runtime \<Rightarrow> time \<Rightarrow> capability \<Rightarrow> approval_policy \<Rightarrow> string \<Rightarrow> proposal \<Rightarrow> srow \<Rightarrow> freshness_proof option
   \<Rightarrow> ('w \<times> store, auto_approval) io" where
  "approveUnder rt now c pol name p patch x =
     bindM (storeM (approveProposalByPolicy rt now (p_id p) (policyOptions rt c pol name p patch x))) (\<lambda>d.
     returnM \<lparr>aa_proposal = pd_proposal d, aa_approved = pd_approved d, aa_policy = Some name,
       aa_tripped_limits = pd_tripped_limits d, aa_freshness = map_option freshnessOutcome x\<rparr>)"

text \<open>Whether a capability may be approved automatically at all.\<close>

definition autoApprovable :: "runtime_config \<Rightarrow> capability \<Rightarrow> bool" where
  "autoApprovable cfg c \<longleftrightarrow> rc_mode cfg = RunReview \<and> \<not> rc_disable_auto_approval cfg \<and> \<not> isSetCapability c
     \<and> map_option os_kind (cap_operation c) \<noteq> Some DeleteOp"

definition maybeAutoApproveProposal ::
  "runtime \<Rightarrow> (err \<Rightarrow> string) \<Rightarrow> 'w reader \<Rightarrow> runtime_config \<Rightarrow> time \<Rightarrow> capability \<Rightarrow> proposal \<Rightarrow> srow
   \<Rightarrow> ('w \<times> store, auto_approval) io" where
  "maybeAutoApproveProposal rt msg read cfg now c p patch =
     (case (if autoApprovable cfg c then policyOf c else None) of
        None \<Rightarrow> returnM (notApproved p None)
      | Some name \<Rightarrow>
          if p_state p = Approved then returnM ((notApproved p (Some name))\<lparr>aa_approved := True\<rparr>)
          else if p_state p \<noteq> PendingReview then returnM (notApproved p None)
          else bindM (liftE (requireSome (McpRuntimeError ''APPROVAL_POLICY_UNRESOLVED'')
                 (approvalPolicyByName cfg name))) (\<lambda>pol.
            if \<not> evaluateApprovalPolicy c pol patch then returnM (notApproved p (Some name))
            else bindM (readM (evaluateProposalFreshness rt msg read cfg now None p)) (\<lambda>proof. case proof of
                None \<Rightarrow> approveUnder rt now c pol name p patch None
              | Some x \<Rightarrow>
                  bindM (storeM (recordFreshnessProof rt now x)) (\<lambda>_.
                  if fp_result x \<noteq> Fresh then blockedByFreshness rt now p name x
                  else approveUnder rt now c pol name p patch (Some x)))))"

end
