(* ===== verification/FreshnessProperties.thy ===== *)
theory FreshnessProperties
  imports ApprovalPolicy ProposalProperties AuthoringSamples
begin

text \<open>
  What a freshness proof proves, and what an automatic approval rests on.
\<close>

subsection \<open>A fresh proof\<close>

text \<open>The read-only transactions of the row reader leave the world as it is.\<close>

definition readOnly :: "'w reader \<Rightarrow> bool" where
  "readOnly read \<longleftrightarrow> (\<forall>name source c args ctx w. snd (read name source c args ctx w) = w)"

text \<open>What a read of one row observes is the expected version.\<close>

definition currentVersion :: "runtime \<Rightarrow> read_result result \<times> 'w \<Rightarrow> column_value \<Rightarrow> bool" where
  "currentVersion rt seen e \<longleftrightarrow> (\<exists>r. fst seen = Inr r \<and> rr_row_count r = 1
     \<and> versionsEqual rt (versionJsonOf (field (rr_row r) (cv_column e))) (cv_value e) = Inr True)"

lemma versionCheck_fresh:
  assumes "versionCheck rt cid kind fc sc e observed = Inr i" and "fi_status i = ItemStatus Fresh"
  shows "\<exists>v. observed = Some v \<and> versionsEqual rt v (cv_value e) = Inr True"
  using assms by (auto simp: versionCheck_def bindE_eq_Inr split: option.splits if_splits)

lemma versionCheck_status:
  "versionCheck rt cid kind fc sc e observed = Inr i \<Longrightarrow> fi_status i \<in> {ItemStatus Fresh, ItemStatus Stale}"
  by (auto simp: versionCheck_def bindE_eq_Inr split: if_splits)

lemma plainCheck_status [simp]: "fi_status (plainCheck cid kind st code) = ItemStatus st"
  by (simp add: plainCheck_def)

lemma observed_current:
  "observedVersion r (cv_column e) = Some v \<Longrightarrow> versionsEqual rt v (cv_value e) = Inr True \<Longrightarrow>
     currentVersion rt (Inr r, w) e"
  by (auto simp: observedVersion_def currentVersion_def split: if_splits)

lemma traverseM_world:
  assumes "traverseM f xs w = (Inr ys, v)" and "\<And>x w. snd (f x w) = w"
  shows "v = w" and "\<And>x. x \<in> set xs \<Longrightarrow> \<exists>y \<in> set ys. f x w = (Inr y, w)"
proof -
  have "v = w \<and> (\<forall>x \<in> set xs. \<exists>y \<in> set ys. f x w = (Inr y, w))"
    using assms(1)
  proof (induction xs arbitrary: ys w)
    case (Cons x xs)
    then obtain y zs u where first: "f x w = (Inr y, u)" and rest: "traverseM f xs u = (Inr zs, v)" "ys = y # zs"
      by (auto simp: bindM_def returnM_def split: prod.splits sum.splits)
    have "u = w" using assms(2) [of x w] first by simp
    with Cons.IH [OF rest(1)] first rest show ?case by auto
  qed (simp add: returnM_def)
  then show "v = w" "\<And>x. x \<in> set xs \<Longrightarrow> \<exists>y \<in> set ys. f x w = (Inr y, w)" by auto
qed

lemma traverseM_origin:
  "traverseM f xs w = (Inr ys, v) \<Longrightarrow> y \<in> set ys \<Longrightarrow> \<exists>x u u'. f x u = (Inr y, u')"
proof (induction xs arbitrary: ys w)
  case (Cons x xs)
  then obtain z zs u where "f x w = (Inr z, u)" "traverseM f xs u = (Inr zs, v)" "ys = z # zs"
    by (auto simp: bindM_def returnM_def split: prod.splits sum.splits)
  with Cons show ?case by auto
qed (simp add: returnM_def)

text \<open>The steps of the evaluation leave the world as it is.\<close>

lemma keeps_world:
  "(\<And>w. snd (m w) = w) \<Longrightarrow> (\<And>x w. snd (k x w) = w) \<Longrightarrow> snd (bindM m k w) = w"
  "snd (returnM x w) = w" "snd (liftE r w) = w" "snd (throwM e w) = w"
  "(\<And>w. snd (m w) = w) \<Longrightarrow> (\<And>e w. snd (h e w) = w) \<Longrightarrow> snd (catchM m h w) = w"
proof -
  assume m: "\<And>w. snd (m w) = w" and k: "\<And>x w. snd (k x w) = w"
  obtain r u where "m w = (r, u)" by (cases "m w")
  with m [of w] k show "snd (bindM m k w) = w" by (cases r) (simp_all add: bindM_def)
next
  assume m: "\<And>w. snd (m w) = w" and h: "\<And>e w. snd (h e w) = w"
  obtain r u where "m w = (r, u)" by (cases "m w")
  with m [of w] h show "snd (catchM m h w) = w" by (cases r) (simp_all add: catchM_def)
qed (simp_all add: returnM_def liftE_def throwM_def)

lemma supporting_keeps:
  "readOnly read \<Longrightarrow> snd (evaluateSupportingFreshness rt msg read c source ctx d w) = w"
  unfolding evaluateSupportingFreshness_def Let_def
  by (intro keeps_world) (auto simp: readOnly_def keeps_world split: prod.split)

lemma dependency_keeps:
  "readOnly read \<Longrightarrow> snd (evaluateDependency rt msg read cfg c source ctx d w) = w"
  by (auto simp: evaluateDependency_def supporting_keeps keeps_world split: option.split)

lemma target_keeps:
  "readOnly read \<Longrightarrow> snd (evaluateTargetFreshness rt read p a c source ctx w) = w"
  unfolding evaluateTargetFreshness_def Let_def
  by (auto simp: readOnly_def keeps_world split: target_mode.split cs_body.split option.split)

lemma supporting_fresh:
  assumes "evaluateDependency rt msg read cfg c source ctx d w = (Inr i, u)" and "fi_status i = ItemStatus Fresh"
    and "readOnly read"
  shows "validateResolvedFreshnessDependency cfg c d = None \<and> (\<exists>k. capabilityNamed cfg (fd_capability d) = Some k
    \<and> currentVersion rt (read (fd_source_id d) source (versionedRead k (cv_column (fd_expected_version d)))
        [(cap_id_from_arg k, cv_value (fd_primary_key d))] ctx w) (fd_expected_version d))"
proof -
  from assms(1,2) obtain k where k: "validateResolvedFreshnessDependency cfg c d = None"
      "capabilityNamed cfg (fd_capability d) = Some k"
    and run: "evaluateSupportingFreshness rt msg read k source ctx d w = (Inr i, u)"
    by (auto simp: evaluateDependency_def returnM_def throwM_def split: option.splits)
  let ?e = "fd_expected_version d"
  obtain s u' where s: "read (fd_source_id d) source (versionedRead k (cv_column ?e))
      [(cap_id_from_arg k, cv_value (fd_primary_key d))] ctx w = (s, u')" by (rule prod.exhaust)
  have never: "fst (classifyFreshnessReadError msg err) \<noteq> Fresh" for err
    by (simp add: classifyFreshnessReadError_def Let_def)
  have "\<exists>r. s = Inr r \<and> versionCheck rt (fd_id d) SupportingItem ''FRESHNESS_DEPENDENCY_FRESH''
      ''FRESHNESS_DEPENDENCY_STALE'' ?e (observedVersion r (cv_column ?e)) = Inr i"
  proof (cases "\<exists>r. s = Inr r \<and> (\<exists>j. versionCheck rt (fd_id d) SupportingItem ''FRESHNESS_DEPENDENCY_FRESH''
      ''FRESHNESS_DEPENDENCY_STALE'' ?e (observedVersion r (cv_column ?e)) = Inr j)")
    case True
    with run s show ?thesis
      by (auto simp: evaluateSupportingFreshness_def Let_def catchM_def bindM_def liftE_def)
  next
    case False
    then have "\<exists>err. i = plainCheck (fd_id d) SupportingItem (fst (classifyFreshnessReadError msg err))
        (snd (classifyFreshnessReadError msg err))"
      using run s by (cases s) (auto simp: evaluateSupportingFreshness_def Let_def catchM_def bindM_def liftE_def
          returnM_def split_def split: sum.splits)
    with never assms(2) show ?thesis by auto
  qed
  then obtain r where r: "s = Inr r" "versionCheck rt (fd_id d) SupportingItem ''FRESHNESS_DEPENDENCY_FRESH''
      ''FRESHNESS_DEPENDENCY_STALE'' ?e (observedVersion r (cv_column ?e)) = Inr i" by blast
  from versionCheck_fresh [OF r(2) assms(2)] have "currentVersion rt (Inr r, u') ?e"
    by (auto intro: observed_current)
  with s r(1) k show ?thesis by simp
qed

lemma target_fresh:
  assumes run: "evaluateTargetFreshness rt read p a c source ctx w = (Inr items, u)"
    and fresh: "\<And>i. i \<in> set items \<Longrightarrow> fi_status i = ItemStatus Fresh"
  shows "case fa_target_mode a of NotApplicable \<Rightarrow> True
    | ExactGuard \<Rightarrow> \<exists>e pk. cs_expected_version (p_change_set p) = Some e \<and> cs_pk_value (p_change_set p) = Some pk
        \<and> cv_column e \<noteq> ''__row_hash''
        \<and> currentVersion rt (read (cap_source c) source (versionedRead c (cv_column e)) [(cap_id_from_arg c, pk)] ctx w) e
    | FrozenSetMode \<Rightarrow> \<exists>op fs l r. cs_body (p_change_set p) = BodyV3 op fs l
        \<and> fst (read (cap_source c) source c [] ctx w) = Inr r
        \<and> (\<forall>m \<in> set (fs_members fs). \<exists>e row. fm_expected_version m = Some e
             \<and> rowOfIdentity c (rowsOf r) (memberIdentity m) = Some row
             \<and> versionsEqual rt (versionJsonOf (field row (cv_column e))) (cv_value e) = Inr True)"
proof (cases "fa_target_mode a")
  case ExactGuard
  let ?cs = "p_change_set p"
  from run ExactGuard have single: "\<exists>i. items = [i]"
    by (auto simp: evaluateTargetFreshness_def Let_def returnM_def bindM_def liftE_def
        split: cs_body.splits option.splits if_splits sum.splits prod.splits)
  then obtain i where i: "items = [i]" "fi_status i = ItemStatus Fresh" using fresh by auto
  with run ExactGuard obtain e pk where e: "cs_expected_version ?cs = Some e" "cs_pk_value ?cs = Some pk"
      "cv_column e \<noteq> ''__row_hash''"
    and rest: "bindM (read (cap_source c) source (versionedRead c (cv_column e)) [(cap_id_from_arg c, pk)] ctx) (\<lambda>r.
        bindM (liftE (versionCheck rt ''target'' TargetItem ''FRESHNESS_TARGET_FRESH''
          ''FRESHNESS_TARGET_STALE'' e (observedVersion r (cv_column e)))) (\<lambda>i. returnM [i])) w = (Inr items, u)"
    by (auto simp: evaluateTargetFreshness_def Let_def returnM_def
        split: cs_body.splits option.splits if_splits)
  obtain s u' where s: "read (cap_source c) source (versionedRead c (cv_column e)) [(cap_id_from_arg c, pk)] ctx w = (s, u')"
    by (rule prod.exhaust)
  from rest s i(1) obtain r where r: "s = Inr r" "versionCheck rt ''target'' TargetItem ''FRESHNESS_TARGET_FRESH''
      ''FRESHNESS_TARGET_STALE'' e (observedVersion r (cv_column e)) = Inr i"
    by (auto simp: bindM_def liftE_def returnM_def split: sum.splits prod.splits)
  from versionCheck_fresh [OF r(2) i(2)] have "currentVersion rt (Inr r, u') e" by (auto intro: observed_current)
  with e s r(1) ExactGuard show ?thesis by auto
next
  case FrozenSetMode
  have "\<exists>op fs l. cs_body (p_change_set p) = BodyV3 op fs l"
    using run FrozenSetMode fresh
    by (fastforce simp: evaluateTargetFreshness_def Let_def returnM_def split: cs_body.splits)
  then obtain op fs l where body: "cs_body (p_change_set p) = BodyV3 op fs l" by blast
  obtain s u' where s: "read (cap_source c) source c [] ctx w = (s, u')" by (rule prod.exhaust)
  from run FrozenSetMode body s obtain r where r: "s = Inr r"
    "traverseE (checkTargetMember rt c (rowsOf r)) (fs_members fs) = Inr items"
    by (auto simp: evaluateTargetFreshness_def Let_def bindM_def liftE_def split: sum.splits)
  have "\<exists>e row. fm_expected_version m = Some e \<and> rowOfIdentity c (rowsOf r) (memberIdentity m) = Some row
      \<and> versionsEqual rt (versionJsonOf (field row (cv_column e))) (cv_value e) = Inr True" if m: "m \<in> set (fs_members fs)" for m
  proof -
    from traverseE_each [OF r(2) m] obtain i where i: "i \<in> set items" "checkTargetMember rt c (rowsOf r) m = Inr i"
      by blast
    then obtain cid e where "fm_expected_version m = Some e" "versionCheck rt cid TargetItem ''FRESHNESS_TARGET_FRESH''
        ''FRESHNESS_TARGET_STALE'' e (map_option (\<lambda>row. versionJsonOf (field row (cv_column e)))
          (rowOfIdentity c (rowsOf r) (memberIdentity m))) = Inr i"
      using fresh [OF i(1)] by (auto simp: checkTargetMember_def bindE_eq_Inr split: option.splits)
    with versionCheck_fresh [OF this(2) fresh [OF i(1)]] show ?thesis by auto
  qed
  with body s r(1) FrozenSetMode show ?thesis by auto
qed simp

lemma fresh_result:
  assumes "freshnessResultForChecks items = Fresh" and "\<And>i. i \<in> set items \<Longrightarrow> fi_status i \<noteq> ItemNotApplicable"
    and "i \<in> set items"
  shows "fi_status i = ItemStatus Fresh"
proof (cases "fi_status i")
  case (ItemStatus st)
  with assms(1,3) show ?thesis
    by (cases st) (auto simp: freshnessResultForChecks_def hasStatus_def list_ex_iff split: if_splits)
qed (use assms(2,3) in auto)

lemma dependency_status:
  "evaluateDependency rt msg read cfg c source ctx d w = (Inr i, u) \<Longrightarrow> fi_status i \<noteq> ItemNotApplicable"
  by (auto simp: evaluateDependency_def evaluateSupportingFreshness_def Let_def catchM_def bindM_def liftE_def
      returnM_def throwM_def versionCheck_def bindE_eq_Inr split: option.splits sum.splits prod.splits)

lemma target_status:
  assumes "evaluateTargetFreshness rt read p a c source ctx w = (Inr items, u)" and "i \<in> set items"
  shows "fi_status i \<noteq> ItemNotApplicable"
  using assms
  by (auto simp: evaluateTargetFreshness_def Let_def bindM_def liftE_def returnM_def checkTargetMember_def bindE_eq_Inr
      dest!: traverseE_member versionCheck_status
      split: target_mode.splits cs_body.splits option.splits if_splits sum.splits prod.splits)

lemma unforced:
  "bindM m (\<lambda>t. bindM n (\<lambda>s. returnM (t @ s, None))) w = (Inr (x, y), u) \<Longrightarrow> y = None"
  by (auto simp: bindM_def returnM_def split: sum.splits prod.splits)

lemma fresh_checks:
  assumes run: "freshnessChecks rt msg read cfg p a w = (Inr (items, forced), u)" and still: "readOnly read"
    and fresh: "fp_result (unsignedProof rt now validity p a items forced) = Fresh"
  shows "\<exists>c source target u'. forced = None \<and> capabilityNamed cfg (p_action p) = Some c
    \<and> map_of (rc_sources cfg) (cap_source c) = Some source \<and> cap_kind c = ProposalCapability
    \<and> proposalAuthorityMatchesCapability p c
    \<and> evaluateTargetFreshness rt read p a c source (proposalTrustedContext cfg c p) w = (Inr target, u')
    \<and> (\<forall>i \<in> set target. fi_status i = ItemStatus Fresh)
    \<and> (\<forall>d \<in> set (fa_dependencies a). \<exists>i v. fi_status i = ItemStatus Fresh
         \<and> evaluateDependency rt msg read cfg c source (proposalTrustedContext cfg c p) d w = (Inr i, v))"
proof -
  have never: "fst (classifyFreshnessReadError msg err) \<noteq> Fresh" for err
    by (simp add: classifyFreshnessReadError_def Let_def)
  then have forced: "forced = None" "freshnessResultForChecks items = Fresh"
    using run fresh by (auto simp: freshnessChecks_def unsignedProof_def Let_def returnM_def catchM_def
        dest: unforced split: option.splits if_splits sum.splits prod.splits)
  with run obtain c source where c: "capabilityNamed cfg (p_action p) = Some c"
      "map_of (rc_sources cfg) (cap_source c) = Some source" "cap_kind c = ProposalCapability"
      "proposalAuthorityMatchesCapability p c"
    by (auto simp: freshnessChecks_def Let_def returnM_def split: option.splits if_splits)
  let ?ctx = "proposalTrustedContext cfg c p"
  obtain r v where target: "evaluateTargetFreshness rt read p a c source ?ctx w = (r, v)" by (rule prod.exhaust)
  have v: "v = w" using target_keeps [OF still, of rt p a c source ?ctx w] target by simp
  from run c forced(1) target obtain items1 items2 where parts: "r = Inr items1" "items = items1 @ items2"
    "traverseM (evaluateDependency rt msg read cfg c source ?ctx) (fa_dependencies a) v = (Inr items2, u)"
    by (auto simp: freshnessChecks_def Let_def catchM_def bindM_def returnM_def split: sum.splits prod.splits)
  note each = traverseM_world [OF parts(3) dependency_keeps [OF still]]
  have "fi_status i \<noteq> ItemNotApplicable" if i: "i \<in> set items" for i
  proof (cases "i \<in> set items1")
    case True
    then show ?thesis by (rule target_status [OF target [unfolded parts(1)]])
  next
    case False
    with i parts(2) have "i \<in> set items2" by simp
    from traverseM_origin [OF parts(3) this] show ?thesis by (auto dest: dependency_status)
  qed
  then have "\<forall>i \<in> set items. fi_status i = ItemStatus Fresh" using fresh_result [OF forced(2)] by blast
  with parts(1,2) c target forced(1) each v show ?thesis by (intro exI [of _ c] exI [of _ source]) fastforce
qed

text \<open>C13: A fresh proof means that nothing the proposal rests on has changed.  When the evaluation answers
  fresh, the proposal still matches its capability and contract, every dependency is still the
  declared one and in the same source, and in the world of the evaluation the target row (each member
  of a frozen set, for one) and the row of every dependency are there with the version recorded at
  proposal time.  The proof holds for between one second and five minutes and the evaluation changes
  nothing.\<close>

theorem fresh_proof_means_unchanged:
  assumes run: "evaluateProposalFreshness rt msg read cfg now validity p w = (Inr (Some x), w')"
    and fresh: "fp_result x = Fresh" and still: "readOnly read"
  shows "\<exists>a c source ctx. freshnessAuthorityFromChangeSet rt (p_change_set p) = Inr (Some a)
    \<and> capabilityNamed cfg (p_action p) = Some c \<and> map_of (rc_sources cfg) (cap_source c) = Some source
    \<and> proposalAuthorityMatchesCapability p c \<and> ctx = proposalTrustedContext cfg c p
    \<and> (case fa_target_mode a of NotApplicable \<Rightarrow> True
       | ExactGuard \<Rightarrow> \<exists>e pk. cs_expected_version (p_change_set p) = Some e \<and> cs_pk_value (p_change_set p) = Some pk
           \<and> cv_column e \<noteq> ''__row_hash''
           \<and> currentVersion rt (read (cap_source c) source (versionedRead c (cv_column e)) [(cap_id_from_arg c, pk)] ctx w) e
       | FrozenSetMode \<Rightarrow> \<exists>op fs l r. cs_body (p_change_set p) = BodyV3 op fs l
           \<and> fst (read (cap_source c) source c [] ctx w) = Inr r
           \<and> (\<forall>m \<in> set (fs_members fs). \<exists>e row. fm_expected_version m = Some e
                \<and> rowOfIdentity c (rowsOf r) (memberIdentity m) = Some row
                \<and> versionsEqual rt (versionJsonOf (field row (cv_column e))) (cv_value e) = Inr True))
    \<and> (\<forall>d \<in> set (fa_dependencies a). validateResolvedFreshnessDependency cfg c d = None
         \<and> (\<exists>k. capabilityNamed cfg (fd_capability d) = Some k
              \<and> currentVersion rt (read (fd_source_id d) source (versionedRead k (cv_column (fd_expected_version d)))
                  [(cap_id_from_arg k, cv_value (fd_primary_key d))] ctx w) (fd_expected_version d)))
    \<and> fp_dependency_set_digest x = fa_dependency_set_digest a \<and> fp_proposal_hash x = p_hash p
    \<and> now + 1000 \<le> fp_valid_until x \<and> fp_valid_until x \<le> now + 300000"
proof -
  from run obtain a items forced u d where a: "freshnessAuthorityFromChangeSet rt (p_change_set p) = Inr (Some a)"
    and checks: "freshnessChecks rt msg read cfg p a w = (Inr (items, forced), u)"
    and x: "x = (unsignedProof rt now validity p a items forced)\<lparr>fp_proof_digest := d\<rparr>"
    by (auto simp: evaluateProposalFreshness_def Let_def bindM_def liftE_def returnM_def parseFreshnessProof_def
        split: sum.splits option.splits prod.splits)
  from x fresh have "fp_result (unsignedProof rt now validity p a items forced) = Fresh" by auto
  from fresh_checks [OF checks still this] obtain c source target u' where
    c: "capabilityNamed cfg (p_action p) = Some c" "map_of (rc_sources cfg) (cap_source c) = Some source"
      "proposalAuthorityMatchesCapability p c"
    and target: "evaluateTargetFreshness rt read p a c source (proposalTrustedContext cfg c p) w = (Inr target, u')"
      "\<And>i. i \<in> set target \<Longrightarrow> fi_status i = ItemStatus Fresh"
    and each: "\<forall>d \<in> set (fa_dependencies a). \<exists>i v. fi_status i = ItemStatus Fresh
         \<and> evaluateDependency rt msg read cfg c source (proposalTrustedContext cfg c p) d w = (Inr i, v)"
    by blast
  have supporting: "\<forall>d \<in> set (fa_dependencies a). validateResolvedFreshnessDependency cfg c d = None
      \<and> (\<exists>k. capabilityNamed cfg (fd_capability d) = Some k
           \<and> currentVersion rt (read (fd_source_id d) source (versionedRead k (cv_column (fd_expected_version d)))
               [(cap_id_from_arg k, cv_value (fd_primary_key d))] (proposalTrustedContext cfg c p) w) (fd_expected_version d))"
    using each supporting_fresh [OF _ _ still] by blast
  have "fp_dependency_set_digest x = fa_dependency_set_digest a \<and> fp_proposal_hash x = p_hash p
      \<and> now + 1000 \<le> fp_valid_until x \<and> fp_valid_until x \<le> now + 300000"
    using x by (auto simp: unsignedProof_def proofValidity_def Let_def)
  with a c supporting target_fresh [OF target] show ?thesis by blast
qed

text \<open>A source whose only row has the version that is the world, and a proposal with one dependency.\<close>

definition versionReader :: "int reader" where
  "versionReader name source c args ctx w = (Inr \<lparr>rr_row = [(''k'', JNum (IntN 1)), (''n'', JStr ''t''),
     (''f'', JNum (IntN 55)), (''v'', JNum (IntN w))], rr_rows = None, rr_row_count = 1\<rparr>, w)"

definition sampleDependency :: freshness_dependency where
  "sampleDependency = \<lparr>fd_id = ''d'', fd_capability = ''b.r'', fd_source_id = ''s'', fd_engine = Postgres,
     fd_schema = ''x'', fd_table = ''y'', fd_primary_key = \<lparr>cv_column = ''k'', cv_value = JNum (IntN 1)\<rparr>,
     fd_tenant_column = ''n'', fd_principal_column = None,
     fd_expected_version = \<lparr>cv_column = ''v'', cv_value = JNum (IntN 3)\<rparr>, fd_bundle_id = ''e'',
     fd_query_fingerprint = ''sha256:q'', fd_descriptor_digest = ''sha256:00''\<rparr>"

definition sampleFreshProposal :: proposal where
  "sampleFreshProposal = (sampleProposal PendingReview False ''t'')\<lparr>p_change_set := sampleChange\<lparr>cs_freshness :=
     Some \<lparr>fa_target_mode = ExactGuard, fa_member_count = 1, fa_dependencies = [sampleDependency],
       fa_dependency_set_digest = ''sha256:00''\<rparr>\<rparr>\<rparr>"

definition sampleFreshConfig :: runtime_config where
  "sampleFreshConfig = sampleConfig\<lparr>rc_capabilities := [sampleCapability,
       sampleCapability\<lparr>cap_name := ''b.r'', cap_kind := ReadCapability\<rparr>],
     rc_proposal_freshness := [(''b.w'', [\<lparr>fr_id = ''d'', fr_capability = ''b.r'', fr_identity_from_arg = ''id'',
       fr_version_column = ''v''\<rparr>])]\<rparr>"

definition sampleClock :: runtime where
  "sampleClock = sampleRuntime\<lparr>dateParse := (\<lambda>s. if s = ''t0'' then Some 0 else Some 30000),
     isoString := (\<lambda>t. if t = 0 then ''t0'' else ''t1'')\<rparr>"

definition sampleEvaluation :: "int \<Rightarrow> freshness_proof option result" where
  "sampleEvaluation version = fst (evaluateProposalFreshness sampleClock (\<lambda>_. []) versionReader sampleFreshConfig 0 None
     sampleFreshProposal version)"

lemma sample_fresh: "(case sampleEvaluation 3 of Inr (Some x) \<Rightarrow> fp_result x = Fresh | _ \<Rightarrow> False)"
  by code_simp

theorem fresh_proof_means_unchanged_witness:
  "\<exists>x w'. evaluateProposalFreshness sampleClock (\<lambda>_. []) versionReader sampleFreshConfig 0 None sampleFreshProposal 3
      = (Inr (Some x), w') \<and> fp_valid_until x \<le> 300000"
proof -
  from sample_fresh obtain x w' where x: "evaluateProposalFreshness sampleClock (\<lambda>_. []) versionReader sampleFreshConfig
      0 None sampleFreshProposal 3 = (Inr (Some x), w')" "fp_result x = Fresh"
    by (auto simp: sampleEvaluation_def fst_def split: sum.splits option.splits prod.splits)
  have "readOnly versionReader" by (simp add: readOnly_def versionReader_def)
  from fresh_proof_means_unchanged [OF x this] x(1) show ?thesis by auto
qed

subsection \<open>Automatic approval\<close>

lemma storeM_Inr: "storeM f (w, s) = (Inr a, (v, t)) \<longleftrightarrow> f s = Inr (a, t) \<and> v = w"
  by (auto simp: storeM_def split: sum.splits)

lemma readM_Inr: "readM m (w, s) = (Inr a, (v, t)) \<longleftrightarrow> m w = (Inr a, v) \<and> t = s"
  by (auto simp: readM_def split: prod.splits)

lemma bindM_Inr: "bindM m k w = (Inr b, v) \<longleftrightarrow> (\<exists>a u. m w = (Inr a, u) \<and> k a u = (Inr b, v))"
  by (auto simp: bindM_def split: sum.splits prod.splits)

lemma approveUnder_approves:
  assumes "approveUnder rt now c pol name p patch x (w, s) = (Inr r, (v, t))" and "aa_approved r"
  shows "\<exists>d. approveProposalByPolicy rt now (p_id p) (policyOptions rt c pol name p patch x) s = Inr (d, t)
    \<and> pd_approved d \<and> v = w \<and> aa_freshness r = map_option freshnessOutcome x"
  using assms by (auto simp: approveUnder_def bindM_Inr storeM_Inr returnM_def)

text \<open>The proof an automatic approval used: none where none is required, otherwise a fresh one, recorded
  first.\<close>

definition freshApproval ::
  "runtime \<Rightarrow> time \<Rightarrow> freshness_proof option \<Rightarrow> store \<Rightarrow> store \<Rightarrow> bool" where
  "freshApproval rt now x s u \<longleftrightarrow> (case x of None \<Rightarrow> u = s
     | Some pr \<Rightarrow> fp_result pr = Fresh \<and> (\<exists>pr'. recordFreshnessProof rt now pr s = Inr (pr', u)))"

lemma auto_approval_steps:
  assumes run: "maybeAutoApproveProposal rt msg read cfg now c p patch (w, s) = (Inr r, (v, t))"
    and approved: "aa_approved r" and fresh: "p_state p \<noteq> Approved"
  shows "\<exists>name pol x u. autoApprovable cfg c \<and> policyOf c = Some name \<and> approvalPolicyByName cfg name = Some pol
    \<and> evaluateApprovalPolicy c pol patch
    \<and> evaluateProposalFreshness rt msg read cfg now None p w = (Inr x, v) \<and> freshApproval rt now x s u
    \<and> (\<exists>d. approveProposalByPolicy rt now (p_id p) (policyOptions rt c pol name p patch x) u = Inr (d, t)
          \<and> pd_approved d)"
proof -
  from run approved fresh obtain name where name: "autoApprovable cfg c" "policyOf c = Some name"
    by (auto simp: maybeAutoApproveProposal_def notApproved_def returnM_def split: option.splits if_splits)
  with run approved fresh obtain pol where pol: "approvalPolicyByName cfg name = Some pol" "evaluateApprovalPolicy c pol patch"
    by (auto simp: maybeAutoApproveProposal_def notApproved_def returnM_def bindM_Inr liftE_def split: if_splits)
  with run approved fresh name obtain x w1 s1 where x: "evaluateProposalFreshness rt msg read cfg now None p w = (Inr x, w1)"
    and rest: "(case x of None \<Rightarrow> approveUnder rt now c pol name p patch None
       | Some x \<Rightarrow> bindM (storeM (recordFreshnessProof rt now x)) (\<lambda>_.
           if fp_result x \<noteq> Fresh then blockedByFreshness rt now p name x
           else approveUnder rt now c pol name p patch (Some x))) (w1, s) = (Inr r, (v, t))"
    by (auto simp: maybeAutoApproveProposal_def notApproved_def returnM_def bindM_Inr liftE_def readM_Inr
        split: if_splits)
  have "\<exists>u. freshApproval rt now x s u \<and> approveUnder rt now c pol name p patch x (w1, u) = (Inr r, (v, t))"
    using rest approved
    by (cases x) (auto simp: freshApproval_def bindM_Inr storeM_Inr blockedByFreshness_def notApproved_def
        split: if_splits)
  then obtain u where u: "freshApproval rt now x s u" "approveUnder rt now c pol name p patch x (w1, u) = (Inr r, (v, t))"
    by blast
  from approveUnder_approves [OF u(2) approved] name pol x u(1) show ?thesis by blast
qed

text \<open>C12: No tool call approves more than the review left to a policy.  When a proposal that was not approved
  comes out approved, the capability is a single-row INSERT or UPDATE that names a configured policy;
  every numeric field of its patch is an integer up to the maximum the policy's rule for that field
  names, and there is such a field; the proposal that is approved is the pending one of the exact hash
  and version, needs one approval, stays within every daily limit, and a freshness proof, where one is
  required, was evaluated fresh and recorded before.  The policy's is the one approval added.\<close>

theorem auto_approval_stays_within_policy:
  assumes run: "maybeAutoApproveProposal rt msg read cfg now c p patch (w, s) = (Inr r, (v, t))"
    and approved: "aa_approved r" and pending: "p_state p \<noteq> Approved"
  shows "\<exists>name pol x u q. approvalField c as_policy = Some name \<and> approvalPolicyByName cfg name = Some pol
    \<and> rc_mode cfg = RunReview \<and> \<not> rc_disable_auto_approval cfg \<and> \<not> isSetCapability c
    \<and> map_option os_kind (cap_operation c) \<noteq> Some DeleteOp
    \<and> (\<exists>f \<in> fst ` set patch. isNumericRuntimeProposalField c f)
    \<and> (\<forall>f \<in> fst ` set patch. isNumericRuntimeProposalField c f \<longrightarrow>
         (\<exists>m n. ruleMaximum pol f = Some m \<and> integerValue (field patch f) = Some n \<and> n \<le> m))
    \<and> evaluateProposalFreshness rt msg read cfg now None p w = (Inr x, v) \<and> freshApproval rt now x s u
    \<and> getProposal (p_id p) u = Some q \<and> p_state q = PendingReview \<and> requiredApprovalCount q = 1
    \<and> p_hash q = p_hash p \<and> p_version q = p_version p
    \<and> (\<forall>l \<in> set (optOr (ap_policy_limits pol) []). limitRespected rt (''policy:'' @ name) q (utcDayWindow now) u l)
    \<and> (\<exists>a. s_approvals t = s_approvals u @ [a] \<and> ap_approver a = ''policy:'' @ name)
    \<and> map_option p_state (getProposal (p_id p) t) = Some Approved"
proof -
  from auto_approval_steps [OF run approved pending] obtain name pol x u d where
    name: "autoApprovable cfg c" "policyOf c = Some name" "approvalPolicyByName cfg name = Some pol"
    and policy: "evaluateApprovalPolicy c pol patch"
    and x: "evaluateProposalFreshness rt msg read cfg now None p w = (Inr x, v)" "freshApproval rt now x s u"
    and d: "approveProposalByPolicy rt now (p_id p) (policyOptions rt c pol name p patch x) u = Inr (d, t)" "pd_approved d"
    by blast
  from approved_by_policy [OF d] obtain q where q: "getProposal (p_id p) u = Some q" "p_state q = PendingReview"
      "requiredApprovalCount q = 1" "p_hash q = p_hash p" "p_version q = p_version p"
      "\<forall>l \<in> set (optOr (ap_policy_limits pol) []). limitRespected rt (''policy:'' @ name) q (utcDayWindow now) u l"
      "s_approvals t = s_approvals u @ [policyApproval now (p_id p) (policyOptions rt c pol name p patch x) u]"
      "map_option p_state (getProposal (p_id p) t) = Some Approved"
    by (auto simp: policyOptions_def policyActor_def)
  have "approvalField c as_policy = Some name" "rc_mode cfg = RunReview \<and> \<not> rc_disable_auto_approval cfg
      \<and> \<not> isSetCapability c \<and> map_option os_kind (cap_operation c) \<noteq> Some DeleteOp"
    using name by (auto simp: policyOf_def presentStr_def autoApprovable_def split: if_splits option.splits)
  moreover have "\<exists>f \<in> fst ` set patch. isNumericRuntimeProposalField c f"
    using policy by (auto simp: evaluateApprovalPolicy_def numericFields_def filter_empty_conv)
  moreover have "\<exists>m n. ruleMaximum pol f = Some m \<and> integerValue (field patch f) = Some n \<and> n \<le> m"
    if "f \<in> fst ` set patch" "isNumericRuntimeProposalField c f" for f
  proof -
    from policy that have "fieldQualifies pol patch f"
      by (auto simp: evaluateApprovalPolicy_def numericFields_def list_all_iff)
    then show ?thesis by (auto simp: fieldQualifies_def split: option.splits)
  qed
  moreover have "ap_approver (policyApproval now (p_id p) (policyOptions rt c pol name p patch x) u) = ''policy:'' @ name"
    by (simp add: policyApproval_def newApproval_def policyOptions_def policyActor_def)
  ultimately show ?thesis using name(3) x q by blast
qed

definition samplePolicyCapability :: capability where
  "samplePolicyCapability = sampleCapability\<lparr>cap_approval := Some \<lparr>as_mode = Some ''policy'', as_required_role = None,
     as_required_approvals = None, as_policy = Some ''auto''\<rparr>\<rparr>"

definition samplePolicyConfig :: runtime_config where
  "samplePolicyConfig = sampleConfig\<lparr>rc_policies := [\<lparr>ap_policy_name = ''auto'', ap_policy_kind = ''approval'',
     ap_policy_rules = [[(''field'', JStr ''f''), (''max'', JNum (IntN 10))]],
     ap_policy_limits = Some [\<lparr>pl_kind = LimitCount, pl_max = 2, pl_field = None, pl_scope = None\<rparr>]\<rparr>]\<rparr>"

definition sampleAuto :: "int \<Rightarrow> auto_approval result \<times> int \<times> store" where
  "sampleAuto amount = maybeAutoApproveProposal sampleRuntime (\<lambda>_. []) versionReader samplePolicyConfig 2000
     samplePolicyCapability (sampleProposal PendingReview False ''t'') [(''f'', JNum (IntN amount))] (3, createdStore)"

lemma sample_auto: "(case fst (sampleAuto 0) of Inr r \<Rightarrow> aa_approved r | Inl _ \<Rightarrow> False)"
  by code_simp

lemma sample_auto_refused: "(case fst (sampleAuto 11) of Inr r \<Rightarrow> \<not> aa_approved r | Inl _ \<Rightarrow> False)"
  by code_simp

theorem auto_approval_stays_within_policy_witness:
  "map_option p_state (getProposal ''p'' (snd (snd (sampleAuto 0)))) = Some Approved"
proof -
  obtain r v t where run: "sampleAuto 0 = (Inr r, (v, t))" "aa_approved r"
    using sample_auto by (cases "sampleAuto 0") (auto split: sum.splits)
  have "p_state (sampleProposal PendingReview False ''t'') \<noteq> Approved" "p_id (sampleProposal PendingReview False ''t'') = ''p''"
    by code_simp+
  with auto_approval_stays_within_policy [OF run(1) [unfolded sampleAuto_def] run(2)] run(1) show ?thesis by auto
qed

end
