(* ===== verification/Spec2Isabelle.thy ===== *)
theory Spec2Isabelle
  imports ProtocolProperties WritebackProperties QueueProperties ControlProperties CloudProperties
    LedgerExecution AdapterProperties AuthoringProperties FreshnessProperties
begin

text \<open>
  A verification development for Synapsor Runner: the protocol and the proposal store by which an
  agent's change to a database is proposed, reviewed, handed to a worker, applied once and recorded.

  The program.  An agent submits a change set (\<open>packages/protocol\<close>).  The store
  (\<open>packages/proposal-store\<close>) parses it, refuses secret material and keeps it as a proposal with an
  integrity hash.  Reviewers approve or reject it under a quorum, or a reviewed policy approves it
  within daily limits; a freshness proof may be required.  An approved proposal becomes a writeback
  job or an item of the worker queue.  A runner claims an intent before it touches the source
  database, marks it applying, and completes it with a result or leaves it for reconciliation; the
  receipt of the execution moves the proposal to its final state.  Every operation appends an event,
  from which attention is raised.

  The theories, in dependency order, and the code each models:
  \<^item> \<open>Prelude\<close>: the error monad of every fallible operation, JavaScript strings, stable sorting, SQL-like
    tables, and the locale \<open>state_machine\<close>.
  \<^item> \<open>Json\<close>: \<open>canonicalJsonValue\<close>, \<open>canonicalJsonStringify\<close>, \<open>canonicalJsonDigest\<close>
    (\<open>protocol/src/index.ts\<close>), independent of insertion order and idempotent.
  \<^item> \<open>Privacy\<close>: the query budgets and cohort suppression (\<open>protocol/src/privacy-boundary.ts\<close>) and the
    normal form of release claims (\<open>proposal-store/src/privacy-release.ts\<close>).
  \<^item> \<open>Protocol\<close>, \<open>ChangeSets\<close>, \<open>Receipts\<close>, \<open>Jobs\<close>: the Zod schemas of \<open>protocol/src/index.ts\<close> with their
    \<open>superRefine\<close> checks and transforms, as \<open>\<dots>Shape\<close> and \<open>\<dots>Issues\<close> definitions and \<open>parse\<dots>\<close>
    functions into the error monad.
  \<^item> \<open>Secrets\<close>: \<open>assertNoSecretMaterial\<close> (\<open>proposal-store/src/proposal-integrity.ts\<close>).
  \<^item> \<open>StoreTypes\<close>, \<open>Attention\<close>, \<open>StoreCore\<close>: the tables of the store as one record of row lists, the
    integrity checks, the raising and coalescing of attention (\<open>attention-domain.ts\<close>,
    \<open>sqlite-attention-methods.ts\<close>), and the event log every operation writes (\<open>sqlite-core-methods.ts\<close>),
    with the locale \<open>event_log\<close> as its contract.
  \<^item> \<open>Proposals\<close>, \<open>Writeback\<close>, \<open>Worker\<close>: the operations of \<open>sqlite-proposal-methods.ts\<close>,
    \<open>sqlite-writeback-methods.ts\<close> and \<open>sqlite-worker-methods.ts\<close>, one definition per method.
  \<^item> \<open>Invariants\<close>, \<open>Lifecycle\<close>, \<open>WritebackLifecycle\<close>, \<open>WorkerLifecycle\<close>: the invariant \<open>store_ok\<close>, the
    evolution relation \<open>store_evolves\<close>, and that every operation keeps the one and respects the other.
  \<^item> \<open>Histories\<close>: the store as a state machine \<open>store_step\<close> whose rules are the operations, and the
    stores reachable from the empty one.
  \<^item> \<open>WorkerControl\<close>: the operator's control of supervised execution (\<open>worker-control-domain.ts\<close>, the
    control methods of \<open>sqlite-cloud-control-methods.ts\<close>) and the gate of the runner that reads it
    (\<open>apps/runner/src/worker-policy.ts\<close>, \<open>guarded-apply.ts\<close>).
  \<^item> \<open>CloudOutbox\<close>, \<open>CloudSync\<close>: the durable outbox to the cloud control plane and the governance events
    that come back (\<open>sqlite-cloud-control-methods.ts\<close>), the synchronizer that drains it and what of a
    change set it may send (\<open>packages/mcp-server/src/cloud-linked.ts\<close>).
  \<^item> \<open>JobIntegrity\<close>: what the worker core (\<open>packages/worker-core/src/index.ts\<close>) checks of a frozen set or a
    compensation before an adapter runs, the inverse of a compensation, and the classification of a
    source whose outcome is unknown.
  \<^item> \<open>SourceClient\<close>, \<open>MemorySource\<close>: the source database as the adapters see it, one statement at a time, with
    the locale \<open>sql_source\<close> of the laws PostgreSQL documents; and tables in memory with a schedule of
    client faults, which interpret it.
  \<^item> \<open>PostgresValues\<close>, \<open>PostgresRls\<close>, \<open>PostgresResults\<close>, \<open>PostgresMutation\<close>, \<open>PostgresApply\<close>: the PostgreSQL adapter
    (\<open>packages/postgres/src/index.ts\<close>): the comparison of versions and the guarded statements; the
    inspection of row-level security; outcomes, results and error codes; the mutations of rows, sets and
    compensations; the source transaction, its receipts, the runner ledger and the reconciliation read.
  \<^item> \<open>PostgresLemmas\<close>: over any source that obeys the laws, which steps only read, what each mutation does to
    the tables, and what is committed after a transaction has returned or thrown.
  \<^item> \<open>LedgerExecution\<close>: runners that apply one job under the runner ledger at the same time, as a step relation
    over the store and a source, with crashes between any two steps.
  \<^item> \<open>Capabilities\<close>, \<open>TrustedContexts\<close>: the reviewed configuration of the MCP server
    (\<open>packages/mcp-server/src\<close>: \<open>runtime-types.ts\<close>, \<open>capability-authority.ts\<close>, \<open>safe-values.ts\<close>), where the
    tenant and the principal of a call come from and which arguments a model may pass
    (\<open>trusted-context.ts\<close>).
  \<^item> \<open>ReadPlan\<close>, \<open>ReadPlanLemmas\<close>: the statements the server reads with (\<open>read-planning.ts\<close>), as terms with
    numbered placeholders, their text in both dialects, and what the compiler of protected reads binds.
  \<^item> \<open>ProposalBuilder\<close>, \<open>ChangeSetBuilder\<close>, \<open>BuilderLemmas\<close>: how a call becomes a change set
    (\<open>proposal-builder.ts\<close>): patch, guards, deduplication, one row or a frozen set, hash.
  \<^item> \<open>FreshnessCheck\<close>, \<open>ApprovalPolicy\<close>: what a proposal rests on and the proof that it is unchanged
    (\<open>proposal-freshness.ts\<close>); the rules of an approval policy and the automatic approval
    (\<open>approval-policy.ts\<close>).
  \<^item> \<open>Evaluation\<close>, \<open>Samples\<close>, \<open>PostgresSamples\<close>, \<open>AuthoringSamples\<close>: code equations that let the kernel evaluate the model, and one complete
    sample history, on which the properties are shown to apply.
  \<^item> \<open>ProtocolProperties\<close>, \<open>ProposalProperties\<close>, \<open>WritebackProperties\<close>, \<open>QueueProperties\<close>,
    \<open>ControlProperties\<close>, \<open>CloudProperties\<close>, \<open>PostgresProperties\<close>, \<open>AdapterProperties\<close>,
    \<open>AuthoringProperties\<close>, \<open>FreshnessProperties\<close>: what the protocol functions and single calls of the operations guarantee,
    what holds over the histories of the control and of the cloud link, what the adapter does to the
    source, and what the server authors.
    This theory: what holds in every reachable store and over every history.

  Two modes of governance.  The lifecycle theories describe local governance, where this store decides.
  Under cloud-linked governance \<open>assertLocalGovernanceMutationAllowed\<close> forbids local decisions and
  \<open>recordCloudGovernanceEvent\<close> projects the cloud's decision on a proposal; the store steps of the cloud
  theories assume nothing of the proposals but that none is deleted.

  Conventions.  An operation maps the store to an error or a new store: an error leaves the store as
  it was, which is the transaction of the sources.  The three intent updates that run outside a
  transaction return the error and the store together.  Times are milliseconds since the epoch and the
  clock does not advance inside one operation.  An exception carries its code; message texts are not
  modelled.  Numbers that the sources require to be integers are unbounded integers with the bounds of
  the code written out.  Strings are lists of characters with codes up to 255.  Every recursion is
  structural and every operation is total; the one bound is \<open>viewDepth\<close>, the views a view may be built on
  (64), beyond which the inspection throws instead of answering.

  Parameters.  SHA-256, \<open>localeCompare\<close>, \<open>Date.parse\<close> and \<open>toISOString\<close> are fields of \<open>runtime\<close>, an
  argument of every definition that uses them.  The one law used of them is that
  \<open>localeCompare\<close> orders (it is transitive, and total where a set is sorted), a named hypothesis of the
  properties that need it.

  The statements of the adapter are terms with the identifiers and the bound values of the SQL text, and
  numbers are exact: the rendering of SQL, the rounding of doubles and \<open>Date\<close> objects are left out.

  Not modelled: the interleaving of two processes inside one operation of the store (SQLite serializes
  its transactions); table definitions, row decoding, listings and metrics; the HTTP client of the
  cloud, which is the parameter \<open>cloud_api\<close>, and the PostgreSQL mirror of the store; the connection pool,
  which is the parameter \<open>connect\<close>, the doctor of the adapter, the MySQL adapter and the polling loop of
  the worker; the dispatch of tools, transports, authentication and result envelopes of the MCP server,
  the validation of configuration files, the DSL and the command line and web applications, which are
  input and output around these operations or live in other packages; notification delivery, shadow
  analysis and the explore ledger of the store.
\<close>

subsection \<open>Review\<close>

lemma reachable_proposal:
  assumes "reachable rt s" and "p \<in> set (s_proposals s)"
  shows "proposalOk rt p" "reviewOk (s_approvals s) (s_queue s) p"
  using reachable_ok [OF assms(1)] assms(2) by (auto simp: store_ok_def proposals_ok_def review_ok_def)

lemma unique_core: "store_ok rt s \<Longrightarrow> c \<in> cores s \<Longrightarrow> p \<in> set (s_proposals s) \<Longrightarrow> p_id c = p_id p \<Longrightarrow> c = core p"
  by (auto simp: cores_def dest: unique_proposal)

lemma mayWrite_writable:
  "store_ok rt s \<Longrightarrow> mayWrite (cores s) (p_id p) \<Longrightarrow> p \<in> set (s_proposals s) \<Longrightarrow> writable p"
  by (auto simp: mayWrite_def dest: unique_core)

text \<open>C1: In every reachable store, a proposal that is approved, handed to a worker, or present in the worker queue
  was either approved inside its own change set or has the approvals of as many distinct
  approvers as its change set requires, each of them bound to exactly this revision (id, version and
  hash) of a proposal that may write; and one still in review has too few.\<close>

theorem nothing_executes_without_quorum:
  assumes "reachable rt s" and "p \<in> set (s_proposals s)"
    and "p_state p \<in> {Approved, PendingWorker} \<or> (\<exists>w \<in> set (s_queue s). wq_proposal_id w = p_id p)"
    and "cs_approval_status (p_change_set p) \<noteq> ApprovalApproved"
    and "rows = filter (\<lambda>a. ap_proposal_id a = p_id p \<and> ap_status a = ApRowApproved) (s_approvals s)"
  shows "requiredApprovalCount p \<le> int (card (ap_approver ` set rows)) \<and> distinct (map ap_approver rows)
    \<and> (\<forall>a \<in> set rows. ap_proposal_hash a = p_hash p \<and> ap_proposal_version a = p_version p \<and> writable p)"
proof -
  have ok: "store_ok rt s" using reachable_ok assms(1) by blast
  have "reviewed (s_approvals s) p"
    using reachable_proposal(2) [OF assms(1,2)] assms(3) unfolding reviewOk_def by (metis image_eqI)
  with assms(4) have "requiredApprovalCount p \<le> int (card (ap_approver ` set rows))"
    by (simp add: reviewed_def approvalCount_def length_uniqueList assms(5))
  moreover have "distinct (map ap_approver rows)"
  proof -
    have "distinct (map (\<lambda>a. (ap_proposal_id a, ap_approver a)) (approvedRows (s_approvals s)))"
      using ok by (simp add: store_ok_def approvals_ok_def)
    then have "distinct (map (\<lambda>a. (ap_proposal_id a, ap_approver a))
        (filter (\<lambda>a. ap_proposal_id a = p_id p) (approvedRows (s_approvals s))))"
      by (rule distinct_map_filter)
    moreover have "filter (\<lambda>a. ap_proposal_id a = p_id p) (approvedRows (s_approvals s)) = rows"
      unfolding approvedRows_def assms(5) filter_filter by (rule filter_cong) auto
    ultimately show ?thesis by (auto simp: distinct_map inj_on_def assms(5))
  qed
  moreover have "ap_proposal_hash a = p_hash p \<and> ap_proposal_version a = p_version p \<and> writable p"
    if "a \<in> set rows" for a
  proof -
    from that ok obtain c where "c \<in> cores s" "p_id c = ap_proposal_id a" "p_hash c = ap_proposal_hash a"
      "p_version c = ap_proposal_version a" "writable c"
      by (auto simp: assms(5) store_ok_def approvals_ok_def approvalOk_def)
    moreover from this that have "c = core p" using unique_core [OF ok _ assms(2)] by (auto simp: assms(5))
    ultimately show ?thesis by simp
  qed
  ultimately show ?thesis by blast
qed

theorem nothing_executes_without_quorum_witness:
  "1 \<le> int (card (ap_approver ` set (filter (\<lambda>a. ap_proposal_id a = ''p'' \<and> ap_status a = ApRowApproved)
     (s_approvals leasedStore))))"
proof -
  let ?p = "sampleProposal Approved False ''t''"
  have "?p \<in> set (s_proposals leasedStore)" "p_state ?p = Approved" "p_id ?p = ''p''"
    "cs_approval_status (p_change_set ?p) \<noteq> ApprovalApproved" "requiredApprovalCount ?p = 1"
    by (simp_all add: leasedStore_def queuedStore_def approvedStore_def sampleProposal_def proposalOf_def
        sampleChange_def requiredApprovalCount_def)
  with nothing_executes_without_quorum [OF reachable_leased _ _ _ refl, of ?p] show ?thesis by simp
qed

text \<open>C5: In every reachable store, a shadow or read-only proposal has no approval, no job, no intent and no
  receipt, is in no writeback state, and claims no mutation its change set did not bring.\<close>

theorem shadow_and_read_only_never_write:
  assumes "reachable rt s" and "p \<in> set (s_proposals s)"
    and "cs_mode (p_change_set p) = ShadowMode \<or> cs_mode (p_change_set p) = ReadOnlyMode"
  shows "(\<forall>j \<in> set (s_jobs s). jr_proposal_id j \<noteq> p_id p)
    \<and> (\<forall>i \<in> set (s_intents s). in_proposal_id i \<noteq> p_id p)
    \<and> (\<forall>r \<in> set (s_receipts s). rr_proposal_id r \<noteq> p_id p)
    \<and> (\<forall>a \<in> set (s_approvals s). ap_proposal_id a = p_id p \<longrightarrow> ap_status a \<noteq> ApRowApproved)
    \<and> p_state p \<notin> {PendingWorker, Applied, Failed, ReconciliationRequired}
    \<and> p_source_database_mutated p = cs_source_database_mutated (p_change_set p)"
proof -
  have ok: "store_ok rt s" using reachable_ok assms(1) by blast
  have no: "\<not> writable p" using assms(3) by (auto simp: writable_def)
  with mayWrite_writable [OF ok] assms(2) have "\<not> mayWrite (cores s) (p_id p)" by blast
  then have "jr_proposal_id j \<noteq> p_id p" if "j \<in> set (s_jobs s)" for j
    using ok that by (auto simp: store_ok_def jobs_ok_def)
  moreover have "in_proposal_id i \<noteq> p_id p" if "i \<in> set (s_intents s)" for i
    using ok that \<open>\<not> mayWrite (cores s) (p_id p)\<close> by (auto simp: store_ok_def intents_ok_def intentOk_def)
  moreover have "rr_proposal_id r \<noteq> p_id p" if "r \<in> set (s_receipts s)" for r
    using ok that \<open>\<not> mayWrite (cores s) (p_id p)\<close> by (auto simp: store_ok_def receipts_ok_def)
  moreover have "ap_status a \<noteq> ApRowApproved" if "a \<in> set (s_approvals s)" "ap_proposal_id a = p_id p" for a
    using ok that no unique_core [OF ok _ assms(2)]
    by (fastforce simp: store_ok_def approvals_ok_def approvalOk_def)
  ultimately show ?thesis
    using reachable_proposal(1) [OF assms(1,2)] no by (auto simp: proposalOk_def)
qed

definition sampleShadow :: change_set where
  "sampleShadow = sampleChange\<lparr>cs_mode := ShadowMode\<rparr>"

lemma shadow_created: "(case createProposal sampleRuntime 1000 sampleShadow emptyStore of
    Inr (p, t) \<Rightarrow> s_proposals t = [p] \<and> p_change_set p = sampleShadow | Inl _ \<Rightarrow> False)"
  by code_simp

theorem shadow_and_read_only_never_write_witness:
  "\<exists>s p. reachable sampleRuntime s \<and> p \<in> set (s_proposals s) \<and> cs_mode (p_change_set p) = ShadowMode
     \<and> p_state p \<noteq> PendingWorker"
proof -
  from shadow_created obtain p t where run: "createProposal sampleRuntime 1000 sampleShadow emptyStore = Inr (p, t)"
    and p: "p \<in> set (s_proposals t)" "cs_mode (p_change_set p) = ShadowMode"
    by (auto simp: sampleShadow_def split: sum.splits)
  have "reachable sampleRuntime t" by (rule reachable_step [OF reachable_empty store_step.create [OF run]])
  with shadow_and_read_only_never_write [OF this p(1)] p show ?thesis by blast
qed

text \<open>In every reachable store, no reviewer counts twice for a proposal, and no freshness proof backs two
  approvals of one proposal.\<close>

theorem decisions_count_once:
  assumes "reachable rt s" and "a \<in> set (s_approvals s)" and "b \<in> set (s_approvals s)"
    and "ap_proposal_id a = ap_proposal_id b" and "ap_status a = ApRowApproved" and "ap_status b = ApRowApproved"
    and "ap_approver a = ap_approver b \<or> (\<exists>d. ap_freshness_proof_digest a = Some d \<and> ap_freshness_proof_digest b = Some d)"
  shows "a = b"
proof -
  have ok: "approvals_ok (cores s) (s_approvals s)" using reachable_ok [OF assms(1)] by (simp add: store_ok_def)
  from assms(7) show ?thesis
  proof (elim disjE exE conjE)
    assume "ap_approver a = ap_approver b"
    moreover have "a \<in> set (approvedRows (s_approvals s))" "b \<in> set (approvedRows (s_approvals s))"
      using assms by (simp_all add: approvedRows_def)
    ultimately show "a = b" using ok assms(4) by (auto simp: approvals_ok_def distinct_map dest: inj_onD)
  next
    fix d assume d: "ap_freshness_proof_digest a = Some d" "ap_freshness_proof_digest b = Some d"
    have uses: "x = y" if "distinct (proofUses aps)" "x \<in> set aps" "y \<in> set aps" "ap_proposal_id x = ap_proposal_id y"
      "ap_freshness_proof_digest x = Some d" "ap_freshness_proof_digest y = Some d" for x y aps
      using that by (induction aps) (force simp: proofUses_def split: option.splits)+
    show "a = b" by (rule uses) (use ok assms d in \<open>auto simp: approvals_ok_def\<close>)
  qed
qed

theorem decisions_count_once_witness:
  "hd (s_approvals approvedStore) = last (s_approvals approvedStore)"
proof (rule decisions_count_once [OF reachable_approved])
  show "ap_approver (hd (s_approvals approvedStore)) = ap_approver (last (s_approvals approvedStore))
    \<or> (\<exists>d. ap_freshness_proof_digest (hd (s_approvals approvedStore)) = Some d
         \<and> ap_freshness_proof_digest (last (s_approvals approvedStore)) = Some d)"
    by (simp add: approvedStore_def)
qed (simp_all add: approvedStore_def newApproval_def)

subsection \<open>History\<close>






text \<open>C26: A receipt that proves an effect on the source blocks the dead-letter requeue of its proposal in every
  later store: no operator can have the change executed again.\<close>

theorem proven_effect_blocks_requeue:
  assumes "reachable rt s" and "(store_step rt)\<^sup>*\<^sup>* s t" and "r \<in> set (s_receipts s)"
    and "rr_source_database_mutated r \<or> rr_status r = TApplied \<or> rr_status r = TAlreadyApplied"
  shows "\<exists>e. requeueDeadLetter rt clock (rr_proposal_id r) budget i reason now t = Inl e"
proof -
  have "r \<in> set (s_receipts t)"
    using reachable_evolves [OF assms(1,2)] assms(3) by (auto simp: store_evolves_def extends_def)
  with assms(4) have "provenEffect (rr_proposal_id r) t" by (auto simp: provenEffect_def list_ex_iff)
  then have "requeueDeadLetter rt clock (rr_proposal_id r) budget i reason now t \<noteq> Inr y" for y
    by (auto simp: requeueDeadLetter_def bindE_eq_Inr)
  then show ?thesis by (meson sum.exhaust)
qed

theorem proven_effect_blocks_requeue_witness:
  "\<exists>e. requeueDeadLetter sampleRuntime 9000 ''p'' 3 sampleRequeueIdentity None 9000 appliedStore = Inl e"
proof -
  let ?r = "receiptRow sampleReceipt emptyStore"
  have "?r \<in> set (s_receipts receiptStore)" "rr_status ?r = TApplied" "rr_proposal_id ?r = ''p''"
    by (simp_all add: receiptStore_def receiptRow_def sampleReceipt_def)
  moreover have "(store_step sampleRuntime)\<^sup>*\<^sup>* receiptStore appliedStore"
    by (rule r_into_rtranclp, rule store_step.complete_intent [OF intent_completed])
  ultimately show ?thesis using proven_effect_blocks_requeue [OF reachable_receipt] by metis
qed

subsection \<open>The stored data\<close>

text \<open>C34: Every proposal of a reachable store is exactly what its change set says (identity, hash, source, tenant),
  its change set parses, and nothing in it looks like a secret.\<close>

theorem stored_proposals_are_sound:
  assumes "reachable rt s" and "p \<in> set (s_proposals s)"
  shows "core p = core (proposalOf (p_change_set p)) \<and> parseChangeSet rt (p_change_set p) = Inr (p_change_set p)
    \<and> secretFree (changeSetJson (p_change_set p))
    \<and> (\<forall>q \<in> set (s_proposals s). p_id q = p_id p \<longrightarrow> q = p)"
  using reachable_proposal(1) [OF assms] unique_proposal [OF reachable_ok [OF assms(1)] _ assms(2)]
  by (auto simp: proposalOk_def)

theorem stored_proposals_are_sound_witness:
  "secretFree (changeSetJson (p_change_set (sampleProposal PendingReview False ''t'')))"
  by (rule stored_proposals_are_sound [OF reachable_created, THEN conjunct2, THEN conjunct2, THEN conjunct1])
    (simp add: createdStore_def)

lemma known_lookup: "known (cores s) pid \<Longrightarrow> getProposal pid s \<noteq> None"
  by (auto simp: known_def cores_def getProposal_def findRow_None_iff)

text \<open>In every reachable store the tables fit together: events are numbered densely from one and belong to stored
  proposals, job ids are unique, an intent's id, idempotency key and job each identify it, a receipt is
  unique for its job and key, and every job, intent and receipt belongs to a stored proposal that may write.\<close>

theorem tables_fit_together:
  assumes "reachable rt s"
  shows "map ev_id (s_events s) = [1..<Suc (length (s_events s))]
    \<and> (\<forall>e \<in> set (s_events s). getProposal (ev_proposal_id e) s \<noteq> None)
    \<and> distinct (map jr_id (s_jobs s)) \<and> distinct (map in_id (s_intents s))
    \<and> distinct (map in_idempotency_key (s_intents s)) \<and> distinct (map in_writeback_job_id (s_intents s))
    \<and> distinct (map (\<lambda>r. (rr_writeback_job_id r, rr_idempotency_key r)) (s_receipts s))
    \<and> (\<forall>pid \<in> jr_proposal_id ` set (s_jobs s) \<union> in_proposal_id ` set (s_intents s)
          \<union> rr_proposal_id ` set (s_receipts s). \<exists>p \<in> set (s_proposals s). p_id p = pid \<and> writable p)"
proof -
  have ok: "store_ok rt s" using assms by (rule reachable_ok)
  have may: "\<exists>p \<in> set (s_proposals s). p_id p = pid \<and> writable p" if "mayWrite (cores s) pid" for pid
    using that by (auto simp: mayWrite_def cores_def)
  show ?thesis
    using ok known_lookup may
    by (auto simp: store_ok_def events_ok_def jobs_ok_def intents_ok_def intentOk_def receipts_ok_def)
qed

theorem tables_fit_together_witness: "map ev_id (s_events appliedStore) = [1..<Suc (length (s_events appliedStore))]"
  using tables_fit_together [OF reachable_applied] by blast



end
